(* ===== verification/Prelude.thy ===== *)
theory Prelude
  imports Complex_Main "HOL-Library.AList" "HOL-Library.Multiset" "HOL-Library.List_Lexorder"
    "HOL-Library.Char_ord"
begin

text \<open>
  What every component of the development shares.
  \<^item> Actions: an asynchronous method of the program that reads and writes state and may throw
    is a function from a state to an outcome (\<open>Inl\<close> the thrown value, \<open>Inr\<close> the result) and
    the next state. \<open>andThen\<close> is \<open>await\<close> followed by the rest of the body, \<open>catching\<close> is
    \<open>try\<close>/\<open>catch\<close>, \<open>forEach\<close> is a \<open>for .. of\<close> loop whose body awaits.
  \<^item> \<open>along R m\<close>: every run of the action \<open>m\<close>, thrown or not, moves the state along \<open>R\<close>.
    The rules are proved once for every preorder \<open>R\<close> (locale \<open>state_relation\<close>); frames
    (\<open>keeps\<close>) and invariants (\<open>preserves\<close>) are its two interpretations.
  \<^item> \<open>js_sort\<close>: \<open>Array.prototype.sort\<close>, the stable sort by a comparator (locale \<open>js_order\<close>).
  \<^item> \<open>keyed_store\<close>: the contract of a JavaScript \<open>Map\<close> or of an SQL table with a primary key,
    interpreted here for the insertion-ordered \<open>Map\<close> and later for the program's tables.
\<close>

named_theorems act_defs "the definitions of the action combinators"
named_theorems along_intros "rules that push along through the action combinators"

section \<open>Actions\<close>

type_synonym ('s, 'e, 'a) act = "'s \<Rightarrow> ('e + 'a) \<times> 's"

definition ret :: "'a \<Rightarrow> ('s, 'e, 'a) act" where
  "ret x = (\<lambda>s. (Inr x, s))"

definition raise :: "'e \<Rightarrow> ('s, 'e, 'a) act" where
  "raise e = (\<lambda>s. (Inl e, s))"

definition andThen :: "('s, 'e, 'a) act \<Rightarrow> ('a \<Rightarrow> ('s, 'e, 'b) act) \<Rightarrow> ('s, 'e, 'b) act" where
  "andThen m f = (\<lambda>s. case m s of (Inl e, s') \<Rightarrow> (Inl e, s') | (Inr x, s') \<Rightarrow> f x s')"

definition catching :: "('s, 'e, 'a) act \<Rightarrow> ('e \<Rightarrow> ('s, 'f, 'a) act) \<Rightarrow> ('s, 'f, 'a) act" where
  "catching m h = (\<lambda>s. case m s of (Inl e, s') \<Rightarrow> h e s' | (Inr x, s') \<Rightarrow> (Inr x, s'))"

definition gets :: "('s \<Rightarrow> 'a) \<Rightarrow> ('s, 'e, 'a) act" where
  "gets f = (\<lambda>s. (Inr (f s), s))"

definition modify :: "('s \<Rightarrow> 's) \<Rightarrow> ('s, 'e, unit) act" where
  "modify f = (\<lambda>s. (Inr (), f s))"

definition whenever :: "bool \<Rightarrow> ('s, 'e, unit) act \<Rightarrow> ('s, 'e, unit) act" where
  "whenever b m = (if b then m else ret ())"

definition liftR :: "'e + 'a \<Rightarrow> ('s, 'e, 'a) act" where
  "liftR r = (\<lambda>s. (r, s))"

primrec forEach :: "'x list \<Rightarrow> ('x \<Rightarrow> ('s, 'e, unit) act) \<Rightarrow> ('s, 'e, unit) act" where
  "forEach [] f = ret ()"
| "forEach (x # xs) f = andThen (f x) (\<lambda>_. forEach xs f)"

definition outcome :: "('s, 'e, 'a) act \<Rightarrow> 's \<Rightarrow> 'e + 'a" where
  "outcome m s = fst (m s)"

definition after :: "('s, 'e, 'a) act \<Rightarrow> 's \<Rightarrow> 's" where
  "after m s = snd (m s)"

definition succeeds :: "('e + 'a) \<Rightarrow> bool" where
  "succeeds r = (case r of Inl _ \<Rightarrow> False | Inr _ \<Rightarrow> True)"

lemma ret_apply [simp]: "ret x s = (Inr x, s)"
  by (simp add: ret_def)

lemma raise_apply [simp]: "raise e s = (Inl e, s)"
  by (simp add: raise_def)

lemma gets_apply [simp]: "gets f s = (Inr (f s), s)"
  by (simp add: gets_def)

lemma modify_apply [simp]: "modify f s = (Inr (), f s)"
  by (simp add: modify_def)

lemma liftR_apply [simp]: "liftR r s = (r, s)"
  by (simp add: liftR_def)

lemma whenever_simps [simp]: "whenever True m = m" "whenever False m = ret ()"
  by (simp_all add: whenever_def)

lemma andThen_Inr [simp]: "m s = (Inr x, s') \<Longrightarrow> andThen m f s = f x s'"
  by (simp add: andThen_def)

lemma andThen_Inl [simp]: "m s = (Inl e, s') \<Longrightarrow> andThen m f s = (Inl e, s')"
  by (simp add: andThen_def)

lemma catching_Inr [simp]: "m s = (Inr x, s') \<Longrightarrow> catching m h s = (Inr x, s')"
  by (simp add: catching_def)

lemma catching_Inl [simp]: "m s = (Inl e, s') \<Longrightarrow> catching m h s = h e s'"
  by (simp add: catching_def)

lemma andThen_ret [simp]: "andThen (ret x) f = f x"
  by (simp add: fun_eq_iff)

lemma andThen_raise [simp]: "andThen (raise e) f = raise e"
  by (simp add: fun_eq_iff)

lemma andThen_gets [simp]: "andThen (gets g) f s = f (g s) s"
  by simp

lemma andThen_modify [simp]: "andThen (modify g) f s = f () (g s)"
  by simp

lemma andThen_liftR [simp]:
  "andThen (liftR (Inr x)) f = f x" "andThen (liftR (Inl e)) f = raise e"
  by (simp_all add: fun_eq_iff)

lemma andThen_eq_InrE:
  assumes "andThen m f s = (Inr y, s'')"
  obtains x s' where "m s = (Inr x, s')" "f x s' = (Inr y, s'')"
  using assms by (auto simp: andThen_def split: prod.splits sum.splits)

lemma succeeds_simps [simp]: "succeeds (Inr x)" "\<not> succeeds (Inl e)"
  by (simp_all add: succeeds_def)

lemma succeeds_iff: "succeeds r \<longleftrightarrow> (\<exists>x. r = Inr x)"
  by (cases r) auto

lemmas act_apply = andThen_def catching_def

section \<open>Runs that stay within a relation\<close>

definition along :: "('s \<Rightarrow> 's \<Rightarrow> bool) \<Rightarrow> ('s, 'e, 'a) act \<Rightarrow> bool" where
  "along R m \<longleftrightarrow> (\<forall>s. R s (snd (m s)))"

definition keeps :: "('s \<Rightarrow> 'x) \<Rightarrow> ('s, 'e, 'a) act \<Rightarrow> bool" where
  "keeps f m = along (\<lambda>s s'. f s' = f s) m"

definition preserves :: "('s \<Rightarrow> bool) \<Rightarrow> ('s, 'e, 'a) act \<Rightarrow> bool" where
  "preserves I m = along (\<lambda>s s'. I s \<longrightarrow> I s') m"

locale state_relation =
  fixes R :: "'s \<Rightarrow> 's \<Rightarrow> bool"
  assumes R_refl: "R s s"
    and R_trans: "R s t \<Longrightarrow> R t u \<Longrightarrow> R s u"
begin

lemma w_ret: "along R (ret x)"
  by (simp add: along_def R_refl)

lemma w_raise: "along R (raise e)"
  by (simp add: along_def R_refl)

lemma w_gets: "along R (gets f)"
  by (simp add: along_def R_refl)

lemma w_liftR: "along R (liftR r)"
  by (simp add: along_def R_refl)

lemma w_modify: "(\<And>s. R s (f s)) \<Longrightarrow> along R (modify f)"
  by (simp add: along_def)

lemma w_andThen:
  assumes "along R m" and "\<And>x. along R (f x)"
  shows "along R (andThen m f)"
  unfolding along_def
proof
  fix s
  obtain r s' where ms: "m s = (r, s')" by fastforce
  have "R s s'" using assms(1) ms by (simp add: along_def) (metis snd_conv)
  then show "R s (snd (andThen m f s))"
    using ms assms(2) R_trans by (cases r) (auto simp: andThen_def along_def)
qed

lemma w_catching:
  assumes "along R m" and "\<And>e. along R (h e)"
  shows "along R (catching m h)"
  unfolding along_def
proof
  fix s
  obtain r s' where ms: "m s = (r, s')" by fastforce
  have "R s s'" using assms(1) ms by (simp add: along_def) (metis snd_conv)
  then show "R s (snd (catching m h s))"
    using ms assms(2) R_trans by (cases r) (auto simp: catching_def along_def)
qed

lemma w_whenever: "(b \<Longrightarrow> along R m) \<Longrightarrow> along R (whenever b m)"
  by (simp add: whenever_def w_ret)

lemma w_if: "(b \<Longrightarrow> along R m) \<Longrightarrow> (\<not> b \<Longrightarrow> along R n) \<Longrightarrow> along R (if b then m else n)"
  by simp

lemma w_option: "along R m \<Longrightarrow> (\<And>x. v = Some x \<Longrightarrow> along R (f x)) \<Longrightarrow>
    along R (case v of None \<Rightarrow> m | Some x \<Rightarrow> f x)"
  by (cases v) simp_all

lemma w_sum: "(\<And>x. v = Inl x \<Longrightarrow> along R (f x)) \<Longrightarrow> (\<And>x. v = Inr x \<Longrightarrow> along R (g x)) \<Longrightarrow>
    along R (case v of Inl x \<Rightarrow> f x | Inr x \<Rightarrow> g x)"
  by (cases v) simp_all

lemma w_forEach: "(\<And>x. x \<in> set xs \<Longrightarrow> along R (f x)) \<Longrightarrow> along R (forEach xs f)"
  by (induction xs) (auto intro: w_ret w_andThen)

end

interpretation keeping: state_relation "\<lambda>s s'. f s' = f s" for f :: "'s \<Rightarrow> 'x"
  by unfold_locales auto

interpretation preserving: state_relation "\<lambda>s s'. I s \<longrightarrow> I s'" for I :: "'s \<Rightarrow> bool"
  by unfold_locales auto

lemmas keeps_intros [along_intros] =
  keeping.w_ret [folded keeps_def] keeping.w_raise [folded keeps_def]
  keeping.w_gets [folded keeps_def] keeping.w_liftR [folded keeps_def]
  keeping.w_modify [folded keeps_def] keeping.w_andThen [folded keeps_def]
  keeping.w_catching [folded keeps_def] keeping.w_whenever [folded keeps_def]
  keeping.w_forEach [folded keeps_def] keeping.w_if [folded keeps_def]
  keeping.w_option [folded keeps_def] keeping.w_sum [folded keeps_def]

lemmas preserves_intros [along_intros] =
  preserving.w_ret [folded preserves_def] preserving.w_raise [folded preserves_def]
  preserving.w_gets [folded preserves_def] preserving.w_liftR [folded preserves_def]
  preserving.w_modify [folded preserves_def] preserving.w_andThen [folded preserves_def]
  preserving.w_catching [folded preserves_def] preserving.w_whenever [folded preserves_def]
  preserving.w_forEach [folded preserves_def] preserving.w_if [folded preserves_def]
  preserving.w_option [folded preserves_def] preserving.w_sum [folded preserves_def]

lemma keepsD: "keeps f m \<Longrightarrow> m s = (r, s') \<Longrightarrow> f s' = f s"
  unfolding keeps_def along_def by (metis snd_conv)

lemma keeps_after: "keeps f m \<Longrightarrow> f (after m s) = f s"
  by (simp add: keeps_def along_def after_def)

lemma preservesD: "preserves I m \<Longrightarrow> I s \<Longrightarrow> m s = (r, s') \<Longrightarrow> I s'"
  unfolding preserves_def along_def by (metis snd_conv)

lemma preserves_after: "preserves I m \<Longrightarrow> I s \<Longrightarrow> I (after m s)"
  by (simp add: preserves_def along_def after_def)

lemma preservesI: "(\<And>s r s'. I s \<Longrightarrow> m s = (r, s') \<Longrightarrow> I s') \<Longrightarrow> preserves I m"
  unfolding preserves_def along_def by (metis prod.collapse)

lemma keepsI: "(\<And>s r s'. m s = (r, s') \<Longrightarrow> f s' = f s) \<Longrightarrow> keeps f m"
  unfolding keeps_def along_def by (metis prod.collapse)

lemma preserves_if_keeps:
  assumes "keeps f m" and "\<And>s s'. f s' = f s \<Longrightarrow> I s \<Longrightarrow> I s'"
  shows "preserves I m"
  using assms by (auto simp: preserves_def keeps_def along_def)

section \<open>What an action can throw\<close>

definition throws :: "('e \<Rightarrow> bool) \<Rightarrow> ('s, 'e, 'a) act \<Rightarrow> bool" where
  "throws Q m \<longleftrightarrow> (\<forall>s e s'. m s = (Inl e, s') \<longrightarrow> Q e)"

lemma throwsI: "(\<And>s e s'. m s = (Inl e, s') \<Longrightarrow> Q e) \<Longrightarrow> throws Q m"
  by (simp add: throws_def)

lemma throwsD: "throws Q m \<Longrightarrow> m s = (Inl e, s') \<Longrightarrow> Q e"
  by (auto simp: throws_def)

lemma throws_outcome: "throws Q m \<Longrightarrow> case outcome m s of Inl e \<Rightarrow> Q e | Inr x \<Rightarrow> True"
  by (auto simp: throws_def outcome_def split: sum.split) (metis prod.collapse)

lemma throws_andThen: "throws Q m \<Longrightarrow> (\<And>x. throws Q (f x)) \<Longrightarrow> throws Q (andThen m f)"
  by (fastforce simp: throws_def andThen_def split: prod.splits sum.splits)

lemma throws_catching: "throws R m \<Longrightarrow> (\<And>e. R e \<Longrightarrow> throws Q (h e)) \<Longrightarrow> throws Q (catching m h)"
  by (fastforce simp: throws_def catching_def split: prod.splits sum.splits)

lemma throws_any: "throws (\<lambda>e. True) m"
  by (simp add: throws_def)

lemma throws_basic: "throws Q (ret x)" "Q e \<Longrightarrow> throws Q (raise e)" "throws Q (gets f)" "throws Q (modify g)"
  "(\<And>e. r = Inl e \<Longrightarrow> Q e) \<Longrightarrow> throws Q (liftR r)"
  by (simp_all add: throws_def)

lemma throws_if: "(b \<Longrightarrow> throws Q m) \<Longrightarrow> (\<not> b \<Longrightarrow> throws Q n) \<Longrightarrow> throws Q (if b then m else n)"
  by simp

lemma throws_whenever: "(b \<Longrightarrow> throws Q m) \<Longrightarrow> throws Q (whenever b m)"
  by (simp add: whenever_def throws_basic)

lemma throws_option: "(v = None \<Longrightarrow> throws Q m) \<Longrightarrow> (\<And>x. v = Some x \<Longrightarrow> throws Q (f x)) \<Longrightarrow>
    throws Q (case v of None \<Rightarrow> m | Some x \<Rightarrow> f x)"
  by (cases v) simp_all

lemma throws_forEach: "(\<And>x. x \<in> set xs \<Longrightarrow> throws Q (f x)) \<Longrightarrow> throws Q (forEach xs f)"
  by (induction xs) (auto intro: throws_basic throws_andThen)

lemmas throws_intros = throws_basic throws_andThen throws_catching throws_if throws_whenever throws_option
  throws_forEach

section \<open>Pre- and postconditions\<close>

text \<open>
  \<open>triple A m B E\<close>: from a state with \<open>A\<close>, a run of \<open>m\<close> that returns \<open>x\<close> ends with \<open>B x\<close>, one that
  throws ends with \<open>E\<close>.
\<close>

definition triple :: "('s \<Rightarrow> bool) \<Rightarrow> ('s, 'e, 'a) act \<Rightarrow> ('a \<Rightarrow> 's \<Rightarrow> bool) \<Rightarrow> ('s \<Rightarrow> bool) \<Rightarrow> bool" where
  "triple A m B E \<longleftrightarrow> (\<forall>s. A s \<longrightarrow> (case m s of (Inr x, s') \<Rightarrow> B x s' | (Inl e, s') \<Rightarrow> E s'))"

lemma tripleI:
  "(\<And>s e s'. A s \<Longrightarrow> m s = (Inl e, s') \<Longrightarrow> E s') \<Longrightarrow> (\<And>s x s'. A s \<Longrightarrow> m s = (Inr x, s') \<Longrightarrow> B x s') \<Longrightarrow>
    triple A m B E"
  by (auto simp: triple_def split: prod.split sum.split)

lemma triple_Inr: "triple A m B E \<Longrightarrow> A s \<Longrightarrow> m s = (Inr x, s') \<Longrightarrow> B x s'"
  by (auto simp: triple_def)

lemma triple_Inl: "triple A m B E \<Longrightarrow> A s \<Longrightarrow> m s = (Inl e, s') \<Longrightarrow> E s'"
  by (auto simp: triple_def)

lemma t_ret: "(\<And>s. A s \<Longrightarrow> B x s) \<Longrightarrow> triple A (ret x) B E"
  by (simp add: triple_def)

lemma t_raise: "(\<And>s. A s \<Longrightarrow> E s) \<Longrightarrow> triple A (raise e) B E"
  by (simp add: triple_def)

lemma t_liftR: "(\<And>x s. r = Inr x \<Longrightarrow> A s \<Longrightarrow> B x s) \<Longrightarrow> (\<And>s. A s \<Longrightarrow> E s) \<Longrightarrow> triple A (liftR r) B E"
  by (cases r) (simp_all add: triple_def)

lemma t_andThen: "triple A m C E \<Longrightarrow> (\<And>x. triple (C x) (f x) B E) \<Longrightarrow> triple A (andThen m f) B E"
  by (fastforce simp: triple_def andThen_def split: prod.splits sum.splits)

lemma t_catching: "triple A m B D \<Longrightarrow> (\<And>e. triple D (h e) B E) \<Longrightarrow> triple A (catching m h) B E"
  by (fastforce simp: triple_def catching_def split: prod.splits sum.splits)

lemma t_if: "(b \<Longrightarrow> triple A m B E) \<Longrightarrow> (\<not> b \<Longrightarrow> triple A n B E) \<Longrightarrow> triple A (if b then m else n) B E"
  by simp

lemma t_whenever: "(b \<Longrightarrow> triple A m B E) \<Longrightarrow> (\<And>s. \<not> b \<Longrightarrow> A s \<Longrightarrow> B () s) \<Longrightarrow> triple A (whenever b m) B E"
  by (simp add: whenever_def t_ret)

lemma t_pre: "triple C m B E \<Longrightarrow> (\<And>s. A s \<Longrightarrow> C s) \<Longrightarrow> triple A m B E"
  by (auto simp: triple_def)

lemma t_post: "triple A m C E \<Longrightarrow> (\<And>x s. C x s \<Longrightarrow> B x s) \<Longrightarrow> triple A m B E"
  by (rule tripleI) (auto dest: triple_Inl triple_Inr)

lemma t_preserves: "preserves I m \<Longrightarrow> triple I m (\<lambda>_. I) I"
  by (rule tripleI) (auto dest: preservesD)

lemma preserves_t: "triple I m (\<lambda>_. I) I \<Longrightarrow> preserves I m"
  by (rule preservesI) (metis old.sum.exhaust triple_Inl triple_Inr)

section \<open>Array.prototype.sort\<close>

text \<open>
  \<open>gt a b\<close> says that the comparator returns a positive number on \<open>(a, b)\<close>. ECMAScript fixes
  the result of \<open>sort\<close> for a consistent comparator: the stable sorted permutation, which
  insertion from the right computes.
\<close>

fun js_insert :: "('a \<Rightarrow> 'a \<Rightarrow> bool) \<Rightarrow> 'a \<Rightarrow> 'a list \<Rightarrow> 'a list" where
  "js_insert gt x [] = [x]"
| "js_insert gt x (y # ys) = (if gt x y then y # js_insert gt x ys else x # y # ys)"

definition js_sort :: "('a \<Rightarrow> 'a \<Rightarrow> bool) \<Rightarrow> 'a list \<Rightarrow> 'a list" where
  "js_sort gt xs = foldr (js_insert gt) xs []"

lemma js_sort_Nil [simp]: "js_sort gt [] = []"
  by (simp add: js_sort_def)

lemma js_sort_Cons [simp]: "js_sort gt (x # xs) = js_insert gt x (js_sort gt xs)"
  by (simp add: js_sort_def)

lemma mset_js_insert [simp]: "mset (js_insert gt x ys) = add_mset x (mset ys)"
  by (induction ys) auto

lemma mset_js_sort [simp]: "mset (js_sort gt xs) = mset xs"
  by (induction xs) auto

lemma set_js_sort [simp]: "set (js_sort gt xs) = set xs"
  by (rule mset_eq_setD) simp

lemma length_js_sort [simp]: "length (js_sort gt xs) = length xs"
  by (rule mset_eq_length) simp

lemma distinct_map_js_sort [simp]: "distinct (map f (js_sort gt xs)) = distinct (map f xs)"
proof -
  have "mset (map f (js_sort gt xs)) = mset (map f xs)" by simp
  then show ?thesis by (rule mset_eq_imp_distinct_iff)
qed

locale js_order =
  fixes gt :: "'a \<Rightarrow> 'a \<Rightarrow> bool"
  assumes gt_asym: "gt x y \<Longrightarrow> \<not> gt y x"
    and le_trans: "\<not> gt x y \<Longrightarrow> \<not> gt y z \<Longrightarrow> \<not> gt x z"
begin

lemma insert_sorted:
  "sorted_wrt (\<lambda>a b. \<not> gt a b) ys \<Longrightarrow> sorted_wrt (\<lambda>a b. \<not> gt a b) (js_insert gt x ys)"
proof (induction ys)
  case Nil
  then show ?case by simp
next
  case (Cons y ys)
  have set_eq: "set (js_insert gt x ys) = insert x (set ys)"
    by (metis mset_js_insert set_mset_add_mset_insert set_mset_mset)
  show ?case
  proof (cases "gt x y")
    case True
    then show ?thesis using Cons gt_asym by (auto simp: set_eq)
  next
    case False
    then show ?thesis using Cons.prems le_trans by auto
  qed
qed

lemma sort_sorted: "sorted_wrt (\<lambda>a b. \<not> gt a b) (js_sort gt xs)"
  by (induction xs) (auto intro: insert_sorted)

lemma insert_stable:
  assumes "sorted_wrt (\<lambda>a b. \<not> gt a b) ys"
  shows "filter (\<lambda>y. \<not> gt z y \<and> \<not> gt y z) (js_insert gt x ys) =
    filter (\<lambda>y. \<not> gt z y \<and> \<not> gt y z) (x # ys)"
  using assms
proof (induction ys)
  case Nil
  then show ?case by simp
next
  case (Cons y ys)
  show ?case
  proof (cases "gt x y")
    case True
    have "\<not> ((\<not> gt z x \<and> \<not> gt x z) \<and> (\<not> gt z y \<and> \<not> gt y z))"
      using True le_trans by blast
    then show ?thesis using Cons True by auto
  next
    case False
    then show ?thesis by simp
  qed
qed

lemma sort_stable:
  "filter (\<lambda>y. \<not> gt z y \<and> \<not> gt y z) (js_sort gt xs) = filter (\<lambda>y. \<not> gt z y \<and> \<not> gt y z) xs"
proof (induction xs)
  case Nil
  then show ?case by simp
next
  case (Cons x xs)
  then show ?case using insert_stable [OF sort_sorted [of xs], of z x] by simp
qed

end

text \<open>Sorting by a key of a linear order, ascending and descending.\<close>

interpretation ascending: js_order "\<lambda>a b. k b < k a" for k :: "'a \<Rightarrow> 'k :: linorder"
  by unfold_locales auto

interpretation descending: js_order "\<lambda>a b. k a < k b" for k :: "'a \<Rightarrow> 'k :: linorder"
  by unfold_locales auto

lemma js_sort_sorted_key: "sorted (map k (js_sort (\<lambda>a b. k b < k a) xs))"
  using ascending.sort_sorted [of k xs] by (simp add: sorted_map not_less sorted_wrt_map)

lemma js_sort_unique:
  assumes "distinct (map k xs)" and "sorted (map k ys)" and "mset ys = mset xs"
  shows "js_sort (\<lambda>a b. k b < k a) xs = (ys :: 'a list)"
proof -
  let ?s = "js_sort (\<lambda>a b. k b < k a) xs"
  have "mset (map k ?s) = mset (map k ys)" using assms(3) by simp
  moreover have "sorted (map k ?s)" by (rule js_sort_sorted_key)
  ultimately have eq: "map k ?s = map k ys"
    using assms(2) by (metis properties_for_sort)
  have "inj_on k (set ?s \<union> set ys)"
    using assms(1,3) by (metis Un_absorb distinct_map mset_eq_setD set_js_sort)
  then show ?thesis using eq by (rule map_inj_on [rotated])
qed

lemma js_sort_desc:
  fixes k :: "'a \<Rightarrow> 'k :: linorder"
  assumes "distinct (map k xs)"
  shows "js_sort (\<lambda>a b. k a < k b) xs = rev (js_sort (\<lambda>a b. k b < k a) xs)"
proof -
  have "sorted_wrt (\<lambda>a b. \<not> k a < k b) (js_sort (\<lambda>a b. k a < k b) xs)"
    using descending.sort_sorted [of k xs] .
  then have "sorted (map k (rev (js_sort (\<lambda>a b. k a < k b) xs)))"
    by (simp add: sorted_wrt_rev sorted_wrt_map not_less)
  then have "js_sort (\<lambda>a b. k b < k a) xs = rev (js_sort (\<lambda>a b. k a < k b) xs)"
    by (rule js_sort_unique [OF assms]) simp
  then show ?thesis by simp
qed

lemma js_insert_snoc: "\<not> gt x y \<Longrightarrow> js_insert gt x (ys @ [y]) = js_insert gt x ys @ [y]"
  by (induction ys) auto

lemma js_sort_snoc: "(\<And>x. x \<in> set xs \<Longrightarrow> \<not> gt x y) \<Longrightarrow> js_sort gt (xs @ [y]) = js_sort gt xs @ [y]"
  by (induction xs) (simp_all add: js_insert_snoc)

section \<open>Stores addressed by a key\<close>

text \<open>
  The contract of a JavaScript \<open>Map\<close> (\<open>get\<close>, \<open>set\<close>, \<open>delete\<close>) and of a table with a primary key
  (select, upsert, delete). \<open>ok\<close> is the store's own invariant.
\<close>

locale keyed_store =
  fixes look :: "'m \<Rightarrow> 'k \<Rightarrow> 'v option"
    and put :: "'k \<Rightarrow> 'v \<Rightarrow> 'm \<Rightarrow> 'm"
    and del :: "'k \<Rightarrow> 'm \<Rightarrow> 'm"
    and ok :: "'m \<Rightarrow> bool"
  assumes look_put: "ok m \<Longrightarrow> look (put k v m) k' = (if k' = k then Some v else look m k')"
    and look_del: "ok m \<Longrightarrow> look (del k m) k' = (if k' = k then None else look m k')"
    and ok_put: "ok m \<Longrightarrow> ok (put k v m)"
    and ok_del: "ok m \<Longrightarrow> ok (del k m)"
begin

lemma look_put_same: "ok m \<Longrightarrow> look (put k v m) k = Some v"
  by (simp add: look_put)

lemma look_put_other: "ok m \<Longrightarrow> k' \<noteq> k \<Longrightarrow> look (put k v m) k' = look m k'"
  by (simp add: look_put)

lemma look_del_same: "ok m \<Longrightarrow> look (del k m) k = None"
  by (simp add: look_del)

lemma ok_fold_put: "ok m \<Longrightarrow> ok (fold (\<lambda>(k, v). put k v) kvs m)"
  by (induction kvs arbitrary: m) (auto intro: ok_put)

lemma look_fold_put:
  "ok m \<Longrightarrow> look (fold (\<lambda>(k, v). put k v) kvs m) k =
    (case map_of (rev kvs) k of None \<Rightarrow> look m k | Some v \<Rightarrow> Some v)"
proof (induction kvs arbitrary: m)
  case Nil
  then show ?case by simp
next
  case (Cons kv kvs)
  obtain a b where kv: "kv = (a, b)" by fastforce
  show ?case
    using Cons.IH [of "put a b m"] Cons.prems ok_put look_put
    by (auto simp: kv map_add_def split: option.splits)
qed

end

text \<open>The JavaScript \<open>Map\<close>: entries in insertion order, \<open>set\<close> on a present key keeps its place.\<close>

type_synonym ('k, 'v) omap = "('k \<times> 'v) list"

definition om_ok :: "('k, 'v) omap \<Rightarrow> bool" where
  "om_ok m = distinct (map fst m)"

interpretation omap: keyed_store "map_of :: ('k \<times> 'v) list \<Rightarrow> 'k \<Rightarrow> 'v option"
  AList.update AList.delete om_ok
  by unfold_locales
    (auto simp: om_ok_def update_conv' delete_conv' distinct_update distinct_delete)

lemma om_ok_Nil [simp]: "om_ok []"
  by (simp add: om_ok_def)

lemma om_ok_filter: "om_ok m \<Longrightarrow> om_ok (filter P m)"
  by (simp add: om_ok_def distinct_map_filter)

lemma om_ok_map_value: "om_ok (map (\<lambda>(k, v). (k, f k v)) m) = om_ok m"
  by (simp add: om_ok_def comp_def case_prod_unfold)

lemma length_om_update:
  "length (AList.update k v m) = (if map_of m k = None then Suc (length m) else length m)"
  by (induction m) auto

lemma length_om_delete_le: "length (AList.delete k m) \<le> length m"
  by (simp add: length_delete_le)

lemma length_om_delete_less: "map_of m k = Some v \<Longrightarrow> length (AList.delete k m) < length m"
proof (induction m)
  case Nil
  then show ?case by simp
next
  case (Cons kv m)
  then show ?case
    using length_delete_le [of k m] by (cases kv) (auto split: if_splits)
qed

section \<open>Lists\<close>

lemma find_Some_set: "List.find P xs = Some x \<Longrightarrow> x \<in> set xs \<and> P x"
  by (induction xs) (auto split: if_splits)

lemma find_None: "List.find P xs = None \<longleftrightarrow> (\<forall>x \<in> set xs. \<not> P x)"
  by (induction xs) auto

lemma find_map_same:
  "(\<And>x. x \<in> set xs \<Longrightarrow> P (f x) = P x) \<Longrightarrow> List.find P (map f xs) = map_option f (List.find P xs)"
  by (induction xs) auto

lemma find_distinct:
  "distinct (map key xs) \<Longrightarrow> x \<in> set xs \<Longrightarrow> key x = k \<Longrightarrow> List.find (\<lambda>y. key y = k) xs = Some x"
  by (induction xs) (auto simp: rev_image_eqI)

lemma find_filter_other:
  "(\<And>x. x \<in> set xs \<Longrightarrow> P x \<Longrightarrow> Q x) \<Longrightarrow> List.find P (filter Q xs) = List.find P xs"
  by (induction xs) auto

end
