(* ===== verification/Js.thy ===== *)
theory Js
  imports Prelude
begin

text \<open>
  JavaScript values and the parts of the standard library the program uses on them.
  \<^item> Strings are lists of characters with codes 0 to 255: one UTF-16 code unit each. White
    space and letter case are those of ECMAScript on that range.
  \<^item> \<open>jsval\<close> is the type \<open>unknown\<close> of the source: JSON values and \<open>undefined\<close>. \<open>Obj\<close> lists
    the own properties in enumeration order, each key once.
  \<^item> Numbers are exact: a finite double is the rational it denotes, and a literal is not rounded
    to 53 bits. \<open>NaN\<close> and the infinities are values of their own.
\<close>

section \<open>Strings\<close>

definition js_space :: "char \<Rightarrow> bool" where
  "js_space c = ((of_char c :: nat) \<in> {9, 10, 11, 12, 13, 32, 160})"

definition trimStart :: "string \<Rightarrow> string" where
  "trimStart s = dropWhile js_space s"

definition trimEnd :: "string \<Rightarrow> string" where
  "trimEnd s = rev (dropWhile js_space (rev s))"

definition trim :: "string \<Rightarrow> string" where
  "trim s = trimEnd (trimStart s)"

definition lower_char :: "char \<Rightarrow> char" where
  "lower_char c = (let n = (of_char c :: nat) in
     if (65 \<le> n \<and> n \<le> 90) \<or> (192 \<le> n \<and> n \<le> 222 \<and> n \<noteq> 215) then char_of (n + 32) else c)"

definition toLowerCase :: "string \<Rightarrow> string" where
  "toLowerCase s = map lower_char s"

text \<open>Upper case is used on HTTP method names and authentication methods only: ASCII.\<close>

definition upper_char :: "char \<Rightarrow> char" where
  "upper_char c = (let n = (of_char c :: nat) in
     if 97 \<le> n \<and> n \<le> 122 then char_of (n - 32) else c)"

definition toUpperCase :: "string \<Rightarrow> string" where
  "toUpperCase s = map upper_char s"

fun startsWith :: "string \<Rightarrow> string \<Rightarrow> bool" where
  "startsWith s [] = True"
| "startsWith [] (p # ps) = False"
| "startsWith (c # s) (p # ps) = (c = p \<and> startsWith s ps)"

definition endsWith :: "string \<Rightarrow> string \<Rightarrow> bool" where
  "endsWith s p = startsWith (rev s) (rev p)"

fun containsStr :: "string \<Rightarrow> string \<Rightarrow> bool" where
  "containsStr [] p = (p = [])"
| "containsStr (c # s) p = (startsWith (c # s) p \<or> containsStr s p)"

text \<open>\<open>split\<close> at one character; the empty string gives one empty piece, as in JavaScript.\<close>

fun splitOn :: "char \<Rightarrow> string \<Rightarrow> string list" where
  "splitOn d [] = [[]]"
| "splitOn d (c # s) =
    (if c = d then [] # splitOn d s
     else (case splitOn d s of [] \<Rightarrow> [[c]] | w # ws \<Rightarrow> (c # w) # ws))"

fun join :: "string \<Rightarrow> string list \<Rightarrow> string" where
  "join sep [] = []"
| "join sep [w] = w"
| "join sep (w # ws) = w @ sep @ join sep ws"

text \<open>\<open>slice(-n)\<close>: the last \<open>n\<close> characters.\<close>

definition lastChars :: "nat \<Rightarrow> string \<Rightarrow> string" where
  "lastChars n s = drop (length s - n) s"

text \<open>The length in bytes of the UTF-8 encoding, which \<open>Buffer\<close> counts.\<close>

definition utf8_length :: "string \<Rightarrow> nat" where
  "utf8_length s = (\<Sum>c \<leftarrow> s. if (of_char c :: nat) < 128 then 1 else 2)"

fun nat_str :: "nat \<Rightarrow> string" where
  "nat_str n = (if n < 10 then [char_of (48 + n)] else nat_str (n div 10) @ [char_of (48 + n mod 10)])"

declare nat_str.simps [simp del]

definition int_str :: "int \<Rightarrow> string" where
  "int_str i = (if i < 0 then CHR ''-'' # nat_str (nat (- i)) else nat_str (nat i))"

section \<open>Values\<close>

datatype jsnum = Fin rat | PosInf | NegInf | NotNum

datatype jsval = Undef | Null | Bool bool | Num jsnum | Str string
  | Arr "jsval list" | Obj "(string \<times> jsval) list"

definition num_int :: "int \<Rightarrow> jsval" where
  "num_int i = Num (Fin (of_int i))"

definition num_rat :: "rat \<Rightarrow> jsval" where
  "num_rat r = Num (Fin r)"

text \<open>A \<open>string | null\<close> and a \<open>number | null\<close> of the source.\<close>

definition opt_str :: "string option \<Rightarrow> jsval" where
  "opt_str v = (case v of None \<Rightarrow> Null | Some s \<Rightarrow> Str s)"

definition opt_int :: "int option \<Rightarrow> jsval" where
  "opt_int v = (case v of None \<Rightarrow> Null | Some i \<Rightarrow> num_int i)"

fun truthy :: "jsval \<Rightarrow> bool" where
  "truthy Undef = False"
| "truthy Null = False"
| "truthy (Bool b) = b"
| "truthy (Num n) = (n \<noteq> NotNum \<and> n \<noteq> Fin 0)"
| "truthy (Str s) = (s \<noteq> [])"
| "truthy (Arr vs) = True"
| "truthy (Obj kvs) = True"

text \<open>The operator \<open>??\<close>, and \<open>typeof v === 'object'\<close> on a non-null value.\<close>

definition nullish :: "jsval \<Rightarrow> bool" where
  "nullish v = (v = Undef \<or> v = Null)"

definition coalesce :: "jsval \<Rightarrow> jsval \<Rightarrow> jsval" where
  "coalesce v d = (if nullish v then d else v)"

definition is_object :: "jsval \<Rightarrow> bool" where
  "is_object v = (case v of Arr _ \<Rightarrow> True | Obj _ \<Rightarrow> True | _ \<Rightarrow> False)"

text \<open>
  Reading a property: \<open>undefined\<close> where the value has no such own property. On \<open>null\<close> and
  \<open>undefined\<close> the read throws a \<open>TypeError\<close>; the operations test \<open>nullish\<close> first.
\<close>

definition getProp :: "string \<Rightarrow> jsval \<Rightarrow> jsval" where
  "getProp k v = (case v of Obj kvs \<Rightarrow> (case map_of kvs k of None \<Rightarrow> Undef | Some x \<Rightarrow> x) | _ \<Rightarrow> Undef)"

definition str_of :: "jsval \<Rightarrow> string option" where
  "str_of v = (case v of Str s \<Rightarrow> Some s | _ \<Rightarrow> None)"

section \<open>Numbers and strings\<close>

definition is_digit :: "char \<Rightarrow> bool" where
  "is_digit c = (let n = (of_char c :: nat) in 48 \<le> n \<and> n \<le> 57)"

definition digit_val :: "char \<Rightarrow> nat" where
  "digit_val c = of_char c - 48"

definition dec_val :: "string \<Rightarrow> nat" where
  "dec_val ds = foldl (\<lambda>a c. 10 * a + digit_val c) 0 ds"

text \<open>Doubles overflow to infinity from this magnitude on.\<close>

definition double_limit :: rat where
  "double_limit = 2 ^ 1024 - 2 ^ 970"

definition to_double :: "rat \<Rightarrow> jsnum" where
  "to_double r = (if double_limit \<le> r then PosInf else if r \<le> - double_limit then NegInf else Fin r)"

definition parse_exponent :: "string \<Rightarrow> int option" where
  "parse_exponent s =
    (case s of [] \<Rightarrow> Some 0
     | e # t \<Rightarrow>
       if e \<noteq> CHR ''e'' \<and> e \<noteq> CHR ''E'' then None
       else (let neg = (t \<noteq> [] \<and> hd t = CHR ''-'');
                 ds = (if t \<noteq> [] \<and> (hd t = CHR ''-'' \<or> hd t = CHR ''+'') then tl t else t)
             in if ds = [] \<or> \<not> list_all is_digit ds then None
                else Some (if neg then - int (dec_val ds) else int (dec_val ds))))"

definition parse_unsigned :: "string \<Rightarrow> jsnum" where
  "parse_unsigned s =
    (if s = ''Infinity'' then PosInf
     else let ip = takeWhile is_digit s; r = dropWhile is_digit s;
              fp = (if r \<noteq> [] \<and> hd r = CHR ''.'' then takeWhile is_digit (tl r) else []);
              r' = (if r \<noteq> [] \<and> hd r = CHR ''.'' then dropWhile is_digit (tl r) else r)
          in if ip = [] \<and> fp = [] then NotNum
             else (case parse_exponent r' of None \<Rightarrow> NotNum
                   | Some e \<Rightarrow> to_double (of_nat (dec_val (ip @ fp))
                       * (if 0 \<le> e then 10 ^ nat e else 1 / 10 ^ nat (- e))
                       / 10 ^ length fp)))"

definition hex_val :: "char \<Rightarrow> nat option" where
  "hex_val c = (let n = (of_char c :: nat) in
     if 48 \<le> n \<and> n \<le> 57 then Some (n - 48)
     else if 97 \<le> n \<and> n \<le> 102 then Some (n - 87)
     else if 65 \<le> n \<and> n \<le> 70 then Some (n - 55) else None)"

fun radix_val :: "nat \<Rightarrow> nat \<Rightarrow> string \<Rightarrow> nat option" where
  "radix_val b a [] = Some a"
| "radix_val b a (c # s) =
    (case hex_val c of None \<Rightarrow> None | Some d \<Rightarrow> if d < b then radix_val b (b * a + d) s else None)"

definition parse_radix :: "nat \<Rightarrow> string \<Rightarrow> jsnum" where
  "parse_radix b s =
    (if s = [] then NotNum
     else (case radix_val b 0 s of None \<Rightarrow> NotNum | Some n \<Rightarrow> to_double (of_nat n)))"

definition negate_num :: "jsnum \<Rightarrow> jsnum" where
  "negate_num n = (case n of Fin r \<Rightarrow> Fin (- r) | PosInf \<Rightarrow> NegInf | NegInf \<Rightarrow> PosInf | NotNum \<Rightarrow> NotNum)"

text \<open>\<open>Number(s)\<close> on a string: the grammar StringNumericLiteral.\<close>

definition string_number :: "string \<Rightarrow> jsnum" where
  "string_number s =
    (let t = trim s; p = map lower_char (take 2 t) in
     if t = [] then Fin 0
     else if p = ''0x'' then parse_radix 16 (drop 2 t)
     else if p = ''0o'' then parse_radix 8 (drop 2 t)
     else if p = ''0b'' then parse_radix 2 (drop 2 t)
     else if hd t = CHR ''-'' then negate_num (parse_unsigned (tl t))
     else if hd t = CHR ''+'' then parse_unsigned (tl t)
     else parse_unsigned t)"

fun fraction_digits :: "nat \<Rightarrow> nat \<Rightarrow> nat \<Rightarrow> string" where
  "fraction_digits 0 n d = []"
| "fraction_digits (Suc k) n d =
    (if n = 0 then [] else char_of (48 + (10 * n) div d) # fraction_digits k ((10 * n) mod d) d)"

text \<open>
  \<open>String(n)\<close> on a number, for magnitudes that JavaScript writes without an exponent: at most
  twenty fractional digits.
\<close>

definition num_str :: "jsnum \<Rightarrow> string" where
  "num_str n =
    (case n of PosInf \<Rightarrow> ''Infinity'' | NegInf \<Rightarrow> ''-Infinity'' | NotNum \<Rightarrow> ''NaN''
     | Fin r \<Rightarrow>
       (case quotient_of r of (a, d) \<Rightarrow>
         if d = 1 then int_str a
         else (if a < 0 then ''-'' else []) @ nat_str (nat \<bar>a\<bar> div nat d) @ ''.''
              @ fraction_digits 20 (nat \<bar>a\<bar> mod nat d) (nat d)))"

fun to_string :: "jsval \<Rightarrow> string" where
  "to_string Undef = ''undefined''"
| "to_string Null = ''null''"
| "to_string (Bool b) = (if b then ''true'' else ''false'')"
| "to_string (Num n) = num_str n"
| "to_string (Str s) = s"
| "to_string (Arr vs) = join '','' (map (\<lambda>v. if nullish v then [] else to_string v) vs)"
| "to_string (Obj kvs) = ''[object Object]''"

definition to_number :: "jsval \<Rightarrow> jsnum" where
  "to_number v =
    (case v of Undef \<Rightarrow> NotNum | Null \<Rightarrow> Fin 0 | Bool b \<Rightarrow> Fin (if b then 1 else 0) | Num n \<Rightarrow> n
     | Str s \<Rightarrow> string_number s | Arr vs \<Rightarrow> string_number (to_string v) | Obj kvs \<Rightarrow> NotNum)"

definition is_integer :: "rat \<Rightarrow> bool" where
  "is_integer r = (snd (quotient_of r) = 1)"

section \<open>Facts about strings\<close>

lemma dropWhile_idem [simp]: "dropWhile P (dropWhile P s) = dropWhile P s"
  by (induction s) auto

lemma trimEnd_idem [simp]: "trimEnd (trimEnd s) = trimEnd s"
  by (simp add: trimEnd_def)

lemma trimEnd_Nil [simp]: "trimEnd [] = []"
  by (simp add: trimEnd_def)

lemma trimEnd_hd:
  assumes "trimEnd s \<noteq> []"
  shows "hd (trimEnd s) = hd s"
proof -
  have "s = rev (dropWhile js_space (rev s)) @ rev (takeWhile js_space (rev s))"
    by (metis rev_append rev_rev_ident takeWhile_dropWhile_id)
  then show ?thesis using assms by (metis trimEnd_def hd_append2)
qed

lemma trimStart_trim [simp]: "trimStart (trim s) = trim s"
proof (cases "trim s")
  case Nil
  then show ?thesis by (simp add: trimStart_def)
next
  case (Cons c t)
  have "trimStart s \<noteq> []" using Cons by (auto simp: trim_def)
  then have "\<not> js_space (hd (trimStart s))"
    unfolding trimStart_def by (rule hd_dropWhile)
  moreover have "hd (trim s) = hd (trimStart s)"
    using Cons trimEnd_hd [of "trimStart s"] by (simp add: trim_def)
  ultimately show ?thesis using Cons by (simp add: trimStart_def)
qed

lemma trim_trim [simp]: "trim (trim s) = trim s"
proof -
  have "trim (trim s) = trimEnd (trim s)" by (subst trim_def) simp
  also have "\<dots> = trim s" by (simp add: trim_def)
  finally show ?thesis .
qed

lemma lower_char_idem [simp]: "lower_char (lower_char c) = lower_char c"
  by (auto simp: lower_char_def Let_def)

lemma toLowerCase_idem [simp]: "toLowerCase (toLowerCase s) = toLowerCase s"
  by (simp add: toLowerCase_def)

lemma js_space_lower_char [simp]: "js_space (lower_char c) = js_space c"
  by (auto simp: js_space_def lower_char_def Let_def)

lemma dropWhile_lower: "dropWhile js_space (map lower_char s) = map lower_char (dropWhile js_space s)"
  by (induction s) auto

lemma trim_toLowerCase: "trim (toLowerCase s) = toLowerCase (trim s)"
  by (simp add: trim_def trimEnd_def trimStart_def toLowerCase_def dropWhile_lower rev_map)

lemma startsWith_append: "startsWith s p \<longleftrightarrow> (\<exists>r. s = p @ r)"
  by (induction s p rule: startsWith.induct) auto

lemma splitOn_nonempty [simp]: "splitOn d s \<noteq> []"
  by (induction s) (auto split: list.splits)

lemma join_splitOn: "join [d] (splitOn d s) = s"
proof (induction s)
  case Nil
  then show ?case by simp
next
  case (Cons c s)
  obtain w ws where sp: "splitOn d s = w # ws"
    using splitOn_nonempty [of d s] by (cases "splitOn d s") auto
  then show ?case using Cons by (cases ws) auto
qed

lemma splitOn_no_sep: "d \<notin> set s \<Longrightarrow> splitOn d s = [s]"
  by (induction s) auto

lemma splitOn_append_sep: "d \<notin> set a \<Longrightarrow> splitOn d (a @ d # b) = a # splitOn d b"
  by (induction a) auto

lemma splitOn_pieces: "w \<in> set (splitOn d s) \<Longrightarrow> d \<notin> set w"
  by (induction s arbitrary: w) (auto split: if_splits list.splits)

lemma is_integer_of_int [simp]: "is_integer (of_int i)"
  by (simp add: is_integer_def)

lemma truthy_Str [simp]: "truthy (Str s) = (s \<noteq> [])"
  by simp

lemma coalesce_simps [simp]:
  "coalesce Undef d = d" "coalesce Null d = d" "coalesce (Str s) d = Str s"
  "coalesce (Bool b) d = Bool b" "coalesce (Num n) d = Num n"
  "coalesce (Arr vs) d = Arr vs" "coalesce (Obj kvs) d = Obj kvs"
  by (simp_all add: coalesce_def nullish_def)

end
