(* ===== verification/Errors.thy ===== *)
theory Errors
  imports Js
begin

text \<open>
  \<open>server/logging/errors.ts\<close>: the application's errors, their catalogue (\<open>src/errors.json\<close>) and
  the body an HTTP handler sends for one. \<open>exn\<close> is every value an operation throws: an
  \<open>AppError\<close>, another \<open>Error\<close> of the runtime, or a thrown value that is no \<open>Error\<close>.
\<close>

record chain_entry =
  chainKey :: string
  chainCode :: string
  chainCaller :: string
  chainReason :: string

datatype exn =
    AppErr (errorKey: string) (errorCode: string) (errorCaller: string) (errorMessage: string)
      (errorCorrelation: "string option") (errorContext: jsval) (errorStatus: int)
      (errorCause: "exn option") (errorChain: "chain_entry list")
  | PlainErr (plainName: string) (plainMessage: string) (plainCause: "exn option")
  | ThrownVal jsval

definition error_catalog :: "(string \<times> string) list" where
  "error_catalog =
   [(''API_PROXY_FAILED'', ''A6F71290836E44F8''),
   (''APP_STARTUP_FAILED'', ''E5E6CAE073EEA410''),
   (''AUDIT_APPEND_FAILED'', ''01C907EC8594F82A''),
   (''AUTH_FORBIDDEN'', ''2160B6080C96D532''),
   (''AUTH_HEADER_INVALID'', ''2E826053C141C14B''),
   (''AUTH_INVALID_SESSION'', ''E1E02AD4BF69D055''),
   (''AUTH_LOGIN_FAILED'', ''6C350695B9B14A62''),
   (''AUTH_OIDC_CALLBACK_FAILED'', ''A4AD2B0E05380178''),
   (''AUTH_OIDC_DISCOVERY_FAILED'', ''69C65AB028C9A783''),
   (''AUTH_PASSWORD_INVALID'', ''FCD8B29E5DB42F9F''),
   (''AUTH_SESSION_CREATE_FAILED'', ''862B25F1BA98FEAF''),
   (''AUTH_UNAUTHENTICATED'', ''5EF6BF1E43074CBA''),
   (''BROKER_AGENT_REQUEST_FAILED'', ''B5CBD481DA08BB28''),
   (''BROKER_AGENT_RESPONSE_INVALID'', ''77BB48EB2C907B35''),
   (''BROKER_COMMAND_FAILED'', ''BAEE05374F97FDCB''),
   (''BROKER_CONFIG_CONFLICT'', ''6F8A12D44C2E9B76''),
   (''BROKER_CONFIG_INVALID'', ''E5EA2F5F487D8CD1''),
   (''BROKER_MANAGED_PATH_INVALID'', ''80E820FA70E75DE5''),
   (''BROKER_RELOAD_FAILED'', ''34FEF55DDDB68FFB''),
   (''BROKER_RESTART_FAILED'', ''CFA07BA8B6BEF608''),
   (''CONFIG_LOAD_FAILED'', ''08057FBE40F2551C''),
   (''CONFIG_VALIDATION_FAILED'', ''2597678BB2FD0E20''),
   (''CSRF_ORIGIN_INVALID'', ''7CC8F0CBBD7FEC38''),
   (''DB_BOOTSTRAP_FAILED'', ''4B49B0F75F57C845''),
   (''DB_QUERY_FAILED'', ''929A100911247D59''),
   (''DIAGNOSTICS_FAILED'', ''312139F375DA1C6B''),
   (''DYNSEC_IMPORT_FAILED'', ''145EE8E212EC6E76''),
   (''DYNSEC_OPERATION_FAILED'', ''01C94735E0366987''),
   (''DYNSEC_STATE_READ_FAILED'', ''4A2A9AE6D3DCB492''),
   (''ERR_UNKNOWN'', ''63C0B0DA9B8D4F14''),
   (''FRONTEND_SSR_RELATIVE_FETCH_INVALID'', ''E8A12C5F93D147B3''),
   (''INPUT_INVALID'', ''A99F7EE5C3F716A9''),
   (''MCP_AUTH_PROOF_INVALID'', ''8838CD45E19AD5CD''),
   (''MCP_AUTH_PROOF_REPLAYED'', ''2B6A2020CB18E1DD''),
   (''MCP_AUTH_PUBLIC_KEY_LOAD_FAILED'', ''E78494342908EEAE''),
   (''MCP_AUTH_READ_ONLY_METHOD_DENIED'', ''0AA8D86BEE57E3FA''),
   (''MCP_AUTH_REPLAY_CACHE_FULL'', ''1BDA9E467D9CF3ED''),
   (''MCP_AUTH_SERVICE_SUBJECT_DENIED'', ''038FF8C267A06C08''),
   (''MCP_AUTH_SUPERADMIN_MUTATION_DENIED'', ''344C1635E368A447''),
   (''MCP_AUTH_SYSTEM_USER_CONFLICT'', ''B609CBC19A6F13B5''),
   (''MCP_AUTH_SYSTEM_USER_PROTECTED'', ''E4F3D85C32046C38''),
   (''MCP_AUTH_SYSTEM_USER_UNAVAILABLE'', ''4A089460B2A78818''),
   (''MCP_AUTH_USER_DISABLED'', ''A8A0016EDA7E5024''),
   (''MQTT_CONNECTION_FAILED'', ''6AD34A1244C6AE47''),
   (''MQTT_NOT_CONNECTED'', ''1B152B41288D5E5B''),
   (''MQTT_OPERATION_FAILED'', ''2A2FC7DF8C4EDE63''),
   (''PERMISSION_DENIED'', ''85583612412FE2B7''),
   (''SESSION_COOKIE_INVALID'', ''3092C4328E25C0C8''),
   (''SNAPSHOT_EXPORT_FAILED'', ''C33310B8990316D2''),
   (''SNAPSHOT_IMPORT_INVALID'', ''D36D5718513889E8''),
   (''USER_BOOTSTRAP_FAILED'', ''D4DDBBB82DE5BAFA''),
   (''USER_CREATE_FAILED'', ''C8AD7F4DD5F8C30A''),
   (''USER_DELETE_FAILED'', ''5DBD6491AA385F56''),
   (''USER_UPDATE_FAILED'', ''46697699427AE614'')]"

definition resolveErrorCode :: "string \<Rightarrow> string" where
  "resolveErrorCode key =
    (case map_of error_catalog key of
       Some code \<Rightarrow> code
     | None \<Rightarrow> (case map_of error_catalog ''ERR_UNKNOWN'' of Some code \<Rightarrow> code | None \<Rightarrow> ''FFFFFFFFFFFFFFFF''))"

text \<open>The constructor of \<open>AppError\<close>.\<close>

definition newAppError ::
  "string \<Rightarrow> string \<Rightarrow> string \<Rightarrow> string option \<Rightarrow> jsval \<Rightarrow> int \<Rightarrow> exn option \<Rightarrow> exn" where
  "newAppError caller reason key corr ctx status cause =
    AppErr key (resolveErrorCode key) caller reason corr ctx status cause
      [\<lparr>chainKey = key, chainCode = resolveErrorCode key, chainCaller = caller, chainReason = reason\<rparr>]"

definition is_AppError :: "exn \<Rightarrow> bool" where
  "is_AppError e = (case e of AppErr _ _ _ _ _ _ _ _ _ \<Rightarrow> True | _ \<Rightarrow> False)"

definition createAppError ::
  "string \<Rightarrow> string \<Rightarrow> string \<Rightarrow> string option \<Rightarrow> jsval \<Rightarrow> int \<Rightarrow> exn option \<Rightarrow> exn" where
  "createAppError caller reason key corr ctx status cause =
    (case cause of
       Some (AppErr k c cl r co cx st ca chain) \<Rightarrow>
         AppErr key (resolveErrorCode key) caller reason corr ctx status cause
           (hd (errorChain (newAppError caller reason key corr ctx status cause)) # chain)
     | _ \<Rightarrow> newAppError caller reason key corr ctx status cause)"

text \<open>The usual call: no correlation id, no context, no cause.\<close>

abbreviation appError :: "string \<Rightarrow> string \<Rightarrow> string \<Rightarrow> int \<Rightarrow> exn" where
  "appError caller reason key status \<equiv> createAppError caller reason key None Null status None"

abbreviation typeError :: "string \<Rightarrow> exn" where
  "typeError msg \<equiv> PlainErr ''TypeError'' msg None"

text \<open>\<open>error instanceof Error ? error.message : fallback\<close>.\<close>

definition messageOr :: "string \<Rightarrow> exn \<Rightarrow> string" where
  "messageOr fallback e =
    (case e of AppErr _ _ _ m _ _ _ _ _ \<Rightarrow> m | PlainErr _ m _ \<Rightarrow> m | ThrownVal _ \<Rightarrow> fallback)"

record error_body =
  bodyErrorKey :: string
  bodyErrorCode :: string
  bodyReason :: string
  bodyCorrelationId :: "string option"
  bodyDetails :: jsval

definition toErrorBody :: "exn \<Rightarrow> error_body" where
  "toErrorBody e =
    (case e of
       AppErr k c _ m co cx _ _ _ \<Rightarrow>
         \<lparr>bodyErrorKey = k, bodyErrorCode = c, bodyReason = m, bodyCorrelationId = co,
          bodyDetails = coalesce cx Undef\<rparr>
     | _ \<Rightarrow>
         \<lparr>bodyErrorKey = ''ERR_UNKNOWN'', bodyErrorCode = resolveErrorCode ''ERR_UNKNOWN'',
          bodyReason = messageOr ''Unknown error'' e, bodyCorrelationId = None, bodyDetails = Undef\<rparr>)"

section \<open>Facts\<close>

lemma createAppError_fields [simp]:
  "errorKey (createAppError caller reason key corr ctx status cause) = key"
  "errorCode (createAppError caller reason key corr ctx status cause) = resolveErrorCode key"
  "errorCaller (createAppError caller reason key corr ctx status cause) = caller"
  "errorMessage (createAppError caller reason key corr ctx status cause) = reason"
  "errorCorrelation (createAppError caller reason key corr ctx status cause) = corr"
  "errorContext (createAppError caller reason key corr ctx status cause) = ctx"
  "errorStatus (createAppError caller reason key corr ctx status cause) = status"
  "errorCause (createAppError caller reason key corr ctx status cause) = cause"
  "is_AppError (createAppError caller reason key corr ctx status cause)"
  by (simp_all add: createAppError_def newAppError_def is_AppError_def split: option.splits exn.splits)

lemma createAppError_eq_iff:
  "createAppError c r k co cx st ca = createAppError c' r' k' co' cx' st' ca' \<longleftrightarrow>
    c = c' \<and> r = r' \<and> k = k' \<and> co = co' \<and> cx = cx' \<and> st = st' \<and> ca = ca'"
  by (metis createAppError_fields)

lemma createAppError_chain:
  "errorChain (createAppError caller reason key corr ctx status cause) =
    \<lparr>chainKey = key, chainCode = resolveErrorCode key, chainCaller = caller, chainReason = reason\<rparr>
    # (case cause of Some e \<Rightarrow> (if is_AppError e then errorChain e else []) | None \<Rightarrow> [])"
  by (simp add: createAppError_def newAppError_def is_AppError_def split: option.splits exn.splits)

text \<open>The chain of an error has one entry per application error on its spine of causes.\<close>

fun app_spine :: "exn \<Rightarrow> chain_entry list" where
  "app_spine (AppErr k c cl m co cx st (Some e) ch) =
    \<lparr>chainKey = k, chainCode = c, chainCaller = cl, chainReason = m\<rparr> # app_spine e"
| "app_spine (AppErr k c cl m co cx st None ch) =
    [\<lparr>chainKey = k, chainCode = c, chainCaller = cl, chainReason = m\<rparr>]"
| "app_spine (PlainErr n m c) = []"
| "app_spine (ThrownVal v) = []"

fun well_chained :: "exn \<Rightarrow> bool" where
  "well_chained (AppErr k c cl m co cx st (Some e) ch) =
    (c = resolveErrorCode k \<and> well_chained e \<and> ch = app_spine (AppErr k c cl m co cx st (Some e) ch))"
| "well_chained (AppErr k c cl m co cx st None ch) =
    (c = resolveErrorCode k \<and> ch = app_spine (AppErr k c cl m co cx st None ch))"
| "well_chained (PlainErr n m c) = True"
| "well_chained (ThrownVal v) = True"

lemma well_chained_chain: "well_chained e \<Longrightarrow> is_AppError e \<Longrightarrow> errorChain e = app_spine e"
  by (cases e rule: well_chained.cases) (auto simp: is_AppError_def)

lemma app_spine_not_app: "\<not> is_AppError e \<Longrightarrow> app_spine e = []"
  by (cases e) (auto simp: is_AppError_def)

lemma well_chained_create:
  assumes "\<forall>e. cause = Some e \<longrightarrow> well_chained e"
  shows "well_chained (createAppError caller reason key corr ctx status cause)"
proof (cases cause)
  case None
  then show ?thesis by (simp add: createAppError_def newAppError_def)
next
  case (Some e)
  then have "errorChain (createAppError caller reason key corr ctx status cause) =
    \<lparr>chainKey = key, chainCode = resolveErrorCode key, chainCaller = caller, chainReason = reason\<rparr>
    # app_spine e"
    using assms well_chained_chain app_spine_not_app by (auto simp: createAppError_chain)
  then show ?thesis
    using assms Some by (cases e) (auto simp: createAppError_def newAppError_def)
qed

end
