(* ===== verification/Json.thy ===== *)
theory Json
  imports Errors
begin

text \<open>
  \<open>JSON.stringify\<close> and \<open>JSON.parse\<close>, through which the program stores settings, audit summaries
  and snapshots and talks to the broker. The parser runs on fuel bounded by the length of the
  text (\<open>json_fuel\<close>), which the round trip shows to be enough. An escape above \<open>\u00ff\<close> is
  outside the range of the model's strings and is refused; a duplicate key keeps its first place
  and its last value.
\<close>

section \<open>Printing\<close>

definition quote_char :: char where "quote_char = CHR 0x22"

definition backslash :: char where "backslash = CHR 0x5C"

definition hex_digit :: "nat \<Rightarrow> char" where
  "hex_digit n = (if n < 10 then char_of (48 + n) else char_of (87 + n))"

definition escape_char :: "char \<Rightarrow> string" where
  "escape_char c = (let n = (of_char c :: nat) in
     if n = 34 \<or> n = 92 then [backslash, c]
     else if n = 8 then [backslash, CHR ''b''] else if n = 9 then [backslash, CHR ''t'']
     else if n = 10 then [backslash, CHR ''n''] else if n = 12 then [backslash, CHR ''f'']
     else if n = 13 then [backslash, CHR ''r'']
     else if n < 32 then backslash # ''u00'' @ [hex_digit (n div 16), hex_digit (n mod 16)]
     else [c])"

definition json_quote :: "string \<Rightarrow> string" where
  "json_quote s = quote_char # concat (map escape_char s) @ [quote_char]"

fun json_text :: "jsval \<Rightarrow> string" where
  "json_text Undef = ''null''"
| "json_text Null = ''null''"
| "json_text (Bool b) = (if b then ''true'' else ''false'')"
| "json_text (Num n) = (case n of Fin r \<Rightarrow> num_str n | _ \<Rightarrow> ''null'')"
| "json_text (Str s) = json_quote s"
| "json_text (Arr vs) = ''['' @ join '','' (map json_text vs) @ '']''"
| "json_text (Obj kvs) =
    ''{'' @ join '','' (filter (\<lambda>m. m \<noteq> [])
      (map (\<lambda>kv. if snd kv = Undef then [] else json_quote (fst kv) @ '':'' @ json_text (snd kv)) kvs))
    @ ''}''"

text \<open>\<open>JSON.stringify(undefined)\<close> is \<open>undefined\<close>.\<close>

definition jsonStringify :: "jsval \<Rightarrow> string option" where
  "jsonStringify v = (if v = Undef then None else Some (json_text v))"

section \<open>Parsing\<close>

definition json_space :: "char \<Rightarrow> bool" where
  "json_space c = ((of_char c :: nat) \<in> {9, 10, 13, 32})"

definition skip_ws :: "string \<Rightarrow> string" where
  "skip_ws s = dropWhile json_space s"

definition unescape :: "char \<Rightarrow> char option" where
  "unescape c = (if c = quote_char \<or> c = backslash \<or> c = CHR ''/'' then Some c
     else if c = CHR ''b'' then Some CHR 0x08 else if c = CHR ''t'' then Some CHR 0x09
     else if c = CHR ''n'' then Some CHR 0x0A else if c = CHR ''f'' then Some CHR 0x0C
     else if c = CHR ''r'' then Some CHR 0x0D else None)"

text \<open>The rest of a string literal after its opening quote.\<close>

fun parse_chars :: "string \<Rightarrow> (string \<times> string) option" where
  "parse_chars [] = None"
| "parse_chars (c # s) =
    (if c = quote_char then Some ([], s)
     else if (of_char c :: nat) < 32 then None
     else if c \<noteq> backslash then map_option (\<lambda>(t, r). (c # t, r)) (parse_chars s)
     else (case s of
         [] \<Rightarrow> None
       | e # s' \<Rightarrow>
          if e = CHR ''u'' then
            (case s' of
               h1 # h2 # h3 # h4 # s'' \<Rightarrow>
                 (case radix_val 16 0 [h1, h2, h3, h4] of
                    Some n \<Rightarrow> if n < 256 then map_option (\<lambda>(t, r). (char_of n # t, r)) (parse_chars s'') else None
                  | None \<Rightarrow> None)
             | _ \<Rightarrow> None)
          else (case unescape e of
                  None \<Rightarrow> None
                | Some d \<Rightarrow> map_option (\<lambda>(t, r). (d # t, r)) (parse_chars s'))))"

definition number_char :: "char \<Rightarrow> bool" where
  "number_char c = (is_digit c \<or> c \<in> {CHR ''-'', CHR ''+'', CHR ''.'', CHR ''e'', CHR ''E''})"

definition parse_number :: "string \<Rightarrow> jsnum option" where
  "parse_number s =
    (let neg = (s \<noteq> [] \<and> hd s = CHR ''-''); u = (if neg then tl s else s);
         ip = takeWhile is_digit u; r = dropWhile is_digit u
     in if ip = [] \<or> (hd ip = CHR ''0'' \<and> tl ip \<noteq> []) then None
        else if r \<noteq> [] \<and> hd r = CHR ''.'' \<and> takeWhile is_digit (tl r) = [] then None
        else (case parse_unsigned u of NotNum \<Rightarrow> None | n \<Rightarrow> Some (if neg then negate_num n else n)))"

fun parse_value :: "nat \<Rightarrow> string \<Rightarrow> (jsval \<times> string) option"
and parse_elems :: "nat \<Rightarrow> string \<Rightarrow> (jsval list \<times> string) option"
and parse_members :: "nat \<Rightarrow> string \<Rightarrow> ((string \<times> jsval) list \<times> string) option" where
  "parse_value 0 s = None"
| "parse_value (Suc n) s =
    (case skip_ws s of
       [] \<Rightarrow> None
     | c # t \<Rightarrow>
        if c = quote_char then map_option (\<lambda>(x, r). (Str x, r)) (parse_chars t)
        else if c = CHR ''['' then
          (case skip_ws t of
             [] \<Rightarrow> None
           | d # r \<Rightarrow> if d = CHR '']'' then Some (Arr [], r)
                     else map_option (\<lambda>(vs, r). (Arr vs, r)) (parse_elems n t))
        else if c = CHR ''{'' then
          (case skip_ws t of
             [] \<Rightarrow> None
           | d # r \<Rightarrow> if d = CHR ''}'' then Some (Obj [], r)
                     else map_option (\<lambda>(kvs, r). (Obj (fold (\<lambda>(k, v). AList.update k v) kvs []), r))
                            (parse_members n t))
        else if startsWith (c # t) ''null'' then Some (Null, drop 4 (c # t))
        else if startsWith (c # t) ''true'' then Some (Bool True, drop 4 (c # t))
        else if startsWith (c # t) ''false'' then Some (Bool False, drop 5 (c # t))
        else map_option (\<lambda>x. (Num x, dropWhile number_char (c # t)))
               (parse_number (takeWhile number_char (c # t))))"
| "parse_elems 0 s = None"
| "parse_elems (Suc n) s =
    (case parse_value n s of
       None \<Rightarrow> None
     | Some (v, r) \<Rightarrow>
        (case skip_ws r of
           [] \<Rightarrow> None
         | d # r' \<Rightarrow> if d = CHR '']'' then Some ([v], r')
                    else if d = CHR '','' then map_option (\<lambda>(vs, q). (v # vs, q)) (parse_elems n r')
                    else None))"
| "parse_members 0 s = None"
| "parse_members (Suc n) s =
    (case skip_ws s of
       [] \<Rightarrow> None
     | c # t \<Rightarrow>
       if c \<noteq> quote_char then None
       else (case parse_chars t of
           None \<Rightarrow> None
         | Some (k, r) \<Rightarrow>
            (case skip_ws r of
               [] \<Rightarrow> None
             | d # r' \<Rightarrow>
               if d \<noteq> CHR '':'' then None
               else (case parse_value n r' of
                   None \<Rightarrow> None
                 | Some (v, r2) \<Rightarrow>
                    (case skip_ws r2 of
                       [] \<Rightarrow> None
                     | e # r3 \<Rightarrow> if e = CHR ''}'' then Some ([(k, v)], r3)
                                else if e = CHR '','' then
                                  map_option (\<lambda>(kvs, q). ((k, v) # kvs, q)) (parse_members n r3)
                                else None)))))"

definition json_fuel :: "string \<Rightarrow> nat" where
  "json_fuel s = 2 * length s + 2"

definition jsonParse :: "string \<Rightarrow> exn + jsval" where
  "jsonParse s =
    (case parse_value (json_fuel s) s of
       Some (v, r) \<Rightarrow> if skip_ws r = [] then Inr v
                      else Inl (PlainErr ''SyntaxError'' ''Unexpected non-whitespace character after JSON'' None)
     | None \<Rightarrow> Inl (PlainErr ''SyntaxError'' ''Unexpected token in JSON'' None))"

section \<open>Round trip\<close>

lemma char_by_code: "of_char c = (of_char d :: nat) \<Longrightarrow> c = d"
  by simp

lemma hex_val_hex_digit: "d < 16 \<Longrightarrow> hex_val (hex_digit d) = Some d"
  by (cases "d < 10") (simp_all add: hex_val_def hex_digit_def Let_def)

lemma hex_val_zero: "hex_val (CHR ''0'') = Some 0"
  by (simp add: hex_val_def)

lemma parse_chars_plain:
  "\<not> of_char c < (32 :: nat) \<Longrightarrow> c \<noteq> quote_char \<Longrightarrow> c \<noteq> backslash \<Longrightarrow>
    parse_chars (c # t) = map_option (\<lambda>(x, r). (c # x, r)) (parse_chars t)"
  by simp

lemma parse_chars_named:
  "unescape e = Some d \<Longrightarrow>
    parse_chars (backslash # e # t) = map_option (\<lambda>(x, r). (d # x, r)) (parse_chars t)"
  by (auto simp: quote_char_def backslash_def unescape_def split: if_splits)

lemma parse_chars_hex:
  assumes "radix_val 16 0 [h1, h2, h3, h4] = Some n" "n < 256"
  shows "parse_chars (backslash # CHR ''u'' # h1 # h2 # h3 # h4 # t) =
    map_option (\<lambda>(x, r). (char_of n # x, r)) (parse_chars t)"
proof -
  have "\<not> of_char backslash < (32 :: nat)" "backslash \<noteq> quote_char"
    by (simp_all add: quote_char_def backslash_def)
  then show ?thesis using assms by (simp del: radix_val.simps)
qed

lemma parse_chars_escape:
  "parse_chars (escape_char c @ t) = map_option (\<lambda>(x, r). (c # x, r)) (parse_chars t)"
proof -
  define n where "n = (of_char c :: nat)"
  have n256: "n < 256" by (simp add: n_def)
  consider (quoted) "n = 34 \<or> n = 92" | (named) "n \<in> {8, 9, 10, 12, 13}"
    | (hex) "n < 32" "n \<notin> {8, 9, 10, 12, 13}" | (plain) "\<not> n < 32" "n \<noteq> 34" "n \<noteq> 92"
    by fastforce
  then show ?thesis
  proof cases
    case quoted
    then have "c = CHR 0x22 \<or> c = CHR 0x5C" by (auto simp: n_def intro: char_by_code)
    then have "unescape c = Some c" by (auto simp: unescape_def quote_char_def backslash_def)
    moreover have "escape_char c = [backslash, c]"
      using quoted by (simp add: escape_char_def n_def)
    ultimately show ?thesis by (simp only: parse_chars_named append.simps)
  next
    case named
    then have "c = CHR 0x08 \<or> c = CHR 0x09 \<or> c = CHR 0x0A \<or> c = CHR 0x0C \<or> c = CHR 0x0D"
      by (auto simp: n_def intro: char_by_code)
    then obtain e where "escape_char c = [backslash, e]" "unescape e = Some c"
      by (auto simp: escape_char_def unescape_def quote_char_def backslash_def)
    then show ?thesis by (simp only: parse_chars_named append.simps)
  next
    case hex
    have esc: "escape_char c = backslash # ''u00'' @ [hex_digit (n div 16), hex_digit (n mod 16)]"
      using hex by (simp add: escape_char_def n_def [symmetric])
    have "radix_val 16 0 [CHR ''0'', CHR ''0'', hex_digit (n div 16), hex_digit (n mod 16)] = Some n"
      using hex n256 by (simp add: hex_val_hex_digit hex_val_zero)
    from parse_chars_hex [OF this n256] show ?thesis
      by (simp only: esc append.simps) (simp add: n_def)
  next
    case plain
    then have "c \<noteq> quote_char" "c \<noteq> backslash"
      by (auto simp: n_def quote_char_def backslash_def)
    moreover have "escape_char c = [c]" using plain by (simp add: escape_char_def n_def Let_def)
    ultimately show ?thesis
      using plain parse_chars_plain by (simp only: append.simps n_def)
  qed
qed

lemma parse_chars_quote:
  "parse_chars (concat (map escape_char s) @ quote_char # r) = Some (s, r)"
  by (induction s) (simp_all add: parse_chars_escape)

lemma nat_str_step:
  "n < 10 \<Longrightarrow> nat_str n = [char_of (48 + n)]"
  "\<not> n < 10 \<Longrightarrow> nat_str n = nat_str (n div 10) @ [char_of (48 + n mod 10)]"
  by (subst nat_str.simps, simp)+

lemma is_digit_char_of: "d < 10 \<Longrightarrow> is_digit (char_of (48 + d)) \<and> digit_val (char_of (48 + d)) = d"
  by (simp add: is_digit_def digit_val_def)

lemma dec_val_snoc: "dec_val (ds @ [c]) = 10 * dec_val ds + digit_val c"
  by (simp add: dec_val_def)

lemma nat_str_digits: "list_all is_digit (nat_str n) \<and> dec_val (nat_str n) = n \<and> nat_str n \<noteq> []"
proof (induction n rule: less_induct)
  case (less n)
  show ?case
  proof (cases "n < 10")
    case True
    then show ?thesis
      using is_digit_char_of [of n] by (simp add: nat_str_step dec_val_def)
  next
    case False
    then have "n div 10 < n" by simp
    moreover have "n mod 10 < 10" by simp
    ultimately show ?thesis
      using less.IH [of "n div 10"] is_digit_char_of [of "n mod 10"] False
      by (simp add: nat_str_step(2) dec_val_snoc)
  qed
qed

lemma nat_str_hd: "0 < n \<Longrightarrow> hd (nat_str n) \<noteq> CHR ''0''"
proof (induction n rule: less_induct)
  case (less n)
  show ?case
  proof (cases "n < 10")
    case True
    then have "of_char (char_of (48 + n)) \<noteq> (48 :: nat)" using less.prems by simp
    then have "char_of (48 + n) \<noteq> CHR ''0''" by fastforce
    then show ?thesis using True by (simp add: nat_str_step)
  next
    case False
    then have "n div 10 < n" "0 < n div 10" by auto
    then show ?thesis
      using less.IH [of "n div 10"] nat_str_digits [of "n div 10"] False by (simp add: nat_str_step(2))
  qed
qed

lemma digits_take:
  "list_all is_digit ds \<Longrightarrow> takeWhile is_digit ds = ds \<and> dropWhile is_digit ds = []"
  by (induction ds) auto

lemma parse_unsigned_nat_str:
  assumes "of_nat n < double_limit"
  shows "parse_unsigned (nat_str n) = Fin (of_nat n)"
proof -
  have d: "list_all is_digit (nat_str n)" "dec_val (nat_str n) = n" "nat_str n \<noteq> []"
    using nat_str_digits by auto
  have "\<not> is_digit (CHR ''I'')" by (simp add: is_digit_def)
  then have "nat_str n \<noteq> ''Infinity''" using d(1) by fastforce
  moreover have "\<not> of_nat n \<le> - double_limit"
  proof -
    have "(0 :: rat) < double_limit" by (simp add: double_limit_def)
    then show ?thesis by (metis neg_less_0_iff_less not_le of_nat_0_le_iff order.strict_trans1)
  qed
  ultimately show ?thesis
    using d assms by (simp add: parse_unsigned_def digits_take parse_exponent_def to_double_def)
qed

definition delim :: "string \<Rightarrow> bool" where
  "delim r = (r = [] \<or> \<not> number_char (hd r))"

lemma delim_simps [simp]:
  "delim (CHR '']'' # r)" "delim (CHR '','' # r)" "delim (CHR ''}'' # r)" "delim []"
  by (simp_all add: delim_def number_char_def is_digit_def)

text \<open>The numbers JavaScript prints without an exponent.\<close>

definition plain_int :: "int \<Rightarrow> bool" where
  "plain_int i = (\<bar>i\<bar> < 10 ^ 21)"

lemma num_str_int: "num_str (Fin (of_int i)) = int_str i"
  by (simp add: num_str_def)

lemma digit_neq: "is_digit c \<Longrightarrow> c \<noteq> CHR ''-''"
  by (auto simp: is_digit_def)

lemma nat_str_ne [simp]: "nat_str n \<noteq> []"
  using nat_str_digits by auto

lemma nat_str_hd_digit: "is_digit (hd (nat_str n))"
  using nat_str_digits [of n] by (cases "nat_str n") auto

lemma parse_number_nat:
  assumes "n < 10 ^ 21"
  shows "parse_number (nat_str n) = Some (Fin (of_nat n))"
    and "parse_number (CHR ''-'' # nat_str n) = Some (Fin (- of_nat n))"
proof -
  have d: "list_all is_digit (nat_str n)" using nat_str_digits by auto
  have z: "\<not> (hd (nat_str n) = CHR ''0'' \<and> tl (nat_str n) \<noteq> [])"
    using nat_str_hd [of n] by (cases "n = 0") (auto simp: nat_str_step)
  have "of_nat n < (10 ^ 21 :: rat)" using assms by (metis of_nat_less_iff of_nat_numeral of_nat_power)
  also have "(10 ^ 21 :: rat) \<le> double_limit" by (simp add: double_limit_def)
  finally have u: "parse_unsigned (nat_str n) = Fin (of_nat n)" by (rule parse_unsigned_nat_str)
  show "parse_number (nat_str n) = Some (Fin (of_nat n))"
    using digit_neq [OF nat_str_hd_digit [of n]] d z u by (auto simp: parse_number_def digits_take)
  show "parse_number (CHR ''-'' # nat_str n) = Some (Fin (- of_nat n))"
    using d z u by (auto simp: parse_number_def digits_take negate_num_def)
qed

lemma parse_number_int: "plain_int i \<Longrightarrow> parse_number (int_str i) = Some (Fin (of_int i))"
  using parse_number_nat(1) [of "nat i"] parse_number_nat(2) [of "nat (- i)"]
  by (auto simp: int_str_def plain_int_def of_nat_nat nat_less_iff)

lemma number_span:
  "list_all number_char ds \<Longrightarrow> delim r \<Longrightarrow>
    takeWhile number_char (ds @ r) = ds \<and> dropWhile number_char (ds @ r) = r"
  by (induction ds) (cases r, auto simp: delim_def)

lemma int_str_number_chars: "list_all number_char (int_str i)"
proof -
  have "list_all number_char (nat_str n)" for n
    using nat_str_digits [of n] by (auto simp: number_char_def list_all_iff)
  then show ?thesis by (simp add: int_str_def number_char_def)
qed

lemma int_str_hd:
  obtains c t where "int_str i = c # t" "c = CHR ''-'' \<or> is_digit c"
proof (cases "i < 0")
  case True
  then show ?thesis using that by (simp add: int_str_def)
next
  case False
  then show ?thesis
    using that nat_str_hd_digit [of "nat i"] by (cases "nat_str (nat i)") (auto simp: int_str_def)
qed

lemma parse_value_int:
  assumes "plain_int i" and "delim r"
  shows "parse_value (Suc n) (int_str i @ r) = Some (Num (Fin (of_int i)), r)"
proof -
  obtain c t where ct: "int_str i = c # t" and c: "c = CHR ''-'' \<or> is_digit c"
    by (rule int_str_hd)
  have hd: "\<not> json_space c" "c \<noteq> quote_char" "c \<noteq> CHR ''[''" "c \<noteq> CHR ''{''"
    "c \<noteq> CHR ''n''" "c \<noteq> CHR ''t''" "c \<noteq> CHR ''f''"
    using c by (auto simp: json_space_def is_digit_def quote_char_def)
  have "skip_ws (int_str i @ r) = c # t @ r" using hd(1) ct by (simp add: skip_ws_def)
  moreover have "takeWhile number_char (c # t @ r) = int_str i" "dropWhile number_char (c # t @ r) = r"
    using number_span [OF int_str_number_chars [of i] assms(2)] ct by auto
  ultimately show ?thesis
    using hd parse_number_int [OF assms(1)]
    by (simp del: takeWhile.simps dropWhile.simps)
qed

text \<open>
  The values that survive the round trip: no \<open>undefined\<close>, integer numbers that print without an
  exponent, objects with distinct keys.
\<close>

fun json_ok :: "jsval \<Rightarrow> bool" where
  "json_ok Undef = False"
| "json_ok Null = True"
| "json_ok (Bool b) = True"
| "json_ok (Num n) = (case n of Fin r \<Rightarrow> is_integer r \<and> \<bar>r\<bar> < 10 ^ 21 | _ \<Rightarrow> False)"
| "json_ok (Str s) = True"
| "json_ok (Arr vs) = list_all json_ok vs"
| "json_ok (Obj kvs) = (distinct (map fst kvs) \<and> list_all (\<lambda>kv. json_ok (snd kv)) kvs)"

lemma is_integerE:
  assumes "is_integer r" obtains i where "r = of_int i"
proof -
  obtain p q where "quotient_of r = (p, q)" by fastforce
  then show ?thesis using assms that [of p] quotient_of_div [of r p q] by (simp add: is_integer_def)
qed

lemma json_text_hd:
  "json_ok v \<Longrightarrow> \<exists>c t. json_text v = c # t \<and> \<not> json_space c \<and> c \<noteq> CHR '']''"
proof (cases v)
  case (Num n)
  assume "json_ok v"
  with Num obtain r i where "n = Fin r" "r = of_int i"
    by (cases n) (auto elim: is_integerE)
  moreover obtain c t where "int_str i = c # t" "c = CHR ''-'' \<or> is_digit c"
    by (rule int_str_hd)
  ultimately show ?thesis
    using Num by (auto simp: num_str_int json_space_def is_digit_def)
qed (auto simp: json_quote_def quote_char_def json_space_def)

lemma skip_ws_cons: "\<not> json_space c \<Longrightarrow> skip_ws (c # t) = c # t"
  by (simp add: skip_ws_def)

lemma fold_update_distinct:
  "distinct (map fst (acc @ kvs)) \<Longrightarrow> fold (\<lambda>(k, v). AList.update k v) kvs acc = acc @ kvs"
proof (induction kvs arbitrary: acc)
  case Nil
  then show ?case by simp
next
  case (Cons kv kvs)
  obtain k v where kv: "kv = (k, v)" by fastforce
  have "k \<notin> set (map fst acc)" using Cons.prems kv by auto
  then have "AList.update k v acc = acc @ [(k, v)]" by (induction acc) auto
  then show ?case using Cons.IH [of "acc @ [(k, v)]"] Cons.prems kv by simp
qed

definition member_text :: "string \<times> jsval \<Rightarrow> string" where
  "member_text kv = json_quote (fst kv) @ '':'' @ json_text (snd kv)"

lemma json_text_obj:
  "list_all (\<lambda>kv. json_ok (snd kv)) kvs \<Longrightarrow>
    json_text (Obj kvs) = ''{'' @ join '','' (map member_text kvs) @ ''}''"
proof -
  assume ok: "list_all (\<lambda>kv. json_ok (snd kv)) kvs"
  then have "map (\<lambda>kv. if snd kv = Undef then [] else json_quote (fst kv) @ '':'' @ json_text (snd kv)) kvs
    = map member_text kvs"
    by (induction kvs) (auto simp: member_text_def)
  moreover have "filter (\<lambda>m. m \<noteq> []) (map member_text kvs) = map member_text kvs"
    by (induction kvs) (auto simp: member_text_def json_quote_def)
  ultimately show ?thesis by (simp only: json_text.simps)
qed

lemma skip_ws_text:
  assumes "json_ok v"
  shows "skip_ws (json_text v @ r) = json_text v @ r"
  using json_text_hd [OF assms] by (auto simp: skip_ws_cons)

lemma join_Cons: "ws \<noteq> [] \<Longrightarrow> join sep (w # ws) = w @ sep @ join sep ws"
  by (cases ws) auto

lemma skip_ws_punct [simp]:
  "skip_ws (CHR '']'' # r) = CHR '']'' # r" "skip_ws (CHR ''}'' # r) = CHR ''}'' # r"
  "skip_ws (CHR '','' # r) = CHR '','' # r" "skip_ws (CHR '':'' # r) = CHR '':'' # r"
  "skip_ws (quote_char # r) = quote_char # r"
  by (simp_all add: skip_ws_cons json_space_def quote_char_def)

lemma parse_elems_text:
  assumes "vs \<noteq> []" and "list_all json_ok vs"
    and "\<And>v n r. v \<in> set vs \<Longrightarrow> delim r \<Longrightarrow> 2 * length (json_text v) < n \<Longrightarrow>
      parse_value n (json_text v @ r) = Some (v, r)"
    and "2 * length (join '','' (map json_text vs)) + 1 < n"
  shows "parse_elems n (join '','' (map json_text vs) @ '']'' @ r) = Some (vs, r)"
  using assms
proof (induction vs arbitrary: n)
  case Nil
  then show ?case by simp
next
  case (Cons v vs)
  obtain m where n: "n = Suc m" using Cons.prems(4) by (cases n) auto
  show ?case
  proof (cases "vs = []")
    case True
    then show ?thesis using Cons.prems n by (simp add: Cons.prems(3))
  next
    case False
    let ?rest = "join '','' (map json_text vs) @ '']'' @ r"
    have ne: "map json_text vs \<noteq> []" using False by simp
    have len: "2 * length (json_text v) < m" "2 * length (join '','' (map json_text vs)) + 1 < m"
      using Cons.prems(4) ne n by (auto simp: join_Cons)
    have "parse_value m (json_text v @ '','' @ ?rest) = Some (v, '','' @ ?rest)"
      using Cons.prems(3) [of v] len(1) by simp
    moreover have "parse_elems m ?rest = Some (vs, r)"
      using Cons.IH [OF False] Cons.prems(2,3) len(2) by simp
    ultimately show ?thesis using ne n by (simp add: join_Cons)
  qed
qed

lemma parse_members_text:
  assumes "kvs \<noteq> []" and "list_all (\<lambda>kv. json_ok (snd kv)) kvs"
    and "\<And>k v n r. (k, v) \<in> set kvs \<Longrightarrow> delim r \<Longrightarrow> 2 * length (json_text v) < n \<Longrightarrow>
      parse_value n (json_text v @ r) = Some (v, r)"
    and "2 * length (join '','' (map member_text kvs)) + 1 < n"
  shows "parse_members n (join '','' (map member_text kvs) @ ''}'' @ r) = Some (kvs, r)"
  using assms
proof (induction kvs arbitrary: n)
  case Nil
  then show ?case by simp
next
  case (Cons kv kvs)
  obtain k v where kv: "kv = (k, v)" by fastforce
  obtain m where n: "n = Suc m" using Cons.prems(4) by (cases n) auto
  have key: "parse_chars (concat (map escape_char k) @ quote_char # q) = Some (k, q)" for q
    by (rule parse_chars_quote)
  have mt: "member_text kv @ q =
      quote_char # concat (map escape_char k) @ quote_char # CHR '':'' # json_text v @ q" for q
    by (simp add: kv member_text_def json_quote_def)
  show ?case
  proof (cases "kvs = []")
    case True
    have "2 * length (json_text v) < m"
      using Cons.prems(4) True n kv by (simp add: member_text_def json_quote_def)
    then have "parse_value m (json_text v @ ''}'' @ r) = Some (v, ''}'' @ r)"
      using Cons.prems(3) [of k v] kv by simp
    then show ?thesis
      using True n by (simp add: mt [unfolded kv] key kv)
  next
    case False
    let ?rest = "join '','' (map member_text kvs) @ ''}'' @ r"
    have ne: "map member_text kvs \<noteq> []" using False by simp
    have len: "2 * length (json_text v) < m" "2 * length (join '','' (map member_text kvs)) + 1 < m"
      using Cons.prems(4) ne n mt [of "[]"] kv by (auto simp: join_Cons)
    have "parse_value m (json_text v @ '','' @ ?rest) = Some (v, '','' @ ?rest)"
      using Cons.prems(3) [of k v] kv len(1) by simp
    moreover have "parse_members m ?rest = Some (kvs, r)"
    proof (rule Cons.IH [OF False _ _ len(2)])
      show "list_all (\<lambda>kv. json_ok (snd kv)) kvs" using Cons.prems(2) by simp
    next
      fix k' v' n' r'
      assume "(k', v') \<in> set kvs" "delim r'" "2 * length (json_text v') < n'"
      then show "parse_value n' (json_text v' @ r') = Some (v', r')"
        using Cons.prems(3) [of k' v' r' n'] by simp
    qed
    ultimately show ?thesis using ne n kv by (simp add: join_Cons mt [unfolded kv] key)
  qed
qed

lemma json_text_length: "json_ok v \<Longrightarrow> 0 < length (json_text v)"
  using json_text_hd by fastforce

lemma member_join_hd:
  "kvs \<noteq> [] \<Longrightarrow> \<exists>t. join '','' (map member_text kvs) = quote_char # t"
  by (cases kvs rule: list.exhaust; cases "tl kvs") (auto simp: member_text_def json_quote_def)

lemma elems_join_hd:
  assumes "vs \<noteq> []" "list_all json_ok vs"
  shows "\<exists>c t. join '','' (map json_text vs) = c # t \<and> \<not> json_space c \<and> c \<noteq> CHR '']''"
proof -
  obtain v vs' where v: "vs = v # vs'" using assms(1) by (cases vs) auto
  then obtain c t where "json_text v = c # t" "\<not> json_space c" "c \<noteq> CHR '']''"
    using json_text_hd [of v] assms(2) by auto
  then show ?thesis using v by (cases vs') auto
qed

lemma parse_value_text:
  "json_ok v \<Longrightarrow> delim r \<Longrightarrow> 2 * length (json_text v) < n \<Longrightarrow>
    parse_value n (json_text v @ r) = Some (v, r)"
proof (induction v arbitrary: n r)
  case Null
  then show ?case by (cases n) (auto simp: skip_ws_cons json_space_def quote_char_def)
next
  case (Bool b)
  then show ?case by (cases n) (auto simp: skip_ws_cons json_space_def quote_char_def)
next
  case (Num x)
  then obtain k i where x: "x = Fin k" "k = of_int i" "plain_int i"
  proof -
    obtain k where k: "x = Fin k" "is_integer k" "\<bar>k\<bar> < 10 ^ 21" using Num by (cases x) auto
    then obtain i where i: "k = of_int i" by (auto elim: is_integerE)
    have "rat_of_int \<bar>i\<bar> < rat_of_int (10 ^ 21)" using k(3) by (simp add: i)
    then have "plain_int i" unfolding plain_int_def of_int_less_iff .
    then show ?thesis using that k i by simp
  qed
  then show ?case
    using parse_value_int [of i r] Num by (cases n) (simp_all add: num_str_int)
next
  case (Str s)
  then show ?case by (cases n) (auto simp: json_quote_def parse_chars_quote)
next
  case (Arr vs)
  obtain m where n: "n = Suc m" using Arr.prems by (cases n) auto
  show ?case
  proof (cases "vs = []")
    case True
    then show ?thesis using n by (simp add: skip_ws_cons json_space_def quote_char_def)
  next
    case False
    have ok: "list_all json_ok vs" using Arr.prems by simp
    have "parse_elems m (join '','' (map json_text vs) @ '']'' @ r) = Some (vs, r)"
      by (rule parse_elems_text) (use False ok Arr n in \<open>auto simp: list_all_iff\<close>)
    moreover obtain c t where "join '','' (map json_text vs) = c # t" "\<not> json_space c" "c \<noteq> CHR '']''"
      using elems_join_hd [OF False ok] by auto
    ultimately show ?thesis
      using n by (simp add: skip_ws_cons json_space_def quote_char_def)
  qed
next
  case (Obj kvs)
  obtain m where n: "n = Suc m" using Obj.prems by (cases n) auto
  show ?case
  proof (cases "kvs = []")
    case True
    then show ?thesis using n by (simp add: skip_ws_cons json_space_def quote_char_def)
  next
    case False
    have ok: "list_all (\<lambda>kv. json_ok (snd kv)) kvs" and dist: "distinct (map fst kvs)"
      using Obj.prems by auto
    have otext: "json_text (Obj kvs) = ''{'' @ join '','' (map member_text kvs) @ ''}''"
      by (rule json_text_obj [OF ok])
    have "parse_members m (join '','' (map member_text kvs) @ ''}'' @ r) = Some (kvs, r)"
    proof (rule parse_members_text [OF False ok])
      fix k v n' r'
      assume "(k, v) \<in> set kvs" "delim r'" "2 * length (json_text v) < n'"
      then show "parse_value n' (json_text v @ r') = Some (v, r')"
        using Obj.IH [of "(k, v)" v r' n'] ok by (auto simp: list_all_iff)
    next
      show "2 * length (join '','' (map member_text kvs)) + 1 < m"
        using Obj.prems(3) n otext by simp
    qed
    moreover obtain t where "join '','' (map member_text kvs) = quote_char # t"
      using member_join_hd [OF False] by auto
    moreover have "fold (\<lambda>(k, v). AList.update k v) kvs [] = kvs"
      using fold_update_distinct [of "[]" kvs] dist by simp
    ultimately show ?thesis
      using n by (simp add: otext skip_ws_cons json_space_def quote_char_def del: json_text.simps)
  qed
qed simp

lemma jsonParse_json_text: "json_ok v \<Longrightarrow> jsonParse (json_text v) = Inr v"
  using parse_value_text [of v "[]" "json_fuel (json_text v)"]
  by (simp add: jsonParse_def json_fuel_def skip_ws_def)

end
