(* ===== verification/World.thy ===== *)
theory World
  imports Json
begin

text \<open>
  The world an operation runs in and the platform it runs on.
  \<^item> \<open>base_world\<close>: the time of the operation (\<open>Date.now()\<close>, milliseconds), the number of random
    draws made so far, the log events emitted, and everything outside the process (\<open>outside\<close>: the
    broker, its agent, files), which only the platform's functions read and change. Components
    extend it with their own state.
  \<^item> \<open>platform\<close>: the code that is not in the repository: Node's cryptography, URL parser, locale
    comparison, child processes, HTTP and files. Draws are numbered, so that a random value is a
    function of its number.
  \<^item> the logger's events (\<open>server/logging/logger.ts\<close>); what a sink receives is in \<open>Logger\<close>.
\<close>

section \<open>The platform\<close>

text \<open>A parsed URL: the fields of the WHATWG \<open>URL\<close> object that the program reads.\<close>

record url =
  urlHref :: string
  urlProtocol :: string
  urlOrigin :: string
  urlHost :: string
  urlHostname :: string
  urlPathname :: string
  urlSearch :: string
  urlHash :: string

record http_request =
  reqUrl :: string
  reqMethod :: string
  reqHeaders :: "(string \<times> string) list"
  reqBody :: "string option"
  reqTimeoutMs :: int
  reqInsecure :: bool

record http_response =
  respStatus :: int
  respBody :: string

record process_exit =
  procExitCode :: "int option"
  procSignal :: "string option"
  procStdout :: string
  procStderr :: string
  procDurationMs :: int

record 'b platform =
  random_b64url :: "nat \<Rightarrow> nat \<Rightarrow> string"
  random_uuid :: "nat \<Rightarrow> string"
  random_int :: "nat \<Rightarrow> nat \<Rightarrow> nat"
  hmac_sha256_b64url :: "string \<Rightarrow> string \<Rightarrow> string"
  sha256_hex :: "string \<Rightarrow> string"
  argon2_hash :: "nat \<Rightarrow> string \<Rightarrow> string"
  argon2_verify :: "string \<Rightarrow> string \<Rightarrow> bool"
  b64url_decode :: "string \<Rightarrow> string"
  ed25519_verify :: "string \<Rightarrow> string \<Rightarrow> string \<Rightarrow> bool"
  b64url_bytes :: "string \<Rightarrow> string"
  sha256_b64url :: "string \<Rightarrow> string"
  load_public_key :: "string \<Rightarrow> exn + (string option \<times> string)"
  key_fingerprint :: "string \<Rightarrow> string"
  stat_is_file :: "string \<Rightarrow> 'b \<Rightarrow> (exn + bool) \<times> 'b"
  locale_gt :: "string \<Rightarrow> string \<Rightarrow> bool"
  parse_url :: "string \<Rightarrow> string option \<Rightarrow> url option"
  spawn_process :: "string \<Rightarrow> string list \<Rightarrow> int \<Rightarrow> 'b \<Rightarrow> (exn + process_exit) \<times> 'b"
  http_fetch :: "http_request \<Rightarrow> 'b \<Rightarrow> (exn + http_response) \<times> 'b"
  read_file :: "string \<Rightarrow> 'b \<Rightarrow> (exn + string) \<times> 'b"
  write_file :: "string \<Rightarrow> string \<Rightarrow> 'b \<Rightarrow> (exn + unit) \<times> 'b"

section \<open>Log events\<close>

datatype log_level = LogDebug | LogInfo | LogWarn | LogError

record log_sinks =
  sinkConsole :: "bool option"
  sinkFile :: "bool option"
  sinkCurl :: "bool option"

record log_event =
  evLevel :: log_level
  evCaller :: string
  evMessage :: jsval
  evCorrelation :: "string option"
  evErrorKey :: "string option"
  evErrorCode :: "string option"
  evLoggerKey :: "string option"
  evContext :: jsval
  evRootCause :: "exn option"
  evErrorStack :: "exn option"
  evErrorChain :: "chain_entry list"
  evSinks :: "log_sinks option"

definition logEvent :: "log_level \<Rightarrow> string \<Rightarrow> string \<Rightarrow> string option \<Rightarrow> jsval \<Rightarrow> log_event" where
  "logEvent level caller message corr ctx =
    \<lparr>evLevel = level, evCaller = caller, evMessage = Str message, evCorrelation = corr,
     evErrorKey = None, evErrorCode = None, evLoggerKey = None, evContext = ctx,
     evRootCause = None, evErrorStack = None, evErrorChain = [], evSinks = None\<rparr>"

section \<open>The world\<close>

record 'b base_world =
  clock :: int
  draws :: nat
  logs :: "log_event list"
  outside :: 'b

type_synonym ('w, 'a) io = "('w, exn, 'a) act"

definition emit :: "log_event \<Rightarrow> (('b, 'z) base_world_scheme, unit) io" where
  "emit ev = modify (\<lambda>w. w\<lparr>logs := logs w @ [ev]\<rparr>)"

definition now :: "(('b, 'z) base_world_scheme, int) io" where
  "now = gets clock"

text \<open>The next random draw.\<close>

definition draw :: "(nat \<Rightarrow> 'a) \<Rightarrow> (('b, 'z) base_world_scheme, 'a) io" where
  "draw f = andThen (gets draws) (\<lambda>n. andThen (modify (\<lambda>w. w\<lparr>draws := Suc n\<rparr>)) (\<lambda>_. ret (f n)))"

text \<open>A call that leaves the process.\<close>

definition callOut :: "('b \<Rightarrow> (exn + 'a) \<times> 'b) \<Rightarrow> (('b, 'z) base_world_scheme, 'a) io" where
  "callOut f = (\<lambda>w. case f (outside w) of (r, b) \<Rightarrow> (r, w\<lparr>outside := b\<rparr>))"

text \<open>\<open>logger.generateError\<close>: makes the error, logs it at level error, returns it.\<close>

definition generateError ::
  "string \<Rightarrow> string \<Rightarrow> string \<Rightarrow> exn option \<Rightarrow> bool \<Rightarrow> string option \<Rightarrow> jsval \<Rightarrow> int \<Rightarrow> log_sinks option
    \<Rightarrow> (('b, 'z) base_world_scheme, exn) io" where
  "generateError caller reason key err withStack corr ctx status sinks =
    (let e = createAppError caller reason key corr ctx status err in
     andThen (emit
       \<lparr>evLevel = LogError, evCaller = caller, evMessage = Str reason, evCorrelation = corr,
        evErrorKey = Some key, evErrorCode = Some (errorCode e), evLoggerKey = Some key,
        evContext = ctx, evRootCause = err, evErrorStack = (if withStack then err else None),
        evErrorChain = errorChain e, evSinks = sinks\<rparr>)
     (\<lambda>_. ret e))"

section \<open>Identifiers\<close>

definition createCorrelationId :: "'b platform \<Rightarrow> (('b, 'z) base_world_scheme, string) io" where
  "createCorrelationId P = draw (random_uuid P)"

definition createOpaqueToken :: "'b platform \<Rightarrow> nat \<Rightarrow> (('b, 'z) base_world_scheme, string) io" where
  "createOpaqueToken P bytes = draw (\<lambda>n. random_b64url P n bytes)"

definition hashToken :: "'b platform \<Rightarrow> string \<Rightarrow> string" where
  "hashToken P v = sha256_hex P v"

definition bootstrapAlphabet :: string where
  "bootstrapAlphabet = ''0123456789abcdefghijklmnopqrstuvwxyzABCDEFGHIJKLMNOPQRSTUVWXYZ''"

fun createBootstrapPassword :: "'b platform \<Rightarrow> nat \<Rightarrow> (('b, 'z) base_world_scheme, string) io" where
  "createBootstrapPassword P 0 = ret []"
| "createBootstrapPassword P (Suc k) =
    andThen (draw (\<lambda>n. bootstrapAlphabet ! random_int P n (length bootstrapAlphabet))) (\<lambda>c.
    andThen (createBootstrapPassword P k) (\<lambda>cs. ret (c # cs)))"

definition normalizeUsername :: "string \<Rightarrow> string" where
  "normalizeUsername username = toLowerCase (trim username)"

definition parseJsonSafe :: "string option \<Rightarrow> jsval \<Rightarrow> jsval" where
  "parseJsonSafe v fallback =
    (case v of None \<Rightarrow> fallback
     | Some s \<Rightarrow> if s = [] then fallback
                else (case jsonParse s of Inr x \<Rightarrow> x | Inl _ \<Rightarrow> fallback))"

section \<open>Frames\<close>

lemma keeps_emit [along_intros]:
  "(\<And>w l. f (w\<lparr>logs := l\<rparr>) = f w) \<Longrightarrow> keeps f (emit ev)"
  unfolding emit_def by (intro keeps_intros) simp

lemma keeps_now [along_intros]: "keeps f now"
  unfolding now_def by (intro keeps_intros)

lemma keeps_draw [along_intros]:
  "(\<And>w n. f (w\<lparr>draws := n\<rparr>) = f w) \<Longrightarrow> keeps f (draw g)"
  unfolding draw_def by (intro keeps_intros) simp

lemma keeps_callOut [along_intros]:
  "(\<And>w b. f (w\<lparr>outside := b\<rparr>) = f w) \<Longrightarrow> keeps f (callOut g)"
  by (rule keepsI) (auto simp: callOut_def split: prod.splits)

lemma keeps_generateError [along_intros]:
  "(\<And>w l. f (w\<lparr>logs := l\<rparr>) = f w) \<Longrightarrow> keeps f (generateError c r k e st co cx s sk)"
  unfolding generateError_def Let_def by (intro along_intros) simp

lemma keeps_createOpaqueToken [along_intros]:
  "(\<And>w n. f (w\<lparr>draws := n\<rparr>) = f w) \<Longrightarrow> keeps f (createOpaqueToken P n)"
  unfolding createOpaqueToken_def by (rule keeps_draw)

lemma keeps_createCorrelationId [along_intros]:
  "(\<And>w n. f (w\<lparr>draws := n\<rparr>) = f w) \<Longrightarrow> keeps f (createCorrelationId P)"
  unfolding createCorrelationId_def by (rule keeps_draw)

lemma keeps_createBootstrapPassword [along_intros]:
  "(\<And>w n. f (w\<lparr>draws := n\<rparr>) = f w) \<Longrightarrow> keeps f (createBootstrapPassword P n)"
  by (induction n) (auto intro!: along_intros)

lemma throws_callOut: "(\<And>b e b'. g b = (Inl e, b') \<Longrightarrow> Q e) \<Longrightarrow> throws Q (callOut g)"
  by (rule throwsI) (auto simp: callOut_def split: prod.splits)

lemma throws_world: "throws Q (emit ev)" "throws Q now" "throws Q (draw h)" "throws Q (createCorrelationId P)"
  "throws Q (createOpaqueToken P k)" "throws Q (generateError c r ky er st co cx s sk)"
  by (simp_all add: throws_def emit_def now_def draw_def createCorrelationId_def createOpaqueToken_def
      generateError_def Let_def andThen_def)

text \<open>
  What no call to the outside, log line or random draw changes: the part of a component's state that
  only the component itself writes. Its operations are framed once, for every such part.
\<close>

locale world_frame =
  fixes part :: "('b, 'z) base_world_scheme \<Rightarrow> 'x"
  assumes part_logs: "part (w\<lparr>logs := l\<rparr>) = part w"
    and part_outside: "part (w\<lparr>outside := b\<rparr>) = part w"
    and part_draws: "part (w\<lparr>draws := n\<rparr>) = part w"
begin

lemma fr_emit: "keeps part (emit ev)"
  by (rule keeps_emit) (rule part_logs)

lemma fr_callOut: "keeps part (callOut g)"
  by (rule keeps_callOut) (rule part_outside)

lemma fr_draw: "keeps part (draw g)"
  by (rule keeps_draw) (rule part_draws)

lemma fr_generateError: "keeps part (generateError c r k e st co cx s sk)"
  by (rule keeps_generateError) (rule part_logs)

lemma fr_createCorrelationId: "keeps part (createCorrelationId P)"
  by (rule keeps_createCorrelationId) (rule part_draws)

lemma fr_createOpaqueToken: "keeps part (createOpaqueToken P k)"
  by (rule keeps_createOpaqueToken) (rule part_draws)

lemma fr_createBootstrapPassword: "keeps part (createBootstrapPassword P k)"
  by (rule keeps_createBootstrapPassword) (rule part_draws)

lemmas fr_base = keeps_intros keeps_now fr_emit fr_callOut fr_draw fr_generateError
  fr_createCorrelationId fr_createOpaqueToken fr_createBootstrapPassword

end

lemma emit_apply [simp]: "emit ev w = (Inr (), w\<lparr>logs := logs w @ [ev]\<rparr>)"
  by (simp add: emit_def)

lemma now_apply [simp]: "now w = (Inr (clock w), w)"
  by (simp add: now_def)

lemma draw_apply [simp]: "draw f w = (Inr (f (draws w)), w\<lparr>draws := Suc (draws w)\<rparr>)"
  by (simp add: draw_def)

lemma normalizeUsername_idem [simp]: "normalizeUsername (normalizeUsername u) = normalizeUsername u"
  by (simp add: normalizeUsername_def trim_toLowerCase)

lemma createBootstrapPassword_ok:
  assumes "\<And>n k. 0 < k \<Longrightarrow> random_int P n k < k"
  shows "\<exists>cs w'. createBootstrapPassword P k w = (Inr cs, w') \<and> length cs = k \<and>
    set cs \<subseteq> set bootstrapAlphabet"
proof (induction k arbitrary: w)
  case 0
  then show ?case by simp
next
  case (Suc k)
  obtain cs w' where "createBootstrapPassword P k (w\<lparr>draws := Suc (draws w)\<rparr>) = (Inr cs, w')"
    "length cs = k" "set cs \<subseteq> set bootstrapAlphabet"
    using Suc by blast
  moreover have "random_int P (draws w) (length bootstrapAlphabet) < length bootstrapAlphabet"
    by (rule assms) (simp add: bootstrapAlphabet_def)
  ultimately show ?case by (simp add: andThen_def)
qed

section \<open>A sample platform\<close>

text \<open>
  A concrete platform on which the development's examples are evaluated: files, the exits of child
  processes and HTTP responses are scripted in \<open>sample_outside\<close>, which records what was asked of
  it; the cryptography is a readable stand-in.
\<close>

record sample_outside =
  soFiles :: "(string \<times> string) list"
  soExits :: "process_exit list"
  soSpawned :: "(string \<times> string list) list"
  soResponses :: "http_response list"
  soRequests :: "http_request list"

definition sample_platform :: "sample_outside platform" where
  "sample_platform =
    \<lparr>random_b64url = (\<lambda>n k. ''r'' @ nat_str n),
     random_uuid = (\<lambda>n. ''uuid-'' @ nat_str n),
     random_int = (\<lambda>n k. n mod k),
     hmac_sha256_b64url = (\<lambda>k m. ''mac('' @ k @ '','' @ m @ '')''),
     sha256_hex = (\<lambda>m. ''sha('' @ m @ '')''),
     argon2_hash = (\<lambda>n pw. ''argon('' @ pw @ '')''),
     argon2_verify = (\<lambda>h pw. h = ''argon('' @ pw @ '')''),
     b64url_decode = (\<lambda>s. s),
     ed25519_verify = (\<lambda>k m s. s = ''sig('' @ k @ '','' @ filter (\<lambda>c. c \<noteq> CHR ''.'') m @ '')''),
     b64url_bytes = (\<lambda>s. s),
     sha256_b64url = (\<lambda>m. ''sha('' @ m @ '')''),
     load_public_key = (\<lambda>pem. if pem = [] then Inl (PlainErr ''Error'' ''DECODER routines::unsupported'' None)
       else Inr (Some ''ed25519'', pem)),
     key_fingerprint = (\<lambda>k. ''fp('' @ k @ '')''),
     stat_is_file = (\<lambda>f b. (case map_of (soFiles b) f of
         Some t \<Rightarrow> Inr True | None \<Rightarrow> Inl (PlainErr ''Error'' ''ENOENT'' None), b)),
     locale_gt = (\<lambda>a b. b < a),
     parse_url = (\<lambda>s base. if s = [] then None else Some
       \<lparr>urlHref = s, urlProtocol = ''https:'', urlOrigin = s, urlHost = s, urlHostname = s,
        urlPathname = ''/'', urlSearch = [], urlHash = []\<rparr>),
     spawn_process = (\<lambda>exe args t b.
       (case soExits b of
          [] \<Rightarrow> Inl (PlainErr ''Error'' ''spawn ENOENT'' None)
        | x # xs \<Rightarrow> Inr x,
        b\<lparr>soExits := tl (soExits b), soSpawned := soSpawned b @ [(exe, args)]\<rparr>)),
     http_fetch = (\<lambda>q b.
       (case soResponses b of
          [] \<Rightarrow> Inl (PlainErr ''TypeError'' ''fetch failed'' None)
        | x # xs \<Rightarrow> Inr x,
        b\<lparr>soResponses := tl (soResponses b), soRequests := soRequests b @ [q]\<rparr>)),
     read_file = (\<lambda>f b. (case map_of (soFiles b) f of
         Some t \<Rightarrow> Inr t | None \<Rightarrow> Inl (PlainErr ''Error'' ''ENOENT'' None), b)),
     write_file = (\<lambda>f t b. (Inr (), b\<lparr>soFiles := AList.update f t (soFiles b)\<rparr>))\<rparr>"

definition sample_exit :: "int \<Rightarrow> string \<Rightarrow> process_exit" where
  "sample_exit code err = \<lparr>procExitCode = Some code, procSignal = None, procStdout = [],
    procStderr = err, procDurationMs = 1\<rparr>"

definition sample_start :: "(string \<times> string) list \<Rightarrow> process_exit list \<Rightarrow> http_response list \<Rightarrow> sample_outside" where
  "sample_start files exits responses = \<lparr>soFiles = files, soExits = exits, soSpawned = [],
    soResponses = responses, soRequests = []\<rparr>"

end
