(* ===== verification/Types.thy ===== *)
theory Types
  imports World
begin

text \<open>
  The data types the components share (\<open>lib/types/index.ts\<close>) and the permission table
  (\<open>server/permissions/index.ts\<close>) with its two clients in the front end: the navigation
  (\<open>app-navigation.ts\<close>) and the page guard (\<open>page-permissions.ts\<close>).
\<close>

section \<open>Roles and authentication methods\<close>

datatype user_role = SuperAdmin | BrokerAdmin | SecurityAdmin | Operator | Viewer

text \<open>\<open>PrincipalRole = UserRole | 'mcp'\<close>.\<close>

datatype principal_role = UserRole user_role | McpRole

datatype auth_method = LocalAuth | OidcAuth | HeaderAuth | McpAuth

fun user_role_str :: "user_role \<Rightarrow> string" where
  "user_role_str SuperAdmin = ''super_admin''"
| "user_role_str BrokerAdmin = ''broker_admin''"
| "user_role_str SecurityAdmin = ''security_admin''"
| "user_role_str Operator = ''operator''"
| "user_role_str Viewer = ''viewer''"

fun role_str :: "principal_role \<Rightarrow> string" where
  "role_str (UserRole r) = user_role_str r"
| "role_str McpRole = ''mcp''"

fun auth_method_str :: "auth_method \<Rightarrow> string" where
  "auth_method_str LocalAuth = ''local''"
| "auth_method_str OidcAuth = ''oidc''"
| "auth_method_str HeaderAuth = ''header''"
| "auth_method_str McpAuth = ''mcp''"

datatype mcp_access = McpRead | McpReadWrite

fun mcp_access_str :: "mcp_access \<Rightarrow> string" where
  "mcp_access_str McpRead = ''read''"
| "mcp_access_str McpReadWrite = ''readwrite''"

section \<open>Capabilities\<close>

datatype capability = ReadCap | OperateCap | ManageBroker | ManageSecurity | ManageUsers
  | ViewAudit | ManageSnapshots | ManageMcp

fun capability_str :: "capability \<Rightarrow> string" where
  "capability_str ReadCap = ''read''"
| "capability_str OperateCap = ''operate''"
| "capability_str ManageBroker = ''manage_broker''"
| "capability_str ManageSecurity = ''manage_security''"
| "capability_str ManageUsers = ''manage_users''"
| "capability_str ViewAudit = ''view_audit''"
| "capability_str ManageSnapshots = ''manage_snapshots''"
| "capability_str ManageMcp = ''manage_mcp''"

definition capabilities :: "capability list" where
  "capabilities = [ReadCap, OperateCap, ManageBroker, ManageSecurity, ManageUsers, ViewAudit,
    ManageSnapshots, ManageMcp]"

record delegated_identity =
  delegateName :: string
  delegateAccess :: mcp_access

record authenticated_user =
  auId :: string
  auUsername :: string
  auEmail :: "string option"
  auRole :: principal_role
  auAuthSource :: auth_method
  auCapabilities :: "capability list option"
  auDelegated :: "delegated_identity option"

definition defaultMcpCapabilities :: "capability list" where
  "defaultMcpCapabilities = [ReadCap, OperateCap, ManageBroker, ManageSecurity, ManageUsers,
    ViewAudit, ManageSnapshots]"

fun roleCapabilities :: "principal_role \<Rightarrow> capability list" where
  "roleCapabilities (UserRole Viewer) = [ReadCap]"
| "roleCapabilities (UserRole Operator) = [ReadCap, OperateCap, ViewAudit, ManageSnapshots]"
| "roleCapabilities (UserRole SecurityAdmin) = [ReadCap, ManageSecurity, ViewAudit, ManageSnapshots]"
| "roleCapabilities (UserRole BrokerAdmin) =
    [ReadCap, OperateCap, ManageBroker, ViewAudit, ManageSnapshots]"
| "roleCapabilities (UserRole SuperAdmin) =
    [ReadCap, OperateCap, ManageBroker, ManageSecurity, ManageUsers, ViewAudit, ManageSnapshots, ManageMcp]"
| "roleCapabilities McpRole = defaultMcpCapabilities"

definition hasCapability :: "authenticated_user option \<Rightarrow> capability \<Rightarrow> bool" where
  "hasCapability user cap =
    (case user of
       None \<Rightarrow> False
     | Some u \<Rightarrow>
        if auRole u = McpRole then
          (if cap = ManageMcp then False
           else cap \<in> set (case auCapabilities u of Some cs \<Rightarrow> cs | None \<Rightarrow> defaultMcpCapabilities))
        else cap \<in> set (roleCapabilities (auRole u)))"

definition requireCapability ::
  "authenticated_user option \<Rightarrow> capability \<Rightarrow> string option \<Rightarrow> exn + unit" where
  "requireCapability user cap corr =
    (if hasCapability user cap then Inr ()
     else Inl (createAppError ''permissions::requireCapability''
       (if user \<noteq> None then ''User lacks '' @ capability_str cap @ '' capability.''
        else ''Authentication is required.'')
       (if user \<noteq> None then ''PERMISSION_DENIED'' else ''AUTH_UNAUTHENTICATED'')
       corr Null (if user \<noteq> None then 403 else 401) None))"

section \<open>The front end's guards\<close>

record page_error =
  pageStatus :: int
  pageMessage :: string
  pageCorrelation :: "string option"
  pageErrorKey :: string
  pageErrorCode :: string

definition requirePageCapability ::
  "authenticated_user option \<Rightarrow> capability \<Rightarrow> string option \<Rightarrow> page_error + unit" where
  "requirePageCapability user cap corr =
    (if hasCapability user cap then Inr ()
     else let isAuthenticated = (user \<noteq> None);
              key = (if isAuthenticated then ''PERMISSION_DENIED'' else ''AUTH_UNAUTHENTICATED'')
          in Inl \<lparr>pageStatus = (if isAuthenticated then 403 else 401),
                  pageMessage = (if isAuthenticated then ''User lacks '' @ capability_str cap @ '' capability.''
                                 else ''Authentication is required.''),
                  pageCorrelation = corr, pageErrorKey = key, pageErrorCode = resolveErrorCode key\<rparr>)"

definition appNavDefinitions :: "(string \<times> string \<times> capability) list" where
  "appNavDefinitions =
    [(''/dashboard'', ''Dashboard'', ReadCap), (''/app-users'', ''App Users'', ManageUsers),
     (''/dynsec'', ''DynSec'', ReadCap), (''/mqtt'', ''MQTT'', ReadCap),
     (''/config'', ''MQTT Config'', ReadCap), (''/audit'', ''Audit'', ViewAudit),
     (''/snapshots'', ''Snapshots'', ManageSnapshots)]"

definition buildAppNavItems :: "authenticated_user option \<Rightarrow> (string \<times> string) list" where
  "buildAppNavItems user =
    map (\<lambda>(href, label, cap). (href, label))
      (filter (\<lambda>(href, label, cap). hasCapability user cap) appNavDefinitions)"

section \<open>Facts\<close>

lemma hasCapability_None [simp]: "\<not> hasCapability None cap"
  by (simp add: hasCapability_def)

lemma hasCapability_role:
  "auRole u = UserRole r \<Longrightarrow> hasCapability (Some u) cap \<longleftrightarrow> cap \<in> set (roleCapabilities (UserRole r))"
  by (simp add: hasCapability_def)

lemma requireCapability_Inr [simp]: "requireCapability user cap corr = Inr x \<longleftrightarrow> hasCapability user cap"
  by (cases x) (simp add: requireCapability_def)

lemma role_str_inj: "role_str a = role_str b \<longleftrightarrow> a = b"
proof -
  have "user_role_str r = user_role_str s \<longleftrightarrow> r = s" for r s by (cases r; cases s) simp_all
  moreover have "user_role_str r \<noteq> ''mcp''" for r by (cases r) simp_all
  ultimately show ?thesis by (cases a; cases b) fastforce+
qed

lemma auth_method_str_inj: "auth_method_str a = auth_method_str b \<longleftrightarrow> a = b"
  by (cases a; cases b) simp_all

text \<open>
  An MCP principal never holds \<open>manage_mcp\<close>, whatever list it was given; beside that it holds
  exactly its own list, and a super administrator is the only role that manages users or MCP.
\<close>

theorem capability_matrix:
  "hasCapability (Some u) cap =
    (case auRole u of
       McpRole \<Rightarrow> cap \<noteq> ManageMcp \<and>
         cap \<in> set (case auCapabilities u of Some cs \<Rightarrow> cs | None \<Rightarrow> defaultMcpCapabilities)
     | UserRole r \<Rightarrow>
         (case cap of
            ReadCap \<Rightarrow> True
          | OperateCap \<Rightarrow> r \<in> {SuperAdmin, BrokerAdmin, Operator}
          | ManageBroker \<Rightarrow> r \<in> {SuperAdmin, BrokerAdmin}
          | ManageSecurity \<Rightarrow> r \<in> {SuperAdmin, SecurityAdmin}
          | ManageUsers \<Rightarrow> r = SuperAdmin
          | ViewAudit \<Rightarrow> r \<noteq> Viewer
          | ManageSnapshots \<Rightarrow> r \<noteq> Viewer
          | ManageMcp \<Rightarrow> r = SuperAdmin))"
proof (cases "auRole u")
  case (UserRole r)
  then show ?thesis by (cases r; cases cap) (simp_all add: hasCapability_def)
next
  case McpRole
  then show ?thesis by (simp add: hasCapability_def)
qed

text \<open>
  The front end's page guard and the API's guard agree: one lets a user through exactly when
  the other does, and where they refuse they send the same status, key, code and reason.
\<close>

theorem page_guard_agrees:
  "requirePageCapability user cap corr =
    (case requireCapability user cap corr of
       Inr _ \<Rightarrow> Inr ()
     | Inl e \<Rightarrow> Inl \<lparr>pageStatus = errorStatus e, pageMessage = errorMessage e,
                     pageCorrelation = errorCorrelation e, pageErrorKey = errorKey e,
                     pageErrorCode = errorCode e\<rparr>)"
  by (simp add: requirePageCapability_def requireCapability_def Let_def)

end
