(* ===== verification/Config.thy ===== *)
theory Config
  imports Types
begin

text \<open>
  The runtime configuration: its shape, defaults and refinements (\<open>server/config/schema.ts\<close>), the
  loader (\<open>server/config/load.ts\<close>) and the public HTTP API settings derived from it
  (\<open>server/config/http-api.ts\<close>). The schema library (zod) and the JSON5 parser are third party:
  \<open>safeParseConfig\<close>, \<open>safeParseSecrets\<close> and \<open>json5\<close> are arguments of the loader, and \<open>zod_enforces\<close>
  is the documented behaviour it relies on: a successful parse satisfies the schema.
\<close>

section \<open>Shapes\<close>

datatype log_format = TextFormat | JsonFormat

record console_sink =
  csEnabled :: bool
  csLevels :: "log_level list"
  csFormat :: log_format

record file_sink =
  fsEnabled :: bool
  fsLevels :: "log_level list"
  fsFormat :: log_format
  fsPath :: "string option"

record curl_sink =
  usEnabled :: bool
  usLevels :: "log_level list"
  usUrl :: "string option"
  usMethod :: string
  usTimeoutMs :: int

record kubernetes_config =
  k8sEnabled :: bool
  k8sPodName :: "string option"
  k8sDeployment :: "string option"
  k8sNamespace :: "string option"
  k8sPodIp :: "string option"
  k8sPodIps :: "string option"
  k8sNodeName :: "string option"

record auth_event_logging =
  aelLevel :: log_level
  aelConsole :: bool
  aelFile :: bool
  aelCurl :: bool

record logging_config =
  lgIncludeCorrelationId :: bool
  lgIncludeUserAgent :: bool
  lgIncludeNormalizedUsername :: bool
  lgIncludeSessionExpiry :: bool
  lgConsole :: console_sink
  lgFile :: file_sink
  lgCurl :: curl_sink
  lgKubernetes :: kubernetes_config
  lgFailedLoginAttempts :: "auth_event_logging option"
  lgSuccessfulLogin :: "auth_event_logging option"

datatype http_api_mode = BrowserMode | ProxyMode

record http_api_config =
  haMode :: http_api_mode
  haBrowserBasePath :: string
  haProxyBasePath :: string
  haProxyUpstreamBaseUrl :: "string option"
  haProxyUpstreamBasePath :: string

record ui_config =
  uiThemeDark :: bool
  uiDefaultFont :: string
  uiLanguageFilePath :: "string option"
  uiShowAssignmentPriorities :: bool

record mcp_config =
  mcEnabled :: bool
  mcPublicKeyFile :: string
  mcKeyId :: string
  mcAudience :: string
  mcMaxProofAgeSeconds :: int
  mcClockSkewSeconds :: int
  mcReplayCacheMaxEntries :: int
  mcHeartbeatStaleSeconds :: int

datatype token_endpoint_auth = ClientSecretPost | ClientSecretBasic

record oidc_config =
  ocIssuerUrl :: string
  ocClientId :: string
  ocTokenEndpointAuthMethod :: token_endpoint_auth
  ocCallbackUrl :: "string option"
  ocAuthorizationEndpoint :: "string option"
  ocTokenEndpoint :: "string option"
  ocUserinfoEndpoint :: "string option"
  ocScopes :: "string list"
  ocUsernameClaim :: string
  ocEmailClaim :: string
  ocBootstrapAdminSubject :: "string option"

record header_config =
  hcTrustedCidrs :: "string list"
  hcRequiredHeaders :: "string list"
  hcUsernameHeader :: string
  hcGroupsHeader :: "string option"
  hcDefaultRole :: user_role

record auth_config =
  acLocalEnabled :: bool
  acOidcEnabled :: bool
  acHeaderEnabled :: bool
  acSessionTtlMinutes :: int
  acMcp :: mcp_config
  acOidc :: "oidc_config option"
  acHeader :: "header_config option"

record postgres_config =
  pgHost :: string
  pgPort :: int
  pgDatabase :: string
  pgUser :: string
  pgSsl :: bool

record agent_config =
  agBaseUrl :: string
  agTimeoutMs :: int
  agInsecure :: bool

record tls_config =
  tlsEnabled :: bool
  tlsCaFile :: "string option"
  tlsCertFile :: "string option"
  tlsKeyFile :: "string option"
  tlsInsecure :: bool

record key_files_config =
  kfCaFile :: "string option"
  kfMosquittoPublicKey :: "string option"
  kfBrokerPublicKey :: "string option"

record broker_config =
  bkHost :: string
  bkPort :: int
  bkDynsecAdminUsername :: string
  bkControlBinaryPath :: string
  bkAgent :: "agent_config option"
  bkDynsecStateFilePath :: string
  bkMainConfigPath :: string
  bkKeyFiles :: key_files_config
  bkReloadCommand :: "string list option"
  bkRestartCommand :: "string list option"
  bkMqttClientId :: string
  bkTls :: tls_config

record runtime_config =
  cfAppName :: string
  cfPublicBaseUrl :: string
  cfBasePath :: string
  cfHttpApi :: http_api_config
  cfUi :: ui_config
  cfLogging :: logging_config
  cfAuth :: auth_config
  cfPostgres :: "postgres_config option"
  cfBroker :: broker_config

record bootstrap_admin =
  baUsername :: "string option"
  baPassword :: "string option"
  baEmail :: "string option"

record runtime_secrets =
  secSessionSecret :: string
  secOidcClientSecret :: "string option"
  secPostgresPassword :: "string option"
  secDynsecAdminPassword :: string
  secAgentApiKey :: "string option"
  secBootstrapAdmin :: "bootstrap_admin option"

datatype db_kind = Sqlite | Postgres

record loaded_config =
  ldConfig :: runtime_config
  ldSecrets :: runtime_secrets
  ldDbKind :: db_kind
  ldSqlitePath :: string
  ldUiOverrideCssPath :: "string option"

section \<open>Defaults\<close>

definition default_console_sink :: console_sink where
  "default_console_sink = \<lparr>csEnabled = True, csLevels = [LogInfo, LogWarn, LogError], csFormat = TextFormat\<rparr>"

definition default_file_sink :: file_sink where
  "default_file_sink = \<lparr>fsEnabled = False, fsLevels = [LogInfo, LogWarn, LogError], fsFormat = JsonFormat,
    fsPath = None\<rparr>"

definition default_curl_sink :: curl_sink where
  "default_curl_sink = \<lparr>usEnabled = False, usLevels = [LogError], usUrl = None, usMethod = ''POST'',
    usTimeoutMs = 2500\<rparr>"

definition default_kubernetes :: kubernetes_config where
  "default_kubernetes = \<lparr>k8sEnabled = False, k8sPodName = None, k8sDeployment = None, k8sNamespace = None,
    k8sPodIp = None, k8sPodIps = None, k8sNodeName = None\<rparr>"

definition default_logging :: logging_config where
  "default_logging = \<lparr>lgIncludeCorrelationId = True, lgIncludeUserAgent = True,
    lgIncludeNormalizedUsername = True, lgIncludeSessionExpiry = True, lgConsole = default_console_sink,
    lgFile = default_file_sink, lgCurl = default_curl_sink, lgKubernetes = default_kubernetes,
    lgFailedLoginAttempts = None, lgSuccessfulLogin = None\<rparr>"

definition default_http_api :: http_api_config where
  "default_http_api = \<lparr>haMode = BrowserMode, haBrowserBasePath = ''/api'', haProxyBasePath = ''/api-proxy'',
    haProxyUpstreamBaseUrl = None, haProxyUpstreamBasePath = ''/api''\<rparr>"

definition default_ui :: ui_config where
  "default_ui = \<lparr>uiThemeDark = True, uiDefaultFont = ''ui-mono'', uiLanguageFilePath = None,
    uiShowAssignmentPriorities = False\<rparr>"

definition default_mcp :: mcp_config where
  "default_mcp = \<lparr>mcEnabled = False, mcPublicKeyFile = ''/run/mqttctl-mcp-public/signing-public.pem'',
    mcKeyId = ''compose'', mcAudience = ''mqttctl-api'', mcMaxProofAgeSeconds = 30,
    mcClockSkewSeconds = 5, mcReplayCacheMaxEntries = 10000, mcHeartbeatStaleSeconds = 45\<rparr>"

definition default_tls :: tls_config where
  "default_tls = \<lparr>tlsEnabled = False, tlsCaFile = None, tlsCertFile = None, tlsKeyFile = None,
    tlsInsecure = False\<rparr>"

definition default_key_files :: key_files_config where
  "default_key_files = \<lparr>kfCaFile = None, kfMosquittoPublicKey = None, kfBrokerPublicKey = None\<rparr>"

section \<open>Refinements\<close>

definition stripSlashes :: "string \<Rightarrow> string" where
  "stripSlashes s = rev (dropWhile ((=) (CHR ''/'')) (rev (dropWhile ((=) (CHR ''/'')) s)))"

text \<open>The expression \<open>/^[a-z][a-z0-9+.-]*:/i\<close>: the text starts like an absolute URL.\<close>

definition is_letter :: "char \<Rightarrow> bool" where
  "is_letter c = (let n = (of_char c :: nat) in (65 \<le> n \<and> n \<le> 90) \<or> (97 \<le> n \<and> n \<le> 122))"

definition scheme_char :: "char \<Rightarrow> bool" where
  "scheme_char c = (is_letter c \<or> is_digit c \<or> c \<in> {CHR ''+'', CHR ''.'', CHR ''-''})"

definition has_scheme :: "string \<Rightarrow> bool" where
  "has_scheme s = (case s of [] \<Rightarrow> False
     | c # t \<Rightarrow> is_letter c \<and> (case dropWhile scheme_char t of [] \<Rightarrow> False | d # _ \<Rightarrow> d = CHR '':''))"

definition httpApiBasePath_ok :: "string \<Rightarrow> bool" where
  "httpApiBasePath_ok s = (let t = trim s in
     s \<noteq> [] \<and> stripSlashes t \<noteq> [] \<and> CHR ''?'' \<notin> set t \<and> CHR ''#'' \<notin> set t \<and> \<not> has_scheme t)"

definition opt_ok :: "('a \<Rightarrow> bool) \<Rightarrow> 'a option \<Rightarrow> bool" where
  "opt_ok p v = (case v of None \<Rightarrow> True | Some x \<Rightarrow> p x)"

abbreviation nonempty :: "'a list \<Rightarrow> bool" where
  "nonempty xs \<equiv> xs \<noteq> []"

definition kubernetes_ok :: "kubernetes_config \<Rightarrow> bool" where
  "kubernetes_ok k = (opt_ok nonempty (k8sPodName k) \<and> opt_ok nonempty (k8sDeployment k) \<and>
    opt_ok nonempty (k8sNamespace k) \<and> opt_ok nonempty (k8sPodIp k) \<and>
    opt_ok nonempty (k8sPodIps k) \<and> opt_ok nonempty (k8sNodeName k))"

text \<open>The issues of \<open>superRefine\<close>: their paths.\<close>

definition logging_issues :: "logging_config \<Rightarrow> string list" where
  "logging_issues l =
    (if fsEnabled (lgFile l) \<and> (fsPath (lgFile l) = None \<or> fsPath (lgFile l) = Some [])
     then [''sinks.file.path''] else []) @
    (if usEnabled (lgCurl l) \<and> (usUrl (lgCurl l) = None \<or> usUrl (lgCurl l) = Some [])
     then [''sinks.curl.url''] else [])"

definition auth_issues :: "auth_config \<Rightarrow> string list" where
  "auth_issues a =
    (if acHeaderEnabled a \<and> acOidcEnabled a then [''headerEnabled''] else []) @
    (if acLocalEnabled a \<or> acHeaderEnabled a \<or> acOidcEnabled a then [] else [''localEnabled''])"

definition mcp_config_ok :: "mcp_config \<Rightarrow> bool" where
  "mcp_config_ok m = (mcPublicKeyFile m \<noteq> [] \<and> mcKeyId m \<noteq> [] \<and> mcAudience m \<noteq> [] \<and>
    5 \<le> mcMaxProofAgeSeconds m \<and> mcMaxProofAgeSeconds m \<le> 300 \<and>
    0 \<le> mcClockSkewSeconds m \<and> mcClockSkewSeconds m \<le> 60 \<and>
    100 \<le> mcReplayCacheMaxEntries m \<and> mcReplayCacheMaxEntries m \<le> 100000 \<and>
    10 \<le> mcHeartbeatStaleSeconds m \<and> mcHeartbeatStaleSeconds m \<le> 300)"

definition logging_ok :: "'b platform \<Rightarrow> logging_config \<Rightarrow> bool" where
  "logging_ok P l = (csLevels (lgConsole l) \<noteq> [] \<and> fsLevels (lgFile l) \<noteq> [] \<and>
    opt_ok nonempty (fsPath (lgFile l)) \<and> usLevels (lgCurl l) \<noteq> [] \<and>
    opt_ok (\<lambda>u. parse_url P u None \<noteq> None) (usUrl (lgCurl l)) \<and> usMethod (lgCurl l) \<noteq> [] \<and>
    0 < usTimeoutMs (lgCurl l) \<and> kubernetes_ok (lgKubernetes l) \<and> logging_issues l = [])"

definition oidc_config_ok :: "'b platform \<Rightarrow> oidc_config \<Rightarrow> bool" where
  "oidc_config_ok P c = (parse_url P (ocIssuerUrl c) None \<noteq> None \<and> ocClientId c \<noteq> [] \<and>
    opt_ok (\<lambda>u. parse_url P u None \<noteq> None) (ocCallbackUrl c) \<and>
    opt_ok (\<lambda>u. parse_url P u None \<noteq> None) (ocAuthorizationEndpoint c) \<and>
    opt_ok (\<lambda>u. parse_url P u None \<noteq> None) (ocTokenEndpoint c) \<and>
    opt_ok (\<lambda>u. parse_url P u None \<noteq> None) (ocUserinfoEndpoint c) \<and>
    [] \<notin> set (ocScopes c) \<and> opt_ok nonempty (ocBootstrapAdminSubject c))"

definition auth_config_ok :: "'b platform \<Rightarrow> auth_config \<Rightarrow> bool" where
  "auth_config_ok P a = (0 < acSessionTtlMinutes a \<and> mcp_config_ok (acMcp a) \<and>
    opt_ok (oidc_config_ok P) (acOidc a) \<and>
    opt_ok (\<lambda>h. [] \<notin> set (hcTrustedCidrs h) \<and> [] \<notin> set (hcRequiredHeaders h)) (acHeader a) \<and>
    auth_issues a = [])"

definition broker_config_ok :: "'b platform \<Rightarrow> broker_config \<Rightarrow> bool" where
  "broker_config_ok P b = (bkHost b \<noteq> [] \<and> 0 < bkPort b \<and> bkDynsecAdminUsername b \<noteq> [] \<and>
    bkControlBinaryPath b \<noteq> [] \<and>
    opt_ok (\<lambda>a. parse_url P (agBaseUrl a) None \<noteq> None \<and> 0 < agTimeoutMs a) (bkAgent b) \<and>
    bkDynsecStateFilePath b \<noteq> [] \<and> bkMainConfigPath b \<noteq> [] \<and>
    opt_ok nonempty (kfCaFile (bkKeyFiles b)) \<and> opt_ok nonempty (kfMosquittoPublicKey (bkKeyFiles b)) \<and>
    opt_ok nonempty (kfBrokerPublicKey (bkKeyFiles b)) \<and>
    opt_ok (\<lambda>c. c \<noteq> [] \<and> [] \<notin> set c) (bkReloadCommand b) \<and>
    opt_ok (\<lambda>c. c \<noteq> [] \<and> [] \<notin> set c) (bkRestartCommand b) \<and> bkMqttClientId b \<noteq> [])"

definition config_ok :: "'b platform \<Rightarrow> runtime_config \<Rightarrow> bool" where
  "config_ok P c = (parse_url P (cfPublicBaseUrl c) None \<noteq> None \<and>
    httpApiBasePath_ok (haBrowserBasePath (cfHttpApi c)) \<and>
    httpApiBasePath_ok (haProxyBasePath (cfHttpApi c)) \<and>
    opt_ok (\<lambda>u. parse_url P u None \<noteq> None) (haProxyUpstreamBaseUrl (cfHttpApi c)) \<and>
    httpApiBasePath_ok (haProxyUpstreamBasePath (cfHttpApi c)) \<and>
    opt_ok nonempty (uiLanguageFilePath (cfUi c)) \<and> logging_ok P (cfLogging c) \<and>
    auth_config_ok P (cfAuth c) \<and>
    opt_ok (\<lambda>g. pgHost g \<noteq> [] \<and> 0 < pgPort g \<and> pgDatabase g \<noteq> [] \<and> pgUser g \<noteq> []) (cfPostgres c) \<and>
    broker_config_ok P (cfBroker c))"

definition secrets_ok :: "runtime_secrets \<Rightarrow> bool" where
  "secrets_ok s = (16 \<le> length (secSessionSecret s) \<and> opt_ok nonempty (secOidcClientSecret s) \<and>
    opt_ok nonempty (secPostgresPassword s) \<and> secDynsecAdminPassword s \<noteq> [] \<and>
    opt_ok nonempty (secAgentApiKey s) \<and>
    opt_ok (\<lambda>b. opt_ok nonempty (baUsername b) \<and> opt_ok nonempty (baPassword b)) (secBootstrapAdmin s))"

section \<open>Loading\<close>

definition parseBooleanOverride :: "string \<Rightarrow> bool" where
  "parseBooleanOverride v = (toLowerCase (trim v) \<in> {''1'', ''true'', ''yes'', ''on''})"

definition configError :: "string option \<Rightarrow> string \<Rightarrow> string \<Rightarrow> jsval \<Rightarrow> exn option \<Rightarrow> exn" where
  "configError corr reason key ctx cause = createAppError ''config::load'' reason key corr ctx 500 cause"

definition readJson5File ::
  "'b platform \<Rightarrow> (string \<Rightarrow> exn + jsval) \<Rightarrow> string \<Rightarrow> string \<Rightarrow> string option
    \<Rightarrow> (('b, 'z) base_world_scheme, jsval) io" where
  "readJson5File P json5 path key corr =
    catching (andThen (callOut (read_file P path)) (\<lambda>s. liftR (json5 s)))
      (\<lambda>e. raise (configError corr (''Failed loading JSON5 from '' @ path) key
                   (Obj [(''filePath'', Str path)]) (Some e)))"

definition override_mcp :: "(string \<Rightarrow> string option) \<Rightarrow> runtime_config \<Rightarrow> runtime_config" where
  "override_mcp getenv c =
    (let m = acMcp (cfAuth c);
         m1 = (case getenv ''MQTTCTL_MCP_AUTH_ENABLED'' of
                 None \<Rightarrow> m | Some v \<Rightarrow> m\<lparr>mcEnabled := parseBooleanOverride v\<rparr>);
         m2 = (case getenv ''MQTTCTL_MCP_PUBLIC_KEY_PATH'' of
                 None \<Rightarrow> m1
               | Some v \<Rightarrow> if trim v \<noteq> [] then m1\<lparr>mcPublicKeyFile := trim v\<rparr> else m1)
     in c\<lparr>cfAuth := (cfAuth c)\<lparr>acMcp := m2\<rparr>\<rparr>)"

definition missing :: "string option \<Rightarrow> bool" where
  "missing v = (v = None \<or> v = Some [])"

text \<open>The checks after parsing, in the order of the source; the first that fails is thrown.\<close>

definition crossCheck :: "db_kind \<Rightarrow> runtime_config \<Rightarrow> runtime_secrets \<Rightarrow> string option" where
  "crossCheck kind c s =
    (if acOidcEnabled (cfAuth c) \<and> acOidc (cfAuth c) = None
       then Some ''OIDC is enabled but config.auth.oidc is missing.''
     else if acHeaderEnabled (cfAuth c) \<and> acHeader (cfAuth c) = None
       then Some ''Header auth is enabled but config.auth.header is missing.''
     else if kind = Postgres \<and> (cfPostgres c = None \<or> missing (secPostgresPassword s))
       then Some ''Postgres mode requires config.database.postgres and secrets.postgresPassword.''
     else if acOidcEnabled (cfAuth c) \<and> missing (secOidcClientSecret s)
       then Some ''OIDC mode requires secrets.oidcClientSecret.''
     else if bkAgent (cfBroker c) \<noteq> None \<and> missing (secAgentApiKey s)
       then Some ''Broker agent mode requires secrets.broker.agentApiKey.''
     else if haMode (cfHttpApi c) = ProxyMode \<and> missing (haProxyUpstreamBaseUrl (cfHttpApi c))
       then Some ''HTTP API proxy mode requires config.httpApi.proxy.upstreamBaseUrl.''
     else None)"

definition env_or :: "(string \<Rightarrow> string option) \<Rightarrow> string \<Rightarrow> string \<Rightarrow> string" where
  "env_or getenv k d = (case getenv k of Some v \<Rightarrow> v | None \<Rightarrow> d)"

definition loadRuntimeConfig ::
  "'b platform \<Rightarrow> (string \<Rightarrow> exn + jsval) \<Rightarrow> (jsval \<Rightarrow> jsval + runtime_config)
    \<Rightarrow> (jsval \<Rightarrow> jsval + runtime_secrets) \<Rightarrow> (string \<Rightarrow> string option) \<Rightarrow> string option
    \<Rightarrow> (('b, 'z) base_world_scheme, loaded_config) io" where
  "loadRuntimeConfig P json5 safeParseConfig safeParseSecrets getenv corr =
    (let configPath = env_or getenv ''MQTTCTL_CONFIG_PATH'' [];
         secretsPath = env_or getenv ''MQTTCTL_SECRETS_PATH'' [];
         dbKind = (if getenv ''MQTTCTL_DB_KIND'' = Some ''postgres'' then Postgres else Sqlite);
         sqlitePath = env_or getenv ''MQTTCTL_SQLITE_PATH'' ''./var/mqttctl.sqlite'';
         css = getenv ''MQTTCTL_UI_OVERRIDE_CSS_PATH''
     in if configPath = [] \<or> secretsPath = [] then
          raise (configError corr ''MQTTCTL_CONFIG_PATH and MQTTCTL_SECRETS_PATH are required.''
            ''CONFIG_LOAD_FAILED''
            (Obj [(''configPath'', Str configPath), (''secretsPath'', Str secretsPath)]) None)
        else
          andThen (readJson5File P json5 configPath ''CONFIG_LOAD_FAILED'' corr) (\<lambda>rawConfig.
          andThen (readJson5File P json5 secretsPath ''CONFIG_LOAD_FAILED'' corr) (\<lambda>rawSecrets.
          (case safeParseConfig rawConfig of
             Inl issues \<Rightarrow> raise (configError corr ''Config JSON5 failed validation.''
               ''CONFIG_VALIDATION_FAILED'' issues None)
           | Inr c0 \<Rightarrow>
          (case safeParseSecrets rawSecrets of
             Inl issues \<Rightarrow> raise (configError corr ''Secrets JSON5 failed validation.''
               ''CONFIG_VALIDATION_FAILED'' issues None)
           | Inr s \<Rightarrow>
          (let c = override_mcp getenv c0 in
           case crossCheck dbKind c s of
             Some reason \<Rightarrow> raise (configError corr reason ''CONFIG_VALIDATION_FAILED'' Null None)
           | None \<Rightarrow> ret \<lparr>ldConfig = c, ldSecrets = s, ldDbKind = dbKind,
                         ldSqlitePath = sqlitePath, ldUiOverrideCssPath = css\<rparr>))))))"

text \<open>What the loader relies on of the schema library.\<close>

definition zod_enforces ::
  "'b platform \<Rightarrow> (jsval \<Rightarrow> jsval + runtime_config) \<Rightarrow> (jsval \<Rightarrow> jsval + runtime_secrets) \<Rightarrow> bool" where
  "zod_enforces P pc ps \<longleftrightarrow>
    (\<forall>v c. pc v = Inr c \<longrightarrow> config_ok P c) \<and> (\<forall>v s. ps v = Inr s \<longrightarrow> secrets_ok s)"

text \<open>What the services rely on of a loaded configuration.\<close>

definition loaded_ok :: "'b platform \<Rightarrow> loaded_config \<Rightarrow> bool" where
  "loaded_ok P l =
    (config_ok P (ldConfig l) \<and> secrets_ok (ldSecrets l) \<and>
     (acOidcEnabled (cfAuth (ldConfig l)) \<longrightarrow>
       acOidc (cfAuth (ldConfig l)) \<noteq> None \<and> \<not> missing (secOidcClientSecret (ldSecrets l))) \<and>
     (acHeaderEnabled (cfAuth (ldConfig l)) \<longrightarrow>
       acHeader (cfAuth (ldConfig l)) \<noteq> None \<and> \<not> acOidcEnabled (cfAuth (ldConfig l))) \<and>
     (ldDbKind l = Postgres \<longrightarrow>
       cfPostgres (ldConfig l) \<noteq> None \<and> \<not> missing (secPostgresPassword (ldSecrets l))) \<and>
     (bkAgent (cfBroker (ldConfig l)) \<noteq> None \<longrightarrow> \<not> missing (secAgentApiKey (ldSecrets l))) \<and>
     (haMode (cfHttpApi (ldConfig l)) = ProxyMode \<longrightarrow>
       \<not> missing (haProxyUpstreamBaseUrl (cfHttpApi (ldConfig l)))))"

lemma trim_nonempty_path: "mcp_config_ok m \<Longrightarrow> trim v \<noteq> [] \<Longrightarrow> mcp_config_ok (m\<lparr>mcPublicKeyFile := trim v\<rparr>)"
  by (simp add: mcp_config_ok_def)

lemma override_mcp_ok: "config_ok P c \<Longrightarrow> config_ok P (override_mcp getenv c)"
  by (auto simp: override_mcp_def Let_def config_ok_def auth_config_ok_def mcp_config_ok_def auth_issues_def
      split: option.splits)

lemma crossCheck_None:
  "crossCheck kind c s = None \<Longrightarrow> config_ok P c \<Longrightarrow> secrets_ok s \<Longrightarrow>
    loaded_ok P \<lparr>ldConfig = c, ldSecrets = s, ldDbKind = kind, ldSqlitePath = q, ldUiOverrideCssPath = u\<rparr>"
  by (auto simp: crossCheck_def loaded_ok_def config_ok_def auth_config_ok_def auth_issues_def
      split: if_splits)

section \<open>A sample configuration\<close>

definition sample_broker :: broker_config where
  "sample_broker = \<lparr>bkHost = ''broker'', bkPort = 1883, bkDynsecAdminUsername = ''admin'',
    bkControlBinaryPath = ''mosquitto_ctrl'', bkAgent = None, bkDynsecStateFilePath = ''/dynsec.json'',
    bkMainConfigPath = ''/mosquitto.conf'', bkKeyFiles = default_key_files, bkReloadCommand = None,
    bkRestartCommand = None, bkMqttClientId = ''mqttctl-admin'', bkTls = default_tls\<rparr>"

definition sample_auth :: auth_config where
  "sample_auth = \<lparr>acLocalEnabled = True, acOidcEnabled = False, acHeaderEnabled = False,
    acSessionTtlMinutes = 1440, acMcp = default_mcp, acOidc = None, acHeader = None\<rparr>"

definition sample_config :: runtime_config where
  "sample_config = \<lparr>cfAppName = ''mqttctl'', cfPublicBaseUrl = ''https://example.org'', cfBasePath = [],
    cfHttpApi = default_http_api, cfUi = default_ui, cfLogging = default_logging, cfAuth = sample_auth,
    cfPostgres = None, cfBroker = sample_broker\<rparr>"

definition sample_secrets :: runtime_secrets where
  "sample_secrets = \<lparr>secSessionSecret = ''0123456789abcdef'', secOidcClientSecret = None,
    secPostgresPassword = None, secDynsecAdminPassword = ''dynsec-secret'', secAgentApiKey = None,
    secBootstrapAdmin = None\<rparr>"

definition sample_loaded :: loaded_config where
  "sample_loaded = \<lparr>ldConfig = sample_config, ldSecrets = sample_secrets, ldDbKind = Sqlite,
    ldSqlitePath = ''./var/mqttctl.sqlite'', ldUiOverrideCssPath = None\<rparr>"

definition sample_base :: "sample_outside \<Rightarrow> sample_outside base_world" where
  "sample_base b = \<lparr>clock = 1000, draws = 0, logs = [], outside = b\<rparr>"

lemma sample_config_ok: "config_ok sample_platform sample_config"
proof -
  have "httpApiBasePath_ok ''/api''" "httpApiBasePath_ok ''/api-proxy''" by code_simp+
  moreover have "logging_ok sample_platform default_logging"
    by (simp add: logging_ok_def default_logging_def default_console_sink_def default_file_sink_def
        default_curl_sink_def default_kubernetes_def kubernetes_ok_def logging_issues_def opt_ok_def)
  moreover have "mcp_config_ok default_mcp" by (simp add: mcp_config_ok_def default_mcp_def)
  moreover have "broker_config_ok sample_platform sample_broker"
    by (simp add: broker_config_ok_def sample_broker_def default_key_files_def opt_ok_def)
  ultimately show ?thesis
    by (simp add: config_ok_def sample_config_def auth_config_ok_def sample_auth_def auth_issues_def
        default_http_api_def default_ui_def opt_ok_def sample_platform_def)
qed

lemma sample_secrets_ok: "secrets_ok sample_secrets"
  by (simp add: secrets_ok_def sample_secrets_def opt_ok_def)

section \<open>The loader's guarantee\<close>

text \<open>
  C37: a configuration the loader returns satisfies the schema and every condition across fields the
  services rely on (OIDC and header auth have their sections and are not both on, Postgres, the
  broker agent and proxy mode have their secrets and targets), also after the environment's
  overrides.
\<close>

theorem loadRuntimeConfig_ok:
  assumes "zod_enforces P pc ps"
    and "loadRuntimeConfig P json5 pc ps getenv corr w = (Inr l, w')"
  shows "loaded_ok P l"
proof -
  obtain v v' c0 s c where
    "pc v = Inr c0" "ps v' = Inr s" "c = override_mcp getenv c0" and
    l: "crossCheck (ldDbKind l) c s = None" "ldConfig l = c" "ldSecrets l = s"
    using assms(2)
    by (auto simp: loadRuntimeConfig_def Let_def split: if_splits sum.splits option.splits
        elim!: andThen_eq_InrE)
  then have "config_ok P c" "secrets_ok s"
    using assms(1) override_mcp_ok [of P c0 getenv] unfolding zod_enforces_def by blast+
  then show ?thesis
    using crossCheck_None [of "ldDbKind l" c s P "ldSqlitePath l" "ldUiOverrideCssPath l"] l
    by (metis (full_types) loaded_config.surjective old.unit.exhaust)
qed

definition sample_env :: "string \<Rightarrow> string option" where
  "sample_env k = map_of [(''MQTTCTL_CONFIG_PATH'', ''c.json5''), (''MQTTCTL_SECRETS_PATH'', ''s.json5''),
    (''MQTTCTL_MCP_AUTH_ENABLED'', '' Yes'')] k"

definition sample_files :: sample_outside where
  "sample_files = sample_start [(''c.json5'', ''{}''), (''s.json5'', ''{}'')] [] []"

theorem loadRuntimeConfig_ok_witness:
  "loaded_ok sample_platform
    \<lparr>ldConfig = override_mcp sample_env sample_config, ldSecrets = sample_secrets, ldDbKind = Sqlite,
     ldSqlitePath = ''./var/mqttctl.sqlite'', ldUiOverrideCssPath = None\<rparr>"
proof (rule loadRuntimeConfig_ok)
  show "zod_enforces sample_platform (\<lambda>v. Inr sample_config) (\<lambda>v. Inr sample_secrets)"
    using sample_config_ok sample_secrets_ok by (simp add: zod_enforces_def)
  have "crossCheck Sqlite (override_mcp sample_env sample_config) sample_secrets = None"
    by (simp add: crossCheck_def override_mcp_def sample_config_def sample_auth_def sample_broker_def
        default_http_api_def Let_def split: option.splits)
  then show "loadRuntimeConfig sample_platform (\<lambda>s. Inr Null) (\<lambda>v. Inr sample_config)
    (\<lambda>v. Inr sample_secrets) sample_env None (sample_base sample_files) =
    (Inr \<lparr>ldConfig = override_mcp sample_env sample_config, ldSecrets = sample_secrets,
      ldDbKind = Sqlite, ldSqlitePath = ''./var/mqttctl.sqlite'', ldUiOverrideCssPath = None\<rparr>,
     sample_base sample_files)"
    by (simp add: loadRuntimeConfig_def readJson5File_def sample_env_def env_or_def callOut_def
        sample_platform_def sample_files_def sample_start_def sample_base_def andThen_def catching_def Let_def)
qed

end
