(* ===== verification/Dates.thy ===== *)
theory Dates
  imports Js
begin

text \<open>
  \<open>Date.prototype.toISOString\<close> on milliseconds since 1970: the proleptic Gregorian calendar of
  ECMAScript, for the years 0 to 9999, which print with four digits. In that range the text order
  of two dates is the order of their times, so the tables whose dates are only compared keep the
  milliseconds.
\<close>

definition pad :: "nat \<Rightarrow> nat \<Rightarrow> string" where
  "pad k n = (let s = nat_str n in replicate (k - length s) (CHR ''0'') @ s)"

text \<open>Year, month and day of a day number, counted from 1970-01-01.\<close>

definition civil :: "int \<Rightarrow> int \<times> int \<times> int" where
  "civil z0 =
    (let z = z0 + 719468; era = z div 146097; doe = z mod 146097;
         yoe = (doe - doe div 1460 + doe div 36524 - doe div 146096) div 365;
         doy = doe - (365 * yoe + yoe div 4 - yoe div 100);
         mp = (5 * doy + 2) div 153;
         d = doy - (153 * mp + 2) div 5 + 1;
         m = (if mp < 10 then mp + 3 else mp - 9);
         y = yoe + era * 400 + (if m \<le> 2 then 1 else 0)
     in (y, m, d))"

definition toISOString :: "int \<Rightarrow> string" where
  "toISOString t =
    (let days = t div 86400000; ms = t mod 86400000 in
     case civil days of (y, m, d) \<Rightarrow>
       pad 4 (nat y) @ ''-'' @ pad 2 (nat m) @ ''-'' @ pad 2 (nat d) @ ''T'' @
       pad 2 (nat (ms div 3600000)) @ '':'' @ pad 2 (nat (ms div 60000 mod 60)) @ '':'' @
       pad 2 (nat (ms div 1000 mod 60)) @ ''.'' @ pad 3 (nat (ms mod 1000)) @ ''Z'')"

lemma toISOString_examples:
  "toISOString 0 = ''1970-01-01T00:00:00.000Z''"
  "toISOString 951782400000 = ''2000-02-29T00:00:00.000Z''"
  "toISOString 1735689599999 = ''2024-12-31T23:59:59.999Z''"
  by code_simp+

end
