(* ===== verification/Db.thy ===== *)
theory Db
  imports Config Dates
begin

text \<open>
  \<open>server/db/index.ts\<close>: the application's tables and one action per query method of
  \<open>AppDatabase\<close>.
  \<^item> A table is the list of its rows; primary keys, \<open>UNIQUE(username)\<close>, the foreign key
    \<open>sessions.user_id\<close> and its \<open>ON DELETE CASCADE\<close> are checked as SQLite and Postgres do. Columns
    with a fixed set of values (role, authentication method, the 0/1 flags) have that type; dates
    that are only compared are milliseconds.
  \<^item> Every statement can fail: \<open>dbFaults\<close> scripts which of the coming statements the database
    refuses (a lost connection, a full disk); the empty script is a healthy database. A refusal or a
    violated constraint is the \<open>DB_QUERY_FAILED\<close> error of \<open>execute\<close> and \<open>queryRows\<close>, with the
    statement and its parameters as context. The SQL text is given by its leading clause.
  \<^item> The schema migrations are not modelled: the tables have every column.
\<close>

section \<open>Tables\<close>

record user_row =
  uId :: string
  uUsername :: string
  uEmail :: "string option"
  uRole :: principal_role
  uAuthSource :: auth_method
  uExternalSubject :: "string option"
  uPasswordHash :: "string option"
  uProtected :: bool
  uDisabled :: bool
  uSessionVersion :: int
  uCreatedAt :: int
  uUpdatedAt :: int

record session_row =
  sId :: string
  sUserId :: string
  sAuthMethod :: auth_method
  sExpiresAt :: int
  sSessionVersion :: int
  sSourceIp :: "string option"
  sUserAgent :: "string option"
  sCreatedAt :: int
  sUpdatedAt :: int

record auth_request_row =
  arState :: string
  arCodeVerifier :: string
  arRedirectTo :: "string option"
  arCreatedAt :: int

record audit_row =
  aId :: string
  aSeq :: "int option"
  aTimestamp :: string
  aActorUsername :: "string option"
  aActorUserId :: "string option"
  aAuthMode :: "string option"
  aSourceIp :: "string option"
  aCorrelationId :: string
  aAction :: string
  aTargetType :: string
  aTargetId :: "string option"
  aBefore :: "string option"
  aAfter :: "string option"
  aCommandResult :: "string option"
  aPrev :: "string option"
  aHash :: "string option"
  aSuccess :: bool

datatype snapshot_kind = DynsecKind | BrokerConfigKind | CombinedKind

record snapshot_row =
  snId :: string
  snKind :: snapshot_kind
  snCreatedAt :: int
  snActorUsername :: "string option"
  snNote :: "string option"
  snPayload :: string

type_synonym settings_table = "((string \<times> string) \<times> (string \<times> int)) list"

record 'b db_world = "'b base_world" +
  users :: "user_row list"
  sessions :: "session_row list"
  auth_requests :: "auth_request_row list"
  audit_log :: "audit_row list"
  settings :: settings_table
  snapshots :: "snapshot_row list"
  dbFaults :: "bool list"

type_synonym ('b, 'z, 'a) dbio = "(('b, 'z) db_world_scheme, 'a) io"

section \<open>Statements\<close>

definition dbError :: "string \<Rightarrow> string \<Rightarrow> jsval list \<Rightarrow> string \<Rightarrow> exn" where
  "dbError caller stmt params msg =
    createAppError caller
      (if caller = ''db::execute'' then ''Database execute failed.'' else ''Database select failed.'')
      ''DB_QUERY_FAILED'' None (Obj [(''text'', Str stmt), (''params'', Arr params)]) 500
      (Some (PlainErr ''SqliteError'' msg None))"

text \<open>One statement sent to the database.\<close>

definition dbGate :: "string \<Rightarrow> string \<Rightarrow> jsval list \<Rightarrow> ('b, 'z, unit) dbio" where
  "dbGate caller stmt params = (\<lambda>w.
    (case dbFaults w of
       [] \<Rightarrow> (Inr (), w)
     | f # fs \<Rightarrow>
        (if f then Inl (dbError caller stmt params ''the database is unavailable'') else Inr (),
         w\<lparr>dbFaults := fs\<rparr>)))"

definition dbRead :: "string \<Rightarrow> jsval list \<Rightarrow> (('b, 'z) db_world_scheme \<Rightarrow> 'a) \<Rightarrow> ('b, 'z, 'a) dbio" where
  "dbRead stmt params f = andThen (dbGate ''db::queryRows'' stmt params) (\<lambda>_. gets f)"

text \<open>A write, with the constraint it violates, if any.\<close>

definition dbWrite ::
  "string \<Rightarrow> jsval list \<Rightarrow> (('b, 'z) db_world_scheme \<Rightarrow> string option)
    \<Rightarrow> (('b, 'z) db_world_scheme \<Rightarrow> ('b, 'z) db_world_scheme) \<Rightarrow> ('b, 'z, unit) dbio" where
  "dbWrite stmt params violation f =
    andThen (dbGate ''db::execute'' stmt params) (\<lambda>_.
    andThen (gets violation) (\<lambda>v.
      case v of Some msg \<Rightarrow> raise (dbError ''db::execute'' stmt params msg) | None \<Rightarrow> modify f))"

definition flag :: "bool \<Rightarrow> jsval" where
  "flag b = num_int (if b then 1 else 0)"

section \<open>Users\<close>

definition userKey :: "user_row \<Rightarrow> string" where
  "userKey = uId"

definition countUsers :: "('b, 'z, nat) dbio" where
  "countUsers = dbRead ''SELECT COUNT(*) FROM app_users'' []
    (\<lambda>w. length (filter (\<lambda>u. uAuthSource u \<noteq> McpAuth) (users w)))"

definition listUsers :: "('b, 'z, user_row list) dbio" where
  "listUsers = dbRead ''SELECT FROM app_users ORDER BY username ASC'' []
    (\<lambda>w. js_sort (\<lambda>a b. uUsername b < uUsername a) (users w))"

definition getUserById :: "string \<Rightarrow> ('b, 'z, user_row option) dbio" where
  "getUserById userId = dbRead ''SELECT FROM app_users WHERE id'' [Str userId]
    (\<lambda>w. List.find (\<lambda>u. uId u = userId) (users w))"

definition getUserByUsername :: "string \<Rightarrow> ('b, 'z, user_row option) dbio" where
  "getUserByUsername username = dbRead ''SELECT FROM app_users WHERE username'' [Str username]
    (\<lambda>w. List.find (\<lambda>u. uUsername u = username) (users w))"

definition getUserByExternalSubject :: "string \<Rightarrow> ('b, 'z, user_row option) dbio" where
  "getUserByExternalSubject subject = dbRead ''SELECT FROM app_users WHERE external_subject'' [Str subject]
    (\<lambda>w. List.find (\<lambda>u. uExternalSubject u = Some subject) (users w))"

definition insertUser :: "user_row \<Rightarrow> ('b, 'z, unit) dbio" where
  "insertUser u = dbWrite ''INSERT INTO app_users''
    [Str (uId u), Str (uUsername u), opt_str (uEmail u), Str (role_str (uRole u)),
     Str (auth_method_str (uAuthSource u)), opt_str (uExternalSubject u), opt_str (uPasswordHash u),
     flag (uProtected u), flag (uDisabled u), num_int (uSessionVersion u),
     Str (toISOString (uCreatedAt u)), Str (toISOString (uUpdatedAt u))]
    (\<lambda>w. if uId u \<in> set (map uId (users w)) then Some ''UNIQUE constraint failed: app_users.id''
         else if uUsername u \<in> set (map uUsername (users w)) then
           Some ''UNIQUE constraint failed: app_users.username''
         else None)
    (\<lambda>w. w\<lparr>users := users w @ [u]\<rparr>)"

definition map_user :: "string \<Rightarrow> (user_row \<Rightarrow> user_row) \<Rightarrow> user_row list \<Rightarrow> user_row list" where
  "map_user userId f us = map (\<lambda>u. if uId u = userId then f u else u) us"

definition updateUserRow ::
  "string \<Rightarrow> string option \<Rightarrow> principal_role \<Rightarrow> auth_method \<Rightarrow> string option \<Rightarrow> string option
    \<Rightarrow> bool \<Rightarrow> int \<Rightarrow> int \<Rightarrow> ('b, 'z, unit) dbio" where
  "updateUserRow userId email role src subject pwHash disabled version stamp =
    dbWrite ''UPDATE app_users''
      [opt_str email, Str (role_str role), Str (auth_method_str src), opt_str subject, opt_str pwHash,
       flag disabled, num_int version, Str (toISOString stamp), Str userId]
      (\<lambda>w. None)
      (\<lambda>w. w\<lparr>users := map_user userId (\<lambda>u. u\<lparr>uEmail := email, uRole := role, uAuthSource := src,
        uExternalSubject := subject, uPasswordHash := pwHash, uDisabled := disabled,
        uSessionVersion := version, uUpdatedAt := stamp\<rparr>) (users w)\<rparr>)"

text \<open>The foreign key of \<open>sessions\<close> cascades.\<close>

definition deleteUserRow :: "string \<Rightarrow> ('b, 'z, unit) dbio" where
  "deleteUserRow userId = dbWrite ''DELETE FROM app_users'' [Str userId] (\<lambda>w. None)
    (\<lambda>w. w\<lparr>users := filter (\<lambda>u. uId u \<noteq> userId) (users w),
           sessions := filter (\<lambda>s. sUserId s \<noteq> userId) (sessions w)\<rparr>)"

definition setUserProtectedFromAutoLink :: "string \<Rightarrow> bool \<Rightarrow> int \<Rightarrow> ('b, 'z, unit) dbio" where
  "setUserProtectedFromAutoLink userId protect stamp =
    dbWrite ''UPDATE app_users SET protected_from_auto_link''
      [flag protect, Str (toISOString stamp), Str userId] (\<lambda>w. None)
      (\<lambda>w. w\<lparr>users := map_user userId (\<lambda>u. u\<lparr>uProtected := protect, uUpdatedAt := stamp\<rparr>) (users w)\<rparr>)"

section \<open>Sessions and authentication requests\<close>

definition insertSession :: "session_row \<Rightarrow> ('b, 'z, unit) dbio" where
  "insertSession s = dbWrite ''INSERT INTO sessions''
    [Str (sId s), Str (sUserId s), Str (auth_method_str (sAuthMethod s)), Str (toISOString (sExpiresAt s)),
     num_int (sSessionVersion s), opt_str (sSourceIp s), opt_str (sUserAgent s),
     Str (toISOString (sCreatedAt s)), Str (toISOString (sUpdatedAt s))]
    (\<lambda>w. if sId s \<in> set (map sId (sessions w)) then Some ''UNIQUE constraint failed: sessions.id''
         else if sUserId s \<notin> set (map uId (users w)) then Some ''FOREIGN KEY constraint failed''
         else None)
    (\<lambda>w. w\<lparr>sessions := sessions w @ [s]\<rparr>)"

definition getSession :: "string \<Rightarrow> ('b, 'z, session_row option) dbio" where
  "getSession sessionId = dbRead ''SELECT FROM sessions WHERE id'' [Str sessionId]
    (\<lambda>w. List.find (\<lambda>s. sId s = sessionId) (sessions w))"

definition deleteSession :: "string \<Rightarrow> ('b, 'z, unit) dbio" where
  "deleteSession sessionId = dbWrite ''DELETE FROM sessions WHERE id'' [Str sessionId] (\<lambda>w. None)
    (\<lambda>w. w\<lparr>sessions := filter (\<lambda>s. sId s \<noteq> sessionId) (sessions w)\<rparr>)"

definition deleteSessionsForUser :: "string \<Rightarrow> ('b, 'z, unit) dbio" where
  "deleteSessionsForUser userId = dbWrite ''DELETE FROM sessions WHERE user_id'' [Str userId] (\<lambda>w. None)
    (\<lambda>w. w\<lparr>sessions := filter (\<lambda>s. sUserId s \<noteq> userId) (sessions w)\<rparr>)"

definition purgeExpiredSessions :: "int \<Rightarrow> ('b, 'z, unit) dbio" where
  "purgeExpiredSessions t = dbWrite ''DELETE FROM sessions WHERE expires_at'' [Str (toISOString t)]
    (\<lambda>w. None) (\<lambda>w. w\<lparr>sessions := filter (\<lambda>s. \<not> sExpiresAt s < t) (sessions w)\<rparr>)"

definition put_request :: "auth_request_row \<Rightarrow> auth_request_row list \<Rightarrow> auth_request_row list" where
  "put_request r rs =
    (if arState r \<in> set (map arState rs) then map (\<lambda>q. if arState q = arState r then r else q) rs
     else rs @ [r])"

definition upsertAuthRequest :: "auth_request_row \<Rightarrow> ('b, 'z, unit) dbio" where
  "upsertAuthRequest r = dbWrite ''INSERT INTO auth_requests''
    [Str (arState r), Str (arCodeVerifier r), opt_str (arRedirectTo r), Str (toISOString (arCreatedAt r))]
    (\<lambda>w. None) (\<lambda>w. w\<lparr>auth_requests := put_request r (auth_requests w)\<rparr>)"

definition getAuthRequest :: "string \<Rightarrow> ('b, 'z, auth_request_row option) dbio" where
  "getAuthRequest st = dbRead ''SELECT FROM auth_requests WHERE state'' [Str st]
    (\<lambda>w. List.find (\<lambda>r. arState r = st) (auth_requests w))"

definition deleteAuthRequest :: "string \<Rightarrow> ('b, 'z, unit) dbio" where
  "deleteAuthRequest st = dbWrite ''DELETE FROM auth_requests WHERE state'' [Str st] (\<lambda>w. None)
    (\<lambda>w. w\<lparr>auth_requests := filter (\<lambda>r. arState r \<noteq> st) (auth_requests w)\<rparr>)"

definition purgeOldAuthRequests :: "int \<Rightarrow> ('b, 'z, unit) dbio" where
  "purgeOldAuthRequests olderThan =
    dbWrite ''DELETE FROM auth_requests WHERE created_at'' [Str (toISOString olderThan)] (\<lambda>w. None)
      (\<lambda>w. w\<lparr>auth_requests := filter (\<lambda>r. \<not> arCreatedAt r < olderThan) (auth_requests w)\<rparr>)"

section \<open>Settings\<close>

definition getSetting :: "string \<Rightarrow> string \<Rightarrow> ('b, 'z, jsval) dbio" where
  "getSetting scope key = dbRead ''SELECT FROM settings'' [Str scope, Str key]
    (\<lambda>w. case map_of (settings w) (scope, key) of
           None \<Rightarrow> Null | Some (json, _) \<Rightarrow> parseJsonSafe (Some json) Null)"

text \<open>\<open>undefined\<close> has no JSON text: the column is \<open>NOT NULL\<close>.\<close>

definition setSetting :: "string \<Rightarrow> string \<Rightarrow> jsval \<Rightarrow> int \<Rightarrow> ('b, 'z, unit) dbio" where
  "setSetting scope key v stamp = dbWrite ''INSERT INTO settings''
    [Str scope, Str key, opt_str (jsonStringify v), Str (toISOString stamp)]
    (\<lambda>w. if v = Undef then Some ''NOT NULL constraint failed: settings.value_json'' else None)
    (\<lambda>w. w\<lparr>settings := AList.update (scope, key) (json_text v, stamp) (settings w)\<rparr>)"

section \<open>Snapshots\<close>

fun snapshot_kind_str :: "snapshot_kind \<Rightarrow> string" where
  "snapshot_kind_str DynsecKind = ''dynsec''"
| "snapshot_kind_str BrokerConfigKind = ''broker-config''"
| "snapshot_kind_str CombinedKind = ''combined''"

definition insertSnapshot :: "snapshot_row \<Rightarrow> ('b, 'z, unit) dbio" where
  "insertSnapshot s = dbWrite ''INSERT INTO snapshots''
    [Str (snId s), Str (snapshot_kind_str (snKind s)), Str (toISOString (snCreatedAt s)),
     opt_str (snActorUsername s), opt_str (snNote s), Str (snPayload s)]
    (\<lambda>w. if snId s \<in> set (map snId (snapshots w)) then Some ''UNIQUE constraint failed: snapshots.id''
         else None)
    (\<lambda>w. w\<lparr>snapshots := snapshots w @ [s]\<rparr>)"

definition listSnapshotRows :: "nat \<Rightarrow> ('b, 'z, snapshot_row list) dbio" where
  "listSnapshotRows limit = dbRead ''SELECT FROM snapshots ORDER BY created_at DESC'' [num_int (int limit)]
    (\<lambda>w. take limit (js_sort (\<lambda>a b. snCreatedAt a < snCreatedAt b) (snapshots w)))"

definition getSnapshotPayload :: "string \<Rightarrow> ('b, 'z, jsval) dbio" where
  "getSnapshotPayload snapshotId = dbRead ''SELECT payload_json FROM snapshots'' [Str snapshotId]
    (\<lambda>w. case List.find (\<lambda>s. snId s = snapshotId) (snapshots w) of
           None \<Rightarrow> Null | Some s \<Rightarrow> parseJsonSafe (Some (snPayload s)) Null)"

section \<open>Frames of the statements\<close>

lemma dbGate_healthy [simp]: "dbFaults w = [] \<Longrightarrow> dbGate c s ps w = (Inr (), w)"
  by (simp add: dbGate_def)

lemma dbRead_healthy [simp]: "dbFaults w = [] \<Longrightarrow> dbRead s ps f w = (Inr (f w), w)"
  by (simp add: dbRead_def andThen_def)

lemma dbWrite_healthy:
  "dbFaults w = [] \<Longrightarrow> dbWrite s ps v f w =
    (case v w of Some msg \<Rightarrow> (Inl (dbError ''db::execute'' s ps msg), w) | None \<Rightarrow> (Inr (), f w))"
  by (simp add: dbWrite_def andThen_def split: option.splits)

lemma dbGate_cases:
  "dbGate c s ps w = (r, w') \<Longrightarrow> \<exists>fs. w' = w\<lparr>dbFaults := fs\<rparr>"
proof -
  assume g: "dbGate c s ps w = (r, w')"
  have same: "\<exists>fs. w = w\<lparr>dbFaults := fs\<rparr>" by (rule exI [of _ "dbFaults w"]) simp
  then show ?thesis using g by (cases "dbFaults w") (auto simp: dbGate_def)
qed

lemma dbRead_InrD:
  "dbRead s ps f w = (Inr x, w') \<Longrightarrow> \<exists>fs. w' = w\<lparr>dbFaults := fs\<rparr> \<and> x = f w'"
  unfolding dbRead_def by (elim andThen_eq_InrE) (auto dest: dbGate_cases)

lemma dbWrite_InrD:
  "dbWrite s ps v f w = (Inr x, w') \<Longrightarrow>
    \<exists>fs. v (w\<lparr>dbFaults := fs\<rparr>) = None \<and> w' = f (w\<lparr>dbFaults := fs\<rparr>)"
  unfolding dbWrite_def by (elim andThen_eq_InrE) (auto dest: dbGate_cases split: option.splits)

lemma keeps_dbGate:
  "(\<And>w fs. g (w\<lparr>dbFaults := fs\<rparr>) = g w) \<Longrightarrow> keeps g (dbGate c s ps)"
  by (rule keepsI) (auto simp: dbGate_def split: list.splits if_splits)

lemma keeps_dbRead [along_intros]:
  "(\<And>w fs. g (w\<lparr>dbFaults := fs\<rparr>) = g w) \<Longrightarrow> keeps g (dbRead s ps f)"
  unfolding dbRead_def by (intro keeps_intros keeps_dbGate)

lemma keeps_dbWrite [along_intros]:
  "(\<And>w fs. g (w\<lparr>dbFaults := fs\<rparr>) = g w) \<Longrightarrow> (\<And>w. g (f w) = g w) \<Longrightarrow> keeps g (dbWrite s ps v f)"
  unfolding dbWrite_def by (intro keeps_intros keeps_dbGate) (auto split: option.split intro: keeps_intros)

lemma preserves_dbRead [along_intros]:
  "(\<And>w fs. J w \<Longrightarrow> J (w\<lparr>dbFaults := fs\<rparr>)) \<Longrightarrow> preserves J (dbRead s ps f)"
  by (rule preservesI) (auto simp: dbRead_def dbGate_def andThen_def split: list.splits if_splits)

lemma preserves_dbWrite [along_intros]:
  assumes "\<And>w fs. J w \<Longrightarrow> J (w\<lparr>dbFaults := fs\<rparr>)"
    and "\<And>w. J w \<Longrightarrow> v w = None \<Longrightarrow> J (f w)"
  shows "preserves J (dbWrite s ps v f)"
  by (rule preservesI)
    (use assms in \<open>auto simp: dbWrite_def dbGate_def andThen_def split: list.splits if_splits option.splits\<close>)

lemmas db_defs = countUsers_def listUsers_def getUserById_def getUserByUsername_def
  getUserByExternalSubject_def insertUser_def updateUserRow_def deleteUserRow_def
  setUserProtectedFromAutoLink_def insertSession_def getSession_def deleteSession_def
  deleteSessionsForUser_def purgeExpiredSessions_def upsertAuthRequest_def getAuthRequest_def
  deleteAuthRequest_def purgeOldAuthRequests_def getSetting_def setSetting_def insertSnapshot_def
  listSnapshotRows_def getSnapshotPayload_def

section \<open>Integrity\<close>

text \<open>The constraints of the schema, on every table.\<close>

definition db_ok :: "('b, 'z) db_world_scheme \<Rightarrow> bool" where
  "db_ok w \<longleftrightarrow>
    distinct (map uId (users w)) \<and> distinct (map uUsername (users w)) \<and>
    distinct (map sId (sessions w)) \<and> sUserId ` set (sessions w) \<subseteq> uId ` set (users w) \<and>
    distinct (map arState (auth_requests w)) \<and> om_ok (settings w) \<and>
    distinct (map snId (snapshots w))"

lemma db_ok_frame:
  "users w' = users w \<Longrightarrow> sessions w' = sessions w \<Longrightarrow> auth_requests w' = auth_requests w \<Longrightarrow>
    settings w' = settings w \<Longrightarrow> snapshots w' = snapshots w \<Longrightarrow> db_ok w \<Longrightarrow> db_ok w'"
  by (simp add: db_ok_def)

lemma map_user_ids [simp]: "(\<And>u. uId (f u) = uId u) \<Longrightarrow> map uId (map_user k f us) = map uId us"
  by (simp add: map_user_def)

lemma map_user_names [simp]:
  "(\<And>u. uUsername (f u) = uUsername u) \<Longrightarrow> map uUsername (map_user k f us) = map uUsername us"
  by (simp add: map_user_def)

lemma map_user_id_set: "(\<And>u. uId (f u) = uId u) \<Longrightarrow> uId ` set (map_user k f us) = uId ` set us"
  by (metis map_user_ids image_set)

lemma put_request_states:
  "map arState (put_request r rs) =
    (if arState r \<in> set (map arState rs) then map arState rs else map arState rs @ [arState r])"
  by (auto simp: put_request_def)

lemma distinct_map_filterI: "distinct (map f xs) \<Longrightarrow> distinct (map f (filter P xs))"
  by (rule distinct_map_filter)

lemma db_ok_users_update:
  assumes "db_ok w" "\<And>u. uId (f u) = uId u" "\<And>u. uUsername (f u) = uUsername u"
  shows "db_ok (w\<lparr>users := map_user k f (users w)\<rparr>)"
  using assms by (simp add: db_ok_def map_user_id_set)

lemma preserves_db_ok_write [along_intros]:
  "preserves db_ok (insertUser u)"
  "preserves db_ok (updateUserRow k em ro sr su ph di ve st)"
  "preserves db_ok (deleteUserRow k)"
  "preserves db_ok (setUserProtectedFromAutoLink k pr st)"
  "preserves db_ok (insertSession s)"
  "preserves db_ok (deleteSession k)"
  "preserves db_ok (deleteSessionsForUser k)"
  "preserves db_ok (purgeExpiredSessions st)"
  "preserves db_ok (upsertAuthRequest r)"
  "preserves db_ok (deleteAuthRequest k)"
  "preserves db_ok (purgeOldAuthRequests st)"
  "preserves db_ok (setSetting a b v st)"
  "preserves db_ok (insertSnapshot sn)"
  unfolding db_defs
  by (intro along_intros; auto simp: db_ok_def distinct_map_filterI map_user_id_set put_request_states
      omap.ok_put split: if_splits)+

lemma preserves_db_ok_read [along_intros]:
  "preserves db_ok countUsers" "preserves db_ok listUsers" "preserves db_ok (getUserById k)"
  "preserves db_ok (getUserByUsername n)" "preserves db_ok (getUserByExternalSubject n)"
  "preserves db_ok (getSession k)" "preserves db_ok (getAuthRequest k)"
  "preserves db_ok (getSetting a b)" "preserves db_ok (listSnapshotRows l)"
  "preserves db_ok (getSnapshotPayload k)"
  unfolding db_defs by (intro along_intros; simp add: db_ok_def)+

definition sample_db :: "sample_outside \<Rightarrow> sample_outside db_world" where
  "sample_db b = \<lparr>clock = 1000, draws = 0, logs = [], outside = b, users = [], sessions = [],
    auth_requests = [], audit_log = [], settings = [], snapshots = [], dbFaults = []\<rparr>"

lemma sample_db_ok: "db_ok (sample_db b)"
  by (simp add: db_ok_def sample_db_def)

section \<open>Settings are a keyed store of JSON values\<close>

lemma parseJsonSafe_text: "json_ok v \<Longrightarrow> parseJsonSafe (Some (json_text v)) d = v"
  using json_text_length [of v] by (auto simp: parseJsonSafe_def jsonParse_json_text)

text \<open>
  A setting reads back as the value that was stored under its scope and key, whatever was stored
  there before, and storing it leaves every other setting as it was.
\<close>

theorem setting_roundtrip:
  assumes "dbFaults w = []" and "om_ok (settings w)" and "json_ok v"
  shows "outcome (andThen (setSetting scope key v stamp) (\<lambda>_. getSetting scope' key')) w =
    (if (scope', key') = (scope, key) then Inr v else outcome (getSetting scope' key') w)"
proof -
  have v: "v \<noteq> Undef" using assms(3) by auto
  let ?w = "w\<lparr>settings := AList.update (scope, key) (json_text v, stamp) (settings w)\<rparr>"
  have "setSetting scope key v stamp w = (Inr (), ?w)"
    using assms(1) v by (simp add: setSetting_def dbWrite_healthy)
  moreover have "map_of (settings ?w) k =
    (if k = (scope, key) then Some (json_text v, stamp) else map_of (settings w) k)" for k
    using omap.look_put [OF assms(2), of "(scope, key)" "(json_text v, stamp)" k] by simp
  ultimately show ?thesis
    using assms(1) parseJsonSafe_text [OF assms(3)]
    by (simp add: outcome_def andThen_def getSetting_def)
qed

theorem setting_roundtrip_witness:
  "outcome (andThen (setSetting ''dynsec'' ''flag'' (Bool True) 5) (\<lambda>_. getSetting ''dynsec'' ''flag''))
    (sample_db (sample_start [] [] [])) = Inr (Bool True)"
  using setting_roundtrip [of "sample_db (sample_start [] [] [])" "Bool True" "''dynsec''" "''flag''" 5
      "''dynsec''" "''flag''"]
  by (simp add: sample_db_def)

end
