(* ===== verification/Redact.thy ===== *)
theory Redact
  imports Json
begin

text \<open>
  The redaction of secrets, written once: \<open>redactLogSecrets\<close> (\<open>server/logging/logger.ts\<close>) and
  \<open>redactAuditSecrets\<close> (\<open>server/audit/service.ts\<close>) are the same recursion with two sets of keys.
  \<open>exposes\<close> says that a value carries something else than the token under a sensitive key.
\<close>

definition redactedToken :: string where
  "redactedToken = ''<redacted>''"

fun redactBy :: "(string \<Rightarrow> bool) \<Rightarrow> jsval \<Rightarrow> jsval" where
  "redactBy sens (Arr vs) = Arr (map (redactBy sens) vs)"
| "redactBy sens (Obj kvs) =
    Obj (map (\<lambda>kv. (fst kv, if sens (fst kv) then Str redactedToken else redactBy sens (snd kv))) kvs)"
| "redactBy sens v = v"

text \<open>The key without \<open>_\<close> and \<open>-\<close>, in lower case.\<close>

definition plainKey :: "string \<Rightarrow> string" where
  "plainKey key = toLowerCase (filter (\<lambda>c. c \<noteq> CHR ''_'' \<and> c \<noteq> CHR ''-'') key)"

definition sensitiveLogKeySet :: "string list" where
  "sensitiveLogKeySet = [''password'', ''passwordhash'', ''secret'', ''sessionsecret'', ''clientsecret'',
    ''apikey'', ''token'', ''accesstoken'', ''refreshtoken'', ''codeverifier'', ''authorization'',
    ''cookie'', ''setcookie'']"

definition isSensitiveLogKey :: "string \<Rightarrow> bool" where
  "isSensitiveLogKey key = (plainKey key \<in> set sensitiveLogKeySet)"

definition redactLogSecrets :: "jsval \<Rightarrow> jsval" where
  "redactLogSecrets v = redactBy isSensitiveLogKey v"

definition sensitiveAuditKeySet :: "string list" where
  "sensitiveAuditKeySet = [''password'', ''passwordhash'', ''secret'', ''sessionsecret'', ''clientsecret'',
    ''apikey'', ''token'', ''accesstoken'', ''refreshtoken'', ''codeverifier'', ''authorization'']"

definition isSensitiveAuditKey :: "string \<Rightarrow> bool" where
  "isSensitiveAuditKey key = (plainKey key \<in> set sensitiveAuditKeySet)"

definition redactAuditSecrets :: "jsval \<Rightarrow> jsval" where
  "redactAuditSecrets v = redactBy isSensitiveAuditKey v"

section \<open>What redaction guarantees\<close>

fun exposes :: "(string \<Rightarrow> bool) \<Rightarrow> jsval \<Rightarrow> bool" where
  "exposes sens (Arr vs) = list_ex (exposes sens) vs"
| "exposes sens (Obj kvs) =
    list_ex (\<lambda>kv. (sens (fst kv) \<and> snd kv \<noteq> Str redactedToken) \<or> exposes sens (snd kv)) kvs"
| "exposes sens v = False"

lemma redactBy_safe: "\<not> exposes sens (redactBy sens v)"
  by (induction sens v rule: redactBy.induct) (auto simp: list_ex_iff)

lemma redactBy_id: "\<not> exposes sens v \<Longrightarrow> redactBy sens v = v"
  by (induction sens v rule: redactBy.induct) (auto simp: list_ex_iff intro!: map_idI)

lemma redactBy_idem: "redactBy sens (redactBy sens v) = redactBy sens v"
  by (rule redactBy_id) (rule redactBy_safe)

lemma redactBy_json_ok: "json_ok v \<Longrightarrow> json_ok (redactBy sens v)"
  by (induction sens v rule: redactBy.induct) (auto simp: list_all_iff comp_def)

lemma redactBy_mono: "(\<And>k. s1 k \<Longrightarrow> s2 k) \<Longrightarrow> exposes s1 v \<Longrightarrow> exposes s2 v"
  by (induction s1 v rule: exposes.induct) (auto simp: list_ex_iff)

lemma audit_keys_log_keys: "isSensitiveAuditKey k \<Longrightarrow> isSensitiveLogKey k"
  by (auto simp: isSensitiveAuditKey_def isSensitiveLogKey_def sensitiveAuditKeySet_def sensitiveLogKeySet_def)

end
