(* ===== verification/AuditLog.thy ===== *)
theory AuditLog
  imports Db Redact "HOL-Library.Option_ord" "HOL-Library.Product_Lexorder"
begin

text \<open>
  The audit log: its hash chain in \<open>server/db/index.ts\<close> (append, backfill, verify, list) and the
  service over it, \<open>server/audit/service.ts\<close> (redaction, attribution, the write queue, pages and
  exports).
  \<^item> \<open>chained\<close> is the chain's specification: numbers from 0, each row linked to the hash of the one
    before and carrying its own. Appending keeps it, the backfill establishes it from any table, and
    two chained logs of one length and one latest hash have the same contents (\<open>tamper_evidence\<close>)
    when the hash has no collisions.
  \<^item> \<open>audit_step\<close> are the interleavings of concurrent \<open>record\<close> calls: a write reads the latest row
    and inserts later; the write queue lets one run at a time.
\<close>

section \<open>The hash chain\<close>

text \<open>\<open>undefined\<close> is the outer \<open>None\<close>, SQL \<open>NULL\<close> the inner: \<open>Number(null)\<close> is 0.\<close>

definition toAuditSequenceNumber :: "int option option \<Rightarrow> int \<Rightarrow> int" where
  "toAuditSequenceNumber v fallback =
    (case v of None \<Rightarrow> fallback | Some None \<Rightarrow> 0 | Some (Some n) \<Rightarrow> n)"

definition parseAuditSummaryJson :: "string option \<Rightarrow> jsval" where
  "parseAuditSummaryJson v = parseJsonSafe v Null"

definition str_or :: "string \<Rightarrow> string option \<Rightarrow> string" where
  "str_or d v = (case v of None \<Rightarrow> d | Some s \<Rightarrow> s)"

definition audit_target :: "string \<Rightarrow> string option \<Rightarrow> string" where
  "audit_target ty tid = (case tid of None \<Rightarrow> ty | Some i \<Rightarrow> if i = [] then ty else ty @ '': '' @ i)"

definition buildAuditHashPayload :: "audit_row \<Rightarrow> string option \<Rightarrow> jsval" where
  "buildAuditHashPayload r prev = Obj
    [(''time'', Str (aTimestamp r)), (''author'', Str (str_or ''System'' (aActorUsername r))),
     (''authorUserId'', opt_str (aActorUserId r)), (''auth'', Str (str_or ''N/A'' (aAuthMode r))),
     (''ip'', Str (str_or ''N/A'' (aSourceIp r))), (''action'', Str (aAction r)),
     (''targetType'', Str (aTargetType r)), (''targetId'', opt_str (aTargetId r)),
     (''target'', Str (audit_target (aTargetType r) (aTargetId r))),
     (''result'', Str (if aSuccess r then ''success'' else ''failed'')),
     (''correlation'', Str (aCorrelationId r)), (''before'', parseAuditSummaryJson (aBefore r)),
     (''after'', parseAuditSummaryJson (aAfter r)),
     (''commandResult'', parseAuditSummaryJson (aCommandResult r)), (''previousHash'', opt_str prev)]"

definition computeAuditEntryHash :: "'b platform \<Rightarrow> audit_row \<Rightarrow> string option \<Rightarrow> string" where
  "computeAuditEntryHash P r prev = sha256_hex P (json_text (buildAuditHashPayload r prev))"

definition asc_key :: "audit_row \<Rightarrow> int option \<times> string \<times> string" where
  "asc_key r = (aSeq r, aTimestamp r, aId r)"

definition by_sequence :: "audit_row list \<Rightarrow> audit_row list" where
  "by_sequence rs = js_sort (\<lambda>a b. asc_key b < asc_key a) rs"

definition by_sequence_desc :: "audit_row list \<Rightarrow> audit_row list" where
  "by_sequence_desc rs = js_sort (\<lambda>a b. asc_key a < asc_key b) rs"

definition by_time :: "audit_row list \<Rightarrow> audit_row list" where
  "by_time rs = js_sort (\<lambda>a b. (aTimestamp b, aId b) < (aTimestamp a, aId a)) rs"

section \<open>Backfill, append, verify\<close>

definition setAuditChain :: "string \<Rightarrow> int \<Rightarrow> string option \<Rightarrow> string \<Rightarrow> ('b, 'z, unit) dbio" where
  "setAuditChain rid i prev h = dbWrite ''UPDATE audit_log''
    [num_int i, opt_str prev, Str h, Str rid] (\<lambda>w. None)
    (\<lambda>w. w\<lparr>audit_log := map (\<lambda>r. if aId r = rid then r\<lparr>aSeq := Some i, aPrev := prev, aHash := Some h\<rparr>
                              else r) (audit_log w)\<rparr>)"

fun backfill_rows :: "'b platform \<Rightarrow> int \<Rightarrow> string option \<Rightarrow> audit_row list \<Rightarrow> ('b, 'z, unit) dbio" where
  "backfill_rows P i prev [] = ret ()"
| "backfill_rows P i prev (r # rs) =
    (let h = computeAuditEntryHash P r prev in
     andThen (whenever (toAuditSequenceNumber (Some (aSeq r)) (-1) \<noteq> i \<or> aPrev r \<noteq> prev \<or> aHash r \<noteq> Some h)
       (setAuditChain (aId r) i prev h)) (\<lambda>_.
     backfill_rows P (i + 1) (Some h) rs))"

definition backfillAuditLogChain :: "'b platform \<Rightarrow> ('b, 'z, unit) dbio" where
  "backfillAuditLogChain P =
    andThen (dbRead ''SELECT FROM audit_log ORDER BY timestamp ASC, id ASC'' [] (\<lambda>w. by_time (audit_log w)))
      (\<lambda>rows. backfill_rows P 0 None rows)"

definition initializeDb :: "'b platform \<Rightarrow> string option \<Rightarrow> ('b, 'z, unit) dbio" where
  "initializeDb P corr = catching (backfillAuditLogChain P)
    (\<lambda>e. raise (createAppError ''db::initialize'' ''Failed bootstrapping the application database.''
      ''DB_BOOTSTRAP_FAILED'' corr Null 500 (Some e)))"

text \<open>
  \<open>appendAudit\<close> is two statements: the latest row's number and hash are read, then the row is
  inserted with its links filled in.
\<close>

definition latestAudit :: "('b, 'z, audit_row option) dbio" where
  "latestAudit = dbRead ''SELECT sequence_number, entry_hash FROM audit_log ORDER BY sequence_number DESC LIMIT 1'' []
    (\<lambda>w. case by_sequence_desc (audit_log w) of [] \<Rightarrow> None | r # _ \<Rightarrow> Some r)"

definition linkEntry :: "'b platform \<Rightarrow> audit_row option \<Rightarrow> audit_row \<Rightarrow> audit_row" where
  "linkEntry P latest r =
    (let prev = (case latest of None \<Rightarrow> None | Some l \<Rightarrow> aHash l) in
     r\<lparr>aSeq := Some (toAuditSequenceNumber (map_option aSeq latest) (-1) + 1), aPrev := prev,
       aHash := Some (computeAuditEntryHash P r prev)\<rparr>)"

definition insertAudit :: "audit_row \<Rightarrow> ('b, 'z, unit) dbio" where
  "insertAudit r = dbWrite ''INSERT INTO audit_log''
    [Str (aId r), opt_int (aSeq r), Str (aTimestamp r), opt_str (aActorUsername r), opt_str (aActorUserId r),
     opt_str (aAuthMode r), opt_str (aSourceIp r), Str (aCorrelationId r), Str (aAction r),
     Str (aTargetType r), opt_str (aTargetId r), opt_str (aBefore r), opt_str (aAfter r),
     opt_str (aCommandResult r), opt_str (aPrev r), opt_str (aHash r), flag (aSuccess r)]
    (\<lambda>w. if aId r \<in> set (map aId (audit_log w)) then Some ''UNIQUE constraint failed: audit_log.id'' else None)
    (\<lambda>w. w\<lparr>audit_log := audit_log w @ [r]\<rparr>)"

definition appendAudit :: "'b platform \<Rightarrow> audit_row \<Rightarrow> ('b, 'z, unit) dbio" where
  "appendAudit P r = andThen latestAudit (\<lambda>latest. insertAudit (linkEntry P latest r))"

definition listAuditEntries :: "nat option \<Rightarrow> ('b, 'z, audit_row list) dbio" where
  "listAuditEntries limit = dbRead ''SELECT FROM audit_log ORDER BY sequence_number DESC''
    (case limit of None \<Rightarrow> [] | Some n \<Rightarrow> [num_int (int n)])
    (\<lambda>w. let rs = by_sequence_desc (audit_log w) in case limit of None \<Rightarrow> rs | Some n \<Rightarrow> take n rs)"

definition countAuditEntries :: "('b, 'z, nat) dbio" where
  "countAuditEntries = dbRead ''SELECT COUNT(*) FROM audit_log'' [] (\<lambda>w. length (audit_log w))"

record integrity_status =
  isVerified :: bool
  isTotalVerified :: nat
  isLatestHash :: "string option"

fun verify_rows :: "'b platform \<Rightarrow> nat \<Rightarrow> string option \<Rightarrow> audit_row list \<Rightarrow> integrity_status" where
  "verify_rows P i prev [] = \<lparr>isVerified = True, isTotalVerified = i, isLatestHash = prev\<rparr>"
| "verify_rows P i prev (r # rs) =
    (let expected = computeAuditEntryHash P r prev in
     if toAuditSequenceNumber (Some (aSeq r)) (-1) \<noteq> int i \<or> aPrev r \<noteq> prev \<or> aHash r \<noteq> Some expected
     then \<lparr>isVerified = False, isTotalVerified = i, isLatestHash = prev\<rparr>
     else verify_rows P (Suc i) (Some expected) rs)"

definition verifyAuditIntegrity :: "'b platform \<Rightarrow> ('b, 'z, integrity_status) dbio" where
  "verifyAuditIntegrity P =
    dbRead ''SELECT FROM audit_log ORDER BY sequence_number ASC, timestamp ASC, id ASC'' []
      (\<lambda>w. verify_rows P 0 None (by_sequence (audit_log w)))"

section \<open>The chain's specification\<close>

fun chained :: "'b platform \<Rightarrow> nat \<Rightarrow> string option \<Rightarrow> audit_row list \<Rightarrow> bool" where
  "chained P i prev [] = True"
| "chained P i prev (r # rs) =
    (toAuditSequenceNumber (Some (aSeq r)) (-1) = int i \<and> aPrev r = prev \<and>
     aHash r = Some (computeAuditEntryHash P r prev) \<and>
     chained P (Suc i) (Some (computeAuditEntryHash P r prev)) rs)"

fun chain_end :: "'b platform \<Rightarrow> string option \<Rightarrow> audit_row list \<Rightarrow> string option" where
  "chain_end P prev [] = prev"
| "chain_end P prev (r # rs) = chain_end P (Some (computeAuditEntryHash P r prev)) rs"

definition audit_ok :: "'b platform \<Rightarrow> audit_row list \<Rightarrow> bool" where
  "audit_ok P rs = (distinct (map aId rs) \<and> chained P 0 None (by_sequence rs))"

lemma verify_rows_iff: "isVerified (verify_rows P i prev rs) \<longleftrightarrow> chained P i prev rs"
  by (induction rs arbitrary: i prev) (auto simp: Let_def)

lemma verify_rows_chained:
  "chained P i prev rs \<Longrightarrow> verify_rows P i prev rs =
    \<lparr>isVerified = True, isTotalVerified = i + length rs, isLatestHash = chain_end P prev rs\<rparr>"
  by (induction rs arbitrary: i prev) (simp_all add: Let_def)

text \<open>Where the log is broken, the verified prefix is exactly the longest chained one.\<close>

lemma verify_rows_prefix:
  "isTotalVerified (verify_rows P i prev rs) = i + n \<Longrightarrow> n \<le> length rs \<and> chained P i prev (take n rs) \<and>
    (n < length rs \<longrightarrow> \<not> chained P i prev (take (Suc n) rs))"
proof (induction rs arbitrary: i prev n)
  case Nil
  then show ?case by simp
next
  case (Cons r rs)
  let ?h = "computeAuditEntryHash P r prev"
  show ?case
  proof (cases "toAuditSequenceNumber (Some (aSeq r)) (-1) = int i \<and> aPrev r = prev \<and> aHash r = Some ?h")
    case True
    then have v: "verify_rows P i prev (r # rs) = verify_rows P (Suc i) (Some ?h) rs" by (simp add: Let_def)
    have ge: "isTotalVerified (verify_rows P j q xs) \<ge> j" for j q xs
      by (induction xs arbitrary: j q) (auto simp: Let_def intro: Suc_leD)
    obtain m where n: "n = Suc m" using Cons.prems v ge [of "Suc i" "Some ?h" rs] by (cases n) auto
    then show ?thesis using Cons.IH [of "Suc i" "Some ?h" m] Cons.prems v True by simp
  next
    case False
    then show ?thesis using Cons.prems by (auto simp: Let_def split: if_splits)
  qed
qed

lemma chained_append:
  "chained P i prev (rs @ qs) \<longleftrightarrow> chained P i prev rs \<and> chained P (i + length rs) (chain_end P prev rs) qs"
  by (induction rs arbitrary: i prev) auto

lemma chain_end_append: "chain_end P prev (rs @ qs) = chain_end P (chain_end P prev rs) qs"
  by (induction rs arbitrary: prev) auto

lemma toAuditSequenceNumber_row:
  "toAuditSequenceNumber (Some v) d = (case v of None \<Rightarrow> 0 | Some n \<Rightarrow> n)"
  by (simp add: toAuditSequenceNumber_def split: option.splits)

lemma chained_numbers:
  "chained P i prev rs \<Longrightarrow> r \<in> set rs \<Longrightarrow> aSeq r < Some (int (i + length rs))"
proof (induction rs arbitrary: i prev)
  case Nil
  then show ?case by simp
next
  case (Cons q rs)
  show ?case
  proof (cases "r = q")
    case True
    then show ?thesis using Cons.prems by (auto simp: toAuditSequenceNumber_row split: option.splits)
  next
    case False
    then have "aSeq r < Some (int (Suc i + length rs))"
      using Cons.IH [of "Suc i"] Cons.prems by auto
    then show ?thesis by simp
  qed
qed

lemma chained_last:
  assumes "chained P i prev rs" "rs \<noteq> []"
  shows "toAuditSequenceNumber (Some (aSeq (last rs))) (-1) = int (i + length rs) - 1"
    and "aHash (last rs) = chain_end P prev rs"
  using assms
proof (induction rs arbitrary: i prev)
  case (Cons r rs)
  case 1
  then show ?case using Cons.IH(1) [of "Suc i" "Some (computeAuditEntryHash P r prev)"] by auto
next
  case (Cons r rs)
  case 2
  then show ?case using Cons.IH(2) [of "Suc i" "Some (computeAuditEntryHash P r prev)"] by auto
qed simp_all

section \<open>Appending\<close>

lemma asc_key_distinct: "distinct (map aId rs) \<Longrightarrow> distinct (map asc_key rs)"
  by (induction rs) (auto simp: asc_key_def)

lemma by_sequence_desc_rev: "distinct (map aId rs) \<Longrightarrow> by_sequence_desc rs = rev (by_sequence rs)"
  unfolding by_sequence_desc_def by_sequence_def by (intro js_sort_desc asc_key_distinct)

lemma by_sequence_set [simp]: "set (by_sequence rs) = set rs" "length (by_sequence rs) = length rs"
  by (simp_all add: by_sequence_def)

definition latest_of :: "audit_row list \<Rightarrow> audit_row option" where
  "latest_of rs = (case by_sequence_desc rs of [] \<Rightarrow> None | r # _ \<Rightarrow> Some r)"

lemma hash_ignores_links:
  "computeAuditEntryHash P (r\<lparr>aSeq := s, aPrev := p, aHash := h\<rparr>) prev = computeAuditEntryHash P r prev"
  by (simp add: computeAuditEntryHash_def buildAuditHashPayload_def)

lemma latest_of_chained:
  assumes "audit_ok P rs"
  shows "toAuditSequenceNumber (map_option aSeq (latest_of rs)) (-1) + 1 = int (length rs)"
    and "(case latest_of rs of None \<Rightarrow> None | Some l \<Rightarrow> aHash l) = chain_end P None (by_sequence rs)"
proof -
  have rev: "by_sequence_desc rs = rev (by_sequence rs)"
    using assms by (simp add: audit_ok_def by_sequence_desc_rev)
  have ch: "chained P 0 None (by_sequence rs)" using assms by (simp add: audit_ok_def)
  have len: "length (by_sequence rs) = length rs" by simp
  show "toAuditSequenceNumber (map_option aSeq (latest_of rs)) (-1) + 1 = int (length rs)"
  proof (cases "by_sequence rs = []")
    case True
    then show ?thesis using rev len by (simp add: latest_of_def toAuditSequenceNumber_def)
  next
    case False
    then have "latest_of rs = Some (last (by_sequence rs))"
      using rev by (cases "by_sequence rs" rule: rev_cases) (simp_all add: latest_of_def)
    then show ?thesis using chained_last(1) [OF ch False] len by simp
  qed
  show "(case latest_of rs of None \<Rightarrow> None | Some l \<Rightarrow> aHash l) = chain_end P None (by_sequence rs)"
  proof (cases "by_sequence rs = []")
    case True
    then show ?thesis using rev by (simp add: latest_of_def)
  next
    case False
    then have "latest_of rs = Some (last (by_sequence rs))"
      using rev by (cases "by_sequence rs" rule: rev_cases) (simp_all add: latest_of_def)
    then show ?thesis using chained_last(2) [OF ch False] by simp
  qed
qed

lemma linkEntry_id [simp]: "aId (linkEntry P l r) = aId r"
  by (simp add: linkEntry_def Let_def)

lemma audit_ok_append:
  assumes ok: "audit_ok P rs" and new: "aId r \<notin> set (map aId rs)"
  shows "by_sequence (rs @ [linkEntry P (latest_of rs) r]) = by_sequence rs @ [linkEntry P (latest_of rs) r]"
    and "audit_ok P (rs @ [linkEntry P (latest_of rs) r])"
proof -
  let ?e = "linkEntry P (latest_of rs) r"
  have ch: "chained P 0 None (by_sequence rs)" using ok by (simp add: audit_ok_def)
  have e: "aSeq ?e = Some (int (length rs))" "aPrev ?e = chain_end P None (by_sequence rs)"
    "aHash ?e = Some (computeAuditEntryHash P ?e (chain_end P None (by_sequence rs)))"
    using latest_of_chained [OF ok] by (simp_all add: linkEntry_def Let_def hash_ignores_links)
  have "\<not> asc_key ?e < asc_key x" if "x \<in> set rs" for x
  proof -
    have "aSeq x < aSeq ?e" using chained_numbers [OF ch, of x] that e(1) by simp
    then show ?thesis by (auto simp: asc_key_def)
  qed
  then show s: "by_sequence (rs @ [?e]) = by_sequence rs @ [?e]"
    unfolding by_sequence_def by (rule js_sort_snoc)
  have "chained P 0 None (by_sequence rs @ [?e])"
    using ch e by (simp add: chained_append toAuditSequenceNumber_row)
  then show "audit_ok P (rs @ [?e])"
    using ok new s by (simp add: audit_ok_def)
qed

lemma latestAudit_healthy [simp]:
  "dbFaults w = [] \<Longrightarrow> latestAudit w = (Inr (latest_of (audit_log w)), w)"
  by (simp add: latestAudit_def latest_of_def)

lemma insertAudit_healthy:
  "dbFaults w = [] \<Longrightarrow> aId r \<notin> set (map aId (audit_log w)) \<Longrightarrow>
    insertAudit r w = (Inr (), w\<lparr>audit_log := audit_log w @ [r]\<rparr>)"
  by (simp add: insertAudit_def dbWrite_healthy)

lemma appendAudit_healthy:
  assumes "dbFaults w = []" "aId r \<notin> set (map aId (audit_log w))"
  shows "appendAudit P r w =
    (Inr (), w\<lparr>audit_log := audit_log w @ [linkEntry P (latest_of (audit_log w)) r]\<rparr>)"
  using assms by (simp add: appendAudit_def andThen_def insertAudit_healthy)

lemma appendAudit_result:
  "appendAudit P r w = (res, w') \<Longrightarrow>
    audit_log w' = audit_log w \<or>
    (res = Inr () \<and> aId r \<notin> set (map aId (audit_log w)) \<and>
     audit_log w' = audit_log w @ [linkEntry P (latest_of (audit_log w)) r])"
  by (auto simp: appendAudit_def latestAudit_def latest_of_def insertAudit_def dbRead_def dbWrite_def dbGate_def
      andThen_def split: list.splits if_splits)

text \<open>Whatever fails on the way, an append leaves a chained log chained.\<close>

lemma appendAudit_keeps_chain: "preserves (\<lambda>w. audit_ok P (audit_log w)) (appendAudit P r)"
  by (rule preservesI) (auto dest!: appendAudit_result simp: audit_ok_append)

section \<open>Backfilling\<close>

definition relink :: "'b platform \<Rightarrow> int \<Rightarrow> string option \<Rightarrow> audit_row \<Rightarrow> audit_row" where
  "relink P i prev r =
    (let h = computeAuditEntryHash P r prev in
     if toAuditSequenceNumber (Some (aSeq r)) (-1) \<noteq> i \<or> aPrev r \<noteq> prev \<or> aHash r \<noteq> Some h
     then r\<lparr>aSeq := Some i, aPrev := prev, aHash := Some h\<rparr> else r)"

fun link_rows :: "'b platform \<Rightarrow> int \<Rightarrow> string option \<Rightarrow> audit_row list \<Rightarrow> audit_row list" where
  "link_rows P i prev [] = []"
| "link_rows P i prev (r # rs) =
    relink P i prev r # link_rows P (i + 1) (Some (computeAuditEntryHash P r prev)) rs"

lemma relink_id [simp]: "aId (relink P i prev r) = aId r"
  by (simp add: relink_def Let_def)

lemma map_id_link_rows [simp]: "map aId (link_rows P i prev rs) = map aId rs"
  by (induction rs arbitrary: i prev) simp_all

lemma hash_relink: "computeAuditEntryHash P (relink P i prev r) q = computeAuditEntryHash P r q"
  by (simp add: relink_def Let_def hash_ignores_links)

lemma link_rows_chained: "chained P i prev (link_rows P (int i) prev rs)"
proof (induction rs arbitrary: i prev)
  case Nil
  then show ?case by simp
next
  case (Cons r rs)
  have "toAuditSequenceNumber (Some (aSeq (relink P (int i) prev r))) (-1) = int i \<and>
    aPrev (relink P (int i) prev r) = prev \<and>
    aHash (relink P (int i) prev r) = Some (computeAuditEntryHash P r prev)"
    by (auto simp: relink_def Let_def toAuditSequenceNumber_row)
  then show ?case
    using Cons.IH [of "Suc i" "Some (computeAuditEntryHash P r prev)"] by (simp add: hash_relink add.commute)
qed

lemma relink_content: "buildAuditHashPayload (relink P i prev r) q = buildAuditHashPayload r q"
  by (simp add: relink_def Let_def buildAuditHashPayload_def)

definition replace_by_id :: "audit_row list \<Rightarrow> audit_row list \<Rightarrow> audit_row list" where
  "replace_by_id new rs = map (\<lambda>x. case List.find (\<lambda>y. aId y = aId x) new of None \<Rightarrow> x | Some y \<Rightarrow> y) rs"

lemma replace_by_id_Cons:
  assumes "aId y \<notin> set (map aId new)"
  shows "replace_by_id (y # new) rs = replace_by_id new (map (\<lambda>x. if aId x = aId y then y else x) rs)"
proof -
  have "List.find (\<lambda>z. aId z = aId y) new = None" using assms by (auto simp: find_None image_iff)
  then show ?thesis by (auto simp: replace_by_id_def)
qed

lemma backfill_rows_healthy:
  assumes "dbFaults w = []" "distinct (map aId rs)" "set rs \<subseteq> set (audit_log w)"
    and "distinct (map aId (audit_log w))"
  shows "backfill_rows P i prev rs w =
    (Inr (), w\<lparr>audit_log := replace_by_id (link_rows P i prev rs) (audit_log w)\<rparr>)"
  using assms
proof (induction rs arbitrary: i prev w)
  case Nil
  then show ?case by (simp add: replace_by_id_def)
next
  case (Cons r rs)
  let ?h = "computeAuditEntryHash P r prev"
  let ?w1 = "w\<lparr>audit_log := map (\<lambda>x. if aId x = aId r then relink P i prev r else x) (audit_log w)\<rparr>"
  have r: "r \<in> set (audit_log w)" using Cons.prems(3) by simp
  have same: "x = r" if "x \<in> set (audit_log w)" "aId x = aId r" for x
    using Cons.prems(4) r that by (auto simp: distinct_map inj_on_def)
  have step: "whenever (toAuditSequenceNumber (Some (aSeq r)) (-1) \<noteq> i \<or> aPrev r \<noteq> prev \<or> aHash r \<noteq> Some ?h)
      (setAuditChain (aId r) i prev ?h) w = (Inr (), ?w1)"
  proof (cases "toAuditSequenceNumber (Some (aSeq r)) (-1) \<noteq> i \<or> aPrev r \<noteq> prev \<or> aHash r \<noteq> Some ?h")
    case True
    then have "relink P i prev r = r\<lparr>aSeq := Some i, aPrev := prev, aHash := Some ?h\<rparr>"
      by (auto simp: relink_def Let_def)
    then have "map (\<lambda>x. if aId x = aId r then x\<lparr>aSeq := Some i, aPrev := prev, aHash := Some ?h\<rparr> else x)
        (audit_log w) = map (\<lambda>x. if aId x = aId r then relink P i prev r else x) (audit_log w)"
      using same by auto
    then show ?thesis using True Cons.prems(1) by (simp add: setAuditChain_def dbWrite_healthy)
  next
    case False
    then have "relink P i prev r = r" by (simp add: relink_def Let_def)
    then have "map (\<lambda>x. if aId x = aId r then relink P i prev r else x) (audit_log w) = audit_log w"
      using same by (intro map_idI) auto
    then show ?thesis using False by simp
  qed
  have ids: "map aId (audit_log ?w1) = map aId (audit_log w)" by simp
  then have dist: "distinct (map aId (audit_log ?w1))" using Cons.prems(4) by (simp only:)
  have sub: "set rs \<subseteq> set (audit_log ?w1)"
  proof
    fix x
    assume x: "x \<in> set rs"
    then have "aId x \<noteq> aId r" using Cons.prems(2) by (metis distinct.simps(2) image_eqI image_set list.simps(9))
    then show "x \<in> set (audit_log ?w1)" using x Cons.prems(3) by force
  qed
  have "backfill_rows P (i + 1) (Some ?h) rs ?w1 = (Inr (), ?w1\<lparr>audit_log :=
      replace_by_id (link_rows P (i + 1) (Some ?h) rs) (audit_log ?w1)\<rparr>)"
    by (rule Cons.IH [OF _ _ sub dist]) (use Cons.prems in simp_all)
  moreover have "aId (relink P i prev r) \<notin> set (map aId (link_rows P (i + 1) (Some ?h) rs))"
    using Cons.prems(2) by (simp only: map_id_link_rows relink_id) simp
  then have "replace_by_id (relink P i prev r # link_rows P (i + 1) (Some ?h) rs) (audit_log w) =
      replace_by_id (link_rows P (i + 1) (Some ?h) rs) (audit_log ?w1)"
    by (simp add: replace_by_id_Cons)
  ultimately show ?case using step by (simp add: Let_def)
qed

lemma chained_lower:
  "chained P i prev rs \<Longrightarrow> 0 < i \<Longrightarrow> q \<in> set rs \<Longrightarrow> Some (int i) \<le> aSeq q"
proof (induction rs arbitrary: i prev)
  case Nil
  then show ?case by simp
next
  case (Cons r rs)
  show ?case
  proof (cases "q = r")
    case True
    then show ?thesis using Cons.prems by (auto simp: toAuditSequenceNumber_row split: option.splits)
  next
    case False
    then have "Some (int (Suc i)) \<le> aSeq q" using Cons.IH [of "Suc i"] Cons.prems by auto
    then show ?thesis by (cases "aSeq q") auto
  qed
qed

lemma chained_sorted: "chained P i prev rs \<Longrightarrow> sorted (map asc_key rs)"
proof (induction rs arbitrary: i prev)
  case Nil
  then show ?case by simp
next
  case (Cons r rs)
  have "asc_key r \<le> asc_key q" if "q \<in> set rs" for q
  proof -
    have "Some (int (Suc i)) \<le> aSeq q" using Cons.prems that chained_lower [of P "Suc i" _ rs q] by auto
    moreover have "aSeq r < Some (int (Suc i))"
      using Cons.prems by (auto simp: toAuditSequenceNumber_row split: option.splits)
    ultimately show ?thesis by (auto simp: asc_key_def)
  qed
  then show ?case using Cons by auto
qed

lemma set_replace_by_id:
  assumes "distinct (map aId new)" "set (map aId new) = set (map aId rs)"
  shows "set (replace_by_id new rs) = set new"
proof (intro equalityI subsetI)
  fix x
  assume "x \<in> set (replace_by_id new rs)"
  then obtain r where r: "r \<in> set rs"
    "x = (case List.find (\<lambda>y. aId y = aId r) new of None \<Rightarrow> r | Some y \<Rightarrow> y)"
    by (auto simp: replace_by_id_def)
  have "aId r \<in> set (map aId new)" using r(1) assms(2) by simp
  then obtain y where "y \<in> set new" "aId y = aId r" by auto
  then have "List.find (\<lambda>y. aId y = aId r) new = Some y" using assms(1) by (intro find_distinct)
  then show "x \<in> set new" using r \<open>y \<in> set new\<close> by simp
next
  fix y
  assume y: "y \<in> set new"
  then have "aId y \<in> set (map aId rs)" using assms(2) by auto
  then obtain r where r: "r \<in> set rs" "aId r = aId y" by auto
  then have "List.find (\<lambda>z. aId z = aId r) new = Some y" using assms(1) y by (intro find_distinct) simp_all
  then show "y \<in> set (replace_by_id new rs)" using r by (force simp: replace_by_id_def)
qed

lemma ids_replace_by_id: "map aId (replace_by_id new rs) = map aId rs"
  by (auto simp: replace_by_id_def split: option.splits dest: find_Some_set)

lemma by_sequence_relinked:
  assumes "distinct (map aId rs)"
  shows "by_sequence (replace_by_id (link_rows P 0 None (by_time rs)) rs) = link_rows P 0 None (by_time rs)"
proof -
  let ?new = "link_rows P 0 None (by_time rs)"
  have ids: "distinct (map aId ?new)" "set (map aId ?new) = set (map aId rs)"
    using assms by (simp_all only: map_id_link_rows) (simp_all add: by_time_def)
  have d: "distinct (map aId (replace_by_id ?new rs))"
    using assms by (simp only: ids_replace_by_id)
  have "mset ?new = mset (replace_by_id ?new rs)"
    using set_replace_by_id [OF ids] ids(1) d
    by (metis distinct_map set_eq_iff_mset_eq_distinct)
  moreover have "sorted (map asc_key ?new)"
    using link_rows_chained [of P 0 None "by_time rs"] by (auto intro: chained_sorted)
  ultimately show ?thesis
    unfolding by_sequence_def using asc_key_distinct [OF d] by (intro js_sort_unique) simp_all
qed

lemma backfill_healthy:
  assumes "dbFaults w = []" "distinct (map aId (audit_log w))"
  shows "backfillAuditLogChain P w = (Inr (), w\<lparr>audit_log :=
    replace_by_id (link_rows P 0 None (by_time (audit_log w))) (audit_log w)\<rparr>)"
proof -
  have "distinct (map aId (by_time (audit_log w)))" using assms(2) by (simp add: by_time_def)
  moreover have "set (by_time (audit_log w)) \<subseteq> set (audit_log w)" by (simp add: by_time_def)
  ultimately show ?thesis
    using assms backfill_rows_healthy by (simp add: backfillAuditLogChain_def andThen_def)
qed

lemma backfill_audit_ok:
  assumes "distinct (map aId rs)"
  shows "audit_ok P (replace_by_id (link_rows P 0 None (by_time rs)) rs)"
  using assms link_rows_chained [of P 0 None "by_time rs"]
  by (simp add: audit_ok_def by_sequence_relinked ids_replace_by_id)

lemma link_rows_content:
  "y \<in> set (link_rows P i prev qs) \<Longrightarrow>
    \<exists>r \<in> set qs. aId y = aId r \<and> buildAuditHashPayload y q = buildAuditHashPayload r q"
  by (induction qs arbitrary: i prev) (auto simp: relink_content)

lemma replace_content:
  assumes "distinct (map aId rs)" "set qs = set rs"
  shows "map (\<lambda>r. buildAuditHashPayload r q) (replace_by_id (link_rows P i prev qs) rs) =
    map (\<lambda>r. buildAuditHashPayload r q) rs"
proof -
  have "buildAuditHashPayload y q = buildAuditHashPayload x q"
    if "x \<in> set rs" "List.find (\<lambda>y. aId y = aId x) (link_rows P i prev qs) = Some y" for x y
  proof -
    have y: "y \<in> set (link_rows P i prev qs)" "aId y = aId x" using find_Some_set [OF that(2)] by auto
    obtain r where r: "r \<in> set rs" "aId y = aId r" "buildAuditHashPayload y q = buildAuditHashPayload r q"
      using link_rows_content [OF y(1), of q] assms(2) by auto
    have "r = x" using r(1,2) y(2) that(1) assms(1) by (auto simp: distinct_map inj_on_def)
    then show ?thesis using r(3) by simp
  qed
  then show ?thesis by (auto simp: replace_by_id_def split: option.splits)
qed

section \<open>Tampering\<close>

definition row_json_ok :: "audit_row \<Rightarrow> bool" where
  "row_json_ok r = (json_ok (parseAuditSummaryJson (aBefore r)) \<and> json_ok (parseAuditSummaryJson (aAfter r)) \<and>
    json_ok (parseAuditSummaryJson (aCommandResult r)))"

lemma json_ok_opt_str [simp]: "json_ok (opt_str v)"
  by (cases v) (simp_all add: opt_str_def)

lemma opt_str_inj [simp]: "opt_str a = opt_str b \<longleftrightarrow> a = b"
  by (cases a; cases b) (simp_all add: opt_str_def)

lemma payload_json_ok: "row_json_ok r \<Longrightarrow> json_ok (buildAuditHashPayload r prev)"
  by (simp add: buildAuditHashPayload_def row_json_ok_def)

lemma payload_prev: "buildAuditHashPayload r p = buildAuditHashPayload s q \<Longrightarrow> p = q"
  by (simp add: buildAuditHashPayload_def)

lemma json_text_inj: "json_ok a \<Longrightarrow> json_ok b \<Longrightarrow> json_text a = json_text b \<Longrightarrow> a = b"
  by (metis jsonParse_json_text sum.inject(2))

lemma hash_inj:
  assumes "inj (sha256_hex P)" "row_json_ok r" "row_json_ok s"
    and "computeAuditEntryHash P r p = computeAuditEntryHash P s q"
  shows "buildAuditHashPayload r p = buildAuditHashPayload s q"
  using assms payload_json_ok json_text_inj unfolding computeAuditEntryHash_def inj_def by blast

fun payloads :: "'b platform \<Rightarrow> string option \<Rightarrow> audit_row list \<Rightarrow> jsval list" where
  "payloads P prev [] = []"
| "payloads P prev (r # rs) =
    buildAuditHashPayload r prev # payloads P (Some (computeAuditEntryHash P r prev)) rs"

lemma payloads_append: "payloads P prev (rs @ qs) = payloads P prev rs @ payloads P (chain_end P prev rs) qs"
  by (induction rs arbitrary: prev) auto

lemma chain_end_determines:
  assumes "inj (sha256_hex P)"
  shows "length rs = length qs \<Longrightarrow> list_all row_json_ok rs \<Longrightarrow> list_all row_json_ok qs \<Longrightarrow>
    chain_end P None rs = chain_end P None qs \<Longrightarrow> payloads P None rs = payloads P None qs"
proof (induction rs arbitrary: qs rule: rev_induct)
  case Nil
  then show ?case by simp
next
  case (snoc r rs)
  then obtain s ss where qs: "qs = ss @ [s]" by (cases qs rule: rev_cases) auto
  have "computeAuditEntryHash P r (chain_end P None rs) = computeAuditEntryHash P s (chain_end P None ss)"
    using snoc.prems qs by (simp add: chain_end_append)
  then have pay: "buildAuditHashPayload r (chain_end P None rs) = buildAuditHashPayload s (chain_end P None ss)"
    using snoc.prems qs by (intro hash_inj [OF assms]) auto
  then have "payloads P None rs = payloads P None ss"
    using snoc qs by (auto dest: payload_prev)
  then show ?case using pay qs by (simp add: payloads_append)
qed

lemma chained_payloads:
  "chained P i prev rs \<Longrightarrow> payloads P prev rs = map (\<lambda>r. buildAuditHashPayload r (aPrev r)) rs"
  by (induction rs arbitrary: i prev) auto

section \<open>The service\<close>

datatype audit_limit = Limit10 | Limit20 | Limit50 | Limit100 | LimitAll

definition auditEntryLimitOptions :: "(string \<times> audit_limit) list" where
  "auditEntryLimitOptions =
    [(''10'', Limit10), (''20'', Limit20), (''50'', Limit50), (''100'', Limit100), (''all'', LimitAll)]"

definition parseAuditEntryLimitValue :: "string option \<Rightarrow> audit_limit" where
  "parseAuditEntryLimitValue v =
    (case map_of auditEntryLimitOptions (str_or [] v) of Some l \<Rightarrow> l | None \<Rightarrow> Limit20)"

fun resolveAuditEntryLimit :: "audit_limit \<Rightarrow> nat option" where
  "resolveAuditEntryLimit Limit10 = Some 10"
| "resolveAuditEntryLimit Limit20 = Some 20"
| "resolveAuditEntryLimit Limit50 = Some 50"
| "resolveAuditEntryLimit Limit100 = Some 100"
| "resolveAuditEntryLimit LimitAll = None"

definition buildAuditIndexFilter :: "audit_limit \<Rightarrow> int \<times> int" where
  "buildAuditIndexFilter l =
    (0, case resolveAuditEntryLimit l of None \<Rightarrow> -1 | Some n \<Rightarrow> int n)"

record audit_page =
  apLimit :: audit_limit
  apTotalEntries :: nat
  apHasMore :: bool
  apIndexes :: "int \<times> int"
  apEntries :: "audit_row list"

definition listEntries :: "audit_limit \<Rightarrow> ('b, 'z, audit_page) dbio" where
  "listEntries l =
    (let limit = resolveAuditEntryLimit l in
     andThen (listAuditEntries limit) (\<lambda>entries.
     andThen countAuditEntries (\<lambda>total.
     ret \<lparr>apLimit = l, apTotalEntries = total, apHasMore = (limit \<noteq> None \<and> length entries < total),
          apIndexes = buildAuditIndexFilter l, apEntries = entries\<rparr>)))"

text \<open>An exported entry: the hash payload of the row as stored, but for its own hash.\<close>

definition toAuditExportEntry :: "audit_row \<Rightarrow> jsval" where
  "toAuditExportEntry r = Obj
    [(''time'', Str (aTimestamp r)), (''author'', Str (str_or ''System'' (aActorUsername r))),
     (''authorUserId'', opt_str (aActorUserId r)), (''auth'', Str (str_or ''N/A'' (aAuthMode r))),
     (''ip'', Str (str_or ''N/A'' (aSourceIp r))), (''action'', Str (aAction r)),
     (''targetType'', Str (aTargetType r)), (''targetId'', opt_str (aTargetId r)),
     (''target'', Str (audit_target (aTargetType r) (aTargetId r))),
     (''result'', Str (if aSuccess r then ''success'' else ''failed'')),
     (''correlation'', Str (aCorrelationId r)), (''before'', parseAuditSummaryJson (aBefore r)),
     (''after'', parseAuditSummaryJson (aAfter r)),
     (''commandResult'', parseAuditSummaryJson (aCommandResult r)), (''previousHash'', opt_str (aPrev r))]"

record audit_export =
  axTime :: string
  axBuild :: string
  axIndexes :: "int \<times> int"
  axLimit :: audit_limit
  axTotalEntries :: nat
  axReturned :: nat
  axIntegrity :: integrity_status
  axData :: "jsval list"

definition exportEntries :: "'b platform \<Rightarrow> audit_limit \<Rightarrow> string \<Rightarrow> ('b, 'z, audit_export) dbio" where
  "exportEntries P l buildLabel =
    andThen (listEntries l) (\<lambda>page.
    andThen (verifyAuditIntegrity P) (\<lambda>integrity.
    andThen now (\<lambda>t.
    ret \<lparr>axTime = toISOString t, axBuild = buildLabel, axIndexes = apIndexes page, axLimit = l,
         axTotalEntries = apTotalEntries page, axReturned = length (apEntries page),
         axIntegrity = integrity, axData = map toAuditExportEntry (apEntries page)\<rparr>)))"

definition attributedCommandResult :: "authenticated_user option \<Rightarrow> jsval \<Rightarrow> jsval" where
  "attributedCommandResult actor result =
    (case actor of
       None \<Rightarrow> result
     | Some u \<Rightarrow> (case auDelegated u of
         None \<Rightarrow> result
       | Some d \<Rightarrow> Obj [(''result'', result),
           (''mcp'', Obj [(''delegatedClient'', Str (delegateName d)),
                          (''delegatedAccess'', Str (mcp_access_str (delegateAccess d)))])]))"

definition audit_entry ::
  "authenticated_user option \<Rightarrow> string option \<Rightarrow> string option \<Rightarrow> string \<Rightarrow> string \<Rightarrow> string
    \<Rightarrow> string option \<Rightarrow> jsval \<Rightarrow> jsval \<Rightarrow> jsval \<Rightarrow> bool \<Rightarrow> string \<Rightarrow> string \<Rightarrow> audit_row" where
  "audit_entry actor authMode sourceIp corr action ty tid bef aft result success rid stamp =
    \<lparr>aId = rid, aSeq = None, aTimestamp = stamp, aActorUsername = map_option auUsername actor,
     aActorUserId = map_option auId actor, aAuthMode = authMode, aSourceIp = sourceIp,
     aCorrelationId = corr, aAction = action, aTargetType = ty, aTargetId = tid,
     aBefore = jsonStringify (redactAuditSecrets bef),
     aAfter = jsonStringify (redactAuditSecrets aft),
     aCommandResult = jsonStringify (redactAuditSecrets (attributedCommandResult actor result)),
     aPrev = None, aHash = None, aSuccess = success\<rparr>"

text \<open>\<open>record\<close> on an idle write queue; \<open>audit_step\<close> below is the queue itself.\<close>

definition auditRecord ::
  "'b platform \<Rightarrow> authenticated_user option \<Rightarrow> string option \<Rightarrow> string option \<Rightarrow> string \<Rightarrow> string
    \<Rightarrow> string \<Rightarrow> string option \<Rightarrow> jsval \<Rightarrow> jsval \<Rightarrow> jsval \<Rightarrow> bool \<Rightarrow> ('b, 'z, unit) dbio" where
  "auditRecord P actor authMode sourceIp corr action ty tid bef aft result success =
    andThen (createOpaqueToken P 18) (\<lambda>rid.
    andThen now (\<lambda>t.
    andThen (appendAudit P (audit_entry actor authMode sourceIp corr action ty tid bef aft result
      success rid (toISOString t))) (\<lambda>_.
    emit (logEvent LogInfo ''audit::record''
      (action @ (if success then '' succeeded'' else '' failed'') @ '' for '' @ ty) (Some corr)
      (Obj [(''targetId'', opt_str tid), (''actor'', opt_str (map_option auUsername actor)),
            (''delegatedClient'', opt_str (map_option delegateName (Option.bind actor auDelegated))),
            (''delegatedAccess'',
              opt_str (map_option (mcp_access_str \<circ> delegateAccess) (Option.bind actor auDelegated)))])))))"

section \<open>The write queue\<close>

text \<open>
  The state of the queue: the entries waiting, the one being written (with the latest row it has
  read, once it has read it), and the table. Calls of \<open>record\<close> arrive at any time; a write goes on
  only when the one before it has settled, whether it succeeded or failed.
\<close>

record audit_queue =
  aqPending :: "audit_row list"
  aqRunning :: "(audit_row \<times> audit_row option option) option"
  aqLog :: "audit_row list"

inductive audit_step :: "'b platform \<Rightarrow> audit_queue \<Rightarrow> audit_queue \<Rightarrow> bool" for P where
  arrive: "audit_step P q (q\<lparr>aqPending := aqPending q @ [r]\<rparr>)"
| start: "aqRunning q = None \<Longrightarrow> aqPending q = r # rs \<Longrightarrow>
    audit_step P q (q\<lparr>aqPending := rs, aqRunning := Some (r, None)\<rparr>)"
| readLatest: "aqRunning q = Some (r, None) \<Longrightarrow>
    audit_step P q (q\<lparr>aqRunning := Some (r, Some (latest_of (aqLog q)))\<rparr>)"
| store: "aqRunning q = Some (r, Some l) \<Longrightarrow> aId r \<notin> set (map aId (aqLog q)) \<Longrightarrow>
    audit_step P q (q\<lparr>aqRunning := None, aqLog := aqLog q @ [linkEntry P l r]\<rparr>)"
| fail: "aqRunning q = Some rl \<Longrightarrow> audit_step P q (q\<lparr>aqRunning := None\<rparr>)"

inductive_cases audit_stepE: "audit_step P q q'"

text \<open>A write that has read still sees the latest row when it inserts.\<close>

definition queue_ok :: "'b platform \<Rightarrow> audit_queue \<Rightarrow> bool" where
  "queue_ok P q = (audit_ok P (aqLog q) \<and>
    (\<forall>r l. aqRunning q = Some (r, Some l) \<longrightarrow> l = latest_of (aqLog q)))"

lemma queue_ok_step: "audit_step P q q' \<Longrightarrow> queue_ok P q \<Longrightarrow> queue_ok P q'"
  by (erule audit_stepE) (auto simp: queue_ok_def audit_ok_append)

lemma queue_ok_reach: "(audit_step P)\<^sup>*\<^sup>* q q' \<Longrightarrow> queue_ok P q \<Longrightarrow> queue_ok P q'"
  by (induction rule: rtranclp_induct) (auto intro: queue_ok_step)

text \<open>
  C12: however concurrent \<open>record\<close> calls arrive, are started, fail and interleave with the two
  statements of an append, the write queue keeps the audit log a verified hash chain.
\<close>

theorem write_queue_keeps_chain:
  assumes "(audit_step P)\<^sup>*\<^sup>* q q'" and "audit_ok P (aqLog q)" and "aqRunning q = None"
  shows "isVerified (verify_rows P 0 None (by_sequence (aqLog q')))"
proof -
  have "queue_ok P q" using assms(2,3) by (simp add: queue_ok_def)
  then have "queue_ok P q'" using assms(1) by (rule queue_ok_reach [rotated])
  then show ?thesis by (simp add: queue_ok_def audit_ok_def verify_rows_iff)
qed

definition sample_row :: "string \<Rightarrow> string \<Rightarrow> audit_row" where
  "sample_row i act = audit_entry None None None ''corr'' act ''user'' None Null Null Null True i
    ''1970-01-01T00:00:01.000Z''"

definition sample_queue :: audit_queue where
  "sample_queue = \<lparr>aqPending = [], aqRunning = None, aqLog = []\<rparr>"

theorem write_queue_keeps_chain_witness:
  "isVerified (verify_rows sample_platform 0 None
    (by_sequence [linkEntry sample_platform None (sample_row ''a'' ''login'')]))"
proof -
  let ?P = sample_platform and ?r = "sample_row ''a'' ''login''"
  have "(audit_step ?P)\<^sup>*\<^sup>* sample_queue (sample_queue\<lparr>aqPending := [?r]\<rparr>)"
    using audit_step.arrive [of ?P sample_queue ?r] by (simp add: sample_queue_def r_into_rtranclp)
  also have "audit_step ?P \<dots> (sample_queue\<lparr>aqRunning := Some (?r, None)\<rparr>)"
    using audit_step.start [of "sample_queue\<lparr>aqPending := [?r]\<rparr>" ?r "[]" ?P] by (simp add: sample_queue_def)
  also have "audit_step ?P \<dots> (sample_queue\<lparr>aqRunning := Some (?r, Some None)\<rparr>)"
    using audit_step.readLatest [of "sample_queue\<lparr>aqRunning := Some (?r, None)\<rparr>" ?r ?P]
    by (simp add: sample_queue_def latest_of_def by_sequence_desc_def)
  also have "audit_step ?P \<dots> (sample_queue\<lparr>aqLog := [linkEntry ?P None ?r]\<rparr>)"
    using audit_step.store [of "sample_queue\<lparr>aqRunning := Some (?r, Some None)\<rparr>" ?r None ?P]
    by (simp add: sample_queue_def)
  finally have "isVerified (verify_rows ?P 0 None
    (by_sequence (aqLog (sample_queue\<lparr>aqLog := [linkEntry ?P None ?r]\<rparr>))))"
    by (rule write_queue_keeps_chain) (simp_all add: sample_queue_def audit_ok_def by_sequence_def)
  then show ?thesis by simp
qed

text \<open>Without the queue the same two statements race: both writes link to one row.\<close>

lemma unqueued_appends_break_chain:
  assumes "audit_ok P rs" and "aId a \<notin> set (map aId rs)" and "aId b \<notin> set (map aId rs)" and "aId a \<noteq> aId b"
  shows "\<not> audit_ok P (rs @ [linkEntry P (latest_of rs) a, linkEntry P (latest_of rs) b])"
proof
  let ?a = "linkEntry P (latest_of rs) a" and ?b = "linkEntry P (latest_of rs) b"
  let ?all = "rs @ [?a, ?b]"
  assume ok: "audit_ok P ?all"
  have n: "toAuditSequenceNumber (Some (aSeq ?a)) (-1) = int (length rs)"
    "toAuditSequenceNumber (Some (aSeq ?b)) (-1) = int (length rs)"
    using latest_of_chained(1) [OF assms(1)] by (simp_all add: linkEntry_def Let_def toAuditSequenceNumber_row)
  have num: "chained P i p qs \<Longrightarrow> j < length qs \<Longrightarrow>
      toAuditSequenceNumber (Some (aSeq (qs ! j))) (-1) = int (i + j)" for i p qs j
    by (induction qs arbitrary: i p j) (auto simp: nth_Cons split: nat.splits)
  have ch: "chained P 0 None (by_sequence ?all)" using ok by (simp add: audit_ok_def)
  have "?a \<in> set (by_sequence ?all)" "?b \<in> set (by_sequence ?all)" by simp_all
  then obtain j k where jk: "j < length (by_sequence ?all)" "by_sequence ?all ! j = ?a"
    "k < length (by_sequence ?all)" "by_sequence ?all ! k = ?b"
    unfolding in_set_conv_nth by blast
  have "j = length rs" using num [OF ch jk(1)] jk(2) n(1) by simp
  moreover have "k = length rs" using num [OF ch jk(3)] jk(4) n(2) by simp
  ultimately have "?a = ?b" using jk by simp
  then have "aId a = aId b" by (metis linkEntry_id)
  then show False using assms(4) by simp
qed

section \<open>What the service guarantees\<close>

lemma auditRecord_log:
  "auditRecord P actor am ip corr action ty tid bef aft res success w = (r, w') \<Longrightarrow>
    audit_log w' = audit_log w \<or>
    (r = Inr () \<and> (let e = audit_entry actor am ip corr action ty tid bef aft res success
        (random_b64url P (draws w) 18) (toISOString (clock w)) in
      aId e \<notin> set (map aId (audit_log w)) \<and>
      audit_log w' = audit_log w @ [linkEntry P (latest_of (audit_log w)) e]))"
  by (auto simp: auditRecord_def createOpaqueToken_def andThen_def Let_def dest!: appendAudit_result
      split: prod.splits sum.splits)

text \<open>
  Recording an action on a healthy database appends exactly one entry; the log verifies again,
  with one entry more, and its latest hash is that of the new entry.
\<close>

theorem audit_record_verifies:
  assumes "dbFaults w = []" and "audit_ok P (audit_log w)"
    and "random_b64url P (draws w) 18 \<notin> set (map aId (audit_log w))"
  shows "\<exists>w' e. auditRecord P actor am ip corr action ty tid bef aft res success w = (Inr (), w') \<and>
    audit_log w' = audit_log w @ [e] \<and> aAction e = action \<and> aSuccess e = success \<and>
    outcome (verifyAuditIntegrity P) w' =
      Inr \<lparr>isVerified = True, isTotalVerified = Suc (length (audit_log w)), isLatestHash = aHash e\<rparr>"
proof -
  let ?r = "audit_entry actor am ip corr action ty tid bef aft res success
    (random_b64url P (draws w) 18) (toISOString (clock w))"
  let ?e = "linkEntry P (latest_of (audit_log w)) ?r"
  have id: "aId ?r \<notin> set (map aId (audit_log w))" using assms(3) by (simp add: audit_entry_def)
  obtain l where "auditRecord P actor am ip corr action ty tid bef aft res success w =
    (Inr (), w\<lparr>draws := Suc (draws w), audit_log := audit_log w @ [?e], logs := l\<rparr>)"
    using assms(1) id by (simp add: auditRecord_def createOpaqueToken_def andThen_def appendAudit_healthy)
  moreover have "audit_ok P (audit_log w @ [?e])" by (rule audit_ok_append(2) [OF assms(2) id])
  then have ch: "chained P 0 None (by_sequence (audit_log w @ [?e]))" by (simp add: audit_ok_def)
  moreover have "chain_end P None (by_sequence (audit_log w @ [?e])) = aHash ?e"
    using chained_last(2) [OF ch] audit_ok_append(1) [OF assms(2) id] by simp
  moreover have "aAction ?e = action" "aSuccess ?e = success"
    by (simp_all add: linkEntry_def Let_def audit_entry_def)
  ultimately show ?thesis
    using assms(1) verify_rows_chained [OF ch] by (simp add: outcome_def verifyAuditIntegrity_def)
qed

theorem audit_record_verifies_witness:
  "\<exists>w' e. auditRecord sample_platform None None None ''c'' ''login'' ''user'' None Null Null Null False
      (sample_db (sample_start [] [] [])) = (Inr (), w') \<and>
    audit_log w' = [e] \<and> aAction e = ''login'' \<and> \<not> aSuccess e \<and>
    outcome (verifyAuditIntegrity sample_platform) w' =
      Inr \<lparr>isVerified = True, isTotalVerified = 1, isLatestHash = aHash e\<rparr>"
  using audit_record_verifies [of "sample_db (sample_start [] [] [])" sample_platform None None None "''c''"
      "''login''" "''user''" None Null Null Null False]
  by (simp add: sample_db_def audit_ok_def by_sequence_def)

text \<open>
  C35: what \<open>record\<close> stores of a before or after summary reads back as the redacted summary, which
  carries nothing but the redaction token under a sensitive key, at any depth.
\<close>

theorem audit_record_redacts:
  assumes "auditRecord P actor am ip corr action ty tid bef aft res success w = (Inr (), w')"
    and "audit_log w' \<noteq> audit_log w" and "json_ok bef" and "json_ok aft"
  shows "parseAuditSummaryJson (aBefore (last (audit_log w'))) = redactAuditSecrets bef \<and>
    parseAuditSummaryJson (aAfter (last (audit_log w'))) = redactAuditSecrets aft \<and>
    \<not> exposes isSensitiveAuditKey (parseAuditSummaryJson (aBefore (last (audit_log w')))) \<and>
    \<not> exposes isSensitiveAuditKey (parseAuditSummaryJson (aAfter (last (audit_log w'))))"
proof -
  have stored: "parseAuditSummaryJson (jsonStringify (redactAuditSecrets v)) = redactAuditSecrets v"
    if "json_ok v" for v
  proof -
    have ok: "json_ok (redactAuditSecrets v)" unfolding redactAuditSecrets_def by (rule redactBy_json_ok [OF that])
    then have "redactAuditSecrets v \<noteq> Undef" by auto
    then show ?thesis using ok by (simp add: parseAuditSummaryJson_def jsonStringify_def parseJsonSafe_text)
  qed
  obtain e where "audit_log w' = audit_log w @ [e]" "aBefore e = jsonStringify (redactAuditSecrets bef)"
    "aAfter e = jsonStringify (redactAuditSecrets aft)"
    using auditRecord_log [OF assms(1)] assms(2) by (auto simp: Let_def linkEntry_def audit_entry_def)
  then show ?thesis
    using stored assms(3,4) by (simp add: redactAuditSecrets_def redactBy_safe)
qed

theorem audit_record_redacts_witness:
  "\<exists>w' s. auditRecord sample_platform None None None ''c'' ''update'' ''user'' None Null
      (Obj [(''client_secret'', Str ''hunter2''), (''name'', Str ''bob'')]) Null True
      (sample_db (sample_start [] [] [])) = (Inr (), w') \<and>
    parseAuditSummaryJson (aAfter (last (audit_log w'))) =
      Obj [(''client_secret'', Str redactedToken), (''name'', Str ''bob'')]"
proof -
  let ?aft = "Obj [(''client_secret'', Str ''hunter2''), (''name'', Str ''bob'')]"
  obtain w' e where run: "auditRecord sample_platform None None None ''c'' ''update'' ''user'' None Null
      ?aft Null True (sample_db (sample_start [] [] [])) = (Inr (), w')" and log: "audit_log w' = [e]"
    by (auto simp: auditRecord_def createOpaqueToken_def andThen_def appendAudit_healthy sample_db_def)
  have "redactAuditSecrets ?aft = Obj [(''client_secret'', Str redactedToken), (''name'', Str ''bob'')]"
    by code_simp
  then show ?thesis
    using audit_record_redacts [OF run] run log by (auto simp: sample_db_def)
qed

text \<open>
  C13: tamper evidence. When the hash has no collisions, two audit logs that both verify, with the
  same number of entries and the same latest hash, have the same entries in the same order: a log
  whose latest hash is kept elsewhere cannot be edited without failing verification.
\<close>

theorem audit_tamper_evidence:
  assumes "inj (sha256_hex P)"
    and "list_all row_json_ok (audit_log w)" and "list_all row_json_ok (audit_log w')"
    and "dbFaults w = []" and "dbFaults w' = []"
    and "outcome (verifyAuditIntegrity P) w = Inr st" and "isVerified st"
    and "outcome (verifyAuditIntegrity P) w' = Inr st"
  shows "map toAuditExportEntry (by_sequence (audit_log w)) = map toAuditExportEntry (by_sequence (audit_log w'))"
proof -
  let ?l = "by_sequence (audit_log w)" and ?l' = "by_sequence (audit_log w')"
  have v: "verify_rows P 0 None ?l = st" "verify_rows P 0 None ?l' = st"
    using assms(4,5,6,8) by (simp_all add: outcome_def verifyAuditIntegrity_def)
  then have ch: "chained P 0 None ?l" "chained P 0 None ?l'"
    using assms(7) by (simp_all add: verify_rows_iff [symmetric])
  have ok: "list_all row_json_ok ?l" "list_all row_json_ok ?l'"
    using assms(2,3) by (simp_all add: list_all_iff)
  have same: "length ?l = length ?l'" "chain_end P None ?l = chain_end P None ?l'"
    using v verify_rows_chained [OF ch(1)] verify_rows_chained [OF ch(2)] by auto
  have "payloads P None ?l = payloads P None ?l'"
    by (rule chain_end_determines [OF assms(1) same(1) ok same(2)])
  moreover have "buildAuditHashPayload r (aPrev r) = toAuditExportEntry r" for r
    by (simp add: buildAuditHashPayload_def toAuditExportEntry_def)
  ultimately show ?thesis using chained_payloads [OF ch(1)] chained_payloads [OF ch(2)] by simp
qed

definition sample_log :: "string \<Rightarrow> sample_outside db_world" where
  "sample_log i = (sample_db (sample_start [] [] []))\<lparr>audit_log :=
    [linkEntry sample_platform None (sample_row i ''login'')]\<rparr>"

lemma sample_log_verifies:
  "outcome (verifyAuditIntegrity sample_platform) (sample_log i) =
    Inr \<lparr>isVerified = True, isTotalVerified = 1,
      isLatestHash = Some (computeAuditEntryHash sample_platform (sample_row [] ''login'') None)\<rparr>"
proof -
  let ?e = "linkEntry sample_platform None (sample_row i ''login'')"
  have "audit_ok sample_platform [?e]"
    using audit_ok_append(2) [of sample_platform "[]" "sample_row i ''login''"]
    by (simp add: audit_ok_def by_sequence_def latest_of_def by_sequence_desc_def)
  then have ch: "chained sample_platform 0 None (by_sequence [?e])" by (simp add: audit_ok_def)
  have "aHash ?e = Some (computeAuditEntryHash sample_platform (sample_row [] ''login'') None)"
    by (simp add: linkEntry_def Let_def computeAuditEntryHash_def buildAuditHashPayload_def sample_row_def
        audit_entry_def)
  then show ?thesis
    using verify_rows_chained [OF ch] chained_last(2) [OF ch]
    by (simp add: outcome_def verifyAuditIntegrity_def sample_log_def sample_db_def by_sequence_def)
qed

theorem audit_tamper_evidence_witness:
  "map toAuditExportEntry (by_sequence (audit_log (sample_log ''a''))) =
    map toAuditExportEntry (by_sequence (audit_log (sample_log ''b'')))"
proof (rule audit_tamper_evidence [OF _ _ _ _ _ sample_log_verifies _ sample_log_verifies])
  show "inj (sha256_hex sample_platform)" by (simp add: inj_def sample_platform_def)
  have "parseAuditSummaryJson (Some ''null'') = Null" by code_simp
  then have row: "list_all row_json_ok (audit_log (sample_log i))" for i
    by (simp add: row_json_ok_def linkEntry_def Let_def sample_row_def audit_entry_def redactAuditSecrets_def
        jsonStringify_def attributedCommandResult_def sample_log_def)
  show "list_all row_json_ok (audit_log (sample_log ''a''))" by (rule row)
  show "list_all row_json_ok (audit_log (sample_log ''b''))" by (rule row)
qed (simp_all add: sample_log_def sample_db_def)

text \<open>
  C36: the backfill that runs at every start makes any table verify, whatever its rows carried
  before: the entries keep their contents, but a chain that was broken, for instance by editing a
  row, verifies after the next start as if it had never been touched.
\<close>

theorem backfill_always_verifies:
  assumes "dbFaults w = []" and "distinct (map aId (audit_log w))"
  shows "\<exists>w'. initializeDb P corr w = (Inr (), w') \<and>
    outcome (verifyAuditIntegrity P) w' = Inr \<lparr>isVerified = True, isTotalVerified = length (audit_log w),
      isLatestHash = chain_end P None (by_sequence (audit_log w'))\<rparr> \<and>
    map (\<lambda>r. buildAuditHashPayload r None) (audit_log w') = map (\<lambda>r. buildAuditHashPayload r None) (audit_log w)"
proof -
  let ?w = "w\<lparr>audit_log := replace_by_id (link_rows P 0 None (by_time (audit_log w))) (audit_log w)\<rparr>"
  have run: "initializeDb P corr w = (Inr (), ?w)"
    using backfill_healthy [OF assms] by (simp add: initializeDb_def)
  have "audit_ok P (audit_log ?w)" using backfill_audit_ok [OF assms(2)] by simp
  then have ch: "chained P 0 None (by_sequence (audit_log ?w))" by (simp add: audit_ok_def)
  have "length (audit_log ?w) = length (audit_log w)" by (simp add: replace_by_id_def)
  moreover have "map (\<lambda>r. buildAuditHashPayload r None)
      (replace_by_id (link_rows P 0 None (by_time (audit_log w))) (audit_log w)) =
      map (\<lambda>r. buildAuditHashPayload r None) (audit_log w)"
  proof -
    have perm: "set (by_time (audit_log w)) = set (audit_log w)" by (simp add: by_time_def)
    show ?thesis by (rule replace_content [OF assms(2) perm])
  qed
  ultimately show ?thesis
    using run assms(1) verify_rows_chained [OF ch] by (simp add: outcome_def verifyAuditIntegrity_def)
qed

theorem backfill_always_verifies_witness:
  "\<exists>w'. initializeDb sample_platform None ((sample_db (sample_start [] [] []))\<lparr>audit_log :=
      [(linkEntry sample_platform None (sample_row ''a'' ''login''))\<lparr>aAction := ''forged''\<rparr>]\<rparr>) = (Inr (), w') \<and>
    outcome (verifyAuditIntegrity sample_platform) w' = Inr \<lparr>isVerified = True, isTotalVerified = 1,
      isLatestHash = chain_end sample_platform None (by_sequence (audit_log w'))\<rparr>"
  using backfill_always_verifies [of "(sample_db (sample_start [] [] []))\<lparr>audit_log :=
      [(linkEntry sample_platform None (sample_row ''a'' ''login''))\<lparr>aAction := ''forged''\<rparr>]\<rparr>"
      sample_platform None]
  by (auto simp: sample_db_def)

end
