(* ===== verification/AuditQueue.thy ===== *)
theory AuditQueue
  imports AuditLog
begin

text \<open>
  The progress of the audit log's write queue (\<open>audit/service.ts\<close>): it settles every entry within a
  bounded number of steps, in the order of arrival, whichever writes fail.
\<close>

text \<open>The entries that have arrived and are not settled, and the steps they still take.\<close>

definition waiting :: "audit_queue \<Rightarrow> audit_row list" where
  "waiting q = (case aqRunning q of None \<Rightarrow> aqPending q | Some (r, _) \<Rightarrow> r # aqPending q)"

definition queue_load :: "audit_queue \<Rightarrow> nat" where
  "queue_load q = 3 * length (aqPending q) +
    (case aqRunning q of None \<Rightarrow> 0 | Some (_, None) \<Rightarrow> 2 | Some (_, Some _) \<Rightarrow> 1)"

text \<open>
  A step of the queue other than an arrival, where the database refuses the writes of the entries in
  \<open>refused\<close> and takes the others.
\<close>

definition audit_work :: "'b platform \<Rightarrow> string set \<Rightarrow> audit_queue \<Rightarrow> audit_queue \<Rightarrow> bool" where
  "audit_work P refused q q' \<longleftrightarrow> audit_step P q q' \<and> queue_load q' < queue_load q \<and>
    (\<forall>r l. aqRunning q = Some (r, l) \<and> aqRunning q' = None \<longrightarrow> (aqLog q' = aqLog q \<longleftrightarrow> aId r \<in> refused))"

definition queue_ids :: "string set \<Rightarrow> audit_queue \<Rightarrow> string list" where
  "queue_ids refused q = map aId (aqLog q) @ filter (\<lambda>i. i \<notin> refused) (map aId (waiting q))"

lemma queue_load_0: "queue_load q = 0 \<longleftrightarrow> aqPending q = [] \<and> aqRunning q = None"
  by (auto simp: queue_load_def split: option.splits)

lemma audit_work_ids: "audit_work P D q q' \<Longrightarrow> queue_ids D q' = queue_ids D q"
  unfolding audit_work_def
  by (elim conjE audit_stepE) (auto simp: queue_ids_def waiting_def queue_load_def linkEntry_id split: option.splits)

lemma audit_work_distinct:
  "audit_work P D q q' \<Longrightarrow> distinct (map aId (aqLog q @ waiting q)) \<Longrightarrow> distinct (map aId (aqLog q' @ waiting q'))"
  unfolding audit_work_def
  by (elim conjE audit_stepE) (auto simp: waiting_def queue_load_def linkEntry_id split: option.splits)

text \<open>As long as an entry waits, the queue has a step to take.\<close>

lemma audit_work_enabled:
  assumes "queue_load q \<noteq> 0" and "distinct (map aId (aqLog q @ waiting q))"
  shows "\<exists>q'. audit_work P D q q'"
proof (cases "aqRunning q")
  case None
  obtain r rs where "aqPending q = r # rs" using None assms(1) by (cases "aqPending q") (auto simp: queue_load_def)
  note step = audit_step.start [OF None this, of P]
  have "audit_work P D q (q\<lparr>aqPending := rs, aqRunning := Some (r, None)\<rparr>)"
    using None step \<open>aqPending q = r # rs\<close> by (simp add: audit_work_def queue_load_def)
  then show ?thesis by blast
next
  case (Some rl)
  obtain r l where rl: "rl = (r, l)" by fastforce
  have fresh: "aId r \<notin> set (map aId (aqLog q))" using assms(2) Some rl by (auto simp: waiting_def)
  show ?thesis
  proof (cases l)
    case None
    then have "audit_work P D q (q\<lparr>aqRunning := Some (r, Some (latest_of (aqLog q)))\<rparr>)"
      using Some rl audit_step.readLatest by (simp add: audit_work_def queue_load_def)
    then show ?thesis by blast
  next
    case l: (Some v)
    show ?thesis
    proof (cases "aId r \<in> D")
      case True
      then have "audit_work P D q (q\<lparr>aqRunning := None\<rparr>)"
        using Some rl l audit_step.fail [OF Some] by (simp add: audit_work_def queue_load_def)
      then show ?thesis by blast
    next
      case False
      have "audit_step P q (q\<lparr>aqRunning := None, aqLog := aqLog q @ [linkEntry P v r]\<rparr>)"
        using Some rl l fresh by (intro audit_step.store) auto
      then have "audit_work P D q (q\<lparr>aqRunning := None, aqLog := aqLog q @ [linkEntry P v r]\<rparr>)"
        using False Some rl l by (simp add: audit_work_def queue_load_def)
      then show ?thesis by blast
    qed
  qed
qed

lemma audit_work_run:
  "(audit_work P D ^^ n) q q' \<Longrightarrow> distinct (map aId (aqLog q @ waiting q)) \<Longrightarrow>
    queue_ids D q' = queue_ids D q \<and> distinct (map aId (aqLog q' @ waiting q')) \<and> n + queue_load q' \<le> queue_load q"
proof (induction n arbitrary: q')
  case (Suc n)
  then obtain p where p: "(audit_work P D ^^ n) q p" and s: "audit_work P D p q'" by auto
  then have "queue_load q' < queue_load p" by (simp add: audit_work_def)
  then show ?case using Suc.IH [OF p Suc.prems(2)] audit_work_ids [OF s] audit_work_distinct [OF s] by simp
qed simp

text \<open>
  C31: the write queue never stalls: once no more entries arrive, however its steps go, after at most three
  steps for each entry all are settled, and the log has got exactly the entries whose write the database
  took, in the order in which they arrived; a failed write does not hold up the ones behind it.
\<close>

theorem write_queue_drains:
  assumes "(audit_work P refused ^^ n) q q'" and "\<not> (\<exists>q''. audit_work P refused q' q'')"
    and "distinct (map aId (aqLog q @ waiting q))"
  shows "n \<le> 3 * length (waiting q) \<and> waiting q' = [] \<and>
    map aId (aqLog q') = map aId (aqLog q) @ filter (\<lambda>i. i \<notin> refused) (map aId (waiting q))"
proof -
  note run = audit_work_run [OF assms(1,3)]
  then have settled: "queue_load q' = 0" using audit_work_enabled assms(2) by blast
  have "queue_load q \<le> 3 * length (waiting q)" by (auto simp: queue_load_def waiting_def split: option.splits)
  moreover have "waiting q' = []" using settled by (simp add: queue_load_0 waiting_def)
  ultimately show ?thesis using run settled by (simp add: queue_ids_def)
qed

theorem write_queue_drains_witness:
  "\<exists>q. aqLog q = [linkEntry sample_platform None (sample_row ''b'' ''login'')] \<and> waiting q = []"
proof -
  let ?P = sample_platform and ?a = "sample_row ''a'' ''login''" and ?b = "sample_row ''b'' ''login''"
  let ?q0 = "sample_queue\<lparr>aqPending := [?a, ?b]\<rparr>"
  let ?q1 = "sample_queue\<lparr>aqPending := [?b], aqRunning := Some (?a, None)\<rparr>"
  let ?q2 = "sample_queue\<lparr>aqPending := [?b]\<rparr>"
  let ?q3 = "sample_queue\<lparr>aqRunning := Some (?b, None)\<rparr>"
  let ?q4 = "sample_queue\<lparr>aqRunning := Some (?b, Some None)\<rparr>"
  let ?q5 = "sample_queue\<lparr>aqLog := [linkEntry ?P None ?b]\<rparr>"
  have ids: "aId ?a = ''a''" "aId ?b = ''b''" by (simp_all add: sample_row_def audit_entry_def)
  have "audit_work ?P {''a''} ?q0 ?q1"
    using audit_step.start [of ?q0 ?a "[?b]" ?P] by (simp add: audit_work_def queue_load_def sample_queue_def)
  moreover have "audit_work ?P {''a''} ?q1 ?q2"
    using audit_step.fail [of ?q1 "(?a, None)" ?P] ids by (simp add: audit_work_def queue_load_def sample_queue_def)
  moreover have "audit_work ?P {''a''} ?q2 ?q3"
    using audit_step.start [of ?q2 ?b "[]" ?P] by (simp add: audit_work_def queue_load_def sample_queue_def)
  moreover have "audit_work ?P {''a''} ?q3 ?q4"
    using audit_step.readLatest [of ?q3 ?b ?P]
    by (simp add: audit_work_def queue_load_def sample_queue_def latest_of_def by_sequence_desc_def)
  moreover have "audit_work ?P {''a''} ?q4 ?q5"
    using audit_step.store [of ?q4 ?b None ?P] ids by (simp add: audit_work_def queue_load_def sample_queue_def)
  ultimately have run: "(audit_work ?P {''a''} ^^ Suc (Suc (Suc (Suc (Suc 0))))) ?q0 ?q5"
    by (auto intro!: relpowp_Suc_I2 relpowp_0_I simp del: relpowp.simps)
  have stuck: "\<not> (\<exists>q''. audit_work ?P {''a''} ?q5 q'')"
    by (simp add: audit_work_def queue_load_def sample_queue_def)
  have "distinct (map aId (aqLog ?q0 @ waiting ?q0))" using ids by (simp add: waiting_def sample_queue_def)
  from write_queue_drains [OF run stuck this] show ?thesis
    by (intro exI [of _ ?q5]) (simp add: sample_queue_def)
qed

end
