(* ===== verification/Agent.thy ===== *)
theory Agent
  imports Config
begin

text \<open>
  The two ways to the broker: \<open>server/broker/command-runner.ts\<close> (a child process) and
  \<open>server/broker-agent/client.ts\<close> (the HTTP client of the broker agent). The agent's answers are not
  validated by the source: they stay values of type \<open>unknown\<close>, and reading a property of \<open>null\<close>
  throws as in JavaScript.
\<close>

section \<open>Values that are not validated\<close>

definition apos :: string where "apos = [CHR 0x27]"

text \<open>\<open>v.k\<close>: a \<open>TypeError\<close> on \<open>null\<close> and \<open>undefined\<close>.\<close>

definition readProp :: "string \<Rightarrow> jsval \<Rightarrow> exn + jsval" where
  "readProp k v =
    (if nullish v then Inl (typeError (''Cannot read properties of '' @ to_string v @ '' (reading '' @ apos @ k @ apos @ '')''))
     else Inr (getProp k v))"

definition hasProp :: "string \<Rightarrow> jsval \<Rightarrow> bool" where
  "hasProp k v = (case v of Obj kvs \<Rightarrow> map_of kvs k \<noteq> None | _ \<Rightarrow> False)"

primrec mapR :: "('a \<Rightarrow> 'e + 'b) \<Rightarrow> 'a list \<Rightarrow> 'e + 'b list" where
  "mapR f [] = Inr []"
| "mapR f (x # xs) = (case f x of Inl e \<Rightarrow> Inl e
     | Inr y \<Rightarrow> (case mapR f xs of Inl e \<Rightarrow> Inl e | Inr ys \<Rightarrow> Inr (y # ys)))"

section \<open>Child processes\<close>

definition command_result :: "string \<Rightarrow> string list \<Rightarrow> process_exit \<Rightarrow> jsval" where
  "command_result exe shownArgs x = Obj
    [(''executable'', Str exe), (''args'', Arr (map Str shownArgs)), (''exitCode'', opt_int (procExitCode x)),
     (''signal'', opt_str (procSignal x)), (''stdout'', Str (procStdout x)), (''stderr'', Str (procStderr x)),
     (''durationMs'', num_int (procDurationMs x))]"

definition runCommand ::
  "'b platform \<Rightarrow> string \<Rightarrow> string list \<Rightarrow> string list option \<Rightarrow> int \<Rightarrow> string option
    \<Rightarrow> (('b, 'z) base_world_scheme, jsval) io" where
  "runCommand P exe args displayArgs timeoutMs corr =
    (let resultArgs = (case displayArgs of None \<Rightarrow> args | Some d \<Rightarrow> d) in
     catching (andThen (callOut (spawn_process P exe args timeoutMs)) (\<lambda>x. ret (command_result exe resultArgs x)))
       (\<lambda>e. raise (createAppError ''broker::runCommand'' (''Failed spawning '' @ exe @ ''.'')
         ''BROKER_COMMAND_FAILED'' corr
         (Obj [(''executable'', Str exe), (''args'', Arr (map Str resultArgs))]) 500 (Some e))))"

section \<open>The agent's client\<close>

definition nonblank :: "string option \<Rightarrow> bool" where
  "nonblank v = (case v of None \<Rightarrow> False | Some s \<Rightarrow> s \<noteq> [])"

definition describeRemoteDetails :: "jsval \<Rightarrow> string option" where
  "describeRemoteDetails details =
    (if \<not> is_object details then None
     else let path = str_of (getProp ''path'' details); cause = str_of (getProp ''cause'' details);
              atomicCause = str_of (getProp ''atomicCause'' details);
              p = (case path of None \<Rightarrow> [] | Some s \<Rightarrow> s); c = (case cause of None \<Rightarrow> [] | Some s \<Rightarrow> s); a = (case atomicCause of None \<Rightarrow> [] | Some s \<Rightarrow> s)
          in if p = [] \<and> c = [] \<and> a = [] then None
             else if p \<noteq> [] \<and> c \<noteq> [] \<and> a \<noteq> [] then
               Some (''Path: '' @ p @ ''. Cause: '' @ c @ ''. Atomic cause: '' @ a)
             else if p \<noteq> [] \<and> c \<noteq> [] then Some (''Path: '' @ p @ ''. Cause: '' @ c)
             else if c \<noteq> [] \<and> a \<noteq> [] then Some (''Cause: '' @ c @ ''. Atomic cause: '' @ a)
             else if p \<noteq> [] then Some (''Path: '' @ p @ ''.'')
             else if a \<noteq> [] then Some (''Atomic cause: '' @ a)
             else Some (''Cause: '' @ c))"

definition normalizeOptionalString :: "jsval \<Rightarrow> string option" where
  "normalizeOptionalString v = (case v of Str s \<Rightarrow> if trim s \<noteq> [] then Some (trim s) else None | _ \<Rightarrow> None)"

definition agentConfigured :: "loaded_config \<Rightarrow> bool" where
  "agentConfigured L = (case bkAgent (cfBroker (ldConfig L)) of None \<Rightarrow> False | Some a \<Rightarrow> agBaseUrl a \<noteq> [])"

definition agentBaseUrl :: "loaded_config \<Rightarrow> string option" where
  "agentBaseUrl L = map_option agBaseUrl (bkAgent (cfBroker (ldConfig L)))"

definition agentTimeoutMs :: "loaded_config \<Rightarrow> int" where
  "agentTimeoutMs L = (case bkAgent (cfBroker (ldConfig L)) of None \<Rightarrow> 10000 | Some a \<Rightarrow> agTimeoutMs a)"

definition agentInsecure :: "loaded_config \<Rightarrow> bool" where
  "agentInsecure L = (case bkAgent (cfBroker (ldConfig L)) of None \<Rightarrow> False | Some a \<Rightarrow> agInsecure a)"

definition requiresApiKey :: "string \<Rightarrow> bool" where
  "requiresApiKey path = (path \<noteq> ''/health'' \<and> path \<noteq> ''/healthz'')"

definition agentEnsureConfigured :: "loaded_config \<Rightarrow> string option \<Rightarrow> exn + string" where
  "agentEnsureConfigured L corr =
    (case agentBaseUrl L of
       Some u \<Rightarrow> if u \<noteq> [] then Inr u else
         Inl (createAppError ''broker-agent::ensureConfigured'' ''Broker agent is not configured.''
           ''BROKER_AGENT_REQUEST_FAILED'' corr Null 500 None)
     | None \<Rightarrow> Inl (createAppError ''broker-agent::ensureConfigured'' ''Broker agent is not configured.''
           ''BROKER_AGENT_REQUEST_FAILED'' corr Null 500 None))"

record agent_response =
  arsOk :: bool
  arsStatus :: int
  arsPayload :: jsval

definition jsonOrNull :: "string \<Rightarrow> jsval" where
  "jsonOrNull s = (case jsonParse s of Inr v \<Rightarrow> v | Inl _ \<Rightarrow> Null)"

definition agentSend ::
  "'b platform \<Rightarrow> loaded_config \<Rightarrow> bool \<Rightarrow> string \<Rightarrow> string \<Rightarrow> (string \<times> string) list \<Rightarrow> jsval
    \<Rightarrow> (('b, 'z) base_world_scheme, agent_response) io" where
  "agentSend P L insecure u verb headers body =
    andThen (callOut (http_fetch P \<lparr>reqUrl = u, reqMethod = verb, reqHeaders = headers,
      reqBody = jsonStringify body, reqTimeoutMs = agentTimeoutMs L, reqInsecure = insecure\<rparr>)) (\<lambda>r.
    ret \<lparr>arsOk = (200 \<le> respStatus r \<and> respStatus r < 300), arsStatus = respStatus r,
         arsPayload = jsonOrNull (respBody r)\<rparr>)"

definition agentFailure :: "string \<Rightarrow> string \<Rightarrow> string option \<Rightarrow> agent_response \<Rightarrow> exn" where
  "agentFailure verb path corr r =
    (let payload = arsPayload r;
         body = (if is_object payload \<and> hasProp ''ok'' payload then payload else Undef);
         remoteKey = coalesce (getProp ''errorKey'' body) Null;
         mappedKey = (if truthy remoteKey \<and>
             resolveErrorCode (to_string remoteKey) \<noteq> resolveErrorCode ''ERR_UNKNOWN''
           then to_string remoteKey else ''BROKER_AGENT_REQUEST_FAILED'');
         described = describeRemoteDetails (coalesce (getProp ''details'' body) Null);
         reason = to_string (coalesce (getProp ''reason'' body)
           (Str (''Broker agent request failed with HTTP '' @ int_str (arsStatus r) @ ''.'')))
     in createAppError ''broker-agent::request''
          (case described of Some d \<Rightarrow> if d \<noteq> [] then reason @ '' '' @ d else reason | None \<Rightarrow> reason)
          mappedKey corr
          (Obj [(''method'', Str verb), (''path'', Str path), (''remoteErrorKey'', remoteKey),
                (''remoteErrorCode'', coalesce (getProp ''errorCode'' body) Null),
                (''remoteCorrelationId'', coalesce (getProp ''correlationId'' body) Null),
                (''remoteDetails'', coalesce (getProp ''details'' body) Null)])
          (arsStatus r) None)"

definition agentRequest ::
  "'b platform \<Rightarrow> loaded_config \<Rightarrow> string \<Rightarrow> string \<Rightarrow> jsval \<Rightarrow> string option
    \<Rightarrow> (('b, 'z) base_world_scheme, jsval) io" where
  "agentRequest P L verb path body corr =
    andThen (liftR (agentEnsureConfigured L corr)) (\<lambda>base.
    (let normalizedPath = (if startsWith path ''/'' then drop 1 path else path);
         base' = (if endsWith base ''/'' then base else base @ ''/'') in
     case parse_url P normalizedPath (Some base') of
       None \<Rightarrow> raise (typeError ''Invalid URL'')
     | Some target \<Rightarrow>
       (let apiKey = (if requiresApiKey path then secAgentApiKey (ldSecrets L) else None);
            headers = [(''accept'', ''application/json''), (''content-type'', ''application/json'')]
              @ (if nonblank apiKey then [(''x-api-key'', the apiKey)] else [])
              @ (if nonblank corr then [(''x-correlation-id'', the corr)] else []);
            insecure = (agentInsecure L \<and> urlProtocol target = ''https:'')
        in catching
          (andThen (agentSend P L insecure (urlHref target) verb headers body) (\<lambda>r.
             if \<not> arsOk r then raise (agentFailure verb path corr r)
             else let payload = arsPayload r in
               if \<not> is_object payload \<or> \<not> hasProp ''ok'' payload \<or> getProp ''ok'' payload \<noteq> Bool True
                  \<or> \<not> hasProp ''data'' payload
               then raise (createAppError ''broker-agent::request''
                 ''Broker agent returned an invalid response payload.'' ''BROKER_AGENT_RESPONSE_INVALID'' corr
                 (Obj [(''method'', Str verb), (''path'', Str path)]) 500 None)
               else andThen (emit (logEvent LogInfo ''broker-agent::request''
                      (verb @ '' '' @ path @ '' succeeded.'') corr Undef)) (\<lambda>_.
                    ret (getProp ''data'' payload))))
          (\<lambda>e. raise (if is_AppError e then e else createAppError ''broker-agent::request''
             (''Broker agent request failed for '' @ verb @ '' '' @ path @ ''.'') ''BROKER_AGENT_REQUEST_FAILED''
             corr (Obj [(''method'', Str verb), (''path'', Str path)]) 500 (Some e))))))"

text \<open>The calls: a request and the property of its data that the caller wants.\<close>

definition agentCall ::
  "'b platform \<Rightarrow> loaded_config \<Rightarrow> string \<Rightarrow> string \<Rightarrow> jsval \<Rightarrow> string \<Rightarrow> string option
    \<Rightarrow> (('b, 'z) base_world_scheme, jsval) io" where
  "agentCall P L verb path body field corr =
    andThen (agentRequest P L verb path body corr) (\<lambda>d. liftR (readProp field d))"

definition readCurrentBrokerConfig :: "'b platform \<Rightarrow> loaded_config \<Rightarrow> string option \<Rightarrow> (('b, 'z) base_world_scheme, jsval) io" where
  "readCurrentBrokerConfig P L corr = agentCall P L ''GET'' ''/broker-config/current'' Undef ''current'' corr"

definition listManagedKeyFiles :: "'b platform \<Rightarrow> loaded_config \<Rightarrow> string option \<Rightarrow> (('b, 'z) base_world_scheme, jsval) io" where
  "listManagedKeyFiles P L corr = agentCall P L ''GET'' ''/broker-key-files'' Undef ''files'' corr"

definition readManagedKeyFile :: "'b platform \<Rightarrow> loaded_config \<Rightarrow> string \<Rightarrow> string option \<Rightarrow> (('b, 'z) base_world_scheme, jsval) io" where
  "readManagedKeyFile P L fileId corr = agentCall P L ''GET'' (''/broker-key-files/'' @ fileId) Undef ''file'' corr"

definition readHealth :: "'b platform \<Rightarrow> loaded_config \<Rightarrow> string option \<Rightarrow> (('b, 'z) base_world_scheme, jsval) io" where
  "readHealth P L corr = agentCall P L ''GET'' ''/health'' Undef ''health'' corr"

definition readDynsecStateRaw :: "'b platform \<Rightarrow> loaded_config \<Rightarrow> string option \<Rightarrow> (('b, 'z) base_world_scheme, jsval) io" where
  "readDynsecStateRaw P L corr = agentCall P L ''GET'' ''/dynsec/state'' Undef ''raw'' corr"

definition agentReloadBroker :: "'b platform \<Rightarrow> loaded_config \<Rightarrow> string option \<Rightarrow> (('b, 'z) base_world_scheme, jsval) io" where
  "agentReloadBroker P L corr = agentCall P L ''POST'' ''/broker/reload'' Undef ''operation'' corr"

definition agentRestartBroker :: "'b platform \<Rightarrow> loaded_config \<Rightarrow> string option \<Rightarrow> (('b, 'z) base_world_scheme, jsval) io" where
  "agentRestartBroker P L corr = agentCall P L ''POST'' ''/broker/restart'' Undef ''operation'' corr"

definition agentWriteBrokerConfig ::
  "'b platform \<Rightarrow> loaded_config \<Rightarrow> string \<Rightarrow> string option \<Rightarrow> string option
    \<Rightarrow> (('b, 'z) base_world_scheme, jsval) io" where
  "agentWriteBrokerConfig P L rendered expectedCurrent corr =
    agentRequest P L ''POST'' ''/broker-config/write''
      (Obj [(''rendered'', Str rendered), (''expectedCurrent'', opt_str expectedCurrent)]) corr"

definition agentRunDynsecCommand ::
  "'b platform \<Rightarrow> loaded_config \<Rightarrow> string \<Rightarrow> string list \<Rightarrow> jsval \<Rightarrow> string option
    \<Rightarrow> (('b, 'z) base_world_scheme, jsval) io" where
  "agentRunDynsecCommand P L command args connection corr =
    agentCall P L ''POST'' ''/dynsec/command''
      (Obj [(''command'', Str command), (''args'', Arr (map Str args)), (''connection'', connection)])
      ''result'' corr"

record agent_runtime =
  artVersion :: "string option"
  artBuildHash :: "string option"
  artMqttVersion :: "string option"

definition agentReadRuntime ::
  "'b platform \<Rightarrow> loaded_config \<Rightarrow> string option \<Rightarrow> (('b, 'z) base_world_scheme, agent_runtime) io" where
  "agentReadRuntime P L corr =
    andThen (agentRequest P L ''GET'' ''/runtime'' Undef corr) (\<lambda>v.
    andThen (liftR (readProp ''brokerAgentVersion'' v)) (\<lambda>a.
    ret \<lparr>artVersion = normalizeOptionalString a,
         artBuildHash = normalizeOptionalString (getProp ''brokerAgentBuildHash'' v),
         artMqttVersion = normalizeOptionalString (getProp ''mqttServerVersion'' v)\<rparr>))"

section \<open>Frames\<close>

context world_frame
begin

lemma fr_runCommand: "keeps part (runCommand P exe args shown t corr)"
  unfolding runCommand_def Let_def by (intro fr_base)

lemma fr_agentRequest: "keeps part (agentRequest P L verb path body corr)"
  unfolding agentRequest_def agentSend_def Let_def by (intro fr_base)

lemma fr_agentCall: "keeps part (agentCall P L verb path body field corr)"
  unfolding agentCall_def by (intro fr_base fr_agentRequest)

lemmas fr_agent = fr_runCommand fr_agentRequest fr_agentCall

end

end
