(* ===== verification/DynsecState.thy ===== *)
theory DynsecState
  imports Agent Dates Redact
begin

text \<open>
  The dynamic security state (\<open>server/dynsec/service.ts\<close>, first part): reading the broker's JSON
  (\<open>parse..\<close>, \<open>normalizeState\<close>), the client defaults and the credential summaries. The file is not
  validated: identifiers and descriptions keep the value they have (type \<open>unknown\<close>), a name is
  \<open>String(..)\<close> of what is there, a priority the finite number it denotes or -1.

  \<open>mergeMemberships\<close> is the second half of \<open>normalizeState\<close>, in which clients and groups learn of
  each other's references; its specification is \<open>membership_symmetric\<close>.
\<close>

section \<open>Names of the bootstrap\<close>

definition bootstrapDefaultRoleName :: string where "bootstrapDefaultRoleName = ''read-all''"
definition bootstrapReadWriteRoleName :: string where "bootstrapReadWriteRoleName = ''read-write-all''"
definition legacyBootstrapRoleName :: string where "legacyBootstrapRoleName = ''mqttctl-default''"

section \<open>Shapes\<close>

text \<open>\<open>DynsecAclType\<close>, in the order of the catalogue \<open>dynsecAclTypes\<close>.\<close>

datatype acl_type = PublishClientSend | PublishClientReceive | SubscribeLiteral | SubscribePattern
  | UnsubscribeLiteral | UnsubscribePattern

fun acl_type_str :: "acl_type \<Rightarrow> string" where
  "acl_type_str PublishClientSend = ''publishClientSend''"
| "acl_type_str PublishClientReceive = ''publishClientReceive''"
| "acl_type_str SubscribeLiteral = ''subscribeLiteral''"
| "acl_type_str SubscribePattern = ''subscribePattern''"
| "acl_type_str UnsubscribeLiteral = ''unsubscribeLiteral''"
| "acl_type_str UnsubscribePattern = ''unsubscribePattern''"

fun acl_rank :: "acl_type \<Rightarrow> nat" where
  "acl_rank PublishClientSend = 0"
| "acl_rank PublishClientReceive = 1"
| "acl_rank SubscribeLiteral = 2"
| "acl_rank SubscribePattern = 3"
| "acl_rank UnsubscribeLiteral = 4"
| "acl_rank UnsubscribePattern = 5"

lemma acl_rank_inj: "acl_rank a = acl_rank b \<longleftrightarrow> a = b"
  by (cases a; cases b) simp_all

instantiation acl_type :: linorder
begin

definition less_eq_acl_type :: "acl_type \<Rightarrow> acl_type \<Rightarrow> bool" where
  "less_eq_acl_type a b = (acl_rank a \<le> acl_rank b)"

definition less_acl_type :: "acl_type \<Rightarrow> acl_type \<Rightarrow> bool" where
  "less_acl_type a b = (acl_rank a < acl_rank b)"

instance
  by intro_classes (auto simp: less_eq_acl_type_def less_acl_type_def acl_rank_inj)

end

definition dynsecAclTypes :: "acl_type list" where
  "dynsecAclTypes = [PublishClientSend, PublishClientReceive, SubscribeLiteral, SubscribePattern,
    UnsubscribeLiteral, UnsubscribePattern]"

text \<open>\<open>DynsecRoleRef\<close>, \<open>DynsecGroupRef\<close> and \<open>DynsecClientRef\<close>: a name with a priority.\<close>

record entity_ref =
  refName :: string
  refPriority :: rat

text \<open>The type of an ACL read from the file is any string.\<close>

record dynsec_acl =
  aclType :: string
  aclTopic :: string
  aclPriority :: rat
  aclAllow :: bool
  aclName :: jsval
  aclDescription :: jsval

record dynsec_client =
  dcUsername :: string
  dcClientid :: jsval
  dcTextname :: jsval
  dcTextdescription :: jsval
  dcDisabled :: bool
  dcRoles :: "entity_ref list"
  dcGroups :: "entity_ref list"

record dynsec_group =
  dgGroupname :: string
  dgTextname :: jsval
  dgTextdescription :: jsval
  dgRoles :: "entity_ref list"
  dgClients :: "entity_ref list"

record dynsec_role =
  drRolename :: string
  drTextname :: jsval
  drTextdescription :: jsval
  drAcls :: "dynsec_acl list"

record dynsec_state =
  dsClients :: "dynsec_client list"
  dsGroups :: "dynsec_group list"
  dsRoles :: "dynsec_role list"
  dsAnonymousGroup :: "string option"
  dsDefaultAcls :: jsval
  dsRaw :: jsval
  dsLoadedAt :: string

section \<open>Reading the parts\<close>

definition numericValue :: "jsval \<Rightarrow> rat" where
  "numericValue v = (case to_number v of Fin r \<Rightarrow> r | _ \<Rightarrow> -1)"

definition integerValue :: "jsval \<Rightarrow> int \<Rightarrow> int" where
  "integerValue v fallback =
    (case to_number v of Fin r \<Rightarrow> if is_integer r then \<lfloor>r\<rfloor> else fallback | _ \<Rightarrow> fallback)"

text \<open>\<open>String(entry[key] ?? entry.name ?? '')\<close>.\<close>

definition nameOf :: "string \<Rightarrow> jsval \<Rightarrow> string" where
  "nameOf key v = to_string (coalesce (coalesce (getProp key v) (getProp ''name'' v)) (Str []))"

definition parseRef :: "string \<Rightarrow> jsval \<Rightarrow> entity_ref option" where
  "parseRef key v =
    (case v of
       Str s \<Rightarrow> Some \<lparr>refName = s, refPriority = -1\<rparr>
     | _ \<Rightarrow> if \<not> is_object v then None
          else let n = nameOf key v in
            if n = [] then None
            else Some \<lparr>refName = n, refPriority = numericValue (getProp ''priority'' v)\<rparr>)"

definition parseRefs :: "string \<Rightarrow> jsval \<Rightarrow> entity_ref list" where
  "parseRefs key v = (case v of Arr vs \<Rightarrow> List.map_filter (parseRef key) vs | _ \<Rightarrow> [])"

definition parseRoleRefs :: "jsval \<Rightarrow> entity_ref list" where
  "parseRoleRefs v = parseRefs ''rolename'' v"

definition parseGroupRefs :: "jsval \<Rightarrow> entity_ref list" where
  "parseGroupRefs v = parseRefs ''groupname'' v"

definition parseClientRefs :: "jsval \<Rightarrow> entity_ref list" where
  "parseClientRefs v = parseRefs ''username'' v"

definition aclOf :: "string \<Rightarrow> jsval \<Rightarrow> dynsec_acl" where
  "aclOf ty v =
    \<lparr>aclType = ty, aclTopic = to_string (coalesce (getProp ''topic'' v) (Str [])),
     aclPriority = numericValue (getProp ''priority'' v),
     aclAllow = truthy (coalesce (getProp ''allow'' v) (Bool (getProp ''effect'' v = Str ''allow''))),
     aclName = coalesce (getProp ''name'' v) Null,
     aclDescription = coalesce (getProp ''description'' v) Null\<rparr>"

definition parseListedAcl :: "jsval \<Rightarrow> dynsec_acl option" where
  "parseListedAcl v =
    (if \<not> is_object v then None
     else let a = aclOf (to_string (coalesce (getProp ''acltype'' v) (Str []))) v in
       if aclType a = [] \<or> aclTopic a = [] then None else Some a)"

definition parseGroupedAcl :: "string \<Rightarrow> jsval \<Rightarrow> dynsec_acl option" where
  "parseGroupedAcl ty v =
    (if \<not> is_object v then None
     else let a = aclOf ty v in if aclTopic a = [] then None else Some a)"

definition parseAcls :: "jsval \<Rightarrow> dynsec_acl list" where
  "parseAcls v =
    (case v of
       Arr vs \<Rightarrow> List.map_filter parseListedAcl vs
     | Obj kvs \<Rightarrow> concat (map (\<lambda>(ty, entries).
         case entries of Arr vs \<Rightarrow> List.map_filter (parseGroupedAcl ty) vs | _ \<Rightarrow> []) kvs)
     | _ \<Rightarrow> [])"

definition sortRefs :: "entity_ref list \<Rightarrow> entity_ref list" where
  "sortRefs refs = js_sort (\<lambda>l r. refPriority l < refPriority r) refs"

definition sortAclsByPriority :: "dynsec_acl list \<Rightarrow> dynsec_acl list" where
  "sortAclsByPriority as = js_sort (\<lambda>l r. aclPriority l < aclPriority r) as"

definition extractMeaningfulDynsecStderr :: "string \<Rightarrow> string" where
  "extractMeaningfulDynsecStderr stderr =
    (let benign = [''Warning: You are running mosquitto_ctrl without encryption.'',
       ''This means all of the configuration changes you are making are visible on the network, including passwords.'']
     in join [CHR 0x0A] (filter (\<lambda>l. l \<noteq> [] \<and> l \<notin> set benign) (map trim (splitOn (CHR 0x0A) stderr))))"

definition normalizeEntityName :: "string \<Rightarrow> string" where
  "normalizeEntityName v = trim v"

section \<open>Merging memberships\<close>

text \<open>\<open>Math.max(left ?? -Infinity, right)\<close>.\<close>

definition mergePriority :: "rat option \<Rightarrow> rat \<Rightarrow> rat" where
  "mergePriority l r = (case l of None \<Rightarrow> r | Some x \<Rightarrow> max x r)"

type_synonym memberships = "(string, (string, rat) omap) omap"

definition addMembership :: "string \<Rightarrow> string \<Rightarrow> rat \<Rightarrow> memberships \<Rightarrow> memberships" where
  "addMembership owner member p m =
    (let ms = (case map_of m owner of None \<Rightarrow> [] | Some x \<Rightarrow> x) in
     AList.update owner (AList.update member (mergePriority (map_of ms member) p) ms) m)"

definition groupMembershipsByClient :: "dynsec_group list \<Rightarrow> memberships" where
  "groupMembershipsByClient gs = fold (\<lambda>g m. fold (\<lambda>c m. addMembership (refName c) (dgGroupname g) (refPriority c) m)
    (dgClients g) m) gs []"

definition clientMembershipsByGroup :: "dynsec_client list \<Rightarrow> memberships" where
  "clientMembershipsByGroup cs = fold (\<lambda>c m. fold (\<lambda>g m. addMembership (refName g) (dcUsername c) (refPriority g) m)
    (dcGroups c) m) cs []"

definition mergeRefs :: "entity_ref list \<Rightarrow> (string, rat) omap \<Rightarrow> entity_ref list" where
  "mergeRefs refs extra =
    (let own = fold (\<lambda>r m. AList.update (refName r) (refPriority r) m) refs [];
         merged = fold (\<lambda>(k, p) m. AList.update k (mergePriority (map_of m k) p) m) extra own
     in sortRefs (map (\<lambda>(k, p). \<lparr>refName = k, refPriority = p\<rparr>) merged))"

definition membershipsOf :: "memberships \<Rightarrow> string \<Rightarrow> (string, rat) omap" where
  "membershipsOf m k = (case map_of m k of None \<Rightarrow> [] | Some x \<Rightarrow> x)"

definition mergeMemberships ::
  "dynsec_client list \<Rightarrow> dynsec_group list \<Rightarrow> dynsec_client list \<times> dynsec_group list" where
  "mergeMemberships cs gs =
    (map (\<lambda>c. c\<lparr>dcGroups := mergeRefs (dcGroups c)
       (membershipsOf (groupMembershipsByClient gs) (dcUsername c))\<rparr>) cs,
     map (\<lambda>g. g\<lparr>dgClients := mergeRefs (dgClients g)
       (membershipsOf (clientMembershipsByGroup cs) (dgGroupname g))\<rparr>) gs)"

section \<open>normalizeState\<close>

definition parseClient :: "jsval \<Rightarrow> exn + dynsec_client" where
  "parseClient v =
    (case readProp ''username'' v of Inl e \<Rightarrow> Inl e
     | Inr _ \<Rightarrow> Inr \<lparr>dcUsername = nameOf ''username'' v, dcClientid = coalesce (getProp ''clientid'' v) Null,
         dcTextname = coalesce (getProp ''textname'' v) Null,
         dcTextdescription = coalesce (getProp ''textdescription'' v) Null,
         dcDisabled = truthy (getProp ''disabled'' v),
         dcRoles = sortRefs (parseRoleRefs (getProp ''roles'' v)),
         dcGroups = sortRefs (parseGroupRefs (getProp ''groups'' v))\<rparr>)"

definition parseGroup :: "jsval \<Rightarrow> exn + dynsec_group" where
  "parseGroup v =
    (case readProp ''groupname'' v of Inl e \<Rightarrow> Inl e
     | Inr _ \<Rightarrow> Inr \<lparr>dgGroupname = nameOf ''groupname'' v, dgTextname = coalesce (getProp ''textname'' v) Null,
         dgTextdescription = coalesce (getProp ''textdescription'' v) Null,
         dgRoles = sortRefs (parseRoleRefs (getProp ''roles'' v)),
         dgClients = sortRefs (parseClientRefs (getProp ''clients'' v))\<rparr>)"

definition parseRole :: "jsval \<Rightarrow> exn + dynsec_role" where
  "parseRole v =
    (case readProp ''rolename'' v of Inl e \<Rightarrow> Inl e
     | Inr _ \<Rightarrow> Inr \<lparr>drRolename = nameOf ''rolename'' v, drTextname = coalesce (getProp ''textname'' v) Null,
         drTextdescription = coalesce (getProp ''textdescription'' v) Null,
         drAcls = sortAclsByPriority (parseAcls (getProp ''acls'' v))\<rparr>)"

definition listOf :: "(jsval \<Rightarrow> exn + 'a) \<Rightarrow> ('a \<Rightarrow> bool) \<Rightarrow> jsval \<Rightarrow> exn + 'a list" where
  "listOf f named v =
    (case v of Arr vs \<Rightarrow> (case mapR f vs of Inl e \<Rightarrow> Inl e | Inr xs \<Rightarrow> Inr (filter named xs)) | _ \<Rightarrow> Inr [])"

definition normalizeState :: "jsval \<Rightarrow> int \<Rightarrow> exn + dynsec_state" where
  "normalizeState raw t =
    (case readProp ''clients'' raw of Inl e \<Rightarrow> Inl e | Inr rawClients \<Rightarrow>
    (case listOf parseClient (\<lambda>c. dcUsername c \<noteq> []) rawClients of Inl e \<Rightarrow> Inl e | Inr parsedClients \<Rightarrow>
    (case listOf parseGroup (\<lambda>g. dgGroupname g \<noteq> []) (getProp ''groups'' raw) of Inl e \<Rightarrow> Inl e | Inr parsedGroups \<Rightarrow>
    (case listOf parseRole (\<lambda>r. drRolename r \<noteq> []) (getProp ''roles'' raw) of Inl e \<Rightarrow> Inl e | Inr roles \<Rightarrow>
     Inr \<lparr>dsClients = fst (mergeMemberships parsedClients parsedGroups),
          dsGroups = snd (mergeMemberships parsedClients parsedGroups), dsRoles = roles,
          dsAnonymousGroup = str_of (getProp ''anonymousGroup'' raw),
          dsDefaultAcls = coalesce (getProp ''defaultACLAccess'' raw) (Obj []),
          dsRaw = raw, dsLoadedAt = toISOString t\<rparr>))))"

section \<open>Client defaults and credentials\<close>

record client_defaults =
  cdRoleName :: "string option"
  cdRolePriority :: int

definition normalizeClientDefaults :: "jsval \<Rightarrow> client_defaults" where
  "normalizeClientDefaults v =
    (if \<not> is_object v then \<lparr>cdRoleName = None, cdRolePriority = 0\<rparr>
     else \<lparr>cdRoleName = (case getProp ''defaultRoleName'' v of Str s \<Rightarrow> if trim s \<noteq> [] then Some (trim s) else None
                       | _ \<Rightarrow> None),
           cdRolePriority = integerValue (getProp ''defaultRolePriority'' v) 0\<rparr>)"

definition client_defaults_value :: "client_defaults \<Rightarrow> jsval" where
  "client_defaults_value d = Obj [(''defaultRoleName'', opt_str (cdRoleName d)),
    (''defaultRolePriority'', num_int (cdRolePriority d))]"

definition summarizeCredentialValue :: "jsval \<Rightarrow> string" where
  "summarizeCredentialValue v =
    (case v of Str s \<Rightarrow> if length s \<le> 12 then redactedToken else take 6 s @ ''...'' @ lastChars 6 s
     | _ \<Rightarrow> redactedToken)"

fun sanitizeDynsecCredentialFields :: "jsval \<Rightarrow> jsval" where
  "sanitizeDynsecCredentialFields (Arr vs) = Arr (map sanitizeDynsecCredentialFields vs)"
| "sanitizeDynsecCredentialFields (Obj kvs) =
    Obj (map (\<lambda>kv. (fst kv, if fst kv = ''password'' \<or> fst kv = ''salt''
      then Str (summarizeCredentialValue (snd kv)) else sanitizeDynsecCredentialFields (snd kv))) kvs)"
| "sanitizeDynsecCredentialFields v = v"

section \<open>Merged memberships are symmetric\<close>

definition refOf :: "string \<Rightarrow> entity_ref list \<Rightarrow> rat option" where
  "refOf k refs = map_option refPriority (List.find (\<lambda>r. refName r = k) refs)"

definition distinct_refs :: "entity_ref list \<Rightarrow> bool" where
  "distinct_refs refs = distinct (map refName refs)"

definition lookup2 :: "memberships \<Rightarrow> string \<Rightarrow> string \<Rightarrow> rat option" where
  "lookup2 m k n = map_of (membershipsOf m k) n"

definition bothRefs :: "rat option \<Rightarrow> rat option \<Rightarrow> rat option" where
  "bothRefs a b = (case b of None \<Rightarrow> a | Some q \<Rightarrow> Some (mergePriority a q))"

lemma bothRefs_comm: "bothRefs a b = bothRefs b a"
  by (cases a; cases b) (simp_all add: bothRefs_def mergePriority_def max.commute)

lemma refOf_Cons: "refOf k (r # rs) = (if refName r = k then Some (refPriority r) else refOf k rs)"
  by (simp add: refOf_def)

lemma refOf_Nil [simp]: "refOf k [] = None"
  by (simp add: refOf_def)

lemma refOf_None: "refOf k refs = None \<longleftrightarrow> k \<notin> set (map refName refs)"
  by (induction refs) (auto simp: refOf_Cons)

lemma refOf_Some:
  "distinct_refs refs \<Longrightarrow> refOf k refs = Some p \<longleftrightarrow> (\<exists>r \<in> set refs. refName r = k \<and> refPriority r = p)"
proof
  assume "refOf k refs = Some p"
  then obtain r where "List.find (\<lambda>x. refName x = k) refs = Some r" "refPriority r = p"
    by (auto simp: refOf_def)
  then show "\<exists>r \<in> set refs. refName r = k \<and> refPriority r = p" using find_Some_set by fastforce
next
  assume d: "distinct_refs refs"
  assume "\<exists>r \<in> set refs. refName r = k \<and> refPriority r = p"
  then obtain r where r: "r \<in> set refs" "refName r = k" "refPriority r = p" by blast
  then have "List.find (\<lambda>x. refName x = k) refs = Some r"
    using d by (intro find_distinct) (simp_all add: distinct_refs_def)
  then show "refOf k refs = Some p" using r by (simp add: refOf_def)
qed

lemma refOf_perm:
  assumes "distinct_refs xs" "mset ys = mset xs"
  shows "refOf k ys = refOf k xs"
proof -
  have d: "distinct_refs ys"
    using assms by (metis distinct_refs_def mset_eq_imp_distinct_iff mset_map)
  have "set ys = set xs" using assms(2) by (rule mset_eq_setD)
  then have "refOf k ys = Some p \<longleftrightarrow> refOf k xs = Some p" for p
    using refOf_Some [OF d, of k p] refOf_Some [OF assms(1), of k p] by simp
  then show ?thesis by (metis not_Some_eq)
qed

lemma refOf_entries: "refOf k (map (\<lambda>(k, p). \<lparr>refName = k, refPriority = p\<rparr>) m) = map_of m k"
  by (induction m) (auto simp: refOf_Cons)

lemma fold_own:
  "map_of (fold (\<lambda>r m. AList.update (refName r) (refPriority r) m) refs m) k =
    (case refOf k (rev refs) of None \<Rightarrow> map_of m k | Some p \<Rightarrow> Some p)"
proof (induction refs arbitrary: m)
  case Nil
  then show ?case by simp
next
  case (Cons r refs)
  have "refOf k (xs @ [r]) = (case refOf k xs of None \<Rightarrow> refOf k [r] | Some p \<Rightarrow> Some p)" for xs
    by (induction xs) (auto simp: refOf_Cons)
  then show ?case using Cons by (auto simp: update_conv' refOf_Cons split: option.splits)
qed

lemma om_ok_update: "om_ok m \<Longrightarrow> om_ok (AList.update k v m)"
  by (rule omap.ok_put)

lemma om_ok_fold_own: "om_ok m \<Longrightarrow> om_ok (fold (\<lambda>r m. AList.update (refName r) (refPriority r) m) refs m)"
  by (induction refs arbitrary: m) (auto intro: om_ok_update)

lemma fold_merge:
  assumes "om_ok extra"
  shows "map_of (fold (\<lambda>(k, p) m. AList.update k (mergePriority (map_of m k) p) m) extra m) k =
    bothRefs (map_of m k) (map_of extra k)"
  using assms
proof (induction extra arbitrary: m)
  case Nil
  then show ?case by (simp add: bothRefs_def)
next
  case (Cons e extra)
  obtain k' p where e: "e = (k', p)" by fastforce
  have "om_ok extra" using Cons.prems e by (simp add: om_ok_def)
  moreover have "map_of extra k' = None"
    using Cons.prems e by (auto simp: om_ok_def map_of_eq_None_iff)
  ultimately show ?case
    using Cons.IH [of "AList.update k' (mergePriority (map_of m k') p) m"]
    by (auto simp: e update_conv' bothRefs_def)
qed

lemma om_ok_fold_merge:
  "om_ok m \<Longrightarrow> om_ok (fold (\<lambda>(k, p) m. AList.update k (mergePriority (map_of m k) p) m) extra m)"
  by (induction extra arbitrary: m) (auto intro: om_ok_update)

lemma distinct_entries:
  "om_ok m \<Longrightarrow> distinct_refs (map (\<lambda>(k, p). \<lparr>refName = k, refPriority = p\<rparr>) m)"
  by (simp add: distinct_refs_def om_ok_def comp_def case_prod_unfold)

lemma mergeRefs_lookup:
  assumes "distinct_refs refs" and "om_ok extra"
  shows "refOf k (mergeRefs refs extra) = bothRefs (refOf k refs) (map_of extra k)"
    and "distinct_refs (mergeRefs refs extra)"
proof -
  let ?own = "fold (\<lambda>r m. AList.update (refName r) (refPriority r) m) refs []"
  let ?m = "fold (\<lambda>(k, p) m. AList.update k (mergePriority (map_of m k) p) m) extra ?own"
  let ?es = "map (\<lambda>(k, p). \<lparr>refName = k, refPriority = p\<rparr>) ?m"
  have ok: "om_ok ?m" by (intro om_ok_fold_merge om_ok_fold_own) simp
  have "refOf k (rev refs) = refOf k refs" by (rule refOf_perm [OF assms(1)]) simp
  then have own: "map_of ?own k = refOf k refs" by (simp add: fold_own split: option.split)
  have "refOf k (sortRefs ?es) = refOf k ?es"
    unfolding sortRefs_def by (rule refOf_perm [OF distinct_entries [OF ok]]) simp
  then show "refOf k (mergeRefs refs extra) = bothRefs (refOf k refs) (map_of extra k)"
    using own by (simp add: mergeRefs_def Let_def refOf_entries fold_merge [OF assms(2)])
  show "distinct_refs (mergeRefs refs extra)"
    using distinct_entries [OF ok] by (simp add: mergeRefs_def Let_def sortRefs_def distinct_refs_def)
qed

lemma lookup2_add:
  "lookup2 (addMembership a b p m) a' b' =
    (if a' = a \<and> b' = b then Some (mergePriority (lookup2 m a b) p) else lookup2 m a' b')"
  by (auto simp: lookup2_def addMembership_def membershipsOf_def Let_def update_conv' split: option.splits)

definition inner_ok :: "memberships \<Rightarrow> bool" where
  "inner_ok m = (\<forall>k. om_ok (membershipsOf m k))"

lemma inner_ok_add: "inner_ok m \<Longrightarrow> inner_ok (addMembership a b p m)"
  by (auto simp: inner_ok_def addMembership_def membershipsOf_def Let_def update_conv' om_ok_update
      split: option.splits)

lemma inner_ok_fold: "inner_ok m \<Longrightarrow> inner_ok (fold (\<lambda>r m. addMembership (f r) (g r) (h r) m) rs m)"
  by (induction rs arbitrary: m) (auto intro: inner_ok_add)

text \<open>Both tables of memberships are one fold, over groups and over clients.\<close>

definition collect :: "('x \<Rightarrow> string) \<Rightarrow> ('x \<Rightarrow> entity_ref list) \<Rightarrow> 'x list \<Rightarrow> memberships \<Rightarrow> memberships" where
  "collect name refs xs m = fold (\<lambda>x m. fold (\<lambda>r m. addMembership (refName r) (name x) (refPriority r) m)
    (refs x) m) xs m"

lemma lookup2_refs:
  "distinct_refs rs \<Longrightarrow>
    lookup2 (fold (\<lambda>r m. addMembership (refName r) n (refPriority r) m) rs m) a b =
    (if b = n then bothRefs (lookup2 m a b) (refOf a rs) else lookup2 m a b)"
proof (induction rs arbitrary: m)
  case Nil
  then show ?case by (simp add: bothRefs_def)
next
  case (Cons r rs)
  have "distinct_refs rs" "refName r \<notin> set (map refName rs)"
    using Cons.prems by (simp_all add: distinct_refs_def)
  then show ?case
    using Cons.IH refOf_None [of "refName r" rs] by (auto simp: lookup2_add refOf_Cons bothRefs_def)
qed

lemma lookup2_collect:
  assumes "distinct (map name xs)" and "\<And>x. x \<in> set xs \<Longrightarrow> distinct_refs (refs x)"
  shows "lookup2 (collect name refs xs m) a b =
    (case List.find (\<lambda>x. name x = b) xs of None \<Rightarrow> lookup2 m a b
     | Some x \<Rightarrow> bothRefs (lookup2 m a b) (refOf a (refs x)))"
  using assms
proof (induction xs arbitrary: m)
  case Nil
  then show ?case by (simp add: collect_def)
next
  case (Cons x xs)
  let ?m = "fold (\<lambda>r m. addMembership (refName r) (name x) (refPriority r) m) (refs x) m"
  have step: "collect name refs (x # xs) m = collect name refs xs ?m" by (simp add: collect_def)
  have here: "lookup2 ?m a b = (if b = name x then bothRefs (lookup2 m a b) (refOf a (refs x)) else lookup2 m a b)"
    by (rule lookup2_refs) (use Cons.prems in simp)
  have "name x \<notin> set (map name xs)" using Cons.prems(1) by simp
  then have "List.find (\<lambda>y. name y = name x) xs = None" by (auto simp: find_None image_iff)
  then show ?case
    using Cons.IH [of ?m] Cons.prems step here by (auto split: option.splits)
qed

lemma inner_ok_collect: "inner_ok m \<Longrightarrow> inner_ok (collect name refs xs m)"
proof (induction xs arbitrary: m)
  case Nil
  then show ?case by (simp add: collect_def)
next
  case (Cons x xs)
  have "collect name refs (x # xs) m = collect name refs xs
    (fold (\<lambda>r m. addMembership (refName r) (name x) (refPriority r) m) (refs x) m)"
    by (simp add: collect_def)
  then show ?case
    using Cons inner_ok_fold [OF Cons.prems, of refName "\<lambda>_. name x" refPriority "refs x"] by simp
qed

lemma tables_collect:
  "groupMembershipsByClient gs = collect dgGroupname dgClients gs []"
  "clientMembershipsByGroup cs = collect dcUsername dcGroups cs []"
  by (simp_all add: groupMembershipsByClient_def clientMembershipsByGroup_def collect_def)

lemma inner_ok_Nil: "inner_ok []"
  by (simp add: inner_ok_def membershipsOf_def)

lemma collect_ok: "om_ok (membershipsOf (collect name refs xs []) k)"
  using inner_ok_collect [OF inner_ok_Nil, of name refs xs] by (simp add: inner_ok_def)

lemma lookup2_Nil: "lookup2 [] a b = None"
  by (simp add: lookup2_def membershipsOf_def)

definition parsed_ok :: "dynsec_client list \<Rightarrow> dynsec_group list \<Rightarrow> bool" where
  "parsed_ok cs gs = (distinct (map dcUsername cs) \<and> distinct (map dgGroupname gs) \<and>
    (\<forall>c \<in> set cs. distinct_refs (dcGroups c)) \<and> (\<forall>g \<in> set gs. distinct_refs (dgClients g)))"

lemma collect_entry:
  assumes "distinct (map name xs)" "\<forall>x \<in> set xs. distinct_refs (refs x)" "x \<in> set xs"
  shows "map_of (membershipsOf (collect name refs xs []) a) (name x) = refOf a (refs x)"
proof -
  have "List.find (\<lambda>y. name y = name x) xs = Some x" using assms(1,3) by (intro find_distinct) simp_all
  then have "lookup2 (collect name refs xs []) a (name x) = refOf a (refs x)"
    using assms(1,2) by (simp add: lookup2_collect lookup2_Nil bothRefs_def mergePriority_def split: option.split)
  then show ?thesis by (simp add: lookup2_def)
qed

lemma merged_client_groups:
  assumes "parsed_ok cs gs" "c \<in> set cs" "g \<in> set gs"
  shows "refOf (dgGroupname g) (mergeRefs (dcGroups c) (membershipsOf (groupMembershipsByClient gs) (dcUsername c)))
    = bothRefs (refOf (dgGroupname g) (dcGroups c)) (refOf (dcUsername c) (dgClients g))"
proof -
  have "om_ok (membershipsOf (groupMembershipsByClient gs) (dcUsername c))"
    by (simp add: tables_collect collect_ok)
  moreover have "distinct_refs (dcGroups c)" using assms by (simp add: parsed_ok_def)
  moreover have "map_of (membershipsOf (groupMembershipsByClient gs) (dcUsername c)) (dgGroupname g) =
    refOf (dcUsername c) (dgClients g)"
    unfolding tables_collect by (rule collect_entry) (use assms in \<open>simp_all add: parsed_ok_def\<close>)
  ultimately show ?thesis by (simp add: mergeRefs_lookup)
qed

lemma merged_group_clients:
  assumes "parsed_ok cs gs" "c \<in> set cs" "g \<in> set gs"
  shows "refOf (dcUsername c) (mergeRefs (dgClients g) (membershipsOf (clientMembershipsByGroup cs) (dgGroupname g)))
    = bothRefs (refOf (dcUsername c) (dgClients g)) (refOf (dgGroupname g) (dcGroups c))"
proof -
  have "om_ok (membershipsOf (clientMembershipsByGroup cs) (dgGroupname g))"
    by (simp add: tables_collect collect_ok)
  moreover have "distinct_refs (dgClients g)" using assms by (simp add: parsed_ok_def)
  moreover have "map_of (membershipsOf (clientMembershipsByGroup cs) (dgGroupname g)) (dcUsername c) =
    refOf (dgGroupname g) (dcGroups c)"
    unfolding tables_collect by (rule collect_entry) (use assms in \<open>simp_all add: parsed_ok_def\<close>)
  ultimately show ?thesis by (simp add: mergeRefs_lookup)
qed

text \<open>
  After the merge a client and a group agree on the client's membership: each lists the other
  exactly when one of the two did in the file, with the higher of the two priorities.
\<close>

theorem membership_symmetric:
  assumes "parsed_ok cs gs" and "mergeMemberships cs gs = (cs', gs')"
    and "i < length cs" and "j < length gs"
  shows "refOf (dgGroupname (gs ! j)) (dcGroups (cs' ! i)) = refOf (dcUsername (cs ! i)) (dgClients (gs' ! j))
    \<and> refOf (dgGroupname (gs ! j)) (dcGroups (cs' ! i)) =
      bothRefs (refOf (dgGroupname (gs ! j)) (dcGroups (cs ! i))) (refOf (dcUsername (cs ! i)) (dgClients (gs ! j)))"
proof -
  have mem: "cs ! i \<in> set cs" "gs ! j \<in> set gs" using assms(3,4) by simp_all
  have "dcGroups (cs' ! i) = mergeRefs (dcGroups (cs ! i))
      (membershipsOf (groupMembershipsByClient gs) (dcUsername (cs ! i)))"
    "dgClients (gs' ! j) = mergeRefs (dgClients (gs ! j))
      (membershipsOf (clientMembershipsByGroup cs) (dgGroupname (gs ! j)))"
    using assms(2-4) by (auto simp: mergeMemberships_def)
  then show ?thesis
    using merged_client_groups [OF assms(1) mem] merged_group_clients [OF assms(1) mem]
    by (simp add: bothRefs_comm)
qed

definition sample_client :: "string \<Rightarrow> entity_ref list \<Rightarrow> entity_ref list \<Rightarrow> dynsec_client" where
  "sample_client n rs gs = \<lparr>dcUsername = n, dcClientid = Null, dcTextname = Null, dcTextdescription = Null,
    dcDisabled = False, dcRoles = rs, dcGroups = gs\<rparr>"

definition sample_group :: "string \<Rightarrow> entity_ref list \<Rightarrow> entity_ref list \<Rightarrow> dynsec_group" where
  "sample_group n rs cs = \<lparr>dgGroupname = n, dgTextname = Null, dgTextdescription = Null, dgRoles = rs,
    dgClients = cs\<rparr>"

theorem membership_symmetric_witness:
  "let cs = [sample_client ''bob'' [] [\<lparr>refName = ''ops'', refPriority = 2\<rparr>]];
       gs = [sample_group ''ops'' [] [\<lparr>refName = ''bob'', refPriority = 7\<rparr>]] in
   refOf ''ops'' (dcGroups (fst (mergeMemberships cs gs) ! 0)) = Some 7 \<and>
   refOf ''bob'' (dgClients (snd (mergeMemberships cs gs) ! 0)) = Some 7"
proof -
  let ?cs = "[sample_client ''bob'' [] [\<lparr>refName = ''ops'', refPriority = 2\<rparr>]]"
  let ?gs = "[sample_group ''ops'' [] [\<lparr>refName = ''bob'', refPriority = 7\<rparr>]]"
  have "parsed_ok ?cs ?gs"
    by (simp add: parsed_ok_def sample_client_def sample_group_def distinct_refs_def)
  note agree = membership_symmetric [OF this prod.collapse [symmetric], of 0 0]
  have names: "dgGroupname (?gs ! 0) = ''ops''" "dcUsername (?cs ! 0) = ''bob''"
    by (simp_all add: sample_client_def sample_group_def)
  have "bothRefs (refOf ''ops'' (dcGroups (?cs ! 0))) (refOf ''bob'' (dgClients (?gs ! 0))) = Some 7"
    by (simp add: sample_client_def sample_group_def refOf_Cons bothRefs_def mergePriority_def)
  then show ?thesis using agree unfolding names Let_def by simp metis
qed

section \<open>Client defaults and credentials\<close>

text \<open>
  Client defaults survive storage: normalising what was stored for normalised defaults gives
  them back, whatever the caller passed in the first place.
\<close>

theorem client_defaults_stable:
  "normalizeClientDefaults (client_defaults_value (normalizeClientDefaults v)) = normalizeClientDefaults v"
  by (simp add: normalizeClientDefaults_def client_defaults_value_def opt_str_def is_object_def getProp_def
      integerValue_def num_int_def to_number_def split: jsval.split option.split)

end
