(* ===== verification/DynsecPerm.thy ===== *)
theory DynsecPerm
  imports DynsecState
begin

text \<open>
  Effective permissions (\<open>server/dynsec/service.ts\<close>): the ACLs of a client's roles and of its
  groups' roles, resolved per ACL type and topic. \<open>resolveEffectiveAcls\<close> is the one-pass routine of
  the source; \<open>effective_spec\<close> says what it must find (the highest priority wins, a tie is a deny),
  and \<open>effective_acls_refine\<close> that it does.
\<close>

section \<open>Resolving\<close>

definition aclKey :: "dynsec_acl \<Rightarrow> string" where
  "aclKey a = aclType a @ '':'' @ aclTopic a"

definition sortAclsByPriorityAndEffect :: "'b platform \<Rightarrow> dynsec_acl list \<Rightarrow> dynsec_acl list" where
  "sortAclsByPriorityAndEffect P as = js_sort (\<lambda>l r.
    if aclPriority r \<noteq> aclPriority l then aclPriority l < aclPriority r
    else if aclAllow l \<noteq> aclAllow r then aclAllow l
    else locale_gt P (aclKey l) (aclKey r)) as"

definition normalizeAclTypeSelection :: "acl_type list \<Rightarrow> acl_type list" where
  "normalizeAclTypeSelection v = filter (\<lambda>t. t \<in> set v) dynsecAclTypes"

definition takeAcl :: "dynsec_acl \<Rightarrow> (string, dynsec_acl) omap \<Rightarrow> (string, dynsec_acl) omap" where
  "takeAcl a m =
    (case map_of m (aclKey a) of
       None \<Rightarrow> AList.update (aclKey a) a m
     | Some c \<Rightarrow>
        if aclPriority c < aclPriority a then AList.update (aclKey a) a m
        else if aclPriority a = aclPriority c \<and> aclAllow c \<and> \<not> aclAllow a then AList.update (aclKey a) a m
        else m)"

definition resolveEffectiveAcls :: "'b platform \<Rightarrow> dynsec_acl list \<Rightarrow> dynsec_acl list" where
  "resolveEffectiveAcls P as = sortAclsByPriorityAndEffect P (map snd (fold takeAcl as []))"

section \<open>Effective permissions of a client\<close>

text \<open>\<open>new Map(items.map((x) => [key(x), x]))\<close>.\<close>

definition mapBy :: "('x \<Rightarrow> string) \<Rightarrow> 'x list \<Rightarrow> (string, 'x) omap" where
  "mapBy key xs = fold (\<lambda>x m. AList.update (key x) x m) xs []"

definition followRefs :: "(string, 'x) omap \<Rightarrow> entity_ref list \<Rightarrow> 'x list" where
  "followRefs m refs = List.map_filter (\<lambda>r. map_of m (refName r)) refs"

record effective_view =
  evwClient :: dynsec_client
  evwDirectRoles :: "dynsec_role list"
  evwInheritedGroups :: "(dynsec_group \<times> dynsec_role list) list"
  evwMergedAcls :: "dynsec_acl list"
  evwWarnings :: "string list"
  evwRaw :: jsval

definition clientAcls :: "dynsec_role list \<Rightarrow> (dynsec_group \<times> dynsec_role list) list \<Rightarrow> dynsec_acl list" where
  "clientAcls direct inherited = concat (map drAcls direct) @ concat (map (\<lambda>(g, rs). concat (map drAcls rs)) inherited)"

text \<open>The effects seen so far per key, and whether a key has shown both.\<close>

definition noteEffect :: "dynsec_acl \<Rightarrow> (string, bool list) omap \<times> bool \<Rightarrow> (string, bool list) omap \<times> bool" where
  "noteEffect a = (\<lambda>(m, conflict).
    let seen = (case map_of m (aclKey a) of None \<Rightarrow> [] | Some s \<Rightarrow> s);
        seen' = (if aclAllow a \<in> set seen then seen else seen @ [aclAllow a])
    in (AList.update (aclKey a) seen' m, conflict \<or> (True \<in> set seen' \<and> False \<in> set seen')))"

definition effectConflict :: "dynsec_acl list \<Rightarrow> bool" where
  "effectConflict as = snd (fold noteEffect as ([], False))"

definition permissionWarnings :: "dynsec_acl list \<Rightarrow> string list" where
  "permissionWarnings as =
    (if list_ex (\<lambda>a. aclAllow a \<and> aclType a = ''publishClientSend'' \<and> containsStr (aclTopic a) ''#'') as
     then [''Broad write access includes wildcard publish permission.''] else []) @
    (if effectConflict as
     then [''Conflicting allow/deny ACL overlap detected. Equal-priority conflicts resolve to deny.''] else []) @
    (if list_ex (\<lambda>a. containsStr (aclTopic a) ''$SYS'' \<or> containsStr (aclTopic a) ''$CONTROL'' \<or>
        containsStr (toLowerCase (aclTopic a)) ''secret'') as
     then [''Sensitive topic access detected.''] else [])"

definition effectivePermissions :: "'b platform \<Rightarrow> dynsec_state \<Rightarrow> dynsec_client \<Rightarrow> effective_view" where
  "effectivePermissions P st c =
    (let roleLookup = mapBy drRolename (dsRoles st); groupLookup = mapBy dgGroupname (dsGroups st);
         direct = followRefs roleLookup (dcRoles c);
         inherited = map (\<lambda>g. (g, followRefs roleLookup (dgRoles g))) (followRefs groupLookup (dcGroups c));
         merged = clientAcls direct inherited
     in \<lparr>evwClient = c, evwDirectRoles = direct, evwInheritedGroups = inherited,
         evwMergedAcls = resolveEffectiveAcls P merged, evwWarnings = permissionWarnings merged,
         evwRaw = sanitizeDynsecCredentialFields (dsRaw st)\<rparr>)"

section \<open>Specification\<close>

fun best_priority :: "dynsec_acl list \<Rightarrow> rat" where
  "best_priority [] = 0"
| "best_priority [a] = aclPriority a"
| "best_priority (a # as) = max (aclPriority a) (best_priority as)"

definition effective_spec :: "dynsec_acl list \<Rightarrow> string \<Rightarrow> dynsec_acl option" where
  "effective_spec as k =
    (let mine = filter (\<lambda>a. aclKey a = k) as;
         top = filter (\<lambda>a. aclPriority a = best_priority mine) mine
     in if mine = [] then None
        else case List.find (\<lambda>a. \<not> aclAllow a) top of Some d \<Rightarrow> Some d | None \<Rightarrow> Some (hd top))"

lemma best_priority_snoc:
  "as \<noteq> [] \<Longrightarrow> best_priority (as @ [a]) = max (best_priority as) (aclPriority a)"
  by (induction as rule: best_priority.induct) (auto simp: max.assoc)

lemma best_priority_in: "as \<noteq> [] \<Longrightarrow> \<exists>a \<in> set as. aclPriority a = best_priority as"
proof (induction as rule: best_priority.induct)
  case (3 a b as)
  then obtain x where x: "x \<in> set (b # as)" "aclPriority x = best_priority (b # as)" by blast
  show ?case
  proof (cases "aclPriority a \<le> best_priority (b # as)")
    case True
    then show ?thesis using x by (auto simp: max_def)
  next
    case False
    then show ?thesis by (auto simp: max_def)
  qed
qed auto

lemma best_priority_ge: "a \<in> set as \<Longrightarrow> aclPriority a \<le> best_priority as"
  by (induction as rule: best_priority.induct) (auto simp: le_max_iff_disj)

lemma find_append: "List.find Q (xs @ ys) = (case List.find Q xs of None \<Rightarrow> List.find Q ys | Some x \<Rightarrow> Some x)"
  by (induction xs) auto

definition pick :: "dynsec_acl list \<Rightarrow> dynsec_acl" where
  "pick as = (let top = filter (\<lambda>a. aclPriority a = best_priority as) as in
    case List.find (\<lambda>a. \<not> aclAllow a) top of Some d \<Rightarrow> d | None \<Rightarrow> hd top)"

lemma effective_spec_pick:
  "effective_spec as k = (let mine = filter (\<lambda>a. aclKey a = k) as in if mine = [] then None else Some (pick mine))"
  by (simp add: effective_spec_def pick_def Let_def split: option.split)

lemma pick_top: "as \<noteq> [] \<Longrightarrow> pick as \<in> set as \<and> aclPriority (pick as) = best_priority as"
proof -
  assume ne: "as \<noteq> []"
  let ?top = "filter (\<lambda>a. aclPriority a = best_priority as) as"
  have top: "?top \<noteq> []" using best_priority_in [OF ne] by (auto simp: filter_empty_conv)
  have "pick as \<in> set ?top"
  proof (cases "List.find (\<lambda>a. \<not> aclAllow a) ?top")
    case None
    then show ?thesis using top hd_in_set [OF top] by (simp add: pick_def Let_def)
  next
    case (Some d)
    then show ?thesis using find_Some_set [OF Some] by (simp add: pick_def Let_def)
  qed
  then show ?thesis by auto
qed

lemma pick_denies:
  "as \<noteq> [] \<Longrightarrow> aclAllow (pick as) \<longleftrightarrow> (\<forall>a \<in> set as. aclPriority a = best_priority as \<longrightarrow> aclAllow a)"
proof -
  assume ne: "as \<noteq> []"
  let ?top = "filter (\<lambda>a. aclPriority a = best_priority as) as"
  have top: "?top \<noteq> []" using best_priority_in [OF ne] by (auto simp: filter_empty_conv)
  show ?thesis
  proof (cases "List.find (\<lambda>a. \<not> aclAllow a) ?top")
    case None
    then have all: "\<forall>a \<in> set ?top. aclAllow a" unfolding find_None by simp
    then have "aclAllow (hd ?top)" using hd_in_set [OF top] by blast
    then show ?thesis using None all by (simp add: pick_def Let_def)
  next
    case (Some d)
    then have "d \<in> set ?top" "\<not> aclAllow d" using find_Some_set [OF Some] by auto
    then show ?thesis using Some by (auto simp: pick_def Let_def)
  qed
qed

lemma pick_snoc:
  assumes "as \<noteq> []"
  shows "pick (as @ [a]) =
    (if aclPriority (pick as) < aclPriority a then a
     else if aclPriority a = aclPriority (pick as) \<and> aclAllow (pick as) \<and> \<not> aclAllow a then a else pick as)"
proof -
  let ?p = "best_priority as"
  have p: "aclPriority (pick as) = ?p" using pick_top [OF assms] by simp
  consider (higher) "?p < aclPriority a" | (same) "aclPriority a = ?p" | (lower) "aclPriority a < ?p"
    by linarith
  then show ?thesis
  proof cases
    case higher
    then have "best_priority (as @ [a]) = aclPriority a" by (simp add: best_priority_snoc [OF assms])
    moreover have "filter (\<lambda>x. aclPriority x = aclPriority a) as = []"
      using higher best_priority_ge [of _ as] by (fastforce simp: filter_empty_conv)
    ultimately show ?thesis using higher p by (simp add: pick_def Let_def)
  next
    case same
    then have b: "best_priority (as @ [a]) = ?p" by (simp add: best_priority_snoc [OF assms])
    let ?top = "filter (\<lambda>a. aclPriority a = ?p) as"
    have top: "?top \<noteq> []" using best_priority_in [OF assms] by (auto simp: filter_empty_conv)
    show ?thesis
    proof (cases "List.find (\<lambda>a. \<not> aclAllow a) ?top")
      case None
      then have "aclAllow (pick as)"
        using pick_denies [OF assms] by (auto simp: find_None)
      then show ?thesis using None b same top p by (simp add: pick_def Let_def find_append)
    next
      case (Some d)
      then have "\<not> aclAllow d" using find_Some_set [OF Some] by simp
      then show ?thesis using Some b same top p by (simp add: pick_def Let_def find_append)
    qed
  next
    case lower
    then have "best_priority (as @ [a]) = ?p" by (simp add: best_priority_snoc [OF assms] max_def)
    then show ?thesis using lower p by (simp add: pick_def Let_def)
  qed
qed

lemma takeAcl_apply:
  "map_of (takeAcl a m) k =
    (if k = aclKey a then Some (case map_of m (aclKey a) of None \<Rightarrow> a
       | Some c \<Rightarrow> if aclPriority c < aclPriority a then a
                  else if aclPriority a = aclPriority c \<and> aclAllow c \<and> \<not> aclAllow a then a else c)
     else map_of m k)"
  by (auto simp: takeAcl_def update_conv' split: option.splits)

lemma takeAcl_lookup:
  "map_of (fold takeAcl as []) k = effective_spec as k"
proof (induction as arbitrary: k rule: rev_induct)
  case Nil
  then show ?case by (simp add: effective_spec_def)
next
  case (snoc a as)
  let ?m = "fold takeAcl as []" and ?mine = "filter (\<lambda>x. aclKey x = aclKey a) as"
  have step: "fold takeAcl (as @ [a]) [] = takeAcl a ?m" by simp
  show ?case
  proof (cases "k = aclKey a")
    case False
    then have "effective_spec (as @ [a]) k = effective_spec as k" by (simp add: effective_spec_pick)
    then show ?thesis
      using False snoc [of k] step by (simp add: takeAcl_apply)
  next
    case True
    show ?thesis
    proof (cases "?mine = []")
      case True
      then have "map_of ?m (aclKey a) = None" using snoc [of "aclKey a"] by (simp add: effective_spec_pick)
      moreover have "pick [a] = a" by (simp add: pick_def)
      ultimately show ?thesis
        using True \<open>k = aclKey a\<close> step by (simp add: takeAcl_apply effective_spec_pick)
    next
      case False
      then have "map_of ?m (aclKey a) = Some (pick ?mine)"
        using snoc [of "aclKey a"] by (simp add: effective_spec_pick)
      then show ?thesis
        using False \<open>k = aclKey a\<close> step pick_snoc [OF False, of a]
        by (auto simp: takeAcl_apply effective_spec_pick)
    qed
  qed
qed

lemma takeAcl_ok: "om_ok (fold takeAcl as m)" if "om_ok m"
  using that by (induction as arbitrary: m) (auto simp: takeAcl_def om_ok_update split: option.splits)

lemma effective_spec_key: "effective_spec as k = Some a \<Longrightarrow> aclKey a = k"
  using pick_top [of "filter (\<lambda>a. aclKey a = k) as"] by (auto simp: effective_spec_pick Let_def split: if_splits)

lemma entries_effective:
  "(k, a) \<in> set (fold takeAcl as []) \<longleftrightarrow> effective_spec as k = Some a"
  using takeAcl_ok [of "[]" as] by (simp add: om_ok_def map_of_eq_Some_iff flip: takeAcl_lookup)

lemma set_resolveEffectiveAcls:
  "a \<in> set (resolveEffectiveAcls P as) \<longleftrightarrow> effective_spec as (aclKey a) = Some a"
proof -
  have "a \<in> set (resolveEffectiveAcls P as) \<longleftrightarrow> (\<exists>k. (k, a) \<in> set (fold takeAcl as []))"
    by (force simp: resolveEffectiveAcls_def sortAclsByPriorityAndEffect_def)
  then show ?thesis using effective_spec_key by (auto simp: entries_effective)
qed

lemma distinct_resolveEffectiveAcls: "distinct (map aclKey (resolveEffectiveAcls P as))"
proof -
  have "map aclKey (map snd (fold takeAcl as [])) = map fst (fold takeAcl as [])"
    using effective_spec_key by (auto simp: entries_effective [symmetric])
  then have "distinct (map aclKey (map snd (fold takeAcl as [])))"
    using takeAcl_ok [of "[]" as] by (simp only: om_ok_def) simp
  then show ?thesis by (simp add: resolveEffectiveAcls_def sortAclsByPriorityAndEffect_def del: map_map)
qed

text \<open>
  C15: the one-pass resolution implements its specification: it returns, for each ACL type and topic
  that occurs, exactly the ACL the specification selects, and each type and topic once.
\<close>

theorem effective_acls_refine:
  "a \<in> set (resolveEffectiveAcls P as) = (effective_spec as (aclKey a) = Some a) \<and>
    distinct (map aclKey (resolveEffectiveAcls P as)) \<and>
    aclKey ` set (resolveEffectiveAcls P as) = aclKey ` set as"
proof (intro conjI)
  show "aclKey ` set (resolveEffectiveAcls P as) = aclKey ` set as"
  proof (intro equalityI subsetI)
    fix k
    assume "k \<in> aclKey ` set (resolveEffectiveAcls P as)"
    then obtain x where x: "effective_spec as k = Some x" by (auto simp: set_resolveEffectiveAcls)
    then have "filter (\<lambda>a. aclKey a = k) as \<noteq> []" by (auto simp: effective_spec_pick)
    then show "k \<in> aclKey ` set as" by (auto simp: filter_empty_conv)
  next
    fix k
    assume "k \<in> aclKey ` set as"
    then have "filter (\<lambda>a. aclKey a = k) as \<noteq> []" by (auto simp: filter_empty_conv)
    then obtain x where x: "effective_spec as k = Some x" by (simp add: effective_spec_pick)
    then have "x \<in> set (resolveEffectiveAcls P as)" "aclKey x = k"
      using effective_spec_key [OF x] by (auto simp: set_resolveEffectiveAcls)
    then show "k \<in> aclKey ` set (resolveEffectiveAcls P as)" by blast
  qed
qed (auto simp: set_resolveEffectiveAcls distinct_resolveEffectiveAcls)

text \<open>
  No effective ACL is overruled: it is one of the client's ACLs, no other ACL on the same type
  and topic has a higher priority, and an effective allow has no deny beside it at its priority.
\<close>

theorem effective_acls_deny_wins:
  assumes "a \<in> set (resolveEffectiveAcls P as)" and "b \<in> set as" and "aclKey b = aclKey a"
  shows "a \<in> set as \<and> aclPriority b \<le> aclPriority a \<and>
    (aclAllow a \<and> aclPriority b = aclPriority a \<longrightarrow> aclAllow b)"
proof -
  let ?mine = "filter (\<lambda>x. aclKey x = aclKey a) as"
  have ne: "?mine \<noteq> []" using assms(2,3) by (auto simp: filter_empty_conv)
  have a: "a = pick ?mine" using assms(1) ne by (simp add: set_resolveEffectiveAcls effective_spec_pick)
  have top: "pick ?mine \<in> set ?mine" "aclPriority (pick ?mine) = best_priority ?mine"
    using pick_top [OF ne] by auto
  have b: "b \<in> set ?mine" using assms(2,3) by simp
  have "a \<in> set as" using top(1) a by simp
  moreover have "aclPriority b \<le> aclPriority a" using best_priority_ge [OF b] top(2) a by simp
  moreover have "aclAllow b" if "aclAllow a" "aclPriority b = aclPriority a"
    using pick_denies [OF ne] that top(2) a b by metis
  ultimately show ?thesis by blast
qed

definition sample_acl :: "string \<Rightarrow> rat \<Rightarrow> bool \<Rightarrow> dynsec_acl" where
  "sample_acl topic p allow = \<lparr>aclType = ''publishClientSend'', aclTopic = topic, aclPriority = p,
    aclAllow = allow, aclName = Null, aclDescription = Null\<rparr>"

theorem effective_acls_deny_wins_witness:
  "let as = [sample_acl ''t'' 1 True, sample_acl ''t'' 5 True, sample_acl ''t'' 5 False] in
    sample_acl ''t'' 5 False \<in> set (resolveEffectiveAcls sample_platform as) \<and>
    aclPriority (sample_acl ''t'' 1 True) \<le> aclPriority (sample_acl ''t'' 5 False)"
proof -
  let ?as = "[sample_acl ''t'' 1 True, sample_acl ''t'' 5 True, sample_acl ''t'' 5 False]"
  have mem: "sample_acl ''t'' 5 False \<in> set (resolveEffectiveAcls sample_platform ?as)"
    by (simp add: set_resolveEffectiveAcls effective_spec_def sample_acl_def aclKey_def)
  show ?thesis
    using effective_acls_deny_wins [OF mem, of "sample_acl ''t'' 1 True"] mem
    by (simp add: Let_def aclKey_def sample_acl_def)
qed

section \<open>The order of the result\<close>

text \<open>What the sort relies on of \<open>localeCompare\<close>: a consistent comparison.\<close>

definition collation_ok :: "'b platform \<Rightarrow> bool" where
  "collation_ok P \<longleftrightarrow> (\<forall>a b. locale_gt P a b \<longrightarrow> \<not> locale_gt P b a) \<and>
    (\<forall>a b c. \<not> locale_gt P a b \<longrightarrow> \<not> locale_gt P b c \<longrightarrow> \<not> locale_gt P a c)"

definition acl_gt :: "'b platform \<Rightarrow> dynsec_acl \<Rightarrow> dynsec_acl \<Rightarrow> bool" where
  "acl_gt P l r =
    (if aclPriority r \<noteq> aclPriority l then aclPriority l < aclPriority r
     else if aclAllow l \<noteq> aclAllow r then aclAllow l else locale_gt P (aclKey l) (aclKey r))"

lemma not_acl_gt:
  "\<not> acl_gt P l r \<longleftrightarrow> aclPriority r < aclPriority l \<or> (aclPriority r = aclPriority l \<and>
    ((aclAllow r \<and> \<not> aclAllow l) \<or> (aclAllow l = aclAllow r \<and> \<not> locale_gt P (aclKey l) (aclKey r))))"
  by (auto simp: acl_gt_def)

lemma acl_order:
  assumes "collation_ok P"
  shows "js_order (acl_gt P)"
proof
  fix x y
  have asym: "locale_gt P (aclKey x) (aclKey y) \<Longrightarrow> \<not> locale_gt P (aclKey y) (aclKey x)"
    using assms unfolding collation_ok_def by blast
  assume "acl_gt P x y"
  then show "\<not> acl_gt P y x"
    by (cases "aclPriority y = aclPriority x"; cases "aclAllow x"; cases "aclAllow y")
      (simp_all add: acl_gt_def asym not_less less_imp_le)
next
  fix x y z
  have tr: "\<not> locale_gt P (aclKey x) (aclKey y) \<Longrightarrow> \<not> locale_gt P (aclKey y) (aclKey z) \<Longrightarrow>
    \<not> locale_gt P (aclKey x) (aclKey z)"
    using assms unfolding collation_ok_def by blast
  assume xy: "\<not> acl_gt P x y" and yz: "\<not> acl_gt P y z"
  have le: "aclPriority y \<le> aclPriority x" "aclPriority z \<le> aclPriority y"
    using xy yz unfolding not_acl_gt by (metis order.strict_implies_order order.refl)+
  show "\<not> acl_gt P x z"
  proof (cases "aclPriority z < aclPriority x")
    case True
    then show ?thesis unfolding not_acl_gt by (rule disjI1)
  next
    case False
    then have eq: "aclPriority y = aclPriority x" "aclPriority z = aclPriority x"
      using le by linarith+
    have x: "(aclAllow y \<and> \<not> aclAllow x) \<or>
        (aclAllow x = aclAllow y \<and> \<not> locale_gt P (aclKey x) (aclKey y))"
      using xy eq(1) by (simp add: not_acl_gt)
    have y: "(aclAllow z \<and> \<not> aclAllow y) \<or>
        (aclAllow y = aclAllow z \<and> \<not> locale_gt P (aclKey y) (aclKey z))"
      using yz eq by (simp add: not_acl_gt)
    have "(aclAllow z \<and> \<not> aclAllow x) \<or>
        (aclAllow x = aclAllow z \<and> \<not> locale_gt P (aclKey x) (aclKey z))"
      using x y tr by blast
    then show ?thesis using eq(2) by (simp add: not_acl_gt)
  qed
qed

text \<open>
  The effective ACLs come highest priority first and, within a priority, denies before allows.
\<close>

theorem effective_acls_sorted:
  assumes "collation_ok P"
  shows "sorted_wrt (\<lambda>a b. aclPriority b < aclPriority a \<or>
    (aclPriority b = aclPriority a \<and> (aclAllow a \<longrightarrow> aclAllow b))) (resolveEffectiveAcls P as)"
proof -
  have "sorted_wrt (\<lambda>a b. \<not> acl_gt P a b) (js_sort (acl_gt P) (map snd (fold takeAcl as [])))"
    by (rule js_order.sort_sorted [OF acl_order [OF assms]])
  then have "sorted_wrt (\<lambda>a b. aclPriority b < aclPriority a \<or>
      (aclPriority b = aclPriority a \<and> (aclAllow a \<longrightarrow> aclAllow b))) (js_sort (acl_gt P) (map snd (fold takeAcl as [])))"
    by (rule sorted_wrt_mono_rel [rotated]) (auto simp: acl_gt_def split: if_splits)
  then show ?thesis
    by (simp add: resolveEffectiveAcls_def sortAclsByPriorityAndEffect_def acl_gt_def [abs_def])
qed

theorem effective_acls_sorted_witness:
  "sorted_wrt (\<lambda>a b. aclPriority b < aclPriority a \<or>
    (aclPriority b = aclPriority a \<and> (aclAllow a \<longrightarrow> aclAllow b)))
    (resolveEffectiveAcls sample_platform [sample_acl ''a'' 1 True, sample_acl ''b'' 5 True])"
  by (rule effective_acls_sorted) (auto simp: collation_ok_def sample_platform_def)

section \<open>Conflicts and selections\<close>

definition effectsOf :: "dynsec_acl list \<Rightarrow> string \<Rightarrow> bool set" where
  "effectsOf as k = aclAllow ` {a \<in> set as. aclKey a = k}"

definition seenOf :: "(string, bool list) omap \<Rightarrow> string \<Rightarrow> bool list" where
  "seenOf m k = (case map_of m k of None \<Rightarrow> [] | Some s \<Rightarrow> s)"

lemma effectsOf_snoc:
  "effectsOf (as @ [a]) k = (if aclKey a = k then insert (aclAllow a) (effectsOf as k) else effectsOf as k)"
  by (auto simp: effectsOf_def)

lemma seen_effects:
  "(\<forall>k. set (seenOf (fst (fold noteEffect as ([], False))) k) = effectsOf as k) \<and>
    (snd (fold noteEffect as ([], False)) \<longleftrightarrow> (\<exists>k. True \<in> effectsOf as k \<and> False \<in> effectsOf as k))"
proof (induction as rule: rev_induct)
  case Nil
  then show ?case by (simp add: seenOf_def effectsOf_def)
next
  case (snoc a as)
  obtain m c where mc: "fold noteEffect as ([], False) = (m, c)" by fastforce
  let ?seen' = "if aclAllow a \<in> set (seenOf m (aclKey a)) then seenOf m (aclKey a)
    else seenOf m (aclKey a) @ [aclAllow a]"
  have IH: "\<And>k. set (seenOf m k) = effectsOf as k"
    "c \<longleftrightarrow> (\<exists>k. True \<in> effectsOf as k \<and> False \<in> effectsOf as k)"
    using snoc mc by simp_all
  have new: "set ?seen' = effectsOf (as @ [a]) (aclKey a)"
    using IH(1) [of "aclKey a"] by (auto simp: effectsOf_snoc)
  have "fold noteEffect (as @ [a]) ([], False) = noteEffect a (m, c)" by (simp add: mc)
  then have step: "fold noteEffect (as @ [a]) ([], False) =
      (AList.update (aclKey a) ?seen' m, c \<or> (True \<in> set ?seen' \<and> False \<in> set ?seen'))"
    by (simp only: noteEffect_def Let_def seenOf_def prod.case)
  have "set (seenOf (AList.update (aclKey a) ?seen' m) k) = effectsOf (as @ [a]) k" for k
  proof (cases "k = aclKey a")
    case True
    then have "seenOf (AList.update (aclKey a) ?seen' m) k = ?seen'" by (simp add: seenOf_def update_conv')
    then show ?thesis using new True by (simp only:)
  next
    case False
    then have "seenOf (AList.update (aclKey a) ?seen' m) k = seenOf m k" by (simp add: seenOf_def update_conv')
    then show ?thesis using IH(1) [of k] False by (simp add: effectsOf_snoc)
  qed
  moreover have "c \<or> (True \<in> set ?seen' \<and> False \<in> set ?seen') \<longleftrightarrow>
      (\<exists>k. True \<in> effectsOf (as @ [a]) k \<and> False \<in> effectsOf (as @ [a]) k)"
    unfolding new IH(2) by (auto simp: effectsOf_snoc split: if_splits)
  ultimately show ?case unfolding step by simp
qed

text \<open>
  The overlap warning is given exactly when two of the client's ACLs on one type and topic
  disagree, whatever their priorities and their order.
\<close>

theorem conflict_warning_exact:
  "''Conflicting allow/deny ACL overlap detected. Equal-priority conflicts resolve to deny.''
    \<in> set (permissionWarnings as) \<longleftrightarrow>
   (\<exists>a \<in> set as. \<exists>b \<in> set as. aclKey a = aclKey b \<and> aclAllow a \<and> \<not> aclAllow b)"
proof -
  have "effectConflict as \<longleftrightarrow> (\<exists>k. True \<in> effectsOf as k \<and> False \<in> effectsOf as k)"
    using seen_effects [of as] by (simp add: effectConflict_def)
  also have "\<dots> \<longleftrightarrow> (\<exists>a \<in> set as. \<exists>b \<in> set as. aclKey a = aclKey b \<and> aclAllow a \<and> \<not> aclAllow b)"
    by (auto simp: effectsOf_def image_iff) metis+
  finally show ?thesis by (auto simp: permissionWarnings_def)
qed

lemma normalizeAclTypeSelection_sorted:
  "sorted (normalizeAclTypeSelection ts) \<and> distinct (normalizeAclTypeSelection ts) \<and>
    set (normalizeAclTypeSelection ts) = set ts"
proof -
  have "set dynsecAclTypes = UNIV"
  proof -
    have "t \<in> set dynsecAclTypes" for t by (cases t) (simp_all add: dynsecAclTypes_def)
    then show ?thesis by blast
  qed
  moreover have "sorted dynsecAclTypes" "distinct dynsecAclTypes"
    by (simp_all add: dynsecAclTypes_def less_eq_acl_type_def)
  ultimately show ?thesis
    by (auto simp: normalizeAclTypeSelection_def sorted_wrt_filter)
qed

end
