(* ===== verification/DynsecService.thy ===== *)
theory DynsecService
  imports DynsecPerm Db
begin

text \<open>
  The class \<open>DynsecService\<close> of \<open>server/dynsec/service.ts\<close>: its commands to the broker
  (\<open>mosquitto_ctrl dynsec ..\<close>, through the agent or a child process), the client defaults, the
  creation of a client with its rollback, and the bootstrap of the built-in roles at start.
  The fields of the class are \<open>provisionedAt\<close>, \<open>bootError\<close> and \<open>bootStatus\<close> of the world.
\<close>

section \<open>State\<close>

datatype operation_state = OpIdle | OpRunning | OpSuccess | OpFailed

record operation_status =
  opState :: operation_state
  opLastRunAt :: "string option"
  opMessage :: "string option"

definition idleOperationStatus :: operation_status where
  "idleOperationStatus = \<lparr>opState = OpIdle, opLastRunAt = None, opMessage = None\<rparr>"

record boot_error =
  beReason :: string
  beErrorKey :: "string option"
  beDetails :: jsval

record 'b dynsec_world = "'b db_world" +
  provisionedAt :: "int option"
  bootError :: "boot_error option"
  bootStatus :: operation_status

type_synonym ('b, 'z, 'a) dsio = "(('b, 'z) dynsec_world_scheme, 'a) io"

definition stateSyncGraceMs :: int where "stateSyncGraceMs = 10000"

definition bootstrapReservedRoles :: "string list" where
  "bootstrapReservedRoles = [''admin'', ''broker-admin'', ''client'', ''dynsec-admin'', ''super-admin'',
    ''sys-notify'', ''sys-observe'', ''topic-observe'', bootstrapDefaultRoleName,
    bootstrapReadWriteRoleName, legacyBootstrapRoleName]"

record bootstrap_acl =
  bacType :: acl_type
  bacTopic :: string
  bacAllow :: bool
  bacPriority :: rat

definition bootstrapDefaultRoleAcls :: "bootstrap_acl list" where
  "bootstrapDefaultRoleAcls =
    [\<lparr>bacType = PublishClientReceive, bacTopic = ''#'', bacAllow = True, bacPriority = 0\<rparr>,
     \<lparr>bacType = SubscribePattern, bacTopic = ''#'', bacAllow = True, bacPriority = 0\<rparr>,
     \<lparr>bacType = UnsubscribePattern, bacTopic = ''#'', bacAllow = True, bacPriority = 0\<rparr>]"

definition bootstrapReadWriteRoleAcls :: "bootstrap_acl list" where
  "bootstrapReadWriteRoleAcls = bootstrapDefaultRoleAcls @
    [\<lparr>bacType = PublishClientSend, bacTopic = ''#'', bacAllow = True, bacPriority = 0\<rparr>]"

fun deriveBootstrapReason :: "exn \<Rightarrow> string" where
  "deriveBootstrapReason (ThrownVal v) = ''Unknown error''"
| "deriveBootstrapReason (PlainErr n m c) = m"
| "deriveBootstrapReason (AppErr k c cl m co cx st ca ch) =
    (let rollback = str_of (getProp ''rollbackError'' cx);
         nested = (if ch = [] then [] else chainReason (last ch))
     in if is_object cx \<and> nonblank rollback then the rollback
        else if nested \<noteq> [] \<and> nested \<noteq> m then nested
        else (case ca of
            None \<Rightarrow> m
          | Some e \<Rightarrow> (case e of ThrownVal v \<Rightarrow> m | _ \<Rightarrow> deriveBootstrapReason e)))"

section \<open>Commands\<close>

definition buildConnectionArgs :: "loaded_config \<Rightarrow> bool \<Rightarrow> string list" where
  "buildConnectionArgs L redactPassword =
    (let b = cfBroker (ldConfig L); tls = bkTls b;
         opt = (\<lambda>name v. if nonblank v then [name, the v] else [])
     in [''-h'', bkHost b, ''-p'', int_str (bkPort b), ''-u'', bkDynsecAdminUsername b, ''-P'',
         (if redactPassword then redactedToken else secDynsecAdminPassword (ldSecrets L)),
         ''-i'', bkMqttClientId b]
        @ (if tlsEnabled tls then opt ''--cafile'' (tlsCaFile tls) @ opt ''--cert'' (tlsCertFile tls)
             @ opt ''--key'' (tlsKeyFile tls) @ (if tlsInsecure tls then [''--insecure''] else [])
           else []))"

definition buildConnectionOptions :: "loaded_config \<Rightarrow> jsval" where
  "buildConnectionOptions L =
    (let b = cfBroker (ldConfig L); tls = bkTls b in Obj
      [(''host'', Str (bkHost b)), (''port'', num_int (bkPort b)), (''username'', Str (bkDynsecAdminUsername b)),
       (''password'', Str (secDynsecAdminPassword (ldSecrets L))), (''clientId'', Str (bkMqttClientId b)),
       (''tls'', Obj [(''enabled'', Bool (tlsEnabled tls)), (''caFile'', opt_str (tlsCaFile tls)),
          (''certFile'', opt_str (tlsCertFile tls)), (''keyFile'', opt_str (tlsKeyFile tls)),
          (''insecure'', Bool (tlsInsecure tls))])])"

definition redactCommandArgs :: "string \<Rightarrow> string list \<Rightarrow> string list" where
  "redactCommandArgs command args =
    (if command = ''setClientPassword'' \<and> 2 \<le> length args then hd args # redactedToken # drop 2 args else args)"

definition stderrOf :: "jsval \<Rightarrow> exn + string" where
  "stderrOf result =
    (case readProp ''stderr'' result of Inl e \<Rightarrow> Inl e
     | Inr (Str s) \<Rightarrow> Inr s
     | Inr v \<Rightarrow> (if nullish v then Inl (typeError (''Cannot read properties of '' @ to_string v @ '' (reading '' @ apos @ ''split'' @ apos @ '')''))
               else Inl (typeError ''stderr.split is not a function'')))"

definition sendDynsecCommand ::
  "'b platform \<Rightarrow> loaded_config \<Rightarrow> string \<Rightarrow> string list \<Rightarrow> string option
    \<Rightarrow> (('b, 'z) base_world_scheme, jsval) io" where
  "sendDynsecCommand P L command args corr =
    (if agentConfigured L then agentRunDynsecCommand P L command args (buildConnectionOptions L) corr
     else runCommand P (bkControlBinaryPath (cfBroker (ldConfig L)))
       (buildConnectionArgs L False @ [''dynsec'', command] @ args)
       (Some (buildConnectionArgs L True @ [''dynsec'', command] @ redactCommandArgs command args)) 10000 corr)"

definition runDynsecCommand ::
  "'b platform \<Rightarrow> loaded_config \<Rightarrow> string \<Rightarrow> string list \<Rightarrow> string option
    \<Rightarrow> (('b, 'z) base_world_scheme, jsval) io" where
  "runDynsecCommand P L command args corr =
    andThen (sendDynsecCommand P L command args corr) (\<lambda>result.
    andThen (liftR (stderrOf result)) (\<lambda>stderr.
    (let meaningful = extractMeaningfulDynsecStderr stderr; exitCode = getProp ''exitCode'' result in
     andThen (emit (logEvent LogInfo ''dynsec::runDynsecCommand''
       (''dynsec '' @ command @ '' exited with '' @ to_string exitCode) corr
       (Obj [(''args'', Arr (map Str (redactCommandArgs command args))),
             (''stderr'', if meaningful = [] then Null else Str meaningful),
             (''via'', Str (if agentConfigured L then ''broker-agent'' else ''local-process''))]))) (\<lambda>_.
     if exitCode \<noteq> num_int 0 \<or> meaningful \<noteq> [] then
       raise (createAppError ''dynsec::runDynsecCommand''
         (if meaningful \<noteq> [] then ''mosquitto_ctrl dynsec '' @ command @ '' failed: '' @ meaningful
          else ''mosquitto_ctrl dynsec '' @ command @ '' failed.'')
         ''DYNSEC_OPERATION_FAILED'' corr result 500 None)
     else ret result))))"

definition dynsecRun :: "'b platform \<Rightarrow> loaded_config \<Rightarrow> string \<Rightarrow> string list \<Rightarrow> string option
    \<Rightarrow> (('b, 'z) base_world_scheme, unit) io" where
  "dynsecRun P L command args corr = andThen (runDynsecCommand P L command args corr) (\<lambda>_. ret ())"

definition priorityArg :: "rat \<Rightarrow> string" where
  "priorityArg p = num_str (Fin p)"

definition deleteClient :: "'b platform \<Rightarrow> loaded_config \<Rightarrow> string \<Rightarrow> string option \<Rightarrow> (('b, 'z) base_world_scheme, unit) io" where
  "deleteClient P L username corr = dynsecRun P L ''deleteClient'' [username] corr"

definition setClientPassword :: "'b platform \<Rightarrow> loaded_config \<Rightarrow> string \<Rightarrow> string \<Rightarrow> string option \<Rightarrow> (('b, 'z) base_world_scheme, unit) io" where
  "setClientPassword P L username password corr = dynsecRun P L ''setClientPassword'' [username, password] corr"

definition setClientEnabled :: "'b platform \<Rightarrow> loaded_config \<Rightarrow> string \<Rightarrow> bool \<Rightarrow> string option \<Rightarrow> (('b, 'z) base_world_scheme, unit) io" where
  "setClientEnabled P L username enabled corr =
    dynsecRun P L (if enabled then ''enableClient'' else ''disableClient'') [username] corr"

definition assignClientRole :: "'b platform \<Rightarrow> loaded_config \<Rightarrow> string \<Rightarrow> string \<Rightarrow> rat \<Rightarrow> string option \<Rightarrow> (('b, 'z) base_world_scheme, unit) io" where
  "assignClientRole P L username rolename priority corr =
    dynsecRun P L ''addClientRole'' [username, rolename, priorityArg priority] corr"

definition removeClientRole :: "'b platform \<Rightarrow> loaded_config \<Rightarrow> string \<Rightarrow> string \<Rightarrow> string option \<Rightarrow> (('b, 'z) base_world_scheme, unit) io" where
  "removeClientRole P L username rolename corr = dynsecRun P L ''removeClientRole'' [username, rolename] corr"

definition deleteGroup :: "'b platform \<Rightarrow> loaded_config \<Rightarrow> string \<Rightarrow> string option \<Rightarrow> (('b, 'z) base_world_scheme, unit) io" where
  "deleteGroup P L groupname corr = dynsecRun P L ''deleteGroup'' [groupname] corr"

definition addGroupClient :: "'b platform \<Rightarrow> loaded_config \<Rightarrow> string \<Rightarrow> string \<Rightarrow> rat \<Rightarrow> string option \<Rightarrow> (('b, 'z) base_world_scheme, unit) io" where
  "addGroupClient P L groupname username priority corr =
    dynsecRun P L ''addGroupClient'' [groupname, username, priorityArg priority] corr"

definition removeGroupClient :: "'b platform \<Rightarrow> loaded_config \<Rightarrow> string \<Rightarrow> string \<Rightarrow> string option \<Rightarrow> (('b, 'z) base_world_scheme, unit) io" where
  "removeGroupClient P L groupname username corr = dynsecRun P L ''removeGroupClient'' [groupname, username] corr"

definition addGroupRole :: "'b platform \<Rightarrow> loaded_config \<Rightarrow> string \<Rightarrow> string \<Rightarrow> rat \<Rightarrow> string option \<Rightarrow> (('b, 'z) base_world_scheme, unit) io" where
  "addGroupRole P L groupname rolename priority corr =
    dynsecRun P L ''addGroupRole'' [groupname, rolename, priorityArg priority] corr"

definition removeGroupRole :: "'b platform \<Rightarrow> loaded_config \<Rightarrow> string \<Rightarrow> string \<Rightarrow> string option \<Rightarrow> (('b, 'z) base_world_scheme, unit) io" where
  "removeGroupRole P L groupname rolename corr = dynsecRun P L ''removeGroupRole'' [groupname, rolename] corr"

definition addRoleAcl :: "'b platform \<Rightarrow> loaded_config \<Rightarrow> string \<Rightarrow> acl_type \<Rightarrow> string \<Rightarrow> bool \<Rightarrow> rat \<Rightarrow> string option \<Rightarrow> (('b, 'z) base_world_scheme, unit) io" where
  "addRoleAcl P L rolename ty topic allow priority corr =
    dynsecRun P L ''addRoleACL''
      [rolename, acl_type_str ty, topic, if allow then ''allow'' else ''deny'', priorityArg priority] corr"

definition addRoleAcls :: "'b platform \<Rightarrow> loaded_config \<Rightarrow> string \<Rightarrow> acl_type list \<Rightarrow> string \<Rightarrow> bool \<Rightarrow> rat \<Rightarrow> string option \<Rightarrow> (('b, 'z) base_world_scheme, acl_type list) io" where
  "addRoleAcls P L rolename tys topic allow priority corr =
    (let normalized = normalizeAclTypeSelection tys in
     andThen (forEach normalized (\<lambda>ty. addRoleAcl P L rolename ty topic allow priority corr))
       (\<lambda>_. ret normalized))"

definition removeRoleAcl :: "'b platform \<Rightarrow> loaded_config \<Rightarrow> string \<Rightarrow> string \<Rightarrow> string \<Rightarrow> string option \<Rightarrow> (('b, 'z) base_world_scheme, unit) io" where
  "removeRoleAcl P L rolename ty topic corr = dynsecRun P L ''removeRoleACL'' [rolename, ty, topic] corr"

definition dynsecHealthCheck :: "'b platform \<Rightarrow> loaded_config \<Rightarrow> string option \<Rightarrow> (('b, 'z) base_world_scheme, jsval) io" where
  "dynsecHealthCheck P L corr = runDynsecCommand P L ''listClients'' [] corr"

section \<open>State and client defaults\<close>

definition readState :: "'b platform \<Rightarrow> loaded_config \<Rightarrow> string option \<Rightarrow> (('b, 'z) base_world_scheme, dynsec_state) io" where
  "readState P L corr =
    (let path = bkDynsecStateFilePath (cfBroker (ldConfig L)) in
     if agentConfigured L then
       catching
         (andThen (readDynsecStateRaw P L corr) (\<lambda>raw.
          if \<not> is_object raw then
            raise (PlainErr ''Error'' ''Broker agent dynsec state response must be an object.'' None)
          else andThen now (\<lambda>t. liftR (normalizeState raw t))))
         (\<lambda>e. raise (createAppError ''dynsec::readState''
            ''Failed reading dynamic security state through broker agent.'' ''DYNSEC_STATE_READ_FAILED''
            corr Null 500 (Some e)))
     else
       catching
         (andThen (callOut (read_file P path)) (\<lambda>s.
          andThen (liftR (jsonParse s)) (\<lambda>raw.
          andThen now (\<lambda>t. liftR (normalizeState raw t)))))
         (\<lambda>e. raise (createAppError ''dynsec::readState'' ''Failed reading dynamic security state file.''
            ''DYNSEC_STATE_READ_FAILED'' corr (Obj [(''path'', Str path)]) 500 (Some e))))"

definition getClientDefaults :: "('b, 'z, client_defaults) dbio" where
  "getClientDefaults = andThen (getSetting ''dynsec'' ''clientDefaults'') (\<lambda>v. ret (normalizeClientDefaults v))"

definition setClientDefaults :: "jsval \<Rightarrow> ('b, 'z, client_defaults) dbio" where
  "setClientDefaults v =
    (let normalized = normalizeClientDefaults v in
     andThen now (\<lambda>t.
     andThen (setSetting ''dynsec'' ''clientDefaults'' (client_defaults_value normalized) t) (\<lambda>_.
     ret normalized)))"

definition roleExistsInState :: "string \<Rightarrow> dynsec_state \<Rightarrow> bool" where
  "roleExistsInState rolename st = list_ex (\<lambda>r. drRolename r = rolename) (dsRoles st)"

definition groupExistsInState :: "string \<Rightarrow> dynsec_state \<Rightarrow> bool" where
  "groupExistsInState groupname st = list_ex (\<lambda>g. dgGroupname g = groupname) (dsGroups st)"

definition assertGroupNameAvailable :: "'b platform \<Rightarrow> loaded_config \<Rightarrow> string \<Rightarrow> string option \<Rightarrow> (('b, 'z) base_world_scheme, string) io" where
  "assertGroupNameAvailable P L groupname corr =
    (let n = normalizeEntityName groupname in
     andThen (readState P L corr) (\<lambda>st.
     if \<not> groupExistsInState n st then ret n
     else raise (createAppError ''dynsec::assertGroupNameAvailable'' (''Group '' @ n @ '' already exists.'')
       ''INPUT_INVALID'' corr (Obj [(''groupname'', Str n)]) 409 None)))"

definition assertRoleNameAvailable :: "'b platform \<Rightarrow> loaded_config \<Rightarrow> string \<Rightarrow> string option \<Rightarrow> (('b, 'z) base_world_scheme, string) io" where
  "assertRoleNameAvailable P L rolename corr =
    (let n = normalizeEntityName rolename in
     andThen (readState P L corr) (\<lambda>st.
     if \<not> roleExistsInState n st then ret n
     else raise (createAppError ''dynsec::assertRoleNameAvailable'' (''Role '' @ n @ '' already exists.'')
       ''INPUT_INVALID'' corr (Obj [(''rolename'', Str n)]) 409 None)))"

definition createGroup :: "'b platform \<Rightarrow> loaded_config \<Rightarrow> string \<Rightarrow> string option \<Rightarrow> (('b, 'z) base_world_scheme, unit) io" where
  "createGroup P L groupname corr =
    andThen (assertGroupNameAvailable P L groupname corr) (\<lambda>n. dynsecRun P L ''createGroup'' [n] corr)"

definition createRole :: "'b platform \<Rightarrow> loaded_config \<Rightarrow> string \<Rightarrow> string option \<Rightarrow> (('b, 'z) base_world_scheme, unit) io" where
  "createRole P L rolename corr =
    andThen (assertRoleNameAvailable P L rolename corr) (\<lambda>n. dynsecRun P L ''createRole'' [n] corr)"

definition clearProvisioned :: "('b, 'z, unit) dsio" where
  "clearProvisioned = modify (\<lambda>w. w\<lparr>provisionedAt := None\<rparr>)"

definition markProvisioned :: "('b, 'z, unit) dsio" where
  "markProvisioned = andThen now (\<lambda>t. modify (\<lambda>w. w\<lparr>provisionedAt := Some t\<rparr>))"

definition deleteRole :: "'b platform \<Rightarrow> loaded_config \<Rightarrow> string \<Rightarrow> string option \<Rightarrow> ('b, 'z, unit) dsio" where
  "deleteRole P L rolename corr =
    andThen (dynsecRun P L ''deleteRole'' [rolename] corr) (\<lambda>_.
    whenever (rolename = bootstrapDefaultRoleName) clearProvisioned)"

section \<open>Bootstrap status\<close>

definition markBootstrapPending :: "string \<Rightarrow> ('b, 'z, unit) dsio" where
  "markBootstrapPending msg = andThen now (\<lambda>t. modify (\<lambda>w. w\<lparr>bootStatus :=
    \<lparr>opState = OpRunning, opLastRunAt = Some (toISOString t), opMessage = Some msg\<rparr>\<rparr>))"

definition clearBootstrapPending :: "('b, 'z, unit) dsio" where
  "clearBootstrapPending = modify (\<lambda>w. w\<lparr>bootStatus := idleOperationStatus\<rparr>)"

definition markBootstrapFailed :: "string \<Rightarrow> ('b, 'z, unit) dsio" where
  "markBootstrapFailed msg = andThen now (\<lambda>t. modify (\<lambda>w. w\<lparr>bootStatus :=
    \<lparr>opState = OpFailed, opLastRunAt = Some (toISOString t), opMessage = Some msg\<rparr>\<rparr>))"

definition setBootstrapError :: "exn \<Rightarrow> ('b, 'z, unit) dsio" where
  "setBootstrapError e = modify (\<lambda>w. w\<lparr>bootError := Some
    (case e of
       ThrownVal v \<Rightarrow> \<lparr>beReason = ''Unknown error'', beErrorKey = None, beDetails = v\<rparr>
     | _ \<Rightarrow> \<lparr>beReason = deriveBootstrapReason e,
            beErrorKey = (if is_AppError e then Some (errorKey e) else None),
            beDetails = (if is_AppError e then errorContext e else Null)\<rparr>)\<rparr>)"

definition isConfiguredDefaultRoleMissing :: "string option \<Rightarrow> dynsec_state \<Rightarrow> ('b, 'z, bool) dsio" where
  "isConfiguredDefaultRoleMissing roleName st =
    (if \<not> nonblank roleName then ret False
     else let r = the roleName in
       if roleExistsInState r st then
         andThen (whenever (r = bootstrapDefaultRoleName) clearProvisioned) (\<lambda>_. ret False)
       else if r \<noteq> bootstrapDefaultRoleName then ret True
       else andThen (gets provisionedAt) (\<lambda>p.
         case p of
           None \<Rightarrow> ret True
         | Some t0 \<Rightarrow> andThen now (\<lambda>t.
             if t - t0 < stateSyncGraceMs then ret False
             else andThen clearProvisioned (\<lambda>_. ret True))))"

section \<open>Creating a client\<close>

record create_client_result =
  ccrApplied :: bool
  ccrRoleName :: "string option"
  ccrRolePriority :: int

definition missingDefaultRoleError :: "string option \<Rightarrow> string \<Rightarrow> exn" where
  "missingDefaultRoleError corr r = createAppError ''dynsec::createClient''
    ''Configured default dynsec role no longer exists.'' ''DYNSEC_OPERATION_FAILED'' corr
    (Obj [(''defaultRoleName'', Str r)]) 409 None"

definition rollbackFailure :: "string option \<Rightarrow> string \<Rightarrow> client_defaults \<Rightarrow> exn \<Rightarrow> exn option \<Rightarrow> exn" where
  "rollbackFailure corr username d err rollbackError =
    createAppError ''dynsec::createClient''
      (if rollbackError = None
       then ''Client creation was rolled back because assigning the configured default role failed.''
       else ''Assigning the configured default role failed after client creation, and rollback did not complete cleanly.'')
      ''DYNSEC_OPERATION_FAILED'' corr
      (Obj [(''username'', Str username), (''defaultRoleName'', opt_str (cdRoleName d)),
            (''defaultRolePriority'', num_int (cdRolePriority d)),
            (''rollbackDeleted'', Bool (rollbackError = None)),
            (''rollbackError'', case rollbackError of None \<Rightarrow> Null
               | Some (ThrownVal v) \<Rightarrow> v | Some e \<Rightarrow> Str (messageOr [] e))])
      409 (Some err)"

definition tryRollback :: "'b platform \<Rightarrow> loaded_config \<Rightarrow> string \<Rightarrow> string option \<Rightarrow> (('b, 'z) base_world_scheme, exn option) io" where
  "tryRollback P L username corr =
    catching (andThen (deleteClient P L username corr) (\<lambda>_. ret None)) (\<lambda>e. ret (Some e))"

definition applyDefaultRole :: "'b platform \<Rightarrow> loaded_config \<Rightarrow> string \<Rightarrow> client_defaults \<Rightarrow> string \<Rightarrow> string option
    \<Rightarrow> ('b, 'z, unit) dsio" where
  "applyDefaultRole P L username d r corr =
    catching (assignClientRole P L username r (of_int (cdRolePriority d)) corr) (\<lambda>err.
      andThen (whenever (r = bootstrapDefaultRoleName) clearProvisioned) (\<lambda>_.
      andThen (tryRollback P L username corr) (\<lambda>rb. raise (rollbackFailure corr username d err rb))))"

definition createClient ::
  "'b platform \<Rightarrow> loaded_config \<Rightarrow> string \<Rightarrow> string option \<Rightarrow> string option \<Rightarrow> bool \<Rightarrow> string option
    \<Rightarrow> ('b, 'z, create_client_result) dsio" where
  "createClient P L username password clientId disabled corr =
    andThen getClientDefaults (\<lambda>d.
    andThen (if nonblank (cdRoleName d) then
        andThen (readState P L corr) (\<lambda>st.
        andThen (isConfiguredDefaultRoleMissing (cdRoleName d) st) (\<lambda>missing.
        if missing then raise (missingDefaultRoleError corr (the (cdRoleName d))) else ret ()))
      else ret ()) (\<lambda>_.
    andThen (dynsecRun P L ''createClient''
        (if nonblank clientId then [username, ''-i'', the clientId] else [username]) corr) (\<lambda>_.
    andThen (whenever (nonblank password) (dynsecRun P L ''setClientPassword'' [username, the password] corr)) (\<lambda>_.
    andThen (whenever (nonblank (cdRoleName d)) (applyDefaultRole P L username d (the (cdRoleName d)) corr)) (\<lambda>_.
    andThen (whenever disabled (dynsecRun P L ''disableClient'' [username] corr)) (\<lambda>_.
    ret \<lparr>ccrApplied = nonblank (cdRoleName d), ccrRoleName = cdRoleName d,
         ccrRolePriority = cdRolePriority d\<rparr>))))))"

section \<open>The bootstrap of the built-in roles\<close>

definition bootstrapRoleAclExists :: "dynsec_role \<Rightarrow> bootstrap_acl \<Rightarrow> bool" where
  "bootstrapRoleAclExists role acl = list_ex (\<lambda>e. aclType e = acl_type_str (bacType acl) \<and>
    aclTopic e = bacTopic acl \<and> aclAllow e = bacAllow acl \<and> aclPriority e = bacPriority acl) (drAcls role)"

definition addBootstrapAcls :: "'b platform \<Rightarrow> loaded_config \<Rightarrow> string \<Rightarrow> bootstrap_acl list \<Rightarrow> string option
    \<Rightarrow> (('b, 'z) base_world_scheme, unit) io" where
  "addBootstrapAcls P L rolename acls corr =
    forEach acls (\<lambda>a. addRoleAcl P L rolename (bacType a) (bacTopic a) (bacAllow a) (bacPriority a) corr)"

definition ensureBootstrapRoleAcls :: "'b platform \<Rightarrow> loaded_config \<Rightarrow> dynsec_role \<Rightarrow> bootstrap_acl list \<Rightarrow> string option
    \<Rightarrow> (('b, 'z) base_world_scheme, nat) io" where
  "ensureBootstrapRoleAcls P L role acls corr =
    (let missing = filter (\<lambda>a. \<not> bootstrapRoleAclExists role a) acls in
     andThen (addBootstrapAcls P L (drRolename role) missing corr) (\<lambda>_. ret (length missing)))"

text \<open>The result: whether the role was created, and how many ACLs were added.\<close>

definition ensureBootstrapRole :: "'b platform \<Rightarrow> loaded_config \<Rightarrow> string \<Rightarrow> bootstrap_acl list \<Rightarrow> dynsec_state
    \<Rightarrow> string option \<Rightarrow> (('b, 'z) base_world_scheme, bool \<times> nat) io" where
  "ensureBootstrapRole P L roleName acls st corr =
    (case List.find (\<lambda>r. drRolename r = roleName) (dsRoles st) of
       Some role \<Rightarrow> andThen (ensureBootstrapRoleAcls P L role acls corr) (\<lambda>n. ret (False, n))
     | None \<Rightarrow> andThen (createRole P L roleName corr) (\<lambda>_.
              andThen (addBootstrapAcls P L roleName acls corr) (\<lambda>_. ret (True, length acls))))"

definition migrateRefs ::
  "entity_ref list \<Rightarrow> (rat \<Rightarrow> ('w, 'e, unit) act) \<Rightarrow> (string \<Rightarrow> ('w, 'e, unit) act) \<Rightarrow> ('w, 'e, unit) act" where
  "migrateRefs roles assign remove =
    (let legacy = filter (\<lambda>r. refName r = legacyBootstrapRoleName) roles in
     if legacy = [] then ret ()
     else andThen (whenever (\<not> list_ex (\<lambda>r. refName r = bootstrapReadWriteRoleName) roles)
            (assign (refPriority (hd legacy)))) (\<lambda>_.
          forEach legacy (\<lambda>r. remove (refName r))))"

definition migrateLegacyBootstrapRole :: "'b platform \<Rightarrow> loaded_config \<Rightarrow> dynsec_state \<Rightarrow> string option
    \<Rightarrow> ('b, 'z, bool) dsio" where
  "migrateLegacyBootstrapRole P L st corr =
    (if \<not> roleExistsInState legacyBootstrapRoleName st then ret False
     else
       andThen (forEach (dsClients st) (\<lambda>c. migrateRefs (dcRoles c)
         (\<lambda>p. assignClientRole P L (dcUsername c) bootstrapReadWriteRoleName p corr)
         (\<lambda>r. removeClientRole P L (dcUsername c) r corr))) (\<lambda>_.
       andThen (forEach (dsGroups st) (\<lambda>g. migrateRefs (dgRoles g)
         (\<lambda>p. addGroupRole P L (dgGroupname g) bootstrapReadWriteRoleName p corr)
         (\<lambda>r. removeGroupRole P L (dgGroupname g) r corr))) (\<lambda>_.
       andThen (deleteRole P L legacyBootstrapRoleName corr) (\<lambda>_. ret True))))"

record bootstrap_result =
  brsBootstrapped :: bool
  brsDefaultRole :: "string option"

definition ensureManagedBootstrapRoles :: "'b platform \<Rightarrow> loaded_config \<Rightarrow> dynsec_state \<Rightarrow> string option \<Rightarrow> bool
    \<Rightarrow> ('b, 'z, bootstrap_result) dsio" where
  "ensureManagedBootstrapRoles P L st corr setAsDefault =
    andThen (ensureBootstrapRole P L bootstrapDefaultRoleName bootstrapDefaultRoleAcls st corr) (\<lambda>readAll.
    andThen (ensureBootstrapRole P L bootstrapReadWriteRoleName bootstrapReadWriteRoleAcls st corr) (\<lambda>readWrite.
    andThen (migrateLegacyBootstrapRole P L st corr) (\<lambda>migrated.
    andThen (whenever setAsDefault
      (andThen (setClientDefaults (client_defaults_value
          \<lparr>cdRoleName = Some bootstrapDefaultRoleName, cdRolePriority = 0\<rparr>)) (\<lambda>_. markProvisioned))) (\<lambda>_.
    (let bootstrapped = (fst readAll \<or> fst readWrite \<or> migrated);
         role = (if setAsDefault then Some bootstrapDefaultRoleName else None) in
     andThen (emit (logEvent LogInfo ''dynsec::ensureBootstrapDefaultRole''
       ((if bootstrapped then ''Bootstrapped'' else ''Verified'') @ '' dynsec roles '' @
        bootstrapDefaultRoleName @ '' and '' @ bootstrapReadWriteRoleName @ ''.'') corr
       (Obj [(''defaultRoleName'', opt_str role), (''readAllCreated'', Bool (fst readAll)),
             (''readWriteAllCreated'', Bool (fst readWrite)), (''migratedLegacyRole'', Bool migrated)]))) (\<lambda>_.
     ret \<lparr>brsBootstrapped = bootstrapped, brsDefaultRole = role\<rparr>))))))"

definition hasInitializedBootstrap :: "('b, 'z, bool) dbio" where
  "hasInitializedBootstrap = andThen (getSetting ''dynsec'' ''bootstrapDefaultRoleInitialized'')
    (\<lambda>v. ret (v = Bool True))"

definition markBootstrapInitialized :: "('b, 'z, unit) dbio" where
  "markBootstrapInitialized = andThen now (\<lambda>t.
    setSetting ''dynsec'' ''bootstrapDefaultRoleInitialized'' (Bool True) t)"

definition hasCustomRoles :: "dynsec_state \<Rightarrow> bool" where
  "hasCustomRoles st = list_ex (\<lambda>r. drRolename r \<notin> set bootstrapReservedRoles) (dsRoles st)"

definition bootstrapDecide ::
  "'b platform \<Rightarrow> loaded_config \<Rightarrow> string option \<Rightarrow> bool \<Rightarrow> client_defaults \<Rightarrow> dynsec_state
    \<Rightarrow> ('b, 'z, bootstrap_result) dsio" where
  "bootstrapDecide P L corr initialized d st =
    (let storesDefault = (cdRoleName d = Some bootstrapDefaultRoleName);
         storesLegacy = (cdRoleName d = Some legacyBootstrapRoleName);
         hasLegacy = roleExistsInState legacyBootstrapRoleName st;
         unchanged = \<lparr>brsBootstrapped = False, brsDefaultRole = cdRoleName d\<rparr>
     in if initialized \<and> \<not> storesDefault \<and> \<not> storesLegacy \<and> \<not> hasLegacy then ret unchanged
        else if nonblank (cdRoleName d) \<and> \<not> storesDefault \<and> \<not> storesLegacy \<and> \<not> hasLegacy then
          andThen markBootstrapInitialized (\<lambda>_. ret unchanged)
        else if initialized \<and> \<not> nonblank (cdRoleName d) \<and> \<not> hasLegacy then
          ret \<lparr>brsBootstrapped = False, brsDefaultRole = None\<rparr>
        else if storesLegacy \<or> hasLegacy then
          andThen (ensureManagedBootstrapRoles P L st corr
            (storesLegacy \<or> (\<not> nonblank (cdRoleName d) \<and> \<not> hasCustomRoles st))) (\<lambda>r.
          andThen markBootstrapInitialized (\<lambda>_.
          ret \<lparr>brsBootstrapped = brsBootstrapped r,
               brsDefaultRole = (case brsDefaultRole r of Some x \<Rightarrow> Some x | None \<Rightarrow> cdRoleName d)\<rparr>))
        else if storesDefault then
          andThen (ensureManagedBootstrapRoles P L st corr True) (\<lambda>r.
          andThen markBootstrapInitialized (\<lambda>_. ret r))
        else if hasCustomRoles st then andThen markBootstrapInitialized (\<lambda>_. ret unchanged)
        else andThen (ensureManagedBootstrapRoles P L st corr True) (\<lambda>r.
             andThen markBootstrapInitialized (\<lambda>_. ret r)))"

definition bootstrapBody :: "'b platform \<Rightarrow> loaded_config \<Rightarrow> string option \<Rightarrow> ('b, 'z, bootstrap_result) dsio" where
  "bootstrapBody P L corr =
    andThen hasInitializedBootstrap (\<lambda>initialized.
    andThen getClientDefaults (\<lambda>d.
    andThen (readState P L corr) (bootstrapDecide P L corr initialized d)))"

definition ensureBootstrapDefaultRole :: "'b platform \<Rightarrow> loaded_config \<Rightarrow> string option \<Rightarrow> ('b, 'z, bootstrap_result) dsio" where
  "ensureBootstrapDefaultRole P L corr =
    andThen (modify (\<lambda>w. w\<lparr>bootError := None\<rparr>)) (\<lambda>_.
    catching (bootstrapBody P L corr) (\<lambda>e. andThen (setBootstrapError e) (\<lambda>_. raise e)))"

definition getEffectivePermissions :: "'b platform \<Rightarrow> loaded_config \<Rightarrow> string \<Rightarrow> string option
    \<Rightarrow> (('b, 'z) base_world_scheme, effective_view) io" where
  "getEffectivePermissions P L username corr =
    andThen (readState P L corr) (\<lambda>st.
    case List.find (\<lambda>c. dcUsername c = username) (dsClients st) of
      None \<Rightarrow> raise (createAppError ''dynsec::getEffectivePermissions'' ''Client not found in dynsec state.''
        ''DYNSEC_OPERATION_FAILED'' corr Null 404 None)
    | Some c \<Rightarrow> ret (effectivePermissions P st c))"

section \<open>Frames\<close>

context world_frame
begin

lemma fr_send: "keeps part (sendDynsecCommand P L command args corr)"
  unfolding sendDynsecCommand_def agentRunDynsecCommand_def by (intro fr_base fr_agent)

lemma fr_run: "keeps part (dynsecRun P L command args corr)"
  unfolding dynsecRun_def runDynsecCommand_def Let_def by (intro fr_base fr_send)

lemma fr_readState: "keeps part (readState P L corr)"
  unfolding readState_def readDynsecStateRaw_def Let_def by (intro fr_base fr_agent)

lemma fr_createRole: "keeps part (createRole P L r corr)"
  unfolding createRole_def assertRoleNameAvailable_def Let_def by (intro fr_base fr_run fr_readState)

lemma fr_addRoleAcl: "keeps part (addRoleAcl P L r ty t al p corr)"
  unfolding addRoleAcl_def by (rule fr_run)

lemma fr_bootstrapRole: "keeps part (ensureBootstrapRole P L r acls st corr)"
  unfolding ensureBootstrapRole_def ensureBootstrapRoleAcls_def addBootstrapAcls_def Let_def
  by (intro fr_base fr_createRole fr_addRoleAcl)

lemma fr_migrateRefs:
  "(\<And>p. keeps part (assign p)) \<Longrightarrow> (\<And>r. keeps part (remove r)) \<Longrightarrow> keeps part (migrateRefs roles assign remove)"
  unfolding migrateRefs_def Let_def by (intro fr_base)

lemmas fr_dynsec = fr_base fr_run fr_readState fr_createRole fr_addRoleAcl fr_bootstrapRole

end

section \<open>One command\<close>

text \<open>The broker took the command: it exited with 0 and said nothing but its usual warnings.\<close>

definition commandOk :: "exn + jsval \<Rightarrow> bool" where
  "commandOk r = (case r of Inl _ \<Rightarrow> False
    | Inr v \<Rightarrow> (case stderrOf v of Inl _ \<Rightarrow> False
        | Inr s \<Rightarrow> getProp ''exitCode'' v = num_int 0 \<and> extractMeaningfulDynsecStderr s = []))"

lemma runDynsecCommand_result:
  assumes "sendDynsecCommand P L command args corr w = (r, w1)"
  obtains x l where "runDynsecCommand P L command args corr w = (x, w1\<lparr>logs := l\<rparr>)"
    "succeeds x \<longleftrightarrow> commandOk r"
proof -
  have same: "w1\<lparr>logs := logs w1\<rparr> = w1" by simp
  show ?thesis
  proof (cases r)
    case (Inl e)
    then have "runDynsecCommand P L command args corr w = (Inl e, w1\<lparr>logs := logs w1\<rparr>)"
      using assms same by (simp add: runDynsecCommand_def)
    then show ?thesis using Inl by (intro that [of "Inl e" "logs w1"]) (auto simp: commandOk_def)
  next
    case (Inr v)
    show ?thesis
    proof (cases "stderrOf v")
      case (Inl e)
      then have "runDynsecCommand P L command args corr w = (Inl e, w1\<lparr>logs := logs w1\<rparr>)"
        using assms \<open>r = Inr v\<close> same by (simp add: runDynsecCommand_def)
      then show ?thesis using Inl \<open>r = Inr v\<close> by (intro that [of "Inl e" "logs w1"]) (auto simp: commandOk_def)
    next
      case (Inr s)
      let ?x = "fst (runDynsecCommand P L command args corr w)"
      have "\<exists>l. runDynsecCommand P L command args corr w = (?x, w1\<lparr>logs := l\<rparr>)"
        "succeeds ?x \<longleftrightarrow> commandOk r"
        using assms \<open>r = Inr v\<close> Inr
        by (auto simp: runDynsecCommand_def Let_def commandOk_def andThen_def)
      then show ?thesis using that by blast
    qed
  qed
qed

lemma dynsecRun_result:
  assumes "sendDynsecCommand P L command args corr w = (r, w1)"
  obtains x l where "dynsecRun P L command args corr w = (x, w1\<lparr>logs := l\<rparr>)" "succeeds x \<longleftrightarrow> commandOk r"
proof -
  obtain x l where run: "runDynsecCommand P L command args corr w = (x, w1\<lparr>logs := l\<rparr>)"
    "succeeds x \<longleftrightarrow> commandOk r"
    by (rule runDynsecCommand_result [OF assms])
  let ?y = "case x of Inl e \<Rightarrow> Inl e | Inr _ \<Rightarrow> Inr ()"
  have "dynsecRun P L command args corr w = (?y, w1\<lparr>logs := l\<rparr>)"
    using run(1) by (simp add: dynsecRun_def andThen_def split: sum.split)
  moreover have "succeeds ?y \<longleftrightarrow> commandOk r" using run(2) by (simp add: succeeds_def split: sum.splits)
  ultimately show ?thesis by (rule that)
qed

section \<open>Creating a client\<close>

text \<open>
  What a command does to the clients the broker knows, as its documentation has it: creating and
  deleting are the only commands that change them, and a command that fails changes nothing.
\<close>

definition brokerEffect :: "string \<Rightarrow> string list \<Rightarrow> bool \<Rightarrow> string set \<Rightarrow> string set" where
  "brokerEffect command args ok cs =
    (if \<not> ok then cs else if command = ''createClient'' then insert (hd args) cs
     else if command = ''deleteClient'' then cs - {hd args} else cs)"

definition broker_contract ::
  "'b platform \<Rightarrow> loaded_config \<Rightarrow> string option \<Rightarrow> ('b \<Rightarrow> string set)
    \<Rightarrow> ('b, 'z) dynsec_world_scheme itself \<Rightarrow> bool" where
  "broker_contract P L corr clients W \<longleftrightarrow>
    (\<forall>command args (w :: ('b, 'z) dynsec_world_scheme) r w'.
      sendDynsecCommand P L command args corr w = (r, w') \<longrightarrow>
      clients (outside w') = brokerEffect command args (commandOk r) (clients (outside w))) \<and>
    (\<forall>(w :: ('b, 'z) dynsec_world_scheme) r w'.
      readState P L corr w = (r, w') \<longrightarrow> clients (outside w') = clients (outside w))"

lemma contract_run:
  fixes w :: "('b, 'z) dynsec_world_scheme"
  assumes "broker_contract P L corr clients TYPE(('b, 'z) dynsec_world_scheme)"
    and "dynsecRun P L command args corr w = (x, w')"
  shows "clients (outside w') = brokerEffect command args (succeeds x) (clients (outside w))"
proof -
  obtain r w1 where send: "sendDynsecCommand P L command args corr w = (r, w1)" by fastforce
  then obtain y l where "dynsecRun P L command args corr w = (y, w1\<lparr>logs := l\<rparr>)" "succeeds y \<longleftrightarrow> commandOk r"
    by (rule dynsecRun_result)
  moreover have "clients (outside w1) = brokerEffect command args (commandOk r) (clients (outside w))"
    using assms(1) send unfolding broker_contract_def by blast
  ultimately show ?thesis using assms(2) by auto
qed

lemma contract_read:
  fixes w :: "('b, 'z) dynsec_world_scheme"
  shows "broker_contract P L corr clients TYPE(('b, 'z) dynsec_world_scheme) \<Longrightarrow> readState P L corr w = (r, w') \<Longrightarrow>
    clients (outside w') = clients (outside w)"
  unfolding broker_contract_def by blast

lemma keeps_outside_getClientDefaults: "keeps outside getClientDefaults"
  unfolding getClientDefaults_def getSetting_def by (intro along_intros) simp_all

lemma keeps_outside_missing: "keeps outside (isConfiguredDefaultRoleMissing n st)"
  unfolding isConfiguredDefaultRoleMissing_def Let_def clearProvisioned_def
  by (intro along_intros) simp_all

lemma succeeds_unit: "succeeds (r :: exn + unit) \<longleftrightarrow> r = Inr ()"
  by (cases r) auto

lemma contract_applyDefaultRole:
  fixes w :: "('b, 'z) dynsec_world_scheme"
  assumes c: "broker_contract P L corr clients TYPE(('b, 'z) dynsec_world_scheme)"
    and run: "applyDefaultRole P L u d r corr w = (res, w')"
  shows "(res = Inr () \<and> clients (outside w') = clients (outside w)) \<or>
    (\<exists>err. res = Inl (rollbackFailure corr u d err None) \<and> clients (outside w') = clients (outside w) - {u}) \<or>
    (\<exists>err rb. res = Inl (rollbackFailure corr u d err (Some rb)) \<and> clients (outside w') = clients (outside w))"
proof -
  obtain x w1 where assign: "assignClientRole P L u r (of_int (cdRolePriority d)) corr w = (x, w1)" by fastforce
  have w1: "clients (outside w1) = clients (outside w)"
    using contract_run [OF c assign [unfolded assignClientRole_def]] by (simp add: brokerEffect_def)
  show ?thesis
  proof (cases x)
    case (Inr y)
    then show ?thesis using run assign w1 by (simp add: applyDefaultRole_def)
  next
    case (Inl err)
    obtain w2 where clear: "whenever (r = bootstrapDefaultRoleName) clearProvisioned w1 = (Inr (), w2)"
      "outside w2 = outside w1"
      by (cases "r = bootstrapDefaultRoleName") (simp_all add: clearProvisioned_def)
    obtain y w3 where del: "deleteClient P L u corr w2 = (y, w3)" by fastforce
    have w3: "clients (outside w3) = brokerEffect ''deleteClient'' [u] (succeeds y) (clients (outside w2))"
      using contract_run [OF c del [unfolded deleteClient_def]] .
    have "applyDefaultRole P L u d r corr w =
      (case y of Inr _ \<Rightarrow> (Inl (rollbackFailure corr u d err None), w3)
       | Inl rb \<Rightarrow> (Inl (rollbackFailure corr u d err (Some rb)), w3))"
      using assign Inl clear(1) del
      by (simp add: applyDefaultRole_def tryRollback_def andThen_def catching_def split: sum.split)
    then show ?thesis using run w1 w3 clear(2) by (cases y) (auto simp: brokerEffect_def)
  qed
qed

lemma contract_precheck:
  fixes w :: "('b, 'z) dynsec_world_scheme"
  assumes c: "broker_contract P L corr clients TYPE(('b, 'z) dynsec_world_scheme)"
    and run: "(if nonblank (cdRoleName d) then
        andThen (readState P L corr) (\<lambda>st.
        andThen (isConfiguredDefaultRoleMissing (cdRoleName d) st) (\<lambda>missing.
        if missing then raise (missingDefaultRoleError corr (the (cdRoleName d))) else ret ()))
      else ret ()) w = (res, w')"
  shows "clients (outside w') = clients (outside w)"
proof (cases "nonblank (cdRoleName d)")
  case False
  then show ?thesis using run by simp
next
  case True
  obtain x w1 where read: "readState P L corr w = (x, w1)" by fastforce
  have w1: "clients (outside w1) = clients (outside w)" by (rule contract_read [OF c read])
  show ?thesis
  proof (cases x)
    case (Inl e)
    then show ?thesis using True run read w1 by simp
  next
    case (Inr st)
    obtain y w2 where m: "isConfiguredDefaultRoleMissing (cdRoleName d) st w1 = (y, w2)" by fastforce
    have "outside w2 = outside w1" by (rule keepsD [OF keeps_outside_missing m])
    then show ?thesis using True run read w1 Inr m by (cases y) (auto split: if_splits)
  qed
qed

lemma createClient_phases:
  fixes w :: "('b, 'z) dynsec_world_scheme"
  assumes c: "broker_contract P L corr clients TYPE(('b, 'z) dynsec_world_scheme)"
    and run: "createClient P L u pw cid disabled corr w = (res, w')"
  shows "(\<not> succeeds res \<and> clients (outside w') = clients (outside w)) \<or>
    (\<exists>d w1. clients (outside w1) = insert u (clients (outside w)) \<and>
      andThen (whenever (nonblank pw) (dynsecRun P L ''setClientPassword'' [u, the pw] corr)) (\<lambda>_.
      andThen (whenever (nonblank (cdRoleName d)) (applyDefaultRole P L u d (the (cdRoleName d)) corr)) (\<lambda>_.
      andThen (whenever disabled (dynsecRun P L ''disableClient'' [u] corr)) (\<lambda>_.
      ret \<lparr>ccrApplied = nonblank (cdRoleName d), ccrRoleName = cdRoleName d,
           ccrRolePriority = cdRolePriority d\<rparr>))) w1 = (res, w'))"
proof -
  obtain x w1 where def: "getClientDefaults w = (x, w1)" by fastforce
  have w1: "outside w1 = outside w" by (rule keepsD [OF keeps_outside_getClientDefaults def])
  show ?thesis
  proof (cases x)
    case (Inl e)
    then show ?thesis using run def w1 by (auto simp: createClient_def)
  next
    case (Inr d)
    let ?check = "if nonblank (cdRoleName d) then
        andThen (readState P L corr) (\<lambda>st.
        andThen (isConfiguredDefaultRoleMissing (cdRoleName d) st) (\<lambda>missing.
        if missing then raise (missingDefaultRoleError corr (the (cdRoleName d))) else ret ()))
      else ret ()"
    obtain y w2 where chk: "?check w1 = (y, w2)" by fastforce
    have w2: "clients (outside w2) = clients (outside w)" using contract_precheck [OF c chk] w1 by simp
    show ?thesis
    proof (cases y)
      case (Inl e)
      then show ?thesis using run def \<open>x = Inr d\<close> chk w2 by (auto simp: createClient_def)
    next
      case (Inr un)
      let ?args = "if nonblank cid then [u, ''-i'', the cid] else [u]"
      obtain z w3 where crt: "dynsecRun P L ''createClient'' ?args corr w2 = (z, w3)" by fastforce
      have w3: "clients (outside w3) = brokerEffect ''createClient'' ?args (succeeds z) (clients (outside w2))"
        by (rule contract_run [OF c crt])
      show ?thesis
      proof (cases z)
        case (Inl e)
        then show ?thesis
          using run def \<open>x = Inr d\<close> chk \<open>y = Inr un\<close> crt w2 w3 by (auto simp: createClient_def brokerEffect_def)
      next
        case (Inr un')
        then have "clients (outside w3) = insert u (clients (outside w))"
          using w2 w3 by (simp add: brokerEffect_def)
        then show ?thesis
          using run def \<open>x = Inr d\<close> chk \<open>y = Inr un\<close> crt Inr
          by (intro disjI2 exI [of _ d] exI [of _ w3]) (simp add: createClient_def)
      qed
    qed
  qed
qed

lemma not_nonblank_None: "\<not> nonblank None"
  by (simp add: nonblank_def)


text \<open>
  A broker on the sample platform that keeps its clients in \<open>soSpawned\<close> and refuses every role
  assignment.
\<close>

definition sim_spawn :: "string list \<Rightarrow> sample_outside \<Rightarrow> (exn + process_exit) \<times> sample_outside" where
  "sim_spawn args b =
    (let command = args ! 11; rest = drop 12 args in
     (Inr (sample_exit (if command = ''addClientRole'' then 1 else 0) []),
      if command = ''createClient'' then b\<lparr>soSpawned := (hd rest, []) # soSpawned b\<rparr>
      else if command = ''deleteClient'' then b\<lparr>soSpawned := filter (\<lambda>c. fst c \<noteq> hd rest) (soSpawned b)\<rparr>
      else b))"

definition broker_sim :: "sample_outside platform" where
  "broker_sim = sample_platform\<lparr>spawn_process := (\<lambda>exe args t. sim_spawn args)\<rparr>"

definition sim_clients :: "sample_outside \<Rightarrow> string set" where
  "sim_clients b = fst ` set (soSpawned b)"

definition sample_dynsec :: "sample_outside \<Rightarrow> sample_outside dynsec_world" where
  "sample_dynsec b = \<lparr>clock = 1000, draws = 0, logs = [], outside = b, users = [], sessions = [],
    auth_requests = [], audit_log = [],
    settings = [((''dynsec'', ''clientDefaults''),
      (json_text (client_defaults_value \<lparr>cdRoleName = Some ''staff'', cdRolePriority = 3\<rparr>), 0))],
    snapshots = [], dbFaults = [], provisionedAt = None, bootError = None,
    bootStatus = idleOperationStatus\<rparr>"

definition sample_state_file :: string where
  "sample_state_file = json_text (Obj [(''clients'', Arr []),
    (''roles'', Arr [Obj [(''rolename'', Str ''staff'')]])])"

lemma stderrOf_result: "stderrOf (command_result exe args x) = Inr (procStderr x)"
  by (simp add: stderrOf_def readProp_def command_result_def getProp_def nullish_def)

lemma exitCode_result: "getProp ''exitCode'' (command_result exe args x) = opt_int (procExitCode x)"
  by (simp add: command_result_def getProp_def)

lemma commandOk_result:
  "commandOk (Inr (command_result exe args x)) \<longleftrightarrow>
    procExitCode x = Some 0 \<and> extractMeaningfulDynsecStderr (procStderr x) = []"
  unfolding commandOk_def sum.case stderrOf_result exitCode_result
  by (cases "procExitCode x") (simp_all add: opt_int_def num_int_def)

lemma commandOk_sample_exit: "commandOk (Inr (command_result exe args (sample_exit n []))) \<longleftrightarrow> n = 0"
  by (simp add: commandOk_result sample_exit_def extractMeaningfulDynsecStderr_def trim_def trimStart_def trimEnd_def)

lemma runCommand_spawned:
  assumes "spawn_process P exe args timeoutMs (outside w) = (Inr x, b)"
  shows "runCommand P exe args shown timeoutMs corr w =
    (Inr (command_result exe (case shown of None \<Rightarrow> args | Some d \<Rightarrow> d) x), w\<lparr>outside := b\<rparr>)"
  using assms by (simp add: runCommand_def Let_def callOut_def andThen_def catching_def)

lemma sample_local: "\<not> agentConfigured sample_loaded"
  by (simp add: agentConfigured_def sample_loaded_def sample_config_def sample_broker_def)

lemma sample_connection: "length (buildConnectionArgs sample_loaded b) = 10"
  by (simp add: buildConnectionArgs_def Let_def sample_loaded_def sample_config_def sample_broker_def default_tls_def)

lemma broker_sim_send:
  obtains r b where "sendDynsecCommand broker_sim sample_loaded command args corr w = (r, w\<lparr>outside := b\<rparr>)"
    "sim_clients b = brokerEffect command args (commandOk r) (sim_clients (outside w))"
proof -
  let ?argv = "buildConnectionArgs sample_loaded False @ [''dynsec'', command] @ args"
  let ?shown = "buildConnectionArgs sample_loaded True @ [''dynsec'', command] @ redactCommandArgs command args"
  let ?exe = "bkControlBinaryPath (cfBroker (ldConfig sample_loaded))"
  have argv: "?argv ! 11 = command" "drop 12 ?argv = args"
    using sample_connection [of False] by (simp_all add: nth_append)
  obtain n b where spawn: "sim_spawn ?argv (outside w) = (Inr (sample_exit n []), b)"
    and n: "n = (if command = ''addClientRole'' then 1 else 0)"
    and b: "sim_clients b = brokerEffect command args (n = 0) (sim_clients (outside w))"
    by (rule that [OF _ refl]) (unfold sim_spawn_def argv Let_def, rule refl,
      auto simp: brokerEffect_def sim_clients_def)
  have "sendDynsecCommand broker_sim sample_loaded command args corr w =
      (Inr (command_result ?exe ?shown (sample_exit n [])), w\<lparr>outside := b\<rparr>)"
    using runCommand_spawned [of broker_sim ?exe ?argv 10000 w] spawn
    by (simp add: sendDynsecCommand_def sample_local broker_sim_def)
  with b show ?thesis 
    by (intro that [of "Inr (command_result ?exe ?shown (sample_exit n []))" b]) (simp_all only: commandOk_sample_exit)
qed

lemma broker_sim_read: "keeps outside (readState broker_sim sample_loaded corr)"
proof -
  have "keeps outside (callOut (read_file broker_sim f))" for f
    by (rule keepsI) (auto simp: callOut_def broker_sim_def sample_platform_def split: prod.splits)
  then show ?thesis
    unfolding readState_def Let_def if_not_P [OF sample_local] by (intro keeps_intros keeps_now) assumption
qed

lemma broker_sim_contract:
  "broker_contract broker_sim sample_loaded corr sim_clients TYPE((sample_outside, 'z) dynsec_world_scheme)"
  unfolding broker_contract_def
proof (intro conjI allI impI)
  fix command args and w w' :: "(sample_outside, 'z) dynsec_world_scheme" and r
  assume "sendDynsecCommand broker_sim sample_loaded command args corr w = (r, w')"
  moreover obtain r' b where
    "sendDynsecCommand broker_sim sample_loaded command args corr w = (r', w\<lparr>outside := b\<rparr>)"
    "sim_clients b = brokerEffect command args (commandOk r') (sim_clients (outside w))"
    by (rule broker_sim_send)
  ultimately have "r = r'" "w' = w\<lparr>outside := b\<rparr>"
    "sim_clients b = brokerEffect command args (commandOk r') (sim_clients (outside w))" by simp_all
  then show "sim_clients (outside w') = brokerEffect command args (commandOk r) (sim_clients (outside w))"
    by simp
next
  fix w w' :: "(sample_outside, 'z) dynsec_world_scheme" and r
  assume "readState broker_sim sample_loaded corr w = (r, w')"
  then show "sim_clients (outside w') = sim_clients (outside w)" using keepsD [OF broker_sim_read] by metis
qed


end
