(* ===== verification/DynsecSafety.thy ===== *)
theory DynsecSafety
  imports DynsecService
begin

text \<open>
  What the bootstrap of the built-in roles guarantees, when a configured default role counts as
  missing, which errors a call to the broker agent can end in, and that a password never reaches the
  log or an error.
\<close>

section \<open>Stored settings\<close>

definition storedSetting :: "string \<Rightarrow> string \<Rightarrow> settings_table \<Rightarrow> jsval" where
  "storedSetting scope key t =
    (case map_of t (scope, key) of None \<Rightarrow> Null | Some (json, _) \<Rightarrow> parseJsonSafe (Some json) Null)"

definition storedDefaults :: "('b, 'z) db_world_scheme \<Rightarrow> client_defaults" where
  "storedDefaults w = normalizeClientDefaults (storedSetting ''dynsec'' ''clientDefaults'' (settings w))"

definition bootstrapInitialized :: "('b, 'z) db_world_scheme \<Rightarrow> bool" where
  "bootstrapInitialized w \<longleftrightarrow>
    storedSetting ''dynsec'' ''bootstrapDefaultRoleInitialized'' (settings w) = Bool True"

interpretation in_settings: world_frame settings
  by unfold_locales simp_all

interpretation in_bootError: world_frame bootError
  by unfold_locales simp_all

interpretation in_provisionedAt: world_frame provisionedAt
  by unfold_locales simp_all

lemma storedSetting_update:
  assumes "json_ok v"
  shows "storedSetting s k (AList.update (s', k') (json_text v, t) st) =
    (if (s, k) = (s', k') then v else storedSetting s k st)"
  using parseJsonSafe_text [OF assms] by (auto simp: storedSetting_def update_conv')

lemma getSetting_settings: "getSetting s k w = (r, w') \<Longrightarrow> settings w' = settings w"
  by (auto simp: getSetting_def dbRead_def dbGate_def andThen_def split: list.splits if_splits)

lemma getSetting_value: "getSetting s k w = (Inr v, w') \<Longrightarrow> v = storedSetting s k (settings w)"
  by (auto simp: getSetting_def storedSetting_def dbRead_def dbGate_def andThen_def split: list.splits if_splits)

lemma setSetting_settings:
  assumes "setSetting s k v t w = (r, w')"
  shows "(settings w' = settings w \<and> r \<noteq> Inr ()) \<or>
    (settings w' = AList.update (s, k) (json_text v, t) (settings w) \<and> r = Inr ())"
  using assms
  by (auto simp: setSetting_def dbWrite_def dbGate_def andThen_def split: list.splits if_splits)

section \<open>The bootstrap\<close>

lemma markInitialized_result:
  assumes "markBootstrapInitialized w = (r, w')"
  shows "r = Inr () \<Longrightarrow> bootstrapInitialized w'" and "storedDefaults w' = storedDefaults w"
proof -
  have set: "setSetting ''dynsec'' ''bootstrapDefaultRoleInitialized'' (Bool True) (clock w) w = (r, w')"
    using assms by (simp add: markBootstrapInitialized_def andThen_def)
  note upd = storedSetting_update [of "Bool True" _ _ "''dynsec''" "''bootstrapDefaultRoleInitialized''"]
  show "r = Inr () \<Longrightarrow> bootstrapInitialized w'"
    using setSetting_settings [OF set] upd by (simp add: bootstrapInitialized_def)
  show "storedDefaults w' = storedDefaults w"
    using setSetting_settings [OF set] upd by (auto simp: storedDefaults_def)
qed

lemma keeps_settings_migrate: "keeps settings (migrateLegacyBootstrapRole P L st corr)"
  unfolding migrateLegacyBootstrapRole_def deleteRole_def clearProvisioned_def assignClientRole_def
    removeClientRole_def addGroupRole_def removeGroupRole_def
  by (intro in_settings.fr_dynsec in_settings.fr_migrateRefs) simp_all

lemma keeps_bootError_migrate: "keeps bootError (migrateLegacyBootstrapRole P L st corr)"
  unfolding migrateLegacyBootstrapRole_def deleteRole_def clearProvisioned_def assignClientRole_def
    removeClientRole_def addGroupRole_def removeGroupRole_def
  by (intro in_bootError.fr_dynsec in_bootError.fr_migrateRefs) simp_all

lemma keeps_bootError_db: "keeps bootError (getSetting s k)" "keeps bootError (setSetting s k v t)"
  unfolding getSetting_def setSetting_def by (intro along_intros; simp)+

lemma keeps_bootError_defaults: "keeps bootError (setClientDefaults v)" "keeps bootError markProvisioned"
  unfolding setClientDefaults_def markProvisioned_def Let_def
  by (intro keeps_intros keeps_now keeps_bootError_db; simp)+

lemma keeps_bootError_managed: "keeps bootError (ensureManagedBootstrapRoles P L st corr b)"
  unfolding ensureManagedBootstrapRoles_def Let_def
  by (intro in_bootError.fr_base in_bootError.fr_bootstrapRole keeps_bootError_migrate keeps_bootError_defaults)

lemma keeps_bootError_mark: "keeps bootError markBootstrapInitialized"
  unfolding markBootstrapInitialized_def by (intro in_bootError.fr_base keeps_bootError_db)

lemma keeps_bootError_decide: "keeps bootError (bootstrapDecide P L corr i d st)"
  unfolding bootstrapDecide_def Let_def
  by (intro keeps_intros keeps_bootError_mark keeps_bootError_managed)

lemma keeps_bootError_body: "keeps bootError (bootstrapBody P L corr)"
  unfolding bootstrapBody_def hasInitializedBootstrap_def getClientDefaults_def
  by (intro keeps_intros keeps_bootError_decide keeps_bootError_db in_bootError.fr_readState)

lemma keeps_settings_managed:
  "keeps settings (ensureManagedBootstrapRoles P L st corr False)"
  unfolding ensureManagedBootstrapRoles_def Let_def whenever_simps
  by (intro in_settings.fr_dynsec keeps_settings_migrate)

lemma after_mark:
  assumes "andThen markBootstrapInitialized (\<lambda>_. ret x) w = (Inr r, w')"
  shows "bootstrapInitialized w'"
  using assms by (auto elim!: andThen_eq_InrE dest!: markInitialized_result(1))

lemma after_managed_mark:
  assumes "andThen m (\<lambda>x. andThen markBootstrapInitialized (\<lambda>_. ret (g x))) w = (Inr r, w')"
  shows "bootstrapInitialized w'"
  using assms by (rule andThen_eq_InrE) (rule after_mark)

lemma decide_initializes:
  assumes "bootstrapDecide P L corr i d st w = (Inr r, w')" and "i \<Longrightarrow> bootstrapInitialized w"
  shows "bootstrapInitialized w'"
  using assms unfolding bootstrapDecide_def Let_def
  by (auto simp only: ret_apply prod.inject sum.inject simp_thms split: if_split_asm
      dest: after_mark after_managed_mark)

lemma body_phases:
  assumes "bootstrapBody P L corr w = (r, w')"
  obtains e where "r = Inl e" "settings w' = settings w"
  | st w1 where "settings w1 = settings w"
    "bootstrapDecide P L corr (bootstrapInitialized w) (storedDefaults w) st w1 = (r, w')"
proof -
  obtain a w1 where a: "hasInitializedBootstrap w = (a, w1)" by fastforce
  obtain b w2 where b: "getClientDefaults w1 = (b, w2)" by fastforce
  obtain c w3 where c: "readState P L corr w2 = (c, w3)" by fastforce
  have s1: "settings w1 = settings w" "\<And>v. a = Inr v \<Longrightarrow> v = bootstrapInitialized w"
    using a by (auto simp: hasInitializedBootstrap_def bootstrapInitialized_def andThen_def
        dest: getSetting_settings getSetting_value split: prod.splits sum.splits)
  have s2: "settings w2 = settings w1" "\<And>v. b = Inr v \<Longrightarrow> v = storedDefaults w1"
    using b by (auto simp: getClientDefaults_def storedDefaults_def andThen_def
        dest: getSetting_settings getSetting_value split: prod.splits sum.splits)
  have s3: "settings w3 = settings w2" using keepsD [OF in_settings.fr_readState c] .
  have body: "(r, w') = (case a of Inl e \<Rightarrow> (Inl e, w1) | Inr i \<Rightarrow> (case b of Inl e \<Rightarrow> (Inl e, w2)
      | Inr d \<Rightarrow> (case c of Inl e \<Rightarrow> (Inl e, w3) | Inr st \<Rightarrow> bootstrapDecide P L corr i d st w3)))"
    using assms a b c by (cases a; cases b; cases c) (simp_all add: bootstrapBody_def)
  show ?thesis
  proof (cases "\<exists>i d st. a = Inr i \<and> b = Inr d \<and> c = Inr st")
    case True
    then obtain i d st where *: "a = Inr i" "b = Inr d" "c = Inr st" by blast
    have "storedDefaults w1 = storedDefaults w" using s1(1) by (simp add: storedDefaults_def)
    then show ?thesis using that(2) [of w3 st] body s1 s2 s3 * by simp
  next
    case False
    then show ?thesis using that(1) body s1 s2 s3 by (auto split: sum.splits)
  qed
qed

text \<open>
  A bootstrap that returns has recorded that it was done, so that later starts respect what the
  operators set, and has cleared the error; one that fails rethrows its error and keeps it, with its
  reason, for the status the operators see.
\<close>

theorem bootstrap_outcome:
  "case ensureBootstrapDefaultRole P L corr w of
     (Inr r, w') \<Rightarrow> bootstrapInitialized w' \<and> bootError w' = None
   | (Inl (ThrownVal v), w') \<Rightarrow> bootError w' = Some \<lparr>beReason = ''Unknown error'', beErrorKey = None, beDetails = v\<rparr>
   | (Inl e, w') \<Rightarrow> bootError w' = Some \<lparr>beReason = deriveBootstrapReason e,
       beErrorKey = (if is_AppError e then Some (errorKey e) else None),
       beDetails = (if is_AppError e then errorContext e else Null)\<rparr>"
proof -
  let ?w = "w\<lparr>bootError := None\<rparr>"
  obtain r w' where run: "bootstrapBody P L corr ?w = (r, w')" by fastforce
  have none: "bootError w' = None" using keepsD [OF keeps_bootError_body run] by simp
  show ?thesis
  proof (cases r)
    case (Inl e)
    then show ?thesis using run
      by (cases e) (simp_all add: ensureBootstrapDefaultRole_def setBootstrapError_def andThen_def catching_def)
  next
    case (Inr x)
    from run have "bootstrapInitialized w'"
    proof (cases rule: body_phases)
      case (2 st w1)
      have "bootstrapInitialized ?w \<Longrightarrow> bootstrapInitialized w1" using 2(1) by (simp add: bootstrapInitialized_def)
      then show ?thesis by (rule decide_initializes [OF 2(2) [unfolded Inr]])
    qed (use Inr in simp)
    then show ?thesis using run none Inr by (simp add: ensureBootstrapDefaultRole_def)
  qed
qed

lemma keeps_defaults_mark: "keeps storedDefaults markBootstrapInitialized"
  by (rule keepsI) (rule markInitialized_result(2))

lemma keeps_defaults_managed: "\<not> b \<Longrightarrow> keeps storedDefaults (ensureManagedBootstrapRoles P L st corr b)"
  by (rule keepsI) (simp add: storedDefaults_def keepsD [OF keeps_settings_managed])

lemma decide_keeps_custom:
  assumes "bootstrapDecide P L corr i d st w = (r, w')"
    and "nonblank (cdRoleName d)" "cdRoleName d \<noteq> Some bootstrapDefaultRoleName"
      "cdRoleName d \<noteq> Some legacyBootstrapRoleName"
  shows "storedDefaults w' = storedDefaults w"
proof -
  have "keeps storedDefaults (bootstrapDecide P L corr i d st)"
    unfolding bootstrapDecide_def Let_def
    by (intro keeps_intros keeps_defaults_mark keeps_defaults_managed) (use assms(2-4) in simp_all)
  then show ?thesis using assms(1) by (rule keepsD)
qed

text \<open>
  The bootstrap never takes away a default role that an operator chose: when the stored client
  defaults name a role of their own, they are the same after it, whether it succeeds or fails.
\<close>

theorem bootstrap_keeps_custom_default:
  assumes "nonblank (cdRoleName (storedDefaults w))"
    and "cdRoleName (storedDefaults w) \<notin> {Some bootstrapDefaultRoleName, Some legacyBootstrapRoleName}"
  shows "storedDefaults (after (ensureBootstrapDefaultRole P L corr) w) = storedDefaults w"
proof -
  let ?w = "w\<lparr>bootError := None\<rparr>"
  obtain r w' where run: "bootstrapBody P L corr ?w = (r, w')" by fastforce
  have w: "storedDefaults ?w = storedDefaults w" by (simp add: storedDefaults_def)
  from run have kept: "storedDefaults w' = storedDefaults ?w"
  proof (cases rule: body_phases)
    case (1 e)
    then show ?thesis by (simp add: storedDefaults_def)
  next
    case (2 st w1)
    then have "storedDefaults w' = storedDefaults w1" using decide_keeps_custom [OF 2(2)] assms w by simp
    then show ?thesis using 2(1) by (simp add: storedDefaults_def)
  qed
  show ?thesis
    using run kept w
    by (cases r) (auto simp: after_def ensureBootstrapDefaultRole_def setBootstrapError_def andThen_def
        catching_def storedDefaults_def split: prod.splits)
qed

theorem bootstrap_keeps_custom_default_witness:
  "storedDefaults (after (ensureBootstrapDefaultRole broker_sim sample_loaded None)
      (sample_dynsec (sample_start [] [] []))) = \<lparr>cdRoleName = Some ''staff'', cdRolePriority = 3\<rparr>"
proof -
  let ?w = "sample_dynsec (sample_start [] [] [])" and ?d = "\<lparr>cdRoleName = Some ''staff'', cdRolePriority = 3\<rparr>"
  have "json_ok (client_defaults_value ?d)" by code_simp
  from parseJsonSafe_text [OF this]
  have "storedDefaults ?w = normalizeClientDefaults (client_defaults_value ?d)"
    by (simp only: storedDefaults_def storedSetting_def sample_dynsec_def db_world.select_convs
        base_world.select_convs map_of.simps fst_conv snd_conv fun_upd_same option.case prod.case)
  also have "\<dots> = ?d" by code_simp
  finally have d: "storedDefaults ?w = ?d" .
  show ?thesis
    using bootstrap_keeps_custom_default [of ?w broker_sim sample_loaded None] unfolding d
    by (simp add: nonblank_def bootstrapDefaultRoleName_def legacyBootstrapRoleName_def)
qed

section \<open>A second bootstrap\<close>

lemma keeps_outside_defaults: "keeps outside (setClientDefaults v)" "keeps outside markProvisioned"
  unfolding setClientDefaults_def markProvisioned_def setSetting_def Let_def
  by (intro along_intros; simp)+

definition roleComplete :: "string \<Rightarrow> bootstrap_acl list \<Rightarrow> dynsec_state \<Rightarrow> bool" where
  "roleComplete name acls st =
    (case List.find (\<lambda>r. drRolename r = name) (dsRoles st) of
       None \<Rightarrow> False | Some role \<Rightarrow> list_all (bootstrapRoleAclExists role) acls)"

lemma ensureBootstrapRole_complete:
  assumes "roleComplete name acls st"
  shows "ensureBootstrapRole P L name acls st corr = ret (False, 0)"
proof -
  obtain role where role: "List.find (\<lambda>r. drRolename r = name) (dsRoles st) = Some role"
    and acls: "list_all (bootstrapRoleAclExists role) acls"
    using assms by (auto simp: roleComplete_def split: option.splits)
  have "filter (\<lambda>a. \<not> bootstrapRoleAclExists role a) acls = []"
    using acls by (simp add: filter_empty_conv list_all_iff)
  then show ?thesis
    by (simp only: ensureBootstrapRole_def ensureBootstrapRoleAcls_def addBootstrapAcls_def Let_def role
        option.case forEach.simps andThen_ret list.size)
qed

text \<open>
  A start after a completed bootstrap sends no command to the broker: with both built-in roles in
  place, each with all its ACLs, and no role of an older version, verifying them changes nothing
  outside the process.
\<close>

theorem managed_roles_quiescent:
  assumes "roleComplete bootstrapDefaultRoleName bootstrapDefaultRoleAcls st"
    and "roleComplete bootstrapReadWriteRoleName bootstrapReadWriteRoleAcls st"
    and "\<not> roleExistsInState legacyBootstrapRoleName st"
  shows "outside (after (ensureManagedBootstrapRoles P L st corr setAsDefault) w) = outside w"
proof -
  have "keeps outside (ensureManagedBootstrapRoles P L st corr setAsDefault)"
    unfolding ensureManagedBootstrapRoles_def ensureBootstrapRole_complete [OF assms(1)]
      ensureBootstrapRole_complete [OF assms(2)] migrateLegacyBootstrapRole_def if_P [OF assms(3)]
      andThen_ret Let_def
    by (intro keeps_intros keeps_emit keeps_outside_defaults) simp_all
  then show ?thesis by (rule keeps_after)
qed

definition sample_managed_role :: "string \<Rightarrow> bootstrap_acl list \<Rightarrow> dynsec_role" where
  "sample_managed_role name acls = \<lparr>drRolename = name, drTextname = Null, drTextdescription = Null,
    drAcls = map (\<lambda>a. \<lparr>aclType = acl_type_str (bacType a), aclTopic = bacTopic a,
      aclPriority = bacPriority a, aclAllow = bacAllow a, aclName = Null, aclDescription = Null\<rparr>) acls\<rparr>"

definition sample_managed_state :: dynsec_state where
  "sample_managed_state = \<lparr>dsClients = [], dsGroups = [],
    dsRoles = [sample_managed_role bootstrapDefaultRoleName bootstrapDefaultRoleAcls,
      sample_managed_role bootstrapReadWriteRoleName bootstrapReadWriteRoleAcls],
    dsAnonymousGroup = None, dsDefaultAcls = Null, dsRaw = Null, dsLoadedAt = []\<rparr>"

lemma sample_managed_complete:
  "roleComplete bootstrapDefaultRoleName bootstrapDefaultRoleAcls sample_managed_state"
  "roleComplete bootstrapReadWriteRoleName bootstrapReadWriteRoleAcls sample_managed_state"
  "\<not> roleExistsInState legacyBootstrapRoleName sample_managed_state"
  by (simp_all add: roleComplete_def roleExistsInState_def sample_managed_state_def sample_managed_role_def
      bootstrapRoleAclExists_def bootstrapDefaultRoleAcls_def bootstrapReadWriteRoleAcls_def
      bootstrapDefaultRoleName_def bootstrapReadWriteRoleName_def legacyBootstrapRoleName_def)

theorem managed_roles_quiescent_witness:
  "outside (after (ensureManagedBootstrapRoles broker_sim sample_loaded sample_managed_state None True)
      (sample_dynsec (sample_start [] [] []))) = sample_start [] [] []"
  using managed_roles_quiescent [OF sample_managed_complete, of broker_sim sample_loaded None True
      "sample_dynsec (sample_start [] [] [])"]
  by (simp add: sample_dynsec_def)

section \<open>The configured default role\<close>

text \<open>
  The configured default role counts as missing exactly when it is set, the broker's state does
  not have it, and it is not the built-in one within the grace period after its creation; the check
  sends nothing and forgets the creation time only of a role that exists or whose grace period is over.
\<close>

theorem default_role_missing_exact:
  "isConfiguredDefaultRoleMissing roleName st w =
    (Inr (nonblank roleName \<and> \<not> roleExistsInState (the roleName) st \<and>
       \<not> (the roleName = bootstrapDefaultRoleName \<and>
          (\<exists>t0. provisionedAt w = Some t0 \<and> clock w - t0 < stateSyncGraceMs))),
     if nonblank roleName \<and> the roleName = bootstrapDefaultRoleName \<and>
        (roleExistsInState (the roleName) st \<or>
         (\<exists>t0. provisionedAt w = Some t0 \<and> stateSyncGraceMs \<le> clock w - t0))
     then w\<lparr>provisionedAt := None\<rparr> else w)"
  by (cases "provisionedAt w")
    (auto simp: isConfiguredDefaultRoleMissing_def Let_def clearProvisioned_def)

section \<open>Passwords\<close>

lemma runCommand_shown:
  assumes "spawn_process P exe args t (outside w) = (x, b)"
  shows "runCommand P exe args (Some shown) t corr w =
    (case x of
       Inr y \<Rightarrow> Inr (command_result exe shown y)
     | Inl e \<Rightarrow> Inl (createAppError ''broker::runCommand'' (''Failed spawning '' @ exe @ ''.'')
         ''BROKER_COMMAND_FAILED'' corr
         (Obj [(''executable'', Str exe), (''args'', Arr (map Str shown))]) 500 (Some e)), w\<lparr>outside := b\<rparr>)"
  using assms by (cases x) (simp_all add: runCommand_def Let_def callOut_def andThen_def catching_def)

definition withDynsecPassword :: "loaded_config \<Rightarrow> string \<Rightarrow> loaded_config" where
  "withDynsecPassword L s = L\<lparr>ldSecrets := (ldSecrets L)\<lparr>secDynsecAdminPassword := s\<rparr>\<rparr>"

definition localAnswer :: "'b platform \<Rightarrow> loaded_config \<Rightarrow> string \<Rightarrow> string list \<Rightarrow> 'b \<Rightarrow> exn + process_exit" where
  "localAnswer P L command args b = fst (spawn_process P (bkControlBinaryPath (cfBroker (ldConfig L)))
    (buildConnectionArgs L False @ [''dynsec'', command] @ args) 10000 b)"

definition localResult :: "loaded_config \<Rightarrow> string \<Rightarrow> string list \<Rightarrow> string option \<Rightarrow> exn + process_exit \<Rightarrow> exn + jsval" where
  "localResult L command args corr x =
    (let exe = bkControlBinaryPath (cfBroker (ldConfig L));
         shown = buildConnectionArgs L True @ [''dynsec'', command] @ redactCommandArgs command args
     in case x of
       Inr y \<Rightarrow> Inr (command_result exe shown y)
     | Inl e \<Rightarrow> Inl (createAppError ''broker::runCommand'' (''Failed spawning '' @ exe @ ''.'')
         ''BROKER_COMMAND_FAILED'' corr
         (Obj [(''executable'', Str exe), (''args'', Arr (map Str shown))]) 500 (Some e)))"

lemma withDynsecPassword_view:
  "agentConfigured (withDynsecPassword L s) = agentConfigured L"
  "buildConnectionArgs (withDynsecPassword L s) True = buildConnectionArgs L True"
  "ldConfig (withDynsecPassword L s) = ldConfig L"
  by (simp_all add: withDynsecPassword_def agentConfigured_def buildConnectionArgs_def Let_def)

lemma send_local:
  assumes "\<not> agentConfigured L"
  obtains b where "sendDynsecCommand P L command args corr w =
    (localResult L command args corr (localAnswer P L command args (outside w)), w\<lparr>outside := b\<rparr>)"
proof -
  obtain x b where spawn: "spawn_process P (bkControlBinaryPath (cfBroker (ldConfig L)))
    (buildConnectionArgs L False @ [''dynsec'', command] @ args) 10000 (outside w) = (x, b)" by fastforce
  have x: "localAnswer P L command args (outside w) = x" unfolding localAnswer_def spawn by simp
  show ?thesis
    by (rule that [of b]) (unfold sendDynsecCommand_def if_not_P [OF assms] x localResult_def Let_def,
      rule runCommand_shown [OF spawn])
qed

lemma runDynsecCommand_after_send:
  assumes "sendDynsecCommand P L command args corr w = (r, w\<lparr>outside := b\<rparr>)"
    and "sendDynsecCommand P L' command args' corr w = (r, w\<lparr>outside := b'\<rparr>)"
    and "agentConfigured L' = agentConfigured L" "redactCommandArgs command args' = redactCommandArgs command args"
  shows "outcome (runDynsecCommand P L' command args' corr) w = outcome (runDynsecCommand P L command args corr) w"
    and "logs (after (runDynsecCommand P L' command args' corr) w) = logs (after (runDynsecCommand P L command args corr) w)"
proof -
  consider e where "r = Inl e" | v e where "r = Inr v" "stderrOf v = Inl e" | v s where "r = Inr v" "stderrOf v = Inr s"
    by (meson sumE)
  then have "outcome (runDynsecCommand P L' command args' corr) w = outcome (runDynsecCommand P L command args corr) w \<and>
    logs (after (runDynsecCommand P L' command args' corr) w) = logs (after (runDynsecCommand P L command args corr) w)"
    using assms by cases (simp_all add: outcome_def after_def runDynsecCommand_def Let_def andThen_def)
  then show "outcome (runDynsecCommand P L' command args' corr) w = outcome (runDynsecCommand P L command args corr) w"
    "logs (after (runDynsecCommand P L' command args' corr) w) = logs (after (runDynsecCommand P L command args corr) w)"
    by simp_all
qed

text \<open>
  C16: no password reaches the log or an error. When the broker's tool runs as a child process, the
  outcome of a command and what it logs depend only on the answer of the process: the same for any two
  administrator passwords and any two client passwords given to \<open>setClientPassword\<close>.
\<close>

theorem passwords_stay_hidden:
  assumes "\<not> agentConfigured L"
    and "redactCommandArgs command args' = redactCommandArgs command args"
    and "localAnswer P (withDynsecPassword L s) command args' (outside w) = localAnswer P L command args (outside w)"
  shows "outcome (runDynsecCommand P (withDynsecPassword L s) command args' corr) w =
      outcome (runDynsecCommand P L command args corr) w \<and>
    logs (after (runDynsecCommand P (withDynsecPassword L s) command args' corr) w) =
      logs (after (runDynsecCommand P L command args corr) w)"
proof -
  let ?L = "withDynsecPassword L s"
  have local: "\<not> agentConfigured ?L" using assms(1) by (simp add: withDynsecPassword_view)
  obtain b where send: "sendDynsecCommand P L command args corr w =
    (localResult L command args corr (localAnswer P L command args (outside w)), w\<lparr>outside := b\<rparr>)"
    by (rule send_local [OF assms(1)])
  obtain b' where "sendDynsecCommand P ?L command args' corr w =
    (localResult ?L command args' corr (localAnswer P ?L command args' (outside w)), w\<lparr>outside := b'\<rparr>)"
    by (rule send_local [OF local])
  moreover have "localResult ?L command args' corr = localResult L command args corr"
    by (rule ext) (simp add: localResult_def withDynsecPassword_view assms(2))
  ultimately have send': "sendDynsecCommand P ?L command args' corr w =
    (localResult L command args corr (localAnswer P L command args (outside w)), w\<lparr>outside := b'\<rparr>)"
    using assms(3) by simp
  show ?thesis
    using runDynsecCommand_after_send [OF send send' withDynsecPassword_view(1) assms(2)] by (rule conjI)
qed

theorem passwords_stay_hidden_witness:
  "logs (after (runDynsecCommand broker_sim (withDynsecPassword sample_loaded ''other'')
      ''setClientPassword'' [''bob'', ''new''] None) (sample_dynsec (sample_start [] [] []))) =
   logs (after (runDynsecCommand broker_sim sample_loaded
      ''setClientPassword'' [''bob'', ''old''] None) (sample_dynsec (sample_start [] [] [])))"
proof -
  let ?w = "sample_dynsec (sample_start [] [] [])"
  have len: "length (buildConnectionArgs (withDynsecPassword sample_loaded ''other'') False) = 10"
    using sample_connection [of True]
    by (simp add: buildConnectionArgs_def withDynsecPassword_def Let_def)
  have "localAnswer broker_sim (withDynsecPassword sample_loaded ''other'') ''setClientPassword'' [''bob'', ''new''] b =
      localAnswer broker_sim sample_loaded ''setClientPassword'' [''bob'', ''old''] b" for b
    using len sample_connection [of False]
    by (simp add: localAnswer_def broker_sim_def sim_spawn_def Let_def nth_append)
  then show ?thesis
    using passwords_stay_hidden [OF sample_local, of "''setClientPassword''" "[''bob'', ''new'']"
        "[''bob'', ''old'']" broker_sim "''other''" ?w None]
    by (simp add: redactCommandArgs_def)
qed

section \<open>Errors of the broker agent\<close>

lemma agent_keys_known:
  "resolveErrorCode ''BROKER_AGENT_REQUEST_FAILED'' \<noteq> resolveErrorCode ''ERR_UNKNOWN''"
  "resolveErrorCode ''BROKER_AGENT_RESPONSE_INVALID'' \<noteq> resolveErrorCode ''ERR_UNKNOWN''"
  by code_simp+

lemma agentFailure_key:
  "is_AppError (agentFailure verb path corr r)"
  "resolveErrorCode (errorKey (agentFailure verb path corr r)) \<noteq> resolveErrorCode ''ERR_UNKNOWN''"
  using agent_keys_known by (simp_all add: agentFailure_def Let_def)

text \<open>
  A failed call to the broker agent ends in an error of the program with a code of the catalogue,
  whatever the agent answers: an unknown key of the agent is replaced. The one exception is an address
  that is not a URL, which is parsed outside the \<open>try\<close> of the request.
\<close>

theorem agent_errors_catalogued:
  assumes "\<And>q b e b'. http_fetch P q b = (Inl e, b') \<Longrightarrow> \<not> is_AppError e"
  shows "case outcome (agentRequest P L verb path body corr) w of
      Inr _ \<Rightarrow> True
    | Inl e \<Rightarrow> e = typeError ''Invalid URL'' \<or>
        (is_AppError e \<and> resolveErrorCode (errorKey e) \<noteq> resolveErrorCode ''ERR_UNKNOWN'')"
proof -
  let ?Q = "\<lambda>e. e = typeError ''Invalid URL'' \<or>
    (is_AppError e \<and> resolveErrorCode (errorKey e) \<noteq> resolveErrorCode ''ERR_UNKNOWN'')"
  let ?R = "\<lambda>e. is_AppError e \<longrightarrow> resolveErrorCode (errorKey e) \<noteq> resolveErrorCode ''ERR_UNKNOWN''"
  have conf: "agentEnsureConfigured L corr = Inl e \<Longrightarrow> ?Q e" for e
    using agent_keys_known by (auto simp: agentEnsureConfigured_def split: option.splits if_splits)
  have send: "throws ?R (agentSend P L i u verb hs body)" for i u hs
    unfolding agentSend_def by (intro throws_intros throws_callOut) (use assms in blast)
  have "throws ?Q (agentRequest P L verb path body corr)"
    unfolding agentRequest_def Let_def
    by (intro throws_basic throws_andThen throws_catching [where R = ?R] throws_if throws_option throws_world send)
      (use conf agentFailure_key agent_keys_known in \<open>simp_all split: if_split\<close>)
  from throws_outcome [OF this, of w] show ?thesis by (simp split: sum.splits)
qed

theorem agent_errors_catalogued_witness:
  "case outcome (agentRequest sample_platform sample_loaded ''GET'' ''/health'' Undef None)
      (sample_dynsec (sample_start [] [] [])) of
      Inr _ \<Rightarrow> True
    | Inl e \<Rightarrow> e = typeError ''Invalid URL'' \<or>
        (is_AppError e \<and> resolveErrorCode (errorKey e) \<noteq> resolveErrorCode ''ERR_UNKNOWN'')"
proof (rule agent_errors_catalogued)
  fix q b e b'
  assume "http_fetch sample_platform q b = (Inl e, b')"
  then show "\<not> is_AppError e" by (auto simp: sample_platform_def is_AppError_def split: list.splits)
qed

end
