(* ===== verification/Net.thy ===== *)
theory Net
  imports World "HOL-Library.Word"
begin

text \<open>
  IP addresses and the list of trusted proxies of \<open>AuthService\<close>, which is Node's \<open>net.BlockList\<close>:
  IPv4 addresses as 32-bit words. \<open>check\<close> is called without a family, so the address is read as
  IPv4; IPv6 notation and how an IPv4 address compares with an IPv6 subnet are arguments.
\<close>

definition octet :: "string \<Rightarrow> nat option" where
  "octet s = (if s \<noteq> [] \<and> length s \<le> 3 \<and> list_all is_digit s \<and> (length s = 1 \<or> hd s \<noteq> CHR ''0'') \<and> dec_val s \<le> 255
     then Some (dec_val s) else None)"

definition parse_ipv4 :: "string \<Rightarrow> 32 word option" where
  "parse_ipv4 s = (case map octet (splitOn (CHR ''.'') s) of
      [Some a, Some b, Some c, Some d] \<Rightarrow> Some (word_of_nat (((a * 256 + b) * 256 + c) * 256 + d))
    | _ \<Rightarrow> None)"

text \<open>\<open>isIP\<close>: 4, 6, or 0 for text that is no address.\<close>

definition isIP :: "(string \<Rightarrow> bool) \<Rightarrow> string \<Rightarrow> nat" where
  "isIP is_v6 s = (if parse_ipv4 s \<noteq> None then 4 else if is_v6 s then 6 else 0)"

definition in_prefix :: "nat \<Rightarrow> 32 word \<Rightarrow> 32 word \<Rightarrow> bool" where
  "in_prefix n net a = (drop_bit (32 - n) a = drop_bit (32 - n) net)"

datatype subnet = Subnet4 "32 word" nat | Subnet6 string nat

text \<open>\<open>Number.parseInt(s, 10)\<close>: the leading digits after white space and a sign; \<open>None\<close> is \<open>NaN\<close>.\<close>

definition parseInt10 :: "string \<Rightarrow> int option" where
  "parseInt10 s =
    (let t = trimStart s;
         (neg, u) = (case t of c # r \<Rightarrow> (if c = CHR ''-'' then (True, r) else if c = CHR ''+'' then (False, r) else (False, t))
                     | [] \<Rightarrow> (False, []));
         ds = takeWhile is_digit u
     in if ds = [] then None else Some (if neg then - int (dec_val ds) else int (dec_val ds)))"

text \<open>\<open>addSubnet\<close> throws on a prefix that is no integer of its range.\<close>

definition addSubnet :: "string \<Rightarrow> int option \<Rightarrow> bool \<Rightarrow> exn + subnet" where
  "addSubnet address prefix v6 =
    (case prefix of
       None \<Rightarrow> Inl (PlainErr ''RangeError'' ''The value of prefix is out of range.'' None)
     | Some n \<Rightarrow>
        if n < 0 \<or> (if v6 then 128 else 32) < n
        then Inl (PlainErr ''RangeError'' ''The value of prefix is out of range.'' None)
        else Inr (if v6 then Subnet6 address (nat n) else Subnet4 (the (parse_ipv4 address)) (nat n)))"

text \<open>The constructor's loop over the configured CIDRs.\<close>

fun trustedProxyList :: "(string \<Rightarrow> bool) \<Rightarrow> string list \<Rightarrow> exn + subnet list" where
  "trustedProxyList is_v6 [] = Inr []"
| "trustedProxyList is_v6 (cidr # cidrs) =
    (let parts = splitOn (CHR ''/'') cidr; address = hd parts; version = isIP is_v6 address;
         prefix = (case tl parts of p # _ \<Rightarrow> p | [] \<Rightarrow> [])
     in if version = 0 \<or> prefix = [] then trustedProxyList is_v6 cidrs
        else case addSubnet address (parseInt10 prefix) (version = 6) of
          Inl e \<Rightarrow> Inl e
        | Inr s \<Rightarrow> (case trustedProxyList is_v6 cidrs of Inl e \<Rightarrow> Inl e | Inr ss \<Rightarrow> Inr (s # ss)))"

definition subnet_check :: "(string \<Rightarrow> nat \<Rightarrow> 32 word \<Rightarrow> bool) \<Rightarrow> subnet list \<Rightarrow> string \<Rightarrow> bool" where
  "subnet_check v6_has nets s =
    (case parse_ipv4 s of
       None \<Rightarrow> False
     | Some a \<Rightarrow> list_ex (\<lambda>n. case n of Subnet4 net p \<Rightarrow> in_prefix p net a | Subnet6 t p \<Rightarrow> v6_has t p a) nets)"

section \<open>Facts\<close>

lemma octet_range: "octet s = Some n \<Longrightarrow> n \<le> 255"
  by (auto simp: octet_def split: if_splits)

lemma parse_ipv4_fields:
  assumes "parse_ipv4 s = Some w"
  obtains a b c d where "map octet (splitOn (CHR ''.'') s) = [Some a, Some b, Some c, Some d]"
    "a \<le> 255" "b \<le> 255" "c \<le> 255" "d \<le> 255" "unat w = ((a * 256 + b) * 256 + c) * 256 + d"
proof -
  obtain a b c d where m: "map octet (splitOn (CHR ''.'') s) = [Some a, Some b, Some c, Some d]"
    and w: "w = word_of_nat (((a * 256 + b) * 256 + c) * 256 + d)"
    using assms by (auto simp: parse_ipv4_def split: list.splits option.splits)
  have "Some a \<in> set (map octet (splitOn (CHR ''.'') s))" "Some b \<in> set (map octet (splitOn (CHR ''.'') s))"
    "Some c \<in> set (map octet (splitOn (CHR ''.'') s))" "Some d \<in> set (map octet (splitOn (CHR ''.'') s))"
    unfolding m by simp_all
  then have le: "a \<le> 255" "b \<le> 255" "c \<le> 255" "d \<le> 255" by (auto dest!: sym [THEN octet_range])
  then have "((a * 256 + b) * 256 + c) * 256 + d < 2 ^ 32" by simp
  then have "unat w = ((a * 256 + b) * 256 + c) * 256 + d" unfolding w unat_of_nat by simp
  then show thesis by (rule that [OF m le])
qed

lemma in_prefix_iff:
  assumes "n \<le> 32"
  shows "in_prefix n net a \<longleftrightarrow> unat a div 2 ^ (32 - n) = unat net div 2 ^ (32 - n)"
  by (simp add: in_prefix_def word_unat_eq_iff unat_drop_bit_eq drop_bit_eq_div [where 'a = nat])

lemma in_prefix_range:
  assumes "n \<le> 32"
  shows "in_prefix n net a \<longleftrightarrow> unat net div 2 ^ (32 - n) * 2 ^ (32 - n) \<le> unat a \<and>
    unat a < (unat net div 2 ^ (32 - n) + 1) * 2 ^ (32 - n)"
proof -
  have "x div k = y \<longleftrightarrow> y * k \<le> x \<and> x < (y + 1) * k" if "0 < k" for x y k :: nat
    using that by (metis Suc_eq_plus1 div_nat_eqI div_times_less_eq_dividend dividend_less_times_div
        mult.commute mult_Suc add.commute)
  then show ?thesis unfolding in_prefix_iff [OF assms] by simp
qed

text \<open>The address and the prefix of one configured CIDR, where it is one of IPv4.\<close>

definition cidr4 :: "string \<Rightarrow> (32 word \<times> nat) option" where
  "cidr4 cidr =
    (case (parse_ipv4 (hd (splitOn (CHR ''/'') cidr)), tl (splitOn (CHR ''/'') cidr)) of
       (Some net, p # _) \<Rightarrow>
         (case parseInt10 p of
            Some n \<Rightarrow> if p \<noteq> [] \<and> 0 \<le> n \<and> n \<le> 32 then Some (net, nat n) else None
          | None \<Rightarrow> None)
     | _ \<Rightarrow> None)"

lemma trustedProxyList_subnets:
  assumes "trustedProxyList is_v6 cidrs = Inr nets" and "\<forall>t. \<not> is_v6 t"
  shows "set nets = {Subnet4 net n | net n. \<exists>cidr \<in> set cidrs. cidr4 cidr = Some (net, n)}"
  using assms(1)
proof (induction cidrs arbitrary: nets)
  case Nil
  then show ?case by simp
next
  case (Cons c cs)
  let ?address = "hd (splitOn (CHR ''/'') c)" and ?rest = "tl (splitOn (CHR ''/'') c)"
  have version: "isIP is_v6 ?address = (if parse_ipv4 ?address = None then 0 else 4)"
    using assms(2) by (simp add: isIP_def)
  show ?case
  proof (cases "parse_ipv4 ?address = None \<or> ?rest = [] \<or> hd ?rest = []")
    case True
    then have "cidr4 c = None" by (auto simp: cidr4_def split: list.splits option.splits)
    moreover have "trustedProxyList is_v6 cs = Inr nets"
      using Cons.prems True by (cases ?rest) (auto simp: Let_def version)
    ultimately show ?thesis using Cons.IH by auto
  next
    case False
    then obtain p q net where p: "?rest = p # q" "p \<noteq> []" "parse_ipv4 ?address = Some net"
      by (cases ?rest) auto
    from Cons.prems p obtain ss t where ss: "trustedProxyList is_v6 cs = Inr ss" "nets = t # ss"
      and t: "addSubnet ?address (parseInt10 p) False = Inr t"
      by (auto simp: Let_def version split: sum.splits)
    from t p obtain n where "parseInt10 p = Some n" "0 \<le> n" "n \<le> 32" "t = Subnet4 net (nat n)"
      by (auto simp: addSubnet_def split: option.splits if_splits)
    then have "cidr4 c = Some (net, nat n)" using p by (simp add: cidr4_def)
    then show ?thesis using Cons.IH [OF ss(1)] ss(2) \<open>t = Subnet4 net (nat n)\<close> by auto
  qed
qed

text \<open>
  A source address is trusted exactly when it is an IPv4 address whose 32-bit value lies in the
  block of one of the configured IPv4 networks: between the network's first and last address. (The
  networks are IPv4; the list was accepted at start.)
\<close>

theorem trusted_proxy_range:
  assumes "trustedProxyList is_v6 cidrs = Inr nets" and "\<forall>t. \<not> is_v6 t"
  shows "subnet_check v6_has nets s \<longleftrightarrow>
    (\<exists>a. parse_ipv4 s = Some a \<and> (\<exists>cidr \<in> set cidrs. \<exists>net n. cidr4 cidr = Some (net, n) \<and> n \<le> 32 \<and>
      unat net div 2 ^ (32 - n) * 2 ^ (32 - n) \<le> unat a \<and>
      unat a < (unat net div 2 ^ (32 - n) + 1) * 2 ^ (32 - n)))"
proof -
  have small: "n \<le> 32" if "cidr4 c = Some (net, n)" for c net n
    using that by (auto simp: cidr4_def split: list.splits option.splits if_splits)
  have "subnet_check v6_has nets s \<longleftrightarrow> (\<exists>a. parse_ipv4 s = Some a \<and>
      (\<exists>cidr \<in> set cidrs. \<exists>net n. cidr4 cidr = Some (net, n) \<and> in_prefix n net a))"
    using trustedProxyList_subnets [OF assms]
    by (fastforce simp: subnet_check_def list_ex_iff split: option.splits)
  also have "\<dots> \<longleftrightarrow> (\<exists>a. parse_ipv4 s = Some a \<and>
      (\<exists>cidr \<in> set cidrs. \<exists>net n. cidr4 cidr = Some (net, n) \<and> n \<le> 32 \<and> in_prefix n net a))"
    using small by blast
  finally show ?thesis by (simp add: in_prefix_range cong: conj_cong)
qed

theorem trusted_proxy_range_witness:
  "\<exists>nets. trustedProxyList (\<lambda>_. False) [''10.1.0.0/16'', ''localhost''] = Inr nets \<and>
    subnet_check (\<lambda>_ _ _. False) nets ''10.1.255.7'' \<and> \<not> subnet_check (\<lambda>_ _ _. False) nets ''10.2.0.0''"
proof -
  note evals = parse_ipv4_def cidr4_def octet_def parseInt10_def trimStart_def is_digit_def dec_val_def digit_val_def js_space_def
  have in1: "parse_ipv4 ''10.1.0.0'' = Some 167837696"
    by (simp add: evals)
  have run: "trustedProxyList (\<lambda>_. False) [''10.1.0.0/16'', ''localhost''] = Inr [Subnet4 167837696 16]"
    by (simp add: in1 isIP_def addSubnet_def evals)
  have in2: "cidr4 ''10.1.0.0/16'' = Some (167837696, 16)" "cidr4 ''localhost'' = None"
    by (simp_all add: evals)
  have in3: "parse_ipv4 ''10.1.255.7'' = Some 167902983" "parse_ipv4 ''10.2.0.0'' = Some 167903232"
    by (simp_all add: evals)
  note range = trusted_proxy_range [OF run, of "\<lambda>_ _ _. False"]
  show ?thesis
    using run range [of "''10.1.255.7''"] range [of "''10.2.0.0''"] in2 in3 by simp
qed

end
