(* ===== verification/Oidc.thy ===== *)
theory Oidc
  imports DynsecService
begin

text \<open>
  The OpenID Connect client of \<open>server/auth/oidc.ts\<close>: discovery with its cache, the authorization URL
  and the exchange of the callback. The package \<open>openid-client\<close> is not in the repository: the record
  \<open>oidc_library\<close> holds what the module calls of it, and the parts of \<open>URL\<close> it needs.
\<close>

section \<open>The library and the module's state\<close>

record oidc_configuration =
  ocfMetadata :: jsval
  ocfClientId :: string
  ocfClientSecret :: string
  ocfClientAuth :: token_endpoint_auth

record oidc_tokens =
  otClaims :: jsval
  otAccessToken :: "string option"

record 'b oidc_library =
  oidc_random_state :: "nat \<Rightarrow> string"
  oidc_random_verifier :: "nat \<Rightarrow> string"
  oidc_challenge :: "string \<Rightarrow> string"
  oidc_authorization_url :: "oidc_configuration \<Rightarrow> (string \<times> string) list \<Rightarrow> string"
  oidc_code_grant :: "oidc_configuration \<Rightarrow> string \<Rightarrow> string \<Rightarrow> string \<Rightarrow> string \<Rightarrow> 'b \<Rightarrow> (exn + oidc_tokens) \<times> 'b"
  oidc_user_info :: "oidc_configuration \<Rightarrow> string \<Rightarrow> string option \<Rightarrow> 'b \<Rightarrow> (exn + jsval) \<times> 'b"
  error_own :: "exn \<Rightarrow> jsval"
  url_set_search :: "url \<Rightarrow> string \<Rightarrow> string"
  search_param :: "url \<Rightarrow> string \<Rightarrow> string option"

record 'b auth_world = "'b dynsec_world" +
  oidcCache :: "(string \<times> oidc_configuration) option"

type_synonym ('b, 'z, 'a) authio = "(('b, 'z) auth_world_scheme, 'a) io"

fun token_auth_str :: "token_endpoint_auth \<Rightarrow> string" where
  "token_auth_str ClientSecretPost = ''client_secret_post''"
| "token_auth_str ClientSecretBasic = ''client_secret_basic''"

section \<open>Discovery\<close>

text \<open>\<open>replace(/\/+$/, '')\<close>.\<close>

definition normalizeIssuerUrl :: "string \<Rightarrow> string" where
  "normalizeIssuerUrl u = rev (dropWhile (\<lambda>c. c = CHR ''/'') (rev u))"

definition summarizeCause :: "jsval \<Rightarrow> jsval" where
  "summarizeCause v =
    (if \<not> is_object v then Null
     else let str = (\<lambda>k name. case getProp k v of Str s \<Rightarrow> [(name, Str s)] | _ \<Rightarrow> []);
              summary = str ''code'' ''code'' @ str ''error'' ''error''
                @ str ''error_description'' ''errorDescription''
                @ (case getProp ''status'' v of Num n \<Rightarrow> [(''status'', Num n)] | _ \<Rightarrow> [])
                @ str ''attribute'' ''attribute'' @ str ''message'' ''message''
          in if summary = [] then Null else Obj summary)"

definition getOidcErrorContext :: "'b oidc_library \<Rightarrow> exn \<Rightarrow> jsval" where
  "getOidcErrorContext V e =
    (let own = error_own V e;
         summary = (\<lambda>name m.
           let cause = summarizeCause (getProp ''cause'' own)
           in Obj ([(''name'', Str name), (''message'', Str m)]
             @ (case getProp ''code'' own of Str s \<Rightarrow> [(''code'', Str s)] | _ \<Rightarrow> [])
             @ (if cause \<noteq> Null then [(''cause'', cause)] else [])))
     in case e of
          ThrownVal v \<Rightarrow> Null
        | PlainErr name m c \<Rightarrow> summary name m
        | AppErr k c cl m co cx st ca ch \<Rightarrow> summary ''AppError'' m)"

definition loadDiscoveredServerMetadata ::
  "'b platform \<Rightarrow> string \<Rightarrow> string option \<Rightarrow> (('b, 'z) base_world_scheme, jsval) io" where
  "loadDiscoveredServerMetadata P issuerUrl corr =
    (let wellKnownUrl = normalizeIssuerUrl issuerUrl @ ''/.well-known/openid-configuration'' in
     catching
       (andThen (callOut (http_fetch P \<lparr>reqUrl = wellKnownUrl, reqMethod = ''GET'',
          reqHeaders = [(''accept'', ''application/json'')], reqBody = None, reqTimeoutMs = 0,
          reqInsecure = False\<rparr>)) (\<lambda>response.
        if \<not> (200 \<le> respStatus response \<and> respStatus response < 300) then
          raise (createAppError ''auth::oidc::discovery'' ''OIDC discovery failed.''
            ''AUTH_OIDC_DISCOVERY_FAILED'' corr
            (Obj [(''issuerUrl'', Str issuerUrl), (''wellKnownUrl'', Str wellKnownUrl),
                  (''status'', num_int (respStatus response)),
                  (''responseBody'', Str (take 500 (respBody response)))]) 500 None)
        else andThen (liftR (jsonParse (respBody response))) (\<lambda>parsed.
          if \<not> is_object parsed then
            raise (PlainErr ''Error'' ''OIDC discovery document must be a JSON object.'' None)
          else ret parsed)))
       (\<lambda>e. raise (if is_AppError e then e
          else createAppError ''auth::oidc::discovery'' ''OIDC discovery failed.''
            ''AUTH_OIDC_DISCOVERY_FAILED'' corr
            (Obj [(''issuerUrl'', Str issuerUrl), (''wellKnownUrl'', Str wellKnownUrl)]) 500 (Some e))))"

text \<open>The own enumerable properties that an object spread copies.\<close>

definition spreadProps :: "jsval \<Rightarrow> (string \<times> jsval) list" where
  "spreadProps v = (case v of
      Obj kvs \<Rightarrow> kvs
    | Arr vs \<Rightarrow> zip (map nat_str [0..<length vs]) vs
    | _ \<Rightarrow> [])"

definition override_prop :: "string \<Rightarrow> string option \<Rightarrow> jsval \<Rightarrow> (string \<times> jsval) list \<Rightarrow> (string \<times> jsval) list" where
  "override_prop k v metadata = AList.update k (case v of Some s \<Rightarrow> Str s | None \<Rightarrow> getProp k metadata)"

definition serverMetadata :: "oidc_config \<Rightarrow> jsval \<Rightarrow> jsval" where
  "serverMetadata c discovered =
    Obj (override_prop ''userinfo_endpoint'' (ocUserinfoEndpoint c) discovered
      (override_prop ''token_endpoint'' (ocTokenEndpoint c) discovered
      (override_prop ''authorization_endpoint'' (ocAuthorizationEndpoint c) discovered
      (AList.update ''issuer'' (Str (case getProp ''issuer'' discovered of Str s \<Rightarrow> s | _ \<Rightarrow> ocIssuerUrl c))
        (spreadProps discovered)))))"

definition configurationKey :: "oidc_config \<Rightarrow> string" where
  "configurationKey c = json_text (Obj
    [(''issuerUrl'', Str (ocIssuerUrl c)), (''clientId'', Str (ocClientId c)),
     (''tokenEndpointAuthMethod'', Str (token_auth_str (ocTokenEndpointAuthMethod c))),
     (''authorizationEndpoint'', opt_str (ocAuthorizationEndpoint c)),
     (''tokenEndpoint'', opt_str (ocTokenEndpoint c)), (''userinfoEndpoint'', opt_str (ocUserinfoEndpoint c))])"

definition getOidcConfiguration ::
  "'b platform \<Rightarrow> oidc_config \<Rightarrow> string \<Rightarrow> string option \<Rightarrow> ('b, 'z, oidc_configuration) authio" where
  "getOidcConfiguration P c clientSecret corr =
    andThen (gets oidcCache) (\<lambda>cache.
    let fresh =
      catching
        (andThen (loadDiscoveredServerMetadata P (ocIssuerUrl c) corr) (\<lambda>discovered.
         case getProp ''issuer'' discovered of
           Str issuer \<Rightarrow>
             if issuer \<noteq> [] \<and> normalizeIssuerUrl issuer \<noteq> normalizeIssuerUrl (ocIssuerUrl c) then
               raise (createAppError ''auth::oidc::discovery''
                 ''OIDC discovery issuer did not match the configured issuer URL.''
                 ''AUTH_OIDC_DISCOVERY_FAILED'' corr
                 (Obj [(''issuerUrl'', Str (ocIssuerUrl c)), (''discoveredIssuerUrl'', Str issuer)]) 500 None)
             else ret (serverMetadata c discovered)
         | _ \<Rightarrow> ret (serverMetadata c discovered)))
        (\<lambda>e. raise (if is_AppError e then e
           else createAppError ''auth::oidc::discovery'' ''OIDC discovery failed.''
             ''AUTH_OIDC_DISCOVERY_FAILED'' corr
             (Obj [(''issuerUrl'', Str (ocIssuerUrl c)),
               (''tokenEndpointAuthMethod'', Str (token_auth_str (ocTokenEndpointAuthMethod c))),
               (''authorizationEndpoint'', opt_str (ocAuthorizationEndpoint c)),
               (''tokenEndpoint'', opt_str (ocTokenEndpoint c)),
               (''userinfoEndpoint'', opt_str (ocUserinfoEndpoint c))]) 500 (Some e)));
      load = andThen fresh (\<lambda>metadata.
        let cfg = \<lparr>ocfMetadata = metadata, ocfClientId = ocClientId c, ocfClientSecret = clientSecret,
                   ocfClientAuth = ocTokenEndpointAuthMethod c\<rparr>
        in andThen (modify (\<lambda>w. w\<lparr>oidcCache := Some (configurationKey c, cfg)\<rparr>)) (\<lambda>_. ret cfg))
    in case cache of
         None \<Rightarrow> load
       | Some (key, cfg) \<Rightarrow> if key = configurationKey c then ret cfg else load)"

section \<open>Login\<close>

record oidc_start =
  osState :: string
  osCodeVerifier :: string
  osRedirectUrl :: string

definition createOidcAuthorizationUrl ::
  "'b platform \<Rightarrow> 'b oidc_library \<Rightarrow> oidc_config \<Rightarrow> string \<Rightarrow> string \<Rightarrow> string option
    \<Rightarrow> ('b, 'z, oidc_start) authio" where
  "createOidcAuthorizationUrl P V c clientSecret redirectUri corr =
    andThen (getOidcConfiguration P c clientSecret corr) (\<lambda>cfg.
    andThen (draw (oidc_random_state V)) (\<lambda>state.
    andThen (draw (oidc_random_verifier V)) (\<lambda>verifier.
    ret \<lparr>osState = state, osCodeVerifier = verifier,
         osRedirectUrl = oidc_authorization_url V cfg
           [(''redirect_uri'', redirectUri), (''scope'', join '' '' (ocScopes c)),
            (''code_challenge'', oidc_challenge V verifier), (''code_challenge_method'', ''S256''),
            (''state'', state)]\<rparr>)))"

record oidc_exchange =
  oxClaims :: jsval
  oxUserInfo :: jsval

text \<open>\<open>callbackUrl\<close> is a parsed URL; \<open>new URL(redirectUri)\<close> stands before the \<open>try\<close>.\<close>

definition exchangeOidcCallback ::
  "'b platform \<Rightarrow> 'b oidc_library \<Rightarrow> oidc_config \<Rightarrow> string \<Rightarrow> string \<Rightarrow> url \<Rightarrow> string \<Rightarrow> string \<Rightarrow> string option
    \<Rightarrow> ('b, 'z, oidc_exchange) authio" where
  "exchangeOidcCallback P V c clientSecret redirectUri callbackUrl expectedState verifier corr =
    andThen (getOidcConfiguration P c clientSecret corr) (\<lambda>cfg.
    case parse_url P redirectUri None of
      None \<Rightarrow> raise (typeError ''Invalid URL'')
    | Some target \<Rightarrow>
      (let exchangeUrl = url_set_search V target (urlSearch callbackUrl);
           arg = (\<lambda>k. opt_str (search_param V callbackUrl k)) in
       catching
         (andThen (callOut (oidc_code_grant V cfg exchangeUrl expectedState verifier redirectUri)) (\<lambda>tokens.
          let claims = otClaims tokens;
              subject = (case getProp ''sub'' claims of Str s \<Rightarrow> s | _ \<Rightarrow> [])
          in andThen
               (if nonblank (otAccessToken tokens) then
                  callOut (oidc_user_info V cfg (the (otAccessToken tokens)) (if subject \<noteq> [] then Some subject else None))
                else ret Null) (\<lambda>info.
             ret \<lparr>oxClaims = claims, oxUserInfo = info\<rparr>)))
         (\<lambda>e. raise (createAppError ''auth::oidc::callback'' ''OIDC callback exchange failed.''
            ''AUTH_OIDC_CALLBACK_FAILED'' corr
            (Obj [(''redirectUri'', Str redirectUri), (''callbackUrl'', Str (urlHref callbackUrl)),
              (''exchangeCallbackUrl'', Str exchangeUrl),
              (''tokenEndpointAuthMethod'', Str (token_auth_str (ocTokenEndpointAuthMethod c))),
              (''callback'', Obj [(''hasCode'', Bool (search_param V callbackUrl ''code'' \<noteq> None)),
                 (''hasState'', Bool (search_param V callbackUrl ''state'' \<noteq> None)), (''issuer'', arg ''iss''),
                 (''error'', arg ''error''), (''errorDescription'', arg ''error_description'')]),
              (''oidcError'', getOidcErrorContext V e)]) 500 (Some e)))))"

section \<open>Frames\<close>

text \<open>What neither the outside nor the cache of the provider's configuration changes.\<close>

locale auth_frame = world_frame part
  for part :: "('b, 'z) auth_world_scheme \<Rightarrow> 'x" +
  assumes part_cache: "part (w\<lparr>oidcCache := c\<rparr>) = part w"
begin

lemma fr_discovery: "keeps part (loadDiscoveredServerMetadata P u corr)"
  unfolding loadDiscoveredServerMetadata_def Let_def by (intro fr_base)

lemma fr_fresh:
  "keeps part (andThen (loadDiscoveredServerMetadata P u corr) (\<lambda>d.
    case getProp ''issuer'' d of Str i \<Rightarrow> (if b d i then raise (e d i) else ret (m d)) | _ \<Rightarrow> ret (m d)))"
proof (intro keeps_intros fr_discovery)
  fix d
  show "keeps part (case getProp ''issuer'' d of Str i \<Rightarrow> (if b d i then raise (e d i) else ret (m d)) | _ \<Rightarrow> ret (m d))"
    by (cases "getProp ''issuer'' d") (simp_all add: keeps_intros(1,2))
qed

lemma fr_configuration: "keeps part (getOidcConfiguration P c s corr)"
  unfolding getOidcConfiguration_def Let_def
  by (intro keeps_intros fr_fresh) (auto simp: part_cache intro!: keeps_intros fr_fresh split: prod.split)

lemma fr_authorization: "keeps part (createOidcAuthorizationUrl P V c s r corr)"
  unfolding createOidcAuthorizationUrl_def by (intro fr_base fr_configuration)

lemma fr_exchange: "keeps part (exchangeOidcCallback P V c s r u st v corr)"
  unfolding exchangeOidcCallback_def Let_def by (intro fr_base fr_configuration)

end

end
