(* ===== verification/AuthService.thy ===== *)
theory AuthService
  imports Net Oidc AuditLog
begin

text \<open>
  The class \<open>AuthService\<close> of \<open>server/auth/service.ts\<close>: accounts, local login, sessions and their
  cookies, OpenID Connect and trusted-header login, the bootstrap administrator, maintenance.
  \<^item> The parsed list of trusted proxies is an argument (\<open>trustedProxyList\<close> of \<open>Net\<close> builds it).
  \<^item> What \<open>console.error\<close> prints of the bootstrap password is the result of \<open>bootstrapInitialAdmin\<close>.
\<close>

section \<open>Cookies and redirects\<close>

definition sessionCookieName :: string where "sessionCookieName = ''mqttctl_session''"

record cookie_options =
  coPath :: string
  coHttpOnly :: bool
  coSameSite :: string
  coSecure :: bool

definition getCookieOptions :: "loaded_config \<Rightarrow> cookie_options" where
  "getCookieOptions L =
    (let base = cfBasePath (ldConfig L); basePath = (if base = [] then ''/'' else base)
     in \<lparr>coPath = basePath, coHttpOnly = True, coSameSite = ''lax'',
         coSecure = startsWith (cfPublicBaseUrl (ldConfig L)) ''https://''\<rparr>)"

definition getDefaultPostLoginRedirectPath :: "loaded_config \<Rightarrow> string" where
  "getDefaultPostLoginRedirectPath L = cfBasePath (ldConfig L) @ ''/dashboard''"

definition getOidcRedirectUri :: "loaded_config \<Rightarrow> string" where
  "getOidcRedirectUri L =
    (let configured = Option.bind (acOidc (cfAuth (ldConfig L))) ocCallbackUrl in
     if nonblank configured then the configured
     else cfPublicBaseUrl (ldConfig L) @ cfBasePath (ldConfig L) @ ''/auth/callback'')"

definition getSafePostLoginRedirectPath :: "'b platform \<Rightarrow> loaded_config \<Rightarrow> string option \<Rightarrow> string" where
  "getSafePostLoginRedirectPath P L redirectTo =
    (let fallback = getDefaultPostLoginRedirectPath L;
         candidate = (case redirectTo of None \<Rightarrow> [] | Some r \<Rightarrow> trim r)
     in if candidate = [] then fallback
        else case parse_url P (cfPublicBaseUrl (ldConfig L)) None of
          None \<Rightarrow> fallback
        | Some base \<Rightarrow>
           (case parse_url P candidate (Some (urlHref base)) of
              None \<Rightarrow> fallback
            | Some resolved \<Rightarrow>
               if urlOrigin resolved \<noteq> urlOrigin base then fallback
               else let basePath = (if cfBasePath (ldConfig L) = ''/'' then [] else cfBasePath (ldConfig L)) in
                 if basePath \<noteq> [] \<and> urlPathname resolved \<noteq> basePath
                    \<and> \<not> startsWith (urlPathname resolved) (basePath @ ''/'')
                 then fallback
                 else urlPathname resolved @ urlSearch resolved @ urlHash resolved))"

definition signSessionId :: "'b platform \<Rightarrow> loaded_config \<Rightarrow> string \<Rightarrow> string" where
  "signSessionId P L sessionId = hmac_sha256_b64url P (secSessionSecret (ldSecrets L)) sessionId"

definition buildSessionCookieValue :: "'b platform \<Rightarrow> loaded_config \<Rightarrow> string \<Rightarrow> string" where
  "buildSessionCookieValue P L sessionId = sessionId @ ''.'' @ signSessionId P L sessionId"

text \<open>\<open>timingSafeEqual\<close> throws when the encoded lengths differ.\<close>

definition extractSessionId :: "'b platform \<Rightarrow> loaded_config \<Rightarrow> string option \<Rightarrow> exn + string option" where
  "extractSessionId P L cookieValue =
    (if \<not> nonblank cookieValue then Inr None
     else case splitOn (CHR ''.'') (the cookieValue) of
       sessionId # signature # _ \<Rightarrow>
         if sessionId = [] \<or> signature = [] then Inr None
         else let expected = signSessionId P L sessionId in
           if length signature \<noteq> length expected then Inr None
           else if utf8_length signature \<noteq> utf8_length expected then
             Inl (PlainErr ''RangeError'' ''Input buffers must have the same byte length'' None)
           else Inr (if signature = expected then Some sessionId else None)
     | _ \<Rightarrow> Inr None)"

section \<open>Login events\<close>

definition sanitizeUser :: "user_row \<Rightarrow> authenticated_user" where
  "sanitizeUser u = \<lparr>auId = uId u, auUsername = uUsername u, auEmail = uEmail u, auRole = uRole u,
    auAuthSource = uAuthSource u, auCapabilities = None, auDelegated = None\<rparr>"

definition emitAuthLog ::
  "loaded_config \<Rightarrow> auth_event_logging \<Rightarrow> string \<Rightarrow> string \<Rightarrow> string option \<Rightarrow> jsval \<Rightarrow> string option
    \<Rightarrow> (('b, 'z) base_world_scheme, unit) io" where
  "emitAuthLog L lc caller message corr ctx key =
    emit ((logEvent (aelLevel lc) caller message
        (if lgIncludeCorrelationId (cfLogging (ldConfig L)) then corr else None) ctx)
      \<lparr>evErrorKey := key, evSinks := Some \<lparr>sinkConsole = Some (aelConsole lc), sinkFile = Some (aelFile lc),
        sinkCurl = Some (aelCurl lc)\<rparr>\<rparr>)"

definition buildAuthLogContext ::
  "loaded_config \<Rightarrow> auth_method \<Rightarrow> string option \<Rightarrow> string option \<Rightarrow> string option \<Rightarrow> string option
    \<Rightarrow> user_row option \<Rightarrow> string option \<Rightarrow> string option \<Rightarrow> jsval" where
  "buildAuthLogContext L authMethod sourceIp userAgent submitted normalized user failureReason expiry =
    (let lg = cfLogging (ldConfig L);
         or_else = (\<lambda>a b. case a of Some x \<Rightarrow> Some x | None \<Rightarrow> b);
         username = or_else (map_option uUsername user) (or_else normalized submitted)
     in Obj ([(''authMethod'', Str (auth_method_str authMethod)), (''sourceIp'', opt_str sourceIp),
              (''username'', opt_str username)]
       @ (if nonblank submitted \<and> submitted \<noteq> username then [(''submittedUsername'', opt_str submitted)] else [])
       @ (if lgIncludeNormalizedUsername lg
          then [(''normalizedUsername'', opt_str (or_else normalized (map_option uUsername user)))] else [])
       @ (if lgIncludeUserAgent lg then [(''userAgent'', opt_str userAgent)] else [])
       @ (case user of Some u \<Rightarrow> [(''userId'', Str (uId u)), (''role'', Str (role_str (uRole u)))] | None \<Rightarrow> [])
       @ (if nonblank failureReason then [(''failureReason'', opt_str failureReason)] else [])
       @ (if nonblank expiry \<and> lgIncludeSessionExpiry lg then [(''sessionExpiresAt'', opt_str expiry)] else [])))"

definition logFailedLocalLogin ::
  "loaded_config \<Rightarrow> string \<Rightarrow> string \<Rightarrow> user_row option \<Rightarrow> string option \<Rightarrow> string option \<Rightarrow> string option
    \<Rightarrow> string \<Rightarrow> string \<Rightarrow> (('b, 'z) base_world_scheme, unit) io" where
  "logFailedLocalLogin L username normalized user sourceIp userAgent corr key failureReason =
    (case lgFailedLoginAttempts (cfLogging (ldConfig L)) of
       None \<Rightarrow> ret ()
     | Some lc \<Rightarrow> emitAuthLog L lc ''auth::loginLocal'' ''Local login failed.'' corr
         (buildAuthLogContext L LocalAuth sourceIp userAgent (Some username) (Some normalized) user
           (Some failureReason) None) (Some key))"

definition logSuccessfulLogin ::
  "loaded_config \<Rightarrow> auth_method \<Rightarrow> user_row \<Rightarrow> string option \<Rightarrow> string option \<Rightarrow> string \<Rightarrow> string option
    \<Rightarrow> (('b, 'z) base_world_scheme, unit) io" where
  "logSuccessfulLogin L authMethod user sourceIp userAgent expiry corr =
    (case lgSuccessfulLogin (cfLogging (ldConfig L)) of
       None \<Rightarrow> ret ()
     | Some lc \<Rightarrow> emitAuthLog L lc ''auth::createSessionForUser''
         (auth_method_str authMethod @ '' login succeeded.'') corr
         (buildAuthLogContext L authMethod sourceIp userAgent None (Some (uUsername user)) (Some user)
           None (Some expiry)) None)"

definition recordLoginAudit ::
  "'b platform \<Rightarrow> auth_method \<Rightarrow> user_row option \<Rightarrow> string option \<Rightarrow> string option \<Rightarrow> string option
    \<Rightarrow> jsval \<Rightarrow> jsval \<Rightarrow> jsval \<Rightarrow> bool \<Rightarrow> ('b, 'z, unit) dbio" where
  "recordLoginAudit P authMethod actor sourceIp corr targetId bef aft result success =
    andThen (case corr of Some c \<Rightarrow> ret c | None \<Rightarrow> createCorrelationId P) (\<lambda>c.
    auditRecord P (map_option sanitizeUser actor) (Some (auth_method_str authMethod)) sourceIp c
      (''auth.login.'' @ auth_method_str authMethod) ''auth_login'' targetId bef aft result success)"

section \<open>Sessions\<close>

record login_result =
  lrUser :: authenticated_user
  lrSessionId :: string
  lrCookieValue :: string
  lrExpiresAt :: string

definition isMcpPrincipal :: "user_row \<Rightarrow> bool" where
  "isMcpPrincipal u = (uAuthSource u = McpAuth \<or> uRole u = McpRole)"

definition createSessionForUser ::
  "'b platform \<Rightarrow> loaded_config \<Rightarrow> user_row \<Rightarrow> auth_method \<Rightarrow> string option \<Rightarrow> string option \<Rightarrow> string option
    \<Rightarrow> ('b, 'z, login_result) dbio" where
  "createSessionForUser P L user authMethod sourceIp userAgent corr =
    (if isMcpPrincipal user \<or> authMethod = McpAuth then
       raise (createAppError ''auth::createSessionForUser''
         ''The MCP system user cannot create an interactive login session.''
         ''MCP_AUTH_SYSTEM_USER_PROTECTED'' corr Null 403 None)
     else
       andThen (createOpaqueToken P 32) (\<lambda>sessionId.
       andThen now (\<lambda>t.
       let expires = t + acSessionTtlMinutes (cfAuth (ldConfig L)) * 60000; expiry = toISOString expires in
       andThen (insertSession \<lparr>sId = sessionId, sUserId = uId user, sAuthMethod = authMethod,
         sExpiresAt = expires, sSessionVersion = uSessionVersion user, sSourceIp = sourceIp,
         sUserAgent = userAgent, sCreatedAt = t, sUpdatedAt = t\<rparr>) (\<lambda>_.
       andThen (logSuccessfulLogin L authMethod user sourceIp userAgent expiry corr) (\<lambda>_.
       andThen (recordLoginAudit P authMethod (Some user) sourceIp corr (Some (uUsername user))
         (Obj [(''authMethod'', Str (auth_method_str authMethod))])
         (Obj [(''username'', Str (uUsername user)), (''userId'', Str (uId user)),
               (''role'', Str (role_str (uRole user))), (''authSource'', Str (auth_method_str (uAuthSource user)))])
         (Obj [(''sessionExpiresAt'', Str expiry)]) True) (\<lambda>_.
       ret \<lparr>lrUser = sanitizeUser user, lrSessionId = sessionId,
            lrCookieValue = buildSessionCookieValue P L sessionId, lrExpiresAt = expiry\<rparr>))))))"

definition getUserFromCookie ::
  "'b platform \<Rightarrow> loaded_config \<Rightarrow> string option \<Rightarrow> ('b, 'z, authenticated_user option) dbio" where
  "getUserFromCookie P L cookieValue =
    andThen (liftR (extractSessionId P L cookieValue)) (\<lambda>sid.
    case sid of None \<Rightarrow> ret None | Some sessionId \<Rightarrow>
    andThen (getSession sessionId) (\<lambda>found.
    case found of None \<Rightarrow> ret None | Some session \<Rightarrow>
    andThen now (\<lambda>t.
    if sExpiresAt session \<le> t then andThen (deleteSession sessionId) (\<lambda>_. ret None)
    else
      andThen (getUserById (sUserId session)) (\<lambda>owner.
      case owner of
        None \<Rightarrow> andThen (deleteSession sessionId) (\<lambda>_. ret None)
      | Some user \<Rightarrow>
          if uDisabled user \<or> isMcpPrincipal user \<or> uSessionVersion user \<noteq> sSessionVersion session
          then andThen (deleteSession sessionId) (\<lambda>_. ret None)
          else ret (Some (sanitizeUser user))))))"

definition logout :: "'b platform \<Rightarrow> loaded_config \<Rightarrow> string option \<Rightarrow> ('b, 'z, unit) dbio" where
  "logout P L cookieValue =
    andThen (liftR (extractSessionId P L cookieValue)) (\<lambda>sid.
    case sid of None \<Rightarrow> ret () | Some sessionId \<Rightarrow> deleteSession sessionId)"

section \<open>Accounts\<close>

definition authError :: "string \<Rightarrow> string \<Rightarrow> string \<Rightarrow> string option \<Rightarrow> int \<Rightarrow> exn" where
  "authError caller reason key corr status = createAppError caller reason key corr Null status None"

definition listAccounts :: "('b, 'z, user_row list) dbio" where
  "listAccounts = andThen listUsers (\<lambda>us.
    ret (map (\<lambda>u. u\<lparr>uPasswordHash := None\<rparr>) (filter (\<lambda>u. uAuthSource u \<noteq> McpAuth) us)))"

definition actorIsMcp :: "authenticated_user option \<Rightarrow> bool" where
  "actorIsMcp actor = (map_option auRole actor = Some McpRole)"

definition createUser ::
  "'b platform \<Rightarrow> string \<Rightarrow> string option \<Rightarrow> string option \<Rightarrow> user_role \<Rightarrow> auth_method \<Rightarrow> string option
    \<Rightarrow> string option \<Rightarrow> authenticated_user option \<Rightarrow> ('b, 'z, unit) dbio" where
  "createUser P username email password role src subject corr actor =
    (let n = normalizeUsername username in
     andThen (getUserByUsername n) (\<lambda>existing.
     if existing \<noteq> None then
       raise (authError ''auth::createUser'' ''Username already exists.'' ''USER_CREATE_FAILED'' corr 409)
     else if src = McpAuth then
       raise (authError ''auth::createUser''
         ''The reserved MCP system user cannot be created through ordinary user flows.''
         ''MCP_AUTH_SYSTEM_USER_PROTECTED'' corr 403)
     else if actorIsMcp actor \<and> role = SuperAdmin then
       raise (authError ''auth::createUser'' ''The MCP user cannot create or promote a superadmin.''
         ''MCP_AUTH_SUPERADMIN_MUTATION_DENIED'' corr 403)
     else if src = LocalAuth \<and> \<not> nonblank password then
       raise (authError ''auth::createUser'' ''Password is required for local accounts.'' ''INPUT_INVALID'' corr 400)
     else if src \<noteq> LocalAuth \<and> nonblank password then
       raise (authError ''auth::createUser'' ''Non-local accounts cannot store local passwords.''
         ''INPUT_INVALID'' corr 400)
     else
       andThen now (\<lambda>t.
       andThen (createOpaqueToken P 18) (\<lambda>rid.
       andThen (if src = LocalAuth \<and> nonblank password
                then draw (\<lambda>k. Some (argon2_hash P k (the password))) else ret None) (\<lambda>pwHash.
       insertUser \<lparr>uId = rid, uUsername = n, uEmail = email, uRole = UserRole role, uAuthSource = src,
         uExternalSubject = subject, uPasswordHash = pwHash, uProtected = False, uDisabled = False,
         uSessionVersion = 0, uCreatedAt = t, uUpdatedAt = t\<rparr>)))))"

definition updateUser ::
  "'b platform \<Rightarrow> string \<Rightarrow> string option \<Rightarrow> user_role \<Rightarrow> bool \<Rightarrow> string option \<Rightarrow> string option
    \<Rightarrow> authenticated_user option \<Rightarrow> ('b, 'z, unit) dbio" where
  "updateUser P userId email role disabled password corr actor =
    andThen (getUserById userId) (\<lambda>found.
    case found of
      None \<Rightarrow> raise (authError ''auth::updateUser'' ''User not found.'' ''USER_UPDATE_FAILED'' corr 404)
    | Some existing \<Rightarrow>
       if uAuthSource existing = McpAuth then
         raise (authError ''auth::updateUser''
           ''The reserved MCP system user can only be changed through MCP Access controls.''
           ''MCP_AUTH_SYSTEM_USER_PROTECTED'' corr 403)
       else if actorIsMcp actor \<and> (uRole existing = UserRole SuperAdmin \<or> role = SuperAdmin) then
         raise (authError ''auth::updateUser'' ''The MCP user cannot modify or promote a superadmin.''
           ''MCP_AUTH_SUPERADMIN_MUTATION_DENIED'' corr 403)
       else if uAuthSource existing \<noteq> LocalAuth \<and> disabled then
         raise (authError ''auth::updateUser'' ''Only local accounts can be disabled.'' ''INPUT_INVALID'' corr 400)
       else if uAuthSource existing \<noteq> LocalAuth \<and> nonblank password then
         raise (authError ''auth::updateUser'' ''Only local accounts can reset passwords.'' ''INPUT_INVALID'' corr 400)
       else
         andThen (if uAuthSource existing = LocalAuth
                  then (if nonblank password then draw (\<lambda>k. Some (argon2_hash P k (the password)))
                        else ret (uPasswordHash existing))
                  else ret None) (\<lambda>nextHash.
         let nextDisabled = (if uAuthSource existing = LocalAuth then disabled else False);
             nextVersion = (if nextHash \<noteq> uPasswordHash existing \<or> nextDisabled \<noteq> uDisabled existing
               then uSessionVersion existing + 1 else uSessionVersion existing)
         in andThen now (\<lambda>t.
            andThen (updateUserRow userId email (UserRole role) (uAuthSource existing) (uExternalSubject existing)
              nextHash nextDisabled nextVersion t) (\<lambda>_.
            whenever (nextVersion \<noteq> uSessionVersion existing) (deleteSessionsForUser userId)))))"

definition deleteUser ::
  "string \<Rightarrow> string option \<Rightarrow> authenticated_user option \<Rightarrow> ('b, 'z, unit) dbio" where
  "deleteUser userId corr actor =
    andThen (getUserById userId) (\<lambda>found.
    case found of
      None \<Rightarrow> raise (authError ''auth::deleteUser'' ''User not found.'' ''USER_DELETE_FAILED'' corr 404)
    | Some existing \<Rightarrow>
       if uAuthSource existing = McpAuth then
         raise (authError ''auth::deleteUser'' ''The reserved MCP system user cannot be deleted.''
           ''MCP_AUTH_SYSTEM_USER_PROTECTED'' corr 403)
       else if actorIsMcp actor \<and> uRole existing = UserRole SuperAdmin then
         raise (authError ''auth::deleteUser'' ''The MCP user cannot delete a superadmin.''
           ''MCP_AUTH_SUPERADMIN_MUTATION_DENIED'' corr 403)
       else deleteUserRow userId)"

section \<open>The bootstrap administrator\<close>

definition ensureBootstrapAdminProtection :: "string \<Rightarrow> ('b, 'z, unit) dbio" where
  "ensureBootstrapAdminProtection bootstrapUsername =
    andThen (getUserByUsername bootstrapUsername) (\<lambda>bootstrapUser.
    andThen (case bootstrapUser of
        Some u \<Rightarrow> ret [u]
      | None \<Rightarrow> andThen listUsers (\<lambda>us.
          ret (filter (\<lambda>u. uAuthSource u = LocalAuth \<and> uRole u = UserRole SuperAdmin) us))) (\<lambda>candidates.
    case candidates of
      [u] \<Rightarrow>
        if uProtected u \<or> uAuthSource u \<noteq> LocalAuth \<or> uRole u \<noteq> UserRole SuperAdmin then ret ()
        else andThen now (\<lambda>t. setUserProtectedFromAutoLink (uId u) True t)
    | _ \<Rightarrow> ret ()))"

text \<open>The result: the user name and the password that are printed, when the password was generated.\<close>

definition bootstrapInitialAdmin ::
  "'b platform \<Rightarrow> loaded_config \<Rightarrow> string option \<Rightarrow> ('b, 'z, (string \<times> string) option) dbio" where
  "bootstrapInitialAdmin P L corr =
    (let ba = secBootstrapAdmin (ldSecrets L);
         username = normalizeUsername (case Option.bind ba baUsername of Some u \<Rightarrow> u | None \<Rightarrow> ''admin'');
         configured = Option.bind ba baPassword
     in andThen countUsers (\<lambda>n.
        if 0 < n then andThen (ensureBootstrapAdminProtection username) (\<lambda>_. ret None)
        else
          andThen (case configured of Some pw \<Rightarrow> ret pw | None \<Rightarrow> createBootstrapPassword P 24) (\<lambda>pw.
          andThen (draw (\<lambda>k. argon2_hash P k pw)) (\<lambda>pwHash.
          andThen now (\<lambda>t.
          andThen (catching
            (andThen (createOpaqueToken P 18) (\<lambda>rid.
             insertUser \<lparr>uId = rid, uUsername = username, uEmail = Option.bind ba baEmail,
               uRole = UserRole SuperAdmin, uAuthSource = LocalAuth, uExternalSubject = None,
               uPasswordHash = Some pwHash, uProtected = True, uDisabled = False, uSessionVersion = 0,
               uCreatedAt = t, uUpdatedAt = t\<rparr>))
            (\<lambda>e. raise (createAppError ''auth::bootstrapInitialAdmin''
               ''Failed creating bootstrap administrator.'' ''USER_BOOTSTRAP_FAILED'' corr Null 500 (Some e)))) (\<lambda>_.
          ret (if nonblank configured then None else Some (username, pw))))))))"

section \<open>Accounts of identity providers\<close>

definition syncExternalAccount ::
  "user_row \<Rightarrow> auth_method \<Rightarrow> string option \<Rightarrow> string option \<Rightarrow> ('b, 'z, user_row) dbio" where
  "syncExternalAccount user src subject email =
    (let nextVersion = (if uAuthSource user \<noteq> src \<or> uExternalSubject user \<noteq> subject \<or> uPasswordHash user \<noteq> None
           \<or> uDisabled user then uSessionVersion user + 1 else uSessionVersion user)
     in andThen now (\<lambda>t.
        andThen (updateUserRow (uId user) email (uRole user) src subject None False nextVersion t) (\<lambda>_.
        andThen (whenever (nextVersion \<noteq> uSessionVersion user) (deleteSessionsForUser (uId user))) (\<lambda>_.
        ret (user\<lparr>uEmail := email, uAuthSource := src, uExternalSubject := subject, uPasswordHash := None,
          uDisabled := False, uSessionVersion := nextVersion, uUpdatedAt := t\<rparr>)))))"

definition ensureAccountCanAutoLink :: "user_row \<Rightarrow> auth_method \<Rightarrow> string option \<Rightarrow> exn + unit" where
  "ensureAccountCanAutoLink user authMethod corr =
    (if \<not> uProtected user then Inr ()
     else Inl (authError ''auth::ensureAccountCanAutoLink''
       (toUpperCase (auth_method_str authMethod) @ '' login cannot auto-link to a protected local account.'')
       (if authMethod = HeaderAuth then ''AUTH_HEADER_INVALID'' else ''AUTH_OIDC_CALLBACK_FAILED'') corr 403))"

definition reconcileExternalUser ::
  "'b platform \<Rightarrow> loaded_config \<Rightarrow> string \<Rightarrow> string \<Rightarrow> string option \<Rightarrow> string option \<Rightarrow> ('b, 'z, user_row) dbio" where
  "reconcileExternalUser P L subject username email corr =
    (let n = normalizeUsername username in
     andThen (getUserByExternalSubject subject) (\<lambda>bySubject.
     case bySubject of
       Some u \<Rightarrow> syncExternalAccount u OidcAuth (Some subject) email
     | None \<Rightarrow>
       andThen (getUserByUsername n) (\<lambda>byUsername.
       case byUsername of
         Some u \<Rightarrow> andThen (liftR (ensureAccountCanAutoLink u OidcAuth corr)) (\<lambda>_.
           syncExternalAccount u OidcAuth (Some subject) email)
       | None \<Rightarrow>
         andThen (createUser P n email None
           (if Option.bind (acOidc (cfAuth (ldConfig L))) ocBootstrapAdminSubject = Some subject
            then SuperAdmin else Viewer) OidcAuth (Some subject) corr None) (\<lambda>_.
         andThen (getUserByUsername n) (\<lambda>created.
         case created of
           Some u \<Rightarrow> ret u
         | None \<Rightarrow> raise (authError ''auth::reconcileExternalUser'' ''OIDC user creation failed.''
             ''USER_CREATE_FAILED'' corr 500))))))"

definition authenticateTrustedHeaders ::
  "'b platform \<Rightarrow> loaded_config \<Rightarrow> (string \<Rightarrow> bool) \<Rightarrow> string option \<Rightarrow> (string \<Rightarrow> string option) \<Rightarrow> string option
    \<Rightarrow> ('b, 'z, authenticated_user option) dbio" where
  "authenticateTrustedHeaders P L trusted sourceIp headers corr =
    (let a = cfAuth (ldConfig L) in
     case acHeader a of
       None \<Rightarrow> ret None
     | Some h \<Rightarrow>
       if \<not> acHeaderEnabled a \<or> \<not> nonblank sourceIp \<or> \<not> trusted (the sourceIp) then ret None
       else
         case List.find (\<lambda>r. \<not> nonblank (headers r)) (hcRequiredHeaders h) of
           Some r \<Rightarrow> raise (authError ''auth::authenticateTrustedHeaders''
             (''Trusted header '' @ r @ '' is missing.'') ''AUTH_HEADER_INVALID'' corr 401)
         | None \<Rightarrow>
           if \<not> nonblank (headers (hcUsernameHeader h)) then ret None
           else let n = normalizeUsername (the (headers (hcUsernameHeader h))) in
             andThen (getUserByUsername n) (\<lambda>existing.
             case existing of
               Some u \<Rightarrow>
                 andThen (liftR (ensureAccountCanAutoLink u HeaderAuth corr)) (\<lambda>_.
                 andThen (syncExternalAccount u HeaderAuth None (uEmail u)) (\<lambda>updated.
                 ret (Some (sanitizeUser updated))))
             | None \<Rightarrow>
                 andThen (createUser P n None None (hcDefaultRole h) HeaderAuth None corr None) (\<lambda>_.
                 andThen (getUserByUsername n) (\<lambda>created. ret (map_option sanitizeUser created)))))"

section \<open>Local login\<close>

definition failLocalLogin ::
  "'b platform \<Rightarrow> loaded_config \<Rightarrow> string \<Rightarrow> user_row option \<Rightarrow> string option \<Rightarrow> string option \<Rightarrow> string option
    \<Rightarrow> exn \<Rightarrow> string \<Rightarrow> ('b, 'z, login_result) dbio" where
  "failLocalLogin P L username user sourceIp userAgent corr err failureReason =
    (let n = normalizeUsername username in
     andThen (logFailedLocalLogin L username n user sourceIp userAgent corr (errorKey err) failureReason) (\<lambda>_.
     andThen (recordLoginAudit P LocalAuth None sourceIp corr (if n \<noteq> [] then Some n else None)
       (Obj [(''submittedUsername'', if username \<noteq> [] then Str username else Null),
             (''normalizedUsername'', Str n), (''authMethod'', Str ''local'')]) Null
       (Obj [(''failureReason'', Str failureReason), (''errorKey'', Str (errorKey err))]) False) (\<lambda>_.
     raise err)))"

definition invalidCredentials :: "string option \<Rightarrow> exn" where
  "invalidCredentials corr = authError ''auth::loginLocal'' ''Invalid username or password.''
    ''AUTH_PASSWORD_INVALID'' corr 401"

definition loginLocal ::
  "'b platform \<Rightarrow> loaded_config \<Rightarrow> string \<Rightarrow> string \<Rightarrow> string option \<Rightarrow> string option \<Rightarrow> string option
    \<Rightarrow> ('b, 'z, login_result) dbio" where
  "loginLocal P L username password sourceIp userAgent corr =
    (if \<not> acLocalEnabled (cfAuth (ldConfig L)) then
       failLocalLogin P L username None sourceIp userAgent corr
         (authError ''auth::loginLocal'' ''Local authentication is disabled.'' ''AUTH_LOGIN_FAILED'' corr 403)
         ''local_auth_disabled''
     else
       andThen (getUserByUsername (normalizeUsername username)) (\<lambda>found.
       let refuse = failLocalLogin P L username found sourceIp userAgent corr (invalidCredentials corr) in
       case found of
         None \<Rightarrow> refuse ''user_not_found''
       | Some user \<Rightarrow>
           if uDisabled user then refuse ''user_disabled''
           else if \<not> nonblank (uPasswordHash user) then refuse ''password_hash_missing''
           else if \<not> argon2_verify P (the (uPasswordHash user)) password then refuse ''password_mismatch''
           else createSessionForUser P L user LocalAuth sourceIp userAgent corr))"

section \<open>OpenID Connect\<close>

definition oidcSettings :: "loaded_config \<Rightarrow> (oidc_config \<times> string) option" where
  "oidcSettings L =
    (case acOidc (cfAuth (ldConfig L)) of
       None \<Rightarrow> None
     | Some c \<Rightarrow>
        if acOidcEnabled (cfAuth (ldConfig L)) \<and> nonblank (secOidcClientSecret (ldSecrets L))
        then Some (c, the (secOidcClientSecret (ldSecrets L))) else None)"

definition beginOidcLogin ::
  "'b platform \<Rightarrow> 'b oidc_library \<Rightarrow> loaded_config \<Rightarrow> string option \<Rightarrow> string option \<Rightarrow> ('b, 'z, string) authio" where
  "beginOidcLogin P V L redirectTo corr =
    (case oidcSettings L of
       None \<Rightarrow> raise (authError ''auth::beginOidcLogin'' ''OIDC authentication is disabled.'' ''AUTH_LOGIN_FAILED'' corr 403)
     | Some (c, secret) \<Rightarrow>
        andThen (createOidcAuthorizationUrl P V c secret (getOidcRedirectUri L) corr) (\<lambda>start.
        andThen now (\<lambda>t.
        andThen (upsertAuthRequest \<lparr>arState = osState start, arCodeVerifier = osCodeVerifier start,
          arRedirectTo = Some (getSafePostLoginRedirectPath P L redirectTo), arCreatedAt = t\<rparr>) (\<lambda>_.
        ret (osRedirectUrl start)))))"

text \<open>
  The claims are not validated by the source: a user name that is no string fails in \<open>trim\<close>; a subject
  or an address that is no string is read as its text.
\<close>

definition claimSubject :: "oidc_exchange \<Rightarrow> string" where
  "claimSubject x =
    (let v = coalesce (getProp ''sub'' (oxClaims x)) (coalesce (getProp ''sub'' (oxUserInfo x)) (Str []))
     in if truthy v then to_string v else [])"

definition claimUsername :: "oidc_config \<Rightarrow> oidc_exchange \<Rightarrow> exn + string" where
  "claimUsername c x =
    (case coalesce (getProp (ocUsernameClaim c) (oxUserInfo x)) (coalesce (getProp (ocUsernameClaim c) (oxClaims x))
       (coalesce (getProp ''preferred_username'' (oxClaims x)) (Str (claimSubject x)))) of
       Str s \<Rightarrow> Inr s | _ \<Rightarrow> Inl (typeError ''username.trim is not a function''))"

definition claimEmail :: "oidc_config \<Rightarrow> oidc_exchange \<Rightarrow> string option" where
  "claimEmail c x =
    (let v = coalesce (getProp (ocEmailClaim c) (oxUserInfo x)) (coalesce (getProp (ocEmailClaim c) (oxClaims x)) Null)
     in if v = Null then None else Some (to_string v))"

definition oidcFailure :: "string \<Rightarrow> string option \<Rightarrow> int \<Rightarrow> exn" where
  "oidcFailure reason corr status = authError ''auth::completeOidcLogin'' reason ''AUTH_OIDC_CALLBACK_FAILED'' corr status"

definition oidcLoginBody ::
  "'b platform \<Rightarrow> 'b oidc_library \<Rightarrow> loaded_config \<Rightarrow> url \<Rightarrow> string option \<Rightarrow> string option \<Rightarrow> string option
    \<Rightarrow> ('b, 'z, login_result \<times> string) authio" where
  "oidcLoginBody P V L callbackUrl sourceIp userAgent corr =
    (let st = (case search_param V callbackUrl ''state'' of Some s \<Rightarrow> s | None \<Rightarrow> []) in
     case oidcSettings L of
       None \<Rightarrow> raise (oidcFailure ''OIDC authentication is disabled.'' corr 403)
     | Some (c, secret) \<Rightarrow>
        andThen (getAuthRequest st) (\<lambda>found.
        case found of
          None \<Rightarrow> raise (oidcFailure ''OIDC callback state is invalid or expired.'' corr 400)
        | Some request \<Rightarrow>
           if st = [] then raise (oidcFailure ''OIDC callback state is invalid or expired.'' corr 400)
           else
             andThen (deleteAuthRequest st) (\<lambda>_.
             andThen (exchangeOidcCallback P V c secret (getOidcRedirectUri L) callbackUrl st
               (arCodeVerifier request) corr) (\<lambda>x.
             if claimSubject x = [] then
               raise (oidcFailure ''OIDC callback did not provide a subject identifier.'' corr 400)
             else
               andThen (liftR (claimUsername c x)) (\<lambda>username.
               andThen (reconcileExternalUser P L (claimSubject x) username (claimEmail c x) corr) (\<lambda>user.
               andThen (createSessionForUser P L user OidcAuth sourceIp userAgent corr) (\<lambda>session.
               ret (session, getSafePostLoginRedirectPath P L (arRedirectTo request)))))))))"

definition completeOidcLogin ::
  "'b platform \<Rightarrow> 'b oidc_library \<Rightarrow> loaded_config \<Rightarrow> url \<Rightarrow> string option \<Rightarrow> string option \<Rightarrow> string option
    \<Rightarrow> ('b, 'z, login_result \<times> string) authio" where
  "completeOidcLogin P V L callbackUrl sourceIp userAgent corr =
    (let st = search_param V callbackUrl ''state'' in
     catching (oidcLoginBody P V L callbackUrl sourceIp userAgent corr) (\<lambda>e.
       andThen (recordLoginAudit P OidcAuth None sourceIp corr None
         (Obj [(''authMethod'', Str ''oidc''), (''state'', if nonblank st then opt_str st else Null)]) Null
         (Obj [(''errorKey'', if is_AppError e then Str (errorKey e) else Null),
               (''failureReason'', Str (messageOr ''OIDC login failed.'' e))]) False) (\<lambda>_. raise e)))"

section \<open>Maintenance\<close>

text \<open>\<open>Promise.all\<close> of two calls: both run, and the first failure is thrown.\<close>

definition bothOf :: "('s, 'e, unit) act \<Rightarrow> ('s, 'e, unit) act \<Rightarrow> ('s, 'e, unit) act" where
  "bothOf m n = (\<lambda>s. case m s of (r, s1) \<Rightarrow> (case n s1 of (r', s2) \<Rightarrow>
    (case r of Inl e \<Rightarrow> Inl e | Inr _ \<Rightarrow> r', s2)))"

definition runMaintenance :: "('b, 'z, unit) dbio" where
  "runMaintenance = andThen now (\<lambda>t. bothOf (purgeExpiredSessions t) (purgeOldAuthRequests (t - 15 * 60000)))"

definition resolveSourceIp :: "string option \<Rightarrow> string option" where
  "resolveSourceIp source =
    (if \<not> nonblank source then None
     else Some (if startsWith (the source) ''::ffff:'' then drop 7 (the source) else the source))"

end
