(* ===== verification/AuthInvariant.thy ===== *)
theory AuthInvariant
  imports AuthService
begin

text \<open>
  The invariant of the accounts and sessions under every public operation of \<open>AuthService\<close>, as a step
  relation: the reserved MCP account is never touched and never has a session, and a session never
  claims a newer version of its account than the account has.
\<close>

section \<open>The invariant\<close>

definition mcpRows :: "('b, 'z) db_world_scheme \<Rightarrow> user_row list" where
  "mcpRows w = filter isMcpPrincipal (users w)"

definition account_ok :: "user_row \<Rightarrow> bool" where
  "account_ok u \<longleftrightarrow> (uRole u = McpRole \<longleftrightarrow> uAuthSource u = McpAuth) \<and>
    (isMcpPrincipal u \<longrightarrow> uProtected u \<and> uExternalSubject u = None)"

definition session_ok :: "user_row list \<Rightarrow> session_row \<Rightarrow> bool" where
  "session_ok us s \<longleftrightarrow> (\<exists>u \<in> set us. uId u = sUserId s \<and> \<not> isMcpPrincipal u \<and> sSessionVersion s \<le> uSessionVersion u)"

definition auth_ok :: "user_row list \<Rightarrow> ('b, 'z) db_world_scheme \<Rightarrow> bool" where
  "auth_ok M w \<longleftrightarrow> db_ok w \<and> mcpRows w = M \<and> list_all account_ok (users w) \<and>
    list_all (session_ok (users w)) (sessions w)"

text \<open>The tables the invariant reads.\<close>

definition tables :: "('b, 'z) db_world_scheme \<Rightarrow> user_row list \<times> session_row list \<times> auth_request_row list
    \<times> settings_table \<times> snapshot_row list" where
  "tables w = (users w, sessions w, auth_requests w, settings w, snapshots w)"

interpretation in_tables: world_frame tables
  by unfold_locales (simp_all add: tables_def)

interpretation in_auth_tables: auth_frame tables
  by unfold_locales (simp_all add: tables_def)

lemma auth_ok_tables: "tables w' = tables w \<Longrightarrow> auth_ok M w' = auth_ok M w"
  by (simp add: tables_def auth_ok_def db_ok_def mcpRows_def)

lemma keeps_tables_read: "keeps tables (dbRead st ps f)"
  by (rule keepsI) (auto simp: dbRead_def dbGate_def andThen_def tables_def split: list.splits if_splits)

lemma keeps_tables_audit: "keeps tables (auditRecord P actor am ip corr action ty tid bef aft res success)"
  unfolding auditRecord_def appendAudit_def latestAudit_def insertAudit_def
  by (intro in_tables.fr_base keeps_tables_read keeps_dbWrite) (simp_all add: tables_def)

lemma keeps_tables_log:
  "keeps tables (emitAuthLog L lc c m corr cx key)" "keeps tables (logFailedLocalLogin L n nn us ip ua corr ky fr)"
  "keeps tables (logSuccessfulLogin L am u ip ua ex corr)"
  unfolding logFailedLocalLogin_def logSuccessfulLogin_def emitAuthLog_def
  by (intro in_tables.fr_base)+

lemma keeps_tables_login_audit: "keeps tables (recordLoginAudit P am actor ip corr tid b a r s)"
  unfolding recordLoginAudit_def
  by (intro keeps_intros keeps_tables_audit in_tables.fr_createCorrelationId)

text \<open>A reading operation keeps every condition on the tables.\<close>

lemma t_keeps_tables:
  assumes "keeps tables m" and "\<And>w w'. tables w' = tables w \<Longrightarrow> A w \<Longrightarrow> A w'"
  shows "triple A m (\<lambda>_. A) A"
  using assms by (intro tripleI) (metis keepsD)+

definition by_tables :: "(('b, 'z) db_world_scheme \<Rightarrow> bool) \<Rightarrow> bool" where
  "by_tables A \<longleftrightarrow> (\<forall>w w'. tables w' = tables w \<longrightarrow> A w \<longrightarrow> A w')"

lemma by_tables_auth_ok: "by_tables (auth_ok M)"
  using auth_ok_tables by (auto simp: by_tables_def)

lemma by_tables_conj: "by_tables A \<Longrightarrow> by_tables B \<Longrightarrow> by_tables (\<lambda>w. A w \<and> B w)"
  by (simp add: by_tables_def)

lemma by_tables_users: "by_tables (\<lambda>w. Q (users w))"
  by (simp add: by_tables_def tables_def)

lemma t_frame: "keeps tables m \<Longrightarrow> by_tables A \<Longrightarrow> triple A m (\<lambda>_. A) A"
  by (intro t_keeps_tables) (auto simp: by_tables_def)

section \<open>What each statement needs\<close>

definition has_row :: "user_row \<Rightarrow> ('b, 'z) db_world_scheme \<Rightarrow> bool" where
  "has_row u w \<longleftrightarrow> u \<in> set (users w)"

text \<open>The account \<open>u\<close> was read from is in the table, with at least its version.\<close>

definition backed :: "user_row \<Rightarrow> ('b, 'z) db_world_scheme \<Rightarrow> bool" where
  "backed u w \<longleftrightarrow> (\<exists>v \<in> set (users w). uId v = uId u \<and> \<not> isMcpPrincipal v \<and> uSessionVersion u \<le> uSessionVersion v)"

lemma t_getUser:
  assumes "Q = (\<lambda>u. uId u = k) \<and> m = getUserById k \<or> Q = (\<lambda>u. uUsername u = k) \<and> m = getUserByUsername k \<or>
    Q = (\<lambda>u. uExternalSubject u = Some k) \<and> m = getUserByExternalSubject k"
  shows "triple (auth_ok M) m (\<lambda>r w. auth_ok M w \<and> (\<forall>u. r = Some u \<longrightarrow> has_row u w \<and> Q u)) (auth_ok M)"
proof -
  have read: "triple (auth_ok M) (dbRead st ps (\<lambda>w. List.find Q (users w)))
    (\<lambda>r w. auth_ok M w \<and> (\<forall>u. r = Some u \<longrightarrow> has_row u w \<and> Q u)) (auth_ok M)" for st ps
  proof (rule tripleI)
    fix s x s'
    assume s: "auth_ok M s" and run: "dbRead st ps (\<lambda>w. List.find Q (users w)) s = (Inr x, s')"
    have "tables s' = tables s" by (rule keepsD [OF keeps_tables_read run])
    moreover have "x = List.find Q (users s)" "users s' = users s"
      using run by (auto simp: dbRead_def dbGate_def andThen_def split: list.splits if_splits)
    ultimately show "auth_ok M s' \<and> (\<forall>u. x = Some u \<longrightarrow> has_row u s' \<and> Q u)"
      using s auth_ok_tables [of s' s] by (auto simp: has_row_def dest!: find_Some_set)
  next
    fix s e s'
    assume s: "auth_ok M s" and run: "dbRead st ps (\<lambda>w. List.find Q (users w)) s = (Inl e, s')"
    then show "auth_ok M s'" using keepsD [OF keeps_tables_read run] auth_ok_tables by blast
  qed
  show ?thesis
    using assms read unfolding getUserById_def getUserByUsername_def getUserByExternalSubject_def by auto
qed

lemmas t_getUserById = t_getUser [of "\<lambda>u. uId u = k" k "getUserById k" for k, simplified]
lemmas t_getUserByUsername = t_getUser [of "\<lambda>u. uUsername u = k" k "getUserByUsername k" for k, simplified]
lemmas t_getUserByExternalSubject =
  t_getUser [of "\<lambda>u. uExternalSubject u = Some k" k "getUserByExternalSubject k" for k, simplified]

lemma auth_ok_faults [simp]: "auth_ok M (w\<lparr>dbFaults := fs\<rparr>) = auth_ok M w"
  by (rule auth_ok_tables) (simp add: tables_def)

lemma backed_faults [simp]: "backed u (w\<lparr>dbFaults := fs\<rparr>) = backed u w"
  by (simp add: backed_def)

lemma t_dbWrite:
  assumes "\<And>w fs. A w \<Longrightarrow> A (w\<lparr>dbFaults := fs\<rparr>)" and "\<And>w. A w \<Longrightarrow> E w"
    and "\<And>w. A w \<Longrightarrow> v w = None \<Longrightarrow> B () (f w)"
  shows "triple A (dbWrite s ps v f) B E"
proof (rule tripleI)
  fix w e w'
  assume "A w" "dbWrite s ps v f w = (Inl e, w')"
  then show "E w'" using assms(1,2)
    by (auto simp: dbWrite_def dbGate_def andThen_def split: list.splits if_splits option.splits)
next
  fix w x w'
  assume "A w" "dbWrite s ps v f w = (Inr x, w')"
  then show "B x w'" using assms(1,3)
    by (auto simp: dbWrite_def dbGate_def andThen_def split: list.splits if_splits option.splits)
qed

lemma filter_map_other:
  "\<not> Q u \<Longrightarrow> \<not> Q (g u) \<Longrightarrow> filter Q (map (\<lambda>v. if v = u then g v else v) us) = filter Q us"
  by (induction us) auto

lemma map_user_row:
  assumes "distinct (map uId us)" and "u \<in> set us"
  shows "map_user (uId u) f us = map (\<lambda>v. if v = u then f v else v) us"
proof -
  have "uId v = uId u \<longleftrightarrow> v = u" if "v \<in> set us" for v
    using assms that by (auto simp: distinct_map dest: inj_onD)
  then show ?thesis by (simp add: map_user_def)
qed

lemma auth_ok_update:
  assumes ok: "auth_ok M w" and u: "u \<in> set (users w)" and "\<not> isMcpPrincipal u"
    and ids: "\<And>v. uId (f v) = uId v" "\<And>v. uUsername (f v) = uUsername v"
    and new: "uRole (f u) \<noteq> McpRole" "uAuthSource (f u) \<noteq> McpAuth" "uSessionVersion u \<le> uSessionVersion (f u)"
  shows "auth_ok M (w\<lparr>users := map_user (uId u) f (users w)\<rparr>)"
proof -
  have db: "db_ok w" and dist: "distinct (map uId (users w))" using ok by (simp_all add: auth_ok_def db_ok_def)
  let ?us = "map_user (uId u) f (users w)"
  have us: "?us = map (\<lambda>v. if v = u then f v else v) (users w)" by (rule map_user_row [OF dist u])
  have fu: "\<not> isMcpPrincipal (f u)" "account_ok (f u)" using new by (simp_all add: isMcpPrincipal_def account_ok_def)
  have rows: "filter isMcpPrincipal ?us = filter isMcpPrincipal (users w)"
    unfolding us by (rule filter_map_other) (use assms(3) fu in simp_all)
  have accounts: "list_all account_ok ?us" using ok fu unfolding us by (auto simp: auth_ok_def list_all_iff)
  have "session_ok ?us s" if s: "session_ok (users w) s" for s
  proof -
    obtain v where v: "v \<in> set (users w)" "uId v = sUserId s" "\<not> isMcpPrincipal v" "sSessionVersion s \<le> uSessionVersion v"
      using s by (auto simp: session_ok_def)
    have "(if v = u then f v else v) \<in> set ?us" unfolding us using v(1) by auto
    then show ?thesis
      using v fu ids new(3) unfolding session_ok_def by (intro bexI [of _ "if v = u then f v else v"]) auto
  qed
  then have "list_all (session_ok ?us) (sessions w)" using ok by (auto simp: auth_ok_def list_all_iff)
  then show ?thesis
    using db_ok_users_update [OF db ids] ok rows accounts by (simp add: auth_ok_def mcpRows_def)
qed

lemma t_updateUserRow:
  assumes "role \<noteq> McpRole" "src \<noteq> McpAuth" "uSessionVersion u \<le> version" "\<not> isMcpPrincipal u"
  shows "triple (\<lambda>w. auth_ok M w \<and> has_row u w) (updateUserRow (uId u) em role src su ph di version st)
    (\<lambda>_ w. auth_ok M w \<and> (\<exists>v \<in> set (users w). uId v = uId u \<and> \<not> isMcpPrincipal v \<and> uSessionVersion v = version)) (auth_ok M)"
  unfolding updateUserRow_def
proof (rule t_dbWrite; clarsimp simp: has_row_def)
  fix w
  assume w: "auth_ok M w" "u \<in> set (users w)"
  let ?f = "\<lambda>v. v\<lparr>uEmail := em, uRole := role, uAuthSource := src, uExternalSubject := su, uPasswordHash := ph,
    uDisabled := di, uSessionVersion := version, uUpdatedAt := st\<rparr>"
  have "auth_ok M (w\<lparr>users := map_user (uId u) ?f (users w)\<rparr>)"
    by (rule auth_ok_update) (use w assms in simp_all)
  moreover have "?f u \<in> set (map_user (uId u) ?f (users w))" using w(2) by (auto simp: map_user_def)
  then have "\<exists>v \<in> set (map_user (uId u) ?f (users w)). uId v = uId u \<and> \<not> isMcpPrincipal v \<and> uSessionVersion v = version"
    using assms by (intro bexI [of _ "?f u"]) (simp_all add: isMcpPrincipal_def)
  ultimately show "auth_ok M (w\<lparr>users := map_user (uId u) ?f (users w)\<rparr>) \<and>
    (\<exists>v \<in> set (map_user (uId u) ?f (users w)). uId v = uId u \<and> \<not> isMcpPrincipal v \<and> uSessionVersion v = version)"
    by simp
qed

lemma t_deleteUserRow:
  assumes "\<not> isMcpPrincipal u"
  shows "triple (\<lambda>w. auth_ok M w \<and> has_row u w) (deleteUserRow (uId u)) (\<lambda>_. auth_ok M) (auth_ok M)"
  unfolding deleteUserRow_def
proof (rule t_dbWrite; clarsimp simp: has_row_def)
  fix w
  assume w: "auth_ok M w" "u \<in> set (users w)"
  have dist: "distinct (map uId (users w))" using w(1) by (simp add: auth_ok_def db_ok_def)
  have only: "v = u" if "v \<in> set (users w)" "uId v = uId u" for v
    using dist w(2) that by (auto simp: distinct_map dest: inj_onD)
  have "filter isMcpPrincipal (filter (\<lambda>v. uId v \<noteq> uId u) (users w)) = filter isMcpPrincipal (users w)"
    using only assms by (auto simp: intro!: filter_cong)
  moreover have "session_ok (filter (\<lambda>v. uId v \<noteq> uId u) (users w)) s" if "session_ok (users w) s" "sUserId s \<noteq> uId u" for s
    using that by (auto simp: session_ok_def)
  ultimately show "auth_ok M (w\<lparr>users := filter (\<lambda>v. uId v \<noteq> uId u) (users w),
      sessions := filter (\<lambda>s. sUserId s \<noteq> uId u) (sessions w)\<rparr>)"
    using w(1) by (auto simp: auth_ok_def db_ok_def mcpRows_def list_all_iff distinct_map_filterI)
qed

lemma t_insertUser:
  assumes "uRole u \<noteq> McpRole" "uAuthSource u \<noteq> McpAuth"
  shows "triple (auth_ok M) (insertUser u) (\<lambda>_. auth_ok M) (auth_ok M)"
  unfolding insertUser_def
proof (rule t_dbWrite; clarsimp split: if_splits)
  fix w
  assume "auth_ok M w" "uId u \<notin> uId ` set (users w)" "uUsername u \<notin> uUsername ` set (users w)"
  then show "auth_ok M (w\<lparr>users := users w @ [u]\<rparr>)"
    using assms by (auto simp: auth_ok_def db_ok_def mcpRows_def list_all_iff account_ok_def isMcpPrincipal_def session_ok_def)
qed

lemma t_insertSession:
  "triple (\<lambda>w. auth_ok M w \<and> session_ok (users w) s) (insertSession s) (\<lambda>_. auth_ok M) (auth_ok M)"
  unfolding insertSession_def
  by (rule t_dbWrite; clarsimp split: if_splits) (auto simp: auth_ok_def db_ok_def mcpRows_def)

lemma t_sessions_filtered:
  "triple (auth_ok M) (deleteSession k) (\<lambda>_. auth_ok M) (auth_ok M)"
  "triple (auth_ok M) (deleteSessionsForUser k) (\<lambda>_. auth_ok M) (auth_ok M)"
  "triple (auth_ok M) (purgeExpiredSessions t) (\<lambda>_. auth_ok M) (auth_ok M)"
  unfolding deleteSession_def deleteSessionsForUser_def purgeExpiredSessions_def
  by (rule t_dbWrite; clarsimp; auto simp: auth_ok_def db_ok_def mcpRows_def list_all_iff distinct_map_filterI)+

lemma t_requests:
  "triple (auth_ok M) (upsertAuthRequest r) (\<lambda>_. auth_ok M) (auth_ok M)"
  "triple (auth_ok M) (deleteAuthRequest k) (\<lambda>_. auth_ok M) (auth_ok M)"
  "triple (auth_ok M) (purgeOldAuthRequests t) (\<lambda>_. auth_ok M) (auth_ok M)"
  unfolding upsertAuthRequest_def deleteAuthRequest_def purgeOldAuthRequests_def
  by (rule t_dbWrite; clarsimp; auto simp: auth_ok_def db_ok_def mcpRows_def put_request_states distinct_map_filterI)+

section \<open>The operations\<close>

lemma t_fact: "(Q \<Longrightarrow> triple A m B E) \<Longrightarrow> triple (\<lambda>w. A w \<and> Q) m B E"
  by (auto simp: triple_def)

lemma t_seq:
  assumes "keeps tables m" "by_tables A" "\<And>w. A w \<Longrightarrow> E w" "\<And>x. triple A (f x) B E"
  shows "triple A (andThen m f) B E"
  by (rule t_andThen [where C = "\<lambda>_. A"])
    (use t_frame [OF assms(1,2)] assms(3,4) in \<open>auto simp: triple_def split: prod.splits sum.splits\<close>)

lemma by_tables_row: "by_tables (\<lambda>w. auth_ok M w \<and> has_row u w)"
  unfolding has_row_def by (intro by_tables_conj by_tables_auth_ok by_tables_users [of "\<lambda>us. u \<in> set us"])

lemma by_tables_backed: "by_tables (\<lambda>w. auth_ok M w \<and> backed u w)"
  unfolding backed_def by (intro by_tables_conj by_tables_auth_ok by_tables_users)

lemma p_tables: "keeps tables m \<Longrightarrow> preserves (auth_ok M) m"
  by (erule preserves_if_keeps) (rule auth_ok_tables [THEN iffD2])

lemma keeps_tables_reads:
  "keeps tables (getSession k)" "keeps tables (getUserById k)" "keeps tables (getUserByUsername k)"
  "keeps tables listUsers" "keeps tables countUsers" "keeps tables (getAuthRequest k)"
  unfolding getSession_def getUserById_def getUserByUsername_def listUsers_def countUsers_def getAuthRequest_def
  by (rule keeps_tables_read)+

lemmas p_writes = t_sessions_filtered [THEN preserves_t] t_requests [THEN preserves_t]

lemma p_now: "preserves (auth_ok M) now"
  by (intro p_tables keeps_now)

lemma p_getUserFromCookie: "preserves (auth_ok M) (getUserFromCookie P L c)"
  unfolding getUserFromCookie_def
  by (intro preserves_intros p_writes p_now p_tables [OF keeps_tables_reads(1)] p_tables [OF keeps_tables_reads(2)])

lemma p_logout: "preserves (auth_ok M) (logout P L c)"
  unfolding logout_def by (intro preserves_intros p_writes)

lemma p_createUser: "preserves (auth_ok M) (createUser P n em pw ro src su corr actor)"
  unfolding createUser_def Let_def
  by (intro preserves_intros p_now p_tables [OF keeps_tables_reads(3)] p_tables [OF in_tables.fr_draw]
      p_tables [OF in_tables.fr_createOpaqueToken] preserves_t [OF t_insertUser]) simp_all

lemma t_found:
  assumes "triple (auth_ok M) n B E"
    and "\<And>u. K u \<Longrightarrow> triple (\<lambda>w. auth_ok M w \<and> has_row u w) (f u) B E"
  shows "triple (\<lambda>w. auth_ok M w \<and> (\<forall>u. r = Some u \<longrightarrow> has_row u w \<and> K u))
    (case r of None \<Rightarrow> n | Some u \<Rightarrow> f u) B E"
proof (cases r)
  case None
  then show ?thesis using assms(1) by simp
next
  case (Some u)
  show ?thesis
  proof (cases "K u")
    case True
    then show ?thesis using assms(2) [of u] Some by (simp add: triple_def)
  next
    case False
    then show ?thesis using Some by (simp add: triple_def)
  qed
qed

lemma row_account:
  assumes "auth_ok M w" "has_row u w"
  shows "account_ok u"
  using assms by (auto simp: auth_ok_def has_row_def list_all_iff)

lemma t_row_fact:
  assumes "account_ok u \<Longrightarrow> triple (\<lambda>w. auth_ok M w \<and> has_row u w) m B E"
  shows "triple (\<lambda>w. auth_ok M w \<and> has_row u w) m B E"
proof (rule tripleI)
  fix w e w'
  assume A: "auth_ok M w \<and> has_row u w" and run: "m w = (Inl e, w')"
  then have "account_ok u" using row_account by blast
  then show "E w'" using triple_Inl [OF assms A run] by blast
next
  fix w x w'
  assume A: "auth_ok M w \<and> has_row u w" and run: "m w = (Inr x, w')"
  then have "account_ok u" using row_account by blast
  then show "B x w'" using triple_Inr [OF assms A run] by blast
qed

lemma account_not_mcp: "account_ok u \<Longrightarrow> uAuthSource u \<noteq> McpAuth \<Longrightarrow> \<not> isMcpPrincipal u"
  by (simp add: account_ok_def isMcpPrincipal_def)

lemma t_weaken: "triple A m C D \<Longrightarrow> (\<And>x w. C x w \<Longrightarrow> B x w) \<Longrightarrow> (\<And>w. D w \<Longrightarrow> E w) \<Longrightarrow> triple A m B E"
  by (rule tripleI) (auto dest: triple_Inl triple_Inr)

lemma t_updateRow:
  assumes "account_ok u" "uAuthSource u \<noteq> McpAuth" "src \<noteq> McpAuth" "role \<noteq> McpRole" "uSessionVersion u \<le> version"
  shows "triple (\<lambda>w. auth_ok M w \<and> has_row u w) (updateUserRow (uId u) em role src su ph di version st)
    (\<lambda>_ w. auth_ok M w \<and> backed (u\<lparr>uSessionVersion := version\<rparr>) w) (auth_ok M)"
  using t_updateUserRow [OF assms(4,3,5) account_not_mcp [OF assms(1,2)]]
  by (rule t_weaken) (auto simp: backed_def)

lemma t_now: "by_tables A \<Longrightarrow> (\<And>w. A w \<Longrightarrow> E w) \<Longrightarrow> (\<And>t. triple A (f t) B E) \<Longrightarrow> triple A (andThen now f) B E"
  by (rule t_seq [OF keeps_now])

lemmas t_row = t_seq [OF _ by_tables_row] t_now [OF by_tables_row]

lemma t_sessions_gone: "triple (\<lambda>w. auth_ok M w \<and> backed u w) (whenever b (deleteSessionsForUser k))
    (\<lambda>_ w. auth_ok M w \<and> backed u w) (auth_ok M)"
proof (rule t_whenever)
  show "triple (\<lambda>w. auth_ok M w \<and> backed u w) (deleteSessionsForUser k) (\<lambda>_ w. auth_ok M w \<and> backed u w) (auth_ok M)"
    unfolding deleteSessionsForUser_def
    by (rule t_dbWrite) (auto simp: auth_ok_def db_ok_def mcpRows_def list_all_iff distinct_map_filterI backed_def)
qed

lemma t_updateUser: "triple (auth_ok M) (updateUser P k em ro di pw corr actor) (\<lambda>_. auth_ok M) (auth_ok M)"
  unfolding updateUser_def Let_def
  apply (rule t_andThen [OF t_getUserById])
  apply (rule t_found)
   apply (rule t_raise, assumption)
  apply (rule t_row_fact)
  apply hypsubst
  apply (intro t_if t_raise)
      apply (simp_all only:)[4]
  apply (rule t_row(1))
    apply (intro keeps_intros in_tables.fr_draw)
   apply (erule conjunct1)
  apply (rule t_row(2))
   apply (erule conjunct1)
  apply (rule t_andThen [OF t_updateRow])
       apply (simp_all)[5]
  apply (rule t_weaken [OF t_sessions_gone])
   apply simp_all
  done

lemma t_deleteUser: "triple (auth_ok M) (deleteUser k corr actor) (\<lambda>_. auth_ok M) (auth_ok M)"
  unfolding deleteUser_def
  apply (rule t_andThen [OF t_getUserById])
  apply (rule t_found)
   apply (rule t_raise, assumption)
  apply (rule t_row_fact)
  apply hypsubst
  apply (intro t_if t_raise t_deleteUserRow)
      apply (simp_all add: account_not_mcp)
  done

lemmas t_backed = t_seq [OF _ by_tables_backed] t_now [OF by_tables_backed]

lemma t_end: "keeps tables m \<Longrightarrow> triple (auth_ok M) m (\<lambda>_. auth_ok M) (auth_ok M)"
  by (rule t_preserves) (rule p_tables)

definition usable :: "user_row \<Rightarrow> ('b, 'z) db_world_scheme \<Rightarrow> bool" where
  "usable u w \<longleftrightarrow> isMcpPrincipal u \<or> backed u w"

lemma t_createSession: "triple (\<lambda>w. auth_ok M w \<and> usable u w) (createSessionForUser P L u am ip ua corr)
    (\<lambda>_. auth_ok M) (auth_ok M)"
proof -
  let ?row = "\<lambda>rid t. \<lparr>sId = rid, sUserId = uId u, sAuthMethod = am,
      sExpiresAt = t + acSessionTtlMinutes (cfAuth (ldConfig L)) * 60000, sSessionVersion = uSessionVersion u,
      sSourceIp = ip, sUserAgent = ua, sCreatedAt = t, sUpdatedAt = t\<rparr>"
  have ins: "triple (\<lambda>w. auth_ok M w \<and> backed u w) (insertSession (?row rid t)) (\<lambda>_. auth_ok M) (auth_ok M)" for rid t
    by (rule t_pre [OF t_insertSession]) (auto simp: session_ok_def backed_def)
  show ?thesis
    unfolding createSessionForUser_def Let_def
    apply (rule t_if)
     apply (rule t_raise, erule conjunct1)
    apply (rule t_pre [where C = "\<lambda>w. auth_ok M w \<and> backed u w"])
     apply (rule t_backed(1) [OF in_tables.fr_createOpaqueToken], erule conjunct1)
     apply (rule t_backed(2), erule conjunct1)
     apply (rule t_andThen [OF ins])
     apply (rule t_end)
     apply (intro keeps_intros keeps_tables_log keeps_tables_login_audit)
    apply (simp add: usable_def)
    done
qed

lemma t_sync:
  assumes "src \<noteq> McpAuth" "uAuthSource u \<noteq> McpAuth"
  shows "triple (\<lambda>w. auth_ok M w \<and> has_row u w) (syncExternalAccount u src subject email)
    (\<lambda>v w. auth_ok M w \<and> backed v w) (auth_ok M)"
  unfolding syncExternalAccount_def Let_def
  apply (rule t_row_fact)
  apply (rule t_row(2), erule conjunct1)
  apply (rule t_andThen [OF t_updateRow])
       apply (use assms in \<open>simp_all add: account_ok_def\<close>)[5]
  apply (rule t_andThen [OF t_sessions_gone])
  apply (rule t_ret)
  apply (simp add: backed_def)
  done

lemma has_row_backed: "\<not> isMcpPrincipal u \<Longrightarrow> has_row u w \<Longrightarrow> backed u w"
  by (auto simp: has_row_def backed_def)

text \<open>An account that may be linked is not the MCP account.\<close>

lemma t_link:
  assumes "src \<noteq> McpAuth"
  shows "triple (\<lambda>w. auth_ok M w \<and> has_row u w)
    (andThen (liftR (ensureAccountCanAutoLink u am corr)) (\<lambda>_. syncExternalAccount u src subject email))
    (\<lambda>v w. auth_ok M w \<and> backed v w) (auth_ok M)"
proof (rule t_row_fact)
  assume a: "account_ok u"
  show "triple (\<lambda>w. auth_ok M w \<and> has_row u w)
    (andThen (liftR (ensureAccountCanAutoLink u am corr)) (\<lambda>_. syncExternalAccount u src subject email))
    (\<lambda>v w. auth_ok M w \<and> backed v w) (auth_ok M)"
  proof (cases "uProtected u")
    case True
    then show ?thesis by (auto simp: ensureAccountCanAutoLink_def intro!: t_raise)
  next
    case False
    then have "uAuthSource u \<noteq> McpAuth" using a by (auto simp: account_ok_def isMcpPrincipal_def)
    then show ?thesis using t_sync [OF assms] False by (simp add: ensureAccountCanAutoLink_def)
  qed
qed

lemma has_row_usable: "has_row u w \<Longrightarrow> usable u w"
  using has_row_backed [of u w] by (auto simp: usable_def)

lemma andThen_assoc: "andThen (andThen m f) g = andThen m (\<lambda>x. andThen (f x) g)"
  by (auto simp: fun_eq_iff andThen_def split: prod.split sum.split)

lemma t_reread:
  "triple (auth_ok M) (andThen (getUserByUsername n) (\<lambda>r. case r of None \<Rightarrow> raise e | Some u \<Rightarrow> ret u))
    (\<lambda>u w. auth_ok M w \<and> usable u w) (auth_ok M)"
  by (rule t_andThen [OF t_getUserByUsername], rule t_found)
    (auto intro!: t_raise t_ret has_row_usable)

lemma t_reconcile: "triple (auth_ok M) (reconcileExternalUser P L subject n em corr)
    (\<lambda>u w. auth_ok M w \<and> usable u w) (auth_ok M)"
  unfolding reconcileExternalUser_def Let_def
  apply (rule t_andThen [OF t_getUserByExternalSubject])
  apply (rule t_found)
   apply (rule t_andThen [OF t_getUserByUsername])
   apply (rule t_found)
    apply (rule t_andThen [OF t_preserves [OF p_createUser]])
    apply (rule t_reread)
   apply (rule t_weaken [OF t_link])
     apply (simp_all add: usable_def)[3]
  apply (rule t_row_fact)
  apply (rule t_weaken [OF t_sync])
     apply (auto simp: usable_def account_ok_def isMcpPrincipal_def)
  done

lemma p_header: "preserves (auth_ok M) (authenticateTrustedHeaders P L tr ip hs corr)"
proof (rule preserves_t)
  have link: "triple (\<lambda>w. auth_ok M w \<and> has_row u w)
    (andThen (liftR (ensureAccountCanAutoLink u HeaderAuth corr)) (\<lambda>_.
     andThen (syncExternalAccount u HeaderAuth None (uEmail u)) (\<lambda>v. ret (g v)))) (\<lambda>_. auth_ok M) (auth_ok M)" for u g
    using t_andThen [OF t_link [of HeaderAuth M u HeaderAuth corr None "uEmail u"], of "\<lambda>v. ret (g v)" "\<lambda>_. auth_ok M"]
    unfolding andThen_assoc by (auto intro: t_ret)
  have other: "triple (auth_ok M) (andThen (createUser P n None None ro HeaderAuth None corr None) (\<lambda>_.
      andThen (getUserByUsername n) (\<lambda>r. ret (h r)))) (\<lambda>_. auth_ok M) (auth_ok M)" for n ro h
    by (rule t_preserves) (intro preserves_intros p_createUser p_tables [OF keeps_tables_reads(3)])
  have body: "triple (auth_ok M) (andThen (getUserByUsername n) (\<lambda>existing. case existing of
      None \<Rightarrow> andThen (createUser P n None None ro HeaderAuth None corr None) (\<lambda>_.
        andThen (getUserByUsername n) (\<lambda>r. ret (h r)))
    | Some u \<Rightarrow> andThen (liftR (ensureAccountCanAutoLink u HeaderAuth corr)) (\<lambda>_.
        andThen (syncExternalAccount u HeaderAuth None (uEmail u)) (\<lambda>v. ret (g v))))) (\<lambda>_. auth_ok M) (auth_ok M)"
    for n ro h g
    by (rule t_andThen [OF t_getUserByUsername], rule t_found) (rule other, rule link)
  show "triple (auth_ok M) (authenticateTrustedHeaders P L tr ip hs corr) (\<lambda>_. auth_ok M) (auth_ok M)"
    unfolding authenticateTrustedHeaders_def Let_def
    by (auto intro!: t_ret t_raise body split: option.split)
qed

lemma p_failLogin: "preserves (auth_ok M) (failLocalLogin P L n us ip ua corr e fr)"
  unfolding failLocalLogin_def Let_def
  by (intro p_tables keeps_intros keeps_tables_log keeps_tables_login_audit)

lemma p_loginLocal: "preserves (auth_ok M) (loginLocal P L n pw ip ua corr)"
proof -
  have "triple (\<lambda>w. auth_ok M w \<and> has_row u w) (createSessionForUser P L u LocalAuth ip ua corr) (\<lambda>_. auth_ok M) (auth_ok M)" for u
    by (rule t_pre [OF t_createSession]) (auto intro: has_row_usable)
  moreover have "triple (\<lambda>w. auth_ok M w \<and> has_row u w) (failLocalLogin P L n us ip ua corr e fr) (\<lambda>_. auth_ok M) (auth_ok M)" for u us e fr
    by (rule t_pre [OF t_preserves [OF p_failLogin]]) (erule conjunct1)
  ultimately show ?thesis
    unfolding loginLocal_def Let_def
    apply (intro preserves_t t_if)
     apply (rule t_preserves [OF p_failLogin])
    apply (rule t_andThen [OF t_getUserByUsername])
    apply (rule t_found)
     apply (rule t_preserves [OF p_failLogin])
    apply (intro t_if)
    apply assumption+
    done
qed

lemma t_listUsers: "triple (auth_ok M) listUsers (\<lambda>us w. auth_ok M w \<and> (\<forall>u \<in> set us. has_row u w)) (auth_ok M)"
  unfolding listUsers_def
  by (rule tripleI) (auto simp: dbRead_def dbGate_def andThen_def has_row_def split: list.splits if_splits)

lemma t_protect:
  assumes "uAuthSource u = LocalAuth" "uRole u = UserRole SuperAdmin"
  shows "triple (\<lambda>w. auth_ok M w \<and> has_row u w) (setUserProtectedFromAutoLink (uId u) True t) (\<lambda>_. auth_ok M) (auth_ok M)"
  unfolding setUserProtectedFromAutoLink_def
  by (rule t_dbWrite) (auto simp: has_row_def isMcpPrincipal_def assms intro!: auth_ok_update)

lemma p_protection: "preserves (auth_ok M) (ensureBootstrapAdminProtection n)"
proof -
  have cand: "triple (auth_ok M) (andThen (getUserByUsername n) (\<lambda>b. case b of
        None \<Rightarrow> andThen listUsers (\<lambda>us. ret (filter Q us)) | Some u \<Rightarrow> ret [u]))
      (\<lambda>us w. auth_ok M w \<and> (\<forall>u \<in> set us. has_row u w)) (auth_ok M)" for Q
    by (rule t_andThen [OF t_getUserByUsername], rule t_found)
      (auto intro!: t_ret t_andThen [OF t_listUsers])
  have act: "triple (\<lambda>w. auth_ok M w \<and> (\<forall>u \<in> set us. has_row u w)) (case us of
      [u] \<Rightarrow> (if uProtected u \<or> uAuthSource u \<noteq> LocalAuth \<or> uRole u \<noteq> UserRole SuperAdmin then ret ()
        else andThen now (\<lambda>t. setUserProtectedFromAutoLink (uId u) True t))
    | _ \<Rightarrow> ret ()) (\<lambda>_. auth_ok M) (auth_ok M)" for us
    by (auto split: list.split intro!: t_ret t_row(2) t_protect)
  show ?thesis
    unfolding ensureBootstrapAdminProtection_def
    by (rule preserves_t) (use t_andThen [OF cand act] in \<open>simp only: andThen_assoc\<close>)
qed

lemma p_bootstrapAdmin: "preserves (auth_ok M) (bootstrapInitialAdmin P L corr)"
  unfolding bootstrapInitialAdmin_def Let_def
  by (intro preserves_intros p_now p_protection p_tables [OF keeps_tables_reads(5)] p_tables [OF in_tables.fr_draw]
      p_tables [OF in_tables.fr_createBootstrapPassword] p_tables [OF in_tables.fr_createOpaqueToken]
      preserves_t [OF t_insertUser]) simp_all

lemma p_bothOf: "preserves I m \<Longrightarrow> preserves I n \<Longrightarrow> preserves I (bothOf m n)"
  by (fastforce simp: preserves_def along_def bothOf_def split: prod.splits)

lemma p_maintenance: "preserves (auth_ok M) runMaintenance"
  unfolding runMaintenance_def by (intro preserves_intros p_now p_bothOf p_writes)

lemma p_beginOidc: "preserves (auth_ok M) (beginOidcLogin P V L r corr)"
  unfolding beginOidcLogin_def
  by (intro preserves_intros p_now p_writes p_tables [OF in_auth_tables.fr_authorization])
    (auto split: prod.split intro!: preserves_intros p_now p_writes p_tables [OF in_auth_tables.fr_authorization])

lemma p_oidcBody: "preserves (auth_ok M) (oidcLoginBody P V L u ip ua corr)"
proof -
  have session: "triple (\<lambda>w. auth_ok M w \<and> usable v w)
      (andThen (createSessionForUser P L v OidcAuth ip ua corr) (\<lambda>s. ret (s, d))) (\<lambda>_. auth_ok M) (auth_ok M)" for v d
    by (rule t_andThen [OF t_createSession]) (rule t_ret)
  have "preserves (auth_ok M) (andThen (reconcileExternalUser P L sub n em corr) (\<lambda>v.
      andThen (createSessionForUser P L v OidcAuth ip ua corr) (\<lambda>s. ret (s, d))))" for sub n em d
    by (rule preserves_t) (rule t_andThen [OF t_reconcile session])
  note last = this
  have body: "preserves (auth_ok M) (andThen (getAuthRequest st) (\<lambda>found. case found of
      None \<Rightarrow> raise e | Some request \<Rightarrow> if st = [] then raise e else
        andThen (deleteAuthRequest st) (\<lambda>_.
        andThen (exchangeOidcCallback P V c secret r u st (arCodeVerifier request) corr) (\<lambda>x.
        if claimSubject x = [] then raise e' else andThen (liftR (claimUsername c x)) (\<lambda>n.
          andThen (reconcileExternalUser P L (claimSubject x) n (claimEmail c x) corr) (\<lambda>v.
          andThen (createSessionForUser P L v OidcAuth ip ua corr) (\<lambda>s.
          ret (s, getSafePostLoginRedirectPath P L (arRedirectTo request)))))))))" for st e e' c secret r
    apply (rule preserves_intros(6) [OF p_tables [OF keeps_tables_reads(6)]])
    apply (rule preserves_intros(11) [OF preserves_intros(2)])
    apply (rule preserves_intros(10) [OF preserves_intros(2)])
    apply (rule preserves_intros(6) [OF p_writes(5)])
    apply (rule preserves_intros(6) [OF p_tables [OF in_auth_tables.fr_exchange]])
    apply (rule preserves_intros(10) [OF preserves_intros(2)])
    apply (rule preserves_intros(6) [OF preserves_intros(4)])
    apply (rule last)
    done
  show ?thesis
    unfolding oidcLoginBody_def Let_def
    by (cases "oidcSettings L") (auto simp: preserves_intros(2) split: prod.split intro: body)
qed

lemma p_completeOidc: "preserves (auth_ok M) (completeOidcLogin P V L u ip ua corr)"
  unfolding completeOidcLogin_def Let_def
  by (intro preserves_intros p_oidcBody p_tables [OF keeps_tables_login_audit])

section \<open>The service as a state machine\<close>

text \<open>
  One step is one call of a public method of the service, whatever its arguments and its outcome, or
  something that happens elsewhere: time passes, another component writes its own tables.
\<close>

inductive auth_step :: "'b platform \<Rightarrow> 'b oidc_library \<Rightarrow> loaded_config \<Rightarrow> ('b, 'z) auth_world_scheme \<Rightarrow> ('b, 'z) auth_world_scheme \<Rightarrow> bool"
  for P V L where
  login: "auth_step P V L w (after (loginLocal P L n pw ip ua corr) w)"
| oidc_begin: "auth_step P V L w (after (beginOidcLogin P V L r corr) w)"
| oidc_complete: "auth_step P V L w (after (completeOidcLogin P V L u ip ua corr) w)"
| header: "auth_step P V L w (after (authenticateTrustedHeaders P L tr ip hs corr) w)"
| cookie: "auth_step P V L w (after (getUserFromCookie P L c) w)"
| signOut: "auth_step P V L w (after (logout P L c) w)"
| create: "auth_step P V L w (after (createUser P n em pw0 ro src su corr actor) w)"
| change: "auth_step P V L w (after (updateUser P k em ro di pw0 corr actor) w)"
| delete: "auth_step P V L w (after (deleteUser k corr actor) w)"
| bootstrap: "auth_step P V L w (after (bootstrapInitialAdmin P L corr) w)"
| maintenance: "auth_step P V L w (after runMaintenance w)"
| elsewhere: "tables w' = tables w \<Longrightarrow> auth_step P V L w w'"

inductive auth_reachable :: "'b platform \<Rightarrow> 'b oidc_library \<Rightarrow> loaded_config \<Rightarrow> ('b, 'z) auth_world_scheme \<Rightarrow> ('b, 'z) auth_world_scheme \<Rightarrow> bool"
  for P V L w0 where
  start: "auth_reachable P V L w0 w0"
| next_step: "auth_reachable P V L w0 w \<Longrightarrow> auth_step P V L w w' \<Longrightarrow> auth_reachable P V L w0 w'"

inductive_cases auth_stepE: "auth_step P V L w w'"

lemma p_step: "preserves I m \<Longrightarrow> w' = after m w \<Longrightarrow> I w \<Longrightarrow> I w'"
  by (simp add: preserves_after)

lemmas p_operations = p_loginLocal p_beginOidc p_completeOidc p_header p_getUserFromCookie p_logout p_createUser
  preserves_t [OF t_updateUser] preserves_t [OF t_deleteUser] p_bootstrapAdmin p_maintenance

lemma auth_step_ok: "auth_step P V L w w' \<Longrightarrow> auth_ok M w \<Longrightarrow> auth_ok M w'"
  by (erule auth_stepE) (erule p_operations [THEN p_step], assumption | rule auth_ok_tables [THEN iffD2], assumption+)+

lemma auth_reachable_ok: "auth_reachable P V L w0 w \<Longrightarrow> auth_ok M w0 \<Longrightarrow> auth_ok M w"
  by (induction rule: auth_reachable.induct) (auto dest: auth_step_ok)

text \<open>
  C3: whatever is called of the service, in any order and with any outcome, the reserved MCP account
  stays exactly as it was, no session ever belongs to it, every session belongs to an account and claims
  no newer version of it than it has, and the constraints of the tables hold.
\<close>

theorem mcp_account_sealed:
  assumes "auth_reachable P V L w0 w" and "auth_ok (mcpRows w0) w0"
  shows "mcpRows w = mcpRows w0 \<and> db_ok w \<and>
    (\<forall>s \<in> set (sessions w). \<exists>u \<in> set (users w). uId u = sUserId s \<and> \<not> isMcpPrincipal u \<and>
      sSessionVersion s \<le> uSessionVersion u)"
proof -
  have "auth_ok (mcpRows w0) w" by (rule auth_reachable_ok [OF assms])
  then show ?thesis by (simp add: auth_ok_def list_all_iff session_ok_def)
qed

definition sample_mcp_row :: user_row where
  "sample_mcp_row = \<lparr>uId = ''mcp-system'', uUsername = ''mcp'', uEmail = None, uRole = McpRole, uAuthSource = McpAuth,
    uExternalSubject = None, uPasswordHash = None, uProtected = True, uDisabled = False, uSessionVersion = 0,
    uCreatedAt = 0, uUpdatedAt = 0\<rparr>"

definition sample_accounts :: "user_row list \<Rightarrow> session_row list \<Rightarrow> auth_request_row list \<Rightarrow> sample_outside auth_world" where
  "sample_accounts us ss rs = \<lparr>clock = 1000, draws = 0, logs = [], outside = sample_start [] [] [], users = us,
    sessions = ss, auth_requests = rs, audit_log = [], settings = [], snapshots = [], dbFaults = [],
    provisionedAt = None, bootError = None, bootStatus = idleOperationStatus, oidcCache = None\<rparr>"

lemma sample_accounts_ok: "auth_ok (mcpRows (sample_accounts [sample_mcp_row] [] [])) (sample_accounts [sample_mcp_row] [] [])"
  by (simp add: auth_ok_def db_ok_def sample_accounts_def sample_mcp_row_def account_ok_def isMcpPrincipal_def)

theorem mcp_account_sealed_witness:
  "mcpRows (after (createUser sample_platform ''bob'' None (Some ''pw'') SuperAdmin LocalAuth None None None)
    (sample_accounts [sample_mcp_row] [] [])) = [sample_mcp_row]"
proof -
  let ?w = "sample_accounts [sample_mcp_row] [] []"
  have "auth_reachable sample_platform V L ?w
      (after (createUser sample_platform ''bob'' None (Some ''pw'') SuperAdmin LocalAuth None None None) ?w)" for V L
    by (rule next_step [OF start]) (rule create)
  from mcp_account_sealed [OF this sample_accounts_ok] show ?thesis
    by (simp add: mcpRows_def sample_accounts_def sample_mcp_row_def isMcpPrincipal_def)
qed

end
