(* ===== verification/McpAuth.thy ===== *)
theory McpAuth
  imports AuthInvariant
begin

text \<open>
  The class \<open>McpAuthService\<close> of \<open>server/auth/mcp.ts\<close>: the public key, the reserved system user, the
  signed proof every request of the MCP server carries, the cache of used proofs, the access settings
  and the heartbeat. A request is what the handler reads of it; its headers are asked for by their
  lower-case names.
\<close>

section \<open>State\<close>

record heartbeat_input =
  hbVersion :: string
  hbBuildHash :: string
  hbInstanceId :: string
  hbStartedAt :: string
  hbHeartbeatAt :: string

text \<open>The cache maps the id of a used proof to the second it expires in.\<close>

record 'b mcp_world = "'b auth_world" +
  mcpKey :: "string option"
  mcpFingerprint :: "string option"
  mcpHeartbeat :: "(heartbeat_input \<times> int) option"
  mcpReplay :: "(string \<times> int) list"

type_synonym ('b, 'z, 'a) mcpio = "(('b, 'z) mcp_world_scheme, 'a) io"

record incoming_request =
  irMethod :: string
  irUrl :: string
  irHeader :: "string \<Rightarrow> string option"
  irBody :: "exn + string"

definition mcpSystemUserId :: string where "mcpSystemUserId = ''system:mcp''"
definition mcpSystemUsername :: string where "mcpSystemUsername = ''mcp''"
definition mcpServiceSubject :: string where "mcpServiceSubject = ''_service''"
definition mcpSettingsScope :: string where "mcpSettingsScope = ''auth.mcp''"
definition mcpAllowedCapabilitiesKey :: string where "mcpAllowedCapabilitiesKey = ''allowedCapabilities''"

abbreviation mcpConfig :: "loaded_config \<Rightarrow> mcp_config" where
  "mcpConfig L \<equiv> acMcp (cfAuth (ldConfig L))"

definition mcpConfigured :: "loaded_config \<Rightarrow> bool" where
  "mcpConfigured L = mcEnabled (mcpConfig L)"

section \<open>Names, paths, JSON\<close>

text \<open>\<open>/^[A-Za-z0-9][A-Za-z0-9._-]{0,127}$/\<close>.\<close>

definition ascii_alnum :: "char \<Rightarrow> bool" where
  "ascii_alnum c = (let n = (of_char c :: nat) in
    (48 \<le> n \<and> n \<le> 57) \<or> (65 \<le> n \<and> n \<le> 90) \<or> (97 \<le> n \<and> n \<le> 122))"

definition clientNamePattern :: "string \<Rightarrow> bool" where
  "clientNamePattern s = (case s of [] \<Rightarrow> False
     | c # t \<Rightarrow> ascii_alnum c \<and> length t \<le> 127 \<and> list_all (\<lambda>d. ascii_alnum d \<or> d \<in> set ''._-'') t)"

definition safeReadMethods :: "string list" where "safeReadMethods = [''GET'', ''HEAD'']"

definition transientReadPaths :: "string list" where
  "transientReadPaths = [''POST /api/mcp/heartbeat'', ''POST /api/mqtt/connect'', ''POST /api/mqtt/disconnect'',
    ''POST /api/mqtt/messages'', ''POST /api/mqtt/subscribe'', ''POST /api/mqtt/unsubscribe'']"

definition parseJsonPart :: "'b platform \<Rightarrow> string \<Rightarrow> jsval" where
  "parseJsonPart P v = (case jsonParse (b64url_decode P v) of Inr x \<Rightarrow> x | Inl _ \<Rightarrow> Null)"

definition bodyDigest :: "'b platform \<Rightarrow> string \<Rightarrow> string" where
  "bodyDigest P bytes = sha256_b64url P bytes"

definition isCapability :: "string \<Rightarrow> capability option" where
  "isCapability s = List.find (\<lambda>c. capability_str c = s) capabilities"

text \<open>A \<open>Set\<close> of the entries, spread into a list: each once, where it is first.\<close>

fun uniqueFirst :: "'a list \<Rightarrow> 'a list" where
  "uniqueFirst [] = []"
| "uniqueFirst (x # xs) = x # filter (\<lambda>y. y \<noteq> x) (uniqueFirst xs)"

definition normalizeCapabilities :: "jsval \<Rightarrow> capability list" where
  "normalizeCapabilities v = (case v of
      Arr vs \<Rightarrow> uniqueFirst (filter (\<lambda>c. c \<noteq> ManageMcp)
        (List.map_filter (\<lambda>x. case x of Str s \<Rightarrow> isCapability s | _ \<Rightarrow> None) vs))
    | _ \<Rightarrow> defaultMcpCapabilities)"

section \<open>Start\<close>

definition fatalKeyError :: "loaded_config \<Rightarrow> exn \<Rightarrow> string \<Rightarrow> (('b, 'z) base_world_scheme, exn) io" where
  "fatalKeyError L err stage =
    (let file = mcPublicKeyFile (mcpConfig L) in
     generateError ''mcpAuth::initialize''
       (''MCP authentication is enabled, but mqttctl could not load the required Ed25519 public key at '' @ file @
        ''. mqttctl is intentionally exiting. The key must be an Ed25519 public key in PEM SPKI format. In Docker Compose, verify that mqttctl-mcp-keygen completed and the mqttctl-mcp-public volume is mounted. To disable this check, set auth.mcp.enabled to false or MQTTCTL_MCP_AUTH_ENABLED=false.'')
       ''MCP_AUTH_PUBLIC_KEY_LOAD_FAILED'' (Some err) False None
       (Obj [(''mcpAuthEnabled'', Bool True), (''publicKeyFile'', Str file),
             (''requiredFormat'', Str ''PEM SPKI Ed25519 public key''), (''stage'', Str stage),
             (''keyGeneratorService'', Str ''mqttctl-mcp-keygen''), (''publicKeyVolume'', Str ''mqttctl-mcp-public''),
             (''disableConfig'', Str ''auth.mcp.enabled=false''),
             (''disableEnvironment'', Str ''MQTTCTL_MCP_AUTH_ENABLED=false'')]) 500 None)"

definition keyFailure :: "loaded_config \<Rightarrow> string \<Rightarrow> exn \<Rightarrow> (('b, 'z) base_world_scheme, 'a) io" where
  "keyFailure L stage e = andThen (fatalKeyError L e stage) raise"

definition loadPublicKey :: "'b platform \<Rightarrow> loaded_config \<Rightarrow> ('b, 'z, unit) mcpio" where
  "loadPublicKey P L =
    (let file = mcPublicKeyFile (mcpConfig L) in
     andThen (catching
       (andThen (callOut (stat_is_file P file)) (\<lambda>isFile.
        if \<not> isFile then raise (PlainErr ''Error'' ''Configured MCP public-key path is not a regular file.'' None)
        else ret ()))
       (keyFailure L ''stat'')) (\<lambda>_.
     andThen (catching (callOut (read_file P file)) (keyFailure L ''read'')) (\<lambda>pem.
     catching
       (andThen (liftR (load_public_key P pem)) (\<lambda>(type, key).
        if type \<noteq> Some ''ed25519'' then
          raise (PlainErr ''Error'' (''Configured MCP public key has type '' @ (case type of Some t \<Rightarrow> t | None \<Rightarrow> ''unknown'')
            @ '', expected ed25519.'') None)
        else modify (\<lambda>w. w\<lparr>mcpKey := Some key, mcpFingerprint := Some (key_fingerprint P key)\<rparr>)))
       (keyFailure L ''parse''))))"

definition systemUserRow :: "int \<Rightarrow> user_row" where
  "systemUserRow t = \<lparr>uId = mcpSystemUserId, uUsername = mcpSystemUsername, uEmail = None, uRole = McpRole,
    uAuthSource = McpAuth, uExternalSubject = None, uPasswordHash = None, uProtected = True, uDisabled = False,
    uSessionVersion = 0, uCreatedAt = t, uUpdatedAt = t\<rparr>"

definition systemUserConflict :: "user_row \<Rightarrow> user_row option \<Rightarrow> user_row option \<Rightarrow> bool" where
  "systemUserConflict existing byId byUsername =
    (uId existing \<noteq> mcpSystemUserId \<or> uUsername existing \<noteq> mcpSystemUsername
     \<or> uAuthSource existing \<noteq> McpAuth \<or> uRole existing \<noteq> McpRole
     \<or> (case (byId, byUsername) of (Some a, Some b) \<Rightarrow> uId a \<noteq> uId b | _ \<Rightarrow> False))"

definition ensureSystemUser :: "('b, 'z, unit) dbio" where
  "ensureSystemUser =
    andThen (getUserById mcpSystemUserId) (\<lambda>byId.
    andThen (getUserByUsername mcpSystemUsername) (\<lambda>byUsername.
    case (case byId of Some u \<Rightarrow> Some u | None \<Rightarrow> byUsername) of
      None \<Rightarrow> andThen now (\<lambda>t. insertUser (systemUserRow t))
    | Some existing \<Rightarrow>
        if systemUserConflict existing byId byUsername then
          andThen (generateError ''mcpAuth::ensureSystemUser''
            ''The reserved mqttctl MCP system-user identity conflicts with an existing user.''
            ''MCP_AUTH_SYSTEM_USER_CONFLICT'' None False None
            (Obj [(''expectedId'', Str mcpSystemUserId), (''expectedUsername'', Str mcpSystemUsername),
                  (''existingId'', Str (uId existing)),
                  (''existingAuthSource'', Str (auth_method_str (uAuthSource existing))),
                  (''existingRole'', Str (role_str (uRole existing)))]) 500 None) raise
        else if uEmail existing \<noteq> None \<or> uPasswordHash existing \<noteq> None \<or> uExternalSubject existing \<noteq> None
                \<or> \<not> uProtected existing then
          andThen now (\<lambda>t.
          andThen (updateUserRow (uId existing) None McpRole McpAuth None None (uDisabled existing)
            (uSessionVersion existing + 1) t) (\<lambda>_.
          andThen (deleteSessionsForUser (uId existing)) (\<lambda>_.
          setUserProtectedFromAutoLink (uId existing) True t)))
        else ret ()))"

definition mcpInitialize :: "'b platform \<Rightarrow> loaded_config \<Rightarrow> ('b, 'z, unit) mcpio" where
  "mcpInitialize P L =
    (if \<not> mcpConfigured L then ret ()
     else
       andThen (loadPublicKey P L) (\<lambda>_.
       andThen ensureSystemUser (\<lambda>_.
       andThen (gets mcpFingerprint) (\<lambda>fp.
       emit ((logEvent LogInfo ''mcpAuth::initialize'' ''MCP machine authentication initialized.'' None
         (Obj [(''keyId'', Str (mcKeyId (mcpConfig L))), (''publicKeyFile'', Str (mcPublicKeyFile (mcpConfig L))),
               (''publicKeyFingerprint'', opt_str fp), (''audience'', Str (mcAudience (mcpConfig L)))]))
         \<lparr>evLoggerKey := Some ''MCP_AUTH_INITIALIZED''\<rparr>)))))"

definition getSystemUser :: "('b, 'z, user_row option) dbio" where
  "getSystemUser = getUserById mcpSystemUserId"

definition getAllowedCapabilities :: "('b, 'z, capability list) dbio" where
  "getAllowedCapabilities =
    andThen (getSetting mcpSettingsScope mcpAllowedCapabilitiesKey) (\<lambda>stored. ret (normalizeCapabilities stored))"

definition toAuthenticatedUser :: "user_row \<Rightarrow> capability list \<Rightarrow> delegated_identity \<Rightarrow> authenticated_user" where
  "toAuthenticatedUser u caps d = \<lparr>auId = uId u, auUsername = uUsername u, auEmail = None, auRole = McpRole,
    auAuthSource = McpAuth, auCapabilities = Some caps, auDelegated = Some d\<rparr>"

section \<open>The proof of a request\<close>

definition refuseProof ::
  "string \<Rightarrow> string \<Rightarrow> string option \<Rightarrow> int \<Rightarrow> jsval \<Rightarrow> exn option \<Rightarrow> (('b, 'z) base_world_scheme, 'a) io" where
  "refuseProof reason key corr status ctx err =
    andThen (generateError ''mcpAuth::authenticateRequest'' reason key err False corr ctx status None) raise"

definition proofInvalid :: "string \<Rightarrow> string option \<Rightarrow> (('b, 'z) base_world_scheme, 'a) io" where
  "proofInvalid reason corr = refuseProof reason ''MCP_AUTH_PROOF_INVALID'' corr 401 Null None"

record mcp_claims =
  mcIss :: string
  mcAud :: string
  mcSub :: string
  mcAccess :: string
  mcIat :: int
  mcExp :: int
  mcJti :: string
  mcHtm :: string
  mcHtu :: string
  mcBody :: string

definition int_of_value :: "jsval \<Rightarrow> int option" where
  "int_of_value v = (case v of Num (Fin r) \<Rightarrow> if is_integer r then Some (fst (quotient_of r)) else None | _ \<Rightarrow> None)"

text \<open>The required claims, when each has its type.\<close>

definition requiredClaims :: "jsval \<Rightarrow> mcp_claims option" where
  "requiredClaims c =
    (let s = (\<lambda>k. str_of (getProp k c)); i = (\<lambda>k. int_of_value (getProp k c)) in
     case (map s [''iss'', ''aud'', ''sub'', ''access'', ''jti'', ''htm'', ''htu'', ''body_sha256''], map i [''iat'', ''exp'']) of
       ([Some iss, Some aud, Some sub, Some acc, Some jti, Some htm, Some htu, Some bd], [Some iat, Some ex]) \<Rightarrow>
         Some \<lparr>mcIss = iss, mcAud = aud, mcSub = sub, mcAccess = acc, mcIat = iat, mcExp = ex, mcJti = jti,
           mcHtm = htm, mcHtu = htu, mcBody = bd\<rparr>
     | _ \<Rightarrow> None)"

record refusal =
  rfReason :: string
  rfKey :: string
  rfStatus :: int
  rfContext :: jsval

abbreviation invalid_because :: "string \<Rightarrow> refusal" where
  "invalid_because reason \<equiv> \<lparr>rfReason = reason, rfKey = ''MCP_AUTH_PROOF_INVALID'', rfStatus = 401, rfContext = Null\<rparr>"

text \<open>The first check that a proof with all its claims fails, in the order of the source.\<close>

definition claimsRefusal ::
  "mcp_config \<Rightarrow> int \<Rightarrow> string \<Rightarrow> url \<Rightarrow> string \<Rightarrow> mcp_claims \<Rightarrow> refusal option" where
  "claimsRefusal c nowSeconds requestMethod u digest v =
    (let method = toUpperCase requestMethod; requestKey = method @ '' '' @ urlPathname u in
     if mcIss v \<noteq> ''mqttctl-mcp'' \<or> mcAud v \<noteq> mcAudience c then
       Some (invalid_because ''MCP request proof issuer or audience is invalid.'')
     else if mcAccess v \<noteq> ''read'' \<and> mcAccess v \<noteq> ''readwrite'' then
       Some (invalid_because ''MCP request proof access value is invalid.'')
     else if mcSub v \<noteq> mcpServiceSubject \<and> \<not> clientNamePattern (mcSub v) then
       Some (invalid_because ''MCP request proof subject is invalid.'')
     else if nowSeconds + mcClockSkewSeconds c < mcIat v \<or> mcExp v < nowSeconds - mcClockSkewSeconds c
             \<or> mcExp v \<le> mcIat v \<or> mcMaxProofAgeSeconds c < mcExp v - mcIat v then
       Some (invalid_because ''MCP request proof timestamp window is invalid or expired.'')
     else if mcHtm v \<noteq> method \<or> mcHtu v \<noteq> urlPathname u @ urlSearch u \<or> mcBody v \<noteq> digest then
       Some (invalid_because ''MCP request proof is not bound to this HTTP request.'')
     else if mcAccess v = ''read'' \<and> method \<notin> set safeReadMethods \<and> requestKey \<notin> set transientReadPaths then
       Some \<lparr>rfReason = ''Read-only MCP identity cannot call this HTTP operation.'',
         rfKey = ''MCP_AUTH_READ_ONLY_METHOD_DENIED'', rfStatus = 403,
         rfContext = Obj [(''method'', Str requestMethod), (''path'', Str (urlPathname u))]\<rparr>
     else if mcSub v = mcpServiceSubject \<and> requestKey \<noteq> ''POST /api/mcp/heartbeat'' then
       Some \<lparr>rfReason = ''MCP service identity is restricted to the heartbeat endpoint.'',
         rfKey = ''MCP_AUTH_SERVICE_SUBJECT_DENIED'', rfStatus = 403, rfContext = Null\<rparr>
     else None)"

definition purgeReplayCache :: "int \<Rightarrow> ('b, 'z, unit) mcpio" where
  "purgeReplayCache nowSeconds =
    modify (\<lambda>w. w\<lparr>mcpReplay := filter (\<lambda>(jti, expires). \<not> expires < nowSeconds) (mcpReplay w)\<rparr>)"

definition rememberJti :: "loaded_config \<Rightarrow> string \<Rightarrow> int \<Rightarrow> int \<Rightarrow> string option \<Rightarrow> ('b, 'z, unit) mcpio" where
  "rememberJti L jti expires nowSeconds corr =
    andThen (purgeReplayCache nowSeconds) (\<lambda>_.
    andThen (gets mcpReplay) (\<lambda>cache.
    let limit = mcReplayCacheMaxEntries (mcpConfig L) in
    if jti \<in> fst ` set cache then
      refuseProof ''MCP request proof was replayed.'' ''MCP_AUTH_PROOF_REPLAYED'' corr 401 Null None
    else if limit \<le> int (length cache) then
      refuseProof ''MCP request replay cache is full.'' ''MCP_AUTH_REPLAY_CACHE_FULL'' corr 503
        (Obj [(''maxEntries'', num_int limit)]) None
    else modify (\<lambda>w. w\<lparr>mcpReplay := mcpReplay w @ [(jti, expires)]\<rparr>)))"

definition validateClaims ::
  "'b platform \<Rightarrow> loaded_config \<Rightarrow> jsval \<Rightarrow> incoming_request \<Rightarrow> string \<Rightarrow> string option \<Rightarrow> ('b, 'z, mcp_claims) mcpio" where
  "validateClaims P L claims request digest corr =
    (case requiredClaims claims of
       None \<Rightarrow> proofInvalid ''MCP request proof is missing required claims.'' corr
     | Some v \<Rightarrow>
        andThen now (\<lambda>t.
        let nowSeconds = t div 1000; c = mcpConfig L in
        case parse_url P (irUrl request) None of
          None \<Rightarrow> raise (typeError ''Invalid URL'')
        | Some u \<Rightarrow>
           (case claimsRefusal c nowSeconds (irMethod request) u digest v of
              Some r \<Rightarrow> refuseProof (rfReason r) (rfKey r) corr (rfStatus r) (rfContext r) None
            | None \<Rightarrow>
               andThen (rememberJti L (mcJti v) (mcExp v + mcClockSkewSeconds c) nowSeconds corr) (\<lambda>_. ret v))))"

text \<open>\<open>/^MQTTCTL-MCP\s+([^\s]+)$/i\<close>: the token.\<close>

definition mcpToken :: "string \<Rightarrow> string option" where
  "mcpToken a =
    (let rest = drop 11 a; token = trimStart rest in
     if toLowerCase (take 11 a) = ''mqttctl-mcp'' \<and> token \<noteq> rest \<and> token \<noteq> [] \<and> list_all (\<lambda>c. \<not> js_space c) token
     then Some token else None)"

definition headerValid :: "loaded_config \<Rightarrow> jsval \<Rightarrow> bool" where
  "headerValid L h = (getProp ''alg'' h = Str ''EdDSA'' \<and> getProp ''typ'' h = Str ''mqttctl-mcp+jwt''
    \<and> getProp ''kid'' h = Str (mcKeyId (mcpConfig L)))"

definition mcp_access_of :: "string \<Rightarrow> mcp_access" where
  "mcp_access_of s = (if s = ''read'' then McpRead else McpReadWrite)"

text \<open>The proof of a token in its three parts; the body is read only after the signature is checked.\<close>

definition checkProof ::
  "'b platform \<Rightarrow> loaded_config \<Rightarrow> string \<Rightarrow> string list \<Rightarrow> incoming_request \<Rightarrow> string option \<Rightarrow> ('b, 'z, mcp_claims) mcpio" where
  "checkProof P L key parts request corr =
    (case parts of
       [protectedPart, payloadPart, signaturePart] \<Rightarrow>
         (let header = parseJsonPart P protectedPart; claims = parseJsonPart P payloadPart in
          if \<not> truthy header \<or> \<not> truthy claims then
            proofInvalid ''MCP request proof JSON is invalid.'' corr
          else if \<not> headerValid L header then
            proofInvalid ''MCP request proof protected header is invalid.'' corr
          else if \<not> ed25519_verify P key (protectedPart @ ''.'' @ payloadPart) (b64url_bytes P signaturePart) then
            proofInvalid ''MCP request proof signature is invalid.'' corr
          else case irBody request of
            Inl e \<Rightarrow> refuseProof ''MCP request body could not be read for proof validation.''
              ''MCP_AUTH_PROOF_INVALID'' corr 401 Null (Some e)
          | Inr body \<Rightarrow> validateClaims P L claims request (bodyDigest P body) corr)
     | _ \<Rightarrow> proofInvalid ''MCP request proof format is invalid.'' corr)"

text \<open>The end of \<open>authenticateRequest\<close>: the system user, for the claims of a checked proof.\<close>

definition mcpPrincipal :: "mcp_claims \<Rightarrow> string option \<Rightarrow> ('b, 'z, authenticated_user option) dbio" where
  "mcpPrincipal v corr =
    andThen getSystemUser (\<lambda>user.
    case user of
      None \<Rightarrow> refuseProof ''MCP system user is unavailable.'' ''MCP_AUTH_SYSTEM_USER_UNAVAILABLE'' corr 503 Null None
    | Some u \<Rightarrow>
       if uAuthSource u \<noteq> McpAuth \<or> uRole u \<noteq> McpRole then
         refuseProof ''MCP system user is unavailable.'' ''MCP_AUTH_SYSTEM_USER_UNAVAILABLE'' corr 503 Null None
       else if uDisabled u then
         refuseProof ''The mqttctl MCP user is disabled.'' ''MCP_AUTH_USER_DISABLED'' corr 403 Null None
       else andThen getAllowedCapabilities (\<lambda>caps.
         ret (Some (toAuthenticatedUser u caps
           \<lparr>delegateName = mcSub v, delegateAccess = mcp_access_of (mcAccess v)\<rparr>))))"

definition authenticateRequest ::
  "'b platform \<Rightarrow> loaded_config \<Rightarrow> incoming_request \<Rightarrow> string option \<Rightarrow> ('b, 'z, authenticated_user option) mcpio" where
  "authenticateRequest P L request corr =
    (if \<not> mcpConfigured L then ret None
     else case Option.bind (irHeader request ''authorization'') mcpToken of
       None \<Rightarrow> ret None
     | Some token \<Rightarrow>
        andThen (gets mcpKey) (\<lambda>key.
        case key of
          None \<Rightarrow> refuseProof ''MCP public key is not initialized.'' ''MCP_AUTH_PROOF_INVALID'' corr 503 Null None
        | Some k \<Rightarrow>
           andThen (checkProof P L k (splitOn (CHR ''.'') token) request corr) (\<lambda>v. mcpPrincipal v corr)))"

section \<open>Access settings and heartbeat\<close>

definition setAccess :: "loaded_config \<Rightarrow> bool \<Rightarrow> string list \<Rightarrow> ('b, 'z, unit) mcpio" where
  "setAccess L disabled allowed =
    (if \<not> mcpConfigured L then
       andThen (generateError ''mcpAuth::setAccess'' ''MCP authentication is disabled in mqttctl configuration.''
         ''MCP_AUTH_SYSTEM_USER_UNAVAILABLE'' None False None
         (Obj [(''enableConfig'', Str ''auth.mcp.enabled=true''),
               (''enableEnvironment'', Str ''MQTTCTL_MCP_AUTH_ENABLED=true'')]) 503 None) raise
     else
       andThen getSystemUser (\<lambda>user.
       case user of
         None \<Rightarrow> andThen (generateError ''mcpAuth::setAccess'' ''MCP system user is unavailable.''
           ''MCP_AUTH_SYSTEM_USER_UNAVAILABLE'' None False None Null 503 None) raise
       | Some u \<Rightarrow>
          let caps = normalizeCapabilities (Arr (map Str allowed)); changed = (disabled \<noteq> uDisabled u) in
          andThen now (\<lambda>t.
          andThen (bothOf
            (updateUserRow (uId u) None McpRole McpAuth None None disabled
              (uSessionVersion u + (if changed then 1 else 0)) t)
            (setSetting mcpSettingsScope mcpAllowedCapabilitiesKey (Arr (map (\<lambda>c. Str (capability_str c)) caps)) t)) (\<lambda>_.
          andThen (whenever changed (deleteSessionsForUser (uId u))) (\<lambda>_.
          whenever disabled (modify (\<lambda>w. w\<lparr>mcpHeartbeat := None\<rparr>)))))))"

definition recordHeartbeat :: "heartbeat_input \<Rightarrow> ('b, 'z, unit) mcpio" where
  "recordHeartbeat input = andThen now (\<lambda>t. modify (\<lambda>w. w\<lparr>mcpHeartbeat := Some (input, t)\<rparr>))"

record mcp_runtime =
  mrEnabled :: bool
  mrConnected :: bool
  mrReason :: string
  mrVersion :: "string option"
  mrBuildHash :: "string option"
  mrInstanceId :: "string option"
  mrStartedAt :: "string option"
  mrLastSeenAt :: "int option"
  mrHeartbeatExpiresAt :: "int option"

definition getRuntimeInfo :: "loaded_config \<Rightarrow> ('b, 'z, mcp_runtime) mcpio" where
  "getRuntimeInfo L =
    (if \<not> mcpConfigured L then
       ret \<lparr>mrEnabled = False, mrConnected = False, mrReason = ''disabled'', mrVersion = None, mrBuildHash = None,
         mrInstanceId = None, mrStartedAt = None, mrLastSeenAt = None, mrHeartbeatExpiresAt = None\<rparr>
     else
       andThen getSystemUser (\<lambda>user.
       andThen (gets mcpHeartbeat) (\<lambda>hb.
       andThen now (\<lambda>t.
       let expires = map_option (\<lambda>(i, received). received + mcHeartbeatStaleSeconds (mcpConfig L) * 1000) hb;
           fresh = (case expires of Some e \<Rightarrow> t < e | None \<Rightarrow> False);
           field = (\<lambda>f. map_option (\<lambda>(i, received). f i) hb) in
       ret \<lparr>mrEnabled = True,
         mrConnected = (case user of None \<Rightarrow> False | Some u \<Rightarrow> \<not> uDisabled u \<and> fresh),
         mrReason = (case user of None \<Rightarrow> ''user_unavailable''
           | Some u \<Rightarrow> if uDisabled u then ''user_disabled'' else if hb = None then ''never_connected''
               else if fresh then ''connected'' else ''heartbeat_stale''),
         mrVersion = field hbVersion, mrBuildHash = field hbBuildHash, mrInstanceId = field hbInstanceId,
         mrStartedAt = field hbStartedAt, mrLastSeenAt = map_option snd hb, mrHeartbeatExpiresAt = expires\<rparr>))))"

definition getPublicKeyMetadata :: "loaded_config \<Rightarrow> ('b, 'z, string \<times> string option) mcpio" where
  "getPublicKeyMetadata L = andThen (gets mcpFingerprint) (\<lambda>fp. ret (mcKeyId (mcpConfig L), fp))"

record mcp_access_state =
  maDisabled :: bool
  maDefaultCapabilities :: "capability list"
  maAllowedCapabilities :: "capability list"
  maKeyId :: string
  maFingerprint :: "string option"
  maRuntime :: mcp_runtime

definition getAccessState :: "loaded_config \<Rightarrow> ('b, 'z, mcp_access_state) mcpio" where
  "getAccessState L =
    andThen getSystemUser (\<lambda>user.
    andThen getAllowedCapabilities (\<lambda>caps.
    andThen (getPublicKeyMetadata L) (\<lambda>(keyId, fp).
    andThen (getRuntimeInfo L) (\<lambda>runtime.
    ret \<lparr>maDisabled = (case user of Some u \<Rightarrow> uDisabled u | None \<Rightarrow> True),
         maDefaultCapabilities = defaultMcpCapabilities, maAllowedCapabilities = caps,
         maKeyId = keyId, maFingerprint = fp, maRuntime = runtime\<rparr>))))"

definition assertPrincipalEnabled :: "loaded_config \<Rightarrow> string option \<Rightarrow> ('b, 'z, unit) dbio" where
  "assertPrincipalEnabled L corr =
    andThen getSystemUser (\<lambda>user.
    let off = (case user of Some u \<Rightarrow> uDisabled u | None \<Rightarrow> False) in
    if \<not> mcpConfigured L \<or> user = None \<or> off then
      refuseProof (if off then ''The mqttctl MCP user is disabled.'' else ''MCP authentication is unavailable.'')
        (if off then ''MCP_AUTH_USER_DISABLED'' else ''MCP_AUTH_SYSTEM_USER_UNAVAILABLE'') corr
        (if off then 403 else 503) Null None
    else andThen getAllowedCapabilities (\<lambda>caps.
      if ReadCap \<notin> set caps then
        refuseProof ''The mqttctl MCP user no longer has read capability.'' ''PERMISSION_DENIED'' corr 403 Null None
      else ret ()))"

end
