(* ===== verification/McpSafety.thy ===== *)
theory McpSafety
  imports McpAuth
begin

text \<open>
  What \<open>McpAuth\<close> guarantees: no proof is accepted twice, the cache of used proofs is bounded, what an
  accepted proof was checked for, and when a change of the access settings takes effect. The service is
  a step relation in which time passes between the calls.
\<close>

section \<open>How the cache of used proofs ages\<close>

definition nowSec :: "('b, 'z) base_world_scheme \<Rightarrow> int" where
  "nowSec w = clock w div 1000"

text \<open>Time does not go back, and an entry stays until it has expired.\<close>

definition ages :: "('b, 'z) mcp_world_scheme \<Rightarrow> ('b, 'z) mcp_world_scheme \<Rightarrow> bool" where
  "ages w w' \<longleftrightarrow> clock w \<le> clock w' \<and>
    (\<forall>x \<in> set (mcpReplay w). x \<in> set (mcpReplay w') \<or> snd x < nowSec w')"

lemma ages_refl: "ages w w"
  by (simp add: ages_def)

lemma ages_trans:
  assumes "ages u v" "ages v w"
  shows "ages u w"
proof -
  have "nowSec v \<le> nowSec w" using assms(2) by (simp add: ages_def nowSec_def zdiv_mono1)
  then show ?thesis using assms unfolding ages_def by (meson order_trans less_le_trans)
qed

interpretation aging: state_relation ages
  by unfold_locales (rule ages_refl, rule ages_trans)

definition cache_part :: "('b, 'z) mcp_world_scheme \<Rightarrow> int \<times> (string \<times> int) list" where
  "cache_part w = (clock w, mcpReplay w)"

interpretation in_cache: auth_frame cache_part
  by unfold_locales (simp_all add: cache_part_def)

lemma ages_keeps: "keeps cache_part m \<Longrightarrow> along ages m"
  by (auto simp: keeps_def along_def cache_part_def ages_def)

definition cache_ok :: "mcp_config \<Rightarrow> ('b, 'z) mcp_world_scheme \<Rightarrow> bool" where
  "cache_ok c w \<longleftrightarrow> om_ok (mcpReplay w) \<and> int (length (mcpReplay w)) \<le> mcReplayCacheMaxEntries c"

lemma cache_ok_keeps: "keeps cache_part m \<Longrightarrow> preserves (cache_ok c) m"
  by (erule preserves_if_keeps) (simp add: cache_part_def cache_ok_def)

lemma kc_refuse: "keeps cache_part (refuseProof r k corr st cx e)" "keeps cache_part (proofInvalid r corr)"
  unfolding proofInvalid_def refuseProof_def by (intro in_cache.fr_base)+

lemma kc_db:
  "keeps cache_part getSystemUser" "keeps cache_part getAllowedCapabilities" "keeps cache_part (getUserByUsername n)"
  "keeps cache_part (insertUser u)" "keeps cache_part (updateUserRow k em ro sr su ph di ve st)"
  "keeps cache_part (deleteSessionsForUser k)" "keeps cache_part (setUserProtectedFromAutoLink k pr st)"
  "keeps cache_part (setSetting a b v st)"
  unfolding getSystemUser_def getAllowedCapabilities_def getSetting_def getUserById_def getUserByUsername_def
    insertUser_def updateUserRow_def deleteSessionsForUser_def setUserProtectedFromAutoLink_def setSetting_def
  by (intro in_cache.fr_base keeps_dbRead keeps_dbWrite; simp add: cache_part_def)+

lemma keeps_bothOf: "keeps f m \<Longrightarrow> keeps f n \<Longrightarrow> keeps f (bothOf m n)"
  by (rule keepsI) (auto simp: bothOf_def split: prod.splits, metis keepsD)

lemma kc_setAccess: "keeps cache_part (setAccess L off allowed)"
  unfolding setAccess_def Let_def
  by (intro in_cache.fr_base keeps_bothOf kc_db) (simp add: cache_part_def)

lemma kc_heartbeat: "keeps cache_part (recordHeartbeat h)"
  unfolding recordHeartbeat_def by (intro in_cache.fr_base) (simp add: cache_part_def)

lemma kc_keyFailure: "keeps cache_part (keyFailure L st e)"
  unfolding keyFailure_def fatalKeyError_def Let_def by (intro in_cache.fr_base)

lemma kc_setKey: "keeps cache_part (modify (\<lambda>w. w\<lparr>mcpKey := k, mcpFingerprint := f\<rparr>))"
  by (intro keeps_intros) (simp add: cache_part_def)

lemma kc_loadPublicKey: "keeps cache_part (loadPublicKey P L)"
  unfolding loadPublicKey_def Let_def
  by (intro in_cache.fr_base kc_keyFailure) (auto intro!: keeps_intros(2,12) kc_setKey split: prod.split)

lemma kc_systemUser: "keeps cache_part ensureSystemUser"
  unfolding ensureSystemUser_def getSystemUser_def [symmetric]
  by (intro in_cache.fr_base kc_db)

lemma kc_initialize: "keeps cache_part (mcpInitialize P L)"
  unfolding mcpInitialize_def by (intro in_cache.fr_base kc_loadPublicKey kc_systemUser)

text \<open>What a run of \<open>rememberJti\<close> does, with the second of the call.\<close>

lemma refuse_run: "refuseProof r k corr st cx e w = (x, w') \<Longrightarrow> \<not> succeeds x \<and> cache_part w' = cache_part w"
  using keepsD [OF kc_refuse(1), of r k corr st cx e w x w'] by (auto simp: refuseProof_def generateError_def Let_def)

lemma remember_run:
  assumes "rememberJti L jti e (nowSec w) corr w = (r, w')"
  shows "ages w w'"
    and "cache_ok (mcpConfig L) w \<Longrightarrow> cache_ok (mcpConfig L) w'"
    and "succeeds r \<Longrightarrow> (jti, e) \<in> set (mcpReplay w') \<and> users w' = users w \<and> settings w' = settings w \<and>
      (\<forall>x. (jti, x) \<in> set (mcpReplay w) \<longrightarrow> x < nowSec w)"
proof -
  let ?live = "filter (\<lambda>(j, x). \<not> x < nowSec w) (mcpReplay w)"
  let ?w = "w\<lparr>mcpReplay := ?live\<rparr>"
  let ?limit = "mcReplayCacheMaxEntries (mcpConfig L)"
  have purge: "ages w ?w" "cache_ok (mcpConfig L) w \<Longrightarrow> cache_ok (mcpConfig L) ?w"
    by (auto simp: ages_def nowSec_def cache_ok_def om_ok_filter intro: order_trans [OF _ length_filter_le])
      (use length_filter_le in \<open>metis of_nat_mono order_trans\<close>)
  have "(\<not> succeeds r \<and> cache_part w' = cache_part ?w) \<or>
    (jti \<notin> fst ` set ?live \<and> int (length ?live) < ?limit \<and> r = Inr () \<and> w' = ?w\<lparr>mcpReplay := ?live @ [(jti, e)]\<rparr>)"
    using assms
    by (auto simp: rememberJti_def purgeReplayCache_def Let_def not_le dest!: refuse_run split: if_splits)
  then consider (refused) "\<not> succeeds r" "cache_part w' = cache_part ?w"
    | (stored) "jti \<notin> fst ` set ?live" "int (length ?live) < ?limit" "r = Inr ()" "w' = ?w\<lparr>mcpReplay := ?live @ [(jti, e)]\<rparr>"
    by blast
  then show "ages w w'" "cache_ok (mcpConfig L) w \<Longrightarrow> cache_ok (mcpConfig L) w'"
    "succeeds r \<Longrightarrow> (jti, e) \<in> set (mcpReplay w') \<and> users w' = users w \<and> settings w' = settings w \<and>
      (\<forall>x. (jti, x) \<in> set (mcpReplay w) \<longrightarrow> x < nowSec w)"
    using purge
    by (cases; force simp: ages_def cache_part_def nowSec_def cache_ok_def om_ok_def)+
qed

text \<open>The claims that were checked with the request, the token and the second \<open>n\<close>.\<close>

definition checked_claims ::
  "'b platform \<Rightarrow> loaded_config \<Rightarrow> int \<Rightarrow> incoming_request \<Rightarrow> string \<Rightarrow> jsval \<Rightarrow> mcp_claims \<Rightarrow> bool" where
  "checked_claims P L n request digest claims v \<longleftrightarrow> requiredClaims claims = Some v \<and>
    (\<exists>u. parse_url P (irUrl request) None = Some u \<and> claimsRefusal (mcpConfig L) n (irMethod request) u digest v = None)"

text \<open>The effect of a run on the cache, and what it says when it accepts the claims \<open>v\<close>.\<close>

definition accepted ::
  "loaded_config \<Rightarrow> ('b, 'z) mcp_world_scheme \<Rightarrow> ('b, 'z) mcp_world_scheme \<Rightarrow> mcp_claims \<Rightarrow> bool" where
  "accepted L w w' v \<longleftrightarrow> (mcJti v, mcExp v + mcClockSkewSeconds (mcpConfig L)) \<in> set (mcpReplay w') \<and>
    users w' = users w \<and> settings w' = settings w \<and> (\<forall>x. (mcJti v, x) \<in> set (mcpReplay w) \<longrightarrow> x < nowSec w)"

definition cache_run :: "loaded_config \<Rightarrow> ('b, 'z) mcp_world_scheme \<Rightarrow> ('b, 'z) mcp_world_scheme \<Rightarrow> bool" where
  "cache_run L w w' \<longleftrightarrow> ages w w' \<and> (cache_ok (mcpConfig L) w \<longrightarrow> cache_ok (mcpConfig L) w')"

lemma cache_run_same: "cache_part w' = cache_part w \<Longrightarrow> cache_run L w w'"
  by (simp add: cache_run_def cache_part_def ages_def cache_ok_def)

lemma cache_run_trans: "cache_run L u v \<Longrightarrow> cache_run L v w \<Longrightarrow> cache_run L u w"
  using ages_trans by (auto simp: cache_run_def)

lemma validate_run:
  assumes "validateClaims P L claims request d corr w = (r, w')"
  shows "cache_run L w w' \<and>
    (\<forall>v. r = Inr v \<longrightarrow> checked_claims P L (nowSec w) request d claims v \<and> accepted L w w' v)"
proof -
  have "(\<not> succeeds r \<and> cache_part w' = cache_part w) \<or>
    (\<exists>y q. checked_claims P L (nowSec w) request d claims y \<and>
       rememberJti L (mcJti y) (mcExp y + mcClockSkewSeconds (mcpConfig L)) (nowSec w) corr w = (q, w') \<and>
       r = (case q of Inl e \<Rightarrow> Inl e | Inr _ \<Rightarrow> Inr y))"
    using assms
    by (auto simp: validateClaims_def proofInvalid_def checked_claims_def nowSec_def Let_def andThen_def
        dest!: refuse_run split: option.splits prod.splits sum.splits)
  then consider (refused) "\<not> succeeds r" "cache_part w' = cache_part w"
    | (checked) y q where "checked_claims P L (nowSec w) request d claims y"
       "rememberJti L (mcJti y) (mcExp y + mcClockSkewSeconds (mcpConfig L)) (nowSec w) corr w = (q, w')"
       "r = (case q of Inl e \<Rightarrow> Inl e | Inr _ \<Rightarrow> Inr y)"
    by blast
  then show ?thesis
  proof cases
    case refused
    then show ?thesis using cache_run_same by auto
  next
    case checked
    then show ?thesis using remember_run [OF checked(2)]
      by (auto simp: cache_run_def accepted_def split: sum.splits)
  qed
qed

definition signed_token :: "'b platform \<Rightarrow> loaded_config \<Rightarrow> string \<Rightarrow> string list \<Rightarrow> jsval \<Rightarrow> bool" where
  "signed_token P L key parts claims \<longleftrightarrow> (\<exists>h p s. parts = [h, p, s] \<and> headerValid L (parseJsonPart P h) \<and>
    ed25519_verify P key (h @ ''.'' @ p) (b64url_bytes P s) \<and> claims = parseJsonPart P p)"

lemma checkProof_run:
  assumes "checkProof P L key parts request corr w = (r, w')"
  shows "cache_run L w w' \<and>
    (\<forall>v. r = Inr v \<longrightarrow> (\<exists>claims body. signed_token P L key parts claims \<and> irBody request = Inr body \<and>
      checked_claims P L (nowSec w) request (bodyDigest P body) claims v \<and> accepted L w w' v))"
proof -
  have "(\<not> succeeds r \<and> cache_part w' = cache_part w) \<or>
    (\<exists>claims body. signed_token P L key parts claims \<and> irBody request = Inr body \<and>
      validateClaims P L claims request (bodyDigest P body) corr w = (r, w'))"
    using assms
    by (auto simp: checkProof_def proofInvalid_def Let_def signed_token_def
        dest!: refuse_run split: list.splits if_splits sum.splits)
  then show ?thesis
  proof
    assume "\<not> succeeds r \<and> cache_part w' = cache_part w"
    then show ?thesis using cache_run_same by auto
  next
    assume "\<exists>claims body. signed_token P L key parts claims \<and> irBody request = Inr body \<and>
      validateClaims P L claims request (bodyDigest P body) corr w = (r, w')"
    then show ?thesis using validate_run by blast
  qed
qed

definition storedCapabilities :: "('b, 'z) db_world_scheme \<Rightarrow> capability list" where
  "storedCapabilities w = normalizeCapabilities
    (case map_of (settings w) (mcpSettingsScope, mcpAllowedCapabilitiesKey) of
       None \<Rightarrow> Null | Some (json, _) \<Rightarrow> parseJsonSafe (Some json) Null)"

definition principal_of :: "('b, 'z) db_world_scheme \<Rightarrow> mcp_claims \<Rightarrow> authenticated_user \<Rightarrow> bool" where
  "principal_of w v a \<longleftrightarrow> (\<exists>u \<in> set (users w). uId u = mcpSystemUserId \<and> uAuthSource u = McpAuth \<and> uRole u = McpRole \<and>
    \<not> uDisabled u \<and> a = toAuthenticatedUser u (storedCapabilities w)
      \<lparr>delegateName = mcSub v, delegateAccess = mcp_access_of (mcAccess v)\<rparr>)"

lemma getSystemUser_InrD:
  "getSystemUser w = (Inr x, w') \<Longrightarrow> x = List.find (\<lambda>u. uId u = mcpSystemUserId) (users w) \<and>
    users w' = users w \<and> settings w' = settings w \<and> cache_part w' = cache_part w"
  using keepsD [OF kc_db(1), of w "Inr x" w']
  by (auto simp: getSystemUser_def getUserById_def dest!: dbRead_InrD)

lemma getAllowedCapabilities_InrD:
  "getAllowedCapabilities w = (Inr x, w') \<Longrightarrow> x = storedCapabilities w \<and> users w' = users w \<and> settings w' = settings w"
  by (auto simp: getAllowedCapabilities_def getSetting_def storedCapabilities_def elim!: andThen_eq_InrE dest!: dbRead_InrD)

lemma principal_run:
  assumes "mcpPrincipal v corr w = (r, w')"
  shows "cache_part w' = cache_part w \<and>
    (\<forall>a. r = Inr (Some a) \<longrightarrow> principal_of w v a \<and> users w' = users w \<and> settings w' = settings w)"
proof -
  have "keeps cache_part (mcpPrincipal v corr)"
    unfolding mcpPrincipal_def by (intro in_cache.fr_base kc_db kc_refuse)
  from keepsD [OF this assms] have same: "cache_part w' = cache_part w" .
  have "principal_of w v a \<and> users w' = users w \<and> settings w' = settings w" if r: "r = Inr (Some a)" for a
  proof -
    obtain u caps w1 where x: "getSystemUser w = (Inr (Some u), w1)"
      and u: "uAuthSource u = McpAuth" "uRole u = McpRole" "\<not> uDisabled u"
      and caps: "getAllowedCapabilities w1 = (Inr caps, w')"
        "a = toAuthenticatedUser u caps \<lparr>delegateName = mcSub v, delegateAccess = mcp_access_of (mcAccess v)\<rparr>"
      using assms r unfolding mcpPrincipal_def
      by (auto elim!: andThen_eq_InrE split: option.splits if_splits dest!: refuse_run)
    have look: "List.find (\<lambda>u. uId u = mcpSystemUserId) (users w) = Some u" "users w1 = users w" "settings w1 = settings w"
      using getSystemUser_InrD [OF x] by simp_all
    have "caps = storedCapabilities w" "users w' = users w" "settings w' = settings w"
      using getAllowedCapabilities_InrD [OF caps(1)] look by (simp_all add: storedCapabilities_def)
    then show ?thesis
      unfolding principal_of_def using find_Some_set [OF look(1)] u caps(2) by blast
  qed
  then show ?thesis using same by blast
qed

text \<open>Everything that an accepted request was checked for.\<close>

definition genuine ::
  "'b platform \<Rightarrow> loaded_config \<Rightarrow> ('b, 'z) mcp_world_scheme \<Rightarrow> incoming_request \<Rightarrow> mcp_claims \<Rightarrow> bool" where
  "genuine P L w request v \<longleftrightarrow> mcpConfigured L \<and> (\<exists>token key claims body.
    Option.bind (irHeader request ''authorization'') mcpToken = Some token \<and> mcpKey w = Some key \<and>
    signed_token P L key (splitOn (CHR ''.'') token) claims \<and> irBody request = Inr body \<and>
    checked_claims P L (nowSec w) request (bodyDigest P body) claims v)"

lemma authenticate_run:
  assumes "authenticateRequest P L request corr w = (r, w')"
  shows "cache_run L w w' \<and>
    (\<forall>a. r = Inr (Some a) \<longrightarrow> (\<exists>v. genuine P L w request v \<and> accepted L w w' v \<and> principal_of w v a))"
proof (cases "mcpConfigured L \<and> Option.bind (irHeader request ''authorization'') mcpToken \<noteq> None \<and> mcpKey w \<noteq> None")
  case False
  then have "\<not> (\<exists>a. r = Inr (Some a)) \<and> cache_part w' = cache_part w"
    using assms by (auto simp: authenticateRequest_def dest!: refuse_run split: option.splits if_splits)
  then show ?thesis using cache_run_same by auto
next
  case True
  then obtain token key where t: "mcpConfigured L" "Option.bind (irHeader request ''authorization'') mcpToken = Some token"
    "mcpKey w = Some key" by blast
  obtain q w1 where check: "checkProof P L key (splitOn (CHR ''.'') token) request corr w = (q, w1)" by fastforce
  note run = checkProof_run [OF check]
  show ?thesis
  proof (cases q)
    case (Inl e)
    then have "r = Inl e" "w' = w1" using assms t check by (auto simp: authenticateRequest_def)
    then show ?thesis using run by simp
  next
    case (Inr v)
    then have "mcpPrincipal v corr w1 = (r, w')"
      using assms t check by (simp add: authenticateRequest_def)
    note last = principal_run [OF this]
    have "cache_run L w w'" using run last cache_run_same cache_run_trans by blast
    moreover have "genuine P L w request v" "accepted L w w1 v"
      using run t Inr unfolding genuine_def by blast+
    moreover have "accepted L w w' v \<and> principal_of w v a" if "r = Inr (Some a)" for a
      using last that \<open>accepted L w w1 v\<close>
      by (auto simp: accepted_def principal_of_def cache_part_def storedCapabilities_def)
    ultimately show ?thesis by blast
  qed
qed

section \<open>The service as a state machine\<close>

text \<open>
  One step is one call, whatever its arguments and its outcome, or a while that passes, or something
  that happens elsewhere and does not touch the cache.
\<close>

inductive mcp_step :: "'b platform \<Rightarrow> loaded_config \<Rightarrow> ('b, 'z) mcp_world_scheme \<Rightarrow> ('b, 'z) mcp_world_scheme \<Rightarrow> bool"
  for P L where
  request: "mcp_step P L w (after (authenticateRequest P L q corr) w)"
| access: "mcp_step P L w (after (setAccess L off allowed) w)"
| beat: "mcp_step P L w (after (recordHeartbeat h) w)"
| boot: "mcp_step P L w (after (mcpInitialize P L) w)"
| wait: "0 \<le> d \<Longrightarrow> mcp_step P L w (w\<lparr>clock := clock w + d\<rparr>)"
| elsewhere: "cache_part w' = cache_part w \<Longrightarrow> mcp_step P L w w'"

inductive mcp_run :: "'b platform \<Rightarrow> loaded_config \<Rightarrow> ('b, 'z) mcp_world_scheme \<Rightarrow> ('b, 'z) mcp_world_scheme \<Rightarrow> bool"
  for P L w0 where
  start: "mcp_run P L w0 w0"
| next_step: "mcp_run P L w0 w \<Longrightarrow> mcp_step P L w w' \<Longrightarrow> mcp_run P L w0 w'"

lemma step_cache_run: "mcp_step P L w w' \<Longrightarrow> cache_run L w w'"
proof (induction rule: mcp_step.induct)
  case (request w q corr)
  then show ?case using authenticate_run [of P L q corr w] by (metis after_def prod.collapse)
next
  case (wait d w)
  then show ?case by (simp add: cache_run_def ages_def cache_ok_def)
qed (rule cache_run_same, rule keeps_after, rule kc_setAccess kc_heartbeat kc_initialize | erule cache_run_same)+

lemma run_cache_run: "mcp_run P L w0 w \<Longrightarrow> cache_run L w0 w"
  by (induction rule: mcp_run.induct) (auto intro: cache_run_same dest: step_cache_run cache_run_trans)

text \<open>
  The cache of used proofs never holds more than its configured number of entries, and no id twice,
  whatever is called in whatever order.
\<close>

theorem replay_cache_bounded:
  assumes "mcp_run P L w0 w" and "mcpReplay w0 = []" and "0 \<le> mcReplayCacheMaxEntries (mcpConfig L)"
  shows "int (length (mcpReplay w)) \<le> mcReplayCacheMaxEntries (mcpConfig L) \<and> distinct (map fst (mcpReplay w))"
proof -
  have "cache_ok (mcpConfig L) w0" using assms(2,3) by (simp add: cache_ok_def)
  then show ?thesis using run_cache_run [OF assms(1)] by (simp add: cache_run_def cache_ok_def om_ok_def)
qed

text \<open>
  C2: no proof is accepted twice: once a request was accepted, no later request with the same
  authorization header is, whatever happens and however much time passes in between.
\<close>

theorem mcp_no_replay:
  assumes first: "authenticateRequest P L request corr w = (Inr (Some a), w1)"
    and later: "mcp_run P L w1 w2"
    and same: "irHeader again ''authorization'' = irHeader request ''authorization''"
  shows "outcome (authenticateRequest P L again corr2) w2 \<noteq> Inr (Some b)"
proof
  assume "outcome (authenticateRequest P L again corr2) w2 = Inr (Some b)"
  then obtain w3 where second: "authenticateRequest P L again corr2 w2 = (Inr (Some b), w3)"
    by (metis outcome_def prod.collapse)
  obtain v where v: "genuine P L w request v" "accepted L w w1 v" using authenticate_run [OF first] by blast
  obtain v2 where v2: "genuine P L w2 again v2" "accepted L w2 w3 v2" using authenticate_run [OF second] by blast
  have "v2 = v" using v v2 same by (auto simp: genuine_def signed_token_def checked_claims_def)
  let ?e = "mcExp v + mcClockSkewSeconds (mcpConfig L)"
  have "(mcJti v, ?e) \<in> set (mcpReplay w2) \<or> ?e < nowSec w2"
    using v(2) run_cache_run [OF later] by (fastforce simp: accepted_def cache_run_def ages_def)
  moreover have "(mcJti v, ?e) \<in> set (mcpReplay w2) \<Longrightarrow> ?e < nowSec w2"
    using v2(2) \<open>v2 = v\<close> by (auto simp: accepted_def)
  moreover have "nowSec w2 \<le> ?e"
    using v2(1) \<open>v2 = v\<close>
    by (auto simp: genuine_def checked_claims_def claimsRefusal_def Let_def split: if_splits)
  ultimately show False by linarith
qed

text \<open>
  C29: an accepted request carries a token signed with the loaded key, its claims are for this server,
  this method, target and body and are in time; a read-only identity has only read, the service identity
  only sent its heartbeat; and what it acts as is the enabled system user, never with \<open>manage_mcp\<close>.
\<close>

theorem mcp_request_authentic:
  assumes run: "authenticateRequest P L request corr w = (Inr (Some a), w')"
  shows "\<exists>token key claims body v u sys.
    Option.bind (irHeader request ''authorization'') mcpToken = Some token \<and> mcpKey w = Some key \<and>
    signed_token P L key (splitOn (CHR ''.'') token) claims \<and> requiredClaims claims = Some v \<and>
    irBody request = Inr body \<and> parse_url P (irUrl request) None = Some u \<and>
    mcAud v = mcAudience (mcpConfig L) \<and> mcHtm v = toUpperCase (irMethod request) \<and>
    mcHtu v = urlPathname u @ urlSearch u \<and> mcBody v = sha256_b64url P body \<and>
    mcIat v - mcClockSkewSeconds (mcpConfig L) \<le> clock w div 1000 \<and>
    clock w div 1000 \<le> mcExp v + mcClockSkewSeconds (mcpConfig L) \<and>
    mcExp v - mcIat v \<le> mcMaxProofAgeSeconds (mcpConfig L) \<and>
    (mcAccess v = ''read'' \<longrightarrow> mcHtm v \<in> set safeReadMethods \<or> mcHtm v @ '' '' @ urlPathname u \<in> set transientReadPaths) \<and>
    (mcSub v = mcpServiceSubject \<longrightarrow> mcHtm v @ '' '' @ urlPathname u = ''POST /api/mcp/heartbeat'') \<and>
    sys \<in> set (users w) \<and> uId sys = mcpSystemUserId \<and> uAuthSource sys = McpAuth \<and> \<not> uDisabled sys \<and>
    auId a = uId sys \<and> auRole a = McpRole \<and> auDelegated a = Some \<lparr>delegateName = mcSub v,
      delegateAccess = (if mcAccess v = ''read'' then McpRead else McpReadWrite)\<rparr> \<and>
    \<not> hasCapability (Some a) ManageMcp"
proof -
  obtain v where v: "genuine P L w request v" "principal_of w v a" using authenticate_run [OF run] by blast
  from v(1) obtain token key claims body u where t:
    "Option.bind (irHeader request ''authorization'') mcpToken = Some token" "mcpKey w = Some key"
    "signed_token P L key (splitOn (CHR ''.'') token) claims" "requiredClaims claims = Some v" "irBody request = Inr body"
    "parse_url P (irUrl request) None = Some u"
    and ok: "claimsRefusal (mcpConfig L) (nowSec w) (irMethod request) u (bodyDigest P body) v = None"
    by (auto simp: genuine_def checked_claims_def)
  from v(2) obtain sys where sys: "sys \<in> set (users w)" "uId sys = mcpSystemUserId" "uAuthSource sys = McpAuth" "\<not> uDisabled sys"
    "a = toAuthenticatedUser sys (storedCapabilities w)
      \<lparr>delegateName = mcSub v, delegateAccess = mcp_access_of (mcAccess v)\<rparr>"
    by (auto simp: principal_of_def)
  have a: "auId a = uId sys" "auRole a = McpRole" "auDelegated a = Some \<lparr>delegateName = mcSub v,
      delegateAccess = (if mcAccess v = ''read'' then McpRead else McpReadWrite)\<rparr>" "\<not> hasCapability (Some a) ManageMcp"
    by (simp_all add: sys(5) toAuthenticatedUser_def mcp_access_of_def hasCapability_def)
  have "mcAud v = mcAudience (mcpConfig L)" "mcHtm v = toUpperCase (irMethod request)"
    "mcHtu v = urlPathname u @ urlSearch u" "mcBody v = sha256_b64url P body"
    "mcIat v - mcClockSkewSeconds (mcpConfig L) \<le> clock w div 1000"
    "clock w div 1000 \<le> mcExp v + mcClockSkewSeconds (mcpConfig L)"
    "mcExp v - mcIat v \<le> mcMaxProofAgeSeconds (mcpConfig L)"
    "mcAccess v = ''read'' \<longrightarrow> mcHtm v \<in> set safeReadMethods \<or> mcHtm v @ '' '' @ urlPathname u \<in> set transientReadPaths"
    "mcSub v = mcpServiceSubject \<longrightarrow> mcHtm v @ '' '' @ urlPathname u = ''POST /api/mcp/heartbeat''"
    using ok by (auto simp: claimsRefusal_def nowSec_def bodyDigest_def Let_def split: if_splits)
  then show ?thesis using t sys(1-4) a by blast
qed

section \<open>Access settings\<close>

lemma uniqueFirst_set [simp]: "set (uniqueFirst xs) = set xs"
  by (induction xs) auto

lemma uniqueFirst_distinct: "distinct (uniqueFirst xs)"
  by (induction xs) auto

lemma uniqueFirst_id: "distinct xs \<Longrightarrow> uniqueFirst xs = xs"
  by (induction xs) (auto simp: filter_id_conv)

lemma isCapability_str [simp]: "isCapability (capability_str c) = Some c"
  by (cases c) (simp_all add: isCapability_def capabilities_def)

lemma isCapability_Some: "isCapability s = Some c \<longleftrightarrow> capability_str c = s"
  by (auto simp: isCapability_def dest!: find_Some_set) (use isCapability_str in \<open>simp add: isCapability_def\<close>)

lemma map_filter_capabilities:
  "List.map_filter (\<lambda>x. case x of Str s \<Rightarrow> isCapability s | _ \<Rightarrow> None) (map (\<lambda>c. Str (capability_str c)) cs) = cs"
  by (induction cs) (simp_all add: map_filter_simps)

lemma normalizeCapabilities_strings:
  "c \<in> set (normalizeCapabilities (Arr (map Str allowed))) \<longleftrightarrow> c \<noteq> ManageMcp \<and> capability_str c \<in> set allowed"
  by (auto simp: normalizeCapabilities_def List.map_filter_def isCapability_Some image_iff)

text \<open>What was stored is read back as it was normalised.\<close>

lemma capabilities_stored:
  assumes "caps = normalizeCapabilities (Arr vs)"
  shows "normalizeCapabilities (parseJsonSafe (Some (json_text (Arr (map (\<lambda>c. Str (capability_str c)) caps)))) Null) = caps"
proof -
  have "json_ok (Arr (map (\<lambda>c. Str (capability_str c)) caps))" by (simp add: list_all_iff)
  then have "parseJsonSafe (Some (json_text (Arr (map (\<lambda>c. Str (capability_str c)) caps)))) Null =
    Arr (map (\<lambda>c. Str (capability_str c)) caps)" by (rule parseJsonSafe_text)
  moreover have "distinct caps" "ManageMcp \<notin> set caps"
    using assms by (auto simp: normalizeCapabilities_def uniqueFirst_distinct)
  then have "filter (\<lambda>c. c \<noteq> ManageMcp) caps = caps" by (intro filter_True) blast
  with \<open>distinct caps\<close> have "uniqueFirst (filter (\<lambda>c. c \<noteq> ManageMcp) caps) = caps" by (simp add: uniqueFirst_id)
  ultimately show ?thesis by (simp add: normalizeCapabilities_def map_filter_capabilities)
qed

lemma bothOf_InrD:
  "bothOf m n w = (Inr x, w') \<Longrightarrow> \<exists>w1. m w = (Inr (), w1) \<and> n w1 = (Inr (), w')"
  by (auto simp: bothOf_def split: prod.splits sum.splits)

lemma setAccess_effect:
  assumes "setAccess L off allowed w = (Inr (), w')"
  obtains u f t where "List.find (\<lambda>u. uId u = mcpSystemUserId) (users w) = Some u"
    "users w' = map_user mcpSystemUserId f (users w)" "\<And>v. uId (f v) = uId v" "\<And>v. uDisabled (f v) = off"
    "settings w' = AList.update (mcpSettingsScope, mcpAllowedCapabilitiesKey)
      (json_text (Arr (map (\<lambda>c. Str (capability_str c)) (normalizeCapabilities (Arr (map Str allowed))))), t) (settings w)"
proof -
  let ?caps = "normalizeCapabilities (Arr (map Str allowed))"
  obtain u w1 w2 w3 t ver where look: "getSystemUser w = (Inr (Some u), w1)"
    and row: "updateUserRow (uId u) None McpRole McpAuth None None off ver t w1 = (Inr (), w2)"
    and set: "setSetting mcpSettingsScope mcpAllowedCapabilitiesKey (Arr (map (\<lambda>c. Str (capability_str c)) ?caps)) t w2 = (Inr (), w3)"
    and last: "users w' = users w3" "settings w' = settings w3"
    using assms
    by (auto simp: setAccess_def generateError_def Let_def whenever_def deleteSessionsForUser_def
        elim!: andThen_eq_InrE dest!: bothOf_InrD dbWrite_InrD split: option.splits if_splits)
  let ?f = "\<lambda>v. v\<lparr>uEmail := None, uRole := McpRole, uAuthSource := McpAuth, uExternalSubject := None,
      uPasswordHash := None, uDisabled := off, uSessionVersion := ver, uUpdatedAt := t\<rparr>"
  have w1: "List.find (\<lambda>u. uId u = mcpSystemUserId) (users w) = Some u" "users w1 = users w" "settings w1 = settings w"
    using getSystemUser_InrD [OF look] by simp_all
  then have k: "uId u = mcpSystemUserId" using find_Some_set by fastforce
  have "users w2 = map_user mcpSystemUserId ?f (users w)" "settings w2 = settings w"
    using row w1 k by (auto simp: updateUserRow_def dest!: dbWrite_InrD)
  moreover have "users w3 = users w2" "settings w3 = AList.update (mcpSettingsScope, mcpAllowedCapabilitiesKey)
      (json_text (Arr (map (\<lambda>c. Str (capability_str c)) ?caps)), t) (settings w2)"
    using set by (auto simp: setSetting_def dest!: dbWrite_InrD)
  ultimately show thesis using last w1(1) by (intro that [of u ?f t]) simp_all
qed

text \<open>
  What the administrator sets for MCP takes effect with the next request: once access was disabled
  no request is accepted, and while it is enabled an accepted request has exactly the capabilities that
  were allowed, never \<open>manage_mcp\<close>.
\<close>

theorem mcp_access_takes_effect:
  assumes set: "setAccess L off allowed w = (Inr (), w')"
    and ok: "om_ok (settings w)"
    and later: "users w2 = users w'" "settings w2 = settings w'"
    and run: "authenticateRequest P L request corr w2 = (Inr (Some a), w3)"
  shows "\<not> off \<and> (\<forall>c. hasCapability (Some a) c \<longleftrightarrow> c \<noteq> ManageMcp \<and> capability_str c \<in> set allowed)"
  using set
proof (rule setAccess_effect)
  fix u f t
  let ?caps = "normalizeCapabilities (Arr (map Str allowed))"
  let ?json = "json_text (Arr (map (\<lambda>c. Str (capability_str c)) ?caps))"
  assume u: "List.find (\<lambda>u. uId u = mcpSystemUserId) (users w) = Some u"
    and f: "users w' = map_user mcpSystemUserId f (users w)" "\<And>v. uId (f v) = uId v" "\<And>v. uDisabled (f v) = off"
    and s: "settings w' = AList.update (mcpSettingsScope, mcpAllowedCapabilitiesKey) (?json, t) (settings w)"
  obtain v where "principal_of w2 v a" using authenticate_run [OF run] by blast
  then obtain sys where sys: "sys \<in> set (users w2)" "uId sys = mcpSystemUserId" "\<not> uDisabled sys"
    and a: "a = toAuthenticatedUser sys (storedCapabilities w2) \<lparr>delegateName = mcSub v, delegateAccess = mcp_access_of (mcAccess v)\<rparr>"
    unfolding principal_of_def by (elim bexE conjE)
  have off: "uDisabled sys = off" using sys(1,2) f later(1) by (auto simp: map_user_def split: if_splits)
  have "map_of (settings w') (mcpSettingsScope, mcpAllowedCapabilitiesKey) = Some (?json, t)"
    unfolding s by (rule omap.look_put_same [OF ok])
  then have "storedCapabilities w2 = ?caps"
    using capabilities_stored [OF refl] by (simp add: storedCapabilities_def later(2))
  then have caps: "hasCapability (Some a) c \<longleftrightarrow> c \<noteq> ManageMcp \<and> c \<in> set ?caps" for c
    by (simp add: a toAuthenticatedUser_def hasCapability_def)
  show ?thesis
  proof (intro conjI allI)
    show "\<not> off" using off sys(3) by simp
  next
    fix c
    show "hasCapability (Some a) c \<longleftrightarrow> c \<noteq> ManageMcp \<and> capability_str c \<in> set allowed"
      using caps [of c] normalizeCapabilities_strings [of c allowed] by argo
  qed
qed

section \<open>Samples\<close>

definition sample_mcp_loaded :: loaded_config where
  "sample_mcp_loaded = sample_loaded\<lparr>ldConfig := sample_config\<lparr>cfAuth := Config.sample_auth\<lparr>acMcp := default_mcp\<lparr>mcEnabled := True\<rparr>\<rparr>\<rparr>\<rparr>"

definition sample_header :: jsval where
  "sample_header = Obj [(''alg'', Str ''EdDSA''), (''typ'', Str ''mqttctl-mcp+jwt''), (''kid'', Str ''compose'')]"

definition sample_claims :: jsval where
  "sample_claims = Obj [(''iss'', Str ''mqttctl-mcp''), (''aud'', Str ''mqttctl-api''), (''sub'', Str ''ops''),
    (''access'', Str ''read''), (''jti'', Str ''j1''), (''htm'', Str ''GET''), (''htu'', Str ''/''),
    (''body_sha256'', Str ''sha()''), (''iat'', num_int 1), (''exp'', num_int 20)]"

definition sample_signature :: string where
  "sample_signature = ''sig(key,'' @ json_text sample_header @ json_text sample_claims @ '')''"

definition sample_request :: incoming_request where
  "sample_request = \<lparr>irMethod = ''GET'', irUrl = ''https://example.org/'',
    irHeader = (\<lambda>h. if h = ''authorization'' then Some (''MQTTCTL-MCP '' @ json_text sample_header @ ''.'' @ json_text sample_claims
      @ ''.'' @ sample_signature) else None), irBody = Inr []\<rparr>"

definition sample_mcp :: "settings_table \<Rightarrow> (string \<times> int) list \<Rightarrow> sample_outside mcp_world" where
  "sample_mcp ss used = \<lparr>clock = 10000, draws = 0, logs = [], outside = sample_start [] [] [], users = [systemUserRow 0],
    sessions = [], auth_requests = [], audit_log = [], settings = ss, snapshots = [], dbFaults = [],
    provisionedAt = None, bootError = None, bootStatus = idleOperationStatus, oidcCache = None,
    mcpKey = Some ''key'', mcpFingerprint = None, mcpHeartbeat = None, mcpReplay = used\<rparr>"

lemma sample_token:
  "Option.bind (irHeader sample_request ''authorization'') mcpToken =
    Some (json_text sample_header @ CHR ''.'' # json_text sample_claims @ CHR ''.'' # sample_signature)"
  by code_simp

lemma sample_parts:
  "splitOn (CHR ''.'') (json_text sample_header @ CHR ''.'' # json_text sample_claims @ CHR ''.'' # sample_signature) =
    [json_text sample_header, json_text sample_claims, sample_signature]"
  by code_simp

lemma sample_header_parsed: "parseJsonPart sample_platform (json_text sample_header) = sample_header"
proof -
  have "json_ok sample_header" by (simp add: sample_header_def num_int_def plain_int_def is_integer_def)
  then show ?thesis by (simp add: parseJsonPart_def sample_platform_def jsonParse_json_text)
qed

lemma sample_claims_parsed: "parseJsonPart sample_platform (json_text sample_claims) = sample_claims"
proof -
  have "json_ok sample_claims" by (simp add: sample_claims_def num_int_def plain_int_def is_integer_def)
  then show ?thesis by (simp add: parseJsonPart_def sample_platform_def jsonParse_json_text)
qed

definition sample_proof :: mcp_claims where
  "sample_proof = \<lparr>mcIss = ''mqttctl-mcp'', mcAud = ''mqttctl-api'', mcSub = ''ops'', mcAccess = ''read'', mcIat = 1,
    mcExp = 20, mcJti = ''j1'', mcHtm = ''GET'', mcHtu = ''/'', mcBody = ''sha()''\<rparr>"

lemma sample_required: "requiredClaims sample_claims = Some sample_proof"
  by code_simp

definition sample_url :: url where
  "sample_url = \<lparr>urlHref = ''https://example.org/'', urlProtocol = ''https:'',
      urlOrigin = ''https://example.org/'', urlHost = ''https://example.org/'', urlHostname = ''https://example.org/'',
      urlPathname = ''/'', urlSearch = [], urlHash = []\<rparr>"

lemma sample_mcp_config: "mcpConfig sample_mcp_loaded = default_mcp\<lparr>mcEnabled := True\<rparr>"
  by (simp add: sample_mcp_loaded_def)

lemma sample_not_refused:
  "claimsRefusal (default_mcp\<lparr>mcEnabled := True\<rparr>) 10 ''GET'' sample_url ''sha()'' sample_proof = None"
  by code_simp

lemma sample_remembered:
  "mcpReplay w = [] \<Longrightarrow> rememberJti sample_mcp_loaded ''j1'' 25 10 corr w = (Inr (), w\<lparr>mcpReplay := [(''j1'', 25)]\<rparr>)"
  by (simp add: rememberJti_def sample_mcp_config default_mcp_def purgeReplayCache_def)

lemma sample_validated:
  assumes "clock w = 10000" "mcpReplay w = []"
  shows "validateClaims sample_platform sample_mcp_loaded sample_claims sample_request ''sha()'' corr w =
    (Inr sample_proof, w\<lparr>mcpReplay := [(''j1'', 25)]\<rparr>)"
proof -
  have "parse_url sample_platform (irUrl sample_request) None = Some sample_url" "irMethod sample_request = ''GET''"
    by (simp_all add: sample_platform_def sample_request_def sample_url_def)
  moreover have "mcJti sample_proof = ''j1''"
    "mcExp sample_proof + mcClockSkewSeconds (default_mcp\<lparr>mcEnabled := True\<rparr>) = 25"
    by (simp_all add: sample_proof_def default_mcp_def)
  ultimately show ?thesis
    using assms by (simp add: validateClaims_def sample_required sample_mcp_config sample_not_refused sample_remembered)
qed

lemma sample_signed:
  "signed_token sample_platform sample_mcp_loaded ''key'' [json_text sample_header, json_text sample_claims, sample_signature] sample_claims"
proof -
  have "CHR ''.'' \<notin> set (json_text sample_header)" "CHR ''.'' \<notin> set (json_text sample_claims)"
    by code_simp+
  moreover have "filter (\<lambda>c. c \<noteq> CHR ''.'') s = s" if "CHR ''.'' \<notin> set s" for s
    by (rule filter_True) (use that in auto)
  ultimately have "filter (\<lambda>c. c \<noteq> CHR ''.'') (json_text sample_header @ CHR ''.'' # json_text sample_claims) =
    json_text sample_header @ json_text sample_claims" by simp
  then have "ed25519_verify sample_platform ''key'' (json_text sample_header @ CHR ''.'' # json_text sample_claims)
      (b64url_bytes sample_platform sample_signature)"
    by (simp add: sample_platform_def sample_signature_def)
  moreover have "headerValid sample_mcp_loaded sample_header"
    by (simp add: headerValid_def sample_mcp_config default_mcp_def sample_header_def getProp_def)
  ultimately show ?thesis
    unfolding signed_token_def by (simp add: sample_header_parsed sample_claims_parsed)
qed

lemma sample_checked:
  assumes "clock w = 10000" "mcpReplay w = []"
  shows "checkProof sample_platform sample_mcp_loaded ''key'' [json_text sample_header, json_text sample_claims, sample_signature]
    sample_request corr w = (Inr sample_proof, w\<lparr>mcpReplay := [(''j1'', 25)]\<rparr>)"
proof -
  have "irBody sample_request = Inr []" "bodyDigest sample_platform [] = ''sha()''"
    by (simp_all add: sample_request_def bodyDigest_def sample_platform_def)
  moreover have "truthy sample_header" "truthy sample_claims" by (simp_all add: sample_header_def sample_claims_def)
  ultimately show ?thesis
    using sample_signed sample_validated [OF assms]
    by (simp add: checkProof_def signed_token_def sample_header_parsed sample_claims_parsed)
qed

lemma sample_accepted:
  assumes "clock w = 10000" "mcpReplay w = []" "mcpKey w = Some ''key''" "dbFaults w = []"
    and "List.find (\<lambda>u. uId u = mcpSystemUserId) (users w) = Some u"
    and "uAuthSource u = McpAuth" "uRole u = McpRole" "\<not> uDisabled u"
  shows "\<exists>a. authenticateRequest sample_platform sample_mcp_loaded sample_request corr w =
    (Inr (Some a), w\<lparr>mcpReplay := [(''j1'', 25)]\<rparr>)"
proof -
  have "mcpConfigured sample_mcp_loaded" by (simp add: mcpConfigured_def sample_mcp_config)
  then have "authenticateRequest sample_platform sample_mcp_loaded sample_request corr w =
      mcpPrincipal sample_proof corr (w\<lparr>mcpReplay := [(''j1'', 25)]\<rparr>)"
    using assms(3) sample_checked [OF assms(1,2)]
    by (simp add: authenticateRequest_def sample_token sample_parts)
  then show ?thesis
    using assms(4-8)
    by (simp add: mcpPrincipal_def getSystemUser_def getUserById_def getAllowedCapabilities_def getSetting_def)
qed

lemma sample_authenticated:
  "\<exists>a. authenticateRequest sample_platform sample_mcp_loaded sample_request None (sample_mcp [] []) =
    (Inr (Some a), sample_mcp [] [(''j1'', 25)])"
  using sample_accepted [of "sample_mcp [] []" "systemUserRow 0" None]
  by (simp add: sample_mcp_def systemUserRow_def)

theorem replay_cache_bounded_witness:
  "int (length (mcpReplay (after (authenticateRequest sample_platform sample_mcp_loaded sample_request None) (sample_mcp [] [])))) \<le> 10000"
proof -
  have "mcp_run sample_platform sample_mcp_loaded (sample_mcp [] [])
      (after (authenticateRequest sample_platform sample_mcp_loaded sample_request None) (sample_mcp [] []))"
    by (rule next_step [OF start request])
  from replay_cache_bounded [OF this] show ?thesis
    by (simp add: sample_mcp_config default_mcp_def) (simp add: sample_mcp_def)
qed

theorem mcp_no_replay_witness:
  "\<exists>a w. authenticateRequest sample_platform sample_mcp_loaded sample_request None (sample_mcp [] []) = (Inr (Some a), w) \<and>
    outcome (authenticateRequest sample_platform sample_mcp_loaded sample_request None) (w\<lparr>clock := 12000\<rparr>) \<noteq> Inr (Some a)"
proof -
  obtain a where run: "authenticateRequest sample_platform sample_mcp_loaded sample_request None (sample_mcp [] []) =
      (Inr (Some a), sample_mcp [] [(''j1'', 25)])" using sample_authenticated by blast
  have "mcp_run sample_platform sample_mcp_loaded (sample_mcp [] [(''j1'', 25)])
      ((sample_mcp [] [(''j1'', 25)])\<lparr>clock := clock (sample_mcp [] [(''j1'', 25)]) + 2000\<rparr>)"
    by (rule next_step [OF start wait]) simp
  then have "mcp_run sample_platform sample_mcp_loaded (sample_mcp [] [(''j1'', 25)]) ((sample_mcp [] [(''j1'', 25)])\<lparr>clock := 12000\<rparr>)"
    by (simp add: sample_mcp_def)
  from mcp_no_replay [OF run this refl, of None a] run show ?thesis by blast
qed

theorem mcp_request_authentic_witness:
  "\<exists>a. authenticateRequest sample_platform sample_mcp_loaded sample_request None (sample_mcp [] []) =
      (Inr (Some a), sample_mcp [] [(''j1'', 25)]) \<and> \<not> hasCapability (Some a) ManageMcp"
proof -
  obtain a where run: "authenticateRequest sample_platform sample_mcp_loaded sample_request None (sample_mcp [] []) =
      (Inr (Some a), sample_mcp [] [(''j1'', 25)])" using sample_authenticated by blast
  from mcp_request_authentic [OF run] run show ?thesis by blast
qed

theorem mcp_access_takes_effect_witness:
  "\<exists>a w w'. setAccess sample_mcp_loaded False [''read'', ''manage_mcp''] (sample_mcp [] []) = (Inr (), w) \<and>
    authenticateRequest sample_platform sample_mcp_loaded sample_request None w = (Inr (Some a), w') \<and>
    hasCapability (Some a) ReadCap \<and> \<not> hasCapability (Some a) ManageUsers"
proof -
  let ?json = "json_text (Arr [Str ''read''])"
  let ?u = "(systemUserRow 0)\<lparr>uUpdatedAt := 10000\<rparr>"
  let ?w = "(sample_mcp [] [])\<lparr>users := [?u], settings := [((mcpSettingsScope, mcpAllowedCapabilitiesKey), (?json, 10000))]\<rparr>"
  have caps: "normalizeCapabilities (Arr [Str ''read'', Str ''manage_mcp'']) = [ReadCap]" by code_simp
  have set: "setAccess sample_mcp_loaded False [''read'', ''manage_mcp''] (sample_mcp [] []) = (Inr (), ?w)"
    by (simp add: setAccess_def mcpConfigured_def sample_mcp_config caps getSystemUser_def getUserById_def bothOf_def
        updateUserRow_def setSetting_def dbWrite_healthy map_user_def Let_def)
      (simp add: sample_mcp_def systemUserRow_def getUserById_def dbWrite_healthy map_user_def)
  obtain a where run: "authenticateRequest sample_platform sample_mcp_loaded sample_request None ?w =
      (Inr (Some a), ?w\<lparr>mcpReplay := [(''j1'', 25)]\<rparr>)"
    using sample_accepted [of ?w ?u None] by (auto simp: sample_mcp_def systemUserRow_def)
  have "om_ok (settings (sample_mcp [] []))" by (simp add: sample_mcp_def)
  from mcp_access_takes_effect [OF set this refl refl run]
  have "hasCapability (Some a) ReadCap" "\<not> hasCapability (Some a) ManageUsers" by simp_all
  with set run show ?thesis by blast
qed

end
