(* ===== verification/MqttService.thy ===== *)
theory MqttService
  imports McpAuth
begin

text \<open>
  The class \<open>MqttExplorerService\<close> of \<open>server/mqtt/service.ts\<close>: one MQTT client per browser session, its
  subscriptions, the latest message of every topic, the listeners of the live channel and the two timers.
  \<^item> The package \<open>mqtt\<close> is not in the repository: \<open>mqtt_library\<close> holds what the service calls of it (a
    client is its number) and the decoding of bytes. The events of a client, the timers and the calls of
    the browser are actions of their own; each runs to its end.
  \<^item> What a listener is called with is appended to \<open>mqCalls\<close> and \<open>mqMsgCalls\<close>.
  \<^item> Dates that are only compared and shown are kept in milliseconds.
\<close>

section \<open>Data\<close>

datatype mqtt_auth_mode = ConfiguredAdmin | DynsecClientMode | CustomMode

datatype connection_state = Disconnected | Connecting | Connected | ConnectionError

datatype payload_format = TextPayload | JsonPayload | Base64Payload

fun mqtt_auth_mode_str :: "mqtt_auth_mode \<Rightarrow> string" where
  "mqtt_auth_mode_str ConfiguredAdmin = ''configured_admin''"
| "mqtt_auth_mode_str DynsecClientMode = ''dynsec_client''"
| "mqtt_auth_mode_str CustomMode = ''custom''"

record connection_status =
  cnState :: connection_state
  cnConnected :: bool
  cnHost :: "string option"
  cnPort :: "int option"
  cnTls :: bool
  cnAuthMode :: "mqtt_auth_mode option"
  cnUsername :: "string option"
  cnClientId :: "string option"
  cnMessage :: "string option"
  cnConnectedAt :: "int option"
  cnUpdatedAt :: "int option"

record mqtt_subscription =
  sbFilter :: string
  sbQos :: nat
  sbSubscribedAt :: int
  sbMatched :: nat

record latest_message =
  lmTopic :: string
  lmPayload :: string
  lmFormat :: payload_format
  lmQos :: nat
  lmRetain :: bool
  lmReceivedAt :: int
  lmByteLength :: nat
  lmPreview :: string

record connection_defaults =
  cdHost :: string
  cdPort :: int
  cdTls :: bool
  cdAuthMode :: mqtt_auth_mode
  cdUsername :: string
  cdClientId :: string

record session_stats =
  stTotal :: nat
  stTracked :: nat
  stLimit :: "int option"

record explorer_state =
  xsRevision :: nat
  xsDefaults :: connection_defaults
  xsConnection :: connection_status
  xsSubscriptions :: "mqtt_subscription list"
  xsMessages :: "latest_message list"
  xsStats :: session_stats

text \<open>A session; the close timer carries the correlation id of the call that started it.\<close>

record explorer_session =
  esClient :: "nat option"
  esRevision :: nat
  esConnection :: connection_status
  esSubscriptions :: "(string, mqtt_subscription) omap"
  esMessages :: "(string, latest_message) omap"
  esTotal :: nat
  esLimit :: "int option"
  esListeners :: "nat list"
  esMessageListeners :: "nat list"
  esEmitTimer :: bool
  esCloseTimer :: "string option option"

record 'b mqtt_world = "'b mcp_world" +
  mqSessions :: "(string, explorer_session) omap"
  mqCalls :: "(nat \<times> explorer_state) list"
  mqMsgCalls :: "(nat \<times> latest_message) list"

type_synonym ('b, 'z, 'a) mqio = "(('b, 'z) mqtt_world_scheme, 'a) io"

record connect_options =
  kpHost :: string
  kpPort :: int
  kpProtocol :: string
  kpUsername :: string
  kpPassword :: "string option"
  kpClientId :: string
  kpConnectTimeout :: int
  kpReconnectPeriod :: int
  kpResubscribe :: bool
  kpRejectUnauthorized :: bool

datatype initial_connect = InitialConnect | InitialError exn | InitialTimeout

record 'b mqtt_library =
  mq_connect :: "connect_options \<Rightarrow> 'b \<Rightarrow> (exn + nat) \<times> 'b"
  mq_first_event :: "nat \<Rightarrow> 'b \<Rightarrow> (exn + initial_connect) \<times> 'b"
  mq_end :: "nat \<Rightarrow> 'b \<Rightarrow> (exn + unit) \<times> 'b"
  mq_subscribe :: "nat \<Rightarrow> string \<Rightarrow> nat \<Rightarrow> 'b \<Rightarrow> (exn + unit) \<times> 'b"
  mq_unsubscribe :: "nat \<Rightarrow> string \<Rightarrow> 'b \<Rightarrow> (exn + unit) \<times> 'b"
  mq_publish :: "nat \<Rightarrow> string \<Rightarrow> string \<Rightarrow> nat \<Rightarrow> bool \<Rightarrow> 'b \<Rightarrow> (exn + unit) \<times> 'b"
  utf8_decode :: "string \<Rightarrow> string option"
  base64_encode :: "string \<Rightarrow> string"

record connect_input =
  ciHost :: string
  ciPort :: int
  ciTls :: bool
  ciAuthMode :: mqtt_auth_mode
  ciUsername :: "string option"
  ciPassword :: "string option"
  ciClientId :: "string option"

record publish_input =
  piTopic :: string
  piPayload :: string
  piQos :: nat
  piRetain :: bool

definition absoluteMaxTrackedTopics :: int where "absoluteMaxTrackedTopics = 500"

definition defaultConnectionStatus :: connection_status where
  "defaultConnectionStatus = \<lparr>cnState = Disconnected, cnConnected = False, cnHost = None, cnPort = None, cnTls = False,
    cnAuthMode = None, cnUsername = None, cnClientId = None, cnMessage = None, cnConnectedAt = None, cnUpdatedAt = None\<rparr>"

section \<open>Topics and payloads\<close>

text \<open>The loop over the levels of the filter, from one index on.\<close>

fun match_levels :: "string list \<Rightarrow> string list \<Rightarrow> bool" where
  "match_levels [] ts = (ts = [])"
| "match_levels (f # fs) ts =
    (if f = ''#'' then fs = []
     else case ts of [] \<Rightarrow> False
       | t # ts' \<Rightarrow> (if f = ''+'' \<or> f = t then match_levels fs ts' else False))"

definition topicMatchesFilter :: "string \<Rightarrow> string \<Rightarrow> bool" where
  "topicMatchesFilter topicFilter topic =
    (let filterLevels = splitOn (CHR ''/'') topicFilter; topicLevels = splitOn (CHR ''/'') topic in
     if startsWith topic ''$'' \<and> (hd filterLevels = ''#'' \<or> hd filterLevels = ''+'') then False
     else match_levels filterLevels topicLevels)"

definition detectPayloadFormat :: "'b mqtt_library \<Rightarrow> string \<Rightarrow> string \<times> payload_format" where
  "detectPayloadFormat V payload =
    (let base64 = (base64_encode V payload, Base64Payload) in
     case utf8_decode V payload of
       None \<Rightarrow> base64
     | Some decoded \<Rightarrow>
        (let trimmed = trim decoded in
         if trimmed \<noteq> [] \<and> (startsWith trimmed ''{'' \<or> startsWith trimmed ''['') then
           (case jsonParse trimmed of Inr _ \<Rightarrow> (decoded, JsonPayload) | Inl _ \<Rightarrow> base64)
         else (decoded, TextPayload)))"

definition buildPreview :: "string \<Rightarrow> string" where
  "buildPreview v = (if 160 < length v then take 157 v @ ''...'' else v)"

section \<open>Sessions\<close>

definition buildDefaults :: "loaded_config \<Rightarrow> connection_defaults" where
  "buildDefaults L = (let b = cfBroker (ldConfig L) in
    \<lparr>cdHost = bkHost b, cdPort = bkPort b, cdTls = tlsEnabled (bkTls b), cdAuthMode = ConfiguredAdmin,
     cdUsername = bkDynsecAdminUsername b, cdClientId = bkMqttClientId b\<rparr>)"

definition newSession :: explorer_session where
  "newSession = \<lparr>esClient = None, esRevision = 0, esConnection = defaultConnectionStatus, esSubscriptions = [],
    esMessages = [], esTotal = 0, esLimit = None, esListeners = [], esMessageListeners = [], esEmitTimer = False,
    esCloseTimer = None\<rparr>"

definition getOrCreateSession :: "string \<Rightarrow> ('b, 'z, explorer_session) mqio" where
  "getOrCreateSession key =
    andThen (gets mqSessions) (\<lambda>ss.
    case map_of ss key of
      Some s \<Rightarrow> ret s
    | None \<Rightarrow> andThen (modify (\<lambda>w. w\<lparr>mqSessions := AList.update key newSession (mqSessions w)\<rparr>)) (\<lambda>_. ret newSession))"

text \<open>An assignment to the fields of the session object.\<close>

definition setSession :: "string \<Rightarrow> (explorer_session \<Rightarrow> explorer_session) \<Rightarrow> ('b, 'z, unit) mqio" where
  "setSession key f = modify (\<lambda>w. w\<lparr>mqSessions := map (\<lambda>(k, s). (k, if k = key then f s else s)) (mqSessions w)\<rparr>)"

definition snapshot :: "'b platform \<Rightarrow> loaded_config \<Rightarrow> explorer_session \<Rightarrow> explorer_state" where
  "snapshot P L s = \<lparr>xsRevision = esRevision s, xsDefaults = buildDefaults L, xsConnection = esConnection s,
    xsSubscriptions = js_sort (\<lambda>a b. locale_gt P (sbFilter a) (sbFilter b)) (map snd (esSubscriptions s)),
    xsMessages = js_sort (\<lambda>a b. lmReceivedAt a < lmReceivedAt b) (map snd (esMessages s)),
    xsStats = \<lparr>stTotal = esTotal s, stTracked = length (esMessages s), stLimit = esLimit s\<rparr>\<rparr>"

text \<open>The state that a method of the browser returns.\<close>

definition currentState :: "'b platform \<Rightarrow> loaded_config \<Rightarrow> string \<Rightarrow> ('b, 'z, explorer_state) mqio" where
  "currentState P L key = andThen (gets mqSessions) (\<lambda>ss.
    ret (snapshot P L (case map_of ss key of Some s \<Rightarrow> s | None \<Rightarrow> newSession)))"

definition effectiveLimit :: "int option \<Rightarrow> int" where
  "effectiveLimit limit = (case limit of None \<Rightarrow> absoluteMaxTrackedTopics | Some n \<Rightarrow> min n absoluteMaxTrackedTopics)"

definition oldestMessage :: "(string, latest_message) omap \<Rightarrow> latest_message option" where
  "oldestMessage ms = (case js_sort (\<lambda>a b. lmReceivedAt b < lmReceivedAt a) (map snd ms) of [] \<Rightarrow> None | m # _ \<Rightarrow> Some m)"

text \<open>
  The \<open>while\<close> loop of \<open>trimTrackedMessages\<close>, which deletes by topic; \<open>None\<close> is a loop that never ends.
  The operations use the total function \<open>trim_messages\<close>, which stops where the deletion removes nothing;
  every message is stored under its topic, so the loop ends and gives the same (\<open>trim_terminates\<close> of
  \<open>MqttSafety\<close>).
\<close>

partial_function (option) trim_loop ::
  "int \<Rightarrow> (string, latest_message) omap \<Rightarrow> (string, latest_message) omap option" where
  "trim_loop limit ms =
    (if limit < int (length ms) then
       (case oldestMessage ms of
          None \<Rightarrow> Some ms
        | Some m \<Rightarrow> trim_loop limit (AList.delete (lmTopic m) ms))
     else Some ms)"

function trim_messages :: "int \<Rightarrow> (string, latest_message) omap \<Rightarrow> (string, latest_message) omap" where
  "trim_messages limit ms =
    (if limit < int (length ms) then
       (case oldestMessage ms of
          None \<Rightarrow> ms
        | Some m \<Rightarrow> if map_of ms (lmTopic m) = None then ms else trim_messages limit (AList.delete (lmTopic m) ms))
     else ms)"
  by auto
termination
  by (relation "measure (\<lambda>(limit, ms). length ms)") (auto dest: length_om_delete_less)

declare trim_messages.simps [simp del]

definition trimTrackedMessages :: "explorer_session \<Rightarrow> explorer_session" where
  "trimTrackedMessages s = s\<lparr>esMessages := trim_messages (effectiveLimit (esLimit s)) (esMessages s)\<rparr>"

section \<open>Telling the listeners\<close>

definition emitNow :: "'b platform \<Rightarrow> loaded_config \<Rightarrow> string \<Rightarrow> ('b, 'z, unit) mqio" where
  "emitNow P L key =
    andThen (gets mqSessions) (\<lambda>ss.
    case map_of ss key of
      None \<Rightarrow> ret ()
    | Some s \<Rightarrow>
        if esListeners s = [] then ret ()
        else modify (\<lambda>w. w\<lparr>mqCalls := mqCalls w @ map (\<lambda>l. (l, snapshot P L s)) (esListeners s)\<rparr>))"

definition scheduleEmit :: "'b platform \<Rightarrow> loaded_config \<Rightarrow> string \<Rightarrow> bool \<Rightarrow> ('b, 'z, unit) mqio" where
  "scheduleEmit P L key immediate =
    andThen (gets mqSessions) (\<lambda>ss.
    case map_of ss key of
      None \<Rightarrow> ret ()
    | Some _ \<Rightarrow>
        andThen (setSession key (\<lambda>s. s\<lparr>esRevision := Suc (esRevision s)\<rparr>)) (\<lambda>_.
        if immediate then
          andThen (setSession key (\<lambda>s. s\<lparr>esEmitTimer := False\<rparr>)) (\<lambda>_. emitNow P L key)
        else setSession key (\<lambda>s. s\<lparr>esEmitTimer := True\<rparr>)))"

text \<open>The timer of \<open>scheduleEmit\<close>.\<close>

definition emitTimer :: "'b platform \<Rightarrow> loaded_config \<Rightarrow> string \<Rightarrow> ('b, 'z, unit) mqio" where
  "emitTimer P L key =
    andThen (gets mqSessions) (\<lambda>ss.
    case map_of ss key of
      None \<Rightarrow> ret ()
    | Some s \<Rightarrow>
        if \<not> esEmitTimer s then ret ()
        else andThen (setSession key (\<lambda>s. s\<lparr>esEmitTimer := False\<rparr>)) (\<lambda>_. emitNow P L key))"

definition setConnectionStatus ::
  "string \<Rightarrow> (connection_status \<Rightarrow> connection_status) \<Rightarrow> ('b, 'z, unit) mqio" where
  "setConnectionStatus key patch =
    andThen now (\<lambda>t. setSession key (\<lambda>s. s\<lparr>esConnection := (patch (esConnection s))\<lparr>cnUpdatedAt := Some t\<rparr>\<rparr>))"

definition statusPatch ::
  "connection_state \<Rightarrow> bool \<Rightarrow> string \<Rightarrow> connection_status \<Rightarrow> connection_status" where
  "statusPatch st online message c = c\<lparr>cnState := st, cnConnected := online, cnMessage := Some message\<rparr>"

definition setClient :: "string \<Rightarrow> nat option \<Rightarrow> ('b, 'z, unit) mqio" where
  "setClient key c = setSession key (\<lambda>s. s\<lparr>esClient := c\<rparr>)"

definition mqWarn :: "string \<Rightarrow> string \<Rightarrow> string option \<Rightarrow> jsval \<Rightarrow> exn \<Rightarrow> (('b, 'z) base_world_scheme, unit) io" where
  "mqWarn caller message corr ctx e = emit ((logEvent LogWarn caller message corr ctx)\<lparr>evRootCause := Some e\<rparr>)"

definition mqInfo :: "string \<Rightarrow> string \<Rightarrow> string option \<Rightarrow> jsval \<Rightarrow> (('b, 'z) base_world_scheme, unit) io" where
  "mqInfo caller message corr ctx = emit (logEvent LogInfo caller message corr ctx)"

definition disconnectClient ::
  "'b platform \<Rightarrow> 'b mqtt_library \<Rightarrow> loaded_config \<Rightarrow> string \<Rightarrow> string option \<Rightarrow> string \<Rightarrow> ('b, 'z, unit) mqio" where
  "disconnectClient P V L key corr reason =
    andThen (gets mqSessions) (\<lambda>ss.
    let activeClient = Option.bind (map_of ss key) esClient in
    andThen (setClient key None) (\<lambda>_.
    andThen (case activeClient of
        None \<Rightarrow> ret ()
      | Some c \<Rightarrow> catching (callOut (mq_end V c)) (\<lambda>e.
          mqWarn ''mqtt::disconnect'' ''MQTT client shutdown raised an error.'' corr Null e)) (\<lambda>_.
    andThen (setConnectionStatus key (statusPatch Disconnected False reason)) (\<lambda>_.
    scheduleEmit P L key True))))"

section \<open>Events of a client\<close>

text \<open>The guard of every handler: the event is of the client that the session has now.\<close>

definition ofCurrentClient ::
  "string \<Rightarrow> nat \<Rightarrow> (explorer_session \<Rightarrow> ('b, 'z, unit) mqio) \<Rightarrow> ('b, 'z, unit) mqio" where
  "ofCurrentClient key client body =
    andThen (gets mqSessions) (\<lambda>ss.
    case map_of ss key of
      None \<Rightarrow> ret ()
    | Some s \<Rightarrow> if esClient s \<noteq> Some client then ret () else body s)"

definition hostPort :: "connection_status \<Rightarrow> string" where
  "hostPort c = to_string (opt_str (cnHost c)) @ '':'' @ to_string (opt_int (cnPort c))"

definition onConnect :: "'b platform \<Rightarrow> loaded_config \<Rightarrow> string \<Rightarrow> nat \<Rightarrow> ('b, 'z, unit) mqio" where
  "onConnect P L key client = ofCurrentClient key client (\<lambda>s.
    andThen now (\<lambda>t.
    andThen (setConnectionStatus key (\<lambda>c. (statusPatch Connected True
      (''Connected to '' @ hostPort (esConnection s) @ ''.'') c)\<lparr>cnConnectedAt := Some t\<rparr>)) (\<lambda>_.
    scheduleEmit P L key True)))"

definition onReconnect :: "'b platform \<Rightarrow> loaded_config \<Rightarrow> string \<Rightarrow> nat \<Rightarrow> ('b, 'z, unit) mqio" where
  "onReconnect P L key client = ofCurrentClient key client (\<lambda>s.
    andThen (setConnectionStatus key (statusPatch Connecting False ''Reconnecting to broker...'')) (\<lambda>_.
    scheduleEmit P L key True))"

definition onOffline :: "'b platform \<Rightarrow> loaded_config \<Rightarrow> string \<Rightarrow> nat \<Rightarrow> ('b, 'z, unit) mqio" where
  "onOffline P L key client = ofCurrentClient key client (\<lambda>s.
    andThen (setConnectionStatus key (statusPatch ConnectionError False ''Broker connection went offline.'')) (\<lambda>_.
    scheduleEmit P L key True))"

definition onClose :: "'b platform \<Rightarrow> loaded_config \<Rightarrow> string \<Rightarrow> nat \<Rightarrow> ('b, 'z, unit) mqio" where
  "onClose P L key client = ofCurrentClient key client (\<lambda>s.
    andThen (setConnectionStatus key (statusPatch ConnectionError False ''Broker connection closed.'')) (\<lambda>_.
    scheduleEmit P L key True))"

definition onError :: "'b platform \<Rightarrow> loaded_config \<Rightarrow> string \<Rightarrow> nat \<Rightarrow> string option \<Rightarrow> exn \<Rightarrow> ('b, 'z, unit) mqio" where
  "onError P L key client corr e = ofCurrentClient key client (\<lambda>s.
    andThen (mqWarn ''mqtt::client'' ''MQTT client error received.'' corr
      (Obj [(''host'', opt_str (cnHost (esConnection s))), (''port'', opt_int (cnPort (esConnection s)))]) e) (\<lambda>_.
    andThen (setConnectionStatus key (statusPatch ConnectionError False (messageOr ''MQTT client error.'' e))) (\<lambda>_.
    scheduleEmit P L key True)))"

definition latestMessage :: "'b mqtt_library \<Rightarrow> string \<Rightarrow> string \<Rightarrow> nat \<Rightarrow> bool \<Rightarrow> int \<Rightarrow> latest_message" where
  "latestMessage V topic payload qos retain t =
    (let (shown, fmt) = detectPayloadFormat V payload in
     \<lparr>lmTopic = topic, lmPayload = shown, lmFormat = fmt, lmQos = qos, lmRetain = retain, lmReceivedAt = t,
      lmByteLength = length payload, lmPreview = buildPreview shown\<rparr>)"

definition countMatches :: "string \<Rightarrow> (string, mqtt_subscription) omap \<Rightarrow> (string, mqtt_subscription) omap" where
  "countMatches topic = map (\<lambda>(f, s). (f, if topicMatchesFilter f topic then s\<lparr>sbMatched := Suc (sbMatched s)\<rparr> else s))"

definition storeMessage :: "latest_message \<Rightarrow> explorer_session \<Rightarrow> explorer_session" where
  "storeMessage m s = trimTrackedMessages
    (s\<lparr>esTotal := Suc (esTotal s), esMessages := AList.update (lmTopic m) m (esMessages s),
       esSubscriptions := countMatches (lmTopic m) (esSubscriptions s)\<rparr>)"

definition onMessage ::
  "'b platform \<Rightarrow> 'b mqtt_library \<Rightarrow> loaded_config \<Rightarrow> string \<Rightarrow> nat \<Rightarrow> string \<Rightarrow> string \<Rightarrow> nat \<Rightarrow> bool
    \<Rightarrow> ('b, 'z, unit) mqio" where
  "onMessage P V L key client topic payload qos retain = ofCurrentClient key client (\<lambda>s.
    andThen now (\<lambda>t.
    let m = latestMessage V topic payload qos retain t in
    andThen (modify (\<lambda>w. w\<lparr>mqMsgCalls := mqMsgCalls w @ map (\<lambda>l. (l, m)) (esMessageListeners s)\<rparr>)) (\<lambda>_.
    andThen (setSession key (storeMessage m)) (\<lambda>_.
    scheduleEmit P L key False))))"

section \<open>Calls of the browser\<close>

definition resolveCredentials :: "loaded_config \<Rightarrow> connect_input \<Rightarrow> string \<times> string option \<times> string" where
  "resolveCredentials L input =
    (let b = cfBroker (ldConfig L); adminPassword = secDynsecAdminPassword (ldSecrets L);
         trimmed = (\<lambda>v. case v of Some s \<Rightarrow> trim s | None \<Rightarrow> []) in
     case ciAuthMode input of
       ConfiguredAdmin \<Rightarrow> (bkDynsecAdminUsername b, Some adminPassword,
         if trimmed (ciClientId input) \<noteq> [] then trimmed (ciClientId input) else bkMqttClientId b)
     | DynsecClientMode \<Rightarrow>
         (let username = trimmed (ciUsername input); password = trimmed (ciPassword input) in
          (username,
           if password \<noteq> [] then Some password
           else if username = bkDynsecAdminUsername b then Some adminPassword else None,
           trimmed (ciClientId input)))
     | CustomMode \<Rightarrow> (trimmed (ciUsername input), ciPassword input, trimmed (ciClientId input)))"

definition waitForInitialConnect :: "'b mqtt_library \<Rightarrow> nat \<Rightarrow> string option \<Rightarrow> (('b, 'z) base_world_scheme, unit) io" where
  "waitForInitialConnect V client corr =
    andThen (callOut (mq_first_event V client)) (\<lambda>r.
    case r of
      InitialConnect \<Rightarrow> ret ()
    | InitialError e \<Rightarrow> raise (createAppError ''mqtt::connect'' (messageOr ''MQTT broker connection failed.'' e)
        ''MQTT_CONNECTION_FAILED'' corr Null 502 (Some e))
    | InitialTimeout \<Rightarrow> raise (createAppError ''mqtt::connect'' ''Timed out while waiting for the MQTT broker connection.''
        ''MQTT_CONNECTION_FAILED'' corr Null 502 None))"

definition ensureConnected :: "explorer_session \<Rightarrow> string option \<Rightarrow> exn + nat" where
  "ensureConnected s corr =
    (case esClient s of
       Some c \<Rightarrow> if cnConnected (esConnection s) then Inr c
         else Inl (createAppError ''mqtt::ensureConnected'' ''An active MQTT connection is required.'' ''MQTT_NOT_CONNECTED'' corr Null 409 None)
     | None \<Rightarrow> Inl (createAppError ''mqtt::ensureConnected'' ''An active MQTT connection is required.'' ''MQTT_NOT_CONNECTED'' corr Null 409 None))"

definition getExplorerState :: "'b platform \<Rightarrow> loaded_config \<Rightarrow> string \<Rightarrow> ('b, 'z, explorer_state) mqio" where
  "getExplorerState P L key = andThen (getOrCreateSession key) (\<lambda>s. ret (snapshot P L s))"

definition add_listener :: "nat \<Rightarrow> nat list \<Rightarrow> nat list" where
  "add_listener l ls = (if l \<in> set ls then ls else ls @ [l])"

definition watchSession ::
  "'b platform \<Rightarrow> loaded_config \<Rightarrow> string \<Rightarrow> nat \<Rightarrow> nat option \<Rightarrow> ('b, 'z, unit) mqio" where
  "watchSession P L key listener messageListener =
    andThen (getOrCreateSession key) (\<lambda>_.
    andThen (setSession key (\<lambda>s. s\<lparr>esCloseTimer := None, esListeners := add_listener listener (esListeners s),
      esMessageListeners := (case messageListener of Some m \<Rightarrow> add_listener m (esMessageListeners s)
        | None \<Rightarrow> esMessageListeners s)\<rparr>)) (\<lambda>_.
    andThen (currentState P L key) (\<lambda>st.
    modify (\<lambda>w. w\<lparr>mqCalls := mqCalls w @ [(listener, st)]\<rparr>))))"

text \<open>The function that \<open>watchSession\<close> returns.\<close>

definition unwatchSession :: "string \<Rightarrow> nat \<Rightarrow> nat option \<Rightarrow> string option \<Rightarrow> ('b, 'z, unit) mqio" where
  "unwatchSession key listener messageListener corr =
    setSession key (\<lambda>s.
      let s' = s\<lparr>esListeners := filter (\<lambda>l. l \<noteq> listener) (esListeners s),
        esMessageListeners := filter (\<lambda>l. Some l \<noteq> messageListener) (esMessageListeners s)\<rparr> in
      if esListeners s' \<noteq> [] then s' else s'\<lparr>esEmitTimer := False, esCloseTimer := Some corr\<rparr>)"

text \<open>The timer that closes a session ten seconds after its last listener has gone.\<close>

definition closeTimer :: "'b platform \<Rightarrow> 'b mqtt_library \<Rightarrow> loaded_config \<Rightarrow> string \<Rightarrow> ('b, 'z, unit) mqio" where
  "closeTimer P V L key =
    andThen (gets mqSessions) (\<lambda>ss.
    case map_of ss key of
      None \<Rightarrow> ret ()
    | Some s \<Rightarrow>
        (case esCloseTimer s of
           None \<Rightarrow> ret ()
         | Some corr \<Rightarrow>
             andThen (setSession key (\<lambda>s. s\<lparr>esCloseTimer := None\<rparr>)) (\<lambda>_.
             if esListeners s \<noteq> [] then ret ()
             else
               andThen (disconnectClient P V L key corr ''Browser live channel closed.'') (\<lambda>_.
               andThen (gets mqSessions) (\<lambda>ss'.
               case map_of ss' key of
                 None \<Rightarrow> ret ()
               | Some s' \<Rightarrow> whenever (esListeners s' = [])
                   (modify (\<lambda>w. w\<lparr>mqSessions := AList.delete key (mqSessions w)\<rparr>)))))))"

definition connectOptions :: "connect_input \<Rightarrow> string \<Rightarrow> string \<times> string option \<times> string \<Rightarrow> connect_options" where
  "connectOptions input host creds = (case creds of (username, password, clientId) \<Rightarrow>
    \<lparr>kpHost = host, kpPort = ciPort input, kpProtocol = (if ciTls input then ''mqtts'' else ''mqtt''),
     kpUsername = username, kpPassword = password, kpClientId = trim clientId,
     kpConnectTimeout = 10000, kpReconnectPeriod = 2000, kpResubscribe = True, kpRejectUnauthorized = False\<rparr>)"

definition mqttConnect ::
  "'b platform \<Rightarrow> 'b mqtt_library \<Rightarrow> loaded_config \<Rightarrow> string \<Rightarrow> connect_input \<Rightarrow> string option
    \<Rightarrow> ('b, 'z, explorer_state) mqio" where
  "mqttConnect P V L key input corr =
    andThen (getOrCreateSession key) (\<lambda>_.
    andThen (disconnectClient P V L key corr ''Preparing new MQTT connection.'') (\<lambda>_.
    andThen (setSession key (\<lambda>s. s\<lparr>esMessages := [], esTotal := 0, esSubscriptions := []\<rparr>)) (\<lambda>_.
    let creds = resolveCredentials L input; host = trim (ciHost input);
        clientId = trim (snd (snd creds)); username = trim (fst creds);
        address = host @ '':'' @ int_str (ciPort input) in
    andThen (setConnectionStatus key (\<lambda>c. (statusPatch Connecting False (''Connecting to '' @ address @ ''...'') c)
      \<lparr>cnHost := Some host, cnPort := Some (ciPort input), cnTls := ciTls input,
       cnAuthMode := Some (ciAuthMode input), cnUsername := Some username, cnClientId := Some clientId,
       cnConnectedAt := None\<rparr>)) (\<lambda>_.
    andThen (scheduleEmit P L key True) (\<lambda>_.
    andThen (callOut (mq_connect V (connectOptions input host creds))) (\<lambda>client.
    andThen (setClient key (Some client)) (\<lambda>_.
    catching
      (andThen (waitForInitialConnect V client corr) (\<lambda>_.
       andThen (gets mqSessions) (\<lambda>ss.
       andThen (forEach (case map_of ss key of Some s \<Rightarrow> map snd (esSubscriptions s) | None \<Rightarrow> [])
         (\<lambda>b. callOut (mq_subscribe V client (sbFilter b) (sbQos b)))) (\<lambda>_.
       andThen now (\<lambda>t.
       andThen (setConnectionStatus key (\<lambda>c. (statusPatch Connected True (''Connected to '' @ address @ ''.'') c)
         \<lparr>cnConnectedAt := Some t\<rparr>)) (\<lambda>_.
       andThen (scheduleEmit P L key True) (\<lambda>_.
       andThen (mqInfo ''mqtt::connect'' (''Connected to '' @ address @ ''.'') corr
         (Obj [(''authMode'', Str (mqtt_auth_mode_str (ciAuthMode input))), (''username'', Str username),
               (''clientId'', Str clientId)])) (\<lambda>_.
       currentState P L key))))))))
      (\<lambda>e.
       andThen (setClient key None) (\<lambda>_.
       andThen (catching (callOut (mq_end V client)) (\<lambda>_. ret ())) (\<lambda>_.
       andThen (setConnectionStatus key (statusPatch ConnectionError False (messageOr ''MQTT connection failed.'' e))) (\<lambda>_.
       andThen (scheduleEmit P L key True) (\<lambda>_. raise e)))))))))))) "

definition mqttDisconnect ::
  "'b platform \<Rightarrow> 'b mqtt_library \<Rightarrow> loaded_config \<Rightarrow> string \<Rightarrow> string option \<Rightarrow> string \<Rightarrow> ('b, 'z, explorer_state) mqio" where
  "mqttDisconnect P V L key corr reason =
    andThen (getOrCreateSession key) (\<lambda>s.
    andThen (disconnectClient P V L key corr reason) (\<lambda>_.
    andThen (mqInfo ''mqtt::disconnect'' reason corr
      (Obj [(''host'', opt_str (cnHost (esConnection s))), (''port'', opt_int (cnPort (esConnection s)))])) (\<lambda>_.
    currentState P L key)))"

text \<open>The failure of an operation on the broker.\<close>

definition operationFailed :: "string \<Rightarrow> string \<Rightarrow> string option \<Rightarrow> jsval \<Rightarrow> exn \<Rightarrow> exn" where
  "operationFailed caller reason corr ctx e = createAppError caller reason ''MQTT_OPERATION_FAILED'' corr ctx 502 (Some e)"

definition mqttSubscribe ::
  "'b platform \<Rightarrow> 'b mqtt_library \<Rightarrow> loaded_config \<Rightarrow> string \<Rightarrow> string \<Rightarrow> nat \<Rightarrow> string option
    \<Rightarrow> ('b, 'z, explorer_state) mqio" where
  "mqttSubscribe P V L key topicFilter qos corr =
    andThen (getOrCreateSession key) (\<lambda>s.
    let f = trim topicFilter in
    andThen (liftR (ensureConnected s corr)) (\<lambda>client.
    catching
      (andThen (callOut (mq_subscribe V client f qos)) (\<lambda>_.
       andThen now (\<lambda>t.
       andThen (setSession key (\<lambda>s. s\<lparr>esSubscriptions := AList.update f
         \<lparr>sbFilter = f, sbQos = qos, sbSubscribedAt = t, sbMatched = 0\<rparr> (esSubscriptions s)\<rparr>)) (\<lambda>_.
       andThen (scheduleEmit P L key True) (\<lambda>_.
       andThen (mqInfo ''mqtt::subscribe'' (''Subscribed to '' @ f @ ''.'') corr (Obj [(''qos'', num_int (int qos))])) (\<lambda>_.
       currentState P L key))))))
      (\<lambda>e. raise (operationFailed ''mqtt::subscribe'' (''Failed subscribing to '' @ f @ ''.'') corr
        (Obj [(''filter'', Str f), (''qos'', num_int (int qos))]) e))))"

definition mqttUnsubscribe ::
  "'b platform \<Rightarrow> 'b mqtt_library \<Rightarrow> loaded_config \<Rightarrow> string \<Rightarrow> string \<Rightarrow> string option \<Rightarrow> ('b, 'z, explorer_state) mqio" where
  "mqttUnsubscribe P V L key topicFilter corr =
    andThen (getOrCreateSession key) (\<lambda>s.
    let f = trim topicFilter in
    andThen (case (if map_of (esSubscriptions s) f \<noteq> None \<and> cnConnected (esConnection s) then esClient s else None) of
        None \<Rightarrow> ret ()
      | Some client \<Rightarrow> catching (callOut (mq_unsubscribe V client f)) (\<lambda>e.
          raise (operationFailed ''mqtt::unsubscribe'' (''Failed unsubscribing from '' @ f @ ''.'') corr
            (Obj [(''filter'', Str f)]) e))) (\<lambda>_.
    andThen (setSession key (\<lambda>s. s\<lparr>esSubscriptions := AList.delete f (esSubscriptions s)\<rparr>)) (\<lambda>_.
    andThen (scheduleEmit P L key True) (\<lambda>_.
    andThen (mqInfo ''mqtt::unsubscribe'' (''Unsubscribed from '' @ f @ ''.'') corr Null) (\<lambda>_.
    currentState P L key)))))"

definition mqttPublish ::
  "'b platform \<Rightarrow> 'b mqtt_library \<Rightarrow> loaded_config \<Rightarrow> string \<Rightarrow> publish_input \<Rightarrow> string option
    \<Rightarrow> ('b, 'z, explorer_state) mqio" where
  "mqttPublish P V L key input corr =
    andThen (getOrCreateSession key) (\<lambda>s.
    andThen (liftR (ensureConnected s corr)) (\<lambda>client.
    catching
      (andThen (callOut (mq_publish V client (piTopic input) (piPayload input) (piQos input) (piRetain input))) (\<lambda>_.
       andThen (mqInfo ''mqtt::publish'' (''Published to '' @ piTopic input @ ''.'') corr
         (Obj [(''qos'', num_int (int (piQos input))), (''retain'', Bool (piRetain input)),
               (''host'', opt_str (cnHost (esConnection s))), (''port'', opt_int (cnPort (esConnection s)))])) (\<lambda>_.
       currentState P L key)))
      (\<lambda>e. raise (operationFailed ''mqtt::publish'' (''Failed publishing to '' @ piTopic input @ ''.'') corr
        (Obj [(''topic'', Str (piTopic input)), (''qos'', num_int (int (piQos input))), (''retain'', Bool (piRetain input))]) e))))"

definition clearMessages :: "'b platform \<Rightarrow> loaded_config \<Rightarrow> string \<Rightarrow> string option \<Rightarrow> ('b, 'z, explorer_state) mqio" where
  "clearMessages P L key corr =
    andThen (getOrCreateSession key) (\<lambda>s.
    andThen (setSession key (\<lambda>s. s\<lparr>esMessages := [], esTotal := 0,
      esSubscriptions := map (\<lambda>(f, b). (f, b\<lparr>sbMatched := 0\<rparr>)) (esSubscriptions s)\<rparr>)) (\<lambda>_.
    andThen (scheduleEmit P L key True) (\<lambda>_.
    andThen (mqInfo ''mqtt::clearMessages'' ''Cleared tracked MQTT latest topics.'' corr
      (Obj [(''trackedTopicsLimit'', opt_int (esLimit s))])) (\<lambda>_.
    currentState P L key))))"

definition setTrackedTopicsLimit ::
  "'b platform \<Rightarrow> loaded_config \<Rightarrow> string \<Rightarrow> int option \<Rightarrow> string option \<Rightarrow> ('b, 'z, explorer_state) mqio" where
  "setTrackedTopicsLimit P L key limit corr =
    andThen (getOrCreateSession key) (\<lambda>_.
    andThen (setSession key (\<lambda>s. trimTrackedMessages (s\<lparr>esLimit := limit\<rparr>))) (\<lambda>_.
    andThen (scheduleEmit P L key True) (\<lambda>_.
    andThen (currentState P L key) (\<lambda>st.
    andThen (mqInfo ''mqtt::setTrackedTopicsLimit''
      (case limit of None \<Rightarrow> ''Tracked MQTT latest topics limit set to all.''
        | Some n \<Rightarrow> ''Tracked MQTT latest topics limit set to '' @ int_str n @ ''.'') corr
      (Obj [(''trackedTopicsLimit'', opt_int limit), (''trackedTopics'', num_int (int (stTracked (xsStats st))))])) (\<lambda>_.
    ret st)))))"

end
