(* ===== verification/MqttSafety.thy ===== *)
theory MqttSafety
  imports MqttService
begin

text \<open>
  What \<open>MqttService\<close> guarantees: a filter matches as the MQTT standard says, the loop that trims the
  tracked messages ends and keeps the newest, and in every state that calls, events and timers can reach
  the sessions are consistent and bounded.
\<close>

section \<open>Topic filters\<close>

text \<open>
  The standard, by positions: up to a final \<open>#\<close>, which stands for any number of levels and for none, the
  levels are equal or the filter has \<open>+\<close>; wildcards at the start do not match topics that begin with \<open>$\<close>.
\<close>

definition level_covers :: "string \<Rightarrow> string \<Rightarrow> bool" where
  "level_covers f t \<longleftrightarrow> f \<noteq> ''#'' \<and> (f = ''+'' \<or> f = t)"

definition mqtt_covers :: "string list \<Rightarrow> string list \<Rightarrow> bool" where
  "mqtt_covers fs ts \<longleftrightarrow>
    (if fs \<noteq> [] \<and> last fs = ''#'' then length fs - 1 \<le> length ts \<and> (\<forall>i < length fs - 1. level_covers (fs ! i) (ts ! i))
     else length ts = length fs \<and> (\<forall>i < length fs. level_covers (fs ! i) (ts ! i)))"

lemma mqtt_covers_hash: "mqtt_covers (''#'' # fs) ts \<longleftrightarrow> fs = []"
proof (cases "fs = []")
  case False
  then have "0 < length (''#'' # fs) - 1" by simp
  then show ?thesis using False unfolding mqtt_covers_def level_covers_def by (auto intro!: exI [of _ 0])
qed (simp add: mqtt_covers_def)

lemma mqtt_covers_Cons:
  assumes "f \<noteq> ''#''"
  shows "mqtt_covers (f # fs) ts \<longleftrightarrow> (\<exists>t ts'. ts = t # ts' \<and> level_covers f t \<and> mqtt_covers fs ts')"
proof (cases ts)
  case Nil
  show ?thesis
  proof (cases "fs = []")
    case True
    then show ?thesis using Nil assms by (simp add: mqtt_covers_def)
  next
    case False
    then have "0 < length fs" by simp
    then show ?thesis using Nil by (auto simp: mqtt_covers_def)
  qed
next
  case (Cons t us)
  show ?thesis
  proof (cases "fs = []")
    case True
    then show ?thesis using Cons assms by (auto simp: mqtt_covers_def)
  next
    case False
    then obtain n where n: "length fs = Suc n" by (cases fs) auto
    then show ?thesis using Cons False
      by (auto simp: mqtt_covers_def All_less_Suc2)
  qed
qed

lemma match_levels_covers: "match_levels fs ts = mqtt_covers fs ts"
proof (induction fs arbitrary: ts)
  case Nil
  then show ?case by (auto simp: mqtt_covers_def)
next
  case (Cons f fs)
  then show ?case
    by (cases "f = ''#''") (auto simp: mqtt_covers_hash mqtt_covers_Cons level_covers_def split: list.splits)
qed

text \<open>
  C19: a subscription's filter matches a topic exactly as the MQTT standard defines it, level by level.
\<close>

theorem topic_filter_standard:
  "topicMatchesFilter f t \<longleftrightarrow>
    mqtt_covers (splitOn (CHR ''/'') f) (splitOn (CHR ''/'') t) \<and>
    \<not> (startsWith t ''$'' \<and> hd (splitOn (CHR ''/'') f) \<in> {''#'', ''+''})"
  by (auto simp: topicMatchesFilter_def match_levels_covers Let_def)

section \<open>Trimming\<close>

definition keyed_messages :: "(string, latest_message) omap \<Rightarrow> bool" where
  "keyed_messages ms \<longleftrightarrow> om_ok ms \<and> (\<forall>(t, m) \<in> set ms. lmTopic m = t)"

lemma keyed_delete: "keyed_messages ms \<Longrightarrow> keyed_messages (AList.delete t ms)"
  using omap.ok_del [of ms t] by (auto simp: keyed_messages_def AList.delete_eq)

lemma update_subset: "set (AList.update k v ms) \<subseteq> insert (k, v) (set ms)"
  by (induction ms) auto

lemma keyed_update: "keyed_messages ms \<Longrightarrow> keyed_messages (AList.update (lmTopic m) m ms)"
  using omap.ok_put [of ms "lmTopic m" m] update_subset [of "lmTopic m" m ms] by (auto simp: keyed_messages_def)

lemma oldest_mem:
  assumes "oldestMessage ms = Some m"
  shows "m \<in> snd ` set ms \<and> (\<forall>x \<in> snd ` set ms. lmReceivedAt m \<le> lmReceivedAt x)"
proof -
  let ?s = "js_sort (\<lambda>a b. lmReceivedAt b < lmReceivedAt a) (map snd ms)"
  obtain r where r: "?s = m # r" using assms by (auto simp: oldestMessage_def split: list.splits)
  have "sorted (map lmReceivedAt ?s)" by (rule js_sort_sorted_key)
  moreover have "set ?s = snd ` set ms" by simp
  ultimately show ?thesis unfolding r by (auto simp del: set_js_sort)
qed

lemma oldest_found: "keyed_messages ms \<Longrightarrow> oldestMessage ms = Some m \<Longrightarrow> map_of ms (lmTopic m) = Some m"
  using oldest_mem [of ms m] by (auto simp: keyed_messages_def om_ok_def)

lemma trim_loop_eq: "keyed_messages ms \<Longrightarrow> trim_loop limit ms = Some (trim_messages limit ms)"
proof (induction limit ms rule: trim_messages.induct)
  case (1 limit ms)
  show ?case
  proof (cases "limit < int (length ms)")
    case True
    show ?thesis
    proof (cases "oldestMessage ms")
      case None
      then show ?thesis using True by (subst trim_loop.simps) (simp add: trim_messages.simps [of limit ms])
    next
      case (Some m)
      then have found: "map_of ms (lmTopic m) = Some m" using oldest_found [OF 1(2)] by simp
      then have "map_of ms (lmTopic m) \<noteq> None" by simp
      then show ?thesis using 1(1) [OF True Some] keyed_delete [OF 1(2)] True Some found
        by (subst trim_loop.simps) (simp add: trim_messages.simps [of limit ms])
    qed
  next
    case False
    then show ?thesis by (subst trim_loop.simps) (simp add: trim_messages.simps [of limit ms])
  qed
qed

lemma length_om_delete:
  "om_ok ms \<Longrightarrow> map_of ms k = Some v \<Longrightarrow> Suc (length (AList.delete k ms)) = length ms"
proof (induction ms)
  case Nil
  then show ?case by simp
next
  case (Cons kv ms)
  have "AList.delete k ms = ms" if "k \<notin> fst ` set ms" using that by (induction ms) auto
  then show ?case using Cons by (cases kv) (auto simp: om_ok_def split: if_splits)
qed

lemma delete_keeps: "x \<in> set ms \<Longrightarrow> fst x \<noteq> k \<Longrightarrow> x \<in> set (AList.delete k ms)"
  unfolding AList.delete_eq by (cases x) auto

lemma trim_messages_spec:
  assumes "keyed_messages ms"
  shows "keyed_messages (trim_messages limit ms) \<and> set (trim_messages limit ms) \<subseteq> set ms \<and>
    length (trim_messages limit ms) = min (length ms) (nat limit) \<and>
    (\<forall>x \<in> set ms - set (trim_messages limit ms). \<forall>y \<in> set (trim_messages limit ms).
      lmReceivedAt (snd x) \<le> lmReceivedAt (snd y))"
  using assms
proof (induction limit ms rule: trim_messages.induct)
  case (1 limit ms)
  show ?case
  proof (cases "limit < int (length ms) \<and> oldestMessage ms \<noteq> None")
    case False
    moreover have "ms = []" if "oldestMessage ms = None"
    proof -
      have "js_sort (\<lambda>a b. lmReceivedAt b < lmReceivedAt a) (map snd ms) = []"
        using that by (simp add: oldestMessage_def split: list.splits)
      then have "length (map snd ms) = 0" by (metis length_js_sort list.size(3))
      then show ?thesis by simp
    qed
    ultimately have "trim_messages limit ms = ms" "length ms \<le> nat limit \<or> ms = []"
      by (auto simp: trim_messages.simps [of limit ms] split: option.splits)
    then show ?thesis using 1(2) by auto
  next
    case True
    then obtain m where m: "limit < int (length ms)" "oldestMessage ms = Some m" by blast
    have found: "map_of ms (lmTopic m) = Some m" by (rule oldest_found [OF 1(2) m(2)])
    let ?d = "AList.delete (lmTopic m) ms"
    have eq: "trim_messages limit ms = trim_messages limit ?d"
      using m found by (simp add: trim_messages.simps [of limit ms])
    have d: "keyed_messages ?d" by (rule keyed_delete [OF 1(2)])
    have ih: "keyed_messages (trim_messages limit ?d)" "set (trim_messages limit ?d) \<subseteq> set ?d"
      "length (trim_messages limit ?d) = min (length ?d) (nat limit)"
      "\<forall>x \<in> set ?d - set (trim_messages limit ?d). \<forall>y \<in> set (trim_messages limit ?d).
        lmReceivedAt (snd x) \<le> lmReceivedAt (snd y)"
      using 1(1) [OF m(1,2) _ d] found by simp_all
    have om: "om_ok ms" using 1(2) by (simp add: keyed_messages_def)
    have len: "Suc (length ?d) = length ms" by (rule length_om_delete [OF om found])
    have sub: "set ?d \<subseteq> set ms" by (auto simp: AList.delete_eq)
    have gone: "x = (lmTopic m, m)" if "x \<in> set ms" "x \<notin> set ?d" for x
    proof -
      have k: "fst x = lmTopic m" using that delete_keeps by metis
      have "(lmTopic m, snd x) \<in> set ms" using that(1) k by (metis prod.collapse)
      then have "map_of ms (lmTopic m) = Some (snd x)" using om by (simp add: om_ok_def)
      then show ?thesis using found k by (metis option.inject prod.collapse)
    qed
    have "lmReceivedAt (snd x) \<le> lmReceivedAt (snd y)"
      if "x \<in> set ms - set (trim_messages limit ?d)" "y \<in> set (trim_messages limit ?d)" for x y
    proof (cases "x \<in> set ?d")
      case True
      then show ?thesis using ih(4) that by blast
    next
      case False
      then have "x = (lmTopic m, m)" using gone that(1) by blast
      moreover have "y \<in> set ms" using that(2) ih(2) sub by blast
      ultimately show ?thesis using oldest_mem [OF m(2)] by simp
    qed
    moreover have "min (length ?d) (nat limit) = min (length ms) (nat limit)" using len m(1) by linarith
    ultimately show ?thesis unfolding eq using ih(1-3) sub by auto
  qed
qed

text \<open>
  The loop that trims the tracked messages ends, whatever the limit, and leaves as many messages as
  the limit allows, none of which is older than one that was dropped.
\<close>

theorem trim_terminates:
  assumes "keyed_messages ms"
  shows "\<exists>kept. trim_loop limit ms = Some kept \<and> set kept \<subseteq> set ms \<and> length kept = min (length ms) (nat limit) \<and>
    (\<forall>x \<in> set ms - set kept. \<forall>y \<in> set kept. lmReceivedAt (snd x) \<le> lmReceivedAt (snd y))"
  using trim_loop_eq [OF assms] trim_messages_spec [OF assms] by blast

definition sample_message :: "string \<Rightarrow> int \<Rightarrow> latest_message" where
  "sample_message topic t = \<lparr>lmTopic = topic, lmPayload = [], lmFormat = TextPayload, lmQos = 0, lmRetain = False,
    lmReceivedAt = t, lmByteLength = 0, lmPreview = []\<rparr>"

theorem trim_terminates_witness:
  "\<exists>kept. trim_loop 1 [(''a'', sample_message ''a'' 5), (''b'', sample_message ''b'' 3)] = Some kept \<and> length kept = 1"
  using trim_terminates [of "[(''a'', sample_message ''a'' 5), (''b'', sample_message ''b'' 3)]" 1]
  by (auto simp: keyed_messages_def om_ok_def sample_message_def)

section \<open>The invariant of the sessions\<close>

definition session_bounded :: "explorer_session \<Rightarrow> bool" where
  "session_bounded s \<longleftrightarrow> keyed_messages (esMessages s) \<and> om_ok (esSubscriptions s) \<and>
    int (length (esMessages s)) \<le> max 0 (effectiveLimit (esLimit s)) \<and>
    (cnState (esConnection s) = Connected \<longleftrightarrow> cnConnected (esConnection s))"

definition sessions_ok :: "('b, 'z) mqtt_world_scheme \<Rightarrow> bool" where
  "sessions_ok w \<longleftrightarrow> om_ok (mqSessions w) \<and> (\<forall>(k, s) \<in> set (mqSessions w). session_bounded s)"

text \<open>A connected session has a client, except perhaps the one that is being changed.\<close>

definition online_but :: "string set \<Rightarrow> ('b, 'z) mqtt_world_scheme \<Rightarrow> bool" where
  "online_but K w \<longleftrightarrow> (\<forall>(k, s) \<in> set (mqSessions w). k \<notin> K \<longrightarrow> cnConnected (esConnection s) \<longrightarrow> esClient s \<noteq> None)"

interpretation in_sessions: world_frame mqSessions
  by unfold_locales simp_all

lemma ok_frame:
  "keeps mqSessions m \<Longrightarrow> preserves sessions_ok m" "keeps mqSessions m \<Longrightarrow> preserves (online_but K) m"
  by (erule preserves_if_keeps, simp add: sessions_ok_def online_but_def)+

lemma setSession_run: "setSession key f w = (Inr (), w\<lparr>mqSessions := map (\<lambda>(k, s). (k, if k = key then f s else s)) (mqSessions w)\<rparr>)"
  by (simp add: setSession_def)

lemma p_setSession:
  assumes "\<And>s. session_bounded s \<Longrightarrow> session_bounded (f s)"
  shows "preserves sessions_ok (setSession key f)"
  using assms by (intro preservesI) (auto simp: setSession_run sessions_ok_def om_ok_map_value)

lemma keeps_currentState: "keeps g (currentState P L key)"
  unfolding currentState_def by (intro keeps_intros)

lemma keeps_emitNow: "keeps mqSessions (emitNow P L key)"
  unfolding emitNow_def by (intro in_sessions.fr_base) simp_all

lemma p_emit: "preserves sessions_ok (scheduleEmit P L key imm)"
  unfolding scheduleEmit_def
  by (intro preserves_intros p_setSession ok_frame(1) [OF keeps_emitNow]) (simp_all add: session_bounded_def)

lemma new_session_ok: "session_bounded newSession"
  by (simp add: session_bounded_def newSession_def keyed_messages_def defaultConnectionStatus_def effectiveLimit_def
      absoluteMaxTrackedTopics_def)

lemma sessions_ok_new: "sessions_ok w \<Longrightarrow> sessions_ok (w\<lparr>mqSessions := AList.update key newSession (mqSessions w)\<rparr>)"
  using update_subset [of key newSession "mqSessions w"] new_session_ok
  by (auto simp: sessions_ok_def omap.ok_put)

lemma online_new: "online_but K w \<Longrightarrow> online_but K (w\<lparr>mqSessions := AList.update key newSession (mqSessions w)\<rparr>)"
  using update_subset [of key newSession "mqSessions w"]
  by (auto simp: online_but_def newSession_def defaultConnectionStatus_def)

lemma p_getOrCreate: "preserves sessions_ok (getOrCreateSession key)" "preserves (online_but K) (getOrCreateSession key)"
  unfolding getOrCreateSession_def
  by (intro preserves_intros; simp add: sessions_ok_new online_new)+

subsection \<open>Bounds and keys\<close>

lemma p_status:
  assumes "\<And>c. cnState (patch c) = Connected \<longleftrightarrow> cnConnected (patch c)"
  shows "preserves sessions_ok (setConnectionStatus key patch)"
  unfolding setConnectionStatus_def
  by (intro preserves_intros p_setSession ok_frame(1) [OF keeps_now]) (simp add: session_bounded_def assms)

lemma p_client: "preserves sessions_ok (setClient key c)"
  unfolding setClient_def by (intro p_setSession) (simp add: session_bounded_def)

lemmas p_frame = ok_frame(1) [OF in_sessions.fr_emit] ok_frame(1) [OF in_sessions.fr_callOut] ok_frame(1) [OF keeps_now]
  ok_frame(1) [OF keeps_currentState]

lemma p_log: "preserves sessions_ok (mqWarn a b c d e)" "preserves sessions_ok (mqInfo a b c d)"
  unfolding mqWarn_def mqInfo_def by (rule p_frame)+

lemma p_disconnect: "preserves sessions_ok (disconnectClient P V L key corr reason)"
  unfolding disconnectClient_def Let_def
  by (intro preserves_intros p_client p_emit p_frame p_log p_status) (simp add: statusPatch_def)

lemma p_guarded: "(\<And>s. preserves I (body s)) \<Longrightarrow> preserves I (ofCurrentClient key client body)"
  unfolding ofCurrentClient_def by (intro preserves_intros)

lemma p_events:
  "preserves sessions_ok (onConnect P L key c)" "preserves sessions_ok (onReconnect P L key c)"
  "preserves sessions_ok (onOffline P L key c)" "preserves sessions_ok (onClose P L key c)"
  "preserves sessions_ok (onError P L key c corr e)"
  unfolding onConnect_def onReconnect_def onOffline_def onClose_def onError_def
  by (intro p_guarded preserves_intros p_status p_emit p_frame p_log; simp add: statusPatch_def)+

lemma om_ok_map_values: "om_ok (map (\<lambda>(k, v). (k, f k v)) m) = om_ok m"
  by (rule om_ok_map_value)

lemma trimmed_bounded:
  assumes "keyed_messages (esMessages s)" "om_ok (esSubscriptions s)"
    "cnState (esConnection s) = Connected \<longleftrightarrow> cnConnected (esConnection s)"
  shows "session_bounded (trimTrackedMessages s)"
proof -
  let ?t = "trim_messages (effectiveLimit (esLimit s)) (esMessages s)"
  have "keyed_messages ?t" "length ?t = min (length (esMessages s)) (nat (effectiveLimit (esLimit s)))"
    using trim_messages_spec [OF assms(1)] by simp_all
  then show ?thesis using assms(2,3) by (simp add: session_bounded_def trimTrackedMessages_def)
qed

lemma stored_bounded: "session_bounded s \<Longrightarrow> session_bounded (storeMessage m s)"
  unfolding storeMessage_def
  by (rule trimmed_bounded) (simp_all add: session_bounded_def countMatches_def om_ok_map_value keyed_update)

lemma ok_calls:
  "preserves sessions_ok (modify (\<lambda>w. w\<lparr>mqMsgCalls := g w\<rparr>))" "preserves sessions_ok (modify (\<lambda>w. w\<lparr>mqCalls := h w\<rparr>))"
  by (rule ok_frame(1), intro keeps_intros, simp)+

lemma p_message: "preserves sessions_ok (onMessage P V L key c topic payload qos retain)"
  unfolding onMessage_def Let_def
  by (intro p_guarded preserves_intros(6) p_frame p_emit ok_calls p_setSession stored_bounded)

lemmas p_parts = p_getOrCreate(1) p_client p_emit p_frame p_log p_disconnect

lemma p_watch: "preserves sessions_ok (watchSession P L key l ml)"
  unfolding watchSession_def
  by (intro preserves_intros(1-4,6-12) p_parts p_setSession ok_calls) (simp add: session_bounded_def)

lemma p_unwatch: "preserves sessions_ok (unwatchSession key l ml corr)"
  unfolding unwatchSession_def by (rule p_setSession) (simp add: session_bounded_def Let_def)

lemma p_timer: "preserves sessions_ok (emitTimer P L key)"
  unfolding emitTimer_def
  by (intro preserves_intros p_setSession ok_frame(1) [OF keeps_emitNow]) (simp add: session_bounded_def)

lemma p_close: "preserves sessions_ok (closeTimer P V L key)"
proof -
  have "sessions_ok w \<Longrightarrow> sessions_ok (w\<lparr>mqSessions := AList.delete key (mqSessions w)\<rparr>)" for w :: "('a, 'b) mqtt_world_scheme"
    by (auto simp: sessions_ok_def omap.ok_del) (auto simp: AList.delete_eq)
  then show ?thesis
    unfolding closeTimer_def
    by (intro preserves_intros p_parts p_setSession) (simp_all add: session_bounded_def)
qed

lemma p_connect: "preserves sessions_ok (mqttConnect P V L key input corr)"
proof -
  have wait: "preserves sessions_ok (waitForInitialConnect V c corr)" for c
  proof -
    have "preserves sessions_ok (case r of InitialConnect \<Rightarrow> ret () | InitialError e \<Rightarrow> raise (f e) | InitialTimeout \<Rightarrow> raise g)"
      for r f g by (cases r) (simp_all add: preserves_intros(1,2))
    then show ?thesis unfolding waitForInitialConnect_def by (intro preserves_intros p_frame)
  qed
  have reset: "preserves sessions_ok (setSession key (\<lambda>s. s\<lparr>esMessages := [], esTotal := 0, esSubscriptions := []\<rparr>))"
    by (rule p_setSession) (simp add: session_bounded_def keyed_messages_def)
  show ?thesis
    unfolding mqttConnect_def Let_def
    by (intro preserves_intros p_parts wait reset p_status) (simp_all add: statusPatch_def)
qed

lemma p_calls:
  "preserves sessions_ok (getExplorerState P L key)" "preserves sessions_ok (mqttDisconnect P V L key corr reason)"
  "preserves sessions_ok (mqttSubscribe P V L key f qos corr)" "preserves sessions_ok (mqttUnsubscribe P V L key f corr)"
  "preserves sessions_ok (mqttPublish P V L key i corr)" "preserves sessions_ok (clearMessages P L key corr)"
  "preserves sessions_ok (setTrackedTopicsLimit P L key limit corr)"
proof -
  have sub: "preserves sessions_ok (setSession key (\<lambda>s. s\<lparr>esSubscriptions := AList.update g b (esSubscriptions s)\<rparr>))"
    "preserves sessions_ok (setSession key (\<lambda>s. s\<lparr>esSubscriptions := AList.delete g (esSubscriptions s)\<rparr>))" for g b
    by (rule p_setSession, simp add: session_bounded_def omap.ok_put omap.ok_del)+
  have clear: "preserves sessions_ok (setSession key (\<lambda>s. s\<lparr>esMessages := [], esTotal := 0,
      esSubscriptions := map (\<lambda>(f, b). (f, b\<lparr>sbMatched := 0\<rparr>)) (esSubscriptions s)\<rparr>))"
    by (rule p_setSession) (simp add: session_bounded_def keyed_messages_def om_ok_map_value)
  have limit: "preserves sessions_ok (setSession key (\<lambda>s. trimTrackedMessages (s\<lparr>esLimit := limit\<rparr>)))"
    by (intro p_setSession trimmed_bounded) (simp_all add: session_bounded_def)
  show "preserves sessions_ok (getExplorerState P L key)" "preserves sessions_ok (mqttDisconnect P V L key corr reason)"
    "preserves sessions_ok (mqttSubscribe P V L key f qos corr)" "preserves sessions_ok (mqttUnsubscribe P V L key f corr)"
    "preserves sessions_ok (mqttPublish P V L key i corr)" "preserves sessions_ok (clearMessages P L key corr)"
    "preserves sessions_ok (setTrackedTopicsLimit P L key limit corr)"
    unfolding getExplorerState_def mqttDisconnect_def mqttSubscribe_def mqttUnsubscribe_def mqttPublish_def
      clearMessages_def setTrackedTopicsLimit_def Let_def
    by (intro preserves_intros p_parts sub clear limit)+
qed

subsection \<open>A connected session has a client\<close>

lemma online_butI:
  "(\<And>k s. (k, s) \<in> set (mqSessions w) \<Longrightarrow> k \<notin> K \<Longrightarrow> cnConnected (esConnection s) \<Longrightarrow> esClient s \<noteq> None) \<Longrightarrow> online_but K w"
  by (auto simp: online_but_def)

lemma online_butD:
  "online_but K w \<Longrightarrow> (k, s) \<in> set (mqSessions w) \<Longrightarrow> k \<notin> K \<Longrightarrow> cnConnected (esConnection s) \<Longrightarrow> esClient s \<noteq> None"
  by (auto simp: online_but_def)

lemma in_setSession:
  "(k, s') \<in> set (mqSessions (after (setSession key f) w)) \<longleftrightarrow>
    (\<exists>s. (k, s) \<in> set (mqSessions w) \<and> s' = (if k = key then f s else s))"
proof
  assume "\<exists>s. (k, s) \<in> set (mqSessions w) \<and> s' = (if k = key then f s else s)"
  then show "(k, s') \<in> set (mqSessions (after (setSession key f) w))"
    by (auto simp: after_def setSession_run intro!: rev_image_eqI)
qed (auto simp: after_def setSession_run)

lemma online_set:
  assumes "online_but K w"
    and "\<And>s. (key, s) \<in> set (mqSessions w) \<Longrightarrow> key \<notin> J \<Longrightarrow> cnConnected (esConnection (f s)) \<Longrightarrow> esClient (f s) \<noteq> None"
    and "K \<subseteq> insert key J"
  shows "online_but J (after (setSession key f) w)"
proof (rule online_butI)
  fix k s'
  assume "(k, s') \<in> set (mqSessions (after (setSession key f) w))" and out: "k \<notin> J" "cnConnected (esConnection s')"
  then obtain s where s: "(k, s) \<in> set (mqSessions w)" "s' = (if k = key then f s else s)" by (auto simp: in_setSession)
  show "esClient s' \<noteq> None"
  proof (cases "k = key")
    case True
    then show ?thesis using assms(2) s out by simp
  next
    case False
    then have "k \<notin> K" using assms(3) out(1) by blast
    then show ?thesis using online_butD [OF assms(1) s(1)] False s(2) out(2) by simp
  qed
qed

lemma setSession_after: "setSession key f w = (Inr (), after (setSession key f) w)"
  by (simp add: after_def setSession_run)

lemma o_setSession:
  assumes "\<And>s. (cnConnected (esConnection s) \<Longrightarrow> esClient s \<noteq> None) \<Longrightarrow> cnConnected (esConnection (f s)) \<Longrightarrow> esClient (f s) \<noteq> None"
  shows "preserves (online_but K) (setSession key f)"
proof (rule preservesI)
  fix w r w'
  assume w: "online_but K w" and "setSession key f w = (r, w')"
  then have "w' = after (setSession key f) w" by (simp add: setSession_after)
  moreover have "online_but K (after (setSession key f) w)"
    by (rule online_set [OF w]) (use assms online_butD [OF w] in blast)+
  ultimately show "online_but K w'" by simp
qed

lemmas o_frame = ok_frame(2) [OF in_sessions.fr_emit] ok_frame(2) [OF in_sessions.fr_callOut] ok_frame(2) [OF keeps_now]
  ok_frame(2) [OF keeps_currentState] ok_frame(2) [OF keeps_emitNow]

lemma o_log: "preserves (online_but K) (mqWarn a b c d e)" "preserves (online_but K) (mqInfo a b c d)"
  unfolding mqWarn_def mqInfo_def by (rule o_frame)+

lemma o_emit: "preserves (online_but K) (scheduleEmit P L key imm)"
  unfolding scheduleEmit_def by (intro preserves_intros o_setSession o_frame) simp_all

lemma o_offline: "(\<And>c. \<not> cnConnected (patch c)) \<Longrightarrow> preserves (online_but K) (setConnectionStatus key patch)"
  unfolding setConnectionStatus_def by (intro preserves_intros o_setSession o_frame) simp_all

lemma t_offline:
  assumes "\<And>c. \<not> cnConnected (patch c)"
  shows "triple (online_but {key}) (setConnectionStatus key patch) (\<lambda>_. online_but {}) (online_but {})"
proof -
  have "triple (online_but {key}) (setSession key f) (\<lambda>_. online_but {}) (online_but {})"
    if "\<And>s. \<not> cnConnected (esConnection (f s))" for f
    by (rule tripleI) (auto simp: setSession_after that intro: online_set)
  note set = this
  have "triple (online_but {key}) now (\<lambda>_. online_but {key}) (online_but {})" by (simp add: triple_def)
  then show ?thesis
    unfolding setConnectionStatus_def by (rule t_andThen) (rule set, simp add: assms)
qed

lemma statusPatch_online [simp]: "cnConnected (statusPatch st b m c) = b"
  by (simp add: statusPatch_def)

text \<open>The end of both ways out of a connection: no client, no connection.\<close>

lemma t_hang_up:
  assumes "preserves (online_but {key}) m" and "\<And>s e s'. m s \<noteq> (Inl e, s')"
    and "preserves (online_but {}) n"
  shows "preserves (online_but {}) (andThen (setClient key None) (\<lambda>_. andThen m (\<lambda>_.
    andThen (setConnectionStatus key (statusPatch st False reason)) (\<lambda>_. n))))"
proof (rule preserves_t)
  have m: "triple (online_but {key}) m (\<lambda>_. online_but {key}) (online_but {})"
    by (rule tripleI) (use assms(1,2) in \<open>auto dest: preservesD\<close>)
  have c: "triple (online_but {}) (setClient key None) (\<lambda>_. online_but {key}) (online_but {})"
    unfolding setClient_def by (rule tripleI) (auto simp: setSession_after intro: online_set)
  show "triple (online_but {}) (andThen (setClient key None) (\<lambda>_. andThen m (\<lambda>_.
    andThen (setConnectionStatus key (statusPatch st False reason)) (\<lambda>_. n)))) (\<lambda>_. online_but {}) (online_but {})"
    by (intro t_andThen [OF c] t_andThen [OF m] t_andThen [OF t_offline] t_preserves [OF assms(3)]) simp
qed

lemma o_disconnect: "preserves (online_but {}) (disconnectClient P V L key corr reason)"
proof -
  let ?shut = "\<lambda>c. case c of None \<Rightarrow> ret () | Some c \<Rightarrow> catching (callOut (mq_end V c)) (\<lambda>e.
      mqWarn ''mqtt::disconnect'' ''MQTT client shutdown raised an error.'' corr Null e)"
  have "preserves (online_but {key}) (?shut c)" for c
    by (intro preserves_intros o_frame o_log)
  moreover have "?shut c s \<noteq> (Inl e, s')" for c s e s'
    by (auto simp: catching_def mqWarn_def split: option.splits prod.splits sum.splits)
  ultimately have "preserves (online_but {}) (andThen (setClient key None) (\<lambda>_. andThen (?shut c) (\<lambda>_.
    andThen (setConnectionStatus key (statusPatch Disconnected False reason)) (\<lambda>_. scheduleEmit P L key True))))" for c
    by (intro t_hang_up o_emit)
  then show ?thesis unfolding disconnectClient_def Let_def by (rule preserves_intros(6) [OF preserves_intros(3)])
qed

text \<open>While the connection is set up, the session has its client.\<close>

definition has_client :: "string \<Rightarrow> ('b, 'z) mqtt_world_scheme \<Rightarrow> bool" where
  "has_client key w \<longleftrightarrow> online_but {} w \<and> (\<forall>s. (key, s) \<in> set (mqSessions w) \<longrightarrow> esClient s \<noteq> None)"

lemma h_frame: "keeps mqSessions m \<Longrightarrow> preserves (has_client key) m"
  by (erule preserves_if_keeps) (simp add: has_client_def online_but_def)

lemma h_setSession:
  assumes "\<And>s. esClient s \<noteq> None \<Longrightarrow> esClient (f s) \<noteq> None"
  shows "preserves (has_client key) (setSession key f)"
proof (rule preservesI)
  fix w r w'
  assume w: "has_client key w" and "setSession key f w = (r, w')"
  then have w': "w' = after (setSession key f) w" by (simp add: setSession_after)
  have "online_but {} (after (setSession key f) w)"
    by (rule online_set [where K = "{}"]) (use w assms in \<open>auto simp: has_client_def\<close>)
  then show "has_client key w'"
    using w assms unfolding has_client_def w' by (auto simp: in_setSession)
qed

lemma h_status: "preserves (has_client key) (setConnectionStatus key patch)"
  unfolding setConnectionStatus_def by (intro preserves_intros h_setSession h_frame [OF keeps_now]) simp

lemma h_emit: "preserves (has_client key) (scheduleEmit P L key imm)"
  unfolding scheduleEmit_def by (intro preserves_intros h_setSession h_frame [OF keeps_emitNow]) simp_all

lemma t_setClient: "triple (online_but {}) (setClient key (Some c)) (\<lambda>_. has_client key) (online_but {})"
  unfolding setClient_def
  by (rule tripleI) (auto simp: setSession_after has_client_def in_setSession intro: online_set)

lemma keeps_wait: "keeps mqSessions (waitForInitialConnect V c corr)"
proof -
  have "keeps mqSessions (case r of InitialConnect \<Rightarrow> ret () | InitialError e \<Rightarrow> raise (f e) | InitialTimeout \<Rightarrow> raise g)"
    for r f g by (cases r) (simp_all add: keeps_intros(1,2))
  then show ?thesis unfolding waitForInitialConnect_def by (intro in_sessions.fr_base)
qed

lemma t_weaken_error: "triple A m B D \<Longrightarrow> (\<And>s. D s \<Longrightarrow> E s) \<Longrightarrow> triple A m B E"
  by (rule tripleI) (auto dest: triple_Inl triple_Inr)

lemmas h_parts = h_status h_emit h_frame [OF keeps_wait] h_frame [OF keeps_now] h_frame [OF keeps_currentState]
  h_frame [OF in_sessions.fr_callOut] h_frame [OF in_sessions.fr_emit]

lemma quiet: "catching (callOut g) (\<lambda>_. ret ()) s \<noteq> (Inl e, s')"
  by (auto simp: catching_def split: prod.splits sum.splits)

lemma o_attempt:
  assumes "preserves (has_client key) body"
  shows "preserves (online_but {}) (andThen (setClient key (Some client)) (\<lambda>_. catching body (\<lambda>e.
       andThen (setClient key None) (\<lambda>_.
       andThen (catching (callOut (mq_end V client)) (\<lambda>_. ret ())) (\<lambda>_.
       andThen (setConnectionStatus key (statusPatch ConnectionError False (messageOr ''MQTT connection failed.'' e))) (\<lambda>_.
       andThen (scheduleEmit P L key True) (\<lambda>_. raise e)))))))"
proof (rule preserves_t, rule t_andThen [OF t_setClient], rule t_catching)
  have weak: "has_client key w \<Longrightarrow> online_but {} w" for w :: "('a, 'b) mqtt_world_scheme" by (simp add: has_client_def)
  show "triple (has_client key) body (\<lambda>_. online_but {}) (online_but {})"
    by (rule t_post [OF t_weaken_error [OF t_preserves [OF assms]]]) (simp_all add: has_client_def)
  fix e
  show "triple (online_but {}) (andThen (setClient key None) (\<lambda>_.
       andThen (catching (callOut (mq_end V client)) (\<lambda>_. ret ())) (\<lambda>_.
       andThen (setConnectionStatus key (statusPatch ConnectionError False (messageOr ''MQTT connection failed.'' e))) (\<lambda>_.
       andThen (scheduleEmit P L key True) (\<lambda>_. raise e))))) (\<lambda>_. online_but {}) (online_but {})"
    by (intro t_preserves t_hang_up preserves_intros o_frame o_emit quiet)
qed

lemma o_connect: "preserves (online_but {}) (mqttConnect P V L key input corr)"
  unfolding mqttConnect_def Let_def
  apply (rule preserves_intros(6) [OF p_getOrCreate(2)])
  apply (rule preserves_intros(6) [OF o_disconnect])
  apply (rule preserves_intros(6) [OF o_setSession], simp)
  apply (rule preserves_intros(6) [OF o_offline], simp)
  apply (rule preserves_intros(6) [OF o_emit])
  apply (rule preserves_intros(6) [OF o_frame(2)])
  apply (rule o_attempt)
  apply (intro preserves_intros h_parts)
  apply (simp add: mqInfo_def h_parts)
  done

lemma o_events:
  "preserves (online_but {}) (onReconnect P L key c)"
  "preserves (online_but {}) (onOffline P L key c)" "preserves (online_but {}) (onClose P L key c)"
  "preserves (online_but {}) (onError P L key c corr e)"
  unfolding onReconnect_def onOffline_def onClose_def onError_def
  by (intro p_guarded preserves_intros o_offline o_emit o_log; simp)+

lemma h_shown: "has_client key w \<Longrightarrow> has_client key (snd (andThen (setConnectionStatus key g) (\<lambda>_. scheduleEmit P L key True) w))"
  by (rule preserves_after [unfolded after_def]) (intro preserves_intros h_parts)

lemma onConnect_online:
  assumes "sessions_ok w" "online_but {} w"
  shows "online_but {} (after (onConnect P L key c) w)"
proof (cases "\<exists>s. map_of (mqSessions w) key = Some s \<and> esClient s = Some c")
  case False
  then have "after (onConnect P L key c) w = w"
    by (auto simp: after_def onConnect_def ofCurrentClient_def split: option.splits)
  then show ?thesis using assms(2) by simp
next
  case True
  then obtain s where s: "map_of (mqSessions w) key = Some s" "esClient s = Some c" by blast
  have "s' = s" if "(key, s') \<in> set (mqSessions w)" for s'
    using s(1) that assms(1) by (simp add: sessions_ok_def om_ok_def)
  then have "has_client key w" using assms(2) s(2) by (auto simp: has_client_def)
  then have "has_client key (after (onConnect P L key c) w)"
    using s by (simp add: after_def onConnect_def ofCurrentClient_def h_shown)
  then show ?thesis by (simp add: has_client_def)
qed

lemma o_message: "preserves (online_but {}) (onMessage P V L key c topic payload qos retain)"
proof -
  have "preserves (online_but {}) (setSession key (storeMessage m))" for m
    by (rule o_setSession) (simp add: storeMessage_def trimTrackedMessages_def)
  moreover have "preserves (online_but {}) (modify (\<lambda>w. w\<lparr>mqMsgCalls := g w\<rparr>))" for g
    by (rule ok_frame(2)) (intro keeps_intros, simp)
  ultimately show ?thesis
    unfolding onMessage_def Let_def by (intro p_guarded preserves_intros(6) o_frame o_emit)
qed

lemma online_gone: "online_but {} w \<Longrightarrow> online_but {} (w\<lparr>mqSessions := AList.delete key (mqSessions w)\<rparr>)"
  by (auto simp: online_but_def AList.delete_eq)

lemma o_live:
  "preserves (online_but {}) (watchSession P L key l ml)" "preserves (online_but {}) (unwatchSession key l ml corr)"
  "preserves (online_but {}) (emitTimer P L key)" "preserves (online_but {}) (closeTimer P V L key)"
proof -
  have calls: "preserves (online_but {}) (modify (\<lambda>w. w\<lparr>mqCalls := g w\<rparr>))" for g
    by (rule ok_frame(2)) (intro keeps_intros, simp)
  show "preserves (online_but {}) (watchSession P L key l ml)"
    unfolding watchSession_def
    by (intro preserves_intros(6) p_getOrCreate o_frame o_setSession calls) simp
  show "preserves (online_but {}) (unwatchSession key l ml corr)"
    unfolding unwatchSession_def by (rule o_setSession) (simp add: Let_def split: if_splits)
  show "preserves (online_but {}) (emitTimer P L key)"
    unfolding emitTimer_def by (intro preserves_intros o_setSession o_frame) simp_all
  show "preserves (online_but {}) (closeTimer P V L key)"
    unfolding closeTimer_def
    by (intro preserves_intros o_setSession o_disconnect) (simp_all add: online_gone)
qed

lemma o_calls:
  "preserves (online_but {}) (getExplorerState P L key)" "preserves (online_but {}) (mqttDisconnect P V L key corr reason)"
  "preserves (online_but {}) (mqttSubscribe P V L key f qos corr)" "preserves (online_but {}) (mqttUnsubscribe P V L key f corr)"
  "preserves (online_but {}) (mqttPublish P V L key i corr)" "preserves (online_but {}) (clearMessages P L key corr)"
  "preserves (online_but {}) (setTrackedTopicsLimit P L key limit corr)"
  unfolding getExplorerState_def mqttDisconnect_def mqttSubscribe_def mqttUnsubscribe_def mqttPublish_def
    clearMessages_def setTrackedTopicsLimit_def Let_def
  by (intro preserves_intros p_getOrCreate o_setSession o_disconnect o_frame o_log o_emit; simp add: trimTrackedMessages_def)+

section \<open>The service as a state machine\<close>

text \<open>
  One step is one call of the browser, one event of a client or one timer, whatever its arguments and its
  outcome, or something that happens elsewhere.
\<close>

inductive mqtt_step :: "'b platform \<Rightarrow> 'b mqtt_library \<Rightarrow> loaded_config \<Rightarrow> ('b, 'z) mqtt_world_scheme \<Rightarrow> ('b, 'z) mqtt_world_scheme \<Rightarrow> bool"
  for P V L where
  state: "mqtt_step P V L w (after (getExplorerState P L key) w)"
| watch: "mqtt_step P V L w (after (watchSession P L key l ml) w)"
| unwatch: "mqtt_step P V L w (after (unwatchSession key l ml corr) w)"
| connects: "mqtt_step P V L w (after (mqttConnect P V L key input corr) w)"
| disconnects: "mqtt_step P V L w (after (mqttDisconnect P V L key corr reason) w)"
| subscribes: "mqtt_step P V L w (after (mqttSubscribe P V L key f qos corr) w)"
| unsubscribes: "mqtt_step P V L w (after (mqttUnsubscribe P V L key f corr) w)"
| publishes: "mqtt_step P V L w (after (mqttPublish P V L key message corr) w)"
| clears: "mqtt_step P V L w (after (clearMessages P L key corr) w)"
| limits: "mqtt_step P V L w (after (setTrackedTopicsLimit P L key limit corr) w)"
| connect_event: "mqtt_step P V L w (after (onConnect P L key c) w)"
| reconnect_event: "mqtt_step P V L w (after (onReconnect P L key c) w)"
| offline_event: "mqtt_step P V L w (after (onOffline P L key c) w)"
| close_event: "mqtt_step P V L w (after (onClose P L key c) w)"
| error_event: "mqtt_step P V L w (after (onError P L key c corr e) w)"
| message_event: "mqtt_step P V L w (after (onMessage P V L key c topic payload qos retain) w)"
| emit_timer: "mqtt_step P V L w (after (emitTimer P L key) w)"
| close_timer: "mqtt_step P V L w (after (closeTimer P V L key) w)"
| elsewhere: "mqSessions w' = mqSessions w \<Longrightarrow> mqtt_step P V L w w'"

inductive mqtt_reachable :: "'b platform \<Rightarrow> 'b mqtt_library \<Rightarrow> loaded_config \<Rightarrow> ('b, 'z) mqtt_world_scheme \<Rightarrow> bool"
  for P V L where
  start: "mqSessions w = [] \<Longrightarrow> mqtt_reachable P V L w"
| step: "mqtt_reachable P V L w \<Longrightarrow> mqtt_step P V L w w' \<Longrightarrow> mqtt_reachable P V L w'"

lemma step_sessions: "mqtt_step P V L w w' \<Longrightarrow> sessions_ok w \<Longrightarrow> sessions_ok w'"
proof (induction rule: mqtt_step.induct)
  case (elsewhere w' w)
  then show ?case by (simp add: sessions_ok_def)
qed (erule preserves_after [rotated], rule p_calls p_watch p_unwatch p_connect p_events p_message p_timer p_close)+

lemma step_online: "mqtt_step P V L w w' \<Longrightarrow> sessions_ok w \<Longrightarrow> online_but {} w \<Longrightarrow> online_but {} w'"
proof (induction rule: mqtt_step.induct)
  case (elsewhere w' w)
  then show ?case by (simp add: online_but_def)
next
  case (connect_event w key c)
  then show ?case by (rule onConnect_online)
qed (erule preserves_after [rotated], rule o_calls o_live o_connect o_events o_message)+


definition sample_mqtt :: "(string, explorer_session) omap \<Rightarrow> sample_outside mqtt_world" where
  "sample_mqtt ss = \<lparr>clock = 1000, draws = 0, logs = [], outside = sample_start [] [] [], users = [], sessions = [],
    auth_requests = [], audit_log = [], settings = [], snapshots = [], dbFaults = [], provisionedAt = None, bootError = None,
    bootStatus = idleOperationStatus, oidcCache = None, mcpKey = None, mcpFingerprint = None, mcpHeartbeat = None,
    mcpReplay = [], mqSessions = ss, mqCalls = [], mqMsgCalls = []\<rparr>"


section \<open>The administrator's password\<close>

text \<open>When a connection is made with the broker administrator's configured password.\<close>

definition uses_admin_password :: "loaded_config \<Rightarrow> connect_input \<Rightarrow> bool" where
  "uses_admin_password L input \<longleftrightarrow> ciAuthMode input = ConfiguredAdmin \<or>
    (ciAuthMode input = DynsecClientMode \<and> (case ciPassword input of Some p \<Rightarrow> trim p | None \<Rightarrow> []) = [] \<and>
     (case ciUsername input of Some u \<Rightarrow> trim u | None \<Rightarrow> []) = bkDynsecAdminUsername (cfBroker (ldConfig L)))"

lemma same_shown:
  assumes "ldConfig L' = ldConfig L"
  shows "snapshot P L' = snapshot P L" "emitNow P L' = emitNow P L" "scheduleEmit P L' = scheduleEmit P L"
    "currentState P L' = currentState P L" "disconnectClient P V L' = disconnectClient P V L"
proof -
  have "buildDefaults L' = buildDefaults L" using assms by (simp add: buildDefaults_def)
  then show s: "snapshot P L' = snapshot P L" by (simp add: fun_eq_iff snapshot_def)
  show e: "emitNow P L' = emitNow P L" by (rule ext) (simp only: emitNow_def s)
  show c: "scheduleEmit P L' = scheduleEmit P L" by (intro ext) (simp only: scheduleEmit_def e)
  show "currentState P L' = currentState P L" by (rule ext) (simp only: currentState_def s)
  show "disconnectClient P V L' = disconnectClient P V L" by (intro ext) (simp only: disconnectClient_def c)
qed

text \<open>
  C33: the administrator's password leaves the server only in the two ways that ask for it: otherwise
  nothing a connection does or sends depends on any secret of the configuration. Where it is used it goes
  to whatever host the caller named.
\<close>

theorem admin_password_confined:
  assumes "ldConfig L' = ldConfig L"
  shows "if uses_admin_password L input
    then kpPassword (connectOptions input host (resolveCredentials L input)) = Some (secDynsecAdminPassword (ldSecrets L)) \<and>
      kpHost (connectOptions input host (resolveCredentials L input)) = host
    else mqttConnect P V L' key input corr w = mqttConnect P V L key input corr w"
proof (cases "uses_admin_password L input")
  case True
  then show ?thesis
    by (auto simp: uses_admin_password_def connectOptions_def resolveCredentials_def Let_def)
next
  case False
  then have "resolveCredentials L' input = resolveCredentials L input"
    using assms by (cases "ciAuthMode input") (auto simp: uses_admin_password_def resolveCredentials_def Let_def)
  then show ?thesis using False by (simp add: mqttConnect_def same_shown [OF assms])
qed

theorem admin_password_confined_witness:
  "kpPassword (connectOptions \<lparr>ciHost = ''elsewhere'', ciPort = 1883, ciTls = False, ciAuthMode = ConfiguredAdmin,
      ciUsername = None, ciPassword = None, ciClientId = None\<rparr> ''elsewhere''
      (resolveCredentials sample_loaded \<lparr>ciHost = ''elsewhere'', ciPort = 1883, ciTls = False, ciAuthMode = ConfiguredAdmin,
      ciUsername = None, ciPassword = None, ciClientId = None\<rparr>)) = Some (secDynsecAdminPassword (ldSecrets sample_loaded))"
  using admin_password_confined [of sample_loaded sample_loaded "\<lparr>ciHost = ''elsewhere'', ciPort = 1883, ciTls = False,
      ciAuthMode = ConfiguredAdmin, ciUsername = None, ciPassword = None, ciClientId = None\<rparr>" "''elsewhere''"]
  by (simp add: uses_admin_password_def)

end
