(* ===== verification/BrokerConfig.thy ===== *)
theory BrokerConfig
  imports Db Agent
begin

text \<open>
  \<open>server/config/service.ts\<close>: the broker's configuration file and its key files, read and replaced
  locally or through the broker agent, and the reload and restart of the broker. Node's file calls
  that only this service makes are a record of parameters; file contents are bytes.
\<close>

section \<open>Paths and bytes\<close>

text \<open>\<open>path.dirname\<close> and \<open>path.basename\<close> on POSIX.\<close>

definition dirname :: "string \<Rightarrow> string" where
  "dirname s =
    (if s = [] then ''.''
     else let body = dropWhile (\<lambda>c. c = CHR ''/'') (rev s);
              i = length (dropWhile (\<lambda>c. c \<noteq> CHR ''/'') body) - 1
          in if i = 0 then (if startsWith s ''/'' then ''/'' else ''.'')
             else if startsWith s ''/'' \<and> i = 1 then ''//'' else take i s)"

definition basename :: "string \<Rightarrow> string" where
  "basename s = rev (takeWhile (\<lambda>c. c \<noteq> CHR ''/'') (dropWhile (\<lambda>c. c = CHR ''/'') (rev s)))"

definition utf8_char :: "char \<Rightarrow> string" where
  "utf8_char c = (let n = of_char c :: nat in if n < 128 then [c] else [char_of (192 + n div 64), char_of (128 + n mod 64)])"

definition utf8_bytes :: "string \<Rightarrow> string" where
  "utf8_bytes s = concat (map utf8_char s)"

lemma length_utf8_bytes: "length (utf8_bytes s) = utf8_length s"
  by (induction s) (auto simp: utf8_bytes_def utf8_length_def utf8_char_def Let_def)

section \<open>File calls\<close>

record 'b node_files =
  fs_access :: "string \<Rightarrow> 'b \<Rightarrow> (exn + unit) \<times> 'b"
  fs_mkdir :: "string \<Rightarrow> 'b \<Rightarrow> (exn + unit) \<times> 'b"
  fs_rename :: "string \<Rightarrow> string \<Rightarrow> 'b \<Rightarrow> (exn + unit) \<times> 'b"
  fs_open :: "string \<Rightarrow> string \<Rightarrow> 'b \<Rightarrow> (exn + nat) \<times> 'b"
  fs_write :: "nat \<Rightarrow> string \<Rightarrow> 'b \<Rightarrow> (exn + unit) \<times> 'b"
  fs_truncate :: "nat \<Rightarrow> nat \<Rightarrow> 'b \<Rightarrow> (exn + unit) \<times> 'b"
  fs_sync :: "nat \<Rightarrow> 'b \<Rightarrow> (exn + unit) \<times> 'b"
  fs_close :: "nat \<Rightarrow> 'b \<Rightarrow> (exn + unit) \<times> 'b"
  err_code :: "exn \<Rightarrow> string option"

text \<open>\<open>try .. finally\<close>: an error of the last part replaces the outcome.\<close>

definition ensuring :: "('s, 'e, 'a) act \<Rightarrow> ('s, 'e, unit) act \<Rightarrow> ('s, 'e, 'a) act" where
  "ensuring m f = (\<lambda>s. case m s of (r, s') \<Rightarrow> (case f s' of (Inl e, s'') \<Rightarrow> (Inl e, s'') | (Inr _, s'') \<Rightarrow> (r, s'')))"

text \<open>\<open>Promise.all\<close> over calls that all run, in order.\<close>

primrec gatherAll :: "('s, 'e, 'a) act list \<Rightarrow> ('s, 'e, 'a list) act" where
  "gatherAll [] = ret []"
| "gatherAll (m # ms) = (\<lambda>s. case m s of (r, s') \<Rightarrow> (case gatherAll ms s' of (rs, s'') \<Rightarrow>
    (case r of Inl e \<Rightarrow> Inl e | Inr x \<Rightarrow> (case rs of Inl e \<Rightarrow> Inl e | Inr xs \<Rightarrow> Inr (x # xs)), s'')))"

section \<open>Key files\<close>

datatype key_file_id = CaFile | MosquittoPublicKey | BrokerPublicKey

fun key_file_str :: "key_file_id \<Rightarrow> string" where
  "key_file_str CaFile = ''caFile''"
| "key_file_str MosquittoPublicKey = ''mosquittoPublicKey''"
| "key_file_str BrokerPublicKey = ''brokerPublicKey''"

definition managedBrokerKeyFileOrder :: "key_file_id list" where
  "managedBrokerKeyFileOrder = [CaFile, MosquittoPublicKey, BrokerPublicKey]"

fun configuredPath :: "loaded_config \<Rightarrow> key_file_id \<Rightarrow> string option" where
  "configuredPath L CaFile = kfCaFile (bkKeyFiles (cfBroker (ldConfig L)))"
| "configuredPath L MosquittoPublicKey = kfMosquittoPublicKey (bkKeyFiles (cfBroker (ldConfig L)))"
| "configuredPath L BrokerPublicKey = kfBrokerPublicKey (bkKeyFiles (cfBroker (ldConfig L)))"

definition key_file_status :: "loaded_config \<Rightarrow> bool \<Rightarrow> key_file_id \<Rightarrow> jsval" where
  "key_file_status L there fileId = (let p = configuredPath L fileId in Obj
    [(''fileId'', Str (key_file_str fileId)), (''path'', opt_str p),
     (''fileName'', if nonblank p then Str (basename (the p)) else Null),
     (''configured'', Bool (nonblank p)), (''exists'', Bool there)])"

definition resolveManagedKeyFilePath :: "loaded_config \<Rightarrow> key_file_id \<Rightarrow> string option \<Rightarrow> exn + string" where
  "resolveManagedKeyFilePath L fileId corr =
    (let p = configuredPath L fileId in
     if nonblank p then Inr (the p)
     else Inl (createAppError ''config::resolveManagedKeyFilePath''
       (''Managed broker key file '' @ key_file_str fileId @ '' is not configured.'') ''BROKER_MANAGED_PATH_INVALID''
       corr (Obj [(''fileId'', Str (key_file_str fileId))]) 404 None))"

definition pathExists :: "'b node_files \<Rightarrow> string \<Rightarrow> key_file_id \<Rightarrow> string option \<Rightarrow> (('b, 'z) base_world_scheme, bool) io" where
  "pathExists F filePath fileId corr =
    catching (andThen (callOut (fs_access F filePath)) (\<lambda>_. ret True)) (\<lambda>e.
    if err_code F e = Some ''ENOENT'' then ret False
    else raise (createAppError ''config::pathExists''
      (''Failed checking managed broker key file '' @ key_file_str fileId @ ''.'') ''BROKER_CONFIG_INVALID'' corr
      (Obj [(''fileId'', Str (key_file_str fileId)), (''path'', Str filePath)]) 500 (Some e)))"

definition describeManagedKeyFilesFromConfig :: "loaded_config \<Rightarrow> jsval" where
  "describeManagedKeyFilesFromConfig L = Arr (map (key_file_status L False) managedBrokerKeyFileOrder)"

definition listKeyFiles ::
  "'b platform \<Rightarrow> 'b node_files \<Rightarrow> loaded_config \<Rightarrow> string option \<Rightarrow> (('b, 'z) base_world_scheme, jsval) io" where
  "listKeyFiles P F L corr =
    (if agentConfigured L then
       catching (listManagedKeyFiles P L corr) (\<lambda>e.
         if is_AppError e \<and> errorKey e = ''BROKER_AGENT_REQUEST_FAILED'' \<and> errorStatus e = 404 then
           andThen (emit ((logEvent LogWarn ''broker-config::listManagedKeyFiles''
             ''Broker agent does not expose managed key file listing. Falling back to configured key file metadata.''
             corr Undef)\<lparr>evErrorKey := Some (errorKey e), evRootCause := Some e\<rparr>)) (\<lambda>_.
           ret (describeManagedKeyFilesFromConfig L))
         else raise e)
     else
       andThen (gatherAll (map (\<lambda>fileId.
         andThen (if nonblank (configuredPath L fileId) then pathExists F (the (configuredPath L fileId)) fileId corr
                  else ret False)
           (\<lambda>there. ret (key_file_status L there fileId))) managedBrokerKeyFileOrder)) (\<lambda>entries.
       ret (Arr entries)))"

definition readKeyFile ::
  "'b platform \<Rightarrow> loaded_config \<Rightarrow> key_file_id \<Rightarrow> string option \<Rightarrow> (('b, 'z) base_world_scheme, jsval) io" where
  "readKeyFile P L fileId corr =
    (if agentConfigured L then readManagedKeyFile P L (key_file_str fileId) corr
     else andThen (liftR (resolveManagedKeyFilePath L fileId corr)) (\<lambda>filePath.
       catching (andThen (callOut (read_file P filePath)) (\<lambda>content. ret (Obj
           [(''fileId'', Str (key_file_str fileId)), (''path'', Str filePath),
            (''fileName'', Str (basename filePath)), (''content'', Str content)])))
         (\<lambda>e. raise (createAppError ''config::readManagedKeyFile''
           (''Failed reading managed broker key file '' @ key_file_str fileId @ ''.'') ''BROKER_CONFIG_INVALID'' corr
           (Obj [(''fileId'', Str (key_file_str fileId)), (''path'', Str filePath)]) 500 (Some e)))))"

section \<open>The configuration file\<close>

text \<open>The agent's answer is not validated: the value read is a \<open>string\<close> only locally.\<close>

definition readCurrentConfig ::
  "'b platform \<Rightarrow> loaded_config \<Rightarrow> string option \<Rightarrow> (('b, 'z) base_world_scheme, jsval) io" where
  "readCurrentConfig P L corr =
    (if agentConfigured L then readCurrentBrokerConfig P L corr
     else andThen (callOut (read_file P (bkMainConfigPath (cfBroker (ldConfig L))))) (\<lambda>t. ret (Str t)))"

definition readBrokerAgentRuntimeInfo ::
  "'b platform \<Rightarrow> loaded_config \<Rightarrow> string option \<Rightarrow> (('b, 'z) base_world_scheme, agent_runtime option) io" where
  "readBrokerAgentRuntimeInfo P L corr =
    (if \<not> agentConfigured L then ret None
     else catching (andThen (agentReadRuntime P L corr) (\<lambda>r. ret (Some r))) (\<lambda>e.
       andThen (emit (let ev = (logEvent LogWarn ''broker-config::readBrokerAgentRuntimeInfo''
           ''Broker agent runtime metadata is unavailable.'' corr Undef)\<lparr>evRootCause := Some e\<rparr> in
         if is_AppError e then ev\<lparr>evErrorKey := Some (errorKey e), evErrorCode := Some (errorCode e), evErrorChain := errorChain e\<rparr>
         else ev)) (\<lambda>_.
       ret None)))"

text \<open>The fallback of \<open>writeBrokerConfigLocally\<close>: over the old bytes, then cut to the new length.\<close>

definition writeInPlace ::
  "'b node_files \<Rightarrow> string \<Rightarrow> string \<Rightarrow> exn \<Rightarrow> (('b, 'z) base_world_scheme, unit) io" where
  "writeInPlace F brokerConfigPath rendered caught =
    andThen (catching (callOut (fs_open F brokerConfigPath ''r+'')) (\<lambda>openError.
      if err_code F openError = Some ''ENOENT'' then callOut (fs_open F brokerConfigPath ''w+'') else raise caught)) (\<lambda>handle.
    ensuring
      (catching
        (andThen (callOut (fs_write F handle (utf8_bytes rendered))) (\<lambda>_.
         andThen (callOut (fs_truncate F handle (length (utf8_bytes rendered)))) (\<lambda>_.
         callOut (fs_sync F handle))))
        (\<lambda>_. raise caught))
      (callOut (fs_close F handle)))"

definition writeBrokerConfigLocally ::
  "'b platform \<Rightarrow> 'b node_files \<Rightarrow> loaded_config \<Rightarrow> string \<Rightarrow> (('b, 'z) base_world_scheme, unit) io" where
  "writeBrokerConfigLocally P F L rendered =
    (let brokerConfigPath = bkMainConfigPath (cfBroker (ldConfig L)); temporaryPath = brokerConfigPath @ ''.tmp'' in
     andThen (callOut (fs_mkdir F (dirname brokerConfigPath))) (\<lambda>_.
     catching
       (andThen (callOut (write_file P temporaryPath rendered)) (\<lambda>_.
        callOut (fs_rename F temporaryPath brokerConfigPath)))
       (\<lambda>caught. writeInPlace F brokerConfigPath rendered caught)))"

definition configConflict :: "loaded_config \<Rightarrow> string \<Rightarrow> string \<Rightarrow> string option \<Rightarrow> exn" where
  "configConflict L expectedCurrent current corr =
    createAppError ''config::assertBrokerConfigMatchesExpected''
      ''Broker config changed since it was last pulled. Pull the latest broker config before pushing again.''
      ''BROKER_CONFIG_CONFLICT'' corr
      (Obj [(''path'', Str (bkMainConfigPath (cfBroker (ldConfig L)))),
            (''expectedBytes'', num_int (int (utf8_length expectedCurrent))),
            (''actualBytes'', num_int (int (utf8_length current)))]) 409 None"

definition assertBrokerConfigMatchesExpected ::
  "'b platform \<Rightarrow> loaded_config \<Rightarrow> string \<Rightarrow> string option \<Rightarrow> (('b, 'z) base_world_scheme, unit) io" where
  "assertBrokerConfigMatchesExpected P L expectedCurrent corr =
    andThen (readCurrentConfig P L corr) (\<lambda>current.
    if current = Str expectedCurrent then ret ()
    else case current of
        Str s \<Rightarrow> raise (configConflict L expectedCurrent s corr)
      | _ \<Rightarrow> raise (typeError ''The first argument must be of type string.''))"

definition pushBrokerConfig ::
  "'b platform \<Rightarrow> 'b node_files \<Rightarrow> loaded_config \<Rightarrow> string \<Rightarrow> string option \<Rightarrow> string option \<Rightarrow> string option
    \<Rightarrow> (('b, 'z) base_world_scheme, jsval) io" where
  "pushBrokerConfig P F L rendered expectedCurrent actorUsername corr =
    andThen (case expectedCurrent of
        None \<Rightarrow> ret () | Some e \<Rightarrow> assertBrokerConfigMatchesExpected P L e corr) (\<lambda>_.
    andThen (if agentConfigured L then andThen (agentWriteBrokerConfig P L rendered expectedCurrent corr) (\<lambda>_. ret ())
             else writeBrokerConfigLocally P F L rendered) (\<lambda>_.
    andThen (emit (logEvent LogInfo ''broker-config::pushBrokerConfig'' ''Pushed broker config text.'' corr
      (Obj [(''actorUsername'', opt_str actorUsername)]))) (\<lambda>_.
    andThen (readCurrentConfig P L corr) (\<lambda>current.
    ret (Obj [(''current'', current)])))))"

section \<open>Reload and restart\<close>

datatype broker_operation = Reload | Restart

fun operation_name :: "broker_operation \<Rightarrow> string" where
  "operation_name Reload = ''reload''"
| "operation_name Restart = ''restart''"

fun operation_setting :: "broker_operation \<Rightarrow> string" where
  "operation_setting Reload = ''lastReload''"
| "operation_setting Restart = ''lastRestart''"

fun operation_args :: "loaded_config \<Rightarrow> broker_operation \<Rightarrow> string list option" where
  "operation_args L Reload = bkReloadCommand (cfBroker (ldConfig L))"
| "operation_args L Restart = bkRestartCommand (cfBroker (ldConfig L))"

definition status_value :: "jsval \<Rightarrow> int \<Rightarrow> jsval \<Rightarrow> jsval" where
  "status_value st t message = Obj [(''status'', st), (''lastRunAt'', Str (toISOString t)), (''message'', message)]"

definition saveOperationStatus :: "broker_operation \<Rightarrow> jsval \<Rightarrow> jsval \<Rightarrow> ('b, 'z, unit) dbio" where
  "saveOperationStatus oper st message = andThen now (\<lambda>t.
    setSetting ''operations'' (operation_setting oper) (status_value st t message) t)"

text \<open>\<open>result.stderr.trim() || fallback\<close>; \<open>runCommand\<close> always gives a string.\<close>

definition commandMessage :: "broker_operation \<Rightarrow> jsval \<Rightarrow> string" where
  "commandMessage oper result =
    (if getProp ''exitCode'' result = num_int 0 then operation_name oper @ '' completed.''
     else let err = (case getProp ''stderr'' result of Str s \<Rightarrow> trim s | _ \<Rightarrow> []) in
       if err \<noteq> [] then err else operation_name oper @ '' failed.'')"

definition runOperationalCommand ::
  "'b platform \<Rightarrow> loaded_config \<Rightarrow> broker_operation \<Rightarrow> string option \<Rightarrow> ('b, 'z, jsval) dbio" where
  "runOperationalCommand P L oper corr =
    (case operation_args L oper of
       Some (executable # args) \<Rightarrow>
         if executable = [] then raise (PlainErr ''Error'' (operation_name oper @ '' command is empty.'') None)
         else
           andThen (runCommand P executable args None 30000 corr) (\<lambda>result.
           (let success = (getProp ''exitCode'' result = num_int 0) in
            andThen (saveOperationStatus oper (Str (if success then ''success'' else ''failed''))
              (Str (commandMessage oper result))) (\<lambda>_.
            if \<not> success then raise (createAppError ''config::runOperationalCommand'' (operation_name oper @ '' command failed.'')
              (if oper = Reload then ''BROKER_RELOAD_FAILED'' else ''BROKER_RESTART_FAILED'') corr result 500 None)
            else ret (Obj [(''status'', Str ''success''), (''message'', Str (operation_name oper @ '' completed.'')),
                           (''result'', result)]))))
     | _ \<Rightarrow>
         (let message = Str (operation_name oper @ '' command is not configured.'') in
          andThen (saveOperationStatus oper (Str ''idle'') message) (\<lambda>_.
          ret (Obj [(''status'', Str ''idle''), (''message'', message)]))))"

text \<open>\<open>reloadBroker\<close> and \<open>restartBroker\<close>.\<close>

definition operateBroker ::
  "'b platform \<Rightarrow> loaded_config \<Rightarrow> broker_operation \<Rightarrow> string option \<Rightarrow> ('b, 'z, jsval) dbio" where
  "operateBroker P L oper corr =
    andThen
      (if agentConfigured L then
         andThen (case oper of Reload \<Rightarrow> agentReloadBroker P L corr | Restart \<Rightarrow> agentRestartBroker P L corr) (\<lambda>operation.
         andThen (liftR (readProp ''status'' operation)) (\<lambda>st.
         andThen (saveOperationStatus oper st (coalesce (getProp ''message'' operation) Null)) (\<lambda>_.
         ret operation)))
       else runOperationalCommand P L oper corr) (\<lambda>operation.
    andThen (emit (logEvent LogInfo (''broker-config::'' @ operation_name oper @ ''Broker'')
      (''Triggered standalone broker '' @ operation_name oper @ ''.'') corr Undef)) (\<lambda>_.
    ret operation))"

definition reloadBroker :: "'b platform \<Rightarrow> loaded_config \<Rightarrow> string option \<Rightarrow> ('b, 'z, jsval) dbio" where
  "reloadBroker P L corr = operateBroker P L Reload corr"

definition restartBroker :: "'b platform \<Rightarrow> loaded_config \<Rightarrow> string option \<Rightarrow> ('b, 'z, jsval) dbio" where
  "restartBroker P L corr = operateBroker P L Restart corr"

end
