(* ===== verification/Snapshots.thy ===== *)
theory Snapshots
  imports DynsecService BrokerConfig
begin

text \<open>
  \<open>server/snapshots/service.ts\<close>: the export of the broker's state and configuration and of the
  accounts, and the import of such an export, which only ever applies the configuration.
\<close>

section \<open>Exports\<close>

record snapshot_export =
  seExportTime :: string
  seBuild :: string
  seId :: string
  seKind :: snapshot_kind
  seNote :: "string option"
  seData :: jsval

definition invalidImport :: "string \<Rightarrow> exn" where
  "invalidImport reason = createAppError ''snapshots::parseImport'' reason ''SNAPSHOT_IMPORT_INVALID'' None Null 400 None"

definition isRecord :: "jsval \<Rightarrow> bool" where
  "isRecord v = (case v of Obj _ \<Rightarrow> True | _ \<Rightarrow> False)"

definition snapshot_kind_of :: "jsval \<Rightarrow> snapshot_kind option" where
  "snapshot_kind_of v =
    (if v = Str ''dynsec'' then Some DynsecKind
     else if v = Str ''broker-config'' then Some BrokerConfigKind
     else if v = Str ''combined'' then Some CombinedKind else None)"

text \<open>\<open>typeof v === 'string' && v.trim()\<close>.\<close>

definition textGiven :: "jsval \<Rightarrow> bool" where
  "textGiven v = (case v of Str s \<Rightarrow> trim s \<noteq> [] | _ \<Rightarrow> False)"

definition parseSnapshotExport :: "jsval \<Rightarrow> exn + snapshot_export" where
  "parseSnapshotExport payload =
    (let meta = getProp ''snapshot'' payload; note = getProp ''note'' meta in
     if \<not> isRecord payload then Inl (invalidImport ''Snapshot payload must be an object.'')
     else if getProp ''title'' payload \<noteq> Str ''MQTTCTL'' \<or> getProp ''type'' payload \<noteq> Str ''snapshot'' then
       Inl (invalidImport ''Snapshot payload must include the MQTTCTL snapshot export envelope.'')
     else if \<not> textGiven (getProp ''exportTime'' payload) then
       Inl (invalidImport ''Snapshot export must include a non-empty export timestamp.'')
     else if \<not> textGiven (getProp ''build'' payload) then
       Inl (invalidImport ''Snapshot export must include a non-empty build label.'')
     else if \<not> isRecord meta then Inl (invalidImport ''Snapshot export must include snapshot metadata.'')
     else if \<not> textGiven (getProp ''id'' meta) then
       Inl (invalidImport ''Snapshot export must include a non-empty snapshot id.'')
     else if snapshot_kind_of (getProp ''kind'' meta) = None then
       Inl (invalidImport ''Snapshot export must include a valid snapshot kind.'')
     else if \<not> isRecord (getProp ''data'' payload) then
       Inl (invalidImport ''Snapshot export must include a data object.'')
     else if \<not> (nullish note \<or> str_of note \<noteq> None) then
       Inl (invalidImport ''Snapshot export note must be null or a string.'')
     else Inr \<lparr>seExportTime = the (str_of (getProp ''exportTime'' payload)),
       seBuild = the (str_of (getProp ''build'' payload)), seId = the (str_of (getProp ''id'' meta)),
       seKind = the (snapshot_kind_of (getProp ''kind'' meta)), seNote = str_of note,
       seData = getProp ''data'' payload\<rparr>)"

text \<open>The JSON values of a dynamic security state and of an account.\<close>

definition ref_value :: "string \<Rightarrow> entity_ref \<Rightarrow> jsval" where
  "ref_value key r = Obj [(key, Str (refName r)), (''priority'', num_rat (refPriority r))]"

definition acl_value :: "dynsec_acl \<Rightarrow> jsval" where
  "acl_value a = Obj [(''acltype'', Str (aclType a)), (''topic'', Str (aclTopic a)), (''priority'', num_rat (aclPriority a)),
    (''allow'', Bool (aclAllow a)), (''name'', aclName a), (''description'', aclDescription a)]"

definition client_value :: "dynsec_client \<Rightarrow> jsval" where
  "client_value c = Obj [(''username'', Str (dcUsername c)), (''clientid'', dcClientid c), (''textname'', dcTextname c),
    (''textdescription'', dcTextdescription c), (''disabled'', Bool (dcDisabled c)),
    (''roles'', Arr (map (ref_value ''rolename'') (dcRoles c))),
    (''groups'', Arr (map (ref_value ''groupname'') (dcGroups c)))]"

definition group_value :: "dynsec_group \<Rightarrow> jsval" where
  "group_value g = Obj [(''groupname'', Str (dgGroupname g)), (''textname'', dgTextname g),
    (''textdescription'', dgTextdescription g), (''roles'', Arr (map (ref_value ''rolename'') (dgRoles g))),
    (''clients'', Arr (map (ref_value ''username'') (dgClients g)))]"

definition role_value :: "dynsec_role \<Rightarrow> jsval" where
  "role_value r = Obj [(''rolename'', Str (drRolename r)), (''textname'', drTextname r),
    (''textdescription'', drTextdescription r), (''acls'', Arr (map acl_value (drAcls r)))]"

definition state_value :: "dynsec_state \<Rightarrow> jsval" where
  "state_value st = Obj [(''clients'', Arr (map client_value (dsClients st))), (''groups'', Arr (map group_value (dsGroups st))),
    (''roles'', Arr (map role_value (dsRoles st))), (''anonymousGroup'', opt_str (dsAnonymousGroup st)),
    (''defaultAcls'', dsDefaultAcls st), (''raw'', dsRaw st), (''loadedAt'', Str (dsLoadedAt st))]"

text \<open>A stored account without its password hash.\<close>

definition user_value :: "user_row \<Rightarrow> jsval" where
  "user_value u = Obj [(''id'', Str (uId u)), (''username'', Str (uUsername u)), (''email'', opt_str (uEmail u)),
    (''role'', Str (role_str (uRole u))), (''authSource'', Str (auth_method_str (uAuthSource u))),
    (''externalSubject'', opt_str (uExternalSubject u)), (''protectedFromAutoLink'', Bool (uProtected u)),
    (''disabled'', Bool (uDisabled u)), (''sessionVersion'', num_int (uSessionVersion u)),
    (''createdAt'', Str (toISOString (uCreatedAt u))), (''updatedAt'', Str (toISOString (uUpdatedAt u)))]"

definition export_value :: "snapshot_export \<Rightarrow> jsval" where
  "export_value s = Obj [(''title'', Str ''MQTTCTL''), (''type'', Str ''snapshot''), (''exportTime'', Str (seExportTime s)),
    (''build'', Str (seBuild s)),
    (''snapshot'', Obj [(''id'', Str (seId s)), (''kind'', Str (snapshot_kind_str (seKind s))), (''note'', opt_str (seNote s))]),
    (''data'', seData s)]"

text \<open>The members of \<open>data\<close>, each there for its kinds of snapshot.\<close>

definition dynsecPart ::
  "'b platform \<Rightarrow> loaded_config \<Rightarrow> snapshot_kind \<Rightarrow> string option \<Rightarrow> (('b, 'z) base_world_scheme, (string \<times> jsval) list) io" where
  "dynsecPart P L kind corr =
    (if kind = DynsecKind \<or> kind = CombinedKind
     then andThen (readState P L corr) (\<lambda>st. ret [(''dynsec'', state_value st)]) else ret [])"

definition configPart ::
  "'b platform \<Rightarrow> loaded_config \<Rightarrow> snapshot_kind \<Rightarrow> string option \<Rightarrow> (('b, 'z) base_world_scheme, (string \<times> jsval) list) io" where
  "configPart P L kind corr =
    (if kind = BrokerConfigKind \<or> kind = CombinedKind
     then andThen (readCurrentConfig P L corr) (\<lambda>c. ret [(''brokerConfig'', Obj [(''current'', c)])]) else ret [])"

definition usersPart :: "snapshot_kind \<Rightarrow> ('b, 'z, (string \<times> jsval) list) dbio" where
  "usersPart kind =
    (if kind = CombinedKind then andThen listUsers (\<lambda>us. ret [(''users'', Arr (map user_value us))]) else ret [])"

definition exportSnapshot ::
  "'b platform \<Rightarrow> loaded_config \<Rightarrow> string \<Rightarrow> snapshot_kind \<Rightarrow> string option \<Rightarrow> string option \<Rightarrow> string option
    \<Rightarrow> ('b, 'z, snapshot_export) dbio" where
  "exportSnapshot P L buildLabel kind actorUsername note corr =
    andThen (createOpaqueToken P 18) (\<lambda>token.
    andThen now (\<lambda>t.
    andThen (dynsecPart P L kind corr) (\<lambda>dynsec.
    andThen (configPart P L kind corr) (\<lambda>config.
    andThen (usersPart kind) (\<lambda>accounts.
    (let export = \<lparr>seExportTime = toISOString t, seBuild = buildLabel, seId = token, seKind = kind, seNote = note,
           seData = Obj (dynsec @ config @ accounts)\<rparr> in
     andThen (insertSnapshot \<lparr>snId = token, snKind = kind, snCreatedAt = t, snActorUsername = actorUsername,
       snNote = note, snPayload = json_text (export_value export)\<rparr>) (\<lambda>_.
     ret export)))))))"

definition listSnapshots :: "('b, 'z, snapshot_row list) dbio" where
  "listSnapshots = listSnapshotRows 50"

section \<open>Imports\<close>

definition dynsecImportNotice :: "jsval \<Rightarrow> jsval" where
  "dynsecImportNotice data =
    (if truthy (getProp ''dynsec'' data) then Str ''Dynsec snapshot restore is preview-only for client password safety.'' else Null)"

definition previewImport :: "jsval \<Rightarrow> exn + jsval" where
  "previewImport payload =
    (case parseSnapshotExport payload of Inl e \<Rightarrow> Inl e
     | Inr s \<Rightarrow> Inr (Obj
        [(''metadata'', Obj [(''title'', Str ''MQTTCTL''), (''type'', Str ''snapshot''), (''exportTime'', Str (seExportTime s)),
            (''build'', Str (seBuild s)), (''id'', Str (seId s)), (''kind'', Str (snapshot_kind_str (seKind s))),
            (''note'', opt_str (seNote s))]),
         (''dataKeys'', Arr (case seData s of Obj kvs \<Rightarrow> map (\<lambda>kv. Str (fst kv)) kvs | _ \<Rightarrow> [])),
         (''dynsecImportNotice'', dynsecImportNotice (seData s))]))"

definition applyImport ::
  "'b platform \<Rightarrow> 'b node_files \<Rightarrow> loaded_config \<Rightarrow> jsval \<Rightarrow> string option \<Rightarrow> string option
    \<Rightarrow> (('b, 'z) base_world_scheme, jsval) io" where
  "applyImport P F L payload actorUsername corr =
    andThen (liftR (previewImport payload)) (\<lambda>preview.
    andThen (liftR (parseSnapshotExport payload)) (\<lambda>s.
    andThen (case getProp ''current'' (getProp ''brokerConfig'' (seData s)) of
        Str rendered \<Rightarrow> andThen (pushBrokerConfig P F L rendered None actorUsername corr)
          (\<lambda>_. ret [(''brokerConfig'', Str ''pushed'')])
      | _ \<Rightarrow> ret []) (\<lambda>pushed.
    ret (Obj ((''preview'', preview) # pushed @
      (if truthy (getProp ''dynsec'' (seData s)) then [(''dynsec'',
         Str ''preview-only: client passwords are not present in snapshot exports and are not automatically restored.'')]
       else []))))))"

end
