(* ===== verification/ConfigSafety.thy ===== *)
theory ConfigSafety
  imports Snapshots
begin

text \<open>
  What the configuration and snapshot services guarantee: a push installs exactly the given text and
  refuses when the file is not what the caller last saw; what an export holds and what its import does.
\<close>

section \<open>Files\<close>

text \<open>
  What Node's file calls promise, over a view of the files' bytes: a write or a move that succeeds has
  happened, one that fails leaves every other file alone, an open file stays the same file.
\<close>

definition file_contract ::
  "'b platform \<Rightarrow> 'b node_files \<Rightarrow> ('b \<Rightarrow> string \<Rightarrow> string option) \<Rightarrow> ('b \<Rightarrow> nat \<Rightarrow> string option) \<Rightarrow> bool" where
  "file_contract P F content opened \<longleftrightarrow>
    (\<forall>p b r b'. fs_mkdir F p b = (r, b') \<longrightarrow> content b' = content b) \<and>
    (\<forall>p t b r b'. write_file P p t b = (r, b') \<longrightarrow> (\<forall>q. q \<noteq> p \<longrightarrow> content b' q = content b q) \<and>
      (r = Inr () \<longrightarrow> content b' p = Some (utf8_bytes t))) \<and>
    (\<forall>p n b r b'. fs_rename F p n b = (r, b') \<longrightarrow>
      content b' = (if r = Inr () then (content b)(n := content b p, p := None) else content b)) \<and>
    (\<forall>p m b r b'. fs_open F p m b = (r, b') \<longrightarrow>
      (case r of Inr h \<Rightarrow> opened b' h = Some p \<and> content b' p \<noteq> None \<and> (\<forall>q. q \<noteq> p \<longrightarrow> content b' q = content b q)
       | Inl _ \<Rightarrow> content b' = content b)) \<and>
    (\<forall>h s p old b r b'. fs_write F h s b = (r, b') \<and> opened b h = Some p \<and> content b p = Some old \<longrightarrow>
      opened b' h = Some p \<and> (\<forall>q. q \<noteq> p \<longrightarrow> content b' q = content b q) \<and>
      (r = Inr () \<longrightarrow> content b' p = Some (s @ drop (length s) old))) \<and>
    (\<forall>h n p old b r b'. fs_truncate F h n b = (r, b') \<and> opened b h = Some p \<and> content b p = Some old \<longrightarrow>
      (\<forall>q. q \<noteq> p \<longrightarrow> content b' q = content b q) \<and>
      (r = Inr () \<and> n \<le> length old \<longrightarrow> content b' p = Some (take n old))) \<and>
    (\<forall>h b r b'. fs_sync F h b = (r, b') \<longrightarrow> content b' = content b) \<and>
    (\<forall>h b r b'. fs_close F h b = (r, b') \<longrightarrow> content b' = content b) \<and>
    (\<forall>p b r b'. read_file P p b = (r, b') \<longrightarrow> content b' = content b \<and>
      (\<forall>t t'. r = Inr t \<and> content b p = Some (utf8_bytes t') \<longrightarrow> t = t'))"

lemma file_contract_mkdir:
  "file_contract P F content opened \<Longrightarrow> fs_mkdir F p b = (r, b') \<Longrightarrow> content b' = content b"
  unfolding file_contract_def by (drule conjunct1) blast

lemma file_contract_copy:
  "file_contract P F content opened \<Longrightarrow> write_file P p t b = (r, b') \<Longrightarrow>
    (\<forall>q. q \<noteq> p \<longrightarrow> content b' q = content b q) \<and> (r = Inr () \<longrightarrow> content b' p = Some (utf8_bytes t))"
  unfolding file_contract_def by (drule conjunct2, drule conjunct1) blast

lemma file_contract_rename:
  "file_contract P F content opened \<Longrightarrow> fs_rename F p n b = (r, b') \<Longrightarrow>
    content b' = (if r = Inr () then (content b)(n := content b p, p := None) else content b)"
  unfolding file_contract_def by (drule conjunct2, drule conjunct2, drule conjunct1) blast

lemma file_contract_open:
  "file_contract P F content opened \<Longrightarrow> fs_open F p m b = (r, b') \<Longrightarrow>
    (case r of Inr h \<Rightarrow> opened b' h = Some p \<and> content b' p \<noteq> None \<and> (\<forall>q. q \<noteq> p \<longrightarrow> content b' q = content b q)
     | Inl _ \<Rightarrow> content b' = content b)"
  unfolding file_contract_def by (drule conjunct2, drule conjunct2, drule conjunct2, drule conjunct1) blast

lemma file_contract_write:
  "file_contract P F content opened \<Longrightarrow> fs_write F h s b = (r, b') \<Longrightarrow> opened b h = Some p \<Longrightarrow> content b p = Some old \<Longrightarrow>
    opened b' h = Some p \<and> (\<forall>q. q \<noteq> p \<longrightarrow> content b' q = content b q) \<and>
    (r = Inr () \<longrightarrow> content b' p = Some (s @ drop (length s) old))"
  unfolding file_contract_def by (drule conjunct2, drule conjunct2, drule conjunct2, drule conjunct2, drule conjunct1) blast

lemma file_contract_truncate:
  "file_contract P F content opened \<Longrightarrow> fs_truncate F h n b = (r, b') \<Longrightarrow> opened b h = Some p \<Longrightarrow> content b p = Some old \<Longrightarrow>
    (\<forall>q. q \<noteq> p \<longrightarrow> content b' q = content b q) \<and> (r = Inr () \<and> n \<le> length old \<longrightarrow> content b' p = Some (take n old))"
  unfolding file_contract_def
  by (drule conjunct2, drule conjunct2, drule conjunct2, drule conjunct2, drule conjunct2, drule conjunct1) blast

lemma file_contract_end:
  "file_contract P F content opened \<Longrightarrow> fs_sync F h b = (r, b') \<Longrightarrow> content b' = content b"
  "file_contract P F content opened \<Longrightarrow> fs_close F h b = (r, b') \<Longrightarrow> content b' = content b"
  unfolding file_contract_def
   apply (drule conjunct2, drule conjunct2, drule conjunct2, drule conjunct2, drule conjunct2, drule conjunct2, drule conjunct1, blast)
  by (drule conjunct2, drule conjunct2, drule conjunct2, drule conjunct2, drule conjunct2, drule conjunct2, drule conjunct2,
      drule conjunct1, blast)

lemma file_contract_read:
  "file_contract P F content opened \<Longrightarrow> read_file P p b = (r, b') \<Longrightarrow>
    content b' = content b \<and> (\<forall>t t'. r = Inr t \<and> content b p = Some (utf8_bytes t') \<longrightarrow> t = t')"
  unfolding file_contract_def by ((drule conjunct2)+) blast

lemma t_callOut:
  "(\<And>w r b. A w \<Longrightarrow> g (outside w) = (r, b) \<Longrightarrow>
      case r of Inr x \<Rightarrow> B x (w\<lparr>outside := b\<rparr>) | Inl e \<Rightarrow> E (w\<lparr>outside := b\<rparr>)) \<Longrightarrow> triple A (callOut g) B E"
  by (fastforce simp: triple_def callOut_def split: prod.splits sum.splits)

lemma t_ensuring:
  "triple A m B E \<Longrightarrow> (\<And>x. triple (B x) f (\<lambda>_. B x) E) \<Longrightarrow> triple E f (\<lambda>_. E) E \<Longrightarrow> triple A (ensuring m f) B E"
  by (fastforce simp: triple_def ensuring_def split: prod.splits sum.splits)

abbreviation config_path :: "loaded_config \<Rightarrow> string" where
  "config_path L \<equiv> bkMainConfigPath (cfBroker (ldConfig L))"

text \<open>The files beside the configuration and its temporary copy are as they were.\<close>

definition only_config ::
  "loaded_config \<Rightarrow> ('b \<Rightarrow> string \<Rightarrow> string option) \<Rightarrow> (string \<Rightarrow> string option) \<Rightarrow> ('b, 'z) base_world_scheme \<Rightarrow> bool" where
  "only_config L content bef w \<longleftrightarrow>
    (\<forall>q. q \<noteq> config_path L \<and> q \<noteq> config_path L @ ''.tmp'' \<longrightarrow> content (outside w) q = bef q)"

definition config_is ::
  "loaded_config \<Rightarrow> ('b \<Rightarrow> string \<Rightarrow> string option) \<Rightarrow> string \<Rightarrow> ('b, 'z) base_world_scheme \<Rightarrow> bool" where
  "config_is L content bytes w \<longleftrightarrow> content (outside w) (config_path L) = Some bytes"

lemma only_config_trivial: "only_config L content (content (outside w)) w"
  by (simp add: only_config_def)

lemmas file_views = only_config_def config_is_def

lemma t_mkdir:
  assumes "file_contract P F content opened"
  shows "triple (only_config L content c0) (callOut (fs_mkdir F p)) (\<lambda>_. only_config L content c0) (only_config L content c0)"
  by (rule t_callOut, drule file_contract_mkdir [OF assms]) (auto simp: file_views split: sum.splits if_splits)

lemma t_write_copy:
  assumes "file_contract P F content opened"
  shows "triple (only_config L content c0) (callOut (write_file P (config_path L @ ''.tmp'') t))
    (\<lambda>_ w. only_config L content c0 w \<and> content (outside w) (config_path L @ ''.tmp'') = Some (utf8_bytes t))
    (only_config L content c0)"
  by (rule t_callOut, drule file_contract_copy [OF assms]) (auto simp: file_views split: sum.splits if_splits)

lemma t_rename:
  assumes "file_contract P F content opened"
  shows "triple (\<lambda>w. only_config L content c0 w \<and> content (outside w) (config_path L @ ''.tmp'') = Some s)
    (callOut (fs_rename F (config_path L @ ''.tmp'') (config_path L)))
    (\<lambda>_ w. only_config L content c0 w \<and> config_is L content s w) (only_config L content c0)"
  by (rule t_callOut, drule file_contract_rename [OF assms]) (auto simp: file_views split: sum.splits if_splits)

definition holds_config ::
  "loaded_config \<Rightarrow> ('b \<Rightarrow> string \<Rightarrow> string option) \<Rightarrow> ('b \<Rightarrow> nat \<Rightarrow> string option) \<Rightarrow> (string \<Rightarrow> string option) \<Rightarrow> nat \<Rightarrow> string
    \<Rightarrow> ('b, 'z) base_world_scheme \<Rightarrow> bool" where
  "holds_config L content opened c0 h s w \<longleftrightarrow> only_config L content c0 w \<and> opened (outside w) h = Some (config_path L) \<and>
    (\<exists>rest. config_is L content (s @ rest) w)"

lemma t_open:
  assumes "file_contract P F content opened"
  shows "triple (only_config L content c0) (callOut (fs_open F (config_path L) m)) (\<lambda>h. holds_config L content opened c0 h [])
    (only_config L content c0)"
  by (rule t_callOut, drule file_contract_open [OF assms]) (auto simp: file_views holds_config_def split: sum.splits if_splits)

lemma t_overwrite:
  assumes "file_contract P F content opened"
  shows "triple (holds_config L content opened c0 h []) (callOut (fs_write F h s)) (\<lambda>_. holds_config L content opened c0 h s)
    (only_config L content c0)"
proof (rule t_callOut)
  fix w r b
  assume h: "holds_config L content opened c0 h [] w" and g: "fs_write F h s (outside w) = (r, b)"
  then obtain old where old: "content (outside w) (config_path L) = Some old" by (auto simp: holds_config_def file_views)
  then have "opened b h = Some (config_path L) \<and> (\<forall>q. q \<noteq> config_path L \<longrightarrow> content b q = content (outside w) q) \<and>
      (r = Inr () \<longrightarrow> content b (config_path L) = Some (s @ drop (length s) old))"
    using file_contract_write [OF assms g _ old] h by (simp add: holds_config_def)
  then show "case r of Inr x \<Rightarrow> holds_config L content opened c0 h s (w\<lparr>outside := b\<rparr>)
      | Inl e \<Rightarrow> only_config L content c0 (w\<lparr>outside := b\<rparr>)"
    using h by (cases r) (auto simp: holds_config_def file_views)
qed

lemma t_cut:
  assumes "file_contract P F content opened"
  shows "triple (holds_config L content opened c0 h s) (callOut (fs_truncate F h (length s)))
    (\<lambda>_ w. only_config L content c0 w \<and> config_is L content s w) (only_config L content c0)"
proof (rule t_callOut)
  fix w r b
  assume h: "holds_config L content opened c0 h s w" and g: "fs_truncate F h (length s) (outside w) = (r, b)"
  then obtain rest where rest: "content (outside w) (config_path L) = Some (s @ rest)" by (auto simp: holds_config_def file_views)
  then have "(\<forall>q. q \<noteq> config_path L \<longrightarrow> content b q = content (outside w) q) \<and>
      (r = Inr () \<longrightarrow> content b (config_path L) = Some (take (length s) (s @ rest)))"
    using file_contract_truncate [OF assms g _ rest] h by (simp add: holds_config_def)
  then show "case r of Inr x \<Rightarrow> only_config L content c0 (w\<lparr>outside := b\<rparr>) \<and> config_is L content s (w\<lparr>outside := b\<rparr>)
      | Inl e \<Rightarrow> only_config L content c0 (w\<lparr>outside := b\<rparr>)"
    using h by (cases r) (auto simp: holds_config_def file_views)
qed

lemma t_sync_close:
  assumes "file_contract P F content opened"
  shows "triple (\<lambda>w. only_config L content c0 w \<and> config_is L content s w) (callOut (fs_sync F h))
      (\<lambda>_ w. only_config L content c0 w \<and> config_is L content s w) (only_config L content c0)"
    "triple (\<lambda>w. only_config L content c0 w \<and> config_is L content s w) (callOut (fs_close F h))
      (\<lambda>_ w. only_config L content c0 w \<and> config_is L content s w) (only_config L content c0)"
    "triple (only_config L content c0) (callOut (fs_close F h)) (\<lambda>_. only_config L content c0) (only_config L content c0)"
  by (rule t_callOut, drule file_contract_end [OF assms], auto simp: file_views split: sum.splits)+

lemma t_in_place:
  assumes "file_contract P F content opened"
  shows "triple (only_config L content c0) (writeInPlace F (config_path L) rendered caught)
    (\<lambda>_ w. only_config L content c0 w \<and> config_is L content (utf8_bytes rendered) w) (only_config L content c0)"
  unfolding writeInPlace_def
  by (rule t_andThen, rule t_catching, rule t_open [OF assms], rule t_if, rule t_open [OF assms], rule t_raise, assumption,
      rule t_ensuring, rule t_catching, rule t_andThen, rule t_overwrite [OF assms], rule t_andThen, rule t_cut [OF assms],
      rule t_sync_close(1) [OF assms], rule t_raise, assumption, rule t_sync_close(2) [OF assms], rule t_sync_close(3) [OF assms])

lemma t_write_locally:
  assumes "file_contract P F content opened"
  shows "triple (only_config L content c0) (writeBrokerConfigLocally P F L rendered)
    (\<lambda>_ w. only_config L content c0 w \<and> config_is L content (utf8_bytes rendered) w) (only_config L content c0)"
  unfolding writeBrokerConfigLocally_def Let_def
  by (rule t_andThen, rule t_mkdir [OF assms], rule t_catching, rule t_andThen, rule t_write_copy [OF assms],
      rule t_rename [OF assms], rule t_in_place [OF assms])

section \<open>Pushing a configuration\<close>

lemma callOut_read:
  assumes "file_contract P F content opened" and "callOut (read_file P p) w = (r, w')"
  shows "content (outside w') = content (outside w) \<and> r = fst (read_file P p (outside w)) \<and>
    (\<forall>t t'. r = Inr t \<and> content (outside w) p = Some (utf8_bytes t') \<longrightarrow> t = t')"
proof -
  obtain b where g: "read_file P p (outside w) = (r, b)" and w': "w' = w\<lparr>outside := b\<rparr>"
    using assms(2) by (auto simp: callOut_def split: prod.splits)
  then show ?thesis using file_contract_read [OF assms(1) g] by simp
qed

lemma assert_run:
  assumes "file_contract P F content opened" and "\<not> agentConfigured L"
    and "assertBrokerConfigMatchesExpected P L e corr w = (r, w')"
  shows "content (outside w') = content (outside w) \<and>
    (case fst (read_file P (config_path L) (outside w)) of Inl x \<Rightarrow> r = Inl x
     | Inr t \<Rightarrow> r = (if t = e then Inr () else Inl (configConflict L e t corr)))"
proof -
  obtain x w1 where c: "callOut (read_file P (config_path L)) w = (x, w1)" by fastforce
  note c' = callOut_read [OF assms(1) c]
  then have x: "fst (read_file P (config_path L) (outside w)) = x" by simp
  have "w' = w1 \<and> (case x of Inl y \<Rightarrow> r = Inl y
     | Inr t \<Rightarrow> r = (if t = e then Inr () else Inl (configConflict L e t corr)))"
    using assms(2,3) c
    by (cases x) (auto simp: assertBrokerConfigMatchesExpected_def readCurrentConfig_def andThen_def split: if_splits)
  then show ?thesis unfolding x using c' by blast
qed

lemma push_effect:
  assumes c: "file_contract P F content opened" and l: "\<not> agentConfigured L"
    and w1: "only_config L content c0 w1"
    and run: "andThen (writeBrokerConfigLocally P F L rendered) (\<lambda>_.
      andThen (emit ev) (\<lambda>_. andThen (readCurrentConfig P L corr) (\<lambda>current. ret (Obj [(''current'', current)])))) w1 = (r, w')"
  shows "only_config L content c0 w' \<and> (\<forall>v. r = Inr v \<longrightarrow>
    v = Obj [(''current'', Str rendered)] \<and> config_is L content (utf8_bytes rendered) w')"
proof -
  obtain x w2 where w2: "writeBrokerConfigLocally P F L rendered w1 = (x, w2)" by fastforce
  show ?thesis
  proof (cases x)
    case (Inl e)
    then show ?thesis using triple_Inl [OF t_write_locally [OF c] w1] w2 run by auto
  next
    case (Inr u)
    then have w2': "only_config L content c0 w2 \<and> config_is L content (utf8_bytes rendered) w2"
      using triple_Inr [OF t_write_locally [OF c] w1] w2 by blast
    let ?w3 = "w2\<lparr>logs := logs w2 @ [ev]\<rparr>"
    obtain y w4 where w4: "callOut (read_file P (config_path L)) ?w3 = (y, w4)" by fastforce
    note d = callOut_read [OF c w4]
    then have "only_config L content c0 w4 \<and> config_is L content (utf8_bytes rendered) w4"
      using w2' by (simp add: file_views)
    moreover have "content (outside ?w3) (config_path L) = Some (utf8_bytes rendered)"
      using w2' by (simp add: config_is_def)
    then have "y = Inr t \<Longrightarrow> t = rendered" for t
      using d by blast
    moreover have "andThen (readCurrentConfig P L corr) (\<lambda>current. ret (Obj [(''current'', current)])) ?w3 = (r, w')"
      using run w2 Inr by (simp add: andThen_def)
    then have "r = (case y of Inl e \<Rightarrow> Inl e | Inr t \<Rightarrow> Inr (Obj [(''current'', Str t)])) \<and> w' = w4"
      using w4 l by (cases y) (simp_all add: readCurrentConfig_def andThen_def)
    ultimately show ?thesis by (auto split: sum.splits)
  qed
qed


text \<open>
  A broker whose configuration is a mounted file: it cannot be replaced, only written in place. The bytes
  of the sample's files are decoded where they are read.
\<close>

fun utf8_text :: "string \<Rightarrow> string" where
  "utf8_text [] = []"
| "utf8_text [c] = [c]"
| "utf8_text (c # d # cs) =
    (if (of_char c :: nat) < 128 then c # utf8_text (d # cs)
     else char_of ((of_char c - 192) * 64 + (of_char d - 128) :: nat) # utf8_text cs)"

lemma utf8_char_cases:
  obtains "(of_char c :: nat) < 128" "utf8_char c = [c]"
  | d e where "utf8_char c = [d, e]" "\<not> (of_char d :: nat) < 128"
      "(of_char c :: nat) = (of_char d - 192) * 64 + (of_char e - 128)"
proof (cases "(of_char c :: nat) < 128")
  case False
  let ?n = "of_char c :: nat"
  let ?d = "char_of (192 + ?n div 64) :: char" and ?e = "char_of (128 + ?n mod 64) :: char"
  have n: "?n < 256" by simp
  then have "192 + ?n div 64 < 256" "128 + ?n mod 64 < 256" by linarith+
  then have "of_char ?d = 192 + ?n div 64" "of_char ?e = 128 + ?n mod 64" by simp_all
  then have "?n = (of_char ?d - 192) * 64 + (of_char ?e - 128)" "\<not> (of_char ?d :: nat) < 128"
    by (simp_all only:) simp_all
  moreover have "utf8_char c = [?d, ?e]" using False by (simp add: utf8_char_def Let_def)
  ultimately show ?thesis by (intro that(2) [of ?d ?e])
qed (use that(1) in \<open>simp add: utf8_char_def Let_def\<close>)

lemma utf8_text_bytes: "utf8_text (utf8_bytes s) = s"
proof (induction s)
  case Nil
  then show ?case by (simp add: utf8_bytes_def)
next
  case (Cons c s)
  then have IH: "utf8_text (concat (map utf8_char s)) = s" by (simp add: utf8_bytes_def)
  show ?case
  proof (cases c rule: utf8_char_cases)
    case 1
    then show ?thesis using IH by (cases "concat (map utf8_char s)") (simp_all add: utf8_bytes_def)
  next
    case (2 d e)
    then show ?thesis using IH by (simp add: utf8_bytes_def flip: 2(3))
  qed
qed

definition mounted_platform :: "sample_outside platform" where
  "mounted_platform = sample_platform
    \<lparr>read_file := (\<lambda>f b. (case map_of (soFiles b) f of
        Some t \<Rightarrow> Inr (utf8_text t) | None \<Rightarrow> Inl (PlainErr ''Error'' ''ENOENT'' None), b)),
     write_file := (\<lambda>f t b. (Inr (), b\<lparr>soFiles := AList.update f (utf8_bytes t) (soFiles b)\<rparr>))\<rparr>"

definition mounted_path :: string where "mounted_path = ''/mosquitto.conf''"

definition mounted_file :: "sample_outside \<Rightarrow> string" where
  "mounted_file b = (case map_of (soFiles b) mounted_path of Some t \<Rightarrow> t | None \<Rightarrow> [])"

definition mounted_put :: "(string \<Rightarrow> string) \<Rightarrow> nat \<Rightarrow> sample_outside \<Rightarrow> (exn + unit) \<times> sample_outside" where
  "mounted_put f h b = (if h = 0 then (Inr (), b\<lparr>soFiles := AList.update mounted_path (f (mounted_file b)) (soFiles b)\<rparr>)
    else (Inl (PlainErr ''Error'' ''EBADF'' None), b))"

definition mounted_files :: "sample_outside node_files" where
  "mounted_files =
    \<lparr>fs_access = (\<lambda>p b. (if map_of (soFiles b) p = None then Inl (PlainErr ''Error'' ''ENOENT'' None) else Inr (), b)),
     fs_mkdir = (\<lambda>p b. (Inr (), b)),
     fs_rename = (\<lambda>p q b. (Inl (PlainErr ''Error'' ''EBUSY'' None), b)),
     fs_open = (\<lambda>p m b. (if p = mounted_path \<and> map_of (soFiles b) p \<noteq> None then Inr 0
       else Inl (PlainErr ''Error'' ''EACCES'' None), b)),
     fs_write = (\<lambda>h s. mounted_put (\<lambda>old. s @ drop (length s) old) h),
     fs_truncate = (\<lambda>h n. mounted_put (take n) h),
     fs_sync = (\<lambda>h b. (Inr (), b)),
     fs_close = (\<lambda>h b. (Inr (), b)),
     err_code = (\<lambda>e. Some (messageOr [] e))\<rparr>"

lemma mounted_contract:
  "file_contract mounted_platform mounted_files (\<lambda>b. map_of (soFiles b)) (\<lambda>b h. if h = 0 then Some mounted_path else None)"
  unfolding file_contract_def
  by (intro conjI)
     (auto simp: mounted_platform_def sample_platform_def mounted_files_def mounted_put_def mounted_file_def
        utf8_text_bytes update_conv' split: if_splits option.splits)

definition mounted_world :: "sample_outside base_world" where
  "mounted_world = sample_base (sample_start [(mounted_path, ''listener 1883'')] [] [])"


section \<open>Snapshots\<close>

text \<open>The parts of an export that returned, and the worlds they were read in.\<close>

lemma export_parts:
  assumes "exportSnapshot P L label kind actor note corr w = (Inr s, w')"
  obtains d c a w2 w3 w4 where
    "s = \<lparr>seExportTime = toISOString (clock w), seBuild = label, seId = random_b64url P (draws w) 18, seKind = kind,
       seNote = note, seData = Obj (d @ c @ a)\<rparr>"
    "dynsecPart P L kind corr (w\<lparr>draws := Suc (draws w)\<rparr>) = (Inr d, w2)" "configPart P L kind corr w2 = (Inr c, w3)"
    "usersPart kind w3 = (Inr a, w4)"
    "snapshots w' = snapshots w4 @ [\<lparr>snId = seId s, snKind = kind, snCreatedAt = clock w, snActorUsername = actor,
       snNote = note, snPayload = json_text (export_value s)\<rparr>]"
  using assms unfolding exportSnapshot_def createOpaqueToken_def Let_def insertSnapshot_def
  by (elim andThen_eq_InrE) (auto dest!: dbWrite_InrD)

lemma getProp_simps [simp]: "getProp k (Obj ((k', v) # kvs)) = (if k = k' then v else getProp k (Obj kvs))"
  "getProp k (Obj []) = Undef"
  by (simp_all add: getProp_def)

lemma trim_nonempty:
  assumes "c \<in> set s" and "\<not> js_space c"
  shows "trim s \<noteq> []"
proof -
  have "dropWhile js_space s \<noteq> []" using assms by (auto simp: dropWhile_eq_Nil_conv)
  then have "\<exists>x \<in> set (dropWhile js_space s). \<not> js_space x" using hd_dropWhile hd_in_set by blast
  then show ?thesis by (auto simp: trim_def trimStart_def trimEnd_def dropWhile_eq_Nil_conv)
qed

text \<open>What an export returned passes the checks of an import.\<close>

lemma export_parses:
  assumes "exportSnapshot P L label kind actor note corr w = (Inr s, w')"
    and "trim label \<noteq> []" and "trim (random_b64url P (draws w) 18) \<noteq> []"
  shows "parseSnapshotExport (export_value s) = Inr s"
proof -
  have "CHR ''Z'' \<in> set (toISOString (clock w))" 
    by (cases "civil (clock w div 86400000)") (simp add: toISOString_def Let_def)
  then have "trim (toISOString (clock w)) \<noteq> []" by (rule trim_nonempty) (simp add: js_space_def)
  moreover obtain data where "s = \<lparr>seExportTime = toISOString (clock w), seBuild = label,
      seId = random_b64url P (draws w) 18, seKind = kind, seNote = note, seData = Obj data\<rparr>"
    using assms(1) by (elim export_parts)
  ultimately show ?thesis
    using assms(2,3) by (cases kind; cases "note")
      (simp_all add: parseSnapshotExport_def export_value_def Let_def isRecord_def textGiven_def
        snapshot_kind_of_def str_of_def nullish_def opt_str_def)
qed

lemma callOut_content:
  assumes "file_contract P F content opened"
  shows "keeps (\<lambda>w. content (outside w)) (callOut (read_file P p))"
  by (rule keepsI) (drule callOut_read [OF assms], simp)

lemma readState_content:
  assumes "file_contract P F content opened" and "\<not> agentConfigured L"
  shows "keeps (\<lambda>w. content (outside w)) (readState P L corr)"
  unfolding readState_def Let_def if_not_P [OF assms(2)]
  by (intro keeps_intros keeps_now callOut_content [OF assms(1)])

lemma dynsecPart_content:
  assumes "file_contract P F content opened" and "\<not> agentConfigured L"
  shows "keeps (\<lambda>w. content (outside w)) (dynsecPart P L kind corr)"
  unfolding dynsecPart_def by (intro keeps_intros readState_content [OF assms])


definition mounted_db :: "sample_outside db_world" where
  "mounted_db = sample_db (sample_start [(mounted_path, ''listener 1883'')] [] [])"


section \<open>What a snapshot gives away\<close>

lemma normalizeState_raw: "normalizeState raw t = Inr st \<Longrightarrow> dsRaw st = raw"
  by (auto simp: normalizeState_def split: sum.splits)

lemma readState_raw:
  assumes "\<not> agentConfigured L" and "fst (read_file P (bkDynsecStateFilePath (cfBroker (ldConfig L))) (outside w)) = Inr fileText"
    and "jsonParse fileText = Inr raw" and "readState P L corr w = (Inr st, w')"
  shows "dsRaw st = raw"
  using assms normalizeState_raw
  by (auto simp: readState_def Let_def catching_def andThen_def callOut_def split: prod.splits sum.splits)

lemma user_value_no_hash: "getProp ''passwordHash'' (user_value u) = Undef"
  by (simp add: user_value_def getProp_def)


definition leaky_state :: jsval where
  "leaky_state = Obj [(''clients'', Arr [Obj [(''username'', Str ''bob''), (''password'', Str ''hash'')]])]"

definition leaky_db :: "sample_outside db_world" where
  "leaky_db = sample_db (sample_start [(''/dynsec.json'', json_text leaky_state)] [] [])"


end
