(* ===== verification/Http.thy ===== *)
theory Http
  imports MqttService Snapshots Net
begin

text \<open>
  The HTTP layer: a request and a reply (the \<open>RequestEvent\<close> and \<open>Response\<close> of SvelteKit), the
  helpers of \<open>server/http.ts\<close>, the paths of \<open>server/config/http-api.ts\<close>, the guards of the MQTT
  routes (\<open>fe/lib/server/mqtt/access.ts\<close>) and the schemas with which the handlers read a JSON body.
  \<^item> A handler is an action that returns a reply; \<open>app\<close> holds what \<open>event.locals.appContext\<close>
    gives it beside the services' own state, which is the world.
  \<^item> A schema of zod is written out as a decoder \<open>jsval \<Rightarrow> 'a option\<close>: \<open>None\<close> where the parse
    reports an issue. The two formats zod checks with its own expressions (\<open>email\<close>, \<open>datetime\<close>) and
    the text of its issues are fields of \<open>zod\<close>.
\<close>

section \<open>The application context\<close>

record zod =
  zodEmail :: "string \<Rightarrow> bool"
  zodDatetime :: "string \<Rightarrow> bool"
  zodIssues :: "string \<Rightarrow> jsval \<Rightarrow> jsval"

record socket_options =
  soHost :: string
  soPort :: int
  soTls :: bool
  soCa :: "string option"
  soCert :: "string option"
  soKey :: "string option"
  soRejectUnauthorized :: bool
  soServername :: "string option"

datatype socket_event = SocketOpen | SocketFailed | SocketTimeout

record 'b app =
  appP :: "'b platform"
  appL :: loaded_config
  appF :: "'b node_files"
  appV :: "'b mqtt_library"
  appO :: "'b oidc_library"
  appZod :: zod
  appBuildLabel :: string
  appIsIPv6 :: "string \<Rightarrow> bool"
  appV6Has :: "string \<Rightarrow> nat \<Rightarrow> 32 word \<Rightarrow> bool"
  appSocket :: "socket_options \<Rightarrow> 'b \<Rightarrow> (exn + socket_event) \<times> 'b"

abbreviation appConfig :: "'b app \<Rightarrow> runtime_config" where
  "appConfig A \<equiv> ldConfig (appL A)"

section \<open>Requests and replies\<close>

record api_request =
  rqUser :: "authenticated_user option"
  rqCorrelation :: string
  rqOrigin :: "string option"
  rqAddress :: "exn + string"
  rqUserAgent :: "string option"
  rqJson :: "exn + jsval"
  rqForm :: "string \<Rightarrow> string option"
  rqParam :: string
  rqUrl :: url
  rqQuery :: "string \<Rightarrow> string option"
  rqCookie :: "string \<Rightarrow> string option"

text \<open>The JSON of a reply keeps the values the handler put into it: \<open>'d\<close> is their type.\<close>

datatype 'd reply_body = OkBody 'd | ErrorReply error_body | TextReply string | EmptyReply | EventStream nat

record 'd reply =
  rpStatus :: int
  rpBody :: "'d reply_body"
  rpHeaders :: "(string \<times> string) list"

record set_cookie =
  scName :: string
  scValue :: string
  scOptions :: cookie_options
  scExpires :: "string option"
  scMaxAge :: "int option"

text \<open>The cookies set by the replies under way.\<close>

record 'b http_world = "'b mqtt_world" +
  cookieJar :: "set_cookie list"

type_synonym ('b, 'z, 'a) httpio = "(('b, 'z) http_world_scheme, 'a) io"

section \<open>The helpers of the handlers\<close>

definition getSourceIp :: "api_request \<Rightarrow> string option" where
  "getSourceIp ev = (case rqAddress ev of Inl _ \<Rightarrow> None | Inr a \<Rightarrow> resolveSourceIp (Some a))"

text \<open>An \<open>Origin\<close> that is no URL makes the constructor throw, before any comparison.\<close>

definition requireSameOrigin :: "'b app \<Rightarrow> api_request \<Rightarrow> exn + unit" where
  "requireSameOrigin A ev =
    (if \<not> nonblank (rqOrigin ev) then Inr ()
     else case parse_url (appP A) (the (rqOrigin ev)) None of
       None \<Rightarrow> Inl (typeError ''Invalid URL'')
     | Some o1 \<Rightarrow>
        (case parse_url (appP A) (cfPublicBaseUrl (appConfig A)) None of
           None \<Rightarrow> Inl (typeError ''Invalid URL'')
         | Some o2 \<Rightarrow>
            if urlOrigin o1 = urlOrigin o2 then Inr ()
            else Inl (createAppError ''http::requireSameOrigin''
              ''Request origin does not match the configured base URL.'' ''CSRF_ORIGIN_INVALID''
              (Some (rqCorrelation ev))
              (Obj [(''requestOrigin'', Str (urlOrigin o1)), (''expectedOrigin'', Str (urlOrigin o2))]) 403 None)))"

definition parseRequestJson ::
  "'b app \<Rightarrow> api_request \<Rightarrow> string \<Rightarrow> (jsval \<Rightarrow> 'a option) \<Rightarrow> exn + 'a" where
  "parseRequestJson A ev name schema =
    (case rqJson ev of
       Inl _ \<Rightarrow> Inl (createAppError ''http::parseRequestJson'' ''Request body must be valid JSON.''
         ''INPUT_INVALID'' (Some (rqCorrelation ev)) Null 400 None)
     | Inr body \<Rightarrow>
        (case schema body of
           None \<Rightarrow> Inl (createAppError ''http::parseRequestJson'' ''Request body failed validation.''
             ''INPUT_INVALID'' (Some (rqCorrelation ev)) (zodIssues (appZod A) name body) 400 None)
         | Some x \<Rightarrow> Inr x))"

definition errorReply :: "exn \<Rightarrow> 'd reply" where
  "errorReply e = \<lparr>rpStatus = (if is_AppError e then errorStatus e else 500),
    rpBody = ErrorReply (toErrorBody e), rpHeaders = []\<rparr>"

definition apiErrorEvent :: "api_request \<Rightarrow> exn \<Rightarrow> log_event" where
  "apiErrorEvent ev e =
    (logEvent LogError ''http::handleApiError'' (messageOr ''Unhandled API error'' e)
      (Some (rqCorrelation ev)) Undef)
    \<lparr>evErrorKey := Some (if is_AppError e then errorKey e else ''ERR_UNKNOWN''), evRootCause := Some e\<rparr>"

definition handleApiError :: "api_request \<Rightarrow> exn \<Rightarrow> (('b, 'z) base_world_scheme, 'd reply) io" where
  "handleApiError ev e = andThen (emit (apiErrorEvent ev e)) (\<lambda>_. ret (errorReply e))"

definition okReply :: "'d \<Rightarrow> int \<Rightarrow> 'd reply" where
  "okReply d status = \<lparr>rpStatus = status, rpBody = OkBody d, rpHeaders = []\<rparr>"

text \<open>The frame of every handler: \<open>try { .. } catch (error) { return handleApiError(..) }\<close>.\<close>

definition handled :: "api_request \<Rightarrow> (('b, 'z) base_world_scheme, 'd reply) io \<Rightarrow> (('b, 'z) base_world_scheme, 'd reply) io" where
  "handled ev body = catching body (handleApiError ev)"

definition requireCap :: "api_request \<Rightarrow> capability \<Rightarrow> exn + unit" where
  "requireCap ev cap = requireCapability (rqUser ev) cap (Some (rqCorrelation ev))"

text \<open>\<open>requireSameOrigin\<close> and \<open>requireCapability\<close>, with which a handler that changes something begins.\<close>

definition guardMutation :: "'b app \<Rightarrow> api_request \<Rightarrow> capability \<Rightarrow> exn + unit" where
  "guardMutation A ev cap = (case requireSameOrigin A ev of Inl e \<Rightarrow> Inl e | Inr _ \<Rightarrow> requireCap ev cap)"

text \<open>\<open>audit.record\<close> as the handlers call it: the current user is the actor.\<close>

definition recordBy ::
  "'b app \<Rightarrow> api_request \<Rightarrow> string \<Rightarrow> string \<Rightarrow> string option \<Rightarrow> jsval \<Rightarrow> jsval \<Rightarrow> jsval \<Rightarrow> ('b, 'z, unit) dbio" where
  "recordBy A ev action ty tid bef aft result =
    auditRecord (appP A) (rqUser ev) (map_option (auth_method_str \<circ> auAuthSource) (rqUser ev))
      (getSourceIp ev) (rqCorrelation ev) action ty tid bef aft result True"

text \<open>\<open>Promise.all\<close> of two calls of different types: both run; the first failure is thrown.\<close>

definition alongside :: "('s, 'e, 'a) act \<Rightarrow> ('s, 'e, 'c) act \<Rightarrow> ('s, 'e, 'a \<times> 'c) act" where
  "alongside m n = (\<lambda>s. case m s of (r, s1) \<Rightarrow> (case n s1 of (r', s2) \<Rightarrow>
    (case r of Inl e \<Rightarrow> Inl e | Inr x \<Rightarrow> (case r' of Inl e \<Rightarrow> Inl e | Inr y \<Rightarrow> Inr (x, y)), s2)))"

section \<open>Sessions of the MQTT explorer\<close>

definition mqttBrowserSessionCookieName :: string where
  "mqttBrowserSessionCookieName = ''mqttctl_mqtt_browser_session''"

definition ensureMqttBrowserSession :: "'b app \<Rightarrow> api_request \<Rightarrow> ('b, 'z, string) httpio" where
  "ensureMqttBrowserSession A ev =
    (case rqCookie ev mqttBrowserSessionCookieName of
       Some (c # cs) \<Rightarrow> ret (c # cs)
     | _ \<Rightarrow>
        andThen (createOpaqueToken (appP A) 18) (\<lambda>nextValue.
        andThen (liftR (case parse_url (appP A) (cfPublicBaseUrl (appConfig A)) None of
            None \<Rightarrow> Inl (typeError ''Invalid URL'') | Some u \<Rightarrow> Inr (urlProtocol u = ''https:''))) (\<lambda>secure.
        andThen (modify (\<lambda>w. w\<lparr>cookieJar := cookieJar w @
          [\<lparr>scName = mqttBrowserSessionCookieName, scValue = nextValue,
            scOptions = \<lparr>coPath = (if cfBasePath (appConfig A) = [] then ''/'' else cfBasePath (appConfig A)),
              coHttpOnly = True, coSameSite = ''lax'', coSecure = secure\<rparr>,
            scExpires = None, scMaxAge = None\<rparr>]\<rparr>)) (\<lambda>_.
        ret nextValue))))"

record mqtt_access =
  maSessionKey :: string
  maSourceIp :: "string option"
  maCanUseDynsec :: bool

definition guardMqtt :: "'b app \<Rightarrow> api_request \<Rightarrow> bool \<Rightarrow> exn + unit" where
  "guardMqtt A ev requireOrigin = (if requireOrigin then guardMutation A ev ReadCap else requireCap ev ReadCap)"

definition requireMqttSessionUser :: "'b app \<Rightarrow> api_request \<Rightarrow> bool \<Rightarrow> ('b, 'z, mqtt_access) httpio" where
  "requireMqttSessionUser A ev requireOrigin =
    andThen (liftR (guardMqtt A ev requireOrigin)) (\<lambda>_.
    andThen (ensureMqttBrowserSession A ev) (\<lambda>browserSessionId.
    ret \<lparr>maSessionKey = auId (the (rqUser ev)) @ '':'' @ browserSessionId, maSourceIp = getSourceIp ev,
         maCanUseDynsec = hasCapability (rqUser ev) ManageBroker\<rparr>))"

definition requireMqttDynsecUser :: "'b app \<Rightarrow> api_request \<Rightarrow> bool \<Rightarrow> ('b, 'z, mqtt_access) httpio" where
  "requireMqttDynsecUser A ev requireOrigin =
    andThen (requireMqttSessionUser A ev requireOrigin) (\<lambda>access.
    andThen (liftR (requireCap ev ManageBroker)) (\<lambda>_. ret access))"

section \<open>Paths of the HTTP API\<close>

definition dropTrailingSlashes :: "string \<Rightarrow> string" where
  "dropTrailingSlashes s = rev (dropWhile ((=) (CHR ''/'')) (rev s))"

definition normalizeHttpApiBasePath :: "string \<Rightarrow> string" where
  "normalizeHttpApiBasePath basePath =
    (let w = dropTrailingSlashes (trim basePath)
     in if w = [] then ''/api'' else if startsWith w ''/'' then w else CHR ''/'' # w)"

definition joinHttpApiPaths :: "string list \<Rightarrow> string" where
  "joinHttpApiPaths paths =
    (let joined = join ''/'' (filter (\<lambda>p. p \<noteq> []) (map stripSlashes (filter (\<lambda>p. p \<noteq> []) (map trim paths))))
     in if joined = [] then [] else CHR ''/'' # joined)"

definition getHttpApiClientBasePath :: "loaded_config \<Rightarrow> string" where
  "getHttpApiClientBasePath L =
    (let h = cfHttpApi (ldConfig L)
     in joinHttpApiPaths [cfBasePath (ldConfig L),
          normalizeHttpApiBasePath (if haMode h = ProxyMode then haProxyBasePath h else haBrowserBasePath h)])"

definition getHttpApiProxyRequestBasePath :: "loaded_config \<Rightarrow> string" where
  "getHttpApiProxyRequestBasePath L =
    joinHttpApiPaths [cfBasePath (ldConfig L), normalizeHttpApiBasePath (haProxyBasePath (cfHttpApi (ldConfig L)))]"

definition stripHttpApiPathPrefix :: "string \<Rightarrow> string \<Rightarrow> string option" where
  "stripHttpApiPathPrefix pathname basePath =
    (if pathname = basePath then Some []
     else if startsWith pathname (basePath @ ''/'') then Some (drop (length basePath) pathname) else None)"

text \<open>The setters of a \<open>URL\<close>'s path and query are the platform's: \<open>setUrl\<close>.\<close>

definition buildHttpApiProxyTargetUrl ::
  "'b platform \<Rightarrow> (url \<Rightarrow> string \<Rightarrow> string \<Rightarrow> url) \<Rightarrow> loaded_config \<Rightarrow> string \<Rightarrow> string \<Rightarrow> exn + url option" where
  "buildHttpApiProxyTargetUrl P setUrl L downstreamPath search =
    (let h = cfHttpApi (ldConfig L) in
     if \<not> nonblank (haProxyUpstreamBaseUrl h) then Inr None
     else case parse_url P (the (haProxyUpstreamBaseUrl h)) None of
       None \<Rightarrow> Inl (typeError ''Invalid URL'')
     | Some u \<Rightarrow>
        (let path = joinHttpApiPaths [urlPathname u, normalizeHttpApiBasePath (haProxyUpstreamBasePath h), downstreamPath]
         in Inr (Some (setUrl u (if path = [] then ''/'' else path) search))))"

section \<open>Schemas\<close>

definition zString :: "jsval \<Rightarrow> string option" where
  "zString v = (case v of Str s \<Rightarrow> Some s | _ \<Rightarrow> None)"

definition zText :: "jsval \<Rightarrow> string option" where
  "zText v = (case v of Str s \<Rightarrow> if s = [] then None else Some s | _ \<Rightarrow> None)"

text \<open>\<open>z.string().trim().min(1)\<close>.\<close>

definition zTrimmed :: "jsval \<Rightarrow> string option" where
  "zTrimmed v = (case v of Str s \<Rightarrow> if trim s = [] then None else Some (trim s) | _ \<Rightarrow> None)"

definition zBool :: "jsval \<Rightarrow> bool option" where
  "zBool v = (case v of Bool b \<Rightarrow> Some b | _ \<Rightarrow> None)"

text \<open>\<open>z.number().int()\<close>: an integer within the safe range.\<close>

definition zInt :: "jsval \<Rightarrow> int option" where
  "zInt v = (case v of Num (Fin r) \<Rightarrow>
      if is_integer r \<and> \<bar>r\<bar> \<le> 2 ^ 53 - 1 then Some \<lfloor>r\<rfloor> else None | _ \<Rightarrow> None)"

definition zNullable :: "(jsval \<Rightarrow> 'a option) \<Rightarrow> jsval \<Rightarrow> 'a option option" where
  "zNullable d v = (if v = Null then Some None else map_option Some (d v))"

definition zOptional :: "(jsval \<Rightarrow> 'a option) \<Rightarrow> jsval \<Rightarrow> 'a option option" where
  "zOptional d v = (if v = Undef then Some None else map_option Some (d v))"

text \<open>\<open>.nullable().optional()\<close>: the handlers read \<open>null\<close> and a missing value alike.\<close>

definition zNullish :: "(jsval \<Rightarrow> 'a option) \<Rightarrow> jsval \<Rightarrow> 'a option option" where
  "zNullish d v = (if nullish v then Some None else map_option Some (d v))"

definition zDefault :: "'a \<Rightarrow> (jsval \<Rightarrow> 'a option) \<Rightarrow> jsval \<Rightarrow> 'a option" where
  "zDefault x d v = (if v = Undef then Some x else d v)"

definition zEnum :: "('a \<Rightarrow> string) \<Rightarrow> 'a list \<Rightarrow> jsval \<Rightarrow> 'a option" where
  "zEnum name xs v = (case v of Str s \<Rightarrow> List.find (\<lambda>x. name x = s) xs | _ \<Rightarrow> None)"

fun zAll :: "(jsval \<Rightarrow> 'a option) \<Rightarrow> jsval list \<Rightarrow> 'a list option" where
  "zAll d [] = Some []"
| "zAll d (v # vs) = (case d v of None \<Rightarrow> None | Some x \<Rightarrow> map_option (\<lambda>xs. x # xs) (zAll d vs))"

definition zArray :: "(jsval \<Rightarrow> 'a option) \<Rightarrow> jsval \<Rightarrow> 'a list option" where
  "zArray d v = (case v of Arr vs \<Rightarrow> zAll d vs | _ \<Rightarrow> None)"

text \<open>\<open>z.object\<close> drops the keys it does not name; \<open>.strict()\<close> refuses them.\<close>

definition zStrict :: "string list \<Rightarrow> jsval \<Rightarrow> bool" where
  "zStrict names v = (case v of Obj kvs \<Rightarrow> set (map fst kvs) \<subseteq> set names | _ \<Rightarrow> False)"

definition is_obj :: "jsval \<Rightarrow> bool" where
  "is_obj v = (case v of Obj _ \<Rightarrow> True | _ \<Rightarrow> False)"

text \<open>One field, then the rest.\<close>

definition zField :: "jsval \<Rightarrow> string \<Rightarrow> (jsval \<Rightarrow> 'a option) \<Rightarrow> ('a \<Rightarrow> 'c option) \<Rightarrow> 'c option" where
  "zField v name d f = (if is_obj v then Option.bind (d (getProp name v)) f else None)"

text \<open>The value zod returns for an object of these fields, as the audit log keeps it: a missing one stays missing.\<close>

definition zFields :: "(string \<times> jsval) list \<Rightarrow> jsval" where
  "zFields kvs = Obj (filter (\<lambda>kv. snd kv \<noteq> Undef) kvs)"

end
