(* ===== verification/Dashboard.thy ===== *)
theory Dashboard
  imports Http
begin

text \<open>
  The dashboard: the summary of the diagnostics service (\<open>server/diagnostics/service.ts\<close>), the
  snapshot kept for its listeners (\<open>fe/lib/server/dashboard/live-state.ts\<close>) and the data of the
  page (\<open>fe/lib/server/dashboard/data.ts\<close>). The module variables of \<open>live-state.ts\<close> are the fields
  of \<open>app_world\<close>: \<open>latestSnapshot\<close>, its text, the listeners of the emitter (by number) and the
  calls they have received.
\<close>

section \<open>Diagnostics\<close>

fun operation_state_str :: "operation_state \<Rightarrow> string" where
  "operation_state_str OpIdle = ''idle''"
| "operation_state_str OpRunning = ''running''"
| "operation_state_str OpSuccess = ''success''"
| "operation_state_str OpFailed = ''failed''"

definition operation_value :: "operation_status \<Rightarrow> jsval" where
  "operation_value s = Obj [(''status'', Str (operation_state_str (opState s))),
    (''lastRunAt'', opt_str (opLastRunAt s)), (''message'', opt_str (opMessage s))]"

text \<open>
  \<open>brokerReachable\<close> is what the agent answered as \<open>brokerRunning\<close>, unchecked; the last reload and
  restart are the stored settings, or an idle status.
\<close>

record diagnostics_summary =
  dsBrokerReachable :: jsval
  dsStateReadable :: bool
  dsBootstrap :: operation_status
  dsConfigReadable :: bool
  dsLastReload :: jsval
  dsLastRestart :: jsval

definition readIfSet :: "'b platform \<Rightarrow> string option \<Rightarrow> (('b, 'z) base_world_scheme, string option) io" where
  "readIfSet P path = (if nonblank path then andThen (callOut (read_file P (the path))) (\<lambda>t. ret (Some t)) else ret None)"

definition tlsSocketOptions :: "'b app \<Rightarrow> (('b, 'z) base_world_scheme, socket_options) io" where
  "tlsSocketOptions A =
    (let b = cfBroker (appConfig A); t = bkTls b in
     andThen (alongside (readIfSet (appP A) (tlsCaFile t))
       (alongside (readIfSet (appP A) (tlsCertFile t)) (readIfSet (appP A) (tlsKeyFile t)))) (\<lambda>(ca, cert, key).
     ret \<lparr>soHost = bkHost b, soPort = bkPort b, soTls = True, soCa = ca, soCert = cert, soKey = key,
          soRejectUnauthorized = \<not> tlsInsecure t,
          soServername = (if isIP (appIsIPv6 A) (bkHost b) \<noteq> 0 then None else Some (bkHost b))\<rparr>))"

definition socketReachable :: "socket_event \<Rightarrow> bool" where
  "socketReachable e = (e = SocketOpen)"

text \<open>
  With TLS the files and the call that opens the socket are inside the \<open>try\<close>; without TLS an error
  of that call leaves the method.
\<close>

definition checkBrokerReachable :: "'b app \<Rightarrow> string option \<Rightarrow> (('b, 'z) base_world_scheme, jsval) io" where
  "checkBrokerReachable A corr =
    (let b = cfBroker (appConfig A) in
     if agentConfigured (appL A) then
       catching (andThen (readHealth (appP A) (appL A) corr) (\<lambda>h. liftR (readProp ''brokerRunning'' h)))
         (\<lambda>_. ret (Bool False))
     else if tlsEnabled (bkTls b) then
       catching (andThen (tlsSocketOptions A) (\<lambda>opts.
           andThen (callOut (appSocket A opts)) (\<lambda>e. ret (Bool (socketReachable e)))))
         (\<lambda>_. ret (Bool False))
     else
       andThen (callOut (appSocket A \<lparr>soHost = bkHost b, soPort = bkPort b, soTls = False, soCa = None,
           soCert = None, soKey = None, soRejectUnauthorized = False, soServername = None\<rparr>)) (\<lambda>e.
       ret (Bool (socketReachable e))))"

text \<open>\<open>.then(() => true).catch(() => false)\<close>.\<close>

definition succeeded :: "('s, exn, 'a) act \<Rightarrow> ('s, exn, bool) act" where
  "succeeded m = catching (andThen m (\<lambda>_. ret True)) (\<lambda>_. ret False)"

definition getSummary :: "'b app \<Rightarrow> string option \<Rightarrow> ('b, 'z, diagnostics_summary) dsio" where
  "getSummary A corr =
    andThen (alongside (checkBrokerReachable A corr)
      (alongside (succeeded (readState (appP A) (appL A) corr))
      (alongside (succeeded (readCurrentConfig (appP A) (appL A) corr))
      (alongside (getSetting ''operations'' ''lastReload'') (getSetting ''operations'' ''lastRestart'')))))
      (\<lambda>(reachable, readable, config, reload, restart).
    andThen (gets bootStatus) (\<lambda>boot.
    ret \<lparr>dsBrokerReachable = reachable, dsStateReadable = readable, dsBootstrap = boot,
         dsConfigReadable = config, dsLastReload = coalesce reload (operation_value idleOperationStatus),
         dsLastRestart = coalesce restart (operation_value idleOperationStatus)\<rparr>))"

section \<open>The snapshot\<close>

record dashboard_snapshot =
  shDiagnostics :: diagnostics_summary
  shRuntime :: mcp_runtime
  shGeneratedAt :: string

record 'b app_world = "'b http_world" +
  dashSnapshot :: "dashboard_snapshot option"
  dashJson :: "string option"
  dashListeners :: "nat list"
  dashCalls :: "(nat \<times> dashboard_snapshot) list"

type_synonym ('b, 'z, 'a) appio = "(('b, 'z) app_world_scheme, 'a) io"

definition diagnostics_value :: "diagnostics_summary \<Rightarrow> jsval" where
  "diagnostics_value d = Obj [(''brokerReachable'', dsBrokerReachable d), (''dynsecStateReadable'', Bool (dsStateReadable d)),
    (''dynsecBootstrap'', operation_value (dsBootstrap d)), (''brokerConfigReadable'', Bool (dsConfigReadable d)),
    (''lastReload'', dsLastReload d), (''lastRestart'', dsLastRestart d)]"

definition runtime_value :: "mcp_runtime \<Rightarrow> jsval" where
  "runtime_value m = Obj [(''enabled'', Bool (mrEnabled m)), (''connected'', Bool (mrConnected m)),
    (''reason'', Str (mrReason m)), (''version'', opt_str (mrVersion m)), (''buildHash'', opt_str (mrBuildHash m)),
    (''instanceId'', opt_str (mrInstanceId m)), (''startedAt'', opt_str (mrStartedAt m)),
    (''lastSeenAt'', opt_str (map_option toISOString (mrLastSeenAt m))),
    (''heartbeatExpiresAt'', opt_str (map_option toISOString (mrHeartbeatExpiresAt m)))]"

definition snapshotText :: "diagnostics_summary \<Rightarrow> mcp_runtime \<Rightarrow> string" where
  "snapshotText d m = json_text (Obj [(''diagnostics'', diagnostics_value d), (''mcpRuntime'', runtime_value m)])"

definition updateDashboardSnapshot ::
  "diagnostics_summary \<Rightarrow> mcp_runtime \<Rightarrow> ('b, 'z, dashboard_snapshot) appio" where
  "updateDashboardSnapshot d m =
    andThen (gets (\<lambda>w. (dashSnapshot w, dashJson w))) (\<lambda>(latest, json).
    if json = Some (snapshotText d m) \<and> latest \<noteq> None then ret (the latest)
    else
      andThen now (\<lambda>t.
      let s = \<lparr>shDiagnostics = d, shRuntime = m, shGeneratedAt = toISOString t\<rparr> in
      andThen (modify (\<lambda>w. w\<lparr>dashJson := Some (snapshotText d m), dashSnapshot := Some s,
        dashCalls := dashCalls w @ map (\<lambda>l. (l, s)) (dashListeners w)\<rparr>)) (\<lambda>_.
      ret s)))"

text \<open>An emitter calls a listener as often as it was added; \<open>off\<close> takes away the last addition.\<close>

definition subscribeDashboardSnapshots :: "nat \<Rightarrow> ('b, 'z, unit) appio" where
  "subscribeDashboardSnapshots l = modify (\<lambda>w. w\<lparr>dashListeners := dashListeners w @ [l]\<rparr>)"

definition unsubscribeDashboardSnapshots :: "nat \<Rightarrow> ('b, 'z, unit) appio" where
  "unsubscribeDashboardSnapshots l =
    modify (\<lambda>w. w\<lparr>dashListeners := rev (remove1 l (rev (dashListeners w)))\<rparr>)"

definition getLatestDashboardSnapshot :: "('b, 'z, dashboard_snapshot option) appio" where
  "getLatestDashboardSnapshot = gets dashSnapshot"

definition refreshDashboardSnapshot :: "'b app \<Rightarrow> string option \<Rightarrow> ('b, 'z, dashboard_snapshot) appio" where
  "refreshDashboardSnapshot A corr =
    andThen (alongside (getSummary A corr) (getRuntimeInfo (appL A))) (\<lambda>(d, m). updateDashboardSnapshot d m)"

definition refreshDashboardMcpRuntime :: "'b app \<Rightarrow> ('b, 'z, dashboard_snapshot option) appio" where
  "refreshDashboardMcpRuntime A =
    andThen getLatestDashboardSnapshot (\<lambda>latest.
    case latest of
      None \<Rightarrow> ret None
    | Some s \<Rightarrow>
        andThen (getRuntimeInfo (appL A)) (\<lambda>m.
        andThen (updateDashboardSnapshot (shDiagnostics s) m) (\<lambda>s'. ret (Some s'))))"

section \<open>The page\<close>

record transport =
  trLabel :: string
  trTls :: bool

record dashboard_page =
  dpDiagnostics :: diagnostics_summary
  dpRuntime :: mcp_runtime
  dpUi :: transport
  dpControlPlane :: transport
  dpBroker :: "transport option"
  dpCanViewAudit :: bool
  dpUsers :: nat
  dpClients :: "nat option"
  dpGroups :: "nat option"
  dpRoles :: "nat option"
  dpAuditEntries :: "audit_row list"

definition dynsecCounts :: "'b app \<Rightarrow> string option \<Rightarrow> diagnostics_summary
    \<Rightarrow> (('b, 'z) base_world_scheme, nat option \<times> nat option \<times> nat option) io" where
  "dynsecCounts A corr d =
    (if dsStateReadable d \<and> opState (dsBootstrap d) \<noteq> OpRunning then
       catching
         (andThen (readState (appP A) (appL A) corr) (\<lambda>s.
           ret (Some (length (dsClients s)), Some (length (dsGroups s)), Some (length (dsRoles s)))))
         (\<lambda>e. if is_AppError e \<and> errorKey e = ''DYNSEC_STATE_READ_FAILED'' then
             andThen (emit ((logEvent LogWarn ''dashboard::loadDashboardPageData''
               ''Failed reading DynSec state while loading dashboard counts. Rendering unavailable counts.''
               corr Undef)\<lparr>evErrorKey := Some (errorKey e), evRootCause := Some e\<rparr>)) (\<lambda>_.
             ret (None, None, None))
           else raise e)
     else ret (None, None, None))"

definition uiTransport :: "'b app \<Rightarrow> transport" where
  "uiTransport A = \<lparr>trLabel = ''WUI to API'', trTls = startsWith (cfPublicBaseUrl (appConfig A)) ''https://''\<rparr>"

definition controlPlaneTransport :: "'b app \<Rightarrow> transport" where
  "controlPlaneTransport A =
    (if agentConfigured (appL A) then
       \<lparr>trLabel = ''API to Broker Agent'',
        trTls = (case bkAgent (cfBroker (appConfig A)) of None \<Rightarrow> False | Some a \<Rightarrow> startsWith (agBaseUrl a) ''https://'')\<rparr>
     else \<lparr>trLabel = ''API to Broker'', trTls = tlsEnabled (bkTls (cfBroker (appConfig A)))\<rparr>)"

definition brokerTransport :: "'b app \<Rightarrow> transport option" where
  "brokerTransport A =
    (if agentConfigured (appL A)
     then Some \<lparr>trLabel = ''Broker Agent to Mosquitto'', trTls = tlsEnabled (bkTls (cfBroker (appConfig A)))\<rparr>
     else None)"

definition loadDashboardDiagnostics :: "'b app \<Rightarrow> string option \<Rightarrow> ('b, 'z, diagnostics_summary) appio" where
  "loadDashboardDiagnostics A corr =
    andThen (refreshDashboardSnapshot A corr) (\<lambda>s. ret (shDiagnostics s))"

definition loadDashboardPageData ::
  "'b app \<Rightarrow> string option \<Rightarrow> authenticated_user option \<Rightarrow> ('b, 'z, dashboard_page) appio" where
  "loadDashboardPageData A corr user =
    (let canViewAudit = hasCapability user ViewAudit in
     andThen (alongside (refreshDashboardSnapshot A corr)
       (alongside listAccounts (if canViewAudit then listAuditEntries (Some 5) else ret []))) (\<lambda>(s, us, entries).
     andThen (dynsecCounts A corr (shDiagnostics s)) (\<lambda>(clients, groups, roles).
     ret \<lparr>dpDiagnostics = shDiagnostics s, dpRuntime = shRuntime s, dpUi = uiTransport A,
          dpControlPlane = controlPlaneTransport A, dpBroker = brokerTransport A,
          dpCanViewAudit = canViewAudit, dpUsers = length us, dpClients = clients, dpGroups = groups,
          dpRoles = roles, dpAuditEntries = entries\<rparr>)))"

end
