(* ===== verification/ApiSecurity.thy ===== *)
theory ApiSecurity
  imports Dashboard
begin

text \<open>
  The HTTP handlers of the dynamic security routes (\<open>fe/routes/api/dynsec\<close>), after the two shapes
  all handlers have (\<open>reading\<close>, \<open>mutating\<close>) and the type of the data they answer with
  (\<open>api_data\<close>, one constructor per \<open>ok({ data })\<close> of the source).
\<close>

section \<open>Handlers\<close>

datatype api_data =
    AuditLogData audit_export
  | KeyFilesData jsval "agent_runtime option" mcp_runtime
  | CurrentData jsval
  | ResultData jsval
  | DashboardData dashboard_page
  | DiagnosticsData diagnostics_summary
  | MeData "authenticated_user option" string
  | AccessData mcp_access_state "capability list"
  | HeartbeatData mcp_runtime "string \<times> string option"
  | UsersData "user_row list"
  | CreatedData | UpdatedData | DeletedData
  | ClientsData "dynsec_client list"
  | GroupsData "dynsec_group list"
  | RolesData "dynsec_role list"
  | EffectiveData effective_view
  | ClientDefaultsData client_defaults
  | ExplorerData explorer_state
  | SnapshotData snapshot_export

type_synonym api_reply = "api_data reply"

type_synonym ('b, 'z) handler = "(('b, 'z) app_world_scheme, api_reply) io"

text \<open>A handler that only reads asks for a capability; one that changes something asks for the origin first.\<close>

definition reading :: "api_request \<Rightarrow> capability \<Rightarrow> ('b, 'z) handler \<Rightarrow> ('b, 'z) handler" where
  "reading ev cap body = handled ev (andThen (liftR (requireCap ev cap)) (\<lambda>_. body))"

definition mutating :: "'b app \<Rightarrow> api_request \<Rightarrow> capability \<Rightarrow> ('b, 'z) handler \<Rightarrow> ('b, 'z) handler" where
  "mutating A ev cap body = handled ev (andThen (liftR (guardMutation A ev cap)) (\<lambda>_. body))"

abbreviation rqCorr :: "api_request \<Rightarrow> string option" where
  "rqCorr ev \<equiv> Some (rqCorrelation ev)"

section \<open>Clients\<close>

record create_client_payload =
  cpUsername :: string
  cpPassword :: "string option"
  cpClientId :: "string option"
  cpDisabled :: bool

definition createClientSchema :: "jsval \<Rightarrow> create_client_payload option" where
  "createClientSchema v =
    zField v ''username'' zText (\<lambda>u.
    zField v ''password'' (zNullish zText) (\<lambda>p.
    zField v ''clientId'' (zNullish zText) (\<lambda>c.
    zField v ''disabled'' (zDefault False zBool) (\<lambda>d.
    Some \<lparr>cpUsername = u, cpPassword = p, cpClientId = c, cpDisabled = d\<rparr>))))"

definition getClientsRoute :: "'b app \<Rightarrow> api_request \<Rightarrow> ('b, 'z) handler" where
  "getClientsRoute A ev = reading ev ReadCap
    (andThen (readState (appP A) (appL A) (rqCorr ev)) (\<lambda>s. ret (okReply (ClientsData (dsClients s)) 200)))"

definition createdRole :: "create_client_result \<Rightarrow> (string \<times> jsval) list" where
  "createdRole r = [(''defaultRoleName'', opt_str (ccrRoleName r)),
    (''defaultRolePriority'', num_int (ccrRolePriority r)), (''defaultRoleApplied'', Bool (ccrApplied r))]"

definition postClientRoute :: "'b app \<Rightarrow> api_request \<Rightarrow> ('b, 'z) handler" where
  "postClientRoute A ev = mutating A ev ManageSecurity
    (andThen (liftR (parseRequestJson A ev ''createClientSchema'' createClientSchema)) (\<lambda>p.
     andThen (createClient (appP A) (appL A) (cpUsername p) (cpPassword p) (cpClientId p) (cpDisabled p) (rqCorr ev)) (\<lambda>r.
     andThen (recordBy A ev ''dynsec.client.create'' ''dynsec_client'' (Some (cpUsername p)) Null
       (Obj ([(''username'', Str (cpUsername p)), (''clientId'', opt_str (cpClientId p)),
              (''disabled'', Bool (cpDisabled p))] @ createdRole r))
       (Obj ((''created'', Bool True) # createdRole r))) (\<lambda>_.
     ret (okReply CreatedData 201)))))"

datatype client_update = SetEnabled bool | SetPassword string | AssignRole string int | RemoveRole string
  | AddGroup string int | RemoveGroup string

text \<open>The two-field variants of the schemas: a name and an integer priority.\<close>

definition zNamePriority :: "string \<Rightarrow> jsval \<Rightarrow> (string \<times> int) option" where
  "zNamePriority name v = zField v name zText (\<lambda>n. zField v ''priority'' zInt (\<lambda>p. Some (n, p)))"

definition updateClientSchema :: "jsval \<Rightarrow> client_update option" where
  "updateClientSchema v =
    zField v ''action'' zString (\<lambda>a.
    if a = ''setEnabled'' then zField v ''enabled'' zBool (\<lambda>b. Some (SetEnabled b))
    else if a = ''setPassword'' then zField v ''password'' zText (\<lambda>p. Some (SetPassword p))
    else if a = ''assignRole'' then map_option (\<lambda>(r, p). AssignRole r p) (zNamePriority ''rolename'' v)
    else if a = ''removeRole'' then zField v ''rolename'' zText (\<lambda>r. Some (RemoveRole r))
    else if a = ''addGroup'' then map_option (\<lambda>(g, p). AddGroup g p) (zNamePriority ''groupname'' v)
    else if a = ''removeGroup'' then zField v ''groupname'' zText (\<lambda>g. Some (RemoveGroup g))
    else None)"

fun client_update_action :: "client_update \<Rightarrow> string" where
  "client_update_action (SetEnabled b) = ''setEnabled''"
| "client_update_action (SetPassword p) = ''setPassword''"
| "client_update_action (AssignRole r p) = ''assignRole''"
| "client_update_action (RemoveRole r) = ''removeRole''"
| "client_update_action (AddGroup g p) = ''addGroup''"
| "client_update_action (RemoveGroup g) = ''removeGroup''"

text \<open>The payload as the audit log gets it.\<close>

fun client_update_fields :: "client_update \<Rightarrow> (string \<times> jsval) list" where
  "client_update_fields (SetEnabled b) = [(''enabled'', Bool b)]"
| "client_update_fields (SetPassword p) = [(''password'', Str p)]"
| "client_update_fields (AssignRole r p) = [(''rolename'', Str r), (''priority'', num_int p)]"
| "client_update_fields (RemoveRole r) = [(''rolename'', Str r)]"
| "client_update_fields (AddGroup g p) = [(''groupname'', Str g), (''priority'', num_int p)]"
| "client_update_fields (RemoveGroup g) = [(''groupname'', Str g)]"

definition client_update_value :: "client_update \<Rightarrow> jsval" where
  "client_update_value u = Obj ((''action'', Str (client_update_action u)) # client_update_fields u)"

definition applyClientUpdate ::
  "'b app \<Rightarrow> string \<Rightarrow> string option \<Rightarrow> client_update \<Rightarrow> (('b, 'z) base_world_scheme, unit) io" where
  "applyClientUpdate A username corr u =
    (let P = appP A; L = appL A in
     case u of
       SetEnabled b \<Rightarrow> setClientEnabled P L username b corr
     | SetPassword p \<Rightarrow> setClientPassword P L username p corr
     | AssignRole r p \<Rightarrow> assignClientRole P L username r (of_int p) corr
     | RemoveRole r \<Rightarrow> removeClientRole P L username r corr
     | AddGroup g p \<Rightarrow> addGroupClient P L g username (of_int p) corr
     | RemoveGroup g \<Rightarrow> removeGroupClient P L g username corr)"

definition getClientRoute :: "'b app \<Rightarrow> api_request \<Rightarrow> ('b, 'z) handler" where
  "getClientRoute A ev = reading ev ReadCap
    (andThen (getEffectivePermissions (appP A) (appL A) (rqParam ev) (rqCorr ev)) (\<lambda>v.
     ret (okReply (EffectiveData v) 200)))"

definition patchClientRoute :: "'b app \<Rightarrow> api_request \<Rightarrow> ('b, 'z) handler" where
  "patchClientRoute A ev = mutating A ev ManageSecurity
    (andThen (liftR (parseRequestJson A ev ''updateClientSchema'' updateClientSchema)) (\<lambda>p.
     andThen (applyClientUpdate A (rqParam ev) (rqCorr ev) p) (\<lambda>_.
     andThen (recordBy A ev (''dynsec.client.'' @ client_update_action p) ''dynsec_client'' (Some (rqParam ev)) Null
       (client_update_value p) (Obj [(''updated'', Bool True)])) (\<lambda>_.
     ret (okReply UpdatedData 200)))))"

definition deleteClientRoute :: "'b app \<Rightarrow> api_request \<Rightarrow> ('b, 'z) handler" where
  "deleteClientRoute A ev = mutating A ev ManageSecurity
    (andThen (deleteClient (appP A) (appL A) (rqParam ev) (rqCorr ev)) (\<lambda>_.
     andThen (recordBy A ev ''dynsec.client.delete'' ''dynsec_client'' (Some (rqParam ev)) Null Null
       (Obj [(''deleted'', Bool True)])) (\<lambda>_.
     ret (okReply DeletedData 200))))"

section \<open>Groups\<close>

definition createGroupSchema :: "jsval \<Rightarrow> string option" where
  "createGroupSchema v = zField v ''groupname'' zTrimmed Some"

definition getGroupsRoute :: "'b app \<Rightarrow> api_request \<Rightarrow> ('b, 'z) handler" where
  "getGroupsRoute A ev = reading ev ReadCap
    (andThen (readState (appP A) (appL A) (rqCorr ev)) (\<lambda>s. ret (okReply (GroupsData (dsGroups s)) 200)))"

definition postGroupRoute :: "'b app \<Rightarrow> api_request \<Rightarrow> ('b, 'z) handler" where
  "postGroupRoute A ev = mutating A ev ManageSecurity
    (andThen (liftR (parseRequestJson A ev ''createGroupSchema'' createGroupSchema)) (\<lambda>name.
     andThen (createGroup (appP A) (appL A) name (rqCorr ev)) (\<lambda>_.
     andThen (recordBy A ev ''dynsec.group.create'' ''dynsec_group'' (Some name) Null
       (Obj [(''groupname'', Str name)]) (Obj [(''created'', Bool True)])) (\<lambda>_.
     ret (okReply CreatedData 201)))))"

datatype group_update = AddClient string int | RemoveClient string | AddRole string int | RemoveGroupRole string

definition updateGroupSchema :: "jsval \<Rightarrow> group_update option" where
  "updateGroupSchema v =
    zField v ''action'' zString (\<lambda>a.
    if a = ''addClient'' then map_option (\<lambda>(c, p). AddClient c p) (zNamePriority ''username'' v)
    else if a = ''removeClient'' then zField v ''username'' zText (\<lambda>c. Some (RemoveClient c))
    else if a = ''addRole'' then map_option (\<lambda>(r, p). AddRole r p) (zNamePriority ''rolename'' v)
    else if a = ''removeRole'' then zField v ''rolename'' zText (\<lambda>r. Some (RemoveGroupRole r))
    else None)"

fun group_update_action :: "group_update \<Rightarrow> string" where
  "group_update_action (AddClient c p) = ''addClient''"
| "group_update_action (RemoveClient c) = ''removeClient''"
| "group_update_action (AddRole r p) = ''addRole''"
| "group_update_action (RemoveGroupRole r) = ''removeRole''"

fun group_update_fields :: "group_update \<Rightarrow> (string \<times> jsval) list" where
  "group_update_fields (AddClient c p) = [(''username'', Str c), (''priority'', num_int p)]"
| "group_update_fields (RemoveClient c) = [(''username'', Str c)]"
| "group_update_fields (AddRole r p) = [(''rolename'', Str r), (''priority'', num_int p)]"
| "group_update_fields (RemoveGroupRole r) = [(''rolename'', Str r)]"

definition group_update_value :: "group_update \<Rightarrow> jsval" where
  "group_update_value u = Obj ((''action'', Str (group_update_action u)) # group_update_fields u)"

definition applyGroupUpdate ::
  "'b app \<Rightarrow> string \<Rightarrow> string option \<Rightarrow> group_update \<Rightarrow> (('b, 'z) base_world_scheme, unit) io" where
  "applyGroupUpdate A groupname corr u =
    (let P = appP A; L = appL A in
     case u of
       AddClient c p \<Rightarrow> addGroupClient P L groupname c (of_int p) corr
     | RemoveClient c \<Rightarrow> removeGroupClient P L groupname c corr
     | AddRole r p \<Rightarrow> addGroupRole P L groupname r (of_int p) corr
     | RemoveGroupRole r \<Rightarrow> removeGroupRole P L groupname r corr)"

definition patchGroupRoute :: "'b app \<Rightarrow> api_request \<Rightarrow> ('b, 'z) handler" where
  "patchGroupRoute A ev = mutating A ev ManageSecurity
    (andThen (liftR (parseRequestJson A ev ''updateGroupSchema'' updateGroupSchema)) (\<lambda>p.
     andThen (applyGroupUpdate A (rqParam ev) (rqCorr ev) p) (\<lambda>_.
     andThen (recordBy A ev (''dynsec.group.'' @ group_update_action p) ''dynsec_group'' (Some (rqParam ev)) Null
       (group_update_value p) (Obj [(''updated'', Bool True)])) (\<lambda>_.
     ret (okReply UpdatedData 200)))))"

definition deleteGroupRoute :: "'b app \<Rightarrow> api_request \<Rightarrow> ('b, 'z) handler" where
  "deleteGroupRoute A ev = mutating A ev ManageSecurity
    (andThen (deleteGroup (appP A) (appL A) (rqParam ev) (rqCorr ev)) (\<lambda>_.
     andThen (recordBy A ev ''dynsec.group.delete'' ''dynsec_group'' (Some (rqParam ev)) Null Null
       (Obj [(''deleted'', Bool True)])) (\<lambda>_.
     ret (okReply DeletedData 200))))"

section \<open>Roles\<close>

definition createRoleSchema :: "jsval \<Rightarrow> string option" where
  "createRoleSchema v = zField v ''rolename'' zTrimmed Some"

definition getRolesRoute :: "'b app \<Rightarrow> api_request \<Rightarrow> ('b, 'z) handler" where
  "getRolesRoute A ev = reading ev ReadCap
    (andThen (readState (appP A) (appL A) (rqCorr ev)) (\<lambda>s. ret (okReply (RolesData (dsRoles s)) 200)))"

definition postRoleRoute :: "'b app \<Rightarrow> api_request \<Rightarrow> ('b, 'z) handler" where
  "postRoleRoute A ev = mutating A ev ManageSecurity
    (andThen (liftR (parseRequestJson A ev ''createRoleSchema'' createRoleSchema)) (\<lambda>name.
     andThen (createRole (appP A) (appL A) name (rqCorr ev)) (\<lambda>_.
     andThen (recordBy A ev ''dynsec.role.create'' ''dynsec_role'' (Some name) Null
       (Obj [(''rolename'', Str name)]) (Obj [(''created'', Bool True)])) (\<lambda>_.
     ret (okReply CreatedData 201)))))"

text \<open>The union: one type, a list of types, or a removal; \<open>acltype\<close> and \<open>acltypes\<close> exclude each other.\<close>

datatype role_update = AddAcl acl_type string bool int | AddAcls "acl_type list" string bool int
  | RemoveAcl acl_type string

definition zAclType :: "jsval \<Rightarrow> acl_type option" where
  "zAclType v = zEnum acl_type_str dynsecAclTypes v"

definition zAclFields :: "jsval \<Rightarrow> (string \<times> bool \<times> int) option" where
  "zAclFields v =
    zField v ''topic'' zText (\<lambda>t. zField v ''allow'' zBool (\<lambda>b. zField v ''priority'' zInt (\<lambda>p. Some (t, b, p))))"

definition updateRoleSchema :: "jsval \<Rightarrow> role_update option" where
  "updateRoleSchema v =
    zField v ''action'' zString (\<lambda>a.
    if a = ''addAcl'' then
      (case zAclFields v of
         None \<Rightarrow> None
       | Some (t, b, p) \<Rightarrow>
          if getProp ''acltypes'' v = Undef then map_option (\<lambda>ty. AddAcl ty t b p) (zAclType (getProp ''acltype'' v))
          else if getProp ''acltype'' v = Undef then
            (case zArray zAclType (getProp ''acltypes'' v) of
               Some (ty # tys) \<Rightarrow> Some (AddAcls (ty # tys) t b p) | _ \<Rightarrow> None)
          else None)
    else if a = ''removeAcl'' then
      zField v ''acltype'' zAclType (\<lambda>ty. zField v ''topic'' zText (\<lambda>t. Some (RemoveAcl ty t)))
    else None)"

fun role_update_action :: "role_update \<Rightarrow> string" where
  "role_update_action (AddAcl ty t b p) = ''addAcl''"
| "role_update_action (AddAcls tys t b p) = ''addAcl''"
| "role_update_action (RemoveAcl ty t) = ''removeAcl''"

fun role_update_fields :: "role_update \<Rightarrow> (string \<times> jsval) list" where
  "role_update_fields (AddAcl ty t b p) = [(''acltype'', Str (acl_type_str ty)), (''topic'', Str t),
    (''allow'', Bool b), (''priority'', num_int p)]"
| "role_update_fields (AddAcls tys t b p) = [(''acltypes'', Arr (map (Str \<circ> acl_type_str) tys)), (''topic'', Str t),
    (''allow'', Bool b), (''priority'', num_int p)]"
| "role_update_fields (RemoveAcl ty t) = [(''acltype'', Str (acl_type_str ty)), (''topic'', Str t)]"

definition role_update_value :: "role_update \<Rightarrow> jsval" where
  "role_update_value u = Obj ((''action'', Str (role_update_action u)) # role_update_fields u)"

fun addedAclTypes :: "role_update \<Rightarrow> acl_type list" where
  "addedAclTypes (AddAcl ty t b p) = [ty]"
| "addedAclTypes (AddAcls tys t b p) = tys"
| "addedAclTypes (RemoveAcl ty t) = []"

definition applyRoleUpdate ::
  "'b app \<Rightarrow> string \<Rightarrow> string option \<Rightarrow> role_update \<Rightarrow> (('b, 'z) base_world_scheme, unit) io" where
  "applyRoleUpdate A rolename corr u =
    (let add = (\<lambda>t b p. if addedAclTypes u = []
           then raise (PlainErr ''Error'' ''At least one ACL type is required.'' None)
           else andThen (addRoleAcls (appP A) (appL A) rolename (addedAclTypes u) t b (of_int p) corr) (\<lambda>_. ret ())) in
     case u of
       AddAcl ty t b p \<Rightarrow> add t b p
     | AddAcls tys t b p \<Rightarrow> add t b p
     | RemoveAcl ty t \<Rightarrow> removeRoleAcl (appP A) (appL A) rolename (acl_type_str ty) t corr)"

definition patchRoleRoute :: "'b app \<Rightarrow> api_request \<Rightarrow> ('b, 'z) handler" where
  "patchRoleRoute A ev = mutating A ev ManageSecurity
    (andThen (liftR (parseRequestJson A ev ''updateRoleSchema'' updateRoleSchema)) (\<lambda>p.
     andThen (applyRoleUpdate A (rqParam ev) (rqCorr ev) p) (\<lambda>_.
     andThen (recordBy A ev (''dynsec.role.'' @ role_update_action p) ''dynsec_role'' (Some (rqParam ev)) Null
       (role_update_value p) (Obj [(''updated'', Bool True)])) (\<lambda>_.
     ret (okReply UpdatedData 200)))))"

definition deleteRoleRoute :: "'b app \<Rightarrow> api_request \<Rightarrow> ('b, 'z) handler" where
  "deleteRoleRoute A ev = mutating A ev ManageSecurity
    (andThen (deleteRole (appP A) (appL A) (rqParam ev) (rqCorr ev)) (\<lambda>_.
     andThen (recordBy A ev ''dynsec.role.delete'' ''dynsec_role'' (Some (rqParam ev)) Null Null
       (Obj [(''deleted'', Bool True)])) (\<lambda>_.
     ret (okReply DeletedData 200))))"

section \<open>Client defaults\<close>

definition clientDefaultsSchema :: "jsval \<Rightarrow> client_defaults option" where
  "clientDefaultsSchema v =
    zField v ''defaultRoleName'' (zNullable zTrimmed) (\<lambda>n.
    zField v ''defaultRolePriority'' (zDefault 0 zInt) (\<lambda>p.
    Some \<lparr>cdRoleName = n, cdRolePriority = p\<rparr>))"

definition getClientDefaultsRoute :: "'b app \<Rightarrow> api_request \<Rightarrow> ('b, 'z) handler" where
  "getClientDefaultsRoute A ev = reading ev ReadCap
    (andThen getClientDefaults (\<lambda>d. ret (okReply (ClientDefaultsData d) 200)))"

definition patchClientDefaultsRoute :: "'b app \<Rightarrow> api_request \<Rightarrow> ('b, 'z) handler" where
  "patchClientDefaultsRoute A ev = mutating A ev ManageSecurity
    (andThen getClientDefaults (\<lambda>bef.
     andThen (liftR (parseRequestJson A ev ''clientDefaultsSchema'' clientDefaultsSchema)) (\<lambda>p.
     andThen (setClientDefaults (client_defaults_value p)) (\<lambda>d.
     andThen (recordBy A ev ''dynsec.settings.clientDefaults.update'' ''dynsec_settings'' (Some ''clientDefaults'')
       (client_defaults_value bef) (client_defaults_value d) (Obj [(''updated'', Bool True)])) (\<lambda>_.
     ret (okReply (ClientDefaultsData d) 200))))))"

end
