(* ===== verification/ApiAdmin.thy ===== *)
theory ApiAdmin
  imports ApiSecurity
begin

text \<open>
  The HTTP handlers outside dynamic security and the MQTT explorer: the audit log, the broker
  configuration, the dashboard, the MCP access controls, users and snapshots
  (\<open>fe/routes/api/{audit,config,dashboard,diagnostics,me,mcp,users,snapshots}\<close>).
\<close>

section \<open>Audit log\<close>

definition integrity_value :: "integrity_status \<Rightarrow> jsval" where
  "integrity_value s = Obj [(''verified'', Bool (isVerified s)), (''algorithm'', Str ''sha256''),
    (''hashInput'', Str ''sha256(JSON.stringify(entry))''), (''totalEntriesVerified'', num_int (int (isTotalVerified s))),
    (''latestHash'', opt_str (isLatestHash s))]"

fun audit_limit_str :: "audit_limit \<Rightarrow> string" where
  "audit_limit_str Limit10 = ''10''"
| "audit_limit_str Limit20 = ''20''"
| "audit_limit_str Limit50 = ''50''"
| "audit_limit_str Limit100 = ''100''"
| "audit_limit_str LimitAll = ''all''"

definition audit_export_value :: "audit_export \<Rightarrow> jsval" where
  "audit_export_value x = Obj [(''exportTime'', Str (axTime x)), (''build'', Str (axBuild x)),
    (''filters'', Obj [(''indexes'', Arr [num_int (fst (axIndexes x)), num_int (snd (axIndexes x))]),
      (''limit'', Str (audit_limit_str (axLimit x))), (''totalEntries'', num_int (int (axTotalEntries x))),
      (''returnedEntries'', num_int (int (axReturned x)))]),
    (''title'', Str ''MQTTCTL''), (''type'', Str ''audit log''), (''integrity'', integrity_value (axIntegrity x)),
    (''data'', Arr (axData x))]"

definition attachment :: "string \<Rightarrow> string \<Rightarrow> string \<Rightarrow> 'd reply" where
  "attachment name ty content = \<lparr>rpStatus = 200, rpBody = TextReply content,
    rpHeaders = [(''cache-control'', ''no-store''),
      (''content-disposition'', ''attachment; filename='' @ [quote_char] @ name @ [quote_char]),
      (''content-length'', nat_str (utf8_length content)), (''content-type'', ty)]\<rparr>"

definition getAuditRoute :: "'b app \<Rightarrow> api_request \<Rightarrow> ('b, 'z) handler" where
  "getAuditRoute A ev = reading ev ViewAudit
    (let limit = parseAuditEntryLimitValue (rqQuery ev ''limit'') in
     andThen (exportEntries (appP A) limit (appBuildLabel A)) (\<lambda>x.
     if rqQuery ev ''download'' = Some ''1''
     then ret (attachment (''mqttctl-audit-'' @ audit_limit_str limit @ ''.json'') ''application/json; charset=utf-8''
            (json_text (audit_export_value x)))
     else ret (okReply (AuditLogData x) 200)))"

section \<open>Broker configuration\<close>

definition getKeyFilesRoute :: "'b app \<Rightarrow> api_request \<Rightarrow> ('b, 'z) handler" where
  "getKeyFilesRoute A ev = reading ev ReadCap
    (andThen (alongside (listKeyFiles (appP A) (appF A) (appL A) (rqCorr ev))
        (alongside (readBrokerAgentRuntimeInfo (appP A) (appL A) (rqCorr ev)) (getRuntimeInfo (appL A))))
      (\<lambda>(files, agent, mcp). ret (okReply (KeyFilesData files agent mcp) 200)))"

definition sanitizeFileName :: "string \<Rightarrow> string" where
  "sanitizeFileName s = map (\<lambda>c. if c = quote_char \<or> (of_char c :: nat) = 13 \<or> (of_char c :: nat) = 10
    then CHR ''_'' else c) s"

definition parseManagedKeyFileId :: "string \<Rightarrow> string option \<Rightarrow> exn + key_file_id" where
  "parseManagedKeyFileId v corr =
    (case List.find (\<lambda>k. key_file_str k = v) managedBrokerKeyFileOrder of
       Some k \<Rightarrow> Inr k
     | None \<Rightarrow> Inl (createAppError ''api::config::key-files::parseManagedKeyFileId''
         ''Requested managed broker key file is invalid.'' ''INPUT_INVALID'' corr (Obj [(''fileId'', Str v)]) 400 None))"

text \<open>A name or a content that is no string (the agent's answer is not validated) is a \<open>TypeError\<close>.\<close>

definition stringProp :: "string \<Rightarrow> jsval \<Rightarrow> exn + string" where
  "stringProp k v =
    (case readProp k v of
       Inl e \<Rightarrow> Inl e
     | Inr (Str s) \<Rightarrow> Inr s
     | Inr _ \<Rightarrow> Inl (typeError ''not a string''))"

definition getKeyFileRoute :: "'b app \<Rightarrow> api_request \<Rightarrow> ('b, 'z) handler" where
  "getKeyFileRoute A ev = reading ev ReadCap
    (andThen (liftR (parseManagedKeyFileId (rqParam ev) (rqCorr ev))) (\<lambda>fileId.
     andThen (readKeyFile (appP A) (appL A) fileId (rqCorr ev)) (\<lambda>f.
     andThen (liftR (stringProp ''fileName'' f)) (\<lambda>name.
     andThen (liftR (stringProp ''content'' f)) (\<lambda>content.
     ret (attachment (sanitizeFileName name) ''application/octet-stream'' content))))))"

definition pullConfigRoute :: "'b app \<Rightarrow> api_request \<Rightarrow> ('b, 'z) handler" where
  "pullConfigRoute A ev = reading ev ManageBroker
    (andThen (readCurrentConfig (appP A) (appL A) (rqCorr ev)) (\<lambda>current. ret (okReply (CurrentData current) 200)))"

definition brokerConfigSchema :: "jsval \<Rightarrow> (string \<times> string) option" where
  "brokerConfigSchema v =
    zField v ''rendered'' zString (\<lambda>r. zField v ''expectedCurrent'' zString (\<lambda>c. Some (r, c)))"

text \<open>\<open>jobs.enqueue\<close> on an idle queue; \<open>JobQueue\<close> has the queue itself.\<close>

definition enqueueJob :: "string \<Rightarrow> ('s, 'e, 'a) act \<Rightarrow> ('s, 'e, 'a) act" where
  "enqueueJob name run = run"

definition pushConfigRoute :: "'b app \<Rightarrow> api_request \<Rightarrow> ('b, 'z) handler" where
  "pushConfigRoute A ev = mutating A ev ManageBroker
    (andThen (liftR (parseRequestJson A ev ''brokerConfigSchema'' brokerConfigSchema)) (\<lambda>(rendered, expected).
     andThen (enqueueJob ''broker-config-push''
       (pushBrokerConfig (appP A) (appF A) (appL A) rendered (Some expected)
         (map_option auUsername (rqUser ev)) (rqCorr ev))) (\<lambda>r.
     andThen (recordBy A ev ''broker.config.push'' ''broker_config'' None Null
       (Obj [(''bytes'', num_int (int (utf8_length rendered)))]) r) (\<lambda>_.
     andThen (refreshDashboardSnapshot A (rqCorr ev)) (\<lambda>_.
     ret (okReply (ResultData r) 200))))))"

definition reloadRoute :: "'b app \<Rightarrow> api_request \<Rightarrow> ('b, 'z) handler" where
  "reloadRoute A ev = mutating A ev ManageBroker
    (andThen (enqueueJob ''broker-reload'' (reloadBroker (appP A) (appL A) (rqCorr ev))) (\<lambda>r.
     andThen (recordBy A ev ''broker.reload'' ''broker'' None Null Null r) (\<lambda>_.
     andThen (refreshDashboardSnapshot A (rqCorr ev)) (\<lambda>_.
     ret (okReply (ResultData r) 200)))))"

definition restartRoute :: "'b app \<Rightarrow> api_request \<Rightarrow> ('b, 'z) handler" where
  "restartRoute A ev = mutating A ev ManageBroker
    (andThen (enqueueJob ''broker-restart'' (restartBroker (appP A) (appL A) (rqCorr ev))) (\<lambda>r.
     andThen (recordBy A ev ''broker.restart'' ''broker'' None Null Null r) (\<lambda>_.
     andThen (refreshDashboardSnapshot A (rqCorr ev)) (\<lambda>_.
     ret (okReply (ResultData r) 200)))))"

section \<open>Dashboard and identity\<close>

definition getDashboardRoute :: "'b app \<Rightarrow> api_request \<Rightarrow> ('b, 'z) handler" where
  "getDashboardRoute A ev = reading ev ReadCap
    (andThen (loadDashboardPageData A (rqCorr ev) (rqUser ev)) (\<lambda>d. ret (okReply (DashboardData d) 200)))"

definition getDiagnosticsRoute :: "'b app \<Rightarrow> api_request \<Rightarrow> ('b, 'z) handler" where
  "getDiagnosticsRoute A ev = reading ev ReadCap
    (andThen (loadDashboardDiagnostics A (rqCorr ev)) (\<lambda>d. ret (okReply (DiagnosticsData d) 200)))"

definition getMeRoute :: "api_request \<Rightarrow> ('b, 'z) handler" where
  "getMeRoute ev = ret (okReply (MeData (rqUser ev) (rqCorrelation ev)) 200)"

section \<open>MCP\<close>

definition assignableMcpCapabilities :: "capability list" where
  "assignableMcpCapabilities = filter (\<lambda>c. c \<noteq> ManageMcp) capabilities"

definition updateMcpAccessSchema :: "jsval \<Rightarrow> (bool \<times> capability list) option" where
  "updateMcpAccessSchema v =
    (if \<not> zStrict [''disabled'', ''allowedCapabilities''] v then None
     else zField v ''disabled'' zBool (\<lambda>d.
       zField v ''allowedCapabilities'' (zArray (zEnum capability_str assignableMcpCapabilities)) (\<lambda>cs.
       if length cs \<le> length assignableMcpCapabilities then Some (d, cs) else None)))"

definition access_value :: "mcp_access_state \<Rightarrow> jsval" where
  "access_value a = Obj [(''id'', Str mcpSystemUserId), (''username'', Str mcpSystemUsername), (''role'', Str ''mcp''),
    (''authSource'', Str ''mcp''), (''disabled'', Bool (maDisabled a)),
    (''defaultCapabilities'', Arr (map (Str \<circ> capability_str) (maDefaultCapabilities a))),
    (''allowedCapabilities'', Arr (map (Str \<circ> capability_str) (maAllowedCapabilities a))),
    (''signingKey'', Obj [(''keyId'', Str (maKeyId a)), (''fingerprint'', opt_str (maFingerprint a))]),
    (''runtime'', runtime_value (maRuntime a))]"

definition getMcpAccessRoute :: "'b app \<Rightarrow> api_request \<Rightarrow> ('b, 'z) handler" where
  "getMcpAccessRoute A ev = reading ev
    (case rqUser ev of Some u \<Rightarrow> if auRole u = McpRole then ReadCap else ManageMcp | None \<Rightarrow> ManageMcp)
    (andThen (getAccessState (appL A)) (\<lambda>a. ret (okReply (AccessData a assignableMcpCapabilities) 200)))"

definition patchMcpAccessRoute :: "'b app \<Rightarrow> api_request \<Rightarrow> ('b, 'z) handler" where
  "patchMcpAccessRoute A ev = mutating A ev ManageMcp
    (andThen (getAccessState (appL A)) (\<lambda>bef.
     andThen (liftR (parseRequestJson A ev ''updateMcpAccessSchema'' updateMcpAccessSchema)) (\<lambda>(disabled, cs).
     andThen (setAccess (appL A) disabled (map capability_str cs)) (\<lambda>_.
     andThen (getAccessState (appL A)) (\<lambda>aft.
     andThen (refreshDashboardMcpRuntime A) (\<lambda>_.
     andThen (recordBy A ev ''mcp.access.update'' ''app_user'' (Some mcpSystemUserId) (access_value bef)
       (access_value aft) (Obj [(''updated'', Bool True)])) (\<lambda>_.
     ret (okReply (AccessData aft assignableMcpCapabilities) 200))))))))"

definition zName128 :: "jsval \<Rightarrow> string option" where
  "zName128 v = (case zText v of Some s \<Rightarrow> if length s \<le> 128 then Some s else None | None \<Rightarrow> None)"

definition zDatetime :: "zod \<Rightarrow> jsval \<Rightarrow> string option" where
  "zDatetime Z v = (case zString v of Some s \<Rightarrow> if zodDatetime Z s then Some s else None | None \<Rightarrow> None)"

definition heartbeatSchema :: "zod \<Rightarrow> jsval \<Rightarrow> heartbeat_input option" where
  "heartbeatSchema Z v =
    (if \<not> zStrict [''version'', ''buildHash'', ''instanceId'', ''startedAt'', ''heartbeatAt''] v then None
     else zField v ''version'' zName128 (\<lambda>a. zField v ''buildHash'' zName128 (\<lambda>b.
       zField v ''instanceId'' zName128 (\<lambda>c. zField v ''startedAt'' (zDatetime Z) (\<lambda>d.
       zField v ''heartbeatAt'' (zDatetime Z) (\<lambda>e.
       Some \<lparr>hbVersion = a, hbBuildHash = b, hbInstanceId = c, hbStartedAt = d, hbHeartbeatAt = e\<rparr>))))))"

definition isMcpService :: "authenticated_user option \<Rightarrow> bool" where
  "isMcpService user = (case user of
      None \<Rightarrow> False
    | Some u \<Rightarrow> auRole u = McpRole \<and> map_option delegateName (auDelegated u) = Some mcpServiceSubject)"

definition postHeartbeatRoute :: "'b app \<Rightarrow> api_request \<Rightarrow> ('b, 'z) handler" where
  "postHeartbeatRoute A ev = handled ev
    (if \<not> isMcpService (rqUser ev) then ret \<lparr>rpStatus = 404, rpBody = EmptyReply, rpHeaders = []\<rparr>
     else
       andThen (liftR (parseRequestJson A ev ''heartbeatSchema'' (heartbeatSchema (appZod A)))) (\<lambda>input.
       andThen (recordHeartbeat input) (\<lambda>_.
       andThen (refreshDashboardMcpRuntime A) (\<lambda>_.
       andThen (getRuntimeInfo (appL A)) (\<lambda>runtime.
       andThen (getPublicKeyMetadata (appL A)) (\<lambda>signingKey.
       ret (okReply (HeartbeatData runtime signingKey) 200)))))))"

section \<open>Users\<close>

definition userRoles :: "user_role list" where
  "userRoles = [SuperAdmin, BrokerAdmin, SecurityAdmin, Operator, Viewer]"

definition zEmail :: "zod \<Rightarrow> jsval \<Rightarrow> string option" where
  "zEmail Z v = (case zString v of Some s \<Rightarrow> if zodEmail Z s then Some s else None | None \<Rightarrow> None)"

record create_user_payload =
  cuUsername :: string
  cuEmail :: "string option"
  cuPassword :: "string option"
  cuRole :: user_role
  cuValue :: jsval

definition createUserSchema :: "zod \<Rightarrow> jsval \<Rightarrow> create_user_payload option" where
  "createUserSchema Z v =
    zField v ''username'' zText (\<lambda>u.
    zField v ''email'' (zNullish (zEmail Z)) (\<lambda>m.
    zField v ''password'' (zNullish zText) (\<lambda>p.
    zField v ''role'' (zEnum user_role_str userRoles) (\<lambda>r.
    Some \<lparr>cuUsername = u, cuEmail = m, cuPassword = p, cuRole = r,
          cuValue = zFields [(''username'', Str u), (''email'', getProp ''email'' v),
            (''password'', getProp ''password'' v), (''role'', Str (user_role_str r))]\<rparr>))))"

definition getUsersRoute :: "'b app \<Rightarrow> api_request \<Rightarrow> ('b, 'z) handler" where
  "getUsersRoute A ev = reading ev ManageUsers
    (andThen listAccounts (\<lambda>us. ret (okReply (UsersData us) 200)))"

definition postUserRoute :: "'b app \<Rightarrow> api_request \<Rightarrow> ('b, 'z) handler" where
  "postUserRoute A ev = mutating A ev ManageUsers
    (andThen (liftR (parseRequestJson A ev ''createUserSchema'' (createUserSchema (appZod A)))) (\<lambda>p.
     andThen (createUser (appP A) (cuUsername p) (cuEmail p) (cuPassword p) (cuRole p) LocalAuth None
       (rqCorr ev) (rqUser ev)) (\<lambda>_.
     andThen (recordBy A ev ''user.create'' ''app_user'' (Some (cuUsername p)) Null (cuValue p)
       (Obj [(''created'', Bool True)])) (\<lambda>_.
     ret (okReply CreatedData 201)))))"

record update_user_payload =
  uuEmail :: "string option"
  uuRole :: user_role
  uuDisabled :: bool
  uuPassword :: "string option"

definition updateUserSchema :: "zod \<Rightarrow> jsval \<Rightarrow> update_user_payload option" where
  "updateUserSchema Z v =
    zField v ''email'' (zNullable (zEmail Z)) (\<lambda>m.
    zField v ''role'' (zEnum user_role_str userRoles) (\<lambda>r.
    zField v ''disabled'' zBool (\<lambda>d.
    zField v ''password'' (zNullable zText) (\<lambda>p.
    Some \<lparr>uuEmail = m, uuRole = r, uuDisabled = d, uuPassword = p\<rparr>))))"

definition update_user_value :: "update_user_payload \<Rightarrow> jsval" where
  "update_user_value p = Obj [(''email'', opt_str (uuEmail p)), (''role'', Str (user_role_str (uuRole p))),
    (''disabled'', Bool (uuDisabled p)), (''password'', opt_str (uuPassword p))]"

definition patchUserRoute :: "'b app \<Rightarrow> api_request \<Rightarrow> ('b, 'z) handler" where
  "patchUserRoute A ev = mutating A ev ManageUsers
    (andThen (liftR (parseRequestJson A ev ''updateUserSchema'' (updateUserSchema (appZod A)))) (\<lambda>p.
     andThen (updateUser (appP A) (rqParam ev) (uuEmail p) (uuRole p) (uuDisabled p) (uuPassword p)
       (rqCorr ev) (rqUser ev)) (\<lambda>_.
     andThen (recordBy A ev ''user.update'' ''app_user'' (Some (rqParam ev)) Null (update_user_value p)
       (Obj [(''updated'', Bool True)])) (\<lambda>_.
     ret (okReply UpdatedData 200)))))"

definition deleteUserRoute :: "'b app \<Rightarrow> api_request \<Rightarrow> ('b, 'z) handler" where
  "deleteUserRoute A ev = mutating A ev ManageUsers
    (andThen (deleteUser (rqParam ev) (rqCorr ev) (rqUser ev)) (\<lambda>_.
     andThen (recordBy A ev ''user.delete'' ''app_user'' (Some (rqParam ev)) Null Null
       (Obj [(''deleted'', Bool True)])) (\<lambda>_.
     ret (okReply DeletedData 200))))"

section \<open>Snapshots\<close>

definition exportSchema :: "jsval \<Rightarrow> (snapshot_kind \<times> string option) option" where
  "exportSchema v =
    zField v ''kind'' (zEnum snapshot_kind_str [DynsecKind, BrokerConfigKind, CombinedKind]) (\<lambda>k.
    zField v ''note'' (zNullish zString) (\<lambda>n. Some (k, n)))"

definition export_summary :: "snapshot_export \<Rightarrow> jsval" where
  "export_summary s = Obj [(''title'', Str ''MQTTCTL''), (''type'', Str ''snapshot''),
    (''exportTime'', Str (seExportTime s)), (''build'', Str (seBuild s)), (''id'', Str (seId s)),
    (''kind'', Str (snapshot_kind_str (seKind s))), (''note'', opt_str (seNote s))]"

definition exportSnapshotRoute :: "'b app \<Rightarrow> api_request \<Rightarrow> ('b, 'z) handler" where
  "exportSnapshotRoute A ev = mutating A ev ManageSnapshots
    (andThen (liftR (parseRequestJson A ev ''exportSchema'' exportSchema)) (\<lambda>(kind, remark).
     andThen (exportSnapshot (appP A) (appL A) (appBuildLabel A) kind (map_option auUsername (rqUser ev)) remark
       (rqCorr ev)) (\<lambda>s.
     andThen (recordBy A ev ''snapshot.export'' ''snapshot'' (Some (seId s)) Null (export_summary s)
       (Obj [(''exported'', Bool True)])) (\<lambda>_.
     ret (okReply (SnapshotData s) 200)))))"

definition importSchema :: "jsval \<Rightarrow> (jsval \<times> bool) option" where
  "importSchema v = zField v ''payload'' Some (\<lambda>p. zField v ''apply'' (zDefault False zBool) (\<lambda>a. Some (p, a)))"

definition importSnapshotRoute :: "'b app \<Rightarrow> api_request \<Rightarrow> ('b, 'z) handler" where
  "importSnapshotRoute A ev = mutating A ev ManageSnapshots
    (andThen (liftR (parseRequestJson A ev ''importSchema'' importSchema)) (\<lambda>(payload, applied).
     andThen (if applied
         then applyImport (appP A) (appF A) (appL A) payload (map_option auUsername (rqUser ev)) (rqCorr ev)
         else liftR (previewImport payload)) (\<lambda>r.
     andThen (recordBy A ev (if applied then ''snapshot.import.apply'' else ''snapshot.import.preview'') ''snapshot''
       None Null r (Obj [(''imported'', Bool applied)])) (\<lambda>_.
     ret (okReply (ResultData r) 200)))))"

end
