(* ===== verification/ApiMqtt.thy ===== *)
theory ApiMqtt
  imports ApiSecurity
begin

text \<open>
  The HTTP handlers of the MQTT explorer (\<open>fe/routes/api/mqtt\<close>). The event stream of
  \<open>mqtt/events\<close> is a state machine of its own: the request opens it (\<open>getEventsRoute\<close>), and the
  heartbeat timer, the abort of the request and the cancellation by the reader are the operations
  \<open>streamHeartbeat\<close>, \<open>streamAbort\<close> and \<open>streamCancel\<close> on a \<open>event_stream\<close>.
\<close>

section \<open>State\<close>

definition getMqttStateRoute :: "'b app \<Rightarrow> api_request \<Rightarrow> ('b, 'z) handler" where
  "getMqttStateRoute A ev = handled ev
    (andThen (requireMqttSessionUser A ev False) (\<lambda>acc.
     andThen (getExplorerState (appP A) (appL A) (maSessionKey acc)) (\<lambda>x. ret (okReply (ExplorerData x) 200))))"

section \<open>Connecting\<close>

text \<open>
  The refinement reads the fields as the object schema has them: \<open>min(1)\<close> makes an empty one an
  issue already, and a missing one an issue of the refinement.
\<close>

definition connectSchema :: "jsval \<Rightarrow> connect_input option" where
  "connectSchema v =
    zField v ''host'' zText (\<lambda>h.
    zField v ''port'' zInt (\<lambda>p.
    if p < 1 \<or> p > 65535 then None else
    zField v ''tls'' (zDefault False zBool) (\<lambda>t.
    zField v ''authMode'' (zEnum mqtt_auth_mode_str [DynsecClientMode, CustomMode]) (\<lambda>m.
    zField v ''username'' (zOptional zText) (\<lambda>u.
    zField v ''password'' (zOptional zText) (\<lambda>w.
    zField v ''clientId'' (zOptional zText) (\<lambda>c.
    if u = None \<or> (m = CustomMode \<and> w = None) \<or> c = None then None
    else Some \<lparr>ciHost = h, ciPort = p, ciTls = t, ciAuthMode = m, ciUsername = u, ciPassword = w, ciClientId = c\<rparr>)))))))"

fun connection_state_str :: "connection_state \<Rightarrow> string" where
  "connection_state_str Disconnected = ''disconnected''"
| "connection_state_str Connecting = ''connecting''"
| "connection_state_str Connected = ''connected''"
| "connection_state_str ConnectionError = ''error''"

definition connection_summary :: "connection_status \<Rightarrow> jsval" where
  "connection_summary c = Obj [(''host'', opt_str (cnHost c)), (''port'', opt_int (cnPort c)), (''tls'', Bool (cnTls c)),
    (''authMode'', opt_str (map_option mqtt_auth_mode_str (cnAuthMode c))), (''username'', opt_str (cnUsername c)),
    (''clientId'', opt_str (cnClientId c))]"

definition connection_result :: "explorer_state \<Rightarrow> jsval" where
  "connection_result x = Obj [(''state'', Str (connection_state_str (cnState (xsConnection x))))]"

definition postConnectRoute :: "'b app \<Rightarrow> api_request \<Rightarrow> ('b, 'z) handler" where
  "postConnectRoute A ev = handled ev
    (andThen (requireMqttSessionUser A ev True) (\<lambda>acc.
     andThen (liftR (parseRequestJson A ev ''connectSchema'' connectSchema)) (\<lambda>p.
     andThen (liftR (if ciAuthMode p = DynsecClientMode then requireCap ev ManageBroker else Inr ())) (\<lambda>_.
     andThen (mqttConnect (appP A) (appV A) (appL A) (maSessionKey acc) p (rqCorr ev)) (\<lambda>x.
     andThen (recordBy A ev ''mqtt.explorer.connect'' ''mqtt-session'' (Some (maSessionKey acc)) Null
       (connection_summary (xsConnection x)) (connection_result x)) (\<lambda>_.
     ret (okReply (ExplorerData x) 200)))))))"

definition postDisconnectRoute :: "'b app \<Rightarrow> api_request \<Rightarrow> ('b, 'z) handler" where
  "postDisconnectRoute A ev = handled ev
    (andThen (requireMqttSessionUser A ev True) (\<lambda>acc.
     andThen (mqttDisconnect (appP A) (appV A) (appL A) (maSessionKey acc) (rqCorr ev) ''Disconnected from broker.'') (\<lambda>x.
     andThen (recordBy A ev ''mqtt.explorer.disconnect'' ''mqtt-session'' (Some (maSessionKey acc)) Null Null
       (connection_result x)) (\<lambda>_.
     ret (okReply (ExplorerData x) 200)))))"

section \<open>Messages\<close>

datatype topics_update = ClearTopics | SetTopicsLimit "int option"

definition latestTopicsMutationSchema :: "jsval \<Rightarrow> topics_update option" where
  "latestTopicsMutationSchema v =
    zField v ''action'' zString (\<lambda>a.
    if a = ''clear'' then Some ClearTopics
    else if a = ''set_limit'' then
      (let l = getProp ''limit'' v in
       if l = Null then Some (SetTopicsLimit None)
       else if l \<in> set (map num_int [5, 10, 20, 25, 100]) then map_option (\<lambda>n. SetTopicsLimit (Some n)) (zInt l)
       else None)
    else None)"

fun topics_action :: "topics_update \<Rightarrow> string" where
  "topics_action ClearTopics = ''mqtt.explorer.clear_latest_topics''"
| "topics_action (SetTopicsLimit l) = ''mqtt.explorer.set_latest_topics_limit''"

fun topics_result :: "topics_update \<Rightarrow> jsval" where
  "topics_result ClearTopics = Obj [(''action'', Str ''clear''), (''limit'', Undef)]"
| "topics_result (SetTopicsLimit l) = Obj [(''action'', Str ''set_limit''), (''limit'', opt_int l)]"

definition stats_summary :: "session_stats \<Rightarrow> jsval" where
  "stats_summary s = Obj [(''trackedTopics'', num_int (int (stTracked s))), (''totalMessages'', num_int (int (stTotal s))),
    (''trackedTopicsLimit'', opt_int (stLimit s))]"

definition postMessagesRoute :: "'b app \<Rightarrow> api_request \<Rightarrow> ('b, 'z) handler" where
  "postMessagesRoute A ev = handled ev
    (andThen (requireMqttSessionUser A ev True) (\<lambda>acc.
     andThen (liftR (parseRequestJson A ev ''latestTopicsMutationSchema'' latestTopicsMutationSchema)) (\<lambda>p.
     andThen (case p of
         ClearTopics \<Rightarrow> clearMessages (appP A) (appL A) (maSessionKey acc) (rqCorr ev)
       | SetTopicsLimit l \<Rightarrow> setTrackedTopicsLimit (appP A) (appL A) (maSessionKey acc) l (rqCorr ev)) (\<lambda>x.
     andThen (recordBy A ev (topics_action p) ''mqtt-session'' (Some (maSessionKey acc)) Null
       (stats_summary (xsStats x)) (topics_result p)) (\<lambda>_.
     ret (okReply (ExplorerData x) 200))))))"

text \<open>\<open>z.union([z.literal(0), z.literal(1), z.literal(2)])\<close>.\<close>

definition zQos :: "jsval \<Rightarrow> nat option" where
  "zQos v = (if v = num_int 0 then Some 0 else if v = num_int 1 then Some 1 else if v = num_int 2 then Some 2 else None)"

definition publishSchema :: "jsval \<Rightarrow> publish_input option" where
  "publishSchema v =
    zField v ''topic'' zText (\<lambda>t. zField v ''payload'' zString (\<lambda>p. zField v ''qos'' zQos (\<lambda>q.
    zField v ''retain'' (zDefault False zBool) (\<lambda>r.
    Some \<lparr>piTopic = t, piPayload = p, piQos = q, piRetain = r\<rparr>))))"

definition postPublishRoute :: "'b app \<Rightarrow> api_request \<Rightarrow> ('b, 'z) handler" where
  "postPublishRoute A ev = handled ev
    (andThen (requireMqttSessionUser A ev True) (\<lambda>acc.
     andThen (liftR (parseRequestJson A ev ''publishSchema'' publishSchema)) (\<lambda>p.
     andThen (mqttPublish (appP A) (appV A) (appL A) (maSessionKey acc) p (rqCorr ev)) (\<lambda>x.
     andThen (recordBy A ev ''mqtt.explorer.publish'' ''mqtt-topic'' (Some (piTopic p)) Null
       (Obj [(''topic'', Str (piTopic p)), (''qos'', num_int (int (piQos p))), (''retain'', Bool (piRetain p))])
       (Obj [(''payloadBytes'', num_int (int (utf8_length (piPayload p))))])) (\<lambda>_.
     ret (okReply (ExplorerData x) 200))))))"

definition subscribeSchema :: "jsval \<Rightarrow> (string \<times> nat) option" where
  "subscribeSchema v = zField v ''filter'' zText (\<lambda>f. zField v ''qos'' zQos (\<lambda>q. Some (f, q)))"

definition postSubscribeRoute :: "'b app \<Rightarrow> api_request \<Rightarrow> ('b, 'z) handler" where
  "postSubscribeRoute A ev = handled ev
    (andThen (requireMqttSessionUser A ev True) (\<lambda>acc.
     andThen (liftR (parseRequestJson A ev ''subscribeSchema'' subscribeSchema)) (\<lambda>(topicFilter, qos).
     andThen (mqttSubscribe (appP A) (appV A) (appL A) (maSessionKey acc) topicFilter qos (rqCorr ev)) (\<lambda>x.
     andThen (recordBy A ev ''mqtt.explorer.subscribe'' ''mqtt-subscription'' (Some topicFilter) Null
       (Obj [(''filter'', Str topicFilter), (''qos'', num_int (int qos))]) Null) (\<lambda>_.
     ret (okReply (ExplorerData x) 200))))))"

definition unsubscribeSchema :: "jsval \<Rightarrow> string option" where
  "unsubscribeSchema v = zField v ''filter'' zText Some"

definition postUnsubscribeRoute :: "'b app \<Rightarrow> api_request \<Rightarrow> ('b, 'z) handler" where
  "postUnsubscribeRoute A ev = handled ev
    (andThen (requireMqttSessionUser A ev True) (\<lambda>acc.
     andThen (liftR (parseRequestJson A ev ''unsubscribeSchema'' unsubscribeSchema)) (\<lambda>topicFilter.
     andThen (mqttUnsubscribe (appP A) (appV A) (appL A) (maSessionKey acc) topicFilter (rqCorr ev)) (\<lambda>x.
     andThen (recordBy A ev ''mqtt.explorer.unsubscribe'' ''mqtt-subscription'' (Some topicFilter) Null Null Null) (\<lambda>_.
     ret (okReply (ExplorerData x) 200))))))"

section \<open>The event stream\<close>

text \<open>
  The stream's listeners have the numbers \<open>evsListener\<close> and \<open>evsMessageListener\<close>; \<open>evsTimer\<close> is whether the
  heartbeat's interval still runs.
\<close>

record event_stream =
  evsSessionKey :: string
  evsListener :: nat
  evsMessageListener :: nat
  evsMcp :: bool
  evsCorrelation :: string
  evsClosed :: bool
  evsTimer :: bool
  evsPings :: nat

definition openStream :: "string \<Rightarrow> nat \<Rightarrow> api_request \<Rightarrow> event_stream" where
  "openStream key n ev = \<lparr>evsSessionKey = key, evsListener = n, evsMessageListener = n,
    evsMcp = (case rqUser ev of Some u \<Rightarrow> auRole u = McpRole | None \<Rightarrow> False),
    evsCorrelation = rqCorrelation ev, evsClosed = False, evsTimer = True, evsPings = 0\<rparr>"

text \<open>The functions \<open>send\<close> and \<open>sendMessage\<close> are new for each request: \<open>n\<close> is a number not used before.\<close>

definition getEventsRoute :: "'b app \<Rightarrow> nat \<Rightarrow> api_request \<Rightarrow> ('b, 'z) handler" where
  "getEventsRoute A n ev = handled ev
    (andThen (requireMqttSessionUser A ev False) (\<lambda>acc.
     andThen (watchSession (appP A) (appL A) (maSessionKey acc) n (Some n)) (\<lambda>_.
     ret \<lparr>rpStatus = 200, rpBody = EventStream n,
          rpHeaders = [(''cache-control'', ''no-cache, no-transform''), (''connection'', ''keep-alive''),
            (''content-type'', ''text/event-stream'')]\<rparr>)))"

definition streamCleanup :: "event_stream \<Rightarrow> ('b, 'z, unit) mqio" where
  "streamCleanup s = unwatchSession (evsSessionKey s) (evsListener s) (Some (evsMessageListener s)) (Some (evsCorrelation s))"

definition closed_stream :: "event_stream \<Rightarrow> event_stream" where
  "closed_stream s = s\<lparr>evsClosed := True, evsTimer := False\<rparr>"

definition streamHeartbeat :: "'b app \<Rightarrow> event_stream \<Rightarrow> ('b, 'z, event_stream) mqio" where
  "streamHeartbeat A s =
    (if evsClosed s then ret s
     else catching
       (andThen (whenever (evsMcp s) (assertPrincipalEnabled (appL A) (Some (evsCorrelation s)))) (\<lambda>_.
        ret (s\<lparr>evsPings := Suc (evsPings s)\<rparr>)))
       (\<lambda>_. andThen (streamCleanup s) (\<lambda>_. ret (closed_stream s))))"

definition streamAbort :: "event_stream \<Rightarrow> ('b, 'z, event_stream) mqio" where
  "streamAbort s =
    (if evsClosed s then ret s else andThen (streamCleanup s) (\<lambda>_. ret (closed_stream s)))"

text \<open>\<open>cancel\<close> does not ask whether the stream is closed: the cleanup can run twice.\<close>

definition streamCancel :: "event_stream \<Rightarrow> ('b, 'z, event_stream) mqio" where
  "streamCancel s = andThen (streamCleanup s) (\<lambda>_. ret (closed_stream s))"

end
