(* ===== verification/Api.thy ===== *)
theory Api
  imports ApiAdmin ApiMqtt
begin

text \<open>
  The routes of the HTTP API: one constructor per exported handler of \<open>fe/routes/api\<close>, its
  method and path, the capability with which it begins and the audit action it records.
\<close>

datatype api_route =
    GetAudit | GetKeyFiles | GetKeyFile | PullConfig | PushConfig | PostReload | PostRestart
  | GetDashboard | GetDiagnostics | GetMe | GetMcpAccess | PatchMcpAccess | PostHeartbeat
  | GetUsers | PostUser | PatchUser | DeleteUser | PostExport | PostImport
  | GetClients | PostClient | GetClient | PatchClient | DeleteClient
  | GetGroups | PostGroup | PatchGroup | DeleteGroup
  | GetRoles | PostRole | PatchRole | DeleteRole | GetClientDefaults | PatchClientDefaults
  | GetMqttState | PostConnect | PostDisconnect | PostMessages | PostPublish | PostSubscribe | PostUnsubscribe
  | GetEvents nat

fun handleRoute :: "'b app \<Rightarrow> api_route \<Rightarrow> api_request \<Rightarrow> ('b, 'z) handler" where
  "handleRoute A GetAudit ev = getAuditRoute A ev"
| "handleRoute A GetKeyFiles ev = getKeyFilesRoute A ev"
| "handleRoute A GetKeyFile ev = getKeyFileRoute A ev"
| "handleRoute A PullConfig ev = pullConfigRoute A ev"
| "handleRoute A PushConfig ev = pushConfigRoute A ev"
| "handleRoute A PostReload ev = reloadRoute A ev"
| "handleRoute A PostRestart ev = restartRoute A ev"
| "handleRoute A GetDashboard ev = getDashboardRoute A ev"
| "handleRoute A GetDiagnostics ev = getDiagnosticsRoute A ev"
| "handleRoute A GetMe ev = getMeRoute ev"
| "handleRoute A GetMcpAccess ev = getMcpAccessRoute A ev"
| "handleRoute A PatchMcpAccess ev = patchMcpAccessRoute A ev"
| "handleRoute A PostHeartbeat ev = postHeartbeatRoute A ev"
| "handleRoute A GetUsers ev = getUsersRoute A ev"
| "handleRoute A PostUser ev = postUserRoute A ev"
| "handleRoute A PatchUser ev = patchUserRoute A ev"
| "handleRoute A DeleteUser ev = deleteUserRoute A ev"
| "handleRoute A PostExport ev = exportSnapshotRoute A ev"
| "handleRoute A PostImport ev = importSnapshotRoute A ev"
| "handleRoute A GetClients ev = getClientsRoute A ev"
| "handleRoute A PostClient ev = postClientRoute A ev"
| "handleRoute A GetClient ev = getClientRoute A ev"
| "handleRoute A PatchClient ev = patchClientRoute A ev"
| "handleRoute A DeleteClient ev = deleteClientRoute A ev"
| "handleRoute A GetGroups ev = getGroupsRoute A ev"
| "handleRoute A PostGroup ev = postGroupRoute A ev"
| "handleRoute A PatchGroup ev = patchGroupRoute A ev"
| "handleRoute A DeleteGroup ev = deleteGroupRoute A ev"
| "handleRoute A GetRoles ev = getRolesRoute A ev"
| "handleRoute A PostRole ev = postRoleRoute A ev"
| "handleRoute A PatchRole ev = patchRoleRoute A ev"
| "handleRoute A DeleteRole ev = deleteRoleRoute A ev"
| "handleRoute A GetClientDefaults ev = getClientDefaultsRoute A ev"
| "handleRoute A PatchClientDefaults ev = patchClientDefaultsRoute A ev"
| "handleRoute A GetMqttState ev = getMqttStateRoute A ev"
| "handleRoute A PostConnect ev = postConnectRoute A ev"
| "handleRoute A PostDisconnect ev = postDisconnectRoute A ev"
| "handleRoute A PostMessages ev = postMessagesRoute A ev"
| "handleRoute A PostPublish ev = postPublishRoute A ev"
| "handleRoute A PostSubscribe ev = postSubscribeRoute A ev"
| "handleRoute A PostUnsubscribe ev = postUnsubscribeRoute A ev"
| "handleRoute A (GetEvents n) ev = getEventsRoute A n ev"

text \<open>The capability a route asks for; \<open>None\<close> for \<open>me\<close> (anybody) and the heartbeat (the MCP service).\<close>

fun routeCapability :: "api_request \<Rightarrow> api_route \<Rightarrow> capability option" where
  "routeCapability ev GetAudit = Some ViewAudit"
| "routeCapability ev PullConfig = Some ManageBroker"
| "routeCapability ev PushConfig = Some ManageBroker"
| "routeCapability ev PostReload = Some ManageBroker"
| "routeCapability ev PostRestart = Some ManageBroker"
| "routeCapability ev GetMe = None"
| "routeCapability ev PostHeartbeat = None"
| "routeCapability ev GetMcpAccess =
    Some (case rqUser ev of Some u \<Rightarrow> if auRole u = McpRole then ReadCap else ManageMcp | None \<Rightarrow> ManageMcp)"
| "routeCapability ev PatchMcpAccess = Some ManageMcp"
| "routeCapability ev GetUsers = Some ManageUsers"
| "routeCapability ev PostUser = Some ManageUsers"
| "routeCapability ev PatchUser = Some ManageUsers"
| "routeCapability ev DeleteUser = Some ManageUsers"
| "routeCapability ev PostExport = Some ManageSnapshots"
| "routeCapability ev PostImport = Some ManageSnapshots"
| "routeCapability ev PostClient = Some ManageSecurity"
| "routeCapability ev PatchClient = Some ManageSecurity"
| "routeCapability ev DeleteClient = Some ManageSecurity"
| "routeCapability ev PostGroup = Some ManageSecurity"
| "routeCapability ev PatchGroup = Some ManageSecurity"
| "routeCapability ev DeleteGroup = Some ManageSecurity"
| "routeCapability ev PostRole = Some ManageSecurity"
| "routeCapability ev PatchRole = Some ManageSecurity"
| "routeCapability ev DeleteRole = Some ManageSecurity"
| "routeCapability ev PatchClientDefaults = Some ManageSecurity"
| "routeCapability ev _ = Some ReadCap"

text \<open>The audit actions of the routes that change something; the other routes record nothing.\<close>

fun routeActions :: "api_route \<Rightarrow> string list" where
  "routeActions PushConfig = [''broker.config.push'']"
| "routeActions PostReload = [''broker.reload'']"
| "routeActions PostRestart = [''broker.restart'']"
| "routeActions PatchMcpAccess = [''mcp.access.update'']"
| "routeActions PostUser = [''user.create'']"
| "routeActions PatchUser = [''user.update'']"
| "routeActions DeleteUser = [''user.delete'']"
| "routeActions PostExport = [''snapshot.export'']"
| "routeActions PostImport = [''snapshot.import.apply'', ''snapshot.import.preview'']"
| "routeActions PostClient = [''dynsec.client.create'']"
| "routeActions PatchClient = map ((@) ''dynsec.client.'')
    [''setEnabled'', ''setPassword'', ''assignRole'', ''removeRole'', ''addGroup'', ''removeGroup'']"
| "routeActions DeleteClient = [''dynsec.client.delete'']"
| "routeActions PostGroup = [''dynsec.group.create'']"
| "routeActions PatchGroup = map ((@) ''dynsec.group.'') [''addClient'', ''removeClient'', ''addRole'', ''removeRole'']"
| "routeActions DeleteGroup = [''dynsec.group.delete'']"
| "routeActions PostRole = [''dynsec.role.create'']"
| "routeActions PatchRole = map ((@) ''dynsec.role.'') [''addAcl'', ''removeAcl'']"
| "routeActions DeleteRole = [''dynsec.role.delete'']"
| "routeActions PatchClientDefaults = [''dynsec.settings.clientDefaults.update'']"
| "routeActions PostConnect = [''mqtt.explorer.connect'']"
| "routeActions PostDisconnect = [''mqtt.explorer.disconnect'']"
| "routeActions PostMessages = [''mqtt.explorer.clear_latest_topics'', ''mqtt.explorer.set_latest_topics_limit'']"
| "routeActions PostPublish = [''mqtt.explorer.publish'']"
| "routeActions PostSubscribe = [''mqtt.explorer.subscribe'']"
| "routeActions PostUnsubscribe = [''mqtt.explorer.unsubscribe'']"
| "routeActions _ = []"

text \<open>A route that changes something compares the \<open>Origin\<close> first.\<close>

definition changes :: "api_route \<Rightarrow> bool" where
  "changes r = (routeActions r \<noteq> [])"

definition routeGuard :: "'b app \<Rightarrow> api_route \<Rightarrow> api_request \<Rightarrow> exn + unit" where
  "routeGuard A r ev =
    (case routeCapability ev r of
       None \<Rightarrow> Inr ()
     | Some cap \<Rightarrow> if changes r then guardMutation A ev cap else requireCap ev cap)"

end
