(* ===== verification/AuthSafety.thy ===== *)
theory AuthSafety
  imports AuthInvariant
begin

text \<open>
  What the sessions, the logins and the account operations of \<open>AuthService\<close> guarantee: which cookies
  authenticate, that a changed password ends every session, when a local login succeeds, that an OpenID
  Connect state is used once, and where a login may redirect to.
\<close>

section \<open>Cookies\<close>

lemma extract_SomeD:
  assumes "extractSessionId P L c = Inr (Some sid)"
  shows "sid \<noteq> [] \<and> (\<exists>rest. splitOn (CHR ''.'') (the c) = sid # signSessionId P L sid # rest)"
  using assms by (auto simp: extractSessionId_def Let_def split: if_splits list.splits)

lemma getUserFromCookie_SomeD:
  assumes "getUserFromCookie P L c w = (Inr (Some a), w')"
  obtains sid s u where "extractSessionId P L c = Inr (Some sid)" "s \<in> set (sessions w)" "sId s = sid"
    "clock w < sExpiresAt s" "u \<in> set (users w)" "uId u = sUserId s" "\<not> uDisabled u" "\<not> isMcpPrincipal u"
    "sSessionVersion s = uSessionVersion u" "a = sanitizeUser u"
proof -
  from assms obtain sid w1 w2 s u where
    "extractSessionId P L c = Inr (Some sid)" "getSession sid w = (Inr (Some s), w1)" "clock w1 < sExpiresAt s"
    "getUserById (sUserId s) w1 = (Inr (Some u), w2)" "\<not> uDisabled u" "\<not> isMcpPrincipal u"
    "sSessionVersion s = uSessionVersion u" "a = sanitizeUser u"
    unfolding getUserFromCookie_def
    by (auto elim!: andThen_eq_InrE split: option.splits if_splits)
  moreover from this(2) have "s \<in> set (sessions w)" "sId s = sid" "users w1 = users w" "clock w1 = clock w"
    by (auto simp: getSession_def dbRead_def dbGate_def andThen_def dest!: find_Some_set split: list.splits if_splits)
  moreover from calculation(4) have "u \<in> set (users w1)" "uId u = sUserId s"
    by (auto simp: getUserById_def dbRead_def dbGate_def andThen_def dest!: find_Some_set split: list.splits if_splits)
  ultimately show thesis by (intro that) simp_all
qed

text \<open>
  C1: a cookie authenticates only with the server's signature over the id of a stored session that has
  not expired, of an account that is enabled, is not the MCP account and whose session version is the
  session's; and then it gives exactly that account.
\<close>

theorem cookie_authentic:
  assumes "getUserFromCookie P L c w = (Inr (Some a), w')"
  shows "\<exists>s \<in> set (sessions w). \<exists>u \<in> set (users w). \<exists>rest.
    splitOn (CHR ''.'') (the c) = sId s # signSessionId P L (sId s) # rest \<and>
    clock w < sExpiresAt s \<and> uId u = sUserId s \<and> \<not> uDisabled u \<and> \<not> isMcpPrincipal u \<and>
    sSessionVersion s = uSessionVersion u \<and> a = sanitizeUser u"
  using assms
proof (rule getUserFromCookie_SomeD)
  fix sid s u
  assume "extractSessionId P L c = Inr (Some sid)" "s \<in> set (sessions w)" "sId s = sid"
    "clock w < sExpiresAt s" "u \<in> set (users w)" "uId u = sUserId s" "\<not> uDisabled u" "\<not> isMcpPrincipal u"
    "sSessionVersion s = uSessionVersion u" "a = sanitizeUser u"
  then show ?thesis using extract_SomeD [of P L c sid] by blast
qed

lemma extract_build:
  assumes "sid \<noteq> []" "CHR ''.'' \<notin> set sid" "signSessionId P L sid \<noteq> []" "CHR ''.'' \<notin> set (signSessionId P L sid)"
  shows "extractSessionId P L (Some (buildSessionCookieValue P L sid)) = Inr (Some sid)"
proof -
  have "splitOn (CHR ''.'') (sid @ CHR ''.'' # signSessionId P L sid) = [sid, signSessionId P L sid]"
    using assms(2,4) by (simp add: splitOn_append_sep splitOn_no_sep)
  then show ?thesis using assms(1,3) by (simp add: extractSessionId_def buildSessionCookieValue_def nonblank_def)
qed

lemma getUserFromCookie_valid:
  assumes "extractSessionId P L c = Inr (Some sid)" "dbFaults w = []"
    and "List.find (\<lambda>s. sId s = sid) (sessions w) = Some s" "clock w < sExpiresAt s"
    and "List.find (\<lambda>u. uId u = sUserId s) (users w) = Some u" "\<not> uDisabled u" "\<not> isMcpPrincipal u"
    and "uSessionVersion u = sSessionVersion s"
  shows "getUserFromCookie P L c w = (Inr (Some (sanitizeUser u)), w)"
  using assms by (simp add: getUserFromCookie_def getSession_def getUserById_def)

lemma find_snoc: "List.find P (xs @ [x]) = (case List.find P xs of None \<Rightarrow> if P x then Some x else None | Some y \<Rightarrow> Some y)"
  by (induction xs) auto

text \<open>What a run of \<open>createSessionForUser\<close> that returns has stored.\<close>

lemma createSession_InrD:
  assumes "createSessionForUser P L u am ip ua corr w = (Inr r, w')"
  obtains s where "sessions w' = sessions w @ [s]" "sId s = random_b64url P (draws w) 32" "sId s \<notin> sId ` set (sessions w)"
    "sUserId s = uId u" "sSessionVersion s = uSessionVersion u" "users w' = users w" "\<not> isMcpPrincipal u"
    "sExpiresAt s = clock w + acSessionTtlMinutes (cfAuth (ldConfig L)) * 60000"
    "lrUser r = sanitizeUser u" "lrCookieValue r = buildSessionCookieValue P L (sId s)"
proof -
  let ?s = "\<lparr>sId = random_b64url P (draws w) 32, sUserId = uId u, sAuthMethod = am,
      sExpiresAt = clock w + acSessionTtlMinutes (cfAuth (ldConfig L)) * 60000, sSessionVersion = uSessionVersion u,
      sSourceIp = ip, sUserAgent = ua, sCreatedAt = clock w, sUpdatedAt = clock w\<rparr>"
  from assms have mcp: "\<not> isMcpPrincipal u"
    by (auto simp: createSessionForUser_def split: if_splits)
  with assms obtain w1 w2 w3 where ins: "insertSession ?s (w\<lparr>draws := Suc (draws w)\<rparr>) = (Inr (), w1)"
    and log: "logSuccessfulLogin L am u ip ua (toISOString (sExpiresAt ?s)) corr w1 = (Inr (), w2)"
    and aud: "recordLoginAudit P am (Some u) ip corr (Some (uUsername u))
         (Obj [(''authMethod'', Str (auth_method_str am))])
         (Obj [(''username'', Str (uUsername u)), (''userId'', Str (uId u)),
               (''role'', Str (role_str (uRole u))), (''authSource'', Str (auth_method_str (uAuthSource u)))])
         (Obj [(''sessionExpiresAt'', Str (toISOString (sExpiresAt ?s)))]) True w2 = (Inr (), w3)"
    and r: "r = \<lparr>lrUser = sanitizeUser u, lrSessionId = sId ?s, lrCookieValue = buildSessionCookieValue P L (sId ?s),
      lrExpiresAt = toISOString (sExpiresAt ?s)\<rparr>" "w' = w3"
    by (auto simp: createSessionForUser_def createOpaqueToken_def Let_def elim!: andThen_eq_InrE split: if_splits)
  have t: "tables w3 = tables w1"
    using keepsD [OF keeps_tables_log(3) log] keepsD [OF keeps_tables_login_audit aud] by simp
  have "sessions w1 = sessions w @ [?s]" "users w1 = users w" "sId ?s \<notin> sId ` set (sessions w)"
    using ins by (auto simp: insertSession_def dest!: dbWrite_InrD split: if_splits)
  then show thesis using t r mcp by (intro that [of ?s]) (simp_all add: tables_def)
qed

text \<open>
  C27: the cookie of a login authenticates its account, until the session expires, as long as the
  account and the session are as the login left them.
\<close>

theorem login_cookie_roundtrip:
  assumes run: "createSessionForUser P L u am ip ua corr w = (Inr r, w')"
    and ids: "distinct (map uId (users w))" "u \<in> set (users w)" "\<not> uDisabled u"
    and later: "users w2 = users w'" "sessions w2 = sessions w'" "dbFaults w2 = []"
      "clock w2 < clock w + acSessionTtlMinutes (cfAuth (ldConfig L)) * 60000"
    and alphabet: "random_b64url P (draws w) 32 = sid" "sid \<noteq> []" "CHR ''.'' \<notin> set sid"
      "signSessionId P L sid \<noteq> []" "CHR ''.'' \<notin> set (signSessionId P L sid)"
  shows "outcome (getUserFromCookie P L (Some (lrCookieValue r))) w2 = Inr (Some (sanitizeUser u))"
  using run
proof (rule createSession_InrD)
  fix s
  assume s: "sessions w' = sessions w @ [s]" "sId s = random_b64url P (draws w) 32" "sId s \<notin> sId ` set (sessions w)"
    "sUserId s = uId u" "sSessionVersion s = uSessionVersion u" "users w' = users w" "\<not> isMcpPrincipal u"
    "sExpiresAt s = clock w + acSessionTtlMinutes (cfAuth (ldConfig L)) * 60000"
    "lrCookieValue r = buildSessionCookieValue P L (sId s)"
  have "extractSessionId P L (Some (lrCookieValue r)) = Inr (Some (sId s))"
    unfolding s(9) by (rule extract_build) (use alphabet s(2) in simp_all)
  moreover have "List.find (\<lambda>q. sId q = sId s) (sessions w2) = Some s"
  proof -
    have "List.find (\<lambda>q. sId q = sId s) (sessions w) = None" unfolding find_None using s(3) by (metis imageI)
    then show ?thesis using later s(1) by (simp add: find_snoc)
  qed
  moreover have "List.find (\<lambda>v. uId v = sUserId s) (users w2) = Some u"
    using find_distinct [OF ids(1,2)] later s by simp
  ultimately show ?thesis
    using getUserFromCookie_valid [of P L "Some (lrCookieValue r)" "sId s" w2 s u] s ids later by (simp add: outcome_def)
qed

definition sample_user :: user_row where
  "sample_user = \<lparr>uId = ''u1'', uUsername = ''bob'', uEmail = None, uRole = UserRole Operator, uAuthSource = LocalAuth,
    uExternalSubject = None, uPasswordHash = Some ''argon(pw)'', uProtected = False, uDisabled = False,
    uSessionVersion = 2, uCreatedAt = 0, uUpdatedAt = 0\<rparr>"

definition sample_session :: session_row where
  "sample_session = \<lparr>sId = ''s1'', sUserId = ''u1'', sAuthMethod = LocalAuth, sExpiresAt = 2000, sSessionVersion = 2,
    sSourceIp = None, sUserAgent = None, sCreatedAt = 0, sUpdatedAt = 0\<rparr>"

lemma sample_sign:
  "signSessionId sample_platform sample_loaded m \<noteq> []"
  "CHR ''.'' \<notin> set m \<Longrightarrow> CHR ''.'' \<notin> set (signSessionId sample_platform sample_loaded m)"
  by (simp_all add: signSessionId_def sample_platform_def sample_loaded_def sample_secrets_def)

lemma sample_extract:
  "extractSessionId sample_platform sample_loaded (Some (buildSessionCookieValue sample_platform sample_loaded ''s1'')) =
    Inr (Some ''s1'')"
  by (rule extract_build) (simp_all add: sample_sign)

lemma sample_cookie_run:
  "getUserFromCookie sample_platform sample_loaded (Some (buildSessionCookieValue sample_platform sample_loaded ''s1''))
    (sample_accounts [sample_user] [sample_session] []) =
   (Inr (Some (sanitizeUser sample_user)), sample_accounts [sample_user] [sample_session] [])"
  by (rule getUserFromCookie_valid [OF sample_extract, where s = sample_session])
    (simp_all add: sample_accounts_def sample_user_def sample_session_def isMcpPrincipal_def)

theorem cookie_authentic_witness:
  "sample_session \<in> set (sessions (sample_accounts [sample_user] [sample_session] [])) \<and>
    sSessionVersion sample_session = uSessionVersion sample_user"
  using cookie_authentic [OF sample_cookie_run] by (auto simp: sample_accounts_def)

section \<open>On a healthy database\<close>

lemma auditRecord_healthy:
  assumes "dbFaults w = []" "random_b64url P (draws w) 18 \<notin> aId ` set (audit_log w)"
  obtains w' where "auditRecord P actor am ip c action ty tid bef aft res success w = (Inr (), w')"
proof -
  let ?e = "audit_entry actor am ip c action ty tid bef aft res success (random_b64url P (draws w) 18) (toISOString (clock w))"
  have "aId ?e \<notin> set (map aId (audit_log w))" using assms(2) by (simp add: audit_entry_def)
  then have "appendAudit P ?e (w\<lparr>draws := Suc (draws w)\<rparr>) =
    (Inr (), w\<lparr>draws := Suc (draws w), audit_log := audit_log w @ [linkEntry P (latest_of (audit_log w)) ?e]\<rparr>)"
    using appendAudit_healthy [of "w\<lparr>draws := Suc (draws w)\<rparr>" ?e] assms(1) by simp
  then show thesis by (intro that) (simp add: auditRecord_def createOpaqueToken_def)
qed

lemma keeps_log_health:
  "keeps (\<lambda>w. (dbFaults w, audit_log w)) (logFailedLocalLogin L n nn us ip ua corr ky fr)"
  "keeps (\<lambda>w. (dbFaults w, audit_log w)) (logSuccessfulLogin L am u ip ua ex corr)"
  unfolding logFailedLocalLogin_def logSuccessfulLogin_def emitAuthLog_def
  by (intro keeps_intros keeps_emit; simp)+

lemma log_Inr:
  obtains w1 where "logSuccessfulLogin L am u ip ua ex corr w = (Inr (), w1)"
  by (cases "lgSuccessfulLogin (cfLogging (ldConfig L))") (simp_all add: logSuccessfulLogin_def emitAuthLog_def)

lemma logFailed_Inr:
  obtains w1 where "logFailedLocalLogin L n nn us ip ua corr ky fr w = (Inr (), w1)"
  by (cases "lgFailedLoginAttempts (cfLogging (ldConfig L))") (simp_all add: logFailedLocalLogin_def emitAuthLog_def)

lemma recordLoginAudit_healthy:
  assumes "dbFaults w = []" "\<And>n. random_b64url P n 18 \<notin> aId ` set (audit_log w)"
  obtains w' where "recordLoginAudit P am actor ip corr tid bef aft res success w = (Inr (), w')"
proof (cases corr)
  case None
  have "dbFaults (w\<lparr>draws := Suc (draws w)\<rparr>) = []" "random_b64url P (draws (w\<lparr>draws := Suc (draws w)\<rparr>)) 18 \<notin>
    aId ` set (audit_log (w\<lparr>draws := Suc (draws w)\<rparr>))" using assms by simp_all
  then obtain w' where "auditRecord P (map_option sanitizeUser actor) (Some (auth_method_str am)) ip
      (random_uuid P (draws w)) (''auth.login.'' @ auth_method_str am) ''auth_login'' tid bef aft res success
      (w\<lparr>draws := Suc (draws w)\<rparr>) = (Inr (), w')"
    by (rule auditRecord_healthy)
  then show thesis using that None by (simp add: recordLoginAudit_def createCorrelationId_def)
next
  case (Some c)
  obtain w' where "auditRecord P (map_option sanitizeUser actor) (Some (auth_method_str am)) ip c
      (''auth.login.'' @ auth_method_str am) ''auth_login'' tid bef aft res success w = (Inr (), w')"
    by (rule auditRecord_healthy [OF assms(1) assms(2)])
  then show thesis using that Some by (simp add: recordLoginAudit_def)
qed

text \<open>The random identifiers of the database collide with none that is stored.\<close>

definition fresh_ids :: "'b platform \<Rightarrow> ('b, 'z) db_world_scheme \<Rightarrow> bool" where
  "fresh_ids P w \<longleftrightarrow> dbFaults w = [] \<and> (\<forall>n. random_b64url P n 18 \<notin> aId ` set (audit_log w)) \<and>
    (\<forall>n. random_b64url P n 32 \<notin> sId ` set (sessions w))"

lemma createSession_healthy:
  assumes "fresh_ids P w" "u \<in> set (users w)" "\<not> isMcpPrincipal u" "am \<noteq> McpAuth"
  obtains r w' where "createSessionForUser P L u am ip ua corr w = (Inr r, w')" "lrUser r = sanitizeUser u"
proof -
  let ?s = "\<lparr>sId = random_b64url P (draws w) 32, sUserId = uId u, sAuthMethod = am,
      sExpiresAt = clock w + acSessionTtlMinutes (cfAuth (ldConfig L)) * 60000, sSessionVersion = uSessionVersion u,
      sSourceIp = ip, sUserAgent = ua, sCreatedAt = clock w, sUpdatedAt = clock w\<rparr>"
  let ?w1 = "w\<lparr>draws := Suc (draws w), sessions := sessions w @ [?s]\<rparr>"
  have ins: "insertSession ?s (w\<lparr>draws := Suc (draws w)\<rparr>) = (Inr (), ?w1)"
    using assms by (auto simp: insertSession_def dbWrite_healthy fresh_ids_def)
  obtain w2 where log: "logSuccessfulLogin L am u ip ua (toISOString (sExpiresAt ?s)) corr ?w1 = (Inr (), w2)"
    by (rule log_Inr)
  have "(dbFaults w2, audit_log w2) = (dbFaults ?w1, audit_log ?w1)" by (rule keepsD [OF keeps_log_health(2) log])
  then have "dbFaults w2 = []" "\<And>n. random_b64url P n 18 \<notin> aId ` set (audit_log w2)"
    using assms(1) by (simp_all add: fresh_ids_def)
  then obtain w3 where "recordLoginAudit P am (Some u) ip corr (Some (uUsername u))
         (Obj [(''authMethod'', Str (auth_method_str am))])
         (Obj [(''username'', Str (uUsername u)), (''userId'', Str (uId u)),
               (''role'', Str (role_str (uRole u))), (''authSource'', Str (auth_method_str (uAuthSource u)))])
         (Obj [(''sessionExpiresAt'', Str (toISOString (sExpiresAt ?s)))]) True w2 = (Inr (), w3)"
    by (rule recordLoginAudit_healthy)
  then show thesis
    using ins log assms(3,4)
    by (intro that [of "\<lparr>lrUser = sanitizeUser u, lrSessionId = sId ?s,
        lrCookieValue = buildSessionCookieValue P L (sId ?s), lrExpiresAt = toISOString (sExpiresAt ?s)\<rparr>" w3])
      (simp_all add: createSessionForUser_def createOpaqueToken_def Let_def)
qed

section \<open>Local login\<close>

definition credentials_ok :: "'b platform \<Rightarrow> string \<Rightarrow> string \<Rightarrow> user_row list \<Rightarrow> user_row option" where
  "credentials_ok P username password us =
    (case List.find (\<lambda>u. uUsername u = normalizeUsername username) us of
       None \<Rightarrow> None
     | Some u \<Rightarrow> if \<not> uDisabled u \<and> nonblank (uPasswordHash u) \<and> argon2_verify P (the (uPasswordHash u)) password
         then Some u else None)"

lemma failLocalLogin_healthy:
  assumes "dbFaults w = []" "\<And>n. random_b64url P n 18 \<notin> aId ` set (audit_log w)"
  shows "outcome (failLocalLogin P L n us ip ua corr e fr) w = Inl e"
proof -
  obtain w1 where log: "logFailedLocalLogin L n (normalizeUsername n) us ip ua corr (errorKey e) fr w = (Inr (), w1)"
    by (rule logFailed_Inr)
  have "(dbFaults w1, audit_log w1) = (dbFaults w, audit_log w)" by (rule keepsD [OF keeps_log_health(1) log])
  then obtain w2 where "recordLoginAudit P LocalAuth None ip corr
      (if normalizeUsername n \<noteq> [] then Some (normalizeUsername n) else None)
      (Obj [(''submittedUsername'', if n \<noteq> [] then Str n else Null), (''normalizedUsername'', Str (normalizeUsername n)),
        (''authMethod'', Str ''local'')]) Null
      (Obj [(''failureReason'', Str fr), (''errorKey'', Str (errorKey e))]) False w1 = (Inr (), w2)"
    using assms by (metis prod.inject recordLoginAudit_healthy)
  then show ?thesis using log by (simp add: failLocalLogin_def outcome_def Let_def)
qed

text \<open>
  C28: a local login succeeds exactly for an enabled account whose stored hash verifies the password, and
  gives that account. Every refusal is one and the same error, so that the answer does not tell whether
  the account exists, is disabled or has another password.
\<close>

theorem local_login_exact:
  assumes "fresh_ids P w"
    and "acLocalEnabled (cfAuth (ldConfig L))"
    and "\<forall>u \<in> set (users w). isMcpPrincipal u \<longrightarrow> uPasswordHash u = None"
  shows "map_sum id lrUser (outcome (loginLocal P L username password ip ua corr) w) =
    (case credentials_ok P username password (users w) of
       Some u \<Rightarrow> Inr (sanitizeUser u)
     | None \<Rightarrow> Inl (invalidCredentials corr))"
proof -
  let ?found = "List.find (\<lambda>u. uUsername u = normalizeUsername username) (users w)"
  have h: "dbFaults w = []" "\<And>n. random_b64url P n 18 \<notin> aId ` set (audit_log w)"
    using assms(1) by (simp_all add: fresh_ids_def)
  have look: "getUserByUsername (normalizeUsername username) w = (Inr ?found, w)"
    using h(1) by (simp add: getUserByUsername_def)
  have refuse: "fst (failLocalLogin P L username us ip ua corr (invalidCredentials corr) fr w) = Inl (invalidCredentials corr)" for us fr
    using failLocalLogin_healthy [OF h] by (simp add: outcome_def)
  show ?thesis
  proof (cases ?found)
    case None
    then show ?thesis
      using look refuse assms(2) by (simp add: loginLocal_def outcome_def Let_def credentials_ok_def)
  next
    case (Some u)
    have u: "u \<in> set (users w)" using find_Some_set [OF Some] by simp
    show ?thesis
    proof (cases "\<not> uDisabled u \<and> nonblank (uPasswordHash u) \<and> argon2_verify P (the (uPasswordHash u)) password")
      case False
      then show ?thesis
        using look Some refuse assms(2) by (auto simp: loginLocal_def outcome_def Let_def credentials_ok_def)
    next
      case True
      then have "\<not> isMcpPrincipal u" using assms(3) u not_nonblank_None by metis
      then obtain r w' where "createSessionForUser P L u LocalAuth ip ua corr w = (Inr r, w')" "lrUser r = sanitizeUser u"
        by (rule createSession_healthy [OF assms(1) u, of LocalAuth L ip ua corr]) simp_all
      then show ?thesis
        using look Some True assms(2) by (simp add: loginLocal_def outcome_def Let_def credentials_ok_def)
    qed
  qed
qed

theorem login_cookie_roundtrip_witness:
  "\<exists>r w'. createSessionForUser sample_platform sample_loaded sample_user LocalAuth None None (Some ''c'')
      (sample_accounts [sample_user] [] []) = (Inr r, w') \<and>
    outcome (getUserFromCookie sample_platform sample_loaded (Some (lrCookieValue r)))
      (w'\<lparr>dbFaults := [], clock := 1000\<rparr>) = Inr (Some (sanitizeUser sample_user))"
proof -
  let ?w = "sample_accounts [sample_user] [] []"
  have fresh: "fresh_ids sample_platform ?w" by (simp add: fresh_ids_def sample_accounts_def)
  have u: "sample_user \<in> set (users ?w)" "\<not> isMcpPrincipal sample_user" "LocalAuth \<noteq> McpAuth"
    by (simp_all add: sample_accounts_def sample_user_def isMcpPrincipal_def)
  obtain r w' where run: "createSessionForUser sample_platform sample_loaded sample_user LocalAuth None None (Some ''c'') ?w = (Inr r, w')"
    by (rule createSession_healthy [OF fresh u])
  have sid: "random_b64url sample_platform (draws ?w) 32 = ''r0''"
    by code_simp
  have ttl: "acSessionTtlMinutes (cfAuth (ldConfig sample_loaded)) = 1440"
    by (simp add: sample_loaded_def sample_config_def Config.sample_auth_def)
  have "outcome (getUserFromCookie sample_platform sample_loaded (Some (lrCookieValue r)))
      (w'\<lparr>dbFaults := [], clock := 1000\<rparr>) = Inr (Some (sanitizeUser sample_user))"
    by (rule login_cookie_roundtrip [OF run _ _ _ _ _ _ _ sid])
      (simp_all add: sample_accounts_def sample_user_def sample_sign ttl)
  with run show ?thesis by blast
qed

theorem local_login_exact_witness:
  "map_sum id lrUser (outcome (loginLocal sample_platform sample_loaded ''Bob '' ''pw'' None None None)
      (sample_accounts [sample_user] [] [])) = Inr (sanitizeUser sample_user) \<and>
   map_sum id lrUser (outcome (loginLocal sample_platform sample_loaded ''bob'' ''guess'' None None None)
      (sample_accounts [sample_user] [] [])) = Inl (invalidCredentials None)"
proof -
  let ?w = "sample_accounts [sample_user] [] []"
  have h: "fresh_ids sample_platform ?w" "acLocalEnabled (cfAuth (ldConfig sample_loaded))"
    "\<forall>u \<in> set (users ?w). isMcpPrincipal u \<longrightarrow> uPasswordHash u = None"
    by (simp_all add: fresh_ids_def sample_accounts_def sample_user_def isMcpPrincipal_def sample_loaded_def sample_config_def
        Config.sample_auth_def)
  note exact = local_login_exact [OF h, of _ _ None None None]
  have "credentials_ok sample_platform ''Bob '' ''pw'' (users ?w) = Some sample_user"
    "credentials_ok sample_platform ''bob'' ''guess'' (users ?w) = None"
    by code_simp+
  then show ?thesis using exact [of "''Bob ''" "''pw''"] exact [of "''bob''" "''guess''"] by simp
qed

section \<open>Changing an account\<close>

text \<open>What a run of \<open>updateUser\<close> does to the tables, whatever its outcome.\<close>

lemma updateRow_effect:
  assumes "updateUserRow k em ro src su ph di ver st w = (r, w')"
  shows "sessions w' = sessions w \<and> (users w' = users w \<or>
    users w' = map_user k (\<lambda>u. u\<lparr>uEmail := em, uRole := ro, uAuthSource := src, uExternalSubject := su,
      uPasswordHash := ph, uDisabled := di, uSessionVersion := ver, uUpdatedAt := st\<rparr>) (users w))"
  using assms by (auto simp: updateUserRow_def dbWrite_def dbGate_def andThen_def split: list.splits if_splits)

lemma deleteSessions_effect:
  assumes "deleteSessionsForUser k w = (r, w')"
  shows "users w' = users w \<and> set (sessions w') \<subseteq> set (sessions w)"
  using assms by (auto simp: deleteSessionsForUser_def dbWrite_def dbGate_def andThen_def split: list.splits if_splits)

definition changed_row :: "user_row \<Rightarrow> string option \<Rightarrow> user_role \<Rightarrow> string option \<Rightarrow> bool \<Rightarrow> int \<Rightarrow> user_row \<Rightarrow> user_row" where
  "changed_row u em ro ph di t v = v\<lparr>uEmail := em, uRole := UserRole ro, uAuthSource := uAuthSource u,
    uExternalSubject := uExternalSubject u, uPasswordHash := ph, uDisabled := di,
    uSessionVersion := (if ph \<noteq> uPasswordHash u \<or> di \<noteq> uDisabled u then uSessionVersion u + 1 else uSessionVersion u),
    uUpdatedAt := t\<rparr>"

lemma next_hash:
  "\<exists>x w2. (if a then (if b then draw g else ret y) else ret z) w1 = (Inr x, w2) \<and> users w2 = users w1 \<and> sessions w2 = sessions w1"
  by simp

lemma updateUser_effect:
  assumes "updateUser P k em ro di pw corr actor w = (r, w')"
  shows "set (sessions w') \<subseteq> set (sessions w) \<and> (users w' = users w \<or>
    (\<exists>u ph di' t. List.find (\<lambda>v. uId v = k) (users w) = Some u \<and> uAuthSource u \<noteq> McpAuth \<and>
       \<not> (actorIsMcp actor \<and> (uRole u = UserRole SuperAdmin \<or> ro = SuperAdmin)) \<and>
       users w' = map_user k (changed_row u em ro ph di' t) (users w)))"
proof -
  obtain f w1 where look: "getUserById k w = (f, w1)" by fastforce
  have t1: "users w1 = users w" "sessions w1 = sessions w"
    using keepsD [OF keeps_tables_reads(2) look] by (simp_all add: tables_def)
  have found: "f = Inr (List.find (\<lambda>v. uId v = k) (users w))" if "succeeds f"
    using look that by (auto simp: getUserById_def dbRead_def dbGate_def andThen_def split: list.splits if_splits)
  show ?thesis
  proof (cases "\<exists>u. f = Inr (Some u) \<and> uAuthSource u \<noteq> McpAuth \<and>
       \<not> (actorIsMcp actor \<and> (uRole u = UserRole SuperAdmin \<or> ro = SuperAdmin)) \<and>
       \<not> (uAuthSource u \<noteq> LocalAuth \<and> di) \<and> \<not> (uAuthSource u \<noteq> LocalAuth \<and> nonblank pw)")
    case False
    then have "w' = w1"
      using assms look by (auto simp: updateUser_def andThen_def split: sum.splits option.splits if_splits)
    then show ?thesis using t1 by simp
  next
    case True
    then obtain u where u: "f = Inr (Some u)" "uAuthSource u \<noteq> McpAuth"
       "\<not> (actorIsMcp actor \<and> (uRole u = UserRole SuperAdmin \<or> ro = SuperAdmin))"
       "\<not> (uAuthSource u \<noteq> LocalAuth \<and> di)" "\<not> (uAuthSource u \<noteq> LocalAuth \<and> nonblank pw)" by blast
    let ?hash = "if uAuthSource u = LocalAuth
                  then (if nonblank pw then draw (\<lambda>k. Some (argon2_hash P k (the pw))) else ret (uPasswordHash u))
                  else ret None"
    obtain ph w2 where hash: "?hash w1 = (Inr ph, w2)"
      and t2: "users w2 = users w1" "sessions w2 = sessions w1"
      using next_hash [of "uAuthSource u = LocalAuth" "nonblank pw" "\<lambda>k. Some (argon2_hash P k (the pw))"
        "uPasswordHash u" None w1] by blast
    let ?di = "if uAuthSource u = LocalAuth then di else False"
    let ?ver = "if ph \<noteq> uPasswordHash u \<or> ?di \<noteq> uDisabled u then uSessionVersion u + 1 else uSessionVersion u"
    obtain y w3 where row: "updateUserRow k em (UserRole ro) (uAuthSource u) (uExternalSubject u) ph ?di ?ver (clock w2) w2 = (y, w3)"
      by fastforce
    obtain z w4 where del: "whenever (?ver \<noteq> uSessionVersion u) (deleteSessionsForUser k) w3 = (z, w4)" by fastforce
    have d: "users w4 = users w3" "set (sessions w4) \<subseteq> set (sessions w3)"
      using del deleteSessions_effect [of k w3] by (auto simp: whenever_def split: if_splits)
    have "w' = w3 \<or> w' = w4"
      using assms look u hash row del
      by (cases y) (auto simp: updateUser_def Let_def split: if_splits)
    then have w': "users w' = users w3" "set (sessions w') \<subseteq> set (sessions w3)" using d by auto
    have "changed_row u em ro ph ?di (clock w2) = (\<lambda>v. v\<lparr>uEmail := em, uRole := UserRole ro,
        uAuthSource := uAuthSource u, uExternalSubject := uExternalSubject u, uPasswordHash := ph, uDisabled := ?di,
        uSessionVersion := ?ver, uUpdatedAt := clock w2\<rparr>)"
      by (simp only: fun_eq_iff changed_row_def simp_thms)
    then have rows: "users w3 = users w \<or> users w3 = map_user k (changed_row u em ro ph ?di (clock w2)) (users w)"
      and ses: "sessions w3 = sessions w" using updateRow_effect [OF row] unfolding t1 t2 by simp_all
    have look': "List.find (\<lambda>v. uId v = k) (users w) = Some u" using found u(1) by simp
    from rows show ?thesis
    proof
      assume "users w3 = users w"
      then show ?thesis using w' ses by simp
    next
      assume "users w3 = map_user k (changed_row u em ro ph ?di (clock w2)) (users w)"
      then have "users w' = map_user k (changed_row u em ro ph ?di (clock w2)) (users w)" using w'(1) by simp
      then show ?thesis using look' u(2,3) w'(2) ses by (intro conjI disjI2 exI) simp_all
    qed
  qed
qed

text \<open>
  C4: once an account has another password or was disabled, no cookie authenticates it any more: not
  one session from before the change works, even if the database failed in the middle of it.
\<close>

theorem changed_account_is_signed_out:
  assumes ok: "auth_ok M w" and run: "updateUser P k em ro di pw corr actor w = (r, w')"
    and rows: "u \<in> set (users w)" "uId u = k" "v \<in> set (users w')" "uId v = k"
    and changed: "uPasswordHash v \<noteq> uPasswordHash u \<or> uDisabled v \<noteq> uDisabled u"
  shows "case outcome (getUserFromCookie P L c) w' of Inr (Some a) \<Rightarrow> auId a \<noteq> k | _ \<Rightarrow> True"
proof -
  have ok': "auth_ok M w'" by (rule preservesD [OF preserves_t [OF t_updateUser] ok run])
  have dist: "distinct (map uId (users w))" "distinct (map uId (users w'))"
    using ok ok' by (simp_all add: auth_ok_def db_ok_def)
  have only: "x = y" if "x \<in> set us" "y \<in> set us" "uId x = uId y" "distinct (map uId us)" for x y :: user_row and us
    using that by (auto simp: distinct_map dest: inj_onD)
  have newer: "sSessionVersion s < uSessionVersion v" if s: "s \<in> set (sessions w')" "sUserId s = k" for s
  proof -
    have "users w' \<noteq> users w" using only [of u "users w" v] rows changed dist by auto
    then obtain q ph di' t where q: "List.find (\<lambda>x. uId x = k) (users w) = Some q"
        "users w' = map_user k (changed_row q em ro ph di' t) (users w)"
      and sub: "set (sessions w') \<subseteq> set (sessions w)"
      using updateUser_effect [OF run] by blast
    have "q = u" using only [of q "users w" u] find_Some_set [OF q(1)] rows dist(1) by auto
    then obtain x where x: "x \<in> set (users w)" "v = (if x = u then changed_row u em ro ph di' t x else x)"
      using rows(2,3) q(2) map_user_row [OF dist(1) rows(1), of "changed_row u em ro ph di' t"] by auto
    then have "x = u" using only [of x "users w" u] rows dist(1) by (auto split: if_splits)
    then have "v = changed_row u em ro ph di' t u" using x by simp
    then have "uSessionVersion v = uSessionVersion u + 1" using changed by (simp add: changed_row_def)
    moreover have "s \<in> set (sessions w)" using sub s by blast
    then have "session_ok (users w) s" using ok by (simp add: auth_ok_def list_all_iff)
    then obtain y where y: "y \<in> set (users w)" "uId y = sUserId s" "sSessionVersion s \<le> uSessionVersion y"
      by (auto simp: session_ok_def)
    have "y = u" by (rule only [OF y(1) rows(1) _ dist(1)]) (use y s rows in simp)
    then have "sSessionVersion s \<le> uSessionVersion u" using y by simp
    ultimately show ?thesis by simp
  qed
  show ?thesis
  proof (cases "\<exists>a w''. getUserFromCookie P L c w' = (Inr (Some a), w'') \<and> auId a = k")
    case True
    then obtain a w'' where run': "getUserFromCookie P L c w' = (Inr (Some a), w'')" and a: "auId a = k" by blast
    from run' show ?thesis
    proof (rule getUserFromCookie_SomeD)
      fix sid s x
      assume s: "s \<in> set (sessions w')" "x \<in> set (users w')" "uId x = sUserId s" "sSessionVersion s = uSessionVersion x"
        "a = sanitizeUser x"
      then have "x = v" using only [of x "users w'" v] rows a dist(2) by (simp add: sanitizeUser_def)
      then show ?thesis using newer [of s] s rows by simp
    qed
  next
    case False
    then show ?thesis by (cases "getUserFromCookie P L c w'") (auto simp: outcome_def split: sum.split option.split)
  qed
qed

theorem changed_account_is_signed_out_witness:
  "\<exists>w'. updateUser sample_platform ''u1'' None Operator True None None None
      (sample_accounts [sample_user] [sample_session] []) = (Inr (), w') \<and>
    (case outcome (getUserFromCookie sample_platform sample_loaded
        (Some (buildSessionCookieValue sample_platform sample_loaded ''s1''))) w' of
      Inr (Some a) \<Rightarrow> auId a \<noteq> ''u1'' | _ \<Rightarrow> True)"
proof -
  let ?w = "sample_accounts [sample_user] [sample_session] []"
  let ?v = "sample_user\<lparr>uDisabled := True, uSessionVersion := 3, uUpdatedAt := 1000\<rparr>"
  let ?w' = "?w\<lparr>users := [?v], sessions := []\<rparr>"
  have run: "updateUser sample_platform ''u1'' None Operator True None None None ?w = (Inr (), ?w')"
    by (simp add: updateUser_def getUserById_def updateUserRow_def deleteSessionsForUser_def dbWrite_healthy map_user_def
        sample_accounts_def sample_user_def sample_session_def actorIsMcp_def Let_def nonblank_def)
  have ok: "auth_ok [] ?w"
    by (simp add: auth_ok_def db_ok_def mcpRows_def sample_accounts_def sample_user_def sample_session_def account_ok_def
        isMcpPrincipal_def session_ok_def)
  have "case outcome (getUserFromCookie sample_platform sample_loaded
        (Some (buildSessionCookieValue sample_platform sample_loaded ''s1''))) ?w' of
      Inr (Some a) \<Rightarrow> auId a \<noteq> ''u1'' | _ \<Rightarrow> True"
    by (rule changed_account_is_signed_out [OF ok run, of sample_user ?v])
      (simp_all add: sample_accounts_def sample_user_def)
  with run show ?thesis by blast
qed

section \<open>The MCP user and the super administrators\<close>

definition superAdmins :: "('b, 'z) db_world_scheme \<Rightarrow> user_row list" where
  "superAdmins w = filter (\<lambda>u. uRole u = UserRole SuperAdmin) (users w)"

lemma createUser_effect:
  assumes "createUser P n em pw ro src su corr actor w = (r, w')"
  shows "users w' = users w \<or> (\<exists>u. users w' = users w @ [u] \<and> uRole u = UserRole ro \<and>
    \<not> (actorIsMcp actor \<and> ro = SuperAdmin) \<and> uAuthSource u \<noteq> McpAuth)"
proof -
  have ins: "users w2 = users w1 \<or> users w2 = users w1 @ [u]" if "insertUser u w1 = (q, w2)" for u q and w1 w2 :: "('a, 'b) db_world_scheme"
    using that by (auto simp: insertUser_def dbWrite_def dbGate_def andThen_def split: list.splits if_splits)
  obtain f w1 where look: "getUserByUsername (normalizeUsername n) w = (f, w1)" by fastforce
  have t1: "users w1 = users w" using keepsD [OF keeps_tables_reads(3) look] by (simp add: tables_def)
  show ?thesis
  proof (cases "f = Inr None \<and> src \<noteq> McpAuth \<and> \<not> (actorIsMcp actor \<and> ro = SuperAdmin) \<and>
      \<not> (src = LocalAuth \<and> \<not> nonblank pw) \<and> \<not> (src \<noteq> LocalAuth \<and> nonblank pw)")
    case False
    then have "w' = w1"
      using assms look by (auto simp: createUser_def Let_def andThen_def split: sum.splits if_splits)
    then show ?thesis using t1 by simp
  next
    case True
    obtain ph w2 where hash: "(if src = LocalAuth \<and> nonblank pw then draw (\<lambda>k. Some (argon2_hash P k (the pw))) else ret None)
        (w1\<lparr>draws := Suc (draws w1)\<rparr>) = (Inr ph, w2)" "users w2 = users w1"
      by (cases "src = LocalAuth \<and> nonblank pw") auto
    let ?u = "\<lparr>uId = random_b64url P (draws w1) 18, uUsername = normalizeUsername n, uEmail = em, uRole = UserRole ro,
      uAuthSource = src, uExternalSubject = su, uPasswordHash = ph, uProtected = False, uDisabled = False,
      uSessionVersion = 0, uCreatedAt = clock w1, uUpdatedAt = clock w1\<rparr>"
    have "insertUser ?u w2 = (r, w')"
      using assms look True hash(1) by (simp add: createUser_def Let_def createOpaqueToken_def)
    from ins [OF this] show ?thesis using t1 hash(2) True by auto
  qed
qed

lemma deleteUser_effect:
  assumes "deleteUser k corr actor w = (r, w')"
  shows "users w' = users w \<or> (\<exists>u. List.find (\<lambda>v. uId v = k) (users w) = Some u \<and>
    \<not> (actorIsMcp actor \<and> uRole u = UserRole SuperAdmin) \<and> users w' = filter (\<lambda>v. uId v \<noteq> k) (users w))"
proof -
  obtain f w1 where look: "getUserById k w = (f, w1)" by fastforce
  have t1: "users w1 = users w" using keepsD [OF keeps_tables_reads(2) look] by (simp add: tables_def)
  have found: "f = Inr (List.find (\<lambda>v. uId v = k) (users w))" if "succeeds f"
    using look that by (auto simp: getUserById_def dbRead_def dbGate_def andThen_def split: list.splits if_splits)
  show ?thesis
  proof (cases "\<exists>u. f = Inr (Some u) \<and> uAuthSource u \<noteq> McpAuth \<and> \<not> (actorIsMcp actor \<and> uRole u = UserRole SuperAdmin)")
    case False
    then have "w' = w1" using assms look by (auto simp: deleteUser_def andThen_def split: sum.splits option.splits if_splits)
    then show ?thesis using t1 by simp
  next
    case True
    then obtain u where u: "f = Inr (Some u)" "uAuthSource u \<noteq> McpAuth" "\<not> (actorIsMcp actor \<and> uRole u = UserRole SuperAdmin)" by blast
    then have "deleteUserRow k w1 = (r, w')" using assms look by (auto simp: deleteUser_def split: if_splits)
    then have "users w' = users w1 \<or> users w' = filter (\<lambda>v. uId v \<noteq> k) (users w1)"
      by (auto simp: deleteUserRow_def dbWrite_def dbGate_def andThen_def split: list.splits if_splits)
    then show ?thesis using t1 u found by auto
  qed
qed

text \<open>
  C38: an MCP client that acts through the account operations neither makes nor unmakes a super
  administrator, nor changes the account of one, whatever it asks for.
\<close>

theorem mcp_never_touches_super_admins:
  assumes "distinct (map uId (users w))" and "auRole a = McpRole"
  shows "superAdmins (after (createUser P n em pw ro src su corr (Some a)) w) = superAdmins w \<and>
    superAdmins (after (updateUser P k em ro di pw corr (Some a)) w) = superAdmins w \<and>
    superAdmins (after (deleteUser k corr (Some a)) w) = superAdmins w"
proof -
  have mcp: "actorIsMcp (Some a)" using assms(2) by (simp add: actorIsMcp_def)
  have "superAdmins w' = superAdmins w" if "createUser P n em pw ro src su corr (Some a) w = (r, w')" for r w'
    using createUser_effect [OF that] mcp by (auto simp: superAdmins_def)
  moreover have "superAdmins w' = superAdmins w" if run: "updateUser P k em ro di pw corr (Some a) w = (r, w')" for r w'
  proof (cases "users w' = users w")
    case False
    then obtain u ph di' t where u: "List.find (\<lambda>v. uId v = k) (users w) = Some u" "uRole u \<noteq> UserRole SuperAdmin"
      "ro \<noteq> SuperAdmin" "users w' = map_user k (changed_row u em ro ph di' t) (users w)"
      using updateUser_effect [OF run] mcp by blast
    have k: "k = uId u" "u \<in> set (users w)" using find_Some_set [OF u(1)] by simp_all
    have "users w' = map (\<lambda>v. if v = u then changed_row u em ro ph di' t v else v) (users w)"
      unfolding u(4) k(1) by (rule map_user_row [OF assms(1) k(2)])
    then show ?thesis
      unfolding superAdmins_def using u(2,3) by (simp only:) (rule filter_map_other, simp_all add: changed_row_def)
  qed (simp add: superAdmins_def)
  moreover have "superAdmins w' = superAdmins w" if run: "deleteUser k corr (Some a) w = (r, w')" for r w'
  proof (cases "users w' = users w")
    case False
    then obtain u where u: "List.find (\<lambda>v. uId v = k) (users w) = Some u" "uRole u \<noteq> UserRole SuperAdmin"
      "users w' = filter (\<lambda>v. uId v \<noteq> k) (users w)"
      using deleteUser_effect [OF run] mcp by blast
    have "v = u" if "v \<in> set (users w)" "uId v = k" for v
      using find_distinct [OF assms(1) that(1) that(2)] u(1) by simp
    then show ?thesis unfolding superAdmins_def u(3) filter_filter using u(2) by (intro filter_cong) auto
  qed (simp add: superAdmins_def)
  ultimately show ?thesis unfolding after_def by (metis prod.collapse)
qed

definition sample_mcp_actor :: authenticated_user where
  "sample_mcp_actor = \<lparr>auId = ''mcp-system'', auUsername = ''mcp'', auEmail = None, auRole = McpRole,
    auAuthSource = McpAuth, auCapabilities = None, auDelegated = None\<rparr>"

theorem mcp_never_touches_super_admins_witness:
  "superAdmins (after (updateUser sample_platform ''u1'' None SuperAdmin False None None (Some sample_mcp_actor))
    (sample_accounts [sample_user\<lparr>uRole := UserRole SuperAdmin\<rparr>] [] [])) = [sample_user\<lparr>uRole := UserRole SuperAdmin\<rparr>]"
  using mcp_never_touches_super_admins [of "sample_accounts [sample_user\<lparr>uRole := UserRole SuperAdmin\<rparr>] [] []"
      sample_mcp_actor sample_platform "[]" None None SuperAdmin LocalAuth None None "''u1''" False]
  by (simp add: sample_accounts_def superAdmins_def sample_mcp_actor_def)

section \<open>Redirects\<close>

text \<open>
  With a base path, a login redirects only to a path below it on this server: to the dashboard or to
  a path that is or begins with the base path.
\<close>

theorem redirect_stays_below_base_path:
  assumes "cfBasePath (ldConfig L) \<noteq> []" and "cfBasePath (ldConfig L) \<noteq> ''/''"
  shows "startsWith (getSafePostLoginRedirectPath P L redirectTo) (cfBasePath (ldConfig L))"
proof -
  let ?b = "cfBasePath (ldConfig L)"
  have down: "startsWith (getDefaultPostLoginRedirectPath L) ?b"
    by (simp add: getDefaultPostLoginRedirectPath_def startsWith_append)
  have below: "startsWith (p @ q @ h) ?b" if "p = ?b \<or> startsWith p (?b @ ''/'')" for p q h
    using that by (auto simp: startsWith_append)
  show ?thesis
    unfolding getSafePostLoginRedirectPath_def Let_def
    using assms down below
    by (simp split: option.split)
qed

theorem redirect_stays_below_base_path_witness:
  "startsWith (getSafePostLoginRedirectPath sample_platform
    (sample_loaded\<lparr>ldConfig := sample_config\<lparr>cfBasePath := ''/mqtt''\<rparr>\<rparr>) (Some ''https://evil.example'')) ''/mqtt''"
  using redirect_stays_below_base_path [of "sample_loaded\<lparr>ldConfig := sample_config\<lparr>cfBasePath := ''/mqtt''\<rparr>\<rparr>"
      sample_platform "Some ''https://evil.example''"] by simp

section \<open>OpenID Connect\<close>

interpretation in_db_requests: world_frame auth_requests
  by unfold_locales simp_all

interpretation in_requests: auth_frame auth_requests
  by unfold_locales simp_all

lemma keeps_requests_tables: "keeps tables m \<Longrightarrow> keeps auth_requests m"
  by (auto simp: keeps_def along_def tables_def)

lemma keeps_requests_reads: "keeps auth_requests (getUserByUsername n)" "keeps auth_requests (getUserByExternalSubject n)"
  unfolding getUserByUsername_def getUserByExternalSubject_def by (rule keeps_dbRead, simp)+

lemma keeps_requests_create: "keeps auth_requests (createUser P n em pw ro src su corr actor)"
  unfolding createUser_def insertUser_def Let_def
  by (intro in_db_requests.fr_base keeps_requests_reads keeps_dbWrite) simp_all

lemma keeps_requests_sync: "keeps auth_requests (syncExternalAccount v src2 su em)"
  unfolding syncExternalAccount_def updateUserRow_def deleteSessionsForUser_def Let_def
  by (intro in_db_requests.fr_base keeps_dbWrite) simp_all

lemmas keeps_requests_accounts = keeps_requests_reads keeps_requests_create keeps_requests_sync

lemma keeps_requests_reconcile: "keeps auth_requests (reconcileExternalUser P L su n em corr)"
  unfolding reconcileExternalUser_def Let_def by (intro keeps_intros keeps_requests_accounts)

lemma keeps_requests_session: "keeps auth_requests (createSessionForUser P L v am ip ua corr)"
  unfolding createSessionForUser_def insertSession_def Let_def
  by (intro in_db_requests.fr_base keeps_dbWrite keeps_requests_tables [OF keeps_tables_login_audit]
      keeps_requests_tables [OF keeps_tables_log(3)]) simp_all

text \<open>
  A login through OpenID Connect uses up its state: one that succeeds found the state it was begun
  with, and afterwards the state is gone, so the same callback cannot be used again.
\<close>

theorem oidc_state_used_once:
  "case completeOidcLogin P V L u ip ua corr w of
     (Inr _, w') \<Rightarrow> (\<exists>st. search_param V u ''state'' = Some st \<and> st \<noteq> [] \<and> st \<in> arState ` set (auth_requests w) \<and>
        st \<notin> arState ` set (auth_requests w'))
   | (Inl _, _) \<Rightarrow> True"
proof (cases "completeOidcLogin P V L u ip ua corr w")
  case (Pair res w')
  show ?thesis
  proof (cases res)
    case (Inl e)
    then show ?thesis using Pair by simp
  next
    case (Inr x)
    let ?st = "case search_param V u ''state'' of Some s \<Rightarrow> s | None \<Rightarrow> []"
    have "oidcLoginBody P V L u ip ua corr w = (Inr x, w')"
      using Pair Inr by (auto simp: completeOidcLogin_def Let_def catching_def andThen_def split: prod.splits sum.splits)
    then obtain c secret w1 q w2 y w3 n w4 v w5 where
      r1: "getAuthRequest ?st w = (Inr (Some q), w1)" and st: "?st \<noteq> []"
      and r2: "deleteAuthRequest ?st w1 = (Inr (), w2)"
      and r3: "exchangeOidcCallback P V c secret (getOidcRedirectUri L) u ?st (arCodeVerifier q) corr w2 = (Inr y, w3)"
      and r4: "reconcileExternalUser P L (claimSubject y) n (claimEmail c y) corr w3 = (Inr v, w4)"
      and r5: "createSessionForUser P L v OidcAuth ip ua corr w4 = (Inr (fst x), w')"
      unfolding oidcLoginBody_def Let_def
      by (auto elim!: andThen_eq_InrE split: option.splits if_splits)
    have "q \<in> set (auth_requests w)" "arState q = ?st"
      using r1 by (auto simp: getAuthRequest_def dbRead_def dbGate_def andThen_def dest!: find_Some_set split: list.splits if_splits)
    then have "?st \<in> arState ` set (auth_requests w)" by (metis imageI)
    moreover have "?st \<notin> arState ` set (auth_requests w2)"
      using r2 by (auto simp: deleteAuthRequest_def dest!: dbWrite_InrD)
    then have "?st \<notin> arState ` set (auth_requests w')"
      using keepsD [OF in_requests.fr_exchange r3] keepsD [OF keeps_requests_reconcile r4] keepsD [OF keeps_requests_session r5]
      by simp
    ultimately show ?thesis using Pair Inr st by (auto split: option.splits)
  qed
qed

end
