(* ===== verification/ApiSafety.thy ===== *)
theory ApiSafety
  imports Api AuthSafety
begin

text \<open>
  What the HTTP API promises as a whole, over every route: a request without the capability of its
  route, or from another origin, changes nothing but the log; only some routes can change a table;
  and every change that is answered with success has left exactly one entry in the audit log.
  The frames come first: what of the world each operation of the services leaves alone.
\<close>

section \<open>The gate\<close>

lemma handled_refuses:
  "handled ev (andThen (liftR (Inl e)) f) w = (Inr (errorReply e), w\<lparr>logs := logs w @ [apiErrorEvent ev e]\<rparr>)"
  by (simp add: handled_def handleApiError_def)

lemma requireMqtt_refuses:
  "guardMqtt A ev b = Inl e \<Longrightarrow> andThen (requireMqttSessionUser A ev b) f = raise e"
  by (simp add: requireMqttSessionUser_def fun_eq_iff)

lemma handled_raise: "handled ev (raise e) w = (Inr (errorReply e), w\<lparr>logs := logs w @ [apiErrorEvent ev e]\<rparr>)"
  by (simp add: handled_def handleApiError_def)

lemmas route_defs = getAuditRoute_def getKeyFilesRoute_def getKeyFileRoute_def pullConfigRoute_def pushConfigRoute_def
  reloadRoute_def restartRoute_def getDashboardRoute_def getDiagnosticsRoute_def getMcpAccessRoute_def
  patchMcpAccessRoute_def getUsersRoute_def postUserRoute_def patchUserRoute_def deleteUserRoute_def
  exportSnapshotRoute_def importSnapshotRoute_def getClientsRoute_def postClientRoute_def getClientRoute_def
  patchClientRoute_def deleteClientRoute_def getGroupsRoute_def postGroupRoute_def patchGroupRoute_def
  deleteGroupRoute_def getRolesRoute_def postRoleRoute_def patchRoleRoute_def deleteRoleRoute_def
  getClientDefaultsRoute_def patchClientDefaultsRoute_def

lemmas mqtt_route_defs = getMqttStateRoute_def postConnectRoute_def postDisconnectRoute_def postMessagesRoute_def
  postPublishRoute_def postSubscribeRoute_def postUnsubscribeRoute_def getEventsRoute_def

text \<open>Whatever the route: the guard's error is the answer, and the request is over.\<close>

lemma route_refuses:
  assumes "routeGuard A r ev = Inl e"
  shows "handleRoute A r ev w = (Inr (errorReply e), w\<lparr>logs := logs w @ [apiErrorEvent ev e]\<rparr>)"
  using assms
  by (cases r) (simp_all add: routeGuard_def changes_def route_defs mqtt_route_defs reading_def mutating_def
      handled_refuses requireMqtt_refuses guardMqtt_def handled_raise)


section \<open>Frames\<close>

lemma keeps_alongside: "keeps g m \<Longrightarrow> keeps g n \<Longrightarrow> keeps g (alongside m n)"
  unfolding alongside_def by (rule keepsI) (auto split: prod.splits, metis keepsD)

lemma keeps_gatherAll: "(\<And>m. m \<in> set ms \<Longrightarrow> keeps g m) \<Longrightarrow> keeps g (gatherAll ms)"
proof (induction ms)
  case Nil
  then show ?case by (intro keepsI) simp
next
  case (Cons m ms)
  then have "keeps g m" "keeps g (gatherAll ms)" by simp_all
  then show ?case by (intro keepsI) (auto split: prod.splits, metis keepsD)
qed

lemma keeps_ensuring: "keeps g m \<Longrightarrow> keeps g f \<Longrightarrow> keeps g (ensuring m f)"
  unfolding ensuring_def by (rule keepsI) (auto split: prod.splits sum.splits, (metis keepsD)+)

lemma keeps_both: "keeps g m \<Longrightarrow> keeps g n \<Longrightarrow> keeps g (bothOf m n)"
  unfolding bothOf_def by (rule keepsI) (auto split: prod.splits, metis keepsD)

lemma keeps_succeeded: "keeps g m \<Longrightarrow> keeps g (succeeded m)"
  unfolding succeeded_def by (intro keeps_intros)

lemma keeps_handled: "keeps g body \<Longrightarrow> (\<And>w l. g (w\<lparr>logs := l\<rparr>) = g w) \<Longrightarrow> keeps g (handled ev body)"
  unfolding handled_def handleApiError_def by (intro keeps_intros keeps_emit) auto

lemma keeps_prod: "(\<And>x y. v = (x, y) \<Longrightarrow> keeps g (f x y)) \<Longrightarrow> keeps g (case v of (x, y) \<Rightarrow> f x y)"
  by (cases v) simp

lemma keeps_jsval:
  "keeps g a \<Longrightarrow> keeps g b \<Longrightarrow> (\<And>x. keeps g (c x)) \<Longrightarrow> (\<And>x. keeps g (d x)) \<Longrightarrow> (\<And>x. keeps g (e x)) \<Longrightarrow>
    (\<And>x. keeps g (f x)) \<Longrightarrow> (\<And>x. keeps g (h x)) \<Longrightarrow> keeps g (case_jsval a b c d e f h v)"
  by (cases v) simp_all

lemma keeps_list: "keeps g a \<Longrightarrow> (\<And>x xs. keeps g (f x xs)) \<Longrightarrow> keeps g (case_list a f v)"
  by (cases v) simp_all

lemma keeps_topics: "keeps g a \<Longrightarrow> (\<And>l. keeps g (f l)) \<Longrightarrow> keeps g (case_topics_update a f v)"
  by (cases v) simp_all

lemma keeps_reading: "keeps g body \<Longrightarrow> (\<And>w l. g (w\<lparr>logs := l\<rparr>) = g w) \<Longrightarrow> keeps g (reading ev cap body)"
  unfolding reading_def by (intro keeps_handled keeps_intros)

lemma keeps_mutating: "keeps g body \<Longrightarrow> (\<And>w l. g (w\<lparr>logs := l\<rparr>) = g w) \<Longrightarrow> keeps g (mutating A ev cap body)"
  unfolding mutating_def by (intro keeps_handled keeps_intros)

lemmas keeps_routes = keeps_reading keeps_mutating keeps_handled keeps_topics

text \<open>The routes that can change the accounts (with their sessions) and the settings.\<close>

definition accountRoutes :: "api_route list" where
  "accountRoutes = [PostUser, PatchUser, DeleteUser, PatchMcpAccess]"

definition settingRoutes :: "api_route list" where
  "settingRoutes = [PatchClientDefaults, PostReload, PostRestart, PatchMcpAccess]"

text \<open>
  A part of the world that is not transient: logs, draws, the outside, database faults, the MQTT
  sessions, the cookies of a reply, the dashboard's snapshot, the MCP service's memory and the note
  of a provisioned role can change without it.
\<close>

locale lasting = world_frame part
  for part :: "('b, 'z) app_world_scheme \<Rightarrow> 'x" +
  assumes part_faults: "part (w\<lparr>dbFaults := d\<rparr>) = part w"
    and part_sessions: "part (w\<lparr>mqSessions := ss\<rparr>) = part w"
    and part_calls: "part (w\<lparr>mqCalls := cs\<rparr>) = part w"
    and part_msg_calls: "part (w\<lparr>mqMsgCalls := ms\<rparr>) = part w"
    and part_cookies: "part (w\<lparr>cookieJar := js\<rparr>) = part w"
    and part_dash: "part (w\<lparr>dashJson := j, dashSnapshot := sn, dashCalls := dc\<rparr>) = part w"
    and part_heartbeat: "part (w\<lparr>mcpHeartbeat := hb\<rparr>) = part w"
    and part_provisioned: "part (w\<lparr>provisionedAt := pa\<rparr>) = part w"
begin

lemma fr_read: "keeps part (dbRead st ps f)"
  by (rule keeps_dbRead) (rule part_faults)

lemma fr_write: "(\<And>w. part (f w) = part w) \<Longrightarrow> keeps part (dbWrite st ps v f)"
  by (rule keeps_dbWrite) (simp_all add: part_faults)

lemma fr_db_reads:
  "keeps part listAccounts" "keeps part (getSetting sc k)" "keeps part (getUserById i)" "keeps part getSystemUser"
  "keeps part (getUserByUsername u)" "keeps part getClientDefaults" "keeps part getAllowedCapabilities"
  "keeps part (listAuditEntries n)" "keeps part countAuditEntries" "keeps part (verifyAuditIntegrity P)"
  "keeps part (usersPart kind)"
  unfolding listAccounts_def getSetting_def getUserById_def getSystemUser_def getUserByUsername_def
    getClientDefaults_def getAllowedCapabilities_def listAuditEntries_def countAuditEntries_def
    verifyAuditIntegrity_def usersPart_def listUsers_def Let_def
  by (intro fr_base fr_read)+

lemma fr_dynsec_ops:
  "keeps part (deleteClient P L u corr)" "keeps part (setClientPassword P L u pw corr)"
  "keeps part (setClientEnabled P L u b corr)" "keeps part (assignClientRole P L u r p corr)"
  "keeps part (removeClientRole P L u r corr)" "keeps part (deleteGroup P L g corr)"
  "keeps part (addGroupClient P L g u p corr)" "keeps part (removeGroupClient P L g u corr)"
  "keeps part (addGroupRole P L g r p corr)" "keeps part (removeGroupRole P L g r corr)"
  "keeps part (removeRoleAcl P L r ty t corr)"
  unfolding deleteClient_def setClientPassword_def setClientEnabled_def assignClientRole_def removeClientRole_def
    deleteGroup_def addGroupClient_def removeGroupClient_def addGroupRole_def removeGroupRole_def removeRoleAcl_def
    Let_def
  by (intro fr_dynsec)+

lemma fr_dynsec_create:
  "keeps part (createGroup P L g corr)" "keeps part (addRoleAcls P L r tys t al p corr)"
  "keeps part (getEffectivePermissions P L u corr)"
  unfolding createGroup_def assertGroupNameAvailable_def addRoleAcls_def getEffectivePermissions_def Let_def
  by (intro fr_dynsec)+

lemma fr_broker_reads:
  "keeps part (readCurrentConfig P L corr)" "keeps part (readBrokerAgentRuntimeInfo P L corr)"
  "keeps part (readKeyFile P L k corr)" "keeps part (listKeyFiles P F L corr)" "keeps part (readHealth P L corr)"
  unfolding readCurrentConfig_def readCurrentBrokerConfig_def readBrokerAgentRuntimeInfo_def agentReadRuntime_def
    readKeyFile_def readManagedKeyFile_def listKeyFiles_def listManagedKeyFiles_def readHealth_def pathExists_def
  by (intro fr_base fr_agent keeps_gatherAll, auto intro!: fr_base fr_agent)+

lemma fr_broker_write: "keeps part (pushBrokerConfig P F L rendered expected actor corr)"
  unfolding pushBrokerConfig_def assertBrokerConfigMatchesExpected_def agentWriteBrokerConfig_def
    writeBrokerConfigLocally_def writeInPlace_def Let_def
  by (intro fr_base fr_agent fr_broker_reads keeps_ensuring keeps_jsval)

lemma fr_mcp_reads: "keeps part (getRuntimeInfo L)" "keeps part (getPublicKeyMetadata L)"
  "keeps part (assertPrincipalEnabled L corr)"
  unfolding getRuntimeInfo_def getPublicKeyMetadata_def assertPrincipalEnabled_def refuseProof_def Let_def
  by (intro fr_base fr_db_reads)+

lemma fr_access: "keeps part (getAccessState L)"
  unfolding getAccessState_def by (intro fr_base fr_db_reads fr_mcp_reads keeps_prod)

lemma fr_audit_reads: "keeps part (exportEntries P l build)" "keeps part (listEntries l)"
  unfolding exportEntries_def listEntries_def Let_def by (intro fr_base fr_db_reads)+

lemma fr_clear: "keeps part clearProvisioned"
  unfolding clearProvisioned_def by (intro fr_base part_provisioned)

lemma fr_dynsec_defaults:
  "keeps part (deleteRole P L r corr)" "keeps part (isConfiguredDefaultRoleMissing n st)"
  "keeps part (tryRollback P L u corr)"
  unfolding deleteRole_def isConfiguredDefaultRoleMissing_def tryRollback_def Let_def
  by (intro fr_dynsec fr_clear fr_dynsec_ops)+

lemma fr_createClient: "keeps part (createClient P L u pw cid off corr)"
  unfolding createClient_def applyDefaultRole_def
  by (intro fr_dynsec fr_clear fr_dynsec_ops fr_dynsec_defaults fr_db_reads)

lemma fr_updates: "keeps part (applyClientUpdate A u corr cu)" "keeps part (applyGroupUpdate A g corr gu)"
  "keeps part (applyRoleUpdate A r corr ru)"
  unfolding applyClientUpdate_def applyGroupUpdate_def applyRoleUpdate_def Let_def
  by (auto simp: fr_dynsec_ops intro!: fr_base fr_dynsec_create
      split: client_update.split group_update.split role_update.split)

subsection \<open>The MQTT explorer\<close>

lemma fr_session: "keeps part (setSession key f)" "keeps part (getOrCreateSession key)"
  unfolding setSession_def getOrCreateSession_def by (intro fr_base part_sessions)+

lemma fr_emitNow: "keeps part (emitNow P L key)"
  unfolding emitNow_def Let_def by (intro fr_base fr_session) (simp_all add: part_calls)

lemma fr_explorer:
  "keeps part (scheduleEmit P L key b)" "keeps part (setConnectionStatus key g)" "keeps part (setClient key c)"
  "keeps part (currentState P L key)" "keeps part (mqWarn ca m corr cx e)" "keeps part (mqInfo ca m corr cx)"
  "keeps part (waitForInitialConnect V cl corr)"
  unfolding scheduleEmit_def setConnectionStatus_def setClient_def currentState_def mqWarn_def mqInfo_def
    waitForInitialConnect_def
  by (auto split: initial_connect.split intro!: fr_base fr_session fr_emitNow)

lemma fr_disconnectClient: "keeps part (disconnectClient P V L key corr reason)"
  unfolding disconnectClient_def Let_def by (intro fr_base fr_session fr_explorer)

lemma fr_explorer_ops:
  "keeps part (mqttConnect P V L key ci corr)" "keeps part (mqttDisconnect P V L key corr reason)"
  "keeps part (mqttSubscribe P V L key tf q corr)" "keeps part (mqttUnsubscribe P V L key tf corr)"
  "keeps part (mqttPublish P V L key pin corr)" "keeps part (clearMessages P L key corr)"
  "keeps part (setTrackedTopicsLimit P L key n corr)" "keeps part (getExplorerState P L key)"
  unfolding mqttConnect_def mqttDisconnect_def mqttSubscribe_def mqttUnsubscribe_def mqttPublish_def
    clearMessages_def setTrackedTopicsLimit_def getExplorerState_def Let_def
  by (intro fr_base fr_session fr_explorer fr_disconnectClient)+

lemma fr_watch: "keeps part (watchSession P L key l ml)" "keeps part (unwatchSession key l ml corr)"
  unfolding watchSession_def unwatchSession_def Let_def
  by (auto simp: part_calls intro!: fr_base fr_session fr_explorer)

lemma fr_browser_session: "keeps part (requireMqttSessionUser A ev b)"
  unfolding requireMqttSessionUser_def ensureMqttBrowserSession_def
  by (intro fr_base keeps_list) (simp_all add: part_cookies)

subsection \<open>The dashboard\<close>

lemma fr_reachable: "keeps part (checkBrokerReachable A corr)"
  unfolding checkBrokerReachable_def tlsSocketOptions_def readIfSet_def Let_def
  by (intro fr_base fr_broker_reads keeps_alongside keeps_prod)

lemma fr_summary: "keeps part (getSummary A corr)"
  unfolding getSummary_def
  by (intro fr_base fr_reachable fr_readState fr_broker_reads fr_db_reads keeps_alongside keeps_succeeded keeps_prod)

lemma fr_snapshot: "keeps part (updateDashboardSnapshot d m)"
  unfolding updateDashboardSnapshot_def Let_def by (intro fr_base keeps_prod) (simp add: part_dash)

lemma fr_refresh: "keeps part (refreshDashboardSnapshot A corr)" "keeps part (refreshDashboardMcpRuntime A)"
  unfolding refreshDashboardSnapshot_def refreshDashboardMcpRuntime_def getLatestDashboardSnapshot_def
  by (intro fr_base fr_summary fr_mcp_reads fr_snapshot keeps_alongside keeps_prod)+

lemma fr_dashboard: "keeps part (loadDashboardPageData A corr user)" "keeps part (loadDashboardDiagnostics A corr)"
  unfolding loadDashboardPageData_def loadDashboardDiagnostics_def dynsecCounts_def Let_def
  by (intro fr_base fr_refresh fr_db_reads fr_readState keeps_alongside keeps_prod)+

lemma fr_heartbeat: "keeps part (recordHeartbeat hb)"
  unfolding recordHeartbeat_def by (intro fr_base) (simp add: part_heartbeat)

subsection \<open>The operations that write a table\<close>

lemma fr_settings:
  assumes "\<And>w s. part (w\<lparr>settings := s\<rparr>) = part w"
  shows "keeps part (setSetting sc k v t)" "keeps part (setClientDefaults v)" "keeps part (operateBroker P L oper corr)"
  using assms unfolding setClientDefaults_def operateBroker_def runOperationalCommand_def saveOperationStatus_def
    setSetting_def agentReloadBroker_def agentRestartBroker_def Let_def
  by (auto split: broker_operation.split list.split intro!: fr_base fr_agent fr_write)

lemma fr_broker:
  assumes "\<And>w s. part (w\<lparr>settings := s\<rparr>) = part w"
  shows "keeps part (reloadBroker P L corr)" "keeps part (restartBroker P L corr)"
  unfolding reloadBroker_def restartBroker_def by (intro fr_settings assms)+

lemma fr_users:
  assumes "\<And>w us. part (w\<lparr>users := us\<rparr>) = part w" and "\<And>w ss. part (w\<lparr>sessions := ss\<rparr>) = part w"
  shows "keeps part (createUser P n em pw ro src su corr actor)" "keeps part (updateUser P i em ro2 off pw corr actor)"
    "keeps part (deleteUser i corr actor)" "keeps part (updateUserRow i em pr am su pw off v t)"
  using assms unfolding createUser_def updateUser_def deleteUser_def insertUser_def updateUserRow_def deleteUserRow_def
    deleteSessionsForUser_def Let_def
  by (auto intro!: fr_base fr_write fr_db_reads)

lemma fr_setAccess:
  assumes "\<And>w us. part (w\<lparr>users := us\<rparr>) = part w" and "\<And>w s. part (w\<lparr>settings := s\<rparr>) = part w"
    and "\<And>w ss. part (w\<lparr>sessions := ss\<rparr>) = part w"
  shows "keeps part (setAccess L off cs)"
  unfolding setAccess_def deleteSessionsForUser_def Let_def
  by (intro fr_base keeps_both fr_users fr_settings fr_db_reads fr_write assms part_heartbeat)

lemma fr_export:
  assumes "\<And>w s. part (w\<lparr>snapshots := s\<rparr>) = part w"
  shows "keeps part (exportSnapshot P L b kind actor remark corr)"
  using assms unfolding exportSnapshot_def dynsecPart_def configPart_def insertSnapshot_def Let_def
  by (auto intro!: fr_base fr_write fr_db_reads fr_readState fr_broker_reads)

lemma fr_import: "keeps part (applyImport P F L payload actor corr)"
  unfolding applyImport_def by (intro fr_base fr_broker_write keeps_jsval)

lemma fr_record:
  assumes "\<And>w l. part (w\<lparr>audit_log := l\<rparr>) = part w"
  shows "keeps part (recordBy A ev action ty tid bef aft res)"
  using assms unfolding recordBy_def auditRecord_def appendAudit_def latestAudit_def insertAudit_def
  by (auto intro!: fr_base fr_read fr_write)

lemma fr_job: "keeps part m \<Longrightarrow> keeps part (enqueueJob name m)"
  by (simp add: enqueueJob_def)

lemmas fr_services = fr_dynsec fr_dynsec_ops fr_dynsec_create fr_createClient fr_dynsec_defaults fr_updates
  fr_broker_reads fr_broker_write fr_mcp_reads fr_access fr_audit_reads fr_db_reads fr_explorer_ops fr_watch
  fr_browser_session fr_refresh fr_dashboard fr_heartbeat fr_import fr_job keeps_alongside keeps_prod

text \<open>Every route keeps the part, if the tables it writes are not in it.\<close>

lemma fr_route:
  assumes u: "r \<in> set accountRoutes \<Longrightarrow>
      (\<forall>w us. part (w\<lparr>users := us\<rparr>) = part w) \<and> (\<forall>w ss. part (w\<lparr>sessions := ss\<rparr>) = part w)"
    and s: "r \<in> set settingRoutes \<Longrightarrow> \<forall>w s. part (w\<lparr>settings := s\<rparr>) = part w"
    and x: "r = PostExport \<Longrightarrow> \<forall>w s. part (w\<lparr>snapshots := s\<rparr>) = part w"
    and l: "changes r \<Longrightarrow> \<forall>w l. part (w\<lparr>audit_log := l\<rparr>) = part w"
  shows "keeps part (handleRoute A r ev)"
  using assms
  by (cases r; simp add: accountRoutes_def settingRoutes_def changes_def;
      simp only: route_defs mqtt_route_defs getMeRoute_def postHeartbeatRoute_def Let_def;
      (intro keeps_routes fr_base fr_services fr_users fr_setAccess fr_settings fr_broker fr_export fr_record;
       simp add: part_logs))

end


text \<open>The tables, one by one and together.\<close>

definition all_tables :: "('b, 'z) db_world_scheme \<Rightarrow> user_row list \<times> session_row list \<times> auth_request_row list
    \<times> settings_table \<times> snapshot_row list \<times> audit_row list" where
  "all_tables w = (users w, sessions w, auth_requests w, settings w, snapshots w, audit_log w)"

interpretation on_all: lasting all_tables
  by unfold_locales (simp_all add: all_tables_def)

interpretation on_users: lasting users
  by unfold_locales simp_all

interpretation on_sessions: lasting sessions
  by unfold_locales simp_all

interpretation on_requests: lasting auth_requests
  by unfold_locales simp_all

interpretation on_settings: lasting settings
  by unfold_locales simp_all

interpretation on_snapshots: lasting snapshots
  by unfold_locales simp_all

interpretation on_log: lasting audit_log
  by unfold_locales simp_all

section \<open>What a route can change\<close>

lemma reading_route: "\<not> changes r \<Longrightarrow> keeps all_tables (handleRoute A r ev)"
  by (rule on_all.fr_route) (auto simp: changes_def accountRoutes_def settingRoutes_def)

lemma users_route: "r \<notin> set accountRoutes \<Longrightarrow> keeps users (handleRoute A r ev)"
  by (rule on_users.fr_route) simp_all

lemma sessions_route: "r \<notin> set accountRoutes \<Longrightarrow> keeps sessions (handleRoute A r ev)"
  by (rule on_sessions.fr_route) simp_all

lemma requests_route: "keeps auth_requests (handleRoute A r ev)"
  by (rule on_requests.fr_route) simp_all

lemma settings_route: "r \<notin> set settingRoutes \<Longrightarrow> keeps settings (handleRoute A r ev)"
  by (rule on_settings.fr_route) simp_all

lemma snapshots_route: "r \<noteq> PostExport \<Longrightarrow> keeps snapshots (handleRoute A r ev)"
  by (rule on_snapshots.fr_route) simp_all

lemma guard_capability:
  "routeGuard A r ev = Inr x \<Longrightarrow> routeCapability ev r = Some cap \<Longrightarrow> hasCapability (rqUser ev) cap"
  by (auto simp: routeGuard_def guardMutation_def requireCap_def split: if_splits sum.splits)

text \<open>A request whose route the user may not use changes nothing but the log.\<close>

lemma unauthorized_run:
  assumes "routeCapability ev r = Some cap" and "\<not> hasCapability (rqUser ev) cap"
    and "handleRoute A r ev w = (res, w')"
  shows "\<exists>e. w' = w\<lparr>logs := logs w @ [apiErrorEvent ev e]\<rparr>"
proof (cases "routeGuard A r ev")
  case (Inl e)
  then show ?thesis using route_refuses [OF Inl, of w] assms(3) by auto
next
  case (Inr x)
  then show ?thesis using guard_capability assms(1,2) by blast
qed


section \<open>Every success is in the audit log\<close>

definition entry_of :: "api_request \<Rightarrow> string set \<Rightarrow> audit_row \<Rightarrow> bool" where
  "entry_of ev actions row \<longleftrightarrow> aActorUsername row = map_option auUsername (rqUser ev) \<and>
    aActorUserId row = map_option auId (rqUser ev) \<and> aCorrelationId row = rqCorrelation ev \<and>
    aSourceIp row = getSourceIp ev \<and> aAction row \<in> actions \<and> aSuccess row"

text \<open>A run that returns has appended one entry; one that throws has appended at most one.\<close>

definition audited :: "(audit_row \<Rightarrow> bool) \<Rightarrow> (('b, 'z) app_world_scheme, exn, 'a) act \<Rightarrow> bool" where
  "audited Q m \<longleftrightarrow> (\<forall>w r w'. m w = (r, w') \<longrightarrow>
    (\<exists>row. Q row \<and> audit_log w' = audit_log w @ [row]) \<or> (\<not> succeeds r \<and> audit_log w' = audit_log w))"

lemma audited_pre:
  assumes "keeps audit_log m" and "\<And>x. audited Q (f x)"
  shows "audited Q (andThen m f)"
  unfolding audited_def
proof (intro allI impI)
  fix w r w'
  assume run: "andThen m f w = (r, w')"
  obtain r1 w1 where m: "m w = (r1, w1)" by fastforce
  have same: "audit_log w1 = audit_log w" by (rule keepsD [OF assms(1) m])
  show "(\<exists>row. Q row \<and> audit_log w' = audit_log w @ [row]) \<or> (\<not> succeeds r \<and> audit_log w' = audit_log w)"
  proof (cases r1)
    case (Inl e)
    then show ?thesis using run m same by (auto simp: andThen_def)
  next
    case (Inr x)
    then have "f x w1 = (r, w')" using run m by simp
    then show ?thesis using assms(2) [of x] same unfolding audited_def by metis
  qed
qed

lemma audited_post:
  assumes "audited Q m" and "\<And>x. keeps audit_log (f x)"
  shows "audited Q (andThen m f)"
  unfolding audited_def
proof (intro allI impI)
  fix w r w'
  assume run: "andThen m f w = (r, w')"
  obtain r1 w1 where m: "m w = (r1, w1)" by fastforce
  have first: "(\<exists>row. Q row \<and> audit_log w1 = audit_log w @ [row]) \<or> (\<not> succeeds r1 \<and> audit_log w1 = audit_log w)"
    using assms(1) m unfolding audited_def by blast
  show "(\<exists>row. Q row \<and> audit_log w' = audit_log w @ [row]) \<or> (\<not> succeeds r \<and> audit_log w' = audit_log w)"
  proof (cases r1)
    case (Inl e)
    then show ?thesis using run m first by (auto simp: andThen_def)
  next
    case (Inr x)
    then have "f x w1 = (r, w')" using run m by simp
    then have "audit_log w' = audit_log w1" by (rule keepsD [OF assms(2)])
    then show ?thesis using first Inr by simp
  qed
qed

lemma appendAudit_ok:
  "appendAudit P r w = (Inr (), w') \<Longrightarrow> audit_log w' = audit_log w @ [linkEntry P (latest_of (audit_log w)) r]"
  by (auto simp: appendAudit_def latestAudit_def latest_of_def insertAudit_def dbRead_def dbWrite_def dbGate_def
      andThen_def split: list.splits if_splits)

lemma auditRecord_ok:
  assumes "auditRecord P actor am ip corr action ty tid bef aft res success w = (Inr (), w')"
  shows "audit_log w' = audit_log w @ [linkEntry P (latest_of (audit_log w))
    (audit_entry actor am ip corr action ty tid bef aft res success (random_b64url P (draws w) 18)
      (toISOString (clock w)))]"
  using assms unfolding auditRecord_def createOpaqueToken_def
  by (elim andThen_eq_InrE) (auto dest!: appendAudit_ok)

lemma linkEntry_fields:
  "aActorUsername (linkEntry P l e) = aActorUsername e" "aActorUserId (linkEntry P l e) = aActorUserId e"
  "aCorrelationId (linkEntry P l e) = aCorrelationId e" "aSourceIp (linkEntry P l e) = aSourceIp e"
  "aAction (linkEntry P l e) = aAction e" "aSuccess (linkEntry P l e) = aSuccess e"
  by (simp_all add: linkEntry_def Let_def split: option.split)

lemma audited_record:
  assumes "action \<in> actions"
  shows "audited (entry_of ev actions) (recordBy A ev action ty tid bef aft res)"
  unfolding audited_def
proof (intro allI impI)
  fix w :: "('a, 'c) app_world_scheme" and r w'
  assume run: "recordBy A ev action ty tid bef aft res w = (r, w')"
  show "(\<exists>row. entry_of ev actions row \<and> audit_log w' = audit_log w @ [row]) \<or> (\<not> succeeds r \<and> audit_log w' = audit_log w)"
  proof (cases r)
    case (Inl e)
    then show ?thesis using auditRecord_log run unfolding recordBy_def by fastforce
  next
    case (Inr x)
    have "audit_log w' = audit_log w @ [linkEntry (appP A) (latest_of (audit_log w))
      (audit_entry (rqUser ev) (map_option (auth_method_str \<circ> auAuthSource) (rqUser ev)) (getSourceIp ev)
        (rqCorrelation ev) action ty tid bef aft res True (random_b64url (appP A) (draws w) 18)
        (toISOString (clock w)))]"
      by (rule auditRecord_ok) (use run Inr in \<open>simp add: recordBy_def\<close>)
    then show ?thesis using assms by (auto simp: entry_of_def linkEntry_fields audit_entry_def)
  qed
qed

lemma audited_then_record:
  "action \<in> actions \<Longrightarrow> (\<And>x. keeps audit_log (f x)) \<Longrightarrow>
    audited (entry_of ev actions) (andThen (recordBy A ev action ty tid bef aft res) f)"
  by (intro audited_post audited_record)

lemma audited_prod: "(\<And>x y. v = (x, y) \<Longrightarrow> audited Q (f x y)) \<Longrightarrow> audited Q (case v of (x, y) \<Rightarrow> f x y)"
  by (cases v) simp

text \<open>A handler answers errors with an error body, and its successes are in the log.\<close>

definition logs_success :: "(audit_row \<Rightarrow> bool) \<Rightarrow> ('b, 'z) handler \<Rightarrow> bool" where
  "logs_success Q h \<longleftrightarrow> (\<forall>w rep w' d. h w = (Inr rep, w') \<longrightarrow> rpBody rep = OkBody d \<longrightarrow>
    (\<exists>row. Q row \<and> audit_log w' = audit_log w @ [row]))"

lemma logs_handled:
  assumes "audited Q body"
  shows "logs_success Q (handled ev body)"
  unfolding logs_success_def
proof (intro allI impI)
  fix w rep w' d
  assume run: "handled ev body w = (Inr rep, w')" and ok: "rpBody rep = OkBody d"
  obtain r w1 where b: "body w = (r, w1)" by fastforce
  show "\<exists>row. Q row \<and> audit_log w' = audit_log w @ [row]"
  proof (cases r)
    case (Inl e)
    then show ?thesis using run ok b by (auto simp: handled_def handleApiError_def errorReply_def)
  next
    case (Inr x)
    then have "w1 = w'" using run b by (simp add: handled_def)
    then show ?thesis using assms b Inr unfolding audited_def by fastforce
  qed
qed

lemma logs_mutating: "audited Q body \<Longrightarrow> logs_success Q (mutating A ev cap body)"
  unfolding mutating_def by (intro logs_handled audited_pre keeps_intros)

lemma client_update_action_known: "''dynsec.client.'' @ client_update_action u \<in> set (routeActions PatchClient)"
  by (cases u) simp_all

lemma group_update_action_known: "''dynsec.group.'' @ group_update_action u \<in> set (routeActions PatchGroup)"
  by (cases u) simp_all

lemma role_update_action_known: "''dynsec.role.'' @ role_update_action u \<in> set (routeActions PatchRole)"
  by (cases u) simp_all

lemma topics_action_known: "topics_action u \<in> set (routeActions PostMessages)"
  by (cases u) simp_all

lemmas log_frames = on_log.fr_base on_log.fr_services on_log.fr_users on_log.fr_setAccess on_log.fr_settings
  on_log.fr_broker on_log.fr_export keeps_topics

lemma route_logs: "changes r \<Longrightarrow> logs_success (entry_of ev (set (routeActions r))) (handleRoute A r ev)"
  by (cases r; (simp add: changes_def; fail)?; simp only: handleRoute.simps route_defs mqtt_route_defs;
      (rule logs_mutating | rule logs_handled); intro audited_then_record audited_prod audited_pre;
      ((rule client_update_action_known group_update_action_known role_update_action_known topics_action_known)
        | (intro log_frames; simp; fail) | simp))


section \<open>A sample application\<close>

definition sample_app :: "sample_outside app" where
  "sample_app = \<lparr>appP = sample_platform, appL = sample_loaded,
    appF = \<lparr>fs_access = (\<lambda>f b. (Inr (), b)), fs_mkdir = (\<lambda>f b. (Inr (), b)), fs_rename = (\<lambda>f g b. (Inr (), b)),
      fs_open = (\<lambda>f m b. (Inr 0, b)), fs_write = (\<lambda>h t b. (Inr (), b)), fs_truncate = (\<lambda>h n b. (Inr (), b)),
      fs_sync = (\<lambda>h b. (Inr (), b)), fs_close = (\<lambda>h b. (Inr (), b)), err_code = (\<lambda>e. None)\<rparr>,
    appV = \<lparr>mq_connect = (\<lambda>c b. (Inr 0, b)), mq_first_event = (\<lambda>c b. (Inr InitialConnect, b)),
      mq_end = (\<lambda>c b. (Inr (), b)), mq_subscribe = (\<lambda>c t q b. (Inr (), b)), mq_unsubscribe = (\<lambda>c t b. (Inr (), b)),
      mq_publish = (\<lambda>c t m q r b. (Inr (), b)), utf8_decode = Some, base64_encode = (\<lambda>s. s)\<rparr>,
    appO = \<lparr>oidc_random_state = nat_str, oidc_random_verifier = nat_str, oidc_challenge = (\<lambda>v. v),
      oidc_authorization_url = (\<lambda>c ps. []), oidc_code_grant = (\<lambda>c a b d e w. (Inr \<lparr>otClaims = Null, otAccessToken = None\<rparr>, w)),
      oidc_user_info = (\<lambda>c a b w. (Inr Null, w)), error_own = (\<lambda>e. Null), url_set_search = (\<lambda>u s. s),
      search_param = (\<lambda>u k. None)\<rparr>,
    appZod = \<lparr>zodEmail = (\<lambda>s. True), zodDatetime = (\<lambda>s. True), zodIssues = (\<lambda>n v. Null)\<rparr>,
    appBuildLabel = ''1.0'', appIsIPv6 = (\<lambda>s. False), appV6Has = (\<lambda>t p a. False), appSocket = (\<lambda>opts b. (Inr SocketOpen, b))\<rparr>"

definition sample_actor :: "user_role \<Rightarrow> authenticated_user" where
  "sample_actor role = \<lparr>auId = ''u1'', auUsername = ''ada'', auEmail = None, auRole = UserRole role,
    auAuthSource = LocalAuth, auCapabilities = None, auDelegated = None\<rparr>"

definition sample_call :: "user_role \<Rightarrow> string option \<Rightarrow> string \<Rightarrow> api_request" where
  "sample_call role origin param = \<lparr>rqUser = Some (sample_actor role), rqCorrelation = ''c1'', rqOrigin = origin,
    rqAddress = Inr ''10.0.0.1'', rqUserAgent = None, rqJson = Inr Null, rqForm = (\<lambda>k. None), rqParam = param,
    rqUrl = \<lparr>urlHref = [], urlProtocol = ''https:'', urlOrigin = [], urlHost = [], urlHostname = [], urlPathname = [],
      urlSearch = [], urlHash = []\<rparr>,
    rqQuery = (\<lambda>k. None), rqCookie = (\<lambda>k. None)\<rparr>"

definition sample_app_world :: "process_exit list \<Rightarrow> sample_outside app_world" where
  "sample_app_world exits = \<lparr>clock = 1000, draws = 0, logs = [], outside = sample_start [] exits [], users = [], sessions = [],
    auth_requests = [], audit_log = [], settings = [], snapshots = [], dbFaults = [], provisionedAt = None, bootError = None,
    bootStatus = idleOperationStatus, oidcCache = None, mcpKey = None, mcpFingerprint = None, mcpHeartbeat = None,
    mcpReplay = [], mqSessions = [], mqCalls = [], mqMsgCalls = [], cookieJar = [], dashSnapshot = None, dashJson = None,
    dashListeners = [], dashCalls = []\<rparr>"

section \<open>Properties\<close>

text \<open>
  C5: whatever request it gets, the API changes accounts and sessions only for a user who may manage
  users or MCP, settings only for one who may manage security, the broker or MCP, and stored
  snapshots only for one who may manage snapshots; a route that only reads changes no table at all,
  the audit log included, and no route touches the OIDC requests under way.
\<close>

theorem api_least_privilege:
  "let w' = after (handleRoute A r ev) w in
    (users w' = users w \<and> sessions w' = sessions w \<or>
      hasCapability (rqUser ev) ManageUsers \<or> hasCapability (rqUser ev) ManageMcp) \<and>
    (settings w' = settings w \<or> hasCapability (rqUser ev) ManageSecurity \<or>
      hasCapability (rqUser ev) ManageBroker \<or> hasCapability (rqUser ev) ManageMcp) \<and>
    (snapshots w' = snapshots w \<or> hasCapability (rqUser ev) ManageSnapshots) \<and>
    auth_requests w' = auth_requests w \<and>
    (all_tables w' = all_tables w \<or> changes r)"
proof -
  have gate: "\<exists>e. after (handleRoute A r ev) w = w\<lparr>logs := logs w @ [apiErrorEvent ev e]\<rparr>"
    if "routeCapability ev r = Some cap" "\<not> hasCapability (rqUser ev) cap" for cap
    using unauthorized_run [OF that] unfolding after_def by (metis prod.collapse)
  have u: "users (after (handleRoute A r ev) w) = users w \<and> sessions (after (handleRoute A r ev) w) = sessions w \<or>
      hasCapability (rqUser ev) ManageUsers \<or> hasCapability (rqUser ev) ManageMcp"
  proof (cases "r \<in> set accountRoutes")
    case True
    then have "routeCapability ev r = Some ManageUsers \<or> routeCapability ev r = Some ManageMcp"
      by (auto simp: accountRoutes_def)
    then show ?thesis using gate by fastforce
  next
    case False
    then show ?thesis using users_route sessions_route keeps_after by metis
  qed
  have s: "settings (after (handleRoute A r ev) w) = settings w \<or> hasCapability (rqUser ev) ManageSecurity \<or>
      hasCapability (rqUser ev) ManageBroker \<or> hasCapability (rqUser ev) ManageMcp"
  proof (cases "r \<in> set settingRoutes")
    case True
    then have "routeCapability ev r \<in> {Some ManageSecurity, Some ManageBroker, Some ManageMcp}"
      by (auto simp: settingRoutes_def)
    then show ?thesis using gate by fastforce
  next
    case False
    then show ?thesis using settings_route keeps_after by metis
  qed
  have x: "snapshots (after (handleRoute A r ev) w) = snapshots w \<or> hasCapability (rqUser ev) ManageSnapshots"
    using gate [of ManageSnapshots] snapshots_route [THEN keeps_after, of r A ev w] by (cases "r = PostExport") auto
  show ?thesis
    using u s x keeps_after [OF requests_route] reading_route [THEN keeps_after] unfolding Let_def by blast
qed


text \<open>
  C7: a request that changes something and is answered with success has appended exactly one entry
  to the audit log: successful, with the route's action, the user's name and id, the source address
  and the correlation id of the request.
\<close>

theorem api_success_is_audited:
  assumes "changes r" and "handleRoute A r ev w = (Inr rep, w')" and "rpBody rep = OkBody d"
  shows "\<exists>row. audit_log w' = audit_log w @ [row] \<and> aActorUsername row = map_option auUsername (rqUser ev) \<and>
    aActorUserId row = map_option auId (rqUser ev) \<and> aCorrelationId row = rqCorrelation ev \<and>
    aSourceIp row = getSourceIp ev \<and> aAction row \<in> set (routeActions r) \<and> aSuccess row"
  using route_logs [OF assms(1)] assms(2,3) unfolding logs_success_def entry_of_def by blast



text \<open>An administrator deletes an account.\<close>

definition sample_user_world :: "sample_outside app_world" where
  "sample_user_world = (sample_app_world [])\<lparr>users := [sample_user\<lparr>uId := ''u2''\<rparr>]\<rparr>"

lemma sample_delete_ok:
  "\<exists>w'. handleRoute sample_app DeleteUser (sample_call SuperAdmin None ''u2'') sample_user_world =
    (Inr (okReply DeletedData 200), w')"
  by (simp add: deleteUserRoute_def mutating_def handled_def guardMutation_def requireSameOrigin_def nonblank_def
      requireCap_def requireCapability_def hasCapability_def sample_call_def sample_actor_def deleteUser_def
      getUserById_def deleteUserRow_def sample_user_world_def sample_app_world_def sample_user_def dbRead_def
      dbWrite_def dbGate_def recordBy_def auditRecord_def createOpaqueToken_def appendAudit_def latestAudit_def
      insertAudit_def actorIsMcp_def now_def emit_def liftR_def getSourceIp_def modify_def gets_def catching_def
      andThen_def audit_entry_def linkEntry_def)

theorem api_success_is_audited_witness:
  "\<exists>row (w' :: sample_outside app_world). audit_log w' = audit_log sample_user_world @ [row] \<and>
    aActorUsername row = Some ''ada'' \<and> aAction row = ''user.delete'' \<and> aSuccess row"
proof -
  let ?ev = "sample_call SuperAdmin None ''u2''"
  obtain w' where run: "handleRoute sample_app DeleteUser ?ev sample_user_world = (Inr (okReply DeletedData 200), w')"
    using sample_delete_ok by blast
  have ok: "rpBody (okReply DeletedData 200 :: api_data reply) = OkBody DeletedData" by (simp add: okReply_def)
  have "changes DeleteUser" by (simp add: changes_def)
  from api_success_is_audited [OF this run ok] obtain row where
    row: "audit_log w' = audit_log sample_user_world @ [row]" "aActorUsername row = map_option auUsername (rqUser ?ev)"
      "aAction row \<in> set (routeActions DeleteUser)" "aSuccess row" by blast
  show ?thesis
    by (rule exI [of _ row], rule exI [of _ w']) (use row in \<open>simp add: sample_call_def sample_actor_def\<close>)
qed

end
