(* ===== verification/JobQueue.thy ===== *)
theory JobQueue
  imports Prelude
begin

text \<open>
  \<open>server/jobs/queue.ts\<close>: the queue that runs the broker's operations one after the other. A job is an
  action of the state; \<open>enqueue\<close> puts it behind all earlier ones, and it starts when they have
  settled, whether they succeeded or failed. While a job runs, calls can still enqueue others.
  \<^item> \<open>jqWaiting\<close>: the jobs not started, by number, in the order of their \<open>enqueue\<close>;
  \<^item> \<open>jqRunning\<close>: the job whose promise is pending;
  \<^item> \<open>jqSettled\<close>: the settled jobs and their outcomes, in order; \<open>jqState\<close>: the state they left.
\<close>

type_synonym ('s, 'e, 'a) job = "nat \<times> ('s, 'e, 'a) act"

record ('s, 'e, 'a) job_queue =
  jqWaiting :: "('s, 'e, 'a) job list"
  jqRunning :: "('s, 'e, 'a) job option"
  jqSettled :: "(nat \<times> ('e + 'a)) list"
  jqState :: 's

definition emptyQueue :: "'s \<Rightarrow> ('s, 'e, 'a) job_queue" where
  "emptyQueue s = \<lparr>jqWaiting = [], jqRunning = None, jqSettled = [], jqState = s\<rparr>"

definition enqueue :: "('s, 'e, 'a) job \<Rightarrow> ('s, 'e, 'a) job_queue \<Rightarrow> ('s, 'e, 'a) job_queue" where
  "enqueue j q = q\<lparr>jqWaiting := jqWaiting q @ [j]\<rparr>"

text \<open>\<open>idle\<close> returns when nothing waits and nothing runs.\<close>

definition idle :: "('s, 'e, 'a) job_queue \<Rightarrow> bool" where
  "idle q = (jqWaiting q = [] \<and> jqRunning q = None)"

text \<open>A step of the queue's own: the next job starts, or the running one settles.\<close>

inductive job_step :: "('s, 'e, 'a) job_queue \<Rightarrow> ('s, 'e, 'a) job_queue \<Rightarrow> bool" where
  start: "jqRunning q = None \<Longrightarrow> jqWaiting q = j # rest \<Longrightarrow>
    job_step q (q\<lparr>jqWaiting := rest, jqRunning := Some j\<rparr>)"
| settle: "jqRunning q = Some (n, job) \<Longrightarrow> job (jqState q) = (r, s') \<Longrightarrow>
    job_step q (q\<lparr>jqRunning := None, jqSettled := jqSettled q @ [(n, r)], jqState := s'\<rparr>)"

text \<open>The queues that calls and steps can make of the empty one, with all the jobs enqueued so far.\<close>

inductive job_run :: "'s \<Rightarrow> ('s, 'e, 'a) job list \<Rightarrow> ('s, 'e, 'a) job_queue \<Rightarrow> bool" for s0 where
  none: "job_run s0 [] (emptyQueue s0)"
| call: "job_run s0 jobs q \<Longrightarrow> job_run s0 (jobs @ [j]) (enqueue j q)"
| work: "job_run s0 jobs q \<Longrightarrow> job_step q q' \<Longrightarrow> job_run s0 jobs q'"

text \<open>The specification: the jobs run alone, one after the other, in the order of their calls.\<close>

fun runJobs :: "('s, 'e, 'a) job list \<Rightarrow> 's \<Rightarrow> (nat \<times> ('e + 'a)) list \<times> 's" where
  "runJobs [] s = ([], s)"
| "runJobs ((n, job) # jobs) s =
    (case job s of (r, s') \<Rightarrow> (case runJobs jobs s' of (rs, s'') \<Rightarrow> ((n, r) # rs, s'')))"

lemma runJobs_snoc:
  "runJobs jobs s = (rs, s') \<Longrightarrow> job s' = (r, s'') \<Longrightarrow> runJobs (jobs @ [(n, job)]) s = (rs @ [(n, r)], s'')"
  by (induction jobs s arbitrary: rs rule: runJobs.induct) (auto split: prod.splits)

definition pending :: "('s, 'e, 'a) job_queue \<Rightarrow> ('s, 'e, 'a) job list" where
  "pending q = (case jqRunning q of None \<Rightarrow> [] | Some j \<Rightarrow> [j]) @ jqWaiting q"

lemma job_run_spec:
  "job_run s0 jobs q \<Longrightarrow> \<exists>settled. jobs = settled @ pending q \<and> runJobs settled s0 = (jqSettled q, jqState q)"
proof (induction rule: job_run.induct)
  case none
  then show ?case by (simp add: emptyQueue_def pending_def)
next
  case (call jobs q j)
  then show ?case by (auto simp: enqueue_def pending_def)
next
  case (work jobs q q')
  then obtain settled where h: "jobs = settled @ pending q" "runJobs settled s0 = (jqSettled q, jqState q)" by blast
  from work.hyps(2) show ?case
  proof (cases rule: job_step.cases)
    case (start j rest)
    then show ?thesis using h by (auto simp: pending_def)
  next
    case (settle n job r s')
    then have "runJobs (settled @ [(n, job)]) s0 = (jqSettled q', jqState q')"
      using runJobs_snoc [OF h(2)] by simp
    then show ?thesis using h(1) settle by (auto simp: pending_def)
  qed
qed



end
