(* ===== verification/Pages.thy ===== *)
theory Pages
  imports ApiAdmin ApiMqtt
begin

text \<open>
  The server side of the pages: the \<open>load\<close> functions under \<open>fe/routes/(app)\<close> and the sign-in routes
  under \<open>fe/routes/auth\<close>. A load returns data, or throws a redirect or an error of SvelteKit, or
  another error. SvelteKit runs the load of a layout and of its page side by side, and a client that
  asks for the data of one page alone can leave the layout's load out: a page is protected by its own
  load only.
\<close>

datatype 'd page = PageData 'd | Redirect int string | PageFailure page_error | ActionFailure int "(string \<times> string) list"

text \<open>\<open>encodeURIComponent\<close>: the UTF-8 bytes outside the unreserved characters, in upper-case hexadecimal.\<close>

definition uri_unreserved :: "char \<Rightarrow> bool" where
  "uri_unreserved c = (is_digit c \<or> is_letter c \<or> c \<in> set ''-_.!~*()'' \<or> (of_char c :: nat) = 39)"

definition percent_byte :: "char \<Rightarrow> string" where
  "percent_byte c = (let n = (of_char c :: nat) in
     CHR ''%'' # map (\<lambda>d. upper_char (hex_digit d)) [n div 16, n mod 16])"

definition encodeURIComponent :: "string \<Rightarrow> string" where
  "encodeURIComponent s = concat (map (\<lambda>c. if uri_unreserved c then [c] else concat (map percent_byte (utf8_bytes [c]))) s)"

section \<open>Layouts\<close>

definition rootPage :: "'b app \<Rightarrow> api_request \<Rightarrow> 'd page" where
  "rootPage A ev = Redirect 303 (cfBasePath (appConfig A) @
    (if rqUser ev \<noteq> None then ''/dashboard'' else ''/auth/login''))"

record root_layout =
  rlApiBasePath :: string
  rlUser :: "authenticated_user option"
  rlCorrelation :: string
  rlThemeDark :: bool
  rlFont :: string
  rlOverrideCss :: bool

definition rootLayout :: "'b app \<Rightarrow> api_request \<Rightarrow> root_layout" where
  "rootLayout A ev = \<lparr>rlApiBasePath = getHttpApiClientBasePath (appL A), rlUser = rqUser ev,
    rlCorrelation = rqCorrelation ev, rlThemeDark = uiThemeDark (cfUi (appConfig A)),
    rlFont = uiDefaultFont (cfUi (appConfig A)), rlOverrideCss = nonblank (ldUiOverrideCssPath (appL A))\<rparr>"

record app_layout =
  alUser :: authenticated_user
  alBasePath :: string
  alNavItems :: "(string \<times> string) list"
  alBuildLabel :: string

definition appLayout :: "'b app \<Rightarrow> api_request \<Rightarrow> app_layout page" where
  "appLayout A ev =
    (case rqUser ev of
       None \<Rightarrow> Redirect 303 (cfBasePath (appConfig A) @ ''/auth/login?redirectTo='' @
         encodeURIComponent (urlPathname (rqUrl ev) @ urlSearch (rqUrl ev)))
     | Some u \<Rightarrow> PageData \<lparr>alUser = u, alBasePath = cfBasePath (appConfig A), alNavItems = buildAppNavItems (rqUser ev),
         alBuildLabel = appBuildLabel A\<rparr>)"

definition guardedPage ::
  "api_request \<Rightarrow> capability \<Rightarrow> ('s, exn, 'd page) act \<Rightarrow> ('s, exn, 'd page) act" where
  "guardedPage ev cap body =
    (case requirePageCapability (rqUser ev) cap (Some (rqCorrelation ev)) of
       Inl e \<Rightarrow> ret (PageFailure e) | Inr _ \<Rightarrow> body)"

section \<open>Users, audit log, snapshots\<close>

record users_page =
  upUsers :: "user_row list"
  upCanManageMcp :: bool
  upMcpConfigured :: bool
  upMcpAccess :: "mcp_access_state option"

definition usersPage :: "'b app \<Rightarrow> api_request \<Rightarrow> ('b, 'z, users_page page) appio" where
  "usersPage A ev = guardedPage ev ManageUsers
    (let canManageMcp = hasCapability (rqUser ev) ManageMcp; configured = mcpConfigured (appL A) in
     andThen listAccounts (\<lambda>us.
     andThen (if canManageMcp \<and> configured then andThen (getAccessState (appL A)) (\<lambda>a. ret (Some a)) else ret None) (\<lambda>acc.
     ret (PageData \<lparr>upUsers = us, upCanManageMcp = canManageMcp, upMcpConfigured = configured, upMcpAccess = acc\<rparr>))))"

record audit_view =
  avPage :: audit_page
  avLimitOptions :: "(string \<times> audit_limit) list"
  avExportUrl :: string

definition auditPage :: "'b app \<Rightarrow> api_request \<Rightarrow> ('b, 'z, audit_view page) appio" where
  "auditPage A ev = guardedPage ev ViewAudit
    (let limit = parseAuditEntryLimitValue (rqQuery ev ''limit'') in
     andThen (listEntries limit) (\<lambda>p.
     ret (PageData \<lparr>avPage = p, avLimitOptions = auditEntryLimitOptions,
       avExportUrl = getHttpApiClientBasePath (appL A) @ ''/audit?limit='' @ audit_limit_str limit @ ''&download=1''\<rparr>)))"

definition snapshotsPage :: "api_request \<Rightarrow> ('b, 'z, snapshot_row list page) appio" where
  "snapshotsPage ev = guardedPage ev ManageSnapshots (andThen listSnapshots (\<lambda>ss. ret (PageData ss)))"

section \<open>Configuration and dashboard\<close>

record config_page =
  cgCanManageBroker :: bool
  cgText :: jsval
  cgLoadError :: "string option"

definition configPage :: "'b app \<Rightarrow> api_request \<Rightarrow> ('b, 'z, config_page page) appio" where
  "configPage A ev =
    (let can = hasCapability (rqUser ev) ManageBroker in
     andThen (if can then
         catching (andThen (readCurrentConfig (appP A) (appL A) (rqCorr ev)) (\<lambda>t. ret (t, None)))
           (\<lambda>e. ret (Str [], Some (messageOr ''Failed reading broker config.'' e)))
       else ret (Str [], None)) (\<lambda>(t, err).
     ret (PageData \<lparr>cgCanManageBroker = can, cgText = t, cgLoadError = err\<rparr>)))"

definition dashboardPage :: "'b app \<Rightarrow> api_request \<Rightarrow> ('b, 'z, dashboard_page page) appio" where
  "dashboardPage A ev = andThen (loadDashboardPageData A (rqCorr ev) (rqUser ev)) (\<lambda>d. ret (PageData d))"

text \<open>The style sheet of the instance, for everybody.\<close>

definition instanceCss :: "'b app \<Rightarrow> (('b, 'z) base_world_scheme, 'd reply) io" where
  "instanceCss A =
    (let absent = \<lparr>rpStatus = 404, rpBody = EmptyReply, rpHeaders = []\<rparr> in
     if \<not> nonblank (ldUiOverrideCssPath (appL A)) then ret absent
     else catching
       (andThen (callOut (read_file (appP A) (the (ldUiOverrideCssPath (appL A))))) (\<lambda>css.
        ret \<lparr>rpStatus = 200, rpBody = TextReply css,
             rpHeaders = [(''content-type'', ''text/css; charset=utf-8''), (''cache-control'', ''no-cache'')]\<rparr>))
       (\<lambda>_. ret absent))"

section \<open>Dynamic security\<close>

text \<open>\<open>Object.entries\<close> of a parsed JSON value.\<close>

definition objectEntries :: "jsval \<Rightarrow> exn + (string \<times> jsval) list" where
  "objectEntries v =
    (case v of
       Obj kvs \<Rightarrow> Inr kvs
     | Arr vs \<Rightarrow> Inr (zip (map nat_str [0..<length vs]) vs)
     | Str s \<Rightarrow> Inr (zip (map nat_str [0..<length s]) (map (\<lambda>c. Str [c]) s))
     | Bool _ \<Rightarrow> Inr [] | Num _ \<Rightarrow> Inr []
     | _ \<Rightarrow> Inl (typeError ''Cannot convert undefined or null to object''))"

definition stringEntries :: "(string \<times> jsval) list \<Rightarrow> (string \<times> string) list" where
  "stringEntries kvs = List.map_filter (\<lambda>(k, v). map_option (\<lambda>s. (k, s)) (str_of v)) kvs"

text \<open>The bundled language, a static table of the front end, is the argument \<open>bundled\<close>.\<close>

definition loadDynsecLanguage ::
  "'b app \<Rightarrow> (string \<times> string) list \<Rightarrow> string option \<Rightarrow> string \<Rightarrow> (('b, 'z) base_world_scheme, (string \<times> string) list) io" where
  "loadDynsecLanguage A bundled filePath corr =
    (if \<not> nonblank filePath then ret bundled
     else catching
       (andThen (callOut (read_file (appP A) (the filePath))) (\<lambda>text.
        andThen (liftR (jsonParse text)) (\<lambda>parsed.
        andThen (liftR (objectEntries parsed)) (\<lambda>entries.
        ret (fold (\<lambda>(k, s). AList.update k s) (stringEntries entries) bundled)))))
       (\<lambda>e. andThen (emit ((logEvent LogWarn ''dynsec::loadLanguage''
           (''Failed loading DynSec language file at '' @ the filePath @ ''. Falling back to bundled language.'')
           (Some corr) Undef)\<lparr>evRootCause := Some e\<rparr>)) (\<lambda>_. ret bundled)))"

record dynsec_page =
  dyState :: dynsec_state
  dySelectedClient :: "string option"
  dySelectedGroup :: "string option"
  dySelectedRole :: "string option"
  dyLanguage :: "(string \<times> string) list"
  dyEffective :: "effective_view option"
  dyShowPriorities :: bool
  dyClientDefaults :: client_defaults
  dyDefaultRoleMissing :: bool
  dyShowMissingWarning :: bool
  dyBootError :: "boot_error option"
  dyBootStatus :: operation_status

definition selectedName :: "string option \<Rightarrow> string list \<Rightarrow> string option" where
  "selectedName requested names = (if nonblank requested \<and> the requested \<in> set names then requested else None)"

definition dynsecPage ::
  "'b app \<Rightarrow> (string \<times> string) list \<Rightarrow> api_request \<Rightarrow> ('b, 'z, dynsec_page page) appio" where
  "dynsecPage A bundled ev =
    andThen (readState (appP A) (appL A) (rqCorr ev)) (\<lambda>st.
    andThen getClientDefaults (\<lambda>defaults.
    andThen (loadDynsecLanguage A bundled (uiLanguageFilePath (cfUi (appConfig A))) (rqCorrelation ev)) (\<lambda>language.
    (let client = selectedName (rqQuery ev ''client'') (map dcUsername (dsClients st));
         grp = selectedName (rqQuery ev ''group'') (map dgGroupname (dsGroups st));
         role = selectedName (rqQuery ev ''role'') (map drRolename (dsRoles st)) in
     andThen (case client of
         None \<Rightarrow> ret None
       | Some c \<Rightarrow> catching (andThen (getEffectivePermissions (appP A) (appL A) c (rqCorr ev)) (\<lambda>v. ret (Some v)))
           (\<lambda>_. ret None)) (\<lambda>effective.
     andThen (isConfiguredDefaultRoleMissing (cdRoleName defaults) st) (\<lambda>missing.
     andThen (gets (\<lambda>w. (bootError w, bootStatus w))) (\<lambda>(err, boot).
     ret (PageData \<lparr>dyState = st, dySelectedClient = client, dySelectedGroup = grp, dySelectedRole = role,
       dyLanguage = language, dyEffective = effective,
       dyShowPriorities = uiShowAssignmentPriorities (cfUi (appConfig A)), dyClientDefaults = defaults,
       dyDefaultRoleMissing = missing,
       dyShowMissingWarning = (missing \<and> \<not> (cdRoleName defaults \<in> {Some bootstrapDefaultRoleName, Some legacyBootstrapRoleName}
         \<and> opState boot \<noteq> OpIdle)),
       dyBootError = err, dyBootStatus = boot\<rparr>))))))))"

section \<open>MQTT explorer\<close>

record access_preview =
  apFilters :: "(string \<times> string \<times> rat) list"
  apWarnings :: "string list"

text \<open>The page has its own copy of the service's resolution of ACLs.\<close>

definition pageTakeAcl :: "dynsec_acl \<Rightarrow> (string, dynsec_acl) omap \<Rightarrow> (string, dynsec_acl) omap" where
  "pageTakeAcl a m =
    (let key = aclType a @ '':'' @ aclTopic a in
     case map_of m key of
       None \<Rightarrow> AList.update key a m
     | Some c \<Rightarrow>
        if aclPriority a > aclPriority c then AList.update key a m
        else if aclPriority a = aclPriority c \<and> aclAllow c \<and> \<not> aclAllow a then AList.update key a m
        else m)"

definition pageSortAcls :: "'b platform \<Rightarrow> dynsec_acl list \<Rightarrow> dynsec_acl list" where
  "pageSortAcls P as = js_sort (\<lambda>l r.
    if aclPriority r \<noteq> aclPriority l then 0 < aclPriority r - aclPriority l
    else if aclAllow l \<noteq> aclAllow r then aclAllow l
    else locale_gt P (aclType l @ '':'' @ aclTopic l) (aclType r @ '':'' @ aclTopic r)) as"

definition pageResolveAcls :: "'b platform \<Rightarrow> dynsec_acl list \<Rightarrow> dynsec_acl list" where
  "pageResolveAcls P as = pageSortAcls P (map snd (fold pageTakeAcl as []))"

definition allowedTopics :: "string list \<Rightarrow> dynsec_acl list \<Rightarrow> (string \<times> string \<times> rat) list" where
  "allowedTopics types as = map (\<lambda>a. (aclTopic a, aclType a, aclPriority a)) (filter (\<lambda>a. aclAllow a \<and> aclType a \<in> set types) as)"

definition coversAll :: "(string \<times> string \<times> rat) list \<Rightarrow> bool" where
  "coversAll fs = list_ex (\<lambda>(topic, ty, p). topic = ''#'') fs"

definition accessPreview :: "'b platform \<Rightarrow> dynsec_state \<Rightarrow> string \<Rightarrow> dynsec_client \<Rightarrow> access_preview" where
  "accessPreview P st admin c =
    (let roleLookup = mapBy drRolename (dsRoles st); groupLookup = mapBy dgGroupname (dsGroups st);
         direct = followRefs roleLookup (dcRoles c);
         inherited = map (\<lambda>g. (g, followRefs roleLookup (dgRoles g))) (followRefs groupLookup (dcGroups c));
         merged = pageResolveAcls P (concat (map drAcls direct) @ concat (map (\<lambda>(g, rs). concat (map drAcls rs)) inherited));
         sub = allowedTopics [''subscribeLiteral'', ''subscribePattern''] merged;
         receive = allowedTopics [''publishClientReceive''] merged;
         send = allowedTopics [''publishClientSend''] merged
     in \<lparr>apFilters = sub, apWarnings =
          (if sub \<noteq> [] \<and> receive = []
           then [''This client has subscribe ACLs but no Read/Receive ACLs. Mosquitto may accept the subscription and still deliver no messages.'']
           else []) @
          (if coversAll sub \<and> \<not> coversAll receive
           then [''Read/Receive ACLs are narrower than the subscribe ACLs shown here. Non-matching topics can stay invisible even when the subscription filter matches them.'']
           else []) @
          (if coversAll sub \<and> \<not> coversAll send
           then [if dcUsername c = admin
             then ''This dynsec admin client can subscribe broadly, but the built-in Mosquitto admin role does not currently show broker-wide Write/Publish:# access. Publish tests to arbitrary topics can still fail.''
             else ''This client can subscribe broadly, but it does not have broker-wide Write/Publish:# access. Publish tests to arbitrary topics can still fail.'']
           else [])\<rparr>)"

definition buildDynsecMqttAccess :: "'b platform \<Rightarrow> dynsec_state \<Rightarrow> string \<Rightarrow> (string, access_preview) omap" where
  "buildDynsecMqttAccess P st admin =
    fold (\<lambda>c m. AList.update (dcUsername c) (accessPreview P st admin c) m) (dsClients st) []"

record explorer_client =
  ecUsername :: string
  ecClientId :: jsval
  ecRandom :: bool
  ecTextName :: jsval
  ecDisabled :: bool

definition explorerClient :: "'b app \<Rightarrow> dynsec_client \<Rightarrow> (('b, 'z) base_world_scheme, explorer_client) io" where
  "explorerClient A c =
    andThen (if nullish (dcClientid c) then andThen (createOpaqueToken (appP A) 8) (\<lambda>t. ret (Str (''mqttctl-web-'' @ t)))
      else ret (dcClientid c)) (\<lambda>cid.
    ret \<lparr>ecUsername = dcUsername c, ecClientId = cid, ecRandom = \<not> truthy (dcClientid c),
         ecTextName = dcTextname c, ecDisabled = dcDisabled c\<rparr>)"

record mqtt_page =
  mpExplorer :: explorer_state
  mpClients :: "explorer_client list"
  mpAccess :: "(string, access_preview) omap"
  mpGeneratedClientId :: string
  mpCanUseDynsec :: bool
  mpSelected :: "string option"
  mpPublishOpen :: bool
  mpTopicsOpen :: bool

definition selectedDynsecUsername :: "string option \<Rightarrow> explorer_client list \<Rightarrow> string option" where
  "selectedDynsecUsername requested clients =
    (if nonblank requested \<and> the requested \<in> set (map ecUsername clients) then requested
     else if ''admin'' \<in> set (map ecUsername clients) then Some ''admin''
     else case clients of [] \<Rightarrow> None | c # cs \<Rightarrow> Some (ecUsername c))"

definition mqttPage :: "'b app \<Rightarrow> api_request \<Rightarrow> ('b, 'z, mqtt_page page) appio" where
  "mqttPage A ev =
    andThen (requireMqttSessionUser A ev False) (\<lambda>acc.
    andThen (createOpaqueToken (appP A) 8) (\<lambda>token.
    andThen (if maCanUseDynsec acc then andThen (readState (appP A) (appL A) (rqCorr ev)) (\<lambda>s. ret (Some s)) else ret None) (\<lambda>st.
    andThen (gatherAll (map (explorerClient A) (case st of None \<Rightarrow> [] | Some s \<Rightarrow> dsClients s))) (\<lambda>cs.
    (let clients = js_sort (\<lambda>a b. locale_gt (appP A) (ecUsername a) (ecUsername b)) cs in
     andThen (getExplorerState (appP A) (appL A) (maSessionKey acc)) (\<lambda>x.
     ret (PageData \<lparr>mpExplorer = x, mpClients = clients,
       mpAccess = (case st of None \<Rightarrow> []
         | Some s \<Rightarrow> buildDynsecMqttAccess (appP A) s (bkDynsecAdminUsername (cfBroker (appConfig A)))),
       mpGeneratedClientId = ''mqttctl-web-'' @ token, mpCanUseDynsec = maCanUseDynsec acc,
       mpSelected = selectedDynsecUsername (rqQuery ev ''client'') clients,
       mpPublishOpen = (rqQuery ev ''publish'' \<noteq> Some ''closed''),
       mpTopicsOpen = (rqQuery ev ''topics'' \<noteq> Some ''closed'')\<rparr>)))))))"

section \<open>Signing in and out\<close>

record login_page =
  lpRedirectTo :: string
  lpAuth :: auth_config

definition loginPage :: "'b app \<Rightarrow> api_request \<Rightarrow> login_page page" where
  "loginPage A ev =
    (if rqUser ev \<noteq> None then Redirect 303 (cfBasePath (appConfig A) @ ''/dashboard'')
     else PageData \<lparr>lpRedirectTo = getSafePostLoginRedirectPath (appP A) (appL A) (rqQuery ev ''redirectTo''),
       lpAuth = cfAuth (appConfig A)\<rparr>)"

definition setSessionCookie :: "'b app \<Rightarrow> login_result \<Rightarrow> ('b, 'z, unit) httpio" where
  "setSessionCookie A r = modify (\<lambda>w. w\<lparr>cookieJar := cookieJar w @
    [\<lparr>scName = sessionCookieName, scValue = lrCookieValue r, scOptions = getCookieOptions (appL A),
      scExpires = Some (lrExpiresAt r), scMaxAge = None\<rparr>]\<rparr>)"

definition formText :: "api_request \<Rightarrow> string \<Rightarrow> string \<Rightarrow> string" where
  "formText ev name fallback = (case rqForm ev name of None \<Rightarrow> fallback | Some s \<Rightarrow> s)"

definition loginAction :: "'b app \<Rightarrow> api_request \<Rightarrow> ('b, 'z, 'd page) appio" where
  "loginAction A ev =
    (let username = trim (formText ev ''username'' []); password = formText ev ''password'' [];
         redirectTo = getSafePostLoginRedirectPath (appP A) (appL A) (Some (formText ev ''redirectTo'' []));
         sourceIp = getSourceIp ev; normalized = (if username = [] then None else Some (normalizeUsername username)) in
     if formText ev ''provider'' ''local'' = ''oidc'' then
       andThen (beginOidcLogin (appP A) (appO A) (appL A) (Some redirectTo) (rqCorr ev)) (\<lambda>target. ret (Redirect 303 target))
     else if username = [] \<or> password = [] then
       andThen (auditRecord (appP A) None (Some ''local'') sourceIp (rqCorrelation ev) ''auth.login.local'' ''auth_login'' normalized
         (Obj [(''submittedUsername'', if username = [] then Null else Str username),
               (''normalizedUsername'', opt_str normalized), (''authMethod'', Str ''local'')])
         Null (Obj [(''failureReason'', Str ''missing_credentials'')]) False) (\<lambda>_.
       ret (ActionFailure 400 [(''message'', ''Username and password are required.''), (''redirectTo'', redirectTo)]))
     else
       catching
         (andThen (loginLocal (appP A) (appL A) username password sourceIp (rqUserAgent ev) (rqCorr ev)) (\<lambda>r.
          andThen (setSessionCookie A r) (\<lambda>_.
          ret (Redirect 303 redirectTo))))
         (\<lambda>e. ret (ActionFailure (if is_AppError e then errorStatus e else 400)
           [(''message'', messageOr ''Login failed'' e), (''username'', username), (''redirectTo'', redirectTo)])))"

definition oidcCallback :: "'b app \<Rightarrow> api_request \<Rightarrow> ('b, 'z, 'd page) appio" where
  "oidcCallback A ev =
    andThen (completeOidcLogin (appP A) (appO A) (appL A) (rqUrl ev) (getSourceIp ev) (rqUserAgent ev) (rqCorr ev))
      (\<lambda>(r, redirectTo).
    andThen (setSessionCookie A r) (\<lambda>_.
    ret (Redirect 303 redirectTo)))"

text \<open>\<open>cookies.delete\<close> sets an empty value with \<open>maxAge\<close> 0. The route compares no origin.\<close>

definition logoutRoute :: "'b app \<Rightarrow> api_request \<Rightarrow> ('b, 'z, 'd page) appio" where
  "logoutRoute A ev =
    andThen (logout (appP A) (appL A) (rqCookie ev sessionCookieName)) (\<lambda>_.
    andThen (modify (\<lambda>w. w\<lparr>cookieJar := cookieJar w @
      [\<lparr>scName = sessionCookieName, scValue = [], scOptions = getCookieOptions (appL A), scExpires = None,
        scMaxAge = Some 0\<rparr>]\<rparr>)) (\<lambda>_.
    ret (Redirect 303 (cfBasePath (appConfig A) @ ''/auth/login''))))"

end
