(* ===== verification/Hooks.thy ===== *)
theory Hooks
  imports Api Pages
begin

text \<open>
  What every request passes before its route (\<open>fe/hooks.server.ts\<close>): the correlation id, the three
  ways to be authenticated, and the proxy in front of the API (\<open>fe/lib/server/http-api-proxy.ts\<close>);
  and the hook that turns an error no route has handled into the error page's data.
  \<^item> \<open>Headers\<close> are an association list with lower-case names, each name once.
  \<^item> \<open>fetch\<close>, the setters of \<open>URL\<close> and the route itself (\<open>resolve\<close>) are arguments.
\<close>

section \<open>Headers\<close>

type_synonym headers = "(string \<times> string) list"

definition setHeader :: "string \<Rightarrow> string \<Rightarrow> headers \<Rightarrow> headers" where
  "setHeader name v hs = AList.update name v hs"

definition hopByHopHeaders :: "string list" where
  "hopByHopHeaders = [''connection'', ''keep-alive'', ''proxy-authenticate'', ''proxy-authorization'', ''proxy-connection'',
    ''te'', ''trailer'', ''transfer-encoding'', ''upgrade'', ''content-length'', ''host'']"

definition nullBodyStatuses :: "int list" where
  "nullBodyStatuses = [204, 205, 304]"

definition bodylessRequestMethods :: "string list" where
  "bodylessRequestMethods = [''GET'', ''HEAD'']"

definition filterProxyRequestHeaders :: "headers \<Rightarrow> headers" where
  "filterProxyRequestHeaders hs = filter (\<lambda>(k, v). toLowerCase k \<notin> set hopByHopHeaders) hs"

definition filterProxyResponseHeaders :: "headers \<Rightarrow> headers" where
  "filterProxyResponseHeaders hs =
    filter (\<lambda>(k, v). toLowerCase k \<notin> set hopByHopHeaders \<and> toLowerCase k \<noteq> ''content-encoding'') hs"

definition appendForwardedFor :: "string option \<Rightarrow> string option \<Rightarrow> string option" where
  "appendForwardedFor existing clientAddress =
    (if \<not> nonblank clientAddress then existing
     else Some (if nonblank existing then the existing @ '', '' @ the clientAddress else the clientAddress))"

section \<open>The proxy\<close>

record web_request =
  wrMethod :: string
  wrHeaders :: headers
  wrBody :: "exn + string"
  wrRequest :: api_request

record proxy_request =
  pxUrl :: url
  pxMethod :: string
  pxHeaders :: headers
  pxBody :: "string option"

record proxy_response =
  prStatus :: int
  prHeaders :: headers
  prBody :: string

text \<open>\<open>headers.get\<close> does not distinguish case.\<close>

definition header :: "web_request \<Rightarrow> string \<Rightarrow> string option" where
  "header q name = map_of (wrHeaders q) (toLowerCase name)"

definition clientAddress :: "web_request \<Rightarrow> string option" where
  "clientAddress q = (case rqAddress (wrRequest q) of Inl _ \<Rightarrow> None | Inr a \<Rightarrow> Some a)"

definition readRequestBody :: "web_request \<Rightarrow> exn + string option" where
  "readRequestBody q =
    (if wrMethod q \<in> set bodylessRequestMethods then Inr None
     else case wrBody q of Inl e \<Rightarrow> Inl e | Inr b \<Rightarrow> Inr (if b = [] then None else Some b))"

definition protocolName :: "string \<Rightarrow> string" where
  "protocolName p = takeWhile (\<lambda>c. c \<noteq> CHR '':'') p @ tl (dropWhile (\<lambda>c. c \<noteq> CHR '':'') p)"

definition buildProxyHeaders :: "web_request \<Rightarrow> headers" where
  "buildProxyHeaders q =
    (let hs = filterProxyRequestHeaders (wrHeaders q);
         forwarded = appendForwardedFor (header q ''x-forwarded-for'') (clientAddress q);
         hs1 = setHeader ''x-forwarded-host'' (urlHost (rqUrl (wrRequest q))) hs;
         hs2 = setHeader ''x-forwarded-proto'' (protocolName (urlProtocol (rqUrl (wrRequest q)))) hs1;
         hs3 = (if nonblank forwarded then setHeader ''x-forwarded-for'' (the forwarded) hs2 else hs2)
     in setHeader ''x-correlation-id'' (rqCorrelation (wrRequest q)) hs3)"

definition jsonReply :: "int \<Rightarrow> error_body \<Rightarrow> 'd reply" where
  "jsonReply status body = \<lparr>rpStatus = status, rpBody = ErrorReply body, rpHeaders = [(''content-type'', ''application/json'')]\<rparr>"

definition createProxyFailureResponse ::
  "web_request \<Rightarrow> exn \<Rightarrow> url option \<Rightarrow> (('b, 'z) base_world_scheme, 'd reply) io" where
  "createProxyFailureResponse q err target =
    (let e = createAppError ''httpApiProxy::handle'' ''HTTP API proxy request failed.'' ''API_PROXY_FAILED''
           (Some (rqCorrelation (wrRequest q)))
           (Obj [(''method'', Str (wrMethod q)), (''path'', Str (urlPathname (rqUrl (wrRequest q)))),
                 (''targetOrigin'', opt_str (map_option urlOrigin target)),
                 (''targetPath'', opt_str (map_option urlPathname target))]) 502 (Some err) in
     andThen (emit ((logEvent LogError ''httpApiProxy::handle'' (errorMessage e) (Some (rqCorrelation (wrRequest q)))
         (errorContext e))
       \<lparr>evErrorKey := Some (errorKey e), evErrorCode := Some (errorCode e), evRootCause := Some e\<rparr>)) (\<lambda>_.
     ret (jsonReply (errorStatus e) (toErrorBody e))))"

definition proxyCall ::
  "(proxy_request \<Rightarrow> 'b \<Rightarrow> (exn + proxy_response) \<times> 'b) \<Rightarrow> web_request \<Rightarrow> url \<Rightarrow> (('b, 'z) base_world_scheme, 'd reply) io" where
  "proxyCall fetch q target =
    andThen (liftR (readRequestBody q)) (\<lambda>body.
    andThen (callOut (fetch \<lparr>pxUrl = target, pxMethod = wrMethod q, pxHeaders = buildProxyHeaders q, pxBody = body\<rparr>)) (\<lambda>r.
    ret \<lparr>rpStatus = prStatus r,
         rpBody = (if prStatus r \<in> set nullBodyStatuses then EmptyReply else TextReply (prBody r)),
         rpHeaders = filterProxyResponseHeaders (prHeaders r)\<rparr>))"

text \<open>
  An upstream base URL that is no URL makes \<open>buildHttpApiProxyTargetUrl\<close> throw outside the \<open>try\<close>;
  the configuration's schema excludes it.
\<close>

definition handleHttpApiProxy ::
  "'b app \<Rightarrow> (url \<Rightarrow> string \<Rightarrow> string \<Rightarrow> url) \<Rightarrow> (proxy_request \<Rightarrow> 'b \<Rightarrow> (exn + proxy_response) \<times> 'b)
    \<Rightarrow> (api_request \<Rightarrow> ('b, 'z) handler) \<Rightarrow> web_request \<Rightarrow> ('b, 'z) handler" where
  "handleHttpApiProxy A setUrl fetch resolve q =
    (if haMode (cfHttpApi (appConfig A)) \<noteq> ProxyMode then resolve (wrRequest q)
     else case stripHttpApiPathPrefix (urlPathname (rqUrl (wrRequest q))) (getHttpApiProxyRequestBasePath (appL A)) of
       None \<Rightarrow> resolve (wrRequest q)
     | Some downstream \<Rightarrow>
        andThen (liftR (buildHttpApiProxyTargetUrl (appP A) setUrl (appL A) downstream (urlSearch (rqUrl (wrRequest q))))) (\<lambda>target.
        case target of
          None \<Rightarrow> createProxyFailureResponse q
            (PlainErr ''Error'' ''HTTP API proxy upstream base URL is not configured.'' None) None
        | Some t \<Rightarrow> catching (proxyCall fetch q t) (\<lambda>e. createProxyFailureResponse q e (Some t))))"

section \<open>Authentication\<close>

definition incoming :: "web_request \<Rightarrow> incoming_request" where
  "incoming q = \<lparr>irMethod = wrMethod q, irUrl = urlHref (rqUrl (wrRequest q)), irHeader = header q, irBody = wrBody q\<rparr>"

text \<open>
  The trusted sources, as the constructor of \<open>AuthService\<close> lists them; one it cannot list stops the
  start of the application.
\<close>

definition trustedSource :: "'b app \<Rightarrow> string \<Rightarrow> bool" where
  "trustedSource A ip =
    (case trustedProxyList (appIsIPv6 A)
        (case acHeader (cfAuth (appConfig A)) of None \<Rightarrow> [] | Some h \<Rightarrow> hcTrustedCidrs h) of
       Inl _ \<Rightarrow> False | Inr nets \<Rightarrow> subnet_check (appV6Has A) nets ip)"

text \<open>The session cookie first, then the trusted headers; neither is tried for an MCP principal.\<close>

definition signedInUser ::
  "'b app \<Rightarrow> web_request \<Rightarrow> string \<Rightarrow> authenticated_user option \<Rightarrow> ('b, 'z, authenticated_user option) appio" where
  "signedInUser A q corr mcpUser =
    (if mcpUser \<noteq> None then ret mcpUser
     else andThen (getUserFromCookie (appP A) (appL A) (rqCookie (wrRequest q) sessionCookieName)) (\<lambda>sessionUser.
       if sessionUser \<noteq> None then ret sessionUser
       else authenticateTrustedHeaders (appP A) (appL A) (trustedSource A) (getSourceIp (wrRequest q))
         (header q) (Some corr)))"

definition withCorrelation :: "string \<Rightarrow> 'd reply \<Rightarrow> 'd reply" where
  "withCorrelation corr r = r\<lparr>rpHeaders := setHeader ''x-correlation-id'' corr (rpHeaders r)\<rparr>"

definition handleHook ::
  "'b app \<Rightarrow> (url \<Rightarrow> string \<Rightarrow> string \<Rightarrow> url) \<Rightarrow> (proxy_request \<Rightarrow> 'b \<Rightarrow> (exn + proxy_response) \<times> 'b)
    \<Rightarrow> (api_request \<Rightarrow> ('b, 'z) handler) \<Rightarrow> web_request \<Rightarrow> ('b, 'z) handler" where
  "handleHook A setUrl fetch resolve q =
    andThen (createCorrelationId (appP A)) (\<lambda>corr.
    andThen (catching
        (andThen (authenticateRequest (appP A) (appL A) (incoming q) (Some corr)) (\<lambda>u. ret (Inr u)))
        (\<lambda>e. if is_AppError e then ret (Inl e) else raise e)) (\<lambda>mcp.
    case mcp of
      Inl e \<Rightarrow> ret \<lparr>rpStatus = errorStatus e, rpBody = ErrorReply (toErrorBody e),
        rpHeaders = [(''content-type'', ''application/json''), (''x-correlation-id'', corr)]\<rparr>
    | Inr mcpUser \<Rightarrow>
        andThen (signedInUser A q corr mcpUser) (\<lambda>user.
        andThen (handleHttpApiProxy A setUrl fetch resolve
          (q\<lparr>wrRequest := (wrRequest q)\<lparr>rqUser := user, rqCorrelation := corr\<rparr>\<rparr>)) (\<lambda>r.
        ret (withCorrelation corr r)))))"

section \<open>Errors no route has handled\<close>

definition frontendErrors :: "(string \<times> string) list" where
  "frontendErrors = [(''ERR_UNKNOWN'', ''54D9F7AAB3E64289''), (''FRONTEND_ROUTE_NOT_FOUND'', ''C6EAF1D0A3D54E6E''),
    (''FRONTEND_SSR_RELATIVE_FETCH_INVALID'', ''E8A12C5F93D147B3''),
    (''FRONTEND_SVELTE_CONST_TAG_INVALID_PLACEMENT'', ''C0A57A91F4424E9A''),
    (''FRONTEND_UNHANDLED_SERVER_ERROR'', ''F1D1C07A26B84622'')]"

definition resolveFrontendErrorCode :: "string \<Rightarrow> string" where
  "resolveFrontendErrorCode key =
    (case map_of frontendErrors key of Some c \<Rightarrow> c
     | None \<Rightarrow> (case map_of frontendErrors ''ERR_UNKNOWN'' of Some c \<Rightarrow> c | None \<Rightarrow> ''FFFFFFFFFFFFFFFF''))"

definition frontendBody :: "string \<Rightarrow> string \<Rightarrow> error_body" where
  "frontendBody key reason = \<lparr>bodyErrorKey = key, bodyErrorCode = resolveFrontendErrorCode key, bodyReason = reason,
    bodyCorrelationId = None, bodyDetails = Undef\<rparr>"

text \<open>The four patterns of a message, in the order of the source; a thrown value that is no \<open>Error\<close> has none.\<close>

definition frontendPattern :: "string \<Rightarrow> string option" where
  "frontendPattern m =
    (if containsStr m ''Cannot call `fetch` eagerly during server-side rendering with relative URL''
       then Some ''FRONTEND_SSR_RELATIVE_FETCH_INVALID''
     else if containsStr m ''const_tag_invalid_placement'' \<or> containsStr m ''`{@const}` must be the immediate child''
       then Some ''FRONTEND_SVELTE_CONST_TAG_INVALID_PLACEMENT''
     else if containsStr m ''Not found: '' then Some ''FRONTEND_ROUTE_NOT_FOUND'' else None)"

definition toFrontendHandleErrorBody :: "exn \<Rightarrow> error_body" where
  "toFrontendHandleErrorBody e =
    (let pattern = (case e of ThrownVal v \<Rightarrow> None | _ \<Rightarrow> frontendPattern (messageOr [] e)) in
     case pattern of
       Some key \<Rightarrow> frontendBody key (messageOr [] e)
     | None \<Rightarrow>
        (let body = toErrorBody e in
         if bodyErrorKey body = ''ERR_UNKNOWN'' then
           body\<lparr>bodyErrorKey := ''FRONTEND_UNHANDLED_SERVER_ERROR'',
                bodyErrorCode := resolveFrontendErrorCode ''FRONTEND_UNHANDLED_SERVER_ERROR''\<rparr>
         else body))"

text \<open>\<open>kind\<close> is SvelteKit's: only an unknown error is reported.\<close>

definition handleErrorHook :: "string \<Rightarrow> exn \<Rightarrow> api_request \<Rightarrow> (('b, 'z) base_world_scheme, error_body option) io" where
  "handleErrorHook kind e ev =
    (if kind \<noteq> ''unknown'' then ret None
     else
       (let body = toFrontendHandleErrorBody e;
            root = (case e of AppErr _ _ _ _ _ _ _ (Some c) _ \<Rightarrow> c | _ \<Rightarrow> e) in
        andThen (emit ((logEvent LogError ''hooks::handleError'' (bodyReason body) (Some (rqCorrelation ev)) (bodyDetails body))
          \<lparr>evErrorKey := Some (bodyErrorKey body), evErrorCode := Some (bodyErrorCode body), evRootCause := Some root,
           evErrorChain := (if is_AppError e then errorChain e else [])\<rparr>)) (\<lambda>_.
        ret (Some (body\<lparr>bodyDetails := Undef\<rparr>)))))"

end
