(* ===== verification/DashboardSocket.thy ===== *)
theory DashboardSocket
  imports Hooks
begin

text \<open>
  The web socket of the dashboard: who may open it (\<open>fe/lib/server/dashboard/ws-runtime.ts\<close>) and the
  server that hands the snapshots to the open sockets (\<open>fe/lib/server/dashboard/realtime-node.ts\<close>).
  The variables of \<open>attachDashboardWebSocketServer\<close> are the fields of \<open>socket_world\<close>:
  \<^item> \<open>wsRuntime\<close>: the runtime has been loaded; \<open>wsClients\<close>: the set \<open>clients\<close> in the order of its insertions;
  \<^item> \<open>wsUnsubscribe\<close>: the listener \<open>unsubscribeDashboardStatus\<close> takes away, \<open>wsNextListener\<close> a number for the next one;
  \<^item> \<open>wsOpen\<close>: the sockets whose \<open>readyState\<close> is \<open>OPEN\<close>, \<open>wsSent\<close> what has been sent to which;
  \<^item> \<open>wsPhase\<close>: where \<open>initializeConnection\<close> of a socket waits.
  A handler that awaits is one operation for each of its pieces between two awaits. Loading the runtime,
  the web socket package and \<open>decodeURIComponent\<close> are parameters; \<open>normalizeRuntime\<close>'s branch for an
  older runtime is left out, since the one of this repository has all its functions.
\<close>

section \<open>Authorization\<close>

datatype node_header = OneValue string | ManyValues "string list"

definition appendHeader :: "string \<Rightarrow> string \<Rightarrow> headers \<Rightarrow> headers" where
  "appendHeader name v hs = setHeader name (case map_of hs name of None \<Rightarrow> v | Some x \<Rightarrow> x @ '', '' @ v) hs"

definition toHeaders :: "(string \<times> node_header) list \<Rightarrow> headers" where
  "toHeaders hs = fold (\<lambda>(k, v). case v of
      OneValue s \<Rightarrow> setHeader (toLowerCase k) s
    | ManyValues ss \<Rightarrow> fold (appendHeader (toLowerCase k)) ss) hs []"

text \<open>\<open>decode\<close> is \<open>decodeURIComponent\<close>, which throws for text it cannot decode.\<close>

fun cookieEntry :: "(string \<Rightarrow> string option) \<Rightarrow> string \<Rightarrow> string list \<Rightarrow> string option" where
  "cookieEntry decode name [] = None"
| "cookieEntry decode name (entry # entries) =
    (if CHR ''='' \<notin> set entry then cookieEntry decode name entries
     else if trim (takeWhile (\<lambda>c. c \<noteq> CHR ''='') entry) \<noteq> name then cookieEntry decode name entries
     else
       (let v = trim (tl (dropWhile (\<lambda>c. c \<noteq> CHR ''='') entry))
        in Some (case decode v of None \<Rightarrow> v | Some d \<Rightarrow> d)))"

definition getCookieValue :: "(string \<Rightarrow> string option) \<Rightarrow> string option \<Rightarrow> string \<Rightarrow> string option" where
  "getCookieValue decode cookieHeader name =
    (if \<not> nonblank cookieHeader then None else cookieEntry decode name (splitOn (CHR '';'') (the cookieHeader)))"

definition dashboardWebSocketSuffix :: string where
  "dashboardWebSocketSuffix = ''/api/dashboard/ws''"

definition resolveDashboardPath :: "'b app \<Rightarrow> string" where
  "resolveDashboardPath A = cfBasePath (appConfig A) @ dashboardWebSocketSuffix"

definition checkSocketPath :: "'b app \<Rightarrow> url \<Rightarrow> string \<Rightarrow> exn + unit" where
  "checkSocketPath A u corr =
    (if urlPathname u = resolveDashboardPath A then Inr ()
     else Inl (createAppError ''dashboard::authorizeDashboardSocket'' ''Dashboard websocket path is invalid.''
       ''INPUT_INVALID'' (Some corr)
       (Obj [(''requestPath'', Str (urlPathname u)), (''expectedPath'', Str (resolveDashboardPath A))]) 404 None))"

definition checkSocketOrigin :: "'b app \<Rightarrow> string option \<Rightarrow> string \<Rightarrow> exn + unit" where
  "checkSocketOrigin A originHeader corr =
    (if \<not> nonblank originHeader then Inr ()
     else case (parse_url (appP A) (the originHeader) None, parse_url (appP A) (cfPublicBaseUrl (appConfig A)) None) of
       (Some o1, Some o2) \<Rightarrow>
         if urlOrigin o1 = urlOrigin o2 then Inr ()
         else Inl (createAppError ''dashboard::authorizeDashboardSocket''
           ''Request origin does not match the configured base URL.'' ''CSRF_ORIGIN_INVALID'' (Some corr)
           (Obj [(''requestOrigin'', Str (urlOrigin o1)), (''expectedOrigin'', Str (urlOrigin o2))]) 403 None)
     | _ \<Rightarrow> Inl (typeError ''Invalid URL''))"

definition authorizeDashboardSocket ::
  "'b app \<Rightarrow> (string \<Rightarrow> string option) \<Rightarrow> url \<Rightarrow> (string \<Rightarrow> string option) \<Rightarrow> string option \<Rightarrow> string
    \<Rightarrow> ('b, 'z, unit) appio" where
  "authorizeDashboardSocket A decode u hs source corr =
    andThen (liftR (checkSocketPath A u corr)) (\<lambda>_.
    andThen (liftR (checkSocketOrigin A (hs ''origin'') corr)) (\<lambda>_.
    andThen (getUserFromCookie (appP A) (appL A) (getCookieValue decode (hs ''cookie'') sessionCookieName)) (\<lambda>sessionUser.
    andThen (if sessionUser \<noteq> None then ret sessionUser
      else authenticateTrustedHeaders (appP A) (appL A) (trustedSource A) (resolveSourceIp source) hs (Some corr)) (\<lambda>currentUser.
    liftR (requireCapability currentUser ReadCap (Some corr))))))"

definition getDashboardStatusSnapshot :: "'b app \<Rightarrow> string \<Rightarrow> ('b, 'z, dashboard_snapshot) appio" where
  "getDashboardStatusSnapshot A corr =
    andThen getLatestDashboardSnapshot (\<lambda>cached.
    case cached of Some s \<Rightarrow> ret s | None \<Rightarrow> refreshDashboardSnapshot A (Some corr))"

datatype socket_stage = UpgradeStage | SnapshotStage

definition socketErrorEvent :: "socket_stage \<Rightarrow> string \<Rightarrow> exn \<Rightarrow> log_event" where
  "socketErrorEvent stage corr e =
    (let caller = (if stage = UpgradeStage then ''dashboard::reportDashboardSocketUpgradeError''
                   else ''dashboard::reportDashboardSocketSnapshotError'') in
     (logEvent (if is_AppError e \<and> errorStatus e < 500 then LogWarn else LogError) caller
       (messageOr ''Dashboard websocket runtime failed.'' e) (Some corr) Undef)
     \<lparr>evErrorKey := Some (if is_AppError e then errorKey e else ''DIAGNOSTICS_FAILED''), evRootCause := Some e\<rparr>)"

definition reportDashboardSocketError ::
  "socket_stage \<Rightarrow> string \<Rightarrow> exn \<Rightarrow> (('b, 'z) base_world_scheme, unit) io" where
  "reportDashboardSocketError stage corr e = emit (socketErrorEvent stage corr e)"

section \<open>The server's state\<close>

datatype socket_phase = NoConnection | AwaitingRuntime | AwaitingSnapshot | Initialized | InitFailed

record 'b socket_world = "'b app_world" +
  wsRuntime :: bool
  wsClients :: "nat list"
  wsOpen :: "nat list"
  wsUnsubscribe :: "nat option"
  wsNextListener :: nat
  wsPhase :: "nat \<Rightarrow> socket_phase"
  wsSent :: "(nat \<times> string) list"

type_synonym ('b, 'z, 'a) wsio = "(('b, 'z) socket_world_scheme, 'a) io"

text \<open>A failed load is forgotten, so that the next call loads again.\<close>

definition getRuntime :: "('b \<Rightarrow> (exn + unit) \<times> 'b) \<Rightarrow> ('b, 'z, unit) wsio" where
  "getRuntime load =
    andThen (gets wsRuntime) (\<lambda>loaded.
    if loaded then ret ()
    else andThen (callOut load) (\<lambda>_. modify (\<lambda>w. w\<lparr>wsRuntime := True\<rparr>)))"

definition reportRuntimeError ::
  "('b \<Rightarrow> (exn + unit) \<times> 'b) \<Rightarrow> socket_stage \<Rightarrow> string \<Rightarrow> exn \<Rightarrow> ('b, 'z, unit) wsio" where
  "reportRuntimeError load stage corr e =
    catching (andThen (getRuntime load) (\<lambda>_. reportDashboardSocketError stage corr e)) (\<lambda>_. ret ())"

section \<open>Upgrades\<close>

text \<open>Of the errors the authorization throws, those of the application carry a \<open>status\<close>.\<close>

definition toUpgradeErrorStatus :: "exn \<Rightarrow> int" where
  "toUpgradeErrorStatus e = (if is_AppError e then errorStatus e else 500)"

definition toUpgradeErrorReason :: "exn \<Rightarrow> string" where
  "toUpgradeErrorReason e = messageOr ''Dashboard websocket upgrade failed.'' e"

definition toUpgradeErrorStatusText :: "int \<Rightarrow> string" where
  "toUpgradeErrorStatusText code =
    (if code = 401 then ''Unauthorized'' else if code = 403 then ''Forbidden'' else if code = 404 then ''Not Found''
     else ''Internal Server Error'')"

definition crlf :: string where
  "crlf = [char_of (13 :: nat), char_of (10 :: nat)]"

definition rejectUpgrade :: "int \<Rightarrow> string \<Rightarrow> string \<Rightarrow> string" where
  "rejectUpgrade code statusText reason =
    ''HTTP/1.1 '' @ int_str code @ '' '' @ statusText @ crlf @ ''Connection: close'' @ crlf @
    ''Content-Type: text/plain; charset=utf-8'' @ crlf @ ''Content-Length: '' @ nat_str (utf8_length reason) @ crlf @
    crlf @ reason"

text \<open>An upgrade of another path is not answered at all.\<close>

datatype upgrade_outcome = NotAnswered | Rejected string | Accepted

record upgrade_request =
  ugUrl :: "string option"
  ugHeaders :: "(string \<times> node_header) list"
  ugRemote :: "string option"

definition upgradeHost :: "upgrade_request \<Rightarrow> string" where
  "upgradeHost q = (case map_of (toHeaders (ugHeaders q)) ''host'' of None \<Rightarrow> ''127.0.0.1'' | Some h \<Rightarrow> h)"

definition upgradeUrl :: "'b app \<Rightarrow> upgrade_request \<Rightarrow> url option" where
  "upgradeUrl A q =
    parse_url (appP A) (case ugUrl q of None \<Rightarrow> ''/'' | Some u \<Rightarrow> u) (Some (''http://'' @ upgradeHost q))"

definition handleUpgrade ::
  "'b app \<Rightarrow> ('b \<Rightarrow> (exn + unit) \<times> 'b) \<Rightarrow> (string \<Rightarrow> string option) \<Rightarrow> upgrade_request
    \<Rightarrow> ('b, 'z, upgrade_outcome) wsio" where
  "handleUpgrade A load decode q =
    (case upgradeUrl A q of
       None \<Rightarrow> ret (Rejected (rejectUpgrade 500 ''Internal Server Error'' ''Dashboard websocket upgrade failed.''))
     | Some u \<Rightarrow>
        if \<not> endsWith (urlPathname u) dashboardWebSocketSuffix then ret NotAnswered
        else
          andThen (createCorrelationId (appP A)) (\<lambda>corr.
          catching
            (andThen (getRuntime load) (\<lambda>_.
             andThen (authorizeDashboardSocket A decode u (map_of (toHeaders (ugHeaders q))) (ugRemote q) corr) (\<lambda>_.
             ret Accepted)))
            (\<lambda>e. andThen (reportRuntimeError load UpgradeStage corr e) (\<lambda>_.
             ret (Rejected (rejectUpgrade (toUpgradeErrorStatus e) (toUpgradeErrorStatusText (toUpgradeErrorStatus e))
               (toUpgradeErrorReason e)))))))"

section \<open>Connections\<close>

definition createStatusPayload :: "dashboard_snapshot \<Rightarrow> string" where
  "createStatusPayload s = json_text (Obj [(''type'', Str ''status''), (''generatedAt'', Str (shGeneratedAt s)),
    (''diagnostics'', diagnostics_value (shDiagnostics s)), (''mcpRuntime'', runtime_value (shRuntime s))])"

definition sendRawMessage :: "nat \<Rightarrow> string \<Rightarrow> ('b, 'z, unit) wsio" where
  "sendRawMessage c payload =
    modify (\<lambda>w. if c \<in> set (wsOpen w) then w\<lparr>wsSent := wsSent w @ [(c, payload)]\<rparr> else w)"

definition broadcastSnapshot :: "dashboard_snapshot \<Rightarrow> ('b, 'z, unit) wsio" where
  "broadcastSnapshot s =
    andThen (gets wsClients) (\<lambda>cs. forEach cs (\<lambda>c. sendRawMessage c (createStatusPayload s)))"

definition stopDashboardSubscription :: "('b, 'z, unit) wsio" where
  "stopDashboardSubscription =
    andThen (gets (\<lambda>w. (wsClients w, wsUnsubscribe w))) (\<lambda>(cs, unsubscribe).
    case unsubscribe of
      None \<Rightarrow> ret ()
    | Some l \<Rightarrow>
        if cs \<noteq> [] then ret ()
        else andThen (unsubscribeDashboardSnapshots l) (\<lambda>_. modify (\<lambda>w. w\<lparr>wsUnsubscribe := None\<rparr>)))"

definition setPhase :: "nat \<Rightarrow> socket_phase \<Rightarrow> ('b, 'z, unit) wsio" where
  "setPhase c p = modify (\<lambda>w. w\<lparr>wsPhase := (wsPhase w)(c := p)\<rparr>)"

text \<open>
  The handler of \<open>connection\<close>, until \<open>startDashboardSubscription\<close> awaits the runtime or, when a
  subscription exists, until the snapshot is awaited.
\<close>

definition onConnection :: "nat \<Rightarrow> ('b, 'z, unit) wsio" where
  "onConnection c =
    andThen (modify (\<lambda>w. w\<lparr>wsClients := (if c \<in> set (wsClients w) then wsClients w else wsClients w @ [c]),
      wsOpen := c # wsOpen w\<rparr>)) (\<lambda>_.
    andThen (gets wsUnsubscribe) (\<lambda>unsubscribe.
    setPhase c (if unsubscribe \<noteq> None then AwaitingSnapshot else AwaitingRuntime)))"

text \<open>The runtime is there: \<open>startDashboardSubscription\<close> subscribes, whatever happened meanwhile.\<close>

definition onRuntime :: "nat \<Rightarrow> ('b, 'z, unit) wsio" where
  "onRuntime c =
    andThen (gets wsNextListener) (\<lambda>l.
    andThen (subscribeDashboardSnapshots l) (\<lambda>_.
    andThen (modify (\<lambda>w. w\<lparr>wsUnsubscribe := Some l, wsNextListener := Suc l\<rparr>)) (\<lambda>_.
    setPhase c AwaitingSnapshot)))"

definition onSnapshot :: "nat \<Rightarrow> dashboard_snapshot option \<Rightarrow> ('b, 'z, unit) wsio" where
  "onSnapshot c latest =
    andThen (case latest of None \<Rightarrow> ret () | Some s \<Rightarrow> sendRawMessage c (createStatusPayload s)) (\<lambda>_.
    setPhase c Initialized)"

text \<open>\<open>ws.close(1011, ..)\<close> after the report.\<close>

definition onInitError :: "('b \<Rightarrow> (exn + unit) \<times> 'b) \<Rightarrow> nat \<Rightarrow> string \<Rightarrow> exn \<Rightarrow> ('b, 'z, unit) wsio" where
  "onInitError load c corr e =
    andThen (reportRuntimeError load SnapshotStage corr e) (\<lambda>_.
    andThen (modify (\<lambda>w. w\<lparr>wsOpen := removeAll c (wsOpen w)\<rparr>)) (\<lambda>_.
    setPhase c InitFailed))"

text \<open>The events \<open>close\<close> and \<open>error\<close>.\<close>

definition closeClient :: "nat \<Rightarrow> ('b, 'z, unit) wsio" where
  "closeClient c =
    andThen (modify (\<lambda>w. w\<lparr>wsClients := removeAll c (wsClients w), wsOpen := removeAll c (wsOpen w)\<rparr>)) (\<lambda>_.
    stopDashboardSubscription)"

text \<open>A new snapshot: the emitter calls the listeners, each of which hands it to every client.\<close>

definition publishSnapshot :: "diagnostics_summary \<Rightarrow> mcp_runtime \<Rightarrow> ('b, 'z, unit) wsio" where
  "publishSnapshot d m =
    andThen (gets (\<lambda>w. length (dashCalls w))) (\<lambda>n.
    andThen (updateDashboardSnapshot d m) (\<lambda>_.
    andThen (gets (\<lambda>w. drop n (dashCalls w))) (\<lambda>calls.
    forEach calls (\<lambda>(l, s). broadcastSnapshot s))))"

end
