(* ===== verification/SocketSafety.thy ===== *)
theory SocketSafety
  imports DashboardSocket ApiSafety
begin

text \<open>
  The web socket of the dashboard: what an accepted upgrade was checked for, and what the connected
  clients receive, as invariants of the server's steps in any interleaving.
\<close>

section \<open>Steps\<close>

text \<open>What of the world belongs to the socket server and the emitter's list of listeners.\<close>

definition socket_part ::
  "('b, 'z) socket_world_scheme \<Rightarrow> nat list \<times> nat list \<times> nat option \<times> nat \<times> (nat \<Rightarrow> socket_phase) \<times> nat list" where
  "socket_part w = (wsClients w, wsOpen w, wsUnsubscribe w, wsNextListener w, wsPhase w, dashListeners w)"

text \<open>
  The pieces of the handlers in any order. \<open>overlap\<close> is whether a second connection may arrive while
  another one still waits for the runtime.
\<close>

inductive socket_step :: "bool \<Rightarrow> ('b, 'z) socket_world_scheme \<Rightarrow> ('b, 'z) socket_world_scheme \<Rightarrow> bool" for overlap where
  connect: "wsPhase w c = NoConnection \<Longrightarrow> overlap \<or> (\<forall>c'. wsPhase w c' \<noteq> AwaitingRuntime) \<Longrightarrow>
    socket_step overlap w (after (onConnection c) w)"
| runtime: "wsPhase w c = AwaitingRuntime \<Longrightarrow> socket_step overlap w (after (onRuntime c) w)"
| snapshot_: "wsPhase w c = AwaitingSnapshot \<Longrightarrow> socket_step overlap w (after (onSnapshot c latest) w)"
| fail: "wsPhase w c \<in> {AwaitingRuntime, AwaitingSnapshot} \<Longrightarrow>
    socket_step overlap w (after (onInitError load c corr e) w)"
| closing: "socket_step overlap w (w\<lparr>wsOpen := removeAll c (wsOpen w)\<rparr>)"
| close: "wsPhase w c \<noteq> NoConnection \<Longrightarrow> socket_step overlap w (after (closeClient c) w)"
| publish: "socket_step overlap w (after (publishSnapshot d m) w)"
| elsewhere: "socket_part w' = socket_part w \<Longrightarrow> socket_step overlap w w'"

text \<open>A server just attached: no socket, no listener.\<close>

definition attached :: "('b, 'z) socket_world_scheme \<Rightarrow> bool" where
  "attached w \<longleftrightarrow> socket_part w = ([], [], None, 0, (\<lambda>_. NoConnection), [])"

inductive socket_run :: "bool \<Rightarrow> ('b, 'z) socket_world_scheme \<Rightarrow> bool" for overlap where
  initial: "attached w \<Longrightarrow> socket_run overlap w"
| more: "socket_run overlap w \<Longrightarrow> socket_step overlap w w' \<Longrightarrow> socket_run overlap w'"

section \<open>The invariant\<close>

text \<open>
  A connection past its subscription is served by a listener; without overlapping connections the
  emitter has no other listener than the one the server knows of.
\<close>

fun part_ok ::
  "bool \<Rightarrow> nat list \<times> nat list \<times> nat option \<times> nat \<times> (nat \<Rightarrow> socket_phase) \<times> nat list \<Rightarrow> bool" where
  "part_ok overlap (clients, opened, unsubscribe, next, phase, listeners) \<longleftrightarrow>
    distinct clients \<and> distinct listeners \<and> (\<forall>l \<in> set listeners. l < next) \<and>
    (\<forall>l. unsubscribe = Some l \<longrightarrow> l \<in> set listeners) \<and>
    (\<forall>c \<in> set clients. phase c \<in> {AwaitingSnapshot, Initialized} \<longrightarrow> unsubscribe \<noteq> None) \<and>
    (overlap \<or> listeners = (case unsubscribe of None \<Rightarrow> [] | Some l \<Rightarrow> [l]) \<and>
      (\<forall>c. phase c = AwaitingRuntime \<longrightarrow> unsubscribe = None) \<and>
      (\<forall>c c'. phase c = AwaitingRuntime \<longrightarrow> phase c' = AwaitingRuntime \<longrightarrow> c = c'))"

definition socket_ok :: "bool \<Rightarrow> ('b, 'z) socket_world_scheme \<Rightarrow> bool" where
  "socket_ok overlap w \<longleftrightarrow> part_ok overlap (socket_part w)"

lemma keeps_send: "keeps socket_part (sendRawMessage c p)"
  by (rule keepsI) (auto simp: sendRawMessage_def modify_def socket_part_def split: if_splits)

lemma keeps_broadcast: "keeps socket_part (broadcastSnapshot s)"
  unfolding broadcastSnapshot_def by (intro keeps_intros keeps_send)

lemma keeps_update: "keeps socket_part (updateDashboardSnapshot d m)"
  by (rule keepsI)
    (auto simp: updateDashboardSnapshot_def now_def gets_def modify_def socket_part_def Let_def andThen_def ret_def
      split: if_splits)

lemma keeps_publish: "keeps socket_part (publishSnapshot d m)"
  unfolding publishSnapshot_def
  by (intro keeps_intros keeps_update) (auto split: prod.split intro: keeps_broadcast)

lemma keeps_load: "keeps socket_part (getRuntime load)"
  unfolding getRuntime_def
  by (intro keeps_intros keeps_callOut) (auto simp: socket_part_def)

lemma keeps_report: "keeps socket_part (reportRuntimeError load stage corr e)"
  unfolding reportRuntimeError_def reportDashboardSocketError_def
  by (intro keeps_intros keeps_load keeps_emit) (auto simp: socket_part_def)

text \<open>What the pieces do to the server's state.\<close>

lemma after_connection:
  "socket_part (after (onConnection c) w) =
    (if c \<in> set (wsClients w) then wsClients w else wsClients w @ [c], c # wsOpen w, wsUnsubscribe w, wsNextListener w,
     (wsPhase w)(c := if wsUnsubscribe w \<noteq> None then AwaitingSnapshot else AwaitingRuntime), dashListeners w)"
  by (simp add: after_def onConnection_def setPhase_def socket_part_def andThen_def modify_def gets_def ret_def)

lemma after_runtime:
  "socket_part (after (onRuntime c) w) =
    (wsClients w, wsOpen w, Some (wsNextListener w), Suc (wsNextListener w), (wsPhase w)(c := AwaitingSnapshot),
     dashListeners w @ [wsNextListener w])"
  by (simp add: after_def onRuntime_def setPhase_def subscribeDashboardSnapshots_def socket_part_def andThen_def
      modify_def gets_def ret_def)

lemma after_snapshot:
  "socket_part (after (onSnapshot c latest) w) =
    (wsClients w, wsOpen w, wsUnsubscribe w, wsNextListener w, (wsPhase w)(c := Initialized), dashListeners w)"
  by (cases latest) (simp_all add: after_def onSnapshot_def setPhase_def sendRawMessage_def socket_part_def andThen_def
      modify_def ret_def)

lemma after_fail:
  "socket_part (after (onInitError load c corr e) w) =
    (wsClients w, removeAll c (wsOpen w), wsUnsubscribe w, wsNextListener w, (wsPhase w)(c := InitFailed), dashListeners w)"
proof -
  obtain w1 where rep: "reportRuntimeError load SnapshotStage corr e w = (Inr (), w1)"
    by (fastforce simp: reportRuntimeError_def catching_def ret_def split: prod.splits sum.splits)
  then have "socket_part w1 = socket_part w" by (rule keepsD [OF keeps_report])
  then show ?thesis
    using rep by (simp add: after_def onInitError_def setPhase_def modify_def andThen_def socket_part_def)
qed

lemma after_close:
  "socket_part (after (closeClient c) w) =
    (removeAll c (wsClients w), removeAll c (wsOpen w),
     if removeAll c (wsClients w) = [] then None else wsUnsubscribe w, wsNextListener w, wsPhase w,
     case wsUnsubscribe w of
       None \<Rightarrow> dashListeners w
     | Some l \<Rightarrow> if removeAll c (wsClients w) = [] then rev (remove1 l (rev (dashListeners w))) else dashListeners w)"
  by (cases "wsUnsubscribe w")
    (simp_all add: after_def closeClient_def stopDashboardSubscription_def unsubscribeDashboardSnapshots_def
      socket_part_def andThen_def modify_def gets_def ret_def)

lemma part_simp: "socket_part w = (wsClients w, wsOpen w, wsUnsubscribe w, wsNextListener w, wsPhase w, dashListeners w)"
  by (simp add: socket_part_def)

lemma last_removed: "distinct xs \<Longrightarrow> rev (remove1 x (rev xs)) = removeAll x xs"
  by (simp add: distinct_remove1_removeAll removeAll_filter_not_eq rev_filter)

lemma part_connect:
  assumes "part_ok overlap (cs, opened, u, n, ph, ls)" and "ph c = NoConnection"
    and "overlap \<or> (\<forall>c'. ph c' \<noteq> AwaitingRuntime)"
  shows "part_ok overlap (if c \<in> set cs then cs else cs @ [c], opened', u, n,
    ph(c := if u \<noteq> None then AwaitingSnapshot else AwaitingRuntime), ls)"
  using assms by (cases overlap; cases u; cases "c \<in> set cs") auto

lemma part_runtime:
  assumes "part_ok overlap (cs, opened, u, n, ph, ls)" and "ph c = AwaitingRuntime"
  shows "part_ok overlap (cs, opened, Some n, Suc n, ph(c := AwaitingSnapshot), ls @ [n])"
  using assms by (cases overlap) auto

lemma part_phase:
  assumes "part_ok overlap (cs, opened, u, n, ph, ls)" and "ph c \<in> {AwaitingRuntime, AwaitingSnapshot}"
    and "p = InitFailed \<or> (p = Initialized \<and> ph c = AwaitingSnapshot)"
  shows "part_ok overlap (cs, opened', u, n, ph(c := p), ls)"
  using assms by (cases overlap; cases u) auto

lemma part_close:
  assumes "part_ok overlap (cs, opened, u, n, ph, ls)"
  shows "part_ok overlap (removeAll c cs, opened', if removeAll c cs = [] then None else u, n, ph,
    case u of None \<Rightarrow> ls | Some l \<Rightarrow> if removeAll c cs = [] then rev (remove1 l (rev ls)) else ls)"
proof (cases u)
  case None
  then show ?thesis using assms by (auto simp: distinct_removeAll)
next
  case (Some l)
  have "distinct ls" using assms by simp
  then have "rev (remove1 l (rev ls)) = removeAll l ls" by (rule last_removed)
  then show ?thesis using assms Some by (cases overlap; cases "removeAll c cs = []") (auto simp: distinct_removeAll)
qed

lemma socket_step_ok: "socket_step overlap w w' \<Longrightarrow> socket_ok overlap w \<Longrightarrow> socket_ok overlap w'"
proof (induction rule: socket_step.induct)
  case (connect w c)
  then show ?case unfolding socket_ok_def after_connection part_simp [of w] by (intro part_connect)
next
  case (runtime w c)
  then show ?case unfolding socket_ok_def after_runtime part_simp [of w] by (intro part_runtime)
next
  case (snapshot_ w c latest)
  then show ?case unfolding socket_ok_def after_snapshot part_simp [of w] by (intro part_phase) simp_all
next
  case (fail w c load corr e)
  then show ?case unfolding socket_ok_def after_fail part_simp [of w] by (intro part_phase) simp_all
next
  case (closing w c)
  then show ?case by (simp add: socket_ok_def socket_part_def)
next
  case (close w c)
  then show ?case unfolding socket_ok_def after_close part_simp [of w] by (intro part_close)
next
  case (publish w d m)
  then show ?case by (simp add: socket_ok_def keeps_after [OF keeps_publish])
next
  case (elsewhere w' w)
  then show ?case by (simp add: socket_ok_def)
qed

lemma socket_run_ok: "socket_run overlap w \<Longrightarrow> socket_ok overlap w"
proof (induction rule: socket_run.induct)
  case (initial w)
  then show ?case by (auto simp: attached_def socket_ok_def)
next
  case (more w w')
  then show ?case by (blast intro: socket_step_ok)
qed

section \<open>What the clients receive\<close>

definition sent_by :: "('b, 'z, unit) wsio \<Rightarrow> ('b, 'z) socket_world_scheme \<Rightarrow> (nat \<times> string) list" where
  "sent_by m w = drop (length (wsSent w)) (wsSent (after m w))"

lemma only_once: "distinct xs \<Longrightarrow> x \<in> set xs \<Longrightarrow> filter (\<lambda>y. fst y = x) (map (\<lambda>y. (y, p)) xs) = [(x, p)]"
  by (induction xs) (auto simp: filter_empty_conv)

lemma concat_singletons: "concat (replicate n [x]) = replicate n x"
  by (induction n) simp_all

lemma broadcast_run:
  "broadcastSnapshot s w =
    (Inr (), w\<lparr>wsSent := wsSent w @ map (\<lambda>c. (c, createStatusPayload s)) (filter (\<lambda>c. c \<in> set (wsOpen w)) (wsClients w))\<rparr>)"
proof -
  have "forEach cs (\<lambda>c. sendRawMessage c p) w =
      (Inr (), w\<lparr>wsSent := wsSent w @ map (\<lambda>c. (c, p)) (filter (\<lambda>c. c \<in> set (wsOpen w)) cs)\<rparr>)" for cs p
    by (induction cs arbitrary: w) (simp_all add: sendRawMessage_def modify_def andThen_def ret_def)
  then show ?thesis by (simp add: broadcastSnapshot_def)
qed

lemma broadcast_calls:
  "forEach calls (\<lambda>(l, s). broadcastSnapshot s) w =
    (Inr (), w\<lparr>wsSent := wsSent w @ concat (map (\<lambda>(l, s). map (\<lambda>c. (c, createStatusPayload s))
      (filter (\<lambda>c. c \<in> set (wsOpen w)) (wsClients w))) calls)\<rparr>)"
  by (induction calls arbitrary: w) (auto simp: broadcast_run andThen_def ret_def)

lemma publish_run:
  assumes "dashJson w \<noteq> Some (snapshotText d m)"
  shows "sent_by (publishSnapshot d m) w =
    concat (replicate (length (dashListeners w))
      (map (\<lambda>c. (c, createStatusPayload \<lparr>shDiagnostics = d, shRuntime = m, shGeneratedAt = toISOString (clock w)\<rparr>))
        (filter (\<lambda>c. c \<in> set (wsOpen w)) (wsClients w))))"
  using assms
  by (simp add: sent_by_def after_def publishSnapshot_def updateDashboardSnapshot_def now_def Let_def broadcast_calls
      modify_def gets_def andThen_def ret_def map_replicate_const comp_def)

section \<open>Samples\<close>

definition sample_socket_world :: "sample_outside socket_world" where
  "sample_socket_world =
    app_world.extend (sample_app_world []) (socket_world.fields True [] [] None 0 (\<lambda>_. NoConnection) [])"

lemma sample_attached: "attached sample_socket_world"
  by (simp add: attached_def socket_part_def sample_socket_world_def sample_app_world_def app_world.defs socket_world.defs)

text \<open>The same facts about the pieces, for a state given by its part.\<close>

lemma part_fields:
  "socket_part w = (cs, opened, u, n, ph, ls) \<Longrightarrow> wsClients w = cs \<and> wsOpen w = opened \<and> wsUnsubscribe w = u \<and>
    wsNextListener w = n \<and> wsPhase w = ph \<and> dashListeners w = ls"
  by (simp add: socket_part_def)

lemma part_after_connection:
  "socket_part w = (cs, opened, u, n, ph, ls) \<Longrightarrow> socket_part (after (onConnection c) w) =
    (if c \<in> set cs then cs else cs @ [c], c # opened, u, n,
     ph(c := if u \<noteq> None then AwaitingSnapshot else AwaitingRuntime), ls)"
  by (drule part_fields) (simp add: after_connection)

lemma part_after_runtime:
  "socket_part w = (cs, opened, u, n, ph, ls) \<Longrightarrow> socket_part (after (onRuntime c) w) =
    (cs, opened, Some n, Suc n, ph(c := AwaitingSnapshot), ls @ [n])"
  by (drule part_fields) (simp add: after_runtime)

lemma part_after_snapshot:
  "socket_part w = (cs, opened, u, n, ph, ls) \<Longrightarrow> socket_part (after (onSnapshot c latest) w) =
    (cs, opened, u, n, ph(c := Initialized), ls)"
  by (drule part_fields) (simp add: after_snapshot)

lemma part_after_close:
  "socket_part w = (cs, opened, u, n, ph, ls) \<Longrightarrow> socket_part (after (closeClient c) w) =
    (removeAll c cs, removeAll c opened, if removeAll c cs = [] then None else u, n, ph,
     case u of None \<Rightarrow> ls | Some l \<Rightarrow> if removeAll c cs = [] then rev (remove1 l (rev ls)) else ls)"
  by (cases u; drule part_fields; simp add: after_close)

section \<open>Properties\<close>


text \<open>
  C23: an upgrade is accepted only for the exact path of the socket, from no other origin than the
  configured one, and for a user with the capability \<open>read\<close> whom the session cookie or, without one,
  the headers of a trusted proxy have named.
\<close>

theorem dashboard_socket_gate:
  assumes "handleUpgrade A load decode q (w :: ('a, 'b) socket_world_scheme) = (Inr Accepted, w')"
  defines "hs \<equiv> map_of (toHeaders (ugHeaders q))"
  shows "\<exists>u user. upgradeUrl A q = Some u \<and> urlPathname u = cfBasePath (appConfig A) @ ''/api/dashboard/ws'' \<and>
    (\<forall>origin. hs ''origin'' = Some origin \<and> origin \<noteq> [] \<longrightarrow>
      map_option urlOrigin (parse_url (appP A) origin None) =
        map_option urlOrigin (parse_url (appP A) (cfPublicBaseUrl (appConfig A)) None)) \<and>
    hasCapability (Some user) ReadCap \<and>
    (\<exists>w1 r w2. getUserFromCookie (appP A) (appL A) (getCookieValue decode (hs ''cookie'') sessionCookieName)
        (w1 :: ('a, 'b) socket_world_scheme) = (Inr r, w2) \<and>
      (r = Some user \<or> r = None \<and> (\<exists>corr w3. authenticateTrustedHeaders (appP A) (appL A) (trustedSource A)
        (resolveSourceIp (ugRemote q)) hs (Some corr) w2 = (Inr (Some user), w3))))"
proof -
  obtain u where u: "upgradeUrl A q = Some u"
    using assms(1) by (cases "upgradeUrl A q") (auto simp: handleUpgrade_def ret_def)
  have "endsWith (urlPathname u) dashboardWebSocketSuffix"
    using assms(1) u by (auto simp: handleUpgrade_def ret_def split: if_splits)
  then obtain corr and w1 w2 :: "('a, 'b) socket_world_scheme" where
    run: "authorizeDashboardSocket A decode u hs (ugRemote q) corr w1 = (Inr (), w2)"
    using assms(1) u
    by (auto simp: handleUpgrade_def hs_def andThen_def catching_def ret_def split: prod.splits sum.splits)
  then obtain r user w3 w4 where path: "checkSocketPath A u corr = Inr ()"
    and orig: "checkSocketOrigin A (hs ''origin'') corr = Inr ()"
    and cookie: "getUserFromCookie (appP A) (appL A) (getCookieValue decode (hs ''cookie'') sessionCookieName) w1 = (Inr r, w3)"
    and user: "(if r \<noteq> None then ret r else authenticateTrustedHeaders (appP A) (appL A) (trustedSource A)
      (resolveSourceIp (ugRemote q)) hs (Some corr)) w3 = (Inr user, w4)"
    and cap: "requireCapability user ReadCap (Some corr) = Inr ()"
    unfolding authorizeDashboardSocket_def
    by (elim andThen_eq_InrE) (auto simp: liftR_def split: sum.splits)
  obtain v where v: "user = Some v" "hasCapability (Some v) ReadCap"
    using cap by (cases user) (auto simp: requireCapability_Inr)
  have "urlPathname u = cfBasePath (appConfig A) @ ''/api/dashboard/ws''"
    using path by (simp add: checkSocketPath_def resolveDashboardPath_def dashboardWebSocketSuffix_def split: if_splits)
  moreover have "map_option urlOrigin (parse_url (appP A) origin None) =
      map_option urlOrigin (parse_url (appP A) (cfPublicBaseUrl (appConfig A)) None)"
    if "hs ''origin'' = Some origin" "origin \<noteq> []" for origin
    using orig that by (auto simp: checkSocketOrigin_def nonblank_def split: option.splits if_splits)
  moreover have "r = Some v \<or> r = None \<and> (\<exists>corr w5. authenticateTrustedHeaders (appP A) (appL A) (trustedSource A)
      (resolveSourceIp (ugRemote q)) hs (Some corr) w3 = (Inr (Some v), w5))"
    using user v(1) by (auto simp: ret_def split: if_splits)
  ultimately show ?thesis using u v(2) cookie by blast
qed

text \<open>
  Two connections that both wait for the runtime leave a listener behind: the server is then in a
  state without clients and without a subscription it could end, and the emitter still has a listener.
\<close>

theorem dashboard_listener_leak:
  "\<exists>w :: sample_outside socket_world. socket_run True w \<and> wsClients w = [] \<and>
    (\<forall>c. wsPhase w c \<notin> {AwaitingRuntime, AwaitingSnapshot}) \<and> wsUnsubscribe w = None \<and> dashListeners w = [0]"
proof -
  let ?w0 = "sample_socket_world"
  define w1 where "w1 = after (onConnection 0) ?w0"
  define w2 where "w2 = after (onConnection 1) w1"
  define w3 where "w3 = after (onRuntime 0) w2"
  define w4 where "w4 = after (onRuntime 1) w3"
  define w5 where "w5 = after (onSnapshot 0 None) w4"
  define w6 where "w6 = after (onSnapshot 1 None) w5"
  define w7 where "w7 = after (closeClient 0) w6"
  define w8 where "w8 = after (closeClient 1) w7"
  have p0: "socket_part ?w0 = ([], [], None, 0, (\<lambda>_. NoConnection), [])"
    using sample_attached by (simp add: attached_def)
  note p1 = part_after_connection [OF p0, of 0, folded w1_def, simplified]
  note p2 = part_after_connection [OF p1, of 1, folded w2_def, simplified]
  note p3 = part_after_runtime [OF p2, of 0, folded w3_def, simplified]
  note p4 = part_after_runtime [OF p3, of 1, folded w4_def, simplified]
  note p5 = part_after_snapshot [OF p4, of 0 None, folded w5_def, simplified]
  note p6 = part_after_snapshot [OF p5, of 1 None, folded w6_def, simplified]
  note p7 = part_after_close [OF p6, of 0, folded w7_def, simplified]
  note p8 = part_after_close [OF p7, of 1, folded w8_def, simplified]
  note fields = part_fields [OF p0] part_fields [OF p1] part_fields [OF p2] part_fields [OF p3] part_fields [OF p4]
    part_fields [OF p5] part_fields [OF p6] part_fields [OF p7] part_fields [OF p8]
  have "socket_run True ?w0" by (rule socket_run.initial [OF sample_attached])
  then have "socket_run True w1" unfolding w1_def by (rule socket_run.more) (rule socket_step.connect; simp add: fields)
  then have "socket_run True w2" unfolding w2_def by (rule socket_run.more) (rule socket_step.connect; simp add: fields)
  then have "socket_run True w3" unfolding w3_def by (rule socket_run.more) (rule socket_step.runtime; simp add: fields)
  then have "socket_run True w4" unfolding w4_def by (rule socket_run.more) (rule socket_step.runtime; simp add: fields)
  then have "socket_run True w5" unfolding w5_def by (rule socket_run.more) (rule socket_step.snapshot_; simp add: fields)
  then have "socket_run True w6" unfolding w6_def by (rule socket_run.more) (rule socket_step.snapshot_; simp add: fields)
  then have "socket_run True w7" unfolding w7_def by (rule socket_run.more) (rule socket_step.close; simp add: fields)
  then have "socket_run True w8" unfolding w8_def by (rule socket_run.more) (rule socket_step.close; simp add: fields)
  then show ?thesis by (rule_tac exI [of _ w8]) (simp add: fields)
qed


definition socket_app :: "sample_outside app" where
  "socket_app = sample_app\<lparr>appP := sample_platform\<lparr>parse_url := (\<lambda>s base. Some
    \<lparr>urlHref = s, urlProtocol = ''https:'', urlOrigin = s, urlHost = s, urlHostname = s, urlPathname = s,
     urlSearch = [], urlHash = []\<rparr>)\<rparr>\<rparr>"

definition sample_upgrade :: upgrade_request where
  "sample_upgrade = \<lparr>ugUrl = Some ''/api/dashboard/ws'',
    ugHeaders = [(''Cookie'', OneValue (''theme=dark; '' @ sessionCookieName @ ''='' @
      buildSessionCookieValue (appP socket_app) (appL socket_app) ''s1''))],
    ugRemote = Some ''10.0.0.1''\<rparr>"

definition sample_signed_in :: "sample_outside socket_world" where
  "sample_signed_in = sample_socket_world\<lparr>users := [sample_user], sessions := [sample_session]\<rparr>"

lemma sample_upgrade_cookie:
  "getCookieValue Some (map_of (toHeaders (ugHeaders sample_upgrade)) ''cookie'') sessionCookieName =
    Some (buildSessionCookieValue (appP socket_app) (appL socket_app) ''s1'')"
  by code_simp

lemma sample_socket_sign:
  "signSessionId (appP socket_app) (appL socket_app) m \<noteq> []"
  "CHR ''.'' \<notin> set m \<Longrightarrow> CHR ''.'' \<notin> set (signSessionId (appP socket_app) (appL socket_app) m)"
  by (simp_all add: signSessionId_def socket_app_def sample_app_def sample_platform_def sample_loaded_def sample_secrets_def)

lemma sample_socket_user:
  "users w = [sample_user] \<Longrightarrow> sessions w = [sample_session] \<Longrightarrow> dbFaults w = [] \<Longrightarrow> clock w = 1000 \<Longrightarrow>
    getUserFromCookie (appP socket_app) (appL socket_app)
      (Some (buildSessionCookieValue (appP socket_app) (appL socket_app) ''s1'')) w = (Inr (Some (sanitizeUser sample_user)), w)"
  by (rule getUserFromCookie_valid [OF extract_build, where s = sample_session])
    (simp_all add: sample_user_def sample_session_def isMcpPrincipal_def sample_socket_sign)

lemma sample_upgrade_headers: "map_of (toHeaders (ugHeaders sample_upgrade)) ''origin'' = None"
  by code_simp

lemma sample_upgrade_url: "map_option urlPathname (upgradeUrl socket_app sample_upgrade) = Some ''/api/dashboard/ws''"
  by code_simp

lemma sample_upgrade_path:
  "resolveDashboardPath socket_app = ''/api/dashboard/ws''" "endsWith ''/api/dashboard/ws'' dashboardWebSocketSuffix"
  by code_simp+

lemma sample_reader: "hasCapability (Some (sanitizeUser sample_user)) ReadCap"
  by code_simp

lemma sample_upgrade_accepted:
  "\<exists>w'. handleUpgrade socket_app (\<lambda>b. (Inr (), b)) Some sample_upgrade sample_signed_in = (Inr Accepted, w')"
proof -
  obtain u where u: "upgradeUrl socket_app sample_upgrade = Some u" "urlPathname u = ''/api/dashboard/ws''"
    using sample_upgrade_url by blast
  have "users (w :: sample_outside socket_world) = [sample_user] \<Longrightarrow> sessions w = [sample_session] \<Longrightarrow> dbFaults w = [] \<Longrightarrow>
      clock w = 1000 \<Longrightarrow> authorizeDashboardSocket socket_app Some u (map_of (toHeaders (ugHeaders sample_upgrade)))
        (ugRemote sample_upgrade) corr w = (Inr (), w)" for w corr
    by (simp add: authorizeDashboardSocket_def checkSocketPath_def checkSocketOrigin_def sample_upgrade_cookie
        sample_upgrade_headers sample_upgrade_path u sample_socket_user andThen_def liftR_def requireCapability_def
        sample_reader nonblank_def ret_def)
  then show ?thesis
    by (simp add: handleUpgrade_def u sample_upgrade_path createCorrelationId_def draw_def getRuntime_def sample_signed_in_def
        sample_socket_world_def sample_app_world_def app_world.defs socket_world.defs andThen_def catching_def gets_def
        ret_def)
qed

theorem dashboard_socket_gate_witness:
  "\<exists>u. upgradeUrl socket_app sample_upgrade = Some u \<and> urlPathname u = ''/api/dashboard/ws''"
proof -
  obtain w' where "handleUpgrade socket_app (\<lambda>b. (Inr (), b)) Some sample_upgrade sample_signed_in = (Inr Accepted, w')"
    using sample_upgrade_accepted by blast
  from dashboard_socket_gate [OF this] have "\<exists>u. upgradeUrl socket_app sample_upgrade = Some u \<and>
      urlPathname u = cfBasePath (appConfig socket_app) @ ''/api/dashboard/ws''"
    by blast
  then show ?thesis by (simp add: sample_upgrade_path [unfolded resolveDashboardPath_def dashboardWebSocketSuffix_def])
qed

end
