(* ===== verification/Logger.thy ===== *)
theory Logger
  imports Net BrokerConfig Redact
begin

text \<open>
  The sinks of the logger (\<open>server/logging/logger.ts\<close>): its options from the configuration and the
  environment, the normalized event, the text line, and what goes to the console, the file and the
  HTTP endpoint. The services' model keeps the events themselves (\<open>logs\<close>); this theory says what
  becomes of one. \<open>stackOf\<close> is an error's \<open>stack\<close>, the engine's text of its name, message and frames.
\<close>

section \<open>Options\<close>

record logger_options =
  loConsoleEnabled :: bool
  loConsoleLevels :: "log_level list"
  loConsoleFormat :: log_format
  loFileEnabled :: bool
  loFileLevels :: "log_level list"
  loFileFormat :: log_format
  loFilePath :: "string option"
  loCurlEnabled :: bool
  loCurlLevels :: "log_level list"
  loCurlMethod :: string
  loCurlTimeoutMs :: int
  loCurlUrl :: "string option"
  loKubernetes :: kubernetes_config

definition logLevels :: "log_level list" where
  "logLevels = [LogDebug, LogInfo, LogWarn, LogError]"

fun log_level_str :: "log_level \<Rightarrow> string" where
  "log_level_str LogDebug = ''debug''"
| "log_level_str LogInfo = ''info''"
| "log_level_str LogWarn = ''warn''"
| "log_level_str LogError = ''error''"

definition firstDefined :: "'a option list \<Rightarrow> 'a option" where
  "firstDefined vs = Option.bind (List.find (\<lambda>v. v \<noteq> None) vs) (\<lambda>v. v)"

definition parseBoolean :: "string option \<Rightarrow> bool \<Rightarrow> bool" where
  "parseBoolean v fallback = (case v of None \<Rightarrow> fallback | Some s \<Rightarrow> s = ''true'')"

definition parseInteger :: "string option \<Rightarrow> int \<Rightarrow> int" where
  "parseInteger v fallback =
    (case v of None \<Rightarrow> fallback | Some s \<Rightarrow> (case parseInt10 s of None \<Rightarrow> fallback | Some i \<Rightarrow> i))"

definition parseLevels :: "string option \<Rightarrow> log_level list \<Rightarrow> log_level list" where
  "parseLevels v fallback =
    (if \<not> nonblank v then fallback
     else List.map_filter (\<lambda>item. List.find (\<lambda>l. log_level_str l = trim item) logLevels) (splitOn (CHR '','') (the v)))"

definition envOr :: "(string \<Rightarrow> string option) \<Rightarrow> string \<Rightarrow> string option \<Rightarrow> string option" where
  "envOr env name d = (case env name of None \<Rightarrow> d | Some s \<Rightarrow> Some s)"

definition kubernetesFromEnv :: "(string \<Rightarrow> string option) \<Rightarrow> kubernetes_config \<Rightarrow> kubernetes_config" where
  "kubernetesFromEnv env k = \<lparr>
    k8sEnabled = parseBoolean (firstDefined [env ''MQTTCTL_LOG_K8S_METADATA_ENABLED'', env ''LOG_K8S_METADATA_ENABLED''])
      (k8sEnabled k),
    k8sPodName = envOr env ''K8S_POD_NAME'' (k8sPodName k),
    k8sDeployment = envOr env ''K8S_DEPLOYMENT'' (k8sDeployment k),
    k8sNamespace = envOr env ''K8S_NAMESPACE'' (k8sNamespace k),
    k8sPodIp = envOr env ''K8S_POD_IP'' (k8sPodIp k),
    k8sPodIps = envOr env ''K8S_POD_IPS'' (k8sPodIps k),
    k8sNodeName = envOr env ''K8S_NODE_NAME'' (k8sNodeName k)\<rparr>"

definition parseLoggerOptionsFromEnv :: "(string \<Rightarrow> string option) \<Rightarrow> logging_config \<Rightarrow> logger_options" where
  "parseLoggerOptionsFromEnv env c =
    (let either = (\<lambda>name. firstDefined [env (''MQTTCTL_LOG_CURL_'' @ name), env (''MQTTCTL_LOG_HTTP_'' @ name)]) in
     \<lparr>loConsoleEnabled = parseBoolean (env ''MQTTCTL_LOG_CONSOLE_ENABLED'') (csEnabled (lgConsole c)),
      loConsoleLevels = parseLevels (env ''MQTTCTL_LOG_CONSOLE_LEVELS'') (csLevels (lgConsole c)),
      loConsoleFormat = (case env ''MQTTCTL_LOG_CONSOLE_FORMAT'' of
          None \<Rightarrow> csFormat (lgConsole c) | Some s \<Rightarrow> if s = ''json'' then JsonFormat else TextFormat),
      loFileEnabled = parseBoolean (env ''MQTTCTL_LOG_FILE_ENABLED'') (fsEnabled (lgFile c)),
      loFileLevels = parseLevels (env ''MQTTCTL_LOG_FILE_LEVELS'') (fsLevels (lgFile c)),
      loFileFormat = (case env ''MQTTCTL_LOG_FILE_FORMAT'' of
          None \<Rightarrow> fsFormat (lgFile c) | Some s \<Rightarrow> if s = ''text'' then TextFormat else JsonFormat),
      loFilePath = envOr env ''MQTTCTL_LOG_FILE_PATH'' (fsPath (lgFile c)),
      loCurlEnabled = parseBoolean (either ''ENABLED'') (usEnabled (lgCurl c)),
      loCurlLevels = parseLevels (either ''LEVELS'') (usLevels (lgCurl c)),
      loCurlMethod = (case either ''METHOD'' of None \<Rightarrow> usMethod (lgCurl c) | Some s \<Rightarrow> s),
      loCurlTimeoutMs = parseInteger (either ''TIMEOUT_MS'') (usTimeoutMs (lgCurl c)),
      loCurlUrl = (case either ''URL'' of None \<Rightarrow> usUrl (lgCurl c) | Some s \<Rightarrow> Some s),
      loKubernetes = kubernetesFromEnv env (lgKubernetes c)\<rparr>)"

definition kubernetesFields :: "kubernetes_config \<Rightarrow> (string \<times> jsval) list" where
  "kubernetesFields k = List.map_filter (\<lambda>(name, v). if nonblank v then Some (name, Str (the v)) else None)
    [(''podName'', k8sPodName k), (''deployment'', k8sDeployment k), (''namespace'', k8sNamespace k),
     (''podIp'', k8sPodIp k), (''podIps'', k8sPodIps k), (''nodeName'', k8sNodeName k)]"

definition resolveKubernetesMetadata :: "kubernetes_config \<Rightarrow> jsval" where
  "resolveKubernetesMetadata k =
    (if \<not> k8sEnabled k \<or> kubernetesFields k = [] then Undef else Obj (kubernetesFields k))"

section \<open>Normalization\<close>

definition messagePart :: "jsval \<Rightarrow> string" where
  "messagePart v = (case v of Str s \<Rightarrow> s | Undef \<Rightarrow> [] | Null \<Rightarrow> [] | _ \<Rightarrow> json_text v)"

definition serializeMessage :: "jsval \<Rightarrow> string" where
  "serializeMessage m = (case m of Arr vs \<Rightarrow> join '' '' (map messagePart vs) | _ \<Rightarrow> messagePart m)"

definition chain_value :: "chain_entry \<Rightarrow> jsval" where
  "chain_value c = Obj [(''errorKey'', Str (chainKey c)), (''errorCode'', Str (chainCode c)),
    (''caller'', Str (chainCaller c)), (''reason'', Str (chainReason c))]"

text \<open>An \<open>AppError\<close> without a cause has \<open>null\<close>, another error \<open>undefined\<close>.\<close>

definition appDetails :: "string \<Rightarrow> string \<Rightarrow> string \<Rightarrow> string \<Rightarrow> string option \<Rightarrow> jsval \<Rightarrow> int \<Rightarrow> chain_entry list \<Rightarrow> jsval \<Rightarrow> jsval" where
  "appDetails k code caller m corr cx status chain cause =
    Obj [(''name'', Str ''AppError''), (''message'', Str m), (''caller'', Str caller), (''errorKey'', Str k),
      (''errorCode'', Str code), (''correlationId'', opt_str corr), (''status'', num_int status),
      (''context'', redactLogSecrets cx), (''errorChain'', Arr (map chain_value chain)), (''cause'', cause)]"

definition plainDetails :: "string \<Rightarrow> string \<Rightarrow> jsval \<Rightarrow> jsval" where
  "plainDetails name m cause = Obj [(''name'', Str name), (''message'', Str m), (''cause'', cause)]"

fun normalizeErrorDetails :: "exn \<Rightarrow> jsval" where
  "normalizeErrorDetails (AppErr k c cl m co cx st None ch) = appDetails k c cl m co cx st ch Null"
| "normalizeErrorDetails (AppErr k c cl m co cx st (Some e) ch) =
    appDetails k c cl m co cx st ch (normalizeErrorDetails e)"
| "normalizeErrorDetails (PlainErr n m None) = plainDetails n m Undef"
| "normalizeErrorDetails (PlainErr n m (Some e)) = plainDetails n m (normalizeErrorDetails e)"
| "normalizeErrorDetails (ThrownVal v) = redactLogSecrets v"

text \<open>A thrown value that is no error is written as it is.\<close>

definition toStackString :: "(exn \<Rightarrow> string) \<Rightarrow> exn option \<Rightarrow> string option" where
  "toStackString stackOf e =
    (case e of
       None \<Rightarrow> None
     | Some (ThrownVal v) \<Rightarrow>
         (case v of Undef \<Rightarrow> None | Null \<Rightarrow> None | Str s \<Rightarrow> Some s | _ \<Rightarrow> Some (json_text v))
     | Some err \<Rightarrow> Some (stackOf err))"

record normalized_event =
  nlLevel :: log_level
  nlMessage :: string
  nlTimestamp :: string
  nlErrorKey :: "string option"
  nlCorrelation :: "string option"
  nlCaller :: string
  nlLoggerKey :: "string option"
  nlRootCause :: "string option"
  nlDetails :: jsval
  nlStack :: "string option"
  nlErrorCode :: "string option"
  nlChain :: "jsval list"
  nlContext :: jsval
  nlKubernetes :: jsval

definition derivedAppError :: "log_event \<Rightarrow> exn option" where
  "derivedAppError ev = (case evRootCause ev of Some e \<Rightarrow> if is_AppError e then Some e else None | None \<Rightarrow> None)"

definition firstOf :: "'a option \<Rightarrow> 'a option \<Rightarrow> 'a option" where
  "firstOf a b = (case a of None \<Rightarrow> b | Some x \<Rightarrow> Some x)"

definition normalizeEvent :: "(exn \<Rightarrow> string) \<Rightarrow> logger_options \<Rightarrow> int \<Rightarrow> log_event \<Rightarrow> normalized_event" where
  "normalizeEvent stackOf lo t ev =
    (let derived = derivedAppError ev in
     \<lparr>nlLevel = evLevel ev, nlMessage = serializeMessage (evMessage ev), nlTimestamp = toISOString t,
      nlErrorKey = firstOf (evErrorKey ev) (map_option errorKey derived),
      nlCorrelation = evCorrelation ev,
      nlCaller = (if evCaller ev = [] then ''unknown'' else evCaller ev),
      nlLoggerKey = evLoggerKey ev,
      nlRootCause = toStackString stackOf (evRootCause ev),
      nlDetails = (case evRootCause ev of None \<Rightarrow> Undef | Some e \<Rightarrow> coalesce (normalizeErrorDetails e) Undef),
      nlStack = toStackString stackOf (evErrorStack ev),
      nlErrorCode = firstOf (evErrorCode ev) (firstOf (map_option errorCode derived)
        (if nonblank (evErrorKey ev) then Some (resolveErrorCode (the (evErrorKey ev))) else None)),
      nlChain = (if evErrorChain ev \<noteq> [] then map (redactLogSecrets \<circ> chain_value) (evErrorChain ev)
        else case derived of None \<Rightarrow> [] | Some e \<Rightarrow> map chain_value (errorChain e)),
      nlContext = coalesce (redactLogSecrets (evContext ev)) Undef,
      nlKubernetes = resolveKubernetesMetadata (loKubernetes lo)\<rparr>)"

definition orUndef :: "string option \<Rightarrow> jsval" where
  "orUndef v = (case v of None \<Rightarrow> Undef | Some s \<Rightarrow> Str s)"

definition normalized_value :: "normalized_event \<Rightarrow> jsval" where
  "normalized_value n = Obj [(''level'', Str (log_level_str (nlLevel n))), (''message'', Str (nlMessage n)),
    (''timestamp'', Str (nlTimestamp n)), (''errorKey'', orUndef (nlErrorKey n)),
    (''correlationId'', orUndef (nlCorrelation n)), (''caller'', Str (nlCaller n)), (''loggerKey'', orUndef (nlLoggerKey n)),
    (''rootCause'', orUndef (nlRootCause n)), (''rootCauseDetails'', nlDetails n), (''errorStack'', orUndef (nlStack n)),
    (''errorCode'', orUndef (nlErrorCode n)), (''errorChain'', Arr (nlChain n)), (''context'', nlContext n),
    (''kubernetes'', nlKubernetes n)]"

section \<open>The text line\<close>

definition identStart :: "char \<Rightarrow> bool" where
  "identStart c = (is_letter c \<or> c = CHR ''_'')"

definition identChar :: "char \<Rightarrow> bool" where
  "identChar c = (is_letter c \<or> is_digit c \<or> c = CHR ''_'')"

text \<open>\<open>/{\$\s*([a-zA-Z_][a-zA-Z0-9_]*)\s*}/\<close> at the start of a text: the name and what follows.\<close>

definition placeholder :: "string \<Rightarrow> (string \<times> string) option" where
  "placeholder s =
    (case s of
       a # b # r \<Rightarrow>
         (let r1 = dropWhile js_space r; key = takeWhile identChar r1; r2 = dropWhile js_space (dropWhile identChar r1) in
          if a = CHR ''{'' \<and> b = CHR ''$'' \<and> key \<noteq> [] \<and> identStart (hd key) \<and> r2 \<noteq> [] \<and> hd r2 = CHR ''}''
          then Some (key, tl r2) else None)
     | _ \<Rightarrow> None)"

lemma placeholder_shorter: "placeholder s = Some (key, rest) \<Longrightarrow> length rest < length s"
proof -
  assume p: "placeholder s = Some (key, rest)"
  then obtain a b r where s: "s = a # b # r" by (auto simp: placeholder_def split: list.splits)
  have "length rest \<le> length (dropWhile js_space (dropWhile identChar (dropWhile js_space r)))"
    using p s by (auto simp: placeholder_def Let_def split: if_splits)
  also have "\<dots> \<le> length r" by (meson length_dropWhile_le order_trans)
  finally show ?thesis using s by simp
qed

function interpolate :: "(string \<Rightarrow> string option) \<Rightarrow> string \<Rightarrow> string" where
  "interpolate values [] = []"
| "interpolate values (c # s) =
    (case placeholder (c # s) of
       None \<Rightarrow> c # interpolate values s
     | Some (key, rest) \<Rightarrow> (case values key of None \<Rightarrow> [] | Some v \<Rightarrow> v) @ interpolate values rest)"
  by pat_completeness auto
termination
  by (relation "measure (\<lambda>(values, s). length s)") (auto dest: placeholder_shorter)

definition buildDefaultLogTextFormat :: string where
  "buildDefaultLogTextFormat = ''[{$timestamp}] {$level} {$caller} {$correlationId} {$errorCode} {$errorKey} {$message}{$context}{$kubernetes}{$errorChain}{$rootCauseDetails}{$rootCause}{$errorStack}''"

definition bracketed :: "string option \<Rightarrow> string" where
  "bracketed v = (if nonblank v then ''['' @ the v @ '']'' else [])"

definition labelled :: "string \<Rightarrow> jsval \<Rightarrow> string" where
  "labelled name v = (if truthy v then '' | '' @ name @ ''='' @ json_text v else [])"

definition labelledText :: "string \<Rightarrow> string option \<Rightarrow> string" where
  "labelledText name v = (if nonblank v then '' | '' @ name @ ''='' @ the v else [])"

definition textValues :: "normalized_event \<Rightarrow> string \<Rightarrow> string option" where
  "textValues n = map_of
    [(''level'', log_level_str (nlLevel n)), (''message'', nlMessage n), (''timestamp'', nlTimestamp n),
     (''caller'', nlCaller n), (''correlationId'', bracketed (nlCorrelation n)), (''errorCode'', bracketed (nlErrorCode n)),
     (''errorKey'', bracketed (nlErrorKey n)), (''context'', labelled ''context'' (nlContext n)),
     (''kubernetes'', labelled ''kubernetes'' (nlKubernetes n)),
     (''errorChain'', if nlChain n \<noteq> [] then labelled ''errorChain'' (Arr (nlChain n)) else []),
     (''rootCauseDetails'', labelled ''rootCauseDetails'' (nlDetails n)),
     (''rootCause'', labelledText ''rootCause'' (nlRootCause n)), (''errorStack'', labelledText ''stack'' (nlStack n))]"

definition textLine :: "normalized_event \<Rightarrow> string" where
  "textLine n = interpolate (textValues n) buildDefaultLogTextFormat"

section \<open>Sinks\<close>

definition newline :: char where
  "newline = CHR 0x0A"

text \<open>\<open>replace(/(?<!\\)\n/g, ' ')\<close>: a newline after a backslash stays.\<close>

fun joinLines :: "char option \<Rightarrow> string \<Rightarrow> string" where
  "joinLines prev [] = []"
| "joinLines prev (c # s) =
    (if c = newline \<and> prev \<noteq> Some backslash then CHR '' '' else c) # joinLines (Some c) s"

definition fileText :: "logger_options \<Rightarrow> normalized_event \<Rightarrow> string" where
  "fileText lo n =
    (case loFileFormat lo of
       JsonFormat \<Rightarrow> json_text (normalized_value n) @ [newline]
     | TextFormat \<Rightarrow> joinLines None (textLine n) @ [newline])"

definition levelAllowed :: "log_level \<Rightarrow> log_level list \<Rightarrow> bool" where
  "levelAllowed level allowed = (allowed = [] \<or> level \<in> set allowed)"

record 'b log_calls =
  lcConsole :: "string \<Rightarrow> 'b \<Rightarrow> (exn + unit) \<times> 'b"
  lcConsoleError :: "string \<Rightarrow> 'b \<Rightarrow> (exn + unit) \<times> 'b"
  lcMkdir :: "string \<Rightarrow> 'b \<Rightarrow> (exn + unit) \<times> 'b"
  lcAppend :: "string \<Rightarrow> string \<Rightarrow> 'b \<Rightarrow> (exn + unit) \<times> 'b"
  lcFetch :: "string \<Rightarrow> string \<Rightarrow> string \<Rightarrow> int \<Rightarrow> 'b \<Rightarrow> (exn + unit) \<times> 'b"

definition chosen :: "(log_sinks \<Rightarrow> bool option) \<Rightarrow> log_event \<Rightarrow> bool" where
  "chosen sink ev = (case Option.bind (evSinks ev) sink of None \<Rightarrow> True | Some b \<Rightarrow> b)"

definition appendLine :: "'b log_calls \<Rightarrow> logger_options \<Rightarrow> normalized_event \<Rightarrow> (('b, 'z) base_world_scheme, unit) io" where
  "appendLine G lo n =
    (if \<not> nonblank (loFilePath lo) then ret ()
     else andThen (callOut (lcMkdir G (dirname (the (loFilePath lo))))) (\<lambda>_.
          callOut (lcAppend G (the (loFilePath lo)) (fileText lo n))))"

definition postEvent ::
  "'b log_calls \<Rightarrow> (exn \<Rightarrow> string) \<Rightarrow> logger_options \<Rightarrow> normalized_event \<Rightarrow> (('b, 'z) base_world_scheme, unit) io" where
  "postEvent G stackOf lo n =
    catching (callOut (lcFetch G (the (loCurlUrl lo)) (loCurlMethod lo) (json_text (normalized_value n)) (loCurlTimeoutMs lo)))
      (\<lambda>e. callOut (lcConsoleError G (''Curl log sink failed: '' @
        (case toStackString stackOf (Some e) of None \<Rightarrow> ''unknown'' | Some s \<Rightarrow> s))))"

text \<open>A directory or file that cannot be written makes the call of the logger throw.\<close>

definition logMessage ::
  "'b log_calls \<Rightarrow> (exn \<Rightarrow> string) \<Rightarrow> logger_options \<Rightarrow> log_event \<Rightarrow> (('b, 'z) base_world_scheme, normalized_event) io" where
  "logMessage G stackOf lo ev =
    andThen now (\<lambda>t.
    let n = normalizeEvent stackOf lo t ev in
    andThen (whenever (chosen sinkConsole ev \<and> loConsoleEnabled lo \<and> levelAllowed (evLevel ev) (loConsoleLevels lo))
      (callOut (lcConsole G (case loConsoleFormat lo of
        JsonFormat \<Rightarrow> json_text (normalized_value n) | TextFormat \<Rightarrow> textLine n)))) (\<lambda>_.
    andThen (whenever (chosen sinkFile ev \<and> loFileEnabled lo \<and> levelAllowed (evLevel ev) (loFileLevels lo))
      (appendLine G lo n)) (\<lambda>_.
    andThen (whenever (chosen sinkCurl ev \<and> loCurlEnabled lo \<and> nonblank (loCurlUrl lo) \<and>
        levelAllowed (evLevel ev) (loCurlLevels lo)) (postEvent G stackOf lo n)) (\<lambda>_.
    ret n))))"

section \<open>One line for each event\<close>

lemma newline_code: "c = newline \<longleftrightarrow> (of_char c :: nat) = 10"
proof -
  have "(of_char newline :: nat) = 10" by (simp add: newline_def)
  then show ?thesis by (metis of_char_eq_iff)
qed

lemma newline_digits: "newline \<notin> set (nat_str n)"
  using nat_str_digits [of n] by (auto simp: list_all_iff is_digit_def newline_def)

lemma newline_int: "newline \<notin> set (int_str i)"
  using newline_digits by (auto simp: int_str_def newline_def)

lemma newline_fraction: "n < d \<Longrightarrow> newline \<notin> set (fraction_digits k n d)"
proof (induction k n d rule: fraction_digits.induct)
  case (2 k n d)
  have "10 * n div d < 10" using 2(2) by (simp add: less_mult_imp_div_less)
  then have "char_of (48 + 10 * n div d) \<noteq> newline" by (simp add: newline_code)
  then show ?case using 2 by auto
qed simp

lemma newline_num: "newline \<notin> set (num_str x)"
proof (cases x)
  case (Fin r)
  obtain a d where q: "quotient_of r = (a, d)" by fastforce
  then have "0 < d" using quotient_of_denom_pos by blast
  then have "newline \<notin> set (fraction_digits 20 (nat \<bar>a\<bar> mod nat d) (nat d))" by (intro newline_fraction) simp
  then show ?thesis using Fin q newline_int newline_digits by (auto simp: num_str_def newline_def)
qed (simp_all add: num_str_def newline_def)

lemma newline_escaped: "newline \<notin> set (escape_char c)"
proof -
  have "newline \<noteq> hex_digit k" if "k < 16" for k
    using that by (auto simp: hex_digit_def newline_code dest: sym)
  moreover have "(of_char c :: nat) < 256" by simp
  ultimately show ?thesis
    by (auto simp: escape_char_def Let_def backslash_def newline_def char_by_code split: if_splits)
qed

lemma newline_quoted: "newline \<notin> set (json_quote s)"
  using newline_escaped by (auto simp: json_quote_def quote_char_def newline_def)

lemma newline_join: "newline \<notin> set sep \<Longrightarrow> (\<And>x. x \<in> set xs \<Longrightarrow> newline \<notin> set x) \<Longrightarrow> newline \<notin> set (join sep xs)"
  by (induction sep xs rule: join.induct) auto

lemma newline_json: "newline \<notin> set (json_text v)"
proof (induction v rule: json_text.induct)
  case (4 n)
  then show ?case using newline_num by (cases n) (simp_all add: newline_def)
next
  case (5 s)
  then show ?case using newline_quoted by simp
next
  case (6 vs)
  then have "newline \<notin> set (join '','' (map json_text vs))" by (intro newline_join) (auto simp: newline_def)
  then show ?case by (auto simp: newline_def)
next
  case (7 kvs)
  have "newline \<notin> set (json_quote k @ '':'' @ json_text v)" if "(k, v) \<in> set kvs" "v \<noteq> Undef" for k v
    using 7 [OF that(1)] that(2) newline_quoted by (auto simp: newline_def)
  then have "newline \<notin> set (join '','' (filter (\<lambda>m. m \<noteq> [])
      (map (\<lambda>kv. if snd kv = Undef then [] else json_quote (fst kv) @ '':'' @ json_text (snd kv)) kvs)))"
    by (intro newline_join) (auto simp: newline_def)
  then show ?case by (auto simp: newline_def)
qed (simp_all add: newline_def)

lemma joined_newline:
  "newline \<in> set (joinLines prev s) \<Longrightarrow>
    (prev = Some backslash \<and> hd (joinLines prev s) = newline) \<or> (\<exists>p q. joinLines prev s = p @ [backslash, newline] @ q)"
proof (induction prev s rule: joinLines.induct)
  case (2 prev c s)
  let ?c = "if c = newline \<and> prev \<noteq> Some backslash then CHR '' '' else c"
  show ?case
  proof (cases "newline \<in> set (joinLines (Some c) s)")
    case False
    then have "?c = newline" using 2(2) by auto
    then have "prev = Some backslash" "c = newline" by (auto simp: newline_def split: if_splits)
    then show ?thesis by simp
  next
    case True
    from 2(1) [OF True] show ?thesis
    proof (elim disjE conjE exE)
      assume "Some c = Some backslash" and h: "hd (joinLines (Some c) s) = newline"
      then have "?c = backslash" by (simp add: newline_def backslash_def)
      moreover obtain q where "joinLines (Some c) s = newline # q"
        using True h by (cases "joinLines (Some c) s") auto
      ultimately have "joinLines prev (c # s) = [] @ [backslash, newline] @ q" by simp
      then show ?thesis by blast
    next
      fix p q assume "joinLines (Some c) s = p @ [backslash, newline] @ q"
      then have "joinLines prev (c # s) = (?c # p) @ [backslash, newline] @ q" by simp
      then show ?thesis by blast
    qed
  qed
qed simp

section \<open>Redaction\<close>

text \<open>An error and an event with their contexts redacted: what the sinks may show of them.\<close>

fun publicError :: "exn \<Rightarrow> exn" where
  "publicError (AppErr k c cl m co cx st None ch) = AppErr k c cl m co (redactLogSecrets cx) st None ch"
| "publicError (AppErr k c cl m co cx st (Some e) ch) =
    AppErr k c cl m co (redactLogSecrets cx) st (Some (publicError e)) ch"
| "publicError (PlainErr n m None) = PlainErr n m None"
| "publicError (PlainErr n m (Some e)) = PlainErr n m (Some (publicError e))"
| "publicError (ThrownVal v) = ThrownVal v"

definition publicEvent :: "log_event \<Rightarrow> log_event" where
  "publicEvent ev = ev\<lparr>evContext := redactLogSecrets (evContext ev), evRootCause := map_option publicError (evRootCause ev),
    evErrorStack := map_option publicError (evErrorStack ev)\<rparr>"

text \<open>A \<open>stack\<close> shows name, message and frames, no property of the error.\<close>

definition stack_hides_contexts :: "(exn \<Rightarrow> string) \<Rightarrow> bool" where
  "stack_hides_contexts stackOf \<longleftrightarrow> (\<forall>e. stackOf (publicError e) = stackOf e)"

lemma redact_again: "redactLogSecrets (redactLogSecrets v) = redactLogSecrets v"
  by (simp add: redactLogSecrets_def redactBy_idem)

lemma public_fields:
  "is_AppError (publicError e) = is_AppError e"
  "is_AppError e \<Longrightarrow> errorKey (publicError e) = errorKey e"
  "is_AppError e \<Longrightarrow> errorCode (publicError e) = errorCode e"
  "is_AppError e \<Longrightarrow> errorChain (publicError e) = errorChain e"
  by (induction e rule: publicError.induct; simp add: is_AppError_def)+

lemma public_details: "normalizeErrorDetails (publicError e) = normalizeErrorDetails e"
  by (induction e rule: publicError.induct) (simp_all add: appDetails_def plainDetails_def redact_again)

lemma public_again: "publicError (publicError e) = publicError e"
  by (induction e rule: publicError.induct) (simp_all add: redact_again)

lemma public_stack:
  assumes "stack_hides_contexts stackOf"
  shows "toStackString stackOf (map_option publicError v) = toStackString stackOf v"
proof (cases v)
  case (Some e)
  then show ?thesis using assms [unfolded stack_hides_contexts_def, rule_format, of e]
    by (cases e rule: publicError.cases) (simp_all add: toStackString_def)
qed (simp add: toStackString_def)

lemma public_event_fields:
  "evLevel (publicEvent ev) = evLevel ev" "evMessage (publicEvent ev) = evMessage ev"
  "evErrorKey (publicEvent ev) = evErrorKey ev" "evErrorCode (publicEvent ev) = evErrorCode ev"
  "evCorrelation (publicEvent ev) = evCorrelation ev" "evCaller (publicEvent ev) = evCaller ev"
  "evLoggerKey (publicEvent ev) = evLoggerKey ev" "evErrorChain (publicEvent ev) = evErrorChain ev"
  "evSinks (publicEvent ev) = evSinks ev" "evContext (publicEvent ev) = redactLogSecrets (evContext ev)"
  "evRootCause (publicEvent ev) = map_option publicError (evRootCause ev)"
  "evErrorStack (publicEvent ev) = map_option publicError (evErrorStack ev)"
  by (simp_all add: publicEvent_def)

lemma public_normalized:
  assumes "stack_hides_contexts stackOf"
  shows "normalizeEvent stackOf lo t (publicEvent ev) = normalizeEvent stackOf lo t ev"
proof -
  have derived: "derivedAppError (publicEvent ev) = map_option publicError (derivedAppError ev)"
    by (cases "evRootCause ev") (simp_all add: derivedAppError_def public_event_fields public_fields)
  have app: "is_AppError e" if "derivedAppError ev = Some e" for e
    using that by (auto simp: derivedAppError_def split: option.splits if_splits)
  have stack: "toStackString stackOf (Some (publicError e)) = toStackString stackOf (Some e)" for e
    using public_stack [OF assms, of "Some e"] by simp
  show ?thesis
    using app stack public_stack [OF assms]
    by (cases "derivedAppError ev"; cases "evRootCause ev")
      (simp_all add: normalizeEvent_def Let_def derived public_event_fields public_fields public_details redact_again)
qed

lemma public_logged:
  assumes "stack_hides_contexts stackOf"
  shows "logMessage G stackOf lo (publicEvent ev) = logMessage G stackOf lo ev"
proof -
  have "chosen sink (publicEvent ev) = chosen sink ev" "evLevel (publicEvent ev) = evLevel ev" for sink
    by (simp_all add: chosen_def public_event_fields)
  then show ?thesis by (simp add: logMessage_def public_normalized [OF assms])
qed

section \<open>Properties\<close>

text \<open>
  An event appends exactly one line to the log file, whatever it contains: in the format JSON always,
  in the text format unless a backslash stands before a newline in it.
\<close>

theorem log_file_one_line:
  "\<exists>s. fileText lo n = s @ [newline] \<and>
    (newline \<in> set s \<longrightarrow> loFileFormat lo = TextFormat \<and> (\<exists>p q. s = p @ [backslash, newline] @ q))"
proof (cases "loFileFormat lo")
  case JsonFormat
  then show ?thesis using newline_json by (simp add: fileText_def)
next
  case TextFormat
  then show ?thesis using joined_newline [of None] by (simp add: fileText_def)
qed


section \<open>Examples\<close>

definition sample_log_options :: "log_format \<Rightarrow> logger_options" where
  "sample_log_options f = \<lparr>loConsoleEnabled = False, loConsoleLevels = [], loConsoleFormat = TextFormat,
    loFileEnabled = True, loFileLevels = [], loFileFormat = f, loFilePath = Some ''/var/log/mqttctl.log'',
    loCurlEnabled = False, loCurlLevels = [], loCurlMethod = ''POST'', loCurlTimeoutMs = 1000, loCurlUrl = None,
    loKubernetes = \<lparr>k8sEnabled = False, k8sPodName = None, k8sDeployment = None, k8sNamespace = None, k8sPodIp = None,
      k8sPodIps = None, k8sNodeName = None\<rparr>\<rparr>"

text \<open>A message with a backslash before a newline keeps the newline, and so takes two lines of the text file.\<close>

definition forging_message :: string where
  "forging_message = ''login of x'' @ [backslash, newline] @ ''[2026-01-01T00:00:00.000Z] info auth::login all is well''"

definition sample_file_text :: "log_format \<Rightarrow> string" where
  "sample_file_text f = fileText (sample_log_options f)
    (normalizeEvent (messageOr []) (sample_log_options f) 0 (logEvent LogInfo ''auth::login'' forging_message None Undef))"

lemma forged_line: "joinLines None forging_message = forging_message" "newline \<in> set forging_message"
  by (simp_all add: forging_message_def newline_def backslash_def)

theorem log_file_one_line_witness: "length (filter (\<lambda>c. c = newline) (sample_file_text JsonFormat)) = 1"
proof -
  obtain s where "sample_file_text JsonFormat = s @ [newline]" "newline \<notin> set s"
    using log_file_one_line [of "sample_log_options JsonFormat" "normalizeEvent (messageOr []) (sample_log_options JsonFormat) 0
      (logEvent LogInfo ''auth::login'' forging_message None Undef)"]
    by (auto simp: sample_file_text_def sample_log_options_def)
  then show ?thesis by (auto simp: filter_empty_conv)
qed


end
