(* ===== verification/Startup.thy ===== *)
theory Startup
  imports Dashboard Logger
begin

text \<open>
  The start of the application (\<open>server/context.ts\<close>): what is logged, the bootstrap of the default role
  with its retries, the first contact with the broker agent, the order in which the services come up,
  and the one context all requests share.
  \<^item> A \<open>for\<close> loop over attempts is a recursion on the attempts left; \<open>sleep\<close> advances the clock.
  \<^item> The two tasks that \<open>createContext\<close> does not await run after it, as actions of their own; what they do
    before their first await, it does.
  \<^item> The objects the services are made of have no state of their own beside the world's; the driver of the
    database, which its constructor opens, is outside of the model.
\<close>

definition dynsecBootstrapRetryDelayMs :: int where
  "dynsecBootstrapRetryDelayMs = 1000"

definition dynsecBootstrapRetryAttempts :: nat where
  "dynsecBootstrapRetryAttempts = 30"

definition dynsecBootstrapPendingMessage :: string where
  "dynsecBootstrapPendingMessage = ''Still setting things up.''"

definition enabledAuthModes :: "loaded_config \<Rightarrow> string list" where
  "enabledAuthModes L =
    (let a = cfAuth (ldConfig L) in
     (if acLocalEnabled a then [''local''] else []) @ (if acOidcEnabled a then [''oidc''] else []) @
     (if acHeaderEnabled a then [''header''] else []) @ (if mcEnabled (acMcp a) then [''mcp''] else []))"

definition startupCallbackUrl :: "loaded_config \<Rightarrow> string" where
  "startupCallbackUrl L =
    (let configured = Option.bind (acOidc (cfAuth (ldConfig L))) ocCallbackUrl in
     if nonblank configured then the configured
     else cfPublicBaseUrl (ldConfig L) @ cfBasePath (ldConfig L) @ ''/auth/callback'')"

definition sleep :: "int \<Rightarrow> (('b, 'z) base_world_scheme, unit) io" where
  "sleep ms = modify (\<lambda>w. w\<lparr>clock := clock w + ms\<rparr>)"

definition describeAppErrorForLog :: "exn \<Rightarrow> (string \<times> jsval) list" where
  "describeAppErrorForLog e =
    (if \<not> is_AppError e then [(''errorKey'', Null), (''errorCode'', Null), (''errorContext'', Null), (''errorChain'', Arr [])]
     else [(''errorKey'', Str (errorKey e)), (''errorCode'', Str (errorCode e)),
       (''errorContext'', coalesce (errorContext e) Null), (''errorChain'', Arr (map chain_value (errorChain e)))])"

definition shouldRetryDynsecBootstrap :: "bool \<Rightarrow> exn \<Rightarrow> bool" where
  "shouldRetryDynsecBootstrap brokerAgentConfigured e =
    (brokerAgentConfigured \<and> is_AppError e \<and> errorKey e \<in> {''BROKER_AGENT_REQUEST_FAILED'', ''DYNSEC_STATE_READ_FAILED''})"

text \<open>The fields of an event taken from an \<open>AppError\<close>.\<close>

definition withErrorFields :: "exn \<Rightarrow> log_event \<Rightarrow> log_event" where
  "withErrorFields e ev =
    (if is_AppError e then ev\<lparr>evErrorKey := Some (errorKey e), evErrorCode := Some (errorCode e), evErrorChain := errorChain e,
       evRootCause := Some e\<rparr>
     else ev\<lparr>evRootCause := Some e\<rparr>)"

section \<open>The bootstrap of the default role\<close>

definition logDynsecBootstrapRetry ::
  "exn \<Rightarrow> string option \<Rightarrow> nat \<Rightarrow> nat \<Rightarrow> string \<Rightarrow> jsval option \<Rightarrow> (('b, 'z) base_world_scheme, unit) io" where
  "logDynsecBootstrapRetry e corr attempt maxAttempts stage brokerRunning =
    emit (withErrorFields e (logEvent LogWarn ''context::dynsecBootstrap''
      (''Default dynsec role bootstrap attempt '' @ nat_str attempt @ '' is still setting things up. Retrying.'') corr
      (Obj ([(''attempt'', num_int (int attempt)), (''maxAttempts'', num_int (int maxAttempts)),
         (''retryDelayMs'', num_int dynsecBootstrapRetryDelayMs), (''stage'', Str stage)] @
         (case brokerRunning of None \<Rightarrow> [] | Some v \<Rightarrow> if v = Undef then [] else [(''brokerRunning'', v)]) @
         describeAppErrorForLog e))))"

definition brokerNotRunning :: "string option \<Rightarrow> nat \<Rightarrow> nat \<Rightarrow> jsval \<Rightarrow> exn" where
  "brokerNotRunning corr attempt maxAttempts health =
    newAppError ''context::dynsecBootstrap'' ''Broker agent is reachable, but the broker is still not running.''
      ''BROKER_AGENT_REQUEST_FAILED'' corr
      (Obj [(''attempt'', num_int (int attempt)), (''maxAttempts'', num_int (int maxAttempts)),
        (''brokerRunning'', getProp ''brokerRunning'' health), (''brokerPid'', getProp ''brokerPid'' health)]) 500 None"

text \<open>\<open>False\<close> stands for \<open>continue\<close>.\<close>

definition retryOrThrow ::
  "loaded_config \<Rightarrow> string option \<Rightarrow> nat \<Rightarrow> nat \<Rightarrow> string \<Rightarrow> exn \<Rightarrow> (('b, 'z) base_world_scheme, bool) io" where
  "retryOrThrow L corr attempt maxAttempts stage e =
    (if \<not> shouldRetryDynsecBootstrap (agentConfigured L) e \<or> maxAttempts \<le> attempt then raise e
     else andThen (logDynsecBootstrapRetry e corr attempt maxAttempts stage None) (\<lambda>_.
          andThen (sleep dynsecBootstrapRetryDelayMs) (\<lambda>_. ret False)))"

definition healthStage ::
  "'b platform \<Rightarrow> loaded_config \<Rightarrow> string option \<Rightarrow> nat \<Rightarrow> nat \<Rightarrow> (('b, 'z) base_world_scheme, bool) io" where
  "healthStage P L corr attempt maxAttempts =
    catching
      (andThen (readHealth P L corr) (\<lambda>health.
       andThen (liftR (readProp ''brokerRunning'' health)) (\<lambda>running.
       if truthy running then ret True
       else if maxAttempts \<le> attempt then raise (brokerNotRunning corr attempt maxAttempts health)
       else andThen (logDynsecBootstrapRetry (brokerNotRunning corr attempt maxAttempts health) corr attempt maxAttempts
              ''health'' (Some running)) (\<lambda>_.
            andThen (sleep dynsecBootstrapRetryDelayMs) (\<lambda>_. ret False)))))
      (retryOrThrow L corr attempt maxAttempts ''health'')"

definition dynsecStage ::
  "'b platform \<Rightarrow> loaded_config \<Rightarrow> string option \<Rightarrow> nat \<Rightarrow> nat \<Rightarrow> ('b, 'z, bool) dsio" where
  "dynsecStage P L corr attempt maxAttempts =
    catching
      (andThen (ensureBootstrapDefaultRole P L corr) (\<lambda>_. andThen clearBootstrapPending (\<lambda>_. ret True)))
      (retryOrThrow L corr attempt maxAttempts ''dynsec'')"

primrec bootstrapAttempts ::
  "'b platform \<Rightarrow> loaded_config \<Rightarrow> string option \<Rightarrow> nat \<Rightarrow> nat \<Rightarrow> ('b, 'z, unit) dsio" where
  "bootstrapAttempts P L corr maxAttempts 0 = ret ()"
| "bootstrapAttempts P L corr maxAttempts (Suc left) =
    andThen (if agentConfigured L then healthStage P L corr (maxAttempts - left) maxAttempts else ret True) (\<lambda>proceed.
    if \<not> proceed then bootstrapAttempts P L corr maxAttempts left
    else andThen (dynsecStage P L corr (maxAttempts - left) maxAttempts) (\<lambda>finished.
      if finished then ret () else bootstrapAttempts P L corr maxAttempts left))"

definition bootstrapMaxAttempts :: "loaded_config \<Rightarrow> nat" where
  "bootstrapMaxAttempts L = (if agentConfigured L then dynsecBootstrapRetryAttempts else 1)"

definition ensureDynsecBootstrapDefaultRole :: "'b platform \<Rightarrow> loaded_config \<Rightarrow> string option \<Rightarrow> ('b, 'z, unit) dsio" where
  "ensureDynsecBootstrapDefaultRole P L corr =
    andThen (markBootstrapPending dynsecBootstrapPendingMessage) (\<lambda>_.
    bootstrapAttempts P L corr (bootstrapMaxAttempts L) (bootstrapMaxAttempts L))"

text \<open>What \<open>createContext\<close> does when the bootstrap fails; the failure ends here.\<close>

definition bootstrapFailed :: "string option \<Rightarrow> exn \<Rightarrow> ('b, 'z, unit) dsio" where
  "bootstrapFailed corr e =
    andThen (gets bootError) (\<lambda>be.
    andThen (markBootstrapFailed (case be of Some b \<Rightarrow> beReason b
      | None \<Rightarrow> messageOr ''Default dynsec role bootstrap failed.'' e)) (\<lambda>_.
    emit (withErrorFields e (logEvent LogWarn ''context::dynsecBootstrap'' ''Default dynsec role bootstrap failed.'' corr
      (Obj (describeAppErrorForLog e))))))"

definition dynsecBootstrapTask :: "'b platform \<Rightarrow> loaded_config \<Rightarrow> string option \<Rightarrow> ('b, 'z, unit) dsio" where
  "dynsecBootstrapTask P L corr =
    catching (bootstrapAttempts P L corr (bootstrapMaxAttempts L) (bootstrapMaxAttempts L)) (bootstrapFailed corr)"

section \<open>First contact with the broker agent\<close>

definition runtimeContext :: "loaded_config \<Rightarrow> agent_runtime \<Rightarrow> jsval" where
  "runtimeContext L r = Obj [(''baseUrl'', opt_str (agentBaseUrl L)),
    (''agent'', Obj [(''version'', opt_str (artVersion r)), (''buildHash'', opt_str (artBuildHash r))]),
    (''broker'', Obj [(''mqttServerVersion'', opt_str (artMqttVersion r))]),
    (''brokerAgent'', Obj [(''baseUrl'', opt_str (agentBaseUrl L)), (''brokerAgentVersion'', opt_str (artVersion r)),
      (''brokerAgentBuildHash'', opt_str (artBuildHash r)), (''mqttServerVersion'', opt_str (artMqttVersion r))])]"

definition allSinks :: log_sinks where
  "allSinks = \<lparr>sinkConsole = Some True, sinkFile = Some True, sinkCurl = Some True\<rparr>"

definition orUnknown :: "string option \<Rightarrow> string" where
  "orUnknown v = (case v of None \<Rightarrow> ''unknown'' | Some s \<Rightarrow> s)"

definition agentContact ::
  "'b platform \<Rightarrow> loaded_config \<Rightarrow> string option \<Rightarrow> string \<Rightarrow> ('b, 'z, unit) dbio" where
  "agentContact P L corr auditCorr =
    andThen (agentReadRuntime P L corr) (\<lambda>r.
    andThen (emit ((logEvent LogInfo ''context::brokerAgentRuntime''
      (''Connected to broker agent '' @ orUnknown (artVersion r) @ '' ('' @ orUnknown (artBuildHash r) @ '').'') corr
      (runtimeContext L r))\<lparr>evSinks := Some allSinks\<rparr>)) (\<lambda>_.
    auditRecord P None None None auditCorr ''broker_agent.connect'' ''broker_agent'' (agentBaseUrl L) Null (runtimeContext L r)
      (Obj [(''connected'', Bool True), (''runtime'', Obj [(''brokerAgentVersion'', opt_str (artVersion r)),
         (''brokerAgentBuildHash'', opt_str (artBuildHash r)), (''mqttServerVersion'', opt_str (artMqttVersion r))])]) True))"

primrec contactAttempts ::
  "'b platform \<Rightarrow> loaded_config \<Rightarrow> string option \<Rightarrow> string \<Rightarrow> nat \<Rightarrow> ('b, 'z, unit) dbio" where
  "contactAttempts P L corr auditCorr 0 = ret ()"
| "contactAttempts P L corr auditCorr (Suc left) =
    andThen (catching (andThen (agentContact P L corr auditCorr) (\<lambda>_. ret True))
      (\<lambda>e. if left \<noteq> 0 then andThen (sleep dynsecBootstrapRetryDelayMs) (\<lambda>_. ret False)
        else andThen (emit (withErrorFields e (logEvent LogWarn ''context::brokerAgentRuntime''
            ''Broker agent runtime metadata could not be read.'' corr
            (Obj [(''baseUrl'', opt_str (agentBaseUrl L)),
              (''attempt'', num_int (int (dynsecBootstrapRetryAttempts - left))),
              (''maxAttempts'', num_int (int dynsecBootstrapRetryAttempts)),
              (''retryDelayMs'', num_int dynsecBootstrapRetryDelayMs)])))) (\<lambda>_. ret False))) (\<lambda>finished.
    if finished then ret () else contactAttempts P L corr auditCorr left)"

definition logBrokerAgentRuntimeInfo :: "'b platform \<Rightarrow> loaded_config \<Rightarrow> string option \<Rightarrow> ('b, 'z, unit) dbio" where
  "logBrokerAgentRuntimeInfo P L corr =
    (if \<not> agentConfigured L then ret ()
     else andThen (case corr of Some c \<Rightarrow> ret c | None \<Rightarrow> createCorrelationId P) (\<lambda>auditCorr.
       contactAttempts P L corr auditCorr dynsecBootstrapRetryAttempts))"

section \<open>Diagnostics of the start\<close>

record build_info =
  biVersion :: string
  biCommitHash :: string
  biLabel :: string

fun db_kind_str :: "db_kind \<Rightarrow> string" where
  "db_kind_str Sqlite = ''sqlite''"
| "db_kind_str Postgres = ''postgres''"

fun log_format_str :: "log_format \<Rightarrow> string" where
  "log_format_str TextFormat = ''text''"
| "log_format_str JsonFormat = ''json''"

fun http_api_mode_str :: "http_api_mode \<Rightarrow> string" where
  "http_api_mode_str BrowserMode = ''browser''"
| "http_api_mode_str ProxyMode = ''proxy''"

definition startupEvent :: "string \<Rightarrow> string option \<Rightarrow> jsval \<Rightarrow> log_event" where
  "startupEvent message corr ctx = (logEvent LogInfo ''context::startup'' message corr ctx)\<lparr>evSinks := Some allSinks\<rparr>"

definition strings_value :: "string list \<Rightarrow> jsval" where
  "strings_value ss = Arr (map Str ss)"

definition levels_value :: "log_level list \<Rightarrow> jsval" where
  "levels_value ls = Arr (map (Str \<circ> log_level_str) ls)"

definition given :: "string option \<Rightarrow> jsval" where
  "given v = Bool (nonblank v)"

definition buildEvent :: "build_info \<Rightarrow> string option \<Rightarrow> log_event" where
  "buildEvent b corr = startupEvent (''API build '' @ biLabel b @ ''.'') corr
    (Obj [(''build'', Obj [(''label'', Str (biLabel b)), (''version'', Str (biVersion b)), (''commitHash'', Str (biCommitHash b))])])"

text \<open>With PostgreSQL its configuration is there, as the loader has checked.\<close>

definition databaseContext :: "loaded_config \<Rightarrow> jsval" where
  "databaseContext L =
    (case (ldDbKind L, cfPostgres (ldConfig L)) of
       (Postgres, Some pg) \<Rightarrow> Obj [(''kind'', Str ''postgres''), (''host'', Str (pgHost pg)), (''port'', num_int (pgPort pg)),
         (''database'', Str (pgDatabase pg)), (''user'', Str (pgUser pg)), (''ssl'', Bool (pgSsl pg))]
     | _ \<Rightarrow> Obj [(''kind'', Str ''sqlite''), (''sqlitePath'', Str (ldSqlitePath L))])"

definition loggingContext :: "logger_options \<Rightarrow> jsval" where
  "loggingContext lo = Obj
    [(''console'', Obj [(''enabled'', Bool (loConsoleEnabled lo)), (''format'', Str (log_format_str (loConsoleFormat lo))),
        (''levels'', levels_value (loConsoleLevels lo))]),
     (''file'', Obj [(''enabled'', Bool (loFileEnabled lo)), (''format'', Str (log_format_str (loFileFormat lo))),
        (''levels'', levels_value (loFileLevels lo)), (''pathConfigured'', given (loFilePath lo))]),
     (''curl'', Obj [(''enabled'', Bool (loCurlEnabled lo)), (''levels'', levels_value (loCurlLevels lo)),
        (''method'', Str (loCurlMethod lo)), (''timeoutMs'', num_int (loCurlTimeoutMs lo)), (''urlConfigured'', given (loCurlUrl lo))]),
     (''kubernetes'', Obj [(''enabled'', Bool (k8sEnabled (loKubernetes lo))),
        (''fields'', strings_value (map fst (kubernetesFields (loKubernetes lo))))])]"

definition uiContext :: "loaded_config \<Rightarrow> jsval" where
  "uiContext L =
    (let c = ldConfig L; h = cfHttpApi c in
     Obj [(''publicBaseUrl'', Str (cfPublicBaseUrl c)), (''basePath'', Str (cfBasePath c)),
       (''httpApi'', Obj [(''mode'', Str (http_api_mode_str (haMode h))), (''browserBasePath'', Str (haBrowserBasePath h)),
         (''proxyBasePath'', Str (haProxyBasePath h)), (''proxyUpstreamBaseUrlConfigured'', given (haProxyUpstreamBaseUrl h)),
         (''proxyUpstreamBasePath'', Str (haProxyUpstreamBasePath h))]),
       (''uiOverrideCssPathConfigured'', given (ldUiOverrideCssPath L)),
       (''languageFilePathConfigured'', given (uiLanguageFilePath (cfUi c)))])"

definition onOff :: "bool \<Rightarrow> string \<Rightarrow> string \<Rightarrow> string" where
  "onOff b yes no = (if b then yes else no)"

definition completedEvent :: "loaded_config \<Rightarrow> logger_options \<Rightarrow> string option \<Rightarrow> log_event" where
  "completedEvent L lo corr =
    (let c = ldConfig L; b = cfBroker c; t = bkTls b; modes = enabledAuthModes L in
     startupEvent (''API startup completed. auth='' @ join ''+'' modes @ '' db='' @ db_kind_str (ldDbKind L) @
       '' broker='' @ bkHost b @ '':'' @ int_str (bkPort b) @
       '' brokerAgent='' @ onOff (agentConfigured L) ''enabled'' ''disabled'' @
       '' mqttTls='' @ onOff (tlsEnabled t) ''enabled'' ''disabled'' @
       '' logging=console:'' @ onOff (loConsoleEnabled lo) (log_format_str (loConsoleFormat lo)) ''off'' @
       ''/file:'' @ onOff (loFileEnabled lo) (log_format_str (loFileFormat lo)) ''off'' @
       ''/curl:'' @ onOff (loCurlEnabled lo) ''on'' ''off'') corr
       (Obj [(''auth'', Obj [(''enabledModes'', strings_value modes),
           (''sessionTtlMinutes'', num_int (acSessionTtlMinutes (cfAuth c)))]),
         (''database'', databaseContext L),
         (''broker'', Obj [(''host'', Str (bkHost b)), (''port'', num_int (bkPort b)),
           (''brokerAgent'', Bool (agentConfigured L)),
           (''tls'', Obj [(''enabled'', Bool (tlsEnabled t)), (''insecure'', Bool (tlsInsecure t))])]),
         (''logging'', loggingContext lo), (''ui'', uiContext L)]))"

definition enabledOidc :: "loaded_config \<Rightarrow> oidc_config option" where
  "enabledOidc L = (if acOidcEnabled (cfAuth (ldConfig L)) then acOidc (cfAuth (ldConfig L)) else None)"

definition enabledHeader :: "loaded_config \<Rightarrow> header_config option" where
  "enabledHeader L = (if acHeaderEnabled (cfAuth (ldConfig L)) then acHeader (cfAuth (ldConfig L)) else None)"

definition enabledMcp :: "loaded_config \<Rightarrow> mcp_config option" where
  "enabledMcp L = (let m = acMcp (cfAuth (ldConfig L)) in if mcEnabled m then Some m else None)"

definition oidcEndpointOverrides :: "oidc_config option \<Rightarrow> string list" where
  "oidcEndpointOverrides v =
    (case v of None \<Rightarrow> []
     | Some c \<Rightarrow> (if nonblank (ocAuthorizationEndpoint c) then [''authorization''] else []) @
         (if nonblank (ocTokenEndpoint c) then [''token''] else []) @
         (if nonblank (ocUserinfoEndpoint c) then [''userinfo''] else []))"

definition oidcContext :: "loaded_config \<Rightarrow> jsval" where
  "oidcContext L =
    (case enabledOidc L of None \<Rightarrow> Null
     | Some c \<Rightarrow> Obj [(''issuerUrl'', Str (ocIssuerUrl c)), (''clientId'', Str (ocClientId c)),
         (''callbackUrl'', Str (startupCallbackUrl L)),
         (''tokenEndpointAuthMethod'', Str (token_auth_str (ocTokenEndpointAuthMethod c))),
         (''authorizationEndpoint'', orUndef (ocAuthorizationEndpoint c)), (''tokenEndpoint'', orUndef (ocTokenEndpoint c)),
         (''userinfoEndpoint'', orUndef (ocUserinfoEndpoint c)), (''scopes'', strings_value (ocScopes c)),
         (''usernameClaim'', Str (ocUsernameClaim c)), (''emailClaim'', Str (ocEmailClaim c)),
         (''bootstrapAdminSubjectConfigured'', given (ocBootstrapAdminSubject c))])"

definition headerContext :: "loaded_config \<Rightarrow> jsval" where
  "headerContext L =
    (case enabledHeader L of None \<Rightarrow> Null
     | Some c \<Rightarrow> Obj [(''trustedCidrs'', strings_value (hcTrustedCidrs c)), (''requiredHeaders'', strings_value (hcRequiredHeaders c)),
         (''usernameHeader'', Str (hcUsernameHeader c)), (''groupsHeader'', orUndef (hcGroupsHeader c)),
         (''defaultRole'', Str (role_str (UserRole (hcDefaultRole c))))])"

definition mcpContext :: "loaded_config \<Rightarrow> jsval" where
  "mcpContext L =
    (case enabledMcp L of None \<Rightarrow> Null
     | Some m \<Rightarrow> Obj [(''enabled'', Bool True), (''publicKeyFile'', Str (mcPublicKeyFile m)), (''keyId'', Str (mcKeyId m)),
         (''audience'', Str (mcAudience m)), (''maxProofAgeSeconds'', num_int (mcMaxProofAgeSeconds m)),
         (''clockSkewSeconds'', num_int (mcClockSkewSeconds m)), (''heartbeatStaleSeconds'', num_int (mcHeartbeatStaleSeconds m))])"

definition oidcText :: "loaded_config \<Rightarrow> string" where
  "oidcText L =
    (case enabledOidc L of None \<Rightarrow> ''disabled''
     | Some c \<Rightarrow> ''enabled issuer='' @ ocIssuerUrl c @ '' callback='' @ startupCallbackUrl L @ '' tokenAuth='' @
         token_auth_str (ocTokenEndpointAuthMethod c) @ '' claims='' @ ocUsernameClaim c @ ''/'' @ ocEmailClaim c @
         '' endpointOverrides='' @ (case oidcEndpointOverrides (Some c) of [] \<Rightarrow> ''none'' | os \<Rightarrow> join '','' os))"

definition headerText :: "loaded_config \<Rightarrow> string" where
  "headerText L =
    (case enabledHeader L of None \<Rightarrow> ''disabled''
     | Some c \<Rightarrow> ''enabled usernameHeader='' @ hcUsernameHeader c @ '' groupsHeader='' @
         (case hcGroupsHeader c of None \<Rightarrow> ''none'' | Some g \<Rightarrow> g) @ '' trustedCidrs='' @ nat_str (length (hcTrustedCidrs c)) @
         '' requiredHeaders='' @ nat_str (length (hcRequiredHeaders c)) @ '' defaultRole='' @ role_str (UserRole (hcDefaultRole c)))"

definition mcpText :: "loaded_config \<Rightarrow> string" where
  "mcpText L =
    (case enabledMcp L of None \<Rightarrow> ''disabled''
     | Some m \<Rightarrow> ''enabled keyId='' @ mcKeyId m @ '' audience='' @ mcAudience m @ '' publicKeyFile='' @ mcPublicKeyFile m)"

definition authEvent :: "loaded_config \<Rightarrow> string option \<Rightarrow> log_event" where
  "authEvent L corr = startupEvent (''API auth diagnostics. sessionTtlMinutes='' @ int_str (acSessionTtlMinutes (cfAuth (ldConfig L))) @
      '' oidc='' @ oidcText L @ '' header='' @ headerText L @ '' mcp='' @ mcpText L) corr
    (Obj [(''auth'', Obj [(''localEnabled'', Bool (acLocalEnabled (cfAuth (ldConfig L)))), (''oidc'', oidcContext L),
      (''header'', headerContext L), (''mcp'', mcpContext L)])])"

definition agentContext :: "loaded_config \<Rightarrow> jsval" where
  "agentContext L = (case bkAgent (cfBroker (ldConfig L)) of None \<Rightarrow> Null
     | Some a \<Rightarrow> Obj [(''baseUrl'', Str (agBaseUrl a)), (''timeoutMs'', num_int (agTimeoutMs a)), (''insecure'', Bool (agInsecure a))])"

definition brokerEvent :: "loaded_config \<Rightarrow> string option \<Rightarrow> log_event" where
  "brokerEvent L corr =
    (let b = cfBroker (ldConfig L); k = bkKeyFiles b; t = bkTls b;
         reload = (bkReloadCommand b \<noteq> None); restart = (bkRestartCommand b \<noteq> None) in
     startupEvent (''API broker diagnostics. dynsec='' @ onOff (agentConfigured L) ''broker-agent'' ''local-process'' @
       '' rawConfigPath='' @ bkMainConfigPath b @ '' commands=reload:'' @ onOff reload ''configured'' ''disabled'' @
       '',restart:'' @ onOff restart ''configured'' ''disabled'') corr
       (Obj [(''broker'', Obj [(''host'', Str (bkHost b)), (''port'', num_int (bkPort b)), (''mainConfigPath'', Str (bkMainConfigPath b)),
         (''dynsecStateFilePath'', Str (bkDynsecStateFilePath b)), (''dynsecAdminUsername'', Str (bkDynsecAdminUsername b)),
         (''controlBinaryPath'', Str (bkControlBinaryPath b)), (''brokerAgent'', agentContext L),
         (''keyFiles'', Obj [(''caFileConfigured'', given (kfCaFile k)), (''mosquittoPublicKeyConfigured'', given (kfMosquittoPublicKey k)),
            (''brokerPublicKeyConfigured'', given (kfBrokerPublicKey k))]),
         (''tls'', Obj [(''enabled'', Bool (tlsEnabled t)), (''insecure'', Bool (tlsInsecure t)), (''caFileConfigured'', given (tlsCaFile t)),
            (''certFileConfigured'', given (tlsCertFile t)), (''keyFileConfigured'', given (tlsKeyFile t))]),
         (''commands'', Obj [(''reloadConfigured'', Bool reload), (''restartConfigured'', Bool restart)])])]))"

definition logStartupDiagnostics ::
  "loaded_config \<Rightarrow> logger_options \<Rightarrow> string option \<Rightarrow> build_info \<Rightarrow> (('b, 'z) base_world_scheme, unit) io" where
  "logStartupDiagnostics L lo corr b =
    forEach [buildEvent b corr, completedEvent L lo corr, authEvent L corr, brokerEvent L corr] emit"

section \<open>The context\<close>

text \<open>
  What the start reads from outside: the parsers of the configuration, the environment, the build's
  information and the check of IPv6 addresses, with which the constructor of \<open>AuthService\<close> lists the
  trusted proxies.
\<close>

record 'b start_inputs =
  siPlatform :: "'b platform"
  siJson5 :: "string \<Rightarrow> exn + jsval"
  siParseConfig :: "jsval \<Rightarrow> jsval + runtime_config"
  siParseSecrets :: "jsval \<Rightarrow> jsval + runtime_secrets"
  siEnv :: "string \<Rightarrow> string option"
  siBuild :: build_info
  siIsIPv6 :: "string \<Rightarrow> bool"

definition startupSummary :: "loaded_config \<Rightarrow> build_info \<Rightarrow> jsval" where
  "startupSummary L b = Obj [(''build'', Str (biLabel b)), (''authModes'', strings_value (enabledAuthModes L)),
    (''dbKind'', Str (db_kind_str (ldDbKind L))),
    (''broker'', Obj [(''host'', Str (bkHost (cfBroker (ldConfig L)))), (''port'', num_int (bkPort (cfBroker (ldConfig L)))),
      (''brokerAgent'', Bool (agentConfigured L))])]"

text \<open>
  \<open>ctxShared\<close> is \<open>appContextPromise\<close>, once settled; \<open>ctxTimer\<close> is \<open>maintenanceTimerStarted\<close>;
  \<open>ctxTasks\<close> are the contexts whose two background tasks have been started.
\<close>

record 'b startup_world = "'b app_world" +
  ctxShared :: "(exn + loaded_config) option"
  ctxTimer :: bool
  ctxTasks :: "loaded_config list"

type_synonym ('b, 'z, 'a) startio = "(('b, 'z) startup_world_scheme, 'a) io"

definition createContext :: "'b start_inputs \<Rightarrow> string option \<Rightarrow> ('b, 'z, loaded_config) startio" where
  "createContext I corr =
    (let P = siPlatform I; b = siBuild I in
     andThen (loadRuntimeConfig P (siJson5 I) (siParseConfig I) (siParseSecrets I) (siEnv I) corr) (\<lambda>L.
     let lo = parseLoggerOptionsFromEnv (siEnv I) (cfLogging (ldConfig L)) in
     andThen (initializeDb P corr) (\<lambda>_.
     andThen (liftR (trustedProxyList (siIsIPv6 I)
       (case acHeader (cfAuth (ldConfig L)) of None \<Rightarrow> [] | Some h \<Rightarrow> hcTrustedCidrs h))) (\<lambda>_.
     andThen (bootstrapInitialAdmin P L corr) (\<lambda>_.
     andThen (mcpInitialize P L) (\<lambda>_.
     andThen (markBootstrapPending dynsecBootstrapPendingMessage) (\<lambda>_.
     andThen (modify (\<lambda>w. w\<lparr>ctxTasks := ctxTasks w @ [L]\<rparr>)) (\<lambda>_.
     andThen (logStartupDiagnostics L lo corr b) (\<lambda>_.
     andThen (case corr of Some c \<Rightarrow> ret c | None \<Rightarrow> createCorrelationId P) (\<lambda>auditCorr.
     andThen (auditRecord P None None None auditCorr ''app.startup'' ''app_runtime'' (Some (biLabel b)) Null
       (startupSummary L b) (Obj [(''started'', Bool True)]) True) (\<lambda>_.
     andThen (modify (\<lambda>w. w\<lparr>ctxTimer := True\<rparr>)) (\<lambda>_.
     ret L))))))))))))"

definition getAppContext :: "'b start_inputs \<Rightarrow> string option \<Rightarrow> ('b, 'z, loaded_config) startio" where
  "getAppContext I corr =
    andThen (gets ctxShared) (\<lambda>shared.
    case shared of
      Some r \<Rightarrow> liftR r
    | None \<Rightarrow> (\<lambda>w. case createContext I corr w of (r, w') \<Rightarrow> (r, w'\<lparr>ctxShared := Some r\<rparr>)))"

text \<open>The timer's action, each minute.\<close>

definition maintenanceTick :: "'b platform \<Rightarrow> ('b, 'z, unit) dbio" where
  "maintenanceTick P =
    andThen (createCorrelationId P) (\<lambda>corr.
    catching runMaintenance
      (\<lambda>e. emit ((logEvent LogError ''context::maintenance'' ''Auth maintenance failed.'' (Some corr) Undef)
        \<lparr>evErrorKey := Some ''APP_STARTUP_FAILED'', evRootCause := Some e\<rparr>)))"

end
