(* ===== verification/StartupSafety.thy ===== *)
theory StartupSafety
  imports DynsecSafety AuthSafety Startup
begin

text \<open>
  What the start guarantees: the bootstrap of the default role ends after at most thirty attempts, always
  leaves a status the operators can act on, and is given up early only for an error that no retry can
  cure; all requests share one context, a failed one too; the first start leaves an administrator.
\<close>

section \<open>What the bootstrap leaves alone\<close>

text \<open>A part of the world that neither the database, nor the outside, nor the bootstrap's notes are in.\<close>

locale boot_frame = world_frame part
  for part :: "('b, 'z) dynsec_world_scheme \<Rightarrow> 'x" +
  assumes part_faults: "part (w\<lparr>dbFaults := d\<rparr>) = part w"
    and part_settings: "part (w\<lparr>settings := s\<rparr>) = part w"
    and part_error: "part (w\<lparr>bootError := be\<rparr>) = part w"
    and part_provisioned: "part (w\<lparr>provisionedAt := pa\<rparr>) = part w"
begin

lemma bf_db: "keeps part (getSetting s k)" "keeps part (setSetting s k v t)"
  unfolding getSetting_def setSetting_def Let_def
  by (intro keeps_dbRead keeps_dbWrite part_faults part_settings)+

lemma bf_defaults: "keeps part (setClientDefaults v)" "keeps part markProvisioned" "keeps part markBootstrapInitialized"
  unfolding setClientDefaults_def markProvisioned_def markBootstrapInitialized_def Let_def
  by (intro fr_base bf_db part_provisioned)+

lemma bf_migrate: "keeps part (migrateLegacyBootstrapRole P L st corr)"
  unfolding migrateLegacyBootstrapRole_def deleteRole_def clearProvisioned_def assignClientRole_def
    removeClientRole_def addGroupRole_def removeGroupRole_def
  by (intro fr_dynsec fr_migrateRefs part_provisioned)

lemma bf_decide: "keeps part (bootstrapDecide P L corr i d st)"
  unfolding bootstrapDecide_def ensureManagedBootstrapRoles_def Let_def
  by (intro fr_base fr_bootstrapRole bf_migrate bf_defaults)

lemma bf_bootstrap: "keeps part (ensureBootstrapDefaultRole P L corr)"
  unfolding ensureBootstrapDefaultRole_def bootstrapBody_def hasInitializedBootstrap_def getClientDefaults_def
    setBootstrapError_def
  by (intro fr_base bf_decide bf_db fr_readState part_error)

lemma bf_health: "keeps part (readHealth P L corr)"
  unfolding readHealth_def by (rule fr_agentCall)

end

interpretation boot_clock: boot_frame "clock :: ('b, 'z) dynsec_world_scheme \<Rightarrow> int"
  by unfold_locales simp_all

section \<open>Attempts\<close>

abbreviation boot_delay :: int where
  "boot_delay \<equiv> dynsecBootstrapRetryDelayMs"

text \<open>What a stage of one attempt does: it is done, or it has waited to try again, or it gives up.\<close>

definition stage_ok :: "loaded_config \<Rightarrow> bool \<Rightarrow> ('b, 'z) dynsec_world_scheme \<Rightarrow> (exn + bool) \<times> ('b, 'z) dynsec_world_scheme \<Rightarrow> bool" where
  "stage_ok L final w p =
    (case p of
       (Inr True, w') \<Rightarrow> clock w' = clock w
     | (Inr False, w') \<Rightarrow> \<not> final \<and> clock w' = clock w + boot_delay
     | (Inl e, w') \<Rightarrow> clock w' = clock w \<and> (shouldRetryDynsecBootstrap (agentConfigured L) e \<longrightarrow> final))"

lemma retryOrThrow_stage:
  "clock w1 = clock w \<Longrightarrow> stage_ok L (n \<le> k) w (retryOrThrow L corr k n stage e w1)"
  by (simp add: retryOrThrow_def stage_ok_def andThen_def logDynsecBootstrapRetry_def sleep_def)

text \<open>A stage is an action whose failures are given to \<open>retryOrThrow\<close>.\<close>

lemma stage_catching:
  assumes "\<And>e w1. m w = (Inl e, w1) \<Longrightarrow> clock w1 = clock w"
    and "\<And>b w1. m w = (Inr b, w1) \<Longrightarrow> stage_ok L (n \<le> k) w (Inr b, w1)"
  shows "stage_ok L (n \<le> k) w (catching m (retryOrThrow L corr k n stage) w)"
proof (cases "m w")
  case (Pair r w1)
  then show ?thesis
    using assms retryOrThrow_stage [of w1 w L n k corr stage] by (cases r) (simp_all add: catching_def)
qed

lemma healthStage_ok: "stage_ok L (n \<le> k) w (healthStage P L corr k n w)"
proof -
  obtain r w1 where run: "readHealth P L corr w = (r, w1)" by fastforce
  have c: "clock w1 = clock w" by (rule keepsD [OF boot_clock.bf_health run])
  show ?thesis
    unfolding healthStage_def
    by (rule stage_catching; cases r)
      (use run c in \<open>auto simp: andThen_def logDynsecBootstrapRetry_def sleep_def stage_ok_def split: sum.splits if_splits\<close>)
qed

lemma dynsecStage_ok: "stage_ok L (n \<le> k) w (dynsecStage P L corr k n w)"
proof -
  obtain r w1 where run: "ensureBootstrapDefaultRole P L corr w = (r, w1)" by fastforce
  have c: "clock w1 = clock w" by (rule keepsD [OF boot_clock.bf_bootstrap run])
  show ?thesis
    unfolding dynsecStage_def
    by (rule stage_catching; cases r) (use run c in \<open>auto simp: andThen_def clearBootstrapPending_def stage_ok_def\<close>)
qed

text \<open>What a finished bootstrap has established.\<close>

definition bootstrapDone :: "('b, 'z) dynsec_world_scheme \<Rightarrow> bool" where
  "bootstrapDone w \<longleftrightarrow> bootStatus w = idleOperationStatus \<and> bootstrapInitialized w \<and> bootError w = None"

lemma dynsecStage_done:
  assumes "dynsecStage P L corr k n w = (Inr True, w')"
  shows "bootstrapDone w'"
proof -
  obtain r w1 where run: "ensureBootstrapDefaultRole P L corr w = (r, w1)" by fastforce
  show ?thesis
  proof (cases r)
    case (Inl e)
    then show ?thesis
      using assms run by (auto simp: dynsecStage_def catching_def andThen_def retryOrThrow_def logDynsecBootstrapRetry_def
          sleep_def split: if_splits)
  next
    case (Inr x)
    then show ?thesis
      using assms run bootstrap_outcome [of P L corr w]
      by (auto simp: dynsecStage_def catching_def andThen_def clearBootstrapPending_def bootstrapDone_def
          bootstrapInitialized_def)
  qed
qed

text \<open>What the attempts that are left guarantee; the last one does not wait.\<close>

definition attempts_ok :: "loaded_config \<Rightarrow> nat \<Rightarrow> ('b, 'z) dynsec_world_scheme \<Rightarrow> (exn + unit) \<times> ('b, 'z) dynsec_world_scheme \<Rightarrow> bool" where
  "attempts_ok L left w p =
    (case p of
       (Inr _, w') \<Rightarrow> bootstrapDone w' \<and> clock w \<le> clock w' \<and> clock w' \<le> clock w + int left * boot_delay
     | (Inl e, w') \<Rightarrow> clock w \<le> clock w' \<and> clock w' \<le> clock w + int left * boot_delay \<and>
         (shouldRetryDynsecBootstrap (agentConfigured L) e \<longrightarrow> clock w' = clock w + int left * boot_delay))"

lemma attempts_failed:
  "stage_ok L (left = 0) w (Inl e, w') \<Longrightarrow> attempts_ok L left w (Inl e, w')"
  by (auto simp: stage_ok_def attempts_ok_def dynsecBootstrapRetryDelayMs_def)

lemma attempts_waited:
  assumes "stage_ok L False w (Inr False, w1)" and "attempts_ok L left w1 p"
  shows "attempts_ok L (Suc left) w p"
  using assms by (auto simp: stage_ok_def attempts_ok_def dynsecBootstrapRetryDelayMs_def split: sum.splits)

lemma attempts_resumed: "clock w1 = clock w \<Longrightarrow> attempts_ok L left w1 p = attempts_ok L left w p"
  "clock w1 = clock w \<Longrightarrow> stage_ok L f w1 q = stage_ok L f w q"
  by (auto simp: attempts_ok_def stage_ok_def split: prod.split sum.split bool.split)

lemma attempt_then:
  assumes stage: "stage_ok L (left = 0) w (m w)"
    and rest: "\<And>w1 l. left = Suc l \<Longrightarrow> attempts_ok L l w1 (rest w1)"
    and go: "\<And>w1. m w = (Inr True, w1) \<Longrightarrow> attempts_ok L left w1 (go w1)"
  shows "attempts_ok L left w (andThen m (\<lambda>b. if b then go else rest) w)"
proof (cases "m w")
  case (Pair r w1)
  then have stage: "stage_ok L (left = 0) w (r, w1)" using stage by simp
  show ?thesis
  proof (cases r)
    case (Inl e)
    then show ?thesis using stage Pair attempts_failed by (simp add: andThen_def)
  next
    case (Inr b)
    show ?thesis
    proof (cases b)
      case True
      then show ?thesis
        using stage Pair Inr go [of w1] attempts_resumed(1) [of w1 w L left] by (simp add: andThen_def stage_ok_def)
    next
      case False
      then obtain l where "left = Suc l" using stage Inr by (cases left) (simp_all add: stage_ok_def)
      then show ?thesis
        using stage Pair Inr False attempts_waited [OF _ rest [of l]] by (simp add: andThen_def)
    qed
  qed
qed

lemma attempt_ok:
  assumes final: "n \<le> k \<longleftrightarrow> left = 0" and rest: "\<And>w1 l. left = Suc l \<Longrightarrow> attempts_ok L l w1 (rest w1)"
  shows "attempts_ok L left w (andThen (if agentConfigured L then healthStage P L corr k n else ret True) (\<lambda>proceed.
    if \<not> proceed then rest
    else andThen (dynsecStage P L corr k n) (\<lambda>finished. if finished then ret () else rest)) w)"
proof -
  have health: "stage_ok L (left = 0) w ((if agentConfigured L then healthStage P L corr k n else ret True) w)"
    using healthStage_ok [of L n k w P corr] final by (simp add: stage_ok_def)
  have dynsec: "attempts_ok L left w1 (andThen (dynsecStage P L corr k n) (\<lambda>finished. if finished then ret () else rest) w1)"
    for w1
  proof (rule attempt_then)
    show "stage_ok L (left = 0) w1 (dynsecStage P L corr k n w1)" using dynsecStage_ok [of L n k w1 P corr] final by simp
    show "attempts_ok L left w2 (ret () w2)" if "dynsecStage P L corr k n w1 = (Inr True, w2)" for w2
      using dynsecStage_done [OF that] by (simp add: attempts_ok_def dynsecBootstrapRetryDelayMs_def)
  qed (rule rest)
  have swap: "(\<lambda>b. if \<not> b then x else y) = (\<lambda>b. if b then y else x)" for x y :: 'x by auto
  show ?thesis unfolding swap using health by (rule attempt_then) (fact rest, rule dynsec)
qed

lemma bootstrapAttempts_ok: "left < n \<Longrightarrow> attempts_ok L left w (bootstrapAttempts P L corr n (Suc left) w)"
proof (induction left arbitrary: w)
  case 0
  then show ?case
    unfolding bootstrapAttempts.simps(2) by (intro attempt_ok) simp_all
next
  case (Suc left)
  then show ?case
    unfolding bootstrapAttempts.simps(2) [of P L corr n "Suc left"] by (intro attempt_ok) auto
qed


lemma bootstrap_run:
  "attempts_ok L (bootstrapMaxAttempts L - 1) w
    (bootstrapAttempts P L corr (bootstrapMaxAttempts L) (bootstrapMaxAttempts L) w)"
proof -
  obtain n where "bootstrapMaxAttempts L = Suc n"
    by (cases "bootstrapMaxAttempts L") (simp_all add: bootstrapMaxAttempts_def dynsecBootstrapRetryAttempts_def split: if_splits)
  then show ?thesis using bootstrapAttempts_ok [of n "Suc n" L w P corr] by (simp only: diff_Suc_1 lessI)
qed

section \<open>The first start\<close>

lemma keeps_tables_start:
  "keeps tables (loadRuntimeConfig P j pc ps env corr)" "keeps tables (initializeDb P corr)"
  "keeps tables (logStartupDiagnostics L lo corr b)"
proof -
  have rows: "keeps tables (backfill_rows P i prev rs)" for i prev rs
  proof (induction rs arbitrary: i prev)
    case (Cons r rs)
    show ?case
      unfolding backfill_rows.simps Let_def setAuditChain_def
      by (intro keeps_intros keeps_dbWrite Cons.IH) (simp_all add: tables_def)
  qed (simp add: keeps_intros)
  show "keeps tables (initializeDb P corr)"
    unfolding initializeDb_def backfillAuditLogChain_def by (intro in_tables.fr_base keeps_tables_read rows)
  show "keeps tables (logStartupDiagnostics L lo corr b)"
    unfolding logStartupDiagnostics_def by (intro in_tables.fr_base)
  show "keeps tables (loadRuntimeConfig P j pc ps env corr)"
    unfolding loadRuntimeConfig_def readJson5File_def Let_def by (intro in_tables.fr_base)
qed

lemma keeps_tables_key: "keeps tables (loadPublicKey P L)"
proof -
  have fail: "keeps tables (keyFailure L st e)" for st e
    unfolding keyFailure_def fatalKeyError_def Let_def by (intro in_tables.fr_base)
  have key: "keeps tables (modify (\<lambda>w. w\<lparr>mcpKey := k, mcpFingerprint := f\<rparr>))" for k f
    by (intro keeps_intros) (simp add: tables_def)
  show ?thesis
    unfolding loadPublicKey_def Let_def
    by (intro in_tables.fr_base fail) (auto intro!: keeps_intros(2,12) key split: prod.split)
qed

text \<open>With one account of a person, the initialization of MCP adds its own account or fails.\<close>

lemma mcpInitialize_users:
  assumes "mcpInitialize P L w = (Inr x, w')" and "users w = [u]" "uRole u = UserRole r"
  shows "\<exists>rest. users w' = u # rest \<and> (\<forall>v \<in> set rest. uRole v = McpRole)"
proof (cases "mcpConfigured L")
  case False
  then show ?thesis using assms by (simp add: mcpInitialize_def)
next
  case True
  then obtain y w1 v w2 where "loadPublicKey P L w = (Inr y, w1)" and system: "ensureSystemUser w1 = (Inr v, w2)"
    and w': "users w' = users w2"
    using assms(1) by (auto simp: mcpInitialize_def andThen_def split: prod.splits sum.splits)
  then have "users w1 = [u]" using keepsD [OF keeps_tables_key] assms(2) by (fastforce simp: tables_def)
  then show ?thesis
    using system assms(3) unfolding w' ensureSystemUser_def
    by (auto simp: getUserById_def getUserByUsername_def insertUser_def systemUserConflict_def systemUserRow_def
        dest!: dbRead_InrD dbWrite_InrD elim!: andThen_eq_InrE split: option.splits if_splits)
qed

text \<open>The administrator a start on an empty database creates.\<close>

definition bootstrapUsername :: "loaded_config \<Rightarrow> string" where
  "bootstrapUsername L =
    normalizeUsername (case Option.bind (secBootstrapAdmin (ldSecrets L)) baUsername of Some u \<Rightarrow> u | None \<Rightarrow> ''admin'')"

definition firstAdmin :: "'b platform \<Rightarrow> loaded_config \<Rightarrow> user_row \<Rightarrow> bool" where
  "firstAdmin P L u \<longleftrightarrow> uUsername u = bootstrapUsername L \<and> uRole u = UserRole SuperAdmin \<and> uAuthSource u = LocalAuth \<and>
    uProtected u \<and> \<not> uDisabled u \<and>
    (\<exists>k pw. uPasswordHash u = Some (argon2_hash P k pw) \<and>
       Option.bind (secBootstrapAdmin (ldSecrets L)) baPassword \<in> {None, Some pw})"

lemma catching_raise_InrD: "catching m (\<lambda>e. raise (g e)) w = (Inr x, w') \<Longrightarrow> m w = (Inr x, w')"
  by (auto simp: catching_def split: prod.splits sum.splits)

lemma bootstrapInitialAdmin_first:
  assumes "bootstrapInitialAdmin P L corr w = (Inr x, w')" and "users w = []"
  shows "\<exists>u. users w' = [u] \<and> firstAdmin P L u"
proof -
  let ?configured = "Option.bind (secBootstrapAdmin (ldSecrets L)) baPassword"
  obtain pw w1 w2 where pw: "(case ?configured of Some pw \<Rightarrow> ret pw | None \<Rightarrow> createBootstrapPassword P 24) w1 = (Inr pw, w2)"
    and empty: "users w1 = []"
    and run: "andThen (createOpaqueToken P 18) (\<lambda>rid. insertUser \<lparr>uId = rid, uUsername = bootstrapUsername L,
      uEmail = Option.bind (secBootstrapAdmin (ldSecrets L)) baEmail, uRole = UserRole SuperAdmin,
      uAuthSource = LocalAuth, uExternalSubject = None, uPasswordHash = Some (argon2_hash P (draws w2) pw),
      uProtected = True, uDisabled = False, uSessionVersion = 0, uCreatedAt = clock w2, uUpdatedAt = clock w2\<rparr>)
      (w2\<lparr>draws := Suc (draws w2)\<rparr>) = (Inr (), w')"
    using assms
    by (auto simp: bootstrapInitialAdmin_def Let_def countUsers_def bootstrapUsername_def
        dest!: dbRead_InrD catching_raise_InrD elim!: andThen_eq_InrE split: if_splits)
  have "users w2 = []"
    using pw empty keepsD [OF in_tables.fr_createBootstrapPassword] by (fastforce simp: tables_def split: option.splits)
  moreover have "?configured \<in> {None, Some pw}"
    using pw by (auto split: option.splits)
  ultimately show ?thesis
    using run by (fastforce simp: createOpaqueToken_def insertUser_def firstAdmin_def dest!: dbWrite_InrD)
qed

lemma appendAudit_done:
  "appendAudit P r w = (Inr x, w') \<Longrightarrow> \<exists>es e. audit_log w' = es @ [e] \<and> aAction e = aAction r \<and> aSuccess e = aSuccess r"
  by (fastforce simp: appendAudit_def latestAudit_def insertAudit_def linkEntry_def Let_def elim!: andThen_eq_InrE
      dest!: dbRead_InrD dbWrite_InrD)

text \<open>A start that returns, step by step.\<close>

lemma createContext_run:
  assumes "createContext I corr w = (Inr L, w')" and "users w = []"
  shows "\<exists>u rest. users w' = u # rest \<and> firstAdmin (siPlatform I) L u \<and> (\<forall>v \<in> set rest. uRole v = McpRole)"
    and "\<exists>es e. audit_log w' = es @ [e] \<and> aAction e = ''app.startup'' \<and> aSuccess e"
proof -
  let ?P = "siPlatform I"
  from assms(1) obtain w1 w2 x w3 w4 lo b s ts w5 c w5' w6 where
    load: "loadRuntimeConfig ?P (siJson5 I) (siParseConfig I) (siParseSecrets I) (siEnv I) corr w = (Inr L, w1)"
    and db: "initializeDb ?P corr w1 = (Inr (), w2)"
    and admin: "bootstrapInitialAdmin ?P L corr w2 = (Inr x, w3)"
    and mcp: "mcpInitialize ?P L w3 = (Inr (), w4)"
    and diag: "logStartupDiagnostics L lo corr b (w4\<lparr>bootStatus := s, ctxTasks := ts\<rparr>) = (Inr (), w5)"
    and cid: "(case corr of Some c \<Rightarrow> ret c | None \<Rightarrow> createCorrelationId ?P) w5 = (Inr c, w5')"
    and audit: "auditRecord ?P None None None c ''app.startup'' ''app_runtime'' (Some (biLabel (siBuild I))) Null
      (startupSummary L (siBuild I)) (Obj [(''started'', Bool True)]) True w5' = (Inr (), w6)"
    and w': "w' = w6\<lparr>ctxTimer := True\<rparr>"
    unfolding createContext_def Let_def markBootstrapPending_def andThen_assoc
    by (elim andThen_eq_InrE) auto
  show "\<exists>u rest. users w' = u # rest \<and> firstAdmin ?P L u \<and> (\<forall>v \<in> set rest. uRole v = McpRole)"
  proof -
    have "users w2 = []"
      using keepsD [OF keeps_tables_start(1) load] keepsD [OF keeps_tables_start(2) db] assms(2) by (simp add: tables_def)
    then obtain u where u: "users w3 = [u]" "firstAdmin ?P L u" using bootstrapInitialAdmin_first [OF admin] by blast
    then obtain rest where "users w4 = u # rest" "\<forall>v \<in> set rest. uRole v = McpRole"
      using mcpInitialize_users [OF mcp, of u SuperAdmin] by (auto simp: firstAdmin_def)
    moreover have "tables w6 = tables (w4\<lparr>bootStatus := s, ctxTasks := ts\<rparr>)"
      using keepsD [OF keeps_tables_audit audit] keepsD [OF keeps_tables_start(3) diag] cid
        keepsD [OF in_tables.fr_createCorrelationId] by (fastforce split: option.splits)
    then have "users w6 = users w4" by (simp add: tables_def)
    ultimately show ?thesis using u w' by simp
  qed
  show "\<exists>es e. audit_log w' = es @ [e] \<and> aAction e = ''app.startup'' \<and> aSuccess e"
    using audit w' by (auto simp: auditRecord_def createOpaqueToken_def audit_entry_def elim!: andThen_eq_InrE dest!: appendAudit_done)
qed

text \<open>An empty database, before the first start.\<close>

definition sample_boot_world :: "sample_outside startup_world" where
  "sample_boot_world = \<lparr>clock = 1000, draws = 0, logs = [], outside = sample_files, users = [], sessions = [],
    auth_requests = [], audit_log = [], settings = [], snapshots = [], dbFaults = [], provisionedAt = None, bootError = None,
    bootStatus = idleOperationStatus, oidcCache = None, mcpKey = None, mcpFingerprint = None, mcpHeartbeat = None,
    mcpReplay = [], mqSessions = [], mqCalls = [], mqMsgCalls = [], cookieJar = [], dashSnapshot = None, dashJson = None,
    dashListeners = [], dashCalls = [], ctxShared = None, ctxTimer = False, ctxTasks = []\<rparr>"

section \<open>Properties\<close>

text \<open>
  C20: the bootstrap of the default role ends after at most thirty attempts, 29 seconds of waiting; when it
  returns, the roles have been set up, no error is left and the status is idle; it gives up before the last
  attempt only for an error that is not one of the broker or its agent, or when no agent is configured.
\<close>

theorem bootstrap_retries:
  "case ensureDynsecBootstrapDefaultRole P L corr w of
     (Inr _, w') \<Rightarrow> bootStatus w' = idleOperationStatus \<and> bootstrapInitialized w' \<and> bootError w' = None \<and>
       clock w \<le> clock w' \<and> clock w' \<le> clock w + 29000
   | (Inl e, w') \<Rightarrow> clock w \<le> clock w' \<and> clock w' \<le> clock w + 29000 \<and>
       (agentConfigured L \<and> is_AppError e \<and> errorKey e \<in> {''BROKER_AGENT_REQUEST_FAILED'', ''DYNSEC_STATE_READ_FAILED''}
         \<longrightarrow> clock w' = clock w + 29000)"
proof -
  let ?w = "after (markBootstrapPending dynsecBootstrapPendingMessage) w"
  have run: "ensureDynsecBootstrapDefaultRole P L corr w =
      bootstrapAttempts P L corr (bootstrapMaxAttempts L) (bootstrapMaxAttempts L) ?w" and c: "clock ?w = clock w"
    by (simp_all add: ensureDynsecBootstrapDefaultRole_def markBootstrapPending_def andThen_def after_def)
  show ?thesis
    unfolding run using bootstrap_run [of L ?w P corr] c
    by (auto simp: attempts_ok_def bootstrapDone_def bootstrapMaxAttempts_def shouldRetryDynsecBootstrap_def
        dynsecBootstrapRetryAttempts_def dynsecBootstrapRetryDelayMs_def split: prod.splits sum.splits if_splits)
qed

text \<open>A broker agent that never answers: every attempt ends in the same error, up to the last.\<close>

definition sample_agent_loaded :: loaded_config where
  "sample_agent_loaded = sample_loaded\<lparr>ldConfig := sample_config\<lparr>cfBroker :=
    sample_broker\<lparr>bkAgent := Some \<lparr>agBaseUrl = ''https://agent/'', agTimeoutMs = 1000, agInsecure = False\<rparr>\<rparr>\<rparr>\<rparr>"

definition agent_silent :: "exn \<Rightarrow> bool" where
  "agent_silent e \<longleftrightarrow> is_AppError e \<and> errorKey e = ''BROKER_AGENT_REQUEST_FAILED''"

lemma sample_agent: "agentConfigured sample_agent_loaded"
  by (simp add: agentConfigured_def sample_agent_loaded_def)

lemma silent_health:
  assumes "soResponses (outside w) = []"
  shows "\<exists>e w'. readHealth sample_platform sample_agent_loaded None w = (Inl e, w') \<and> soResponses (outside w') = [] \<and>
    agent_silent e"
proof -
  have "\<not> is_AppError (typeError ''fetch failed'')" by (simp add: is_AppError_def)
  then show ?thesis
    using assms
    by (simp add: readHealth_def agentCall_def agentRequest_def agentEnsureConfigured_def agentBaseUrl_def agentSend_def
      sample_agent_loaded_def sample_platform_def callOut_def andThen_def catching_def Let_def agent_silent_def)
qed

lemma silent_attempts:
  "left < n \<Longrightarrow> soResponses (outside w) = [] \<Longrightarrow>
    \<exists>e w'. bootstrapAttempts sample_platform sample_agent_loaded None n (Suc left) w = (Inl e, w') \<and> agent_silent e"
proof (induction left arbitrary: w)
  case (0 w)
  then show ?case
    using silent_health [OF 0(2)] sample_agent
    by (auto simp: healthStage_def catching_def retryOrThrow_def andThen_def)
next
  case (Suc left w)
  obtain e w1 where h: "readHealth sample_platform sample_agent_loaded None w = (Inl e, w1)"
    "soResponses (outside w1) = []" "agent_silent e"
    using silent_health [OF Suc.prems(2)] by blast
  have more: "\<not> n \<le> n - Suc left" using Suc.prems(1) by simp
  from h obtain w2 where "healthStage sample_platform sample_agent_loaded None (n - Suc left) n w = (Inr False, w2)"
    and silent: "soResponses (outside w2) = []"
    using more sample_agent
    by (simp add: healthStage_def catching_def retryOrThrow_def shouldRetryDynsecBootstrap_def agent_silent_def
        logDynsecBootstrapRetry_def sleep_def)
  then show ?case
    using Suc.IH [OF _ silent] Suc.prems(1) sample_agent unfolding bootstrapAttempts.simps(2) [of _ _ _ _ "Suc left"]
    by (simp add: andThen_def del: bootstrapAttempts.simps)
qed

theorem bootstrap_retries_witness:
  "\<exists>e w'. ensureDynsecBootstrapDefaultRole sample_platform sample_agent_loaded None sample_boot_world = (Inl e, w') \<and>
    clock w' = 30000"
proof -
  let ?P = sample_platform and ?L = sample_agent_loaded
  let ?w = "after (markBootstrapPending dynsecBootstrapPendingMessage) sample_boot_world"
  have "soResponses (outside ?w) = []"
    by (simp add: after_def markBootstrapPending_def andThen_def sample_boot_world_def sample_files_def sample_start_def)
  then obtain e w' where "bootstrapAttempts ?P ?L None (Suc 29) (Suc 29) ?w = (Inl e, w')" and e: "agent_silent e"
    using silent_attempts [of 29 "Suc 29" ?w] by auto
  moreover have "ensureDynsecBootstrapDefaultRole ?P ?L None sample_boot_world = bootstrapAttempts ?P ?L None (Suc 29) (Suc 29) ?w"
    by (simp add: ensureDynsecBootstrapDefaultRole_def markBootstrapPending_def after_def andThen_def bootstrapMaxAttempts_def
        sample_agent dynsecBootstrapRetryAttempts_def del: bootstrapAttempts.simps)
  ultimately show ?thesis
    using bootstrap_retries [where P = ?P and L = ?L and corr = None and w = sample_boot_world] sample_agent
    by (simp add: agent_silent_def sample_boot_world_def)
qed


text \<open>
  All requests share one context: what the first call of \<open>getAppContext\<close> came to, a context or a failed
  start, is the answer of every later call, which changes nothing; after a start that has failed no request
  is served until the process is restarted, whatever has become of the configuration.
\<close>

theorem app_context_shared:
  "getAppContext I' corr' (w'\<lparr>ctxShared := ctxShared (after (getAppContext I corr) w)\<rparr>) =
   (outcome (getAppContext I corr) w, w'\<lparr>ctxShared := ctxShared (after (getAppContext I corr) w)\<rparr>)"
  by (auto simp: getAppContext_def andThen_def outcome_def after_def split: option.splits prod.splits sum.splits)

text \<open>
  C34: a start on an empty database that returns has created the super administrator the secrets name,
  protected from automatic linking, enabled, and with the password of the secrets where they have one;
  the only other account there can be is that of MCP, and the last entry of the audit log is the start.
\<close>

theorem first_start_has_admin:
  assumes "ctxShared w = None" and "users w = []" and "getAppContext I corr w = (Inr L, w')"
  shows "(\<exists>u rest. users w' = u # rest \<and> uUsername u = bootstrapUsername L \<and> uRole u = UserRole SuperAdmin \<and>
      uAuthSource u = LocalAuth \<and> uProtected u \<and> \<not> uDisabled u \<and>
      (\<exists>k pw. uPasswordHash u = Some (argon2_hash (siPlatform I) k pw) \<and>
         Option.bind (secBootstrapAdmin (ldSecrets L)) baPassword \<in> {None, Some pw}) \<and>
      (\<forall>v \<in> set rest. uRole v = McpRole)) \<and>
    (\<exists>es e. audit_log w' = es @ [e] \<and> aAction e = ''app.startup'' \<and> aSuccess e)"
proof -
  obtain r w1 where "createContext I corr w = (r, w1)" by fastforce
  then have run: "createContext I corr w = (Inr L, w1)" and w': "w' = w1\<lparr>ctxShared := Some (Inr L)\<rparr>"
    using assms(1,3) by (auto simp: getAppContext_def)
  show ?thesis
    using createContext_run [OF run assms(2)] unfolding w' firstAdmin_def by simp
qed

text \<open>A configuration without a broker agent and without MCP, on an empty database.\<close>

definition sample_inputs :: "sample_outside start_inputs" where
  "sample_inputs = \<lparr>siPlatform = sample_platform, siJson5 = (\<lambda>s. Inr Null), siParseConfig = (\<lambda>v. Inr sample_config),
    siParseSecrets = (\<lambda>v. Inr sample_secrets),
    siEnv = (\<lambda>k. map_of [(''MQTTCTL_CONFIG_PATH'', ''c.json5''), (''MQTTCTL_SECRETS_PATH'', ''s.json5'')] k),
    siBuild = \<lparr>biVersion = ''1.0'', biCommitHash = ''abc'', biLabel = ''1.0''\<rparr>, siIsIPv6 = (\<lambda>s. False)\<rparr>"

lemma logStartupDiagnostics_run:
  "logStartupDiagnostics L lo corr b w =
    (Inr (), w\<lparr>logs := logs w @ [buildEvent b corr, completedEvent L lo corr, authEvent L corr, brokerEvent L corr]\<rparr>)"
  by (simp add: logStartupDiagnostics_def andThen_def)

definition sample_booted :: loaded_config where
  "sample_booted = \<lparr>ldConfig = override_mcp (siEnv sample_inputs) sample_config, ldSecrets = sample_secrets,
     ldDbKind = Sqlite, ldSqlitePath = ''./var/mqttctl.sqlite'', ldUiOverrideCssPath = None\<rparr>"

lemma sample_load:
  "loadRuntimeConfig sample_platform (siJson5 sample_inputs) (siParseConfig sample_inputs) (siParseSecrets sample_inputs)
    (siEnv sample_inputs) None sample_boot_world = (Inr sample_booted, sample_boot_world)"
proof -
  have "crossCheck Sqlite (override_mcp (siEnv sample_inputs) sample_config) sample_secrets = None"
    by (simp add: crossCheck_def override_mcp_def sample_config_def sample_auth_def sample_broker_def
        default_http_api_def Let_def split: option.splits)
  then show ?thesis
    by (simp add: loadRuntimeConfig_def readJson5File_def sample_inputs_def sample_boot_world_def sample_booted_def env_or_def
        callOut_def sample_platform_def sample_files_def sample_start_def andThen_def catching_def Let_def)
qed

lemma bootstrapInitialAdmin_runs:
  assumes "dbFaults w = []" and "users w = []" and "\<And>n k. 0 < k \<Longrightarrow> random_int P n k < k"
  shows "\<exists>x w'. bootstrapInitialAdmin P L corr w = (Inr x, w') \<and> dbFaults w' = [] \<and> audit_log w' = audit_log w"
proof -
  let ?part = "\<lambda>w. (dbFaults w, users w, audit_log w)"
    and ?pw = "case Option.bind (secBootstrapAdmin (ldSecrets L)) baPassword of Some pw \<Rightarrow> ret pw | None \<Rightarrow> createBootstrapPassword P 24"
  obtain pw w1 where run: "?pw w = (Inr pw, w1)"
    using createBootstrapPassword_ok [of P 24 w, OF assms(3)] that
    by (cases "Option.bind (secBootstrapAdmin (ldSecrets L)) baPassword") auto
  have "keeps ?part ?pw" by (intro keeps_intros keeps_createBootstrapPassword) simp
  from keepsD [OF this run] show ?thesis
    using assms(1,2) run
    by (simp add: bootstrapInitialAdmin_def Let_def countUsers_def createOpaqueToken_def insertUser_def dbWrite_healthy
        catching_def andThen_def)
qed

lemma sample_boot: "\<exists>w'. getAppContext sample_inputs None sample_boot_world = (Inr sample_booted, w')"
proof -
  let ?P = "sample_platform" and ?w = "sample_boot_world" and ?L = "sample_booted"
  have w: "dbFaults ?w = []" "users ?w = []" "audit_log ?w = []" by (simp_all add: sample_boot_world_def)
  have "random_int ?P n k < k" if "0 < k" for n k using that by (simp add: sample_platform_def)
  from bootstrapInitialAdmin_runs [of ?w ?P ?L None, OF w(1,2) this]
  obtain x w1 where admin: "bootstrapInitialAdmin ?P ?L None ?w = (Inr x, w1)" and w1: "dbFaults w1 = []" "audit_log w1 = []"
    using w(3) by auto
  have db: "initializeDb ?P None ?w = (Inr (), ?w)"
    using w by (simp add: initializeDb_def backfillAuditLogChain_def by_time_def catching_def)
  have l: "acHeader (cfAuth (ldConfig ?L)) = None" "\<not> mcpConfigured ?L"
    by (simp_all add: sample_booted_def override_mcp_def sample_inputs_def sample_config_def sample_auth_def
        mcpConfigured_def default_mcp_def Let_def)
  have P: "siPlatform sample_inputs = ?P" by (simp add: sample_inputs_def)
  have "\<exists>w'. createContext sample_inputs None ?w = (Inr ?L, w')"
    unfolding createContext_def Let_def P
    using admin w1 db l sample_load
    by (simp add: mcpInitialize_def markBootstrapPending_def logStartupDiagnostics_run auditRecord_def createOpaqueToken_def
        createCorrelationId_def appendAudit_healthy)
  then show ?thesis by (auto simp: getAppContext_def sample_boot_world_def)
qed

theorem first_start_has_admin_witness:
  "\<exists>(w' :: sample_outside startup_world) u. getAppContext sample_inputs None sample_boot_world = (Inr sample_booted, w') \<and>
    u \<in> set (users w') \<and> uRole u = UserRole SuperAdmin \<and> (\<exists>e \<in> set (audit_log w'). aAction e = ''app.startup'')"
proof -
  obtain w' where run: "getAppContext sample_inputs None sample_boot_world = (Inr sample_booted, w')"
    using sample_boot by blast
  have "ctxShared sample_boot_world = None" "users sample_boot_world = []" by (simp_all add: sample_boot_world_def)
  from first_start_has_admin [OF this run] show ?thesis
    using run by (metis in_set_conv_decomp list.set_intros(1))
qed

end
