(* ===== verification/McpHostConfig.thy ===== *)
theory McpHostConfig
  imports Http
begin

text \<open>
  The MCP server (\<open>mcp/src\<close>), a program of its own in front of the API: its configuration
  (\<open>config.js\<close>), its bearer tokens (\<open>auth.js\<close>) and its rate limits (\<open>rateLimit.js\<close>). The files, the working
  directory and the parser of JSON5 are parameters.
\<close>

section \<open>Configuration\<close>

record mcp_token =
  tkName :: string
  tkToken :: string
  tkAccess :: mcp_access

record mcp_host_config =
  mhConfigPath :: string
  mhReadOnly :: bool
  mhTokens :: "mcp_token list"
  mhHttpEnabled :: bool
  mhHttpHost :: string
  mhHttpPort :: int
  mhHttpsEnabled :: bool
  mhHttpsHost :: string
  mhHttpsPort :: int
  mhCertsDir :: string
  mhBaseUrl :: string
  mhPrivateKeyFile :: string
  mhKeyId :: string
  mhAudience :: string
  mhTimeoutMs :: int
  mhVerifyTls :: bool
  mhReadyCheck :: bool
  mhHeartbeatSeconds :: int
  mhMaxSessions :: int
  mhMaxPerToken :: int
  mhWindowMs :: int
  mhRateRead :: int
  mhRateWrite :: int
  mhRateDestructive :: int
  mhInactivityMs :: int
  mhMaxMessages :: int
  mhMaxBytes :: int
  mhDefaultPoll :: int
  mhMaxPoll :: int

text \<open>What \<open>loadConfig\<close> reads: \<open>miResolve\<close> is \<open>path.resolve(cwd, ..)\<close>.\<close>

record mcp_inputs =
  miEnv :: "string \<Rightarrow> string option"
  miCwd :: string
  miResolve :: "string \<Rightarrow> string"
  miExists :: "string \<Rightarrow> bool"
  miRead :: "string \<Rightarrow> exn + string"
  miJson5 :: "string \<Rightarrow> exn + jsval"

definition thenR :: "'e + 'a \<Rightarrow> ('a \<Rightarrow> 'e + 'c) \<Rightarrow> 'e + 'c" where
  "thenR r f = (case r of Inl e \<Rightarrow> Inl e | Inr x \<Rightarrow> f x)"

lemma thenR_simps [simp]: "thenR (Inr x) f = f x" "thenR (Inl e) f = Inl e"
  by (simp_all add: thenR_def)

lemma thenR_Inr: "thenR r f = Inr y \<longleftrightarrow> (\<exists>x. r = Inr x \<and> f x = Inr y)"
  by (cases r) simp_all

definition plainError :: "string \<Rightarrow> exn" where
  "plainError m = PlainErr ''Error'' m None"

definition mcpParseBoolean :: "jsval \<Rightarrow> bool \<Rightarrow> bool" where
  "mcpParseBoolean v fallback =
    (if nullish v \<or> v = Str [] then fallback
     else toLowerCase (trim (to_string v)) \<in> {''1'', ''true'', ''yes'', ''on''})"

definition mcpParseInteger :: "jsval \<Rightarrow> int \<Rightarrow> int \<Rightarrow> int \<Rightarrow> int" where
  "mcpParseInteger v fallback lo hi =
    (case parseInt10 (to_string (coalesce v (Str []))) of
       None \<Rightarrow> fallback
     | Some i \<Rightarrow> (case to_double (of_int i) of Fin r \<Rightarrow> min hi (max lo i) | _ \<Rightarrow> fallback))"

definition mcpReadJson5 :: "mcp_inputs \<Rightarrow> string \<Rightarrow> exn + jsval" where
  "mcpReadJson5 M file = (if file = [] \<or> \<not> miExists M file then Inr (Obj []) else thenR (miRead M file) (miJson5 M))"

definition readTokenValue :: "mcp_inputs \<Rightarrow> jsval \<Rightarrow> exn + string" where
  "readTokenValue M entry =
    (if truthy (getProp ''token'' entry) then Inr (to_string (getProp ''token'' entry))
     else if \<not> truthy (getProp ''tokenFile'' entry) then Inr []
     else thenR (miRead M (miResolve M (to_string (getProp ''tokenFile'' entry)))) (\<lambda>s. Inr (trim s)))"

definition tokenNameOk :: "string \<Rightarrow> bool" where
  "tokenNameOk name \<longleftrightarrow> clientNamePattern name \<and> name \<noteq> ''_service''"

definition tokenEntry :: "mcp_inputs \<Rightarrow> string \<Rightarrow> mcp_access \<Rightarrow> nat \<Rightarrow> jsval \<Rightarrow> exn + mcp_token" where
  "tokenEntry M label access i entry =
    (let name = trim (to_string (coalesce (getProp ''name'' entry) (Str []))) in
     thenR (readTokenValue M entry) (\<lambda>token.
     if \<not> tokenNameOk name then Inl (plainError (label @ ''['' @ nat_str i @ ''].name is invalid or reserved.''))
     else if token = [] then Inl (plainError (label @ ''['' @ nat_str i @ ''] must include token or tokenFile.''))
     else Inr \<lparr>tkName = name, tkToken = token, tkAccess = access\<rparr>))"

fun tokenEntries :: "mcp_inputs \<Rightarrow> string \<Rightarrow> mcp_access \<Rightarrow> nat \<Rightarrow> jsval list \<Rightarrow> exn + mcp_token list" where
  "tokenEntries M label access i [] = Inr []"
| "tokenEntries M label access i (e # es) =
    thenR (tokenEntry M label access i e) (\<lambda>t. thenR (tokenEntries M label access (Suc i) es) (\<lambda>ts. Inr (t # ts)))"

definition parseTokenEntries :: "mcp_inputs \<Rightarrow> jsval \<Rightarrow> string \<Rightarrow> mcp_access \<Rightarrow> exn + mcp_token list" where
  "parseTokenEntries M v label access =
    (if nullish v \<or> v = Str [] then Inr []
     else thenR (case v of Str s \<Rightarrow> miJson5 M s | _ \<Rightarrow> Inr v) (\<lambda>parsed.
       case parsed of Arr es \<Rightarrow> tokenEntries M label access 0 es
       | _ \<Rightarrow> Inl (plainError (label @ '' must be an array of named token entries.''))))"

definition mcpEnvOr :: "mcp_inputs \<Rightarrow> string \<Rightarrow> jsval \<Rightarrow> jsval \<Rightarrow> jsval" where
  "mcpEnvOr M key fileValue fallback =
    (case miEnv M key of Some s \<Rightarrow> Str s | None \<Rightarrow> coalesce fileValue fallback)"

text \<open>\<open>fileConfig.section?.key\<close>.\<close>

definition fileValue :: "jsval \<Rightarrow> string \<Rightarrow> string \<Rightarrow> jsval" where
  "fileValue file sect key = getProp key (getProp sect file)"

definition duplicateNames :: "mcp_token list \<Rightarrow> string list" where
  "duplicateNames ts = map (\<lambda>i. tkName (ts ! i))
    (filter (\<lambda>i. tkName (ts ! i) \<in> set (map tkName (take i ts))) [0..<length ts])"

definition missingRequired :: "mcp_inputs \<Rightarrow> string \<Rightarrow> string \<Rightarrow> mcp_token list \<Rightarrow> string list" where
  "missingRequired M baseUrl keyFile ts =
    (if baseUrl = [] then [''MQTTCTL_BASE_URL''] else []) @
    (if keyFile = [] \<or> keyFile = miCwd M then [''MQTTCTL_MCP_PRIVATE_KEY_FILE''] else []) @
    (if ts = [] then [''MCP_READ_BEARER_TOKENS or MCP_READWRITE_BEARER_TOKENS''] else [])"

text \<open>The value that is returned, once nothing has been refused.\<close>

definition hostConfig :: "mcp_inputs \<Rightarrow> jsval \<Rightarrow> mcp_token list \<Rightarrow> bool \<Rightarrow> bool \<Rightarrow> string \<Rightarrow> string \<Rightarrow> mcp_host_config" where
  "hostConfig M file ts httpOn httpsOn baseUrl keyFile =
    (let val = (\<lambda>env sect key d. mcpEnvOr M env (fileValue file sect key) d);
         bool = (\<lambda>env sect key d. mcpParseBoolean (val env sect key (Bool d)) d);
         asText = (\<lambda>env sect key d. to_string (val env sect key (Str d)));
         num = (\<lambda>env sect key d lo hi. mcpParseInteger (val env sect key (num_int d)) d lo hi) in
     \<lparr>mhConfigPath = miResolve M (case miEnv M ''MCP_CONFIG_FILE'' of None \<Rightarrow> ''./config.json5'' | Some f \<Rightarrow> f),
      mhReadOnly = mcpParseBoolean (mcpEnvOr M ''MCP_READ_ONLY'' (getProp ''readOnly'' file) (Bool False)) False,
      mhTokens = ts,
      mhHttpEnabled = httpOn,
      mhHttpHost = asText ''HTTP_HOST'' ''http'' ''host'' ''0.0.0.0'',
      mhHttpPort = num ''HTTP_PORT'' ''http'' ''port'' 3001 1 65535,
      mhHttpsEnabled = httpsOn,
      mhHttpsHost = asText ''HTTPS_HOST'' ''https'' ''host'' ''0.0.0.0'',
      mhHttpsPort = num ''HTTPS_PORT'' ''https'' ''port'' 3443 1 65535,
      mhCertsDir = miResolve M (asText ''HTTPS_CERTS_DIR'' ''https'' ''certsDir'' ''./data/certs''),
      mhBaseUrl = baseUrl,
      mhPrivateKeyFile = keyFile,
      mhKeyId = asText ''MQTTCTL_MCP_KEY_ID'' ''mqttctl'' ''keyId'' ''compose'',
      mhAudience = asText ''MQTTCTL_MCP_AUDIENCE'' ''mqttctl'' ''audience'' ''mqttctl-api'',
      mhTimeoutMs = num ''MQTTCTL_API_TIMEOUT_MS'' ''mqttctl'' ''timeoutMs'' 15000 1000 120000,
      mhVerifyTls = bool ''MQTTCTL_VERIFY_TLS'' ''mqttctl'' ''verifyTls'' True,
      mhReadyCheck = bool ''READY_CHECK_MQTTCTL'' ''mqttctl'' ''readyCheck'' True,
      mhHeartbeatSeconds = num ''MCP_HEARTBEAT_SECONDS'' ''mqttctl'' ''heartbeatSeconds'' 15 5 120,
      mhMaxSessions = num ''MCP_MAX_SESSIONS'' ''sessions'' ''maxTotal'' 100 1 1000,
      mhMaxPerToken = num ''MCP_MAX_SESSIONS_PER_TOKEN'' ''sessions'' ''maxPerToken'' 20 1 100,
      mhWindowMs = num ''MCP_RATE_LIMIT_WINDOW_SECONDS'' ''rateLimits'' ''windowSeconds'' 60 1 3600 * 1000,
      mhRateRead = num ''MCP_RATE_LIMIT_READ'' ''rateLimits'' ''read'' 300 1 100000,
      mhRateWrite = num ''MCP_RATE_LIMIT_WRITE'' ''rateLimits'' ''write'' 120 1 100000,
      mhRateDestructive = num ''MCP_RATE_LIMIT_DESTRUCTIVE'' ''rateLimits'' ''destructive'' 30 1 100000,
      mhInactivityMs = num ''MCP_MQTT_INACTIVITY_SECONDS'' ''mqttBuffer'' ''inactivitySeconds'' 3600 60 86400 * 1000,
      mhMaxMessages = num ''MCP_MQTT_MAX_BUFFERED_MESSAGES'' ''mqttBuffer'' ''maxMessages'' 10000 1 100000,
      mhMaxBytes = num ''MCP_MQTT_MAX_BUFFERED_BYTES'' ''mqttBuffer'' ''maxBytes'' 16777216 1024 268435456,
      mhDefaultPoll = num ''MCP_MQTT_DEFAULT_POLL_MESSAGES'' ''mqttBuffer'' ''defaultPoll'' 100 1 1000,
      mhMaxPoll = num ''MCP_MQTT_MAX_POLL_MESSAGES'' ''mqttBuffer'' ''maxPoll'' 1000 1 5000\<rparr>)"

text \<open>Reading a section of a configuration file that is \<open>null\<close> throws.\<close>

definition mcpLoadConfig :: "mcp_inputs \<Rightarrow> bool \<Rightarrow> exn + mcp_host_config" where
  "mcpLoadConfig M requireRequired =
    thenR (mcpReadJson5 M (miResolve M (case miEnv M ''MCP_CONFIG_FILE'' of None \<Rightarrow> ''./config.json5'' | Some f \<Rightarrow> f))) (\<lambda>file.
    thenR (readProp ''auth'' file) (\<lambda>auth.
    thenR (parseTokenEntries M (mcpEnvOr M ''MCP_READ_BEARER_TOKENS'' (getProp ''readBearerTokens'' auth) Undef)
      ''MCP_READ_BEARER_TOKENS'' McpRead) (\<lambda>readTokens.
    thenR (parseTokenEntries M (mcpEnvOr M ''MCP_READWRITE_BEARER_TOKENS'' (getProp ''readWriteBearerTokens'' auth) Undef)
      ''MCP_READWRITE_BEARER_TOKENS'' McpReadWrite) (\<lambda>readWriteTokens.
    let ts = readTokens @ readWriteTokens;
        httpOn = mcpParseBoolean (mcpEnvOr M ''HTTP_ENABLED'' (fileValue file ''http'' ''enabled'') (Bool False)) False;
        httpsOn = mcpParseBoolean (mcpEnvOr M ''HTTPS_ENABLED'' (fileValue file ''https'' ''enabled'') (Bool True)) True;
        baseUrl = dropTrailingSlashes (to_string (mcpEnvOr M ''MQTTCTL_BASE_URL'' (fileValue file ''mqttctl'' ''baseUrl'') (Str [])));
        keyFile = miResolve M (to_string (mcpEnvOr M ''MQTTCTL_MCP_PRIVATE_KEY_FILE''
          (fileValue file ''mqttctl'' ''privateKeyFile'') (Str [])));
        missing = missingRequired M baseUrl keyFile ts in
    if duplicateNames ts \<noteq> [] then
      Inl (plainError (''MCP bearer token names must be unique: '' @ join '', '' (uniqueFirst (duplicateNames ts))))
    else if \<not> httpOn \<and> \<not> httpsOn then
      Inl (plainError ''At least one of HTTP_ENABLED or HTTPS_ENABLED must be true.'')
    else if requireRequired \<and> missing \<noteq> [] then
      Inl (plainError (''Missing required configuration: '' @ join '', '' missing))
    else Inr (hostConfig M file ts httpOn httpsOn baseUrl keyFile)))))"

section \<open>Bearer tokens\<close>

record mcp_identity =
  idName :: string
  idAccess :: mcp_access

text \<open>
  \<open>/^Bearer\s+(.+)$/i\<close>: white space and then any text but a line break; of white space alone the last
  character is the text.
\<close>

definition lineBreak :: "char \<Rightarrow> bool" where
  "lineBreak c = (c = CHR 0x0A \<or> c = CHR 0x0D)"

definition bearerToken :: "string \<Rightarrow> string option" where
  "bearerToken a =
    (let rest = drop 6 a; token = trimStart rest in
     if toLowerCase (take 6 a) \<noteq> ''bearer'' then None
     else if token = [] then (if 2 \<le> length rest \<and> \<not> lineBreak (last rest) then Some [last rest] else None)
     else if token \<noteq> rest \<and> list_all (\<lambda>c. \<not> lineBreak c) token then Some token else None)"

definition authenticateBearer :: "'b platform \<Rightarrow> mcp_host_config \<Rightarrow> string option \<Rightarrow> mcp_identity option" where
  "authenticateBearer P C a =
    Option.bind (bearerToken (case a of None \<Rightarrow> [] | Some s \<Rightarrow> s)) (\<lambda>token.
      map_option (\<lambda>e. \<lparr>idName = tkName e, idAccess = tkAccess e\<rparr>)
        (List.find (\<lambda>e. sha256_hex P (tkToken e) = sha256_hex P token) (mhTokens C)))"

section \<open>Rate limits\<close>

datatype rate_category = ReadRate | WriteRate | DestructiveRate

fun rate_category_str :: "rate_category \<Rightarrow> string" where
  "rate_category_str ReadRate = ''read''"
| "rate_category_str WriteRate = ''write''"
| "rate_category_str DestructiveRate = ''destructive''"

fun rateLimit :: "mcp_host_config \<Rightarrow> rate_category \<Rightarrow> int" where
  "rateLimit C ReadRate = mhRateRead C"
| "rateLimit C WriteRate = mhRateWrite C"
| "rateLimit C DestructiveRate = mhRateDestructive C"

record rate_window =
  rwCount :: int
  rwResetAt :: int

type_synonym rate_windows = "(string \<times> rate_window) list"

record rate_result =
  rrAllowed :: bool
  rrLimit :: int
  rrRemaining :: int
  rrRetryAfterSeconds :: int

definition rateKey :: "string \<Rightarrow> rate_category \<Rightarrow> string" where
  "rateKey name cat = name @ '':'' @ rate_category_str cat"

definition currentWindow :: "mcp_host_config \<Rightarrow> int \<Rightarrow> rate_window option \<Rightarrow> rate_window" where
  "currentWindow C t existing =
    (case existing of
       Some v \<Rightarrow> if rwResetAt v \<le> t then \<lparr>rwCount = 0, rwResetAt = t + mhWindowMs C\<rparr> else v
     | None \<Rightarrow> \<lparr>rwCount = 0, rwResetAt = t + mhWindowMs C\<rparr>)"

definition checkRate ::
  "mcp_host_config \<Rightarrow> string \<Rightarrow> rate_category \<Rightarrow> int \<Rightarrow> rate_windows \<Rightarrow> rate_result \<times> rate_windows" where
  "checkRate C name cat t ws =
    (let v = currentWindow C t (map_of ws (rateKey name cat)); n = rwCount v + 1; limit = rateLimit C cat in
     (\<lparr>rrAllowed = (n \<le> limit), rrLimit = limit, rrRemaining = max 0 (limit - n),
       rrRetryAfterSeconds = max 1 (- ((t - rwResetAt v) div 1000))\<rparr>,
      AList.update (rateKey name cat) (v\<lparr>rwCount := n\<rparr>) ws))"

section \<open>What a configuration guarantees\<close>

definition token_ok :: "mcp_token \<Rightarrow> bool" where
  "token_ok t \<longleftrightarrow> clientNamePattern (tkName t) \<and> tkName t \<noteq> ''_service'' \<and> tkToken t \<noteq> []"

lemma tokenEntries_ok: "tokenEntries M label access i es = Inr ts \<Longrightarrow> t \<in> set ts \<Longrightarrow> token_ok t"
  by (induction M label access i es arbitrary: ts rule: tokenEntries.induct)
    (auto simp: thenR_Inr tokenEntry_def Let_def token_ok_def tokenNameOk_def split: if_splits)

lemma parseTokenEntries_ok:
  assumes "parseTokenEntries M v label access = Inr ts" and "t \<in> set ts"
  shows "token_ok t"
proof (cases "nullish v \<or> v = Str []")
  case True
  then show ?thesis using assms by (simp add: parseTokenEntries_def)
next
  case False
  then obtain parsed where "(case parsed of Arr es \<Rightarrow> tokenEntries M label access 0 es
      | _ \<Rightarrow> Inl (plainError (label @ '' must be an array of named token entries.''))) = Inr ts"
    using assms(1) by (auto simp: parseTokenEntries_def thenR_Inr)
  then show ?thesis using tokenEntries_ok assms(2) by (cases parsed) simp_all
qed

lemma duplicateNames_none: "duplicateNames ts = [] \<Longrightarrow> distinct (map tkName ts)"
proof -
  assume d: "duplicateNames ts = []"
  have "tkName (ts ! i) \<notin> set (map tkName (take i ts))" if "i < length ts" for i
    using d that by (auto simp: duplicateNames_def filter_empty_conv)
  then have later: "map tkName ts ! j \<notin> set (take j (map tkName ts))" if "j < length ts" for j
    using that by (simp add: take_map)
  have "map tkName ts ! i \<noteq> map tkName ts ! j" if "i < j" "j < length ts" for i j
  proof
    assume "map tkName ts ! i = map tkName ts ! j"
    moreover have "map tkName ts ! i \<in> set (take j (map tkName ts))"
      using that by (auto simp: in_set_conv_nth intro!: exI [of _ i])
    ultimately show False using later [OF that(2)] by simp
  qed
  then show ?thesis by (simp add: distinct_conv_nth) (metis linorder_neqE_nat)
qed

lemma parseInteger_range: "lo \<le> d \<Longrightarrow> d \<le> hi \<Longrightarrow> lo \<le> mcpParseInteger v d lo hi \<and> mcpParseInteger v d lo hi \<le> hi"
  by (auto simp: mcpParseInteger_def split: option.splits jsnum.splits)

definition host_config_ok :: "mcp_host_config \<Rightarrow> bool" where
  "host_config_ok C \<longleftrightarrow>
    distinct (map tkName (mhTokens C)) \<and> (\<forall>t \<in> set (mhTokens C). token_ok t) \<and>
    (mhHttpEnabled C \<or> mhHttpsEnabled C) \<and>
    mhHttpPort C \<in> {1..65535} \<and> mhHttpsPort C \<in> {1..65535} \<and> mhTimeoutMs C \<in> {1000..120000} \<and>
    mhHeartbeatSeconds C \<in> {5..120} \<and> mhMaxSessions C \<in> {1..1000} \<and> mhMaxPerToken C \<in> {1..100} \<and>
    mhWindowMs C \<in> {1000..3600000} \<and> mhRateRead C \<in> {1..100000} \<and> mhRateWrite C \<in> {1..100000} \<and>
    mhRateDestructive C \<in> {1..100000} \<and> mhInactivityMs C \<in> {60000..86400000} \<and> mhMaxMessages C \<in> {1..100000} \<and>
    mhMaxBytes C \<in> {1024..268435456} \<and> mhDefaultPoll C \<in> {1..1000} \<and> mhMaxPoll C \<in> {1..5000}"

lemma hostConfig_ok:
  assumes "distinct (map tkName ts)" and "\<And>t. t \<in> set ts \<Longrightarrow> token_ok t" and "httpOn \<or> httpsOn"
  shows "host_config_ok (hostConfig M file ts httpOn httpsOn baseUrl keyFile)"
  using assms unfolding host_config_ok_def hostConfig_def Let_def
  by (simp add: parseInteger_range)

lemma mcpLoadConfig_ok:
  assumes "mcpLoadConfig M required = Inr C"
  shows "host_config_ok C"
  using assms unfolding mcpLoadConfig_def Let_def thenR_Inr
  by (elim exE conjE)
    (auto split: if_splits intro!: hostConfig_ok dest: parseTokenEntries_ok duplicateNames_none)

section \<open>How often a call is allowed\<close>

definition times_sorted :: "(string \<times> rate_category \<times> int) list \<Rightarrow> bool" where
  "times_sorted qs = sorted (map (\<lambda>(name, cat, t). t) qs)"

fun rateRun :: "mcp_host_config \<Rightarrow> (string \<times> rate_category \<times> int) list \<Rightarrow> rate_windows \<Rightarrow> bool list" where
  "rateRun C [] ws = []"
| "rateRun C ((name, cat, t) # qs) ws =
    (case checkRate C name cat t ws of (r, ws') \<Rightarrow> rrAllowed r # rateRun C qs ws')"

text \<open>The checks of one key, which depend on that key's window only.\<close>

fun keyRun :: "mcp_host_config \<Rightarrow> rate_category \<Rightarrow> int list \<Rightarrow> rate_window option \<Rightarrow> (int \<times> bool) list" where
  "keyRun C cat [] v = []"
| "keyRun C cat (t # ts) v =
    (let w = currentWindow C t v in
     (t, rwCount w + 1 \<le> rateLimit C cat) # keyRun C cat ts (Some (w\<lparr>rwCount := rwCount w + 1\<rparr>)))"

lemma rateKey_inject: "rateKey n c = rateKey n' c' \<longleftrightarrow> n = n' \<and> c = c'"
proof
  assume k: "rateKey n c = rateKey n' c'"
  have "takeWhile (\<lambda>x. x \<noteq> CHR '':'') (rev (rateKey m d)) = rev (rate_category_str d)" for m d
    by (cases d) (simp_all add: rateKey_def)
  from this [of n c] this [of n' c'] k have "rate_category_str c = rate_category_str c'" by simp
  then have "c = c'" by (cases c; cases c') simp_all
  then show "n = n' \<and> c = c'" using k by (simp add: rateKey_def)
qed simp

definition allowedOf :: "string \<Rightarrow> rate_category \<Rightarrow> ((string \<times> rate_category \<times> int) \<times> bool) list \<Rightarrow> (int \<times> bool) list" where
  "allowedOf name cat xs = map (\<lambda>((n, c, t), ok). (t, ok)) (filter (\<lambda>((n, c, t), ok). n = name \<and> c = cat) xs)"

lemma rateRun_key:
  "allowedOf name cat (zip qs (rateRun C qs ws)) =
    keyRun C cat (map (\<lambda>(n, c, t). t) (filter (\<lambda>(n, c, t). n = name \<and> c = cat) qs)) (map_of ws (rateKey name cat))"
proof (induction C qs ws rule: rateRun.induct)
  case (2 C n c t qs ws)
  then show ?case
    by (auto simp: allowedOf_def checkRate_def Let_def update_conv' rateKey_inject)
qed (simp add: allowedOf_def)

text \<open>How many checks of a list were allowed at a time of which \<open>Q\<close> holds.\<close>

definition allowedWhen :: "(int \<Rightarrow> bool) \<Rightarrow> (int \<times> bool) list \<Rightarrow> nat" where
  "allowedWhen Q xs = length (filter (\<lambda>(t, ok). Q t \<and> ok) xs)"

lemma allowedWhen_simps [simp]:
  "allowedWhen Q [] = 0" "allowedWhen Q ((t, ok) # xs) = (if Q t \<and> ok then Suc (allowedWhen Q xs) else allowedWhen Q xs)"
  by (simp_all add: allowedWhen_def)

lemma allowedWhen_mono:
  assumes "\<And>t ok. (t, ok) \<in> set xs \<Longrightarrow> Q t \<Longrightarrow> R t"
  shows "allowedWhen Q xs \<le> allowedWhen R xs"
  using assms
proof (induction xs)
  case (Cons x xs)
  have "allowedWhen Q xs \<le> allowedWhen R xs" by (rule Cons.IH) (use Cons.prems in auto)
  moreover have "Q (fst x) \<Longrightarrow> R (fst x)" using Cons.prems [of "fst x" "snd x"] by simp
  ultimately show ?case by (cases x) (auto intro: le_SucI)
qed simp

lemma allowedWhen_split: "allowedWhen Q xs \<le> allowedWhen (\<lambda>t. Q t \<and> t < r) xs + allowedWhen (\<lambda>t. Q t \<and> r \<le> t) xs"
  by (induction xs) (auto simp: not_less)

lemma keyRun_times: "(t, ok) \<in> set (keyRun C cat ts v) \<Longrightarrow> t \<in> set ts"
  by (induction C cat ts v rule: keyRun.induct) (auto simp: Let_def)

lemma allowedWhen_none: "(\<And>t ok. (t, ok) \<in> set xs \<Longrightarrow> \<not> Q t) \<Longrightarrow> allowedWhen Q xs = 0"
  by (auto simp: allowedWhen_def filter_empty_conv)

text \<open>A window that is still open counts one more; one that is over is replaced.\<close>

lemma keyRun_open:
  "t < rwResetAt w \<Longrightarrow> keyRun C cat (t # ts) (Some w) =
    (t, rwCount w + 1 \<le> rateLimit C cat) # keyRun C cat ts (Some (w\<lparr>rwCount := rwCount w + 1\<rparr>))"
  by (simp add: currentWindow_def Let_def)

lemma keyRun_over:
  "rwResetAt w \<le> t \<Longrightarrow> keyRun C cat (t # ts) (Some w) =
    (t, 1 \<le> rateLimit C cat) # keyRun C cat ts (Some \<lparr>rwCount = 1, rwResetAt = t + mhWindowMs C\<rparr>)"
  by (simp add: currentWindow_def Let_def)

text \<open>Within a window that has counted \<open>n\<close> checks there are at most \<open>limit - n\<close> more.\<close>

lemma window_bound:
  assumes "sorted ts"
  shows "allowedWhen (\<lambda>t. t < rwResetAt w) (keyRun C cat ts (Some w)) \<le> nat (rateLimit C cat - rwCount w)"
  using assms
proof (induction ts arbitrary: w)
  case (Cons t ts)
  show ?case
  proof (cases "t < rwResetAt w")
    case True
    let ?w = "w\<lparr>rwCount := rwCount w + 1\<rparr>"
    have "allowedWhen (\<lambda>t. t < rwResetAt ?w) (keyRun C cat ts (Some ?w)) \<le> nat (rateLimit C cat - rwCount ?w)"
      using Cons.prems by (intro Cons.IH) simp
    then show ?thesis unfolding keyRun_open [OF True] using True by auto
  next
    case False
    then have "\<not> s < rwResetAt w" if "s \<in> set (t # ts)" for s
      using Cons.prems that by auto
    then have "allowedWhen (\<lambda>t. t < rwResetAt w) (keyRun C cat (t # ts) (Some w)) = 0"
      by (intro allowedWhen_none) (blast dest: keyRun_times)
    then show ?thesis by simp
  qed
qed simp

text \<open>After a window that ends in an interval as long as a window, the interval meets one more window.\<close>

lemma next_window_bound:
  assumes "sorted ts" and "t0 \<le> rwResetAt w"
  shows "allowedWhen (\<lambda>t. rwResetAt w \<le> t \<and> t < t0 + mhWindowMs C) (keyRun C cat ts (Some w)) \<le> nat (rateLimit C cat)"
  using assms
proof (induction ts arbitrary: w)
  case (Cons t ts)
  let ?W = "mhWindowMs C"
  show ?case
  proof (cases "t < rwResetAt w")
    case True
    let ?w = "w\<lparr>rwCount := rwCount w + 1\<rparr>"
    have "allowedWhen (\<lambda>t. rwResetAt ?w \<le> t \<and> t < t0 + ?W) (keyRun C cat ts (Some ?w)) \<le> nat (rateLimit C cat)"
      using Cons.prems by (intro Cons.IH) simp_all
    then show ?thesis unfolding keyRun_open [OF True] using True by simp
  next
    case False
    let ?v = "\<lparr>rwCount = 1, rwResetAt = t + ?W\<rparr>"
    let ?run = "keyRun C cat ts (Some ?v)"
    have "allowedWhen (\<lambda>s. rwResetAt w \<le> s \<and> s < t0 + ?W) ?run \<le> allowedWhen (\<lambda>s. s < rwResetAt ?v) ?run"
      using Cons.prems False by (intro allowedWhen_mono) simp
    also have "\<dots> \<le> nat (rateLimit C cat - 1)"
      using window_bound [of ts ?v C cat] Cons.prems by simp
    finally show ?thesis
      unfolding keyRun_over [OF leI [OF False]] using False by auto
  qed
qed simp

lemma interval_bound:
  assumes "sorted ts" and "0 < mhWindowMs C" and "\<And>w. v = Some w \<Longrightarrow> 0 \<le> rwCount w"
  shows "allowedWhen (\<lambda>t. t0 \<le> t \<and> t < t0 + mhWindowMs C) (keyRun C cat ts v) \<le> 2 * nat (rateLimit C cat)"
  using assms
proof (induction ts arbitrary: v)
  case (Cons t ts)
  let ?I = "\<lambda>s. t0 \<le> s \<and> s < t0 + mhWindowMs C"
  define w where "w = currentWindow C t v"
  have w: "0 \<le> rwCount w" "t < rwResetAt w"
    using Cons.prems by (auto simp: w_def currentWindow_def split: option.splits)
  have run: "keyRun C cat (t # ts) v = keyRun C cat (t # ts) (Some w)"
    using w(2) by (simp add: keyRun_open w_def [symmetric] Let_def del: keyRun.simps(2)) (simp add: w_def Let_def)
  show ?case
  proof (cases "t0 \<le> t")
    case True
    let ?run = "keyRun C cat (t # ts) (Some w)"
    have "allowedWhen ?I ?run \<le> allowedWhen (\<lambda>s. ?I s \<and> s < rwResetAt w) ?run + allowedWhen (\<lambda>s. ?I s \<and> rwResetAt w \<le> s) ?run"
      by (rule allowedWhen_split)
    moreover have "allowedWhen (\<lambda>s. ?I s \<and> s < rwResetAt w) ?run \<le> allowedWhen (\<lambda>s. s < rwResetAt w) ?run"
      by (rule allowedWhen_mono) simp
    moreover have "allowedWhen (\<lambda>s. s < rwResetAt w) ?run \<le> nat (rateLimit C cat - rwCount w)"
      using Cons.prems by (intro window_bound)
    moreover have "allowedWhen (\<lambda>s. ?I s \<and> rwResetAt w \<le> s) ?run \<le>
        allowedWhen (\<lambda>s. rwResetAt w \<le> s \<and> s < t0 + mhWindowMs C) ?run"
      by (rule allowedWhen_mono) simp
    moreover have "allowedWhen (\<lambda>s. rwResetAt w \<le> s \<and> s < t0 + mhWindowMs C) ?run \<le> nat (rateLimit C cat)"
      using Cons.prems True w(2) by (intro next_window_bound) simp_all
    ultimately show ?thesis unfolding run using w(1) by linarith
  next
    case False
    have "allowedWhen ?I (keyRun C cat ts (Some (w\<lparr>rwCount := rwCount w + 1\<rparr>))) \<le> 2 * nat (rateLimit C cat)"
      using Cons.prems w(1) by (intro Cons.IH) auto
    then show ?thesis unfolding run keyRun_open [OF w(2)] using False by simp
  qed
qed simp

lemma sorted_key: "times_sorted qs \<Longrightarrow> sorted (map (\<lambda>(n, c, t). t) (filter Q qs))"
  unfolding times_sorted_def by (rule sorted_filter [where f = "\<lambda>(n, c, t). t"])

lemma allowedWhen_of:
  "allowedWhen Q (allowedOf name cat xs) = length (filter (\<lambda>((n, c, t), ok). n = name \<and> c = cat \<and> Q t \<and> ok) xs)"
  by (induction xs) (auto simp: allowedOf_def split: if_splits)

text \<open>
  C26: with a configuration that was loaded, whatever calls are made in whatever order, no token gets
  more than twice its limit of a category through in any interval as long as the window.
\<close>

theorem rate_limit_bounds_calls:
  assumes "mcpLoadConfig M required = Inr C" and "times_sorted qs"
  shows "length (filter (\<lambda>((n, c, t), ok). n = name \<and> c = cat \<and> (t0 \<le> t \<and> t < t0 + mhWindowMs C) \<and> ok)
    (zip qs (rateRun C qs []))) \<le> 2 * nat (rateLimit C cat)"
proof -
  have "0 < mhWindowMs C" using mcpLoadConfig_ok [OF assms(1)] by (simp add: host_config_ok_def)
  then show ?thesis
    unfolding allowedWhen_of [symmetric] rateRun_key using sorted_key [OF assms(2)] by (intro interval_bound) simp_all
qed

definition example_inputs :: mcp_inputs where
  "example_inputs =
    \<lparr>miEnv = (\<lambda>k. if k = ''MCP_READ_BEARER_TOKENS'' then Some ''[..]'' else if k = ''MCP_RATE_LIMIT_READ'' then Some ''1'' else None),
     miCwd = ''/app'', miResolve = (\<lambda>p. ''/app/'' @ p), miExists = (\<lambda>_. False), miRead = Inr,
     miJson5 = (\<lambda>_. Inr (Arr [Obj [(''name'', Str ''bot''), (''token'', Str ''secret'')]]))\<rparr>"

definition example_config :: mcp_host_config where
  "example_config = (case mcpLoadConfig example_inputs False of Inr C \<Rightarrow> C)"

lemma example_config_loaded: "mcpLoadConfig example_inputs False = Inr example_config"
proof -
  have "clientNamePattern ''bot''" by code_simp
  moreover have "trim ''bot'' = ''bot''" by code_simp
  moreover have "mcpParseBoolean (Bool True) True" "\<not> mcpParseBoolean (Bool False) False" by code_simp+
  ultimately have "\<exists>C. mcpLoadConfig example_inputs False = Inr C"
    by (simp add: mcpLoadConfig_def example_inputs_def mcpReadJson5_def readProp_def mcpEnvOr_def getProp_def coalesce_def
        nullish_def parseTokenEntries_def tokenEntry_def readTokenValue_def tokenNameOk_def duplicateNames_def Let_def
        fileValue_def)
  then show ?thesis by (auto simp: example_config_def)
qed

theorem rate_limit_bounds_calls_witness:
  "length (filter (\<lambda>((n, c, t), ok). n = ''bot'' \<and> c = ReadRate \<and> (5 \<le> t \<and> t < 5 + mhWindowMs example_config) \<and> ok)
    (zip [(''bot'', ReadRate, 5), (''bot'', ReadRate, 7)] (rateRun example_config [(''bot'', ReadRate, 5), (''bot'', ReadRate, 7)] [])))
    \<le> 2 * nat (rateLimit example_config ReadRate)"
  by (rule rate_limit_bounds_calls [OF example_config_loaded]) (simp add: times_sorted_def)

text \<open>
  With a configuration that was loaded, whoever a bearer token authenticates has the name and the
  access of one configured token with the same digest, the only one of that name, and never the name
  the service itself signs with.
\<close>

theorem mcp_bearer_is_configured:
  assumes "mcpLoadConfig M required = Inr C" and "authenticateBearer P C header = Some i"
  shows "\<exists>t supplied. t \<in> set (mhTokens C) \<and> bearerToken (case header of None \<Rightarrow> [] | Some h \<Rightarrow> h) = Some supplied \<and>
    sha256_hex P (tkToken t) = sha256_hex P supplied \<and> i = \<lparr>idName = tkName t, idAccess = tkAccess t\<rparr> \<and>
    (\<forall>u \<in> set (mhTokens C). tkName u = idName i \<longrightarrow> u = t) \<and> idName i \<noteq> mcpServiceSubject \<and> clientNamePattern (idName i)"
proof -
  have C: "host_config_ok C" by (rule mcpLoadConfig_ok [OF assms(1)])
  obtain supplied t where s: "bearerToken (case header of None \<Rightarrow> [] | Some h \<Rightarrow> h) = Some supplied"
    and f: "List.find (\<lambda>e. sha256_hex P (tkToken e) = sha256_hex P supplied) (mhTokens C) = Some t"
    and i: "i = \<lparr>idName = tkName t, idAccess = tkAccess t\<rparr>"
    using assms(2) by (auto simp: authenticateBearer_def bind_eq_Some_conv)
  have t: "t \<in> set (mhTokens C)" "sha256_hex P (tkToken t) = sha256_hex P supplied"
    using find_Some_set [OF f] by simp_all
  have "u = t" if "u \<in> set (mhTokens C)" "tkName u = tkName t" for u
    using C t(1) that by (auto simp: host_config_ok_def distinct_map inj_on_def)
  moreover have "token_ok t" using C t(1) by (simp add: host_config_ok_def)
  ultimately show ?thesis
    using s t i by (intro exI [of _ t] exI [of _ supplied]) (simp add: token_ok_def mcpServiceSubject_def)
qed

end
