(* ===== verification/McpClient.thy ===== *)
theory McpClient
  imports McpHostConfig
begin

text \<open>
  How the MCP server calls the API: its log (\<open>mcp/src/logger.js\<close>), the client that signs each request
  (\<open>mqttctlClient.js\<close>) and the heartbeat (\<open>heartbeat.js\<close>). The main theorem composes this program with the
  API: a proof that this client makes is one that \<open>McpAuth\<close> accepts.
\<close>

section \<open>The process\<close>

record host_response =
  hrStatus :: int
  hrHeader :: "string \<Rightarrow> string option"
  hrSetCookie :: "string list"
  hrBody :: string

record host_request =
  hqUrl :: url
  hqMethod :: string
  hqHeaders :: "(string \<times> string) list"
  hqBody :: "string option"
  hqTimeoutMs :: "int option"
  hqVerifyTls :: bool

text \<open>
  What the runtime provides: keys and signatures, base64url, SHA-256, URLs, random ids, the form of a
  time stamp and \<open>fetch\<close>, which acts on the network.
\<close>

record ('k, 'n) mcp_platform =
  mpReadFile :: "string \<Rightarrow> exn + string"
  mpPrivateKey :: "string \<Rightarrow> exn + (string option \<times> 'k)"
  mpSign :: "'k \<Rightarrow> string \<Rightarrow> string"
  mpEncode :: "string \<Rightarrow> string"
  mpSha256 :: "string \<Rightarrow> string"
  mpUrl :: "string \<Rightarrow> string option \<Rightarrow> url option"
  mpUuid :: "nat \<Rightarrow> string"
  mpIso :: "int \<Rightarrow> string"
  mpFetch :: "host_request \<Rightarrow> 'n \<Rightarrow> (exn + host_response) \<times> 'n"

text \<open>
  The state of the process that its parts share: time, random ids drawn, lines written, and the requests
  handed to \<open>fetch\<close>, a history that the code does not keep.
\<close>

record 'n mcp_process =
  prTime :: int
  prUuids :: nat
  prLog :: "jsval list"
  prSent :: "host_request list"
  prNet :: 'n

type_synonym ('n, 'a) mcp_io = "('n mcp_process, 'a) io"

section \<open>The log\<close>

definition mcpSensitiveKeys :: "string list" where
  "mcpSensitiveKeys = [''authorization'', ''cookie'', ''token'', ''password'', ''privatekey'', ''payload'']"

definition mcpSensitive :: "string \<Rightarrow> bool" where
  "mcpSensitive key \<longleftrightarrow> toLowerCase (filter (\<lambda>c. c \<noteq> CHR ''_'' \<and> c \<noteq> CHR ''-'') key) \<in> set mcpSensitiveKeys"

fun mcpRedact :: "jsval \<Rightarrow> jsval" where
  "mcpRedact (Arr vs) = Arr (map mcpRedact vs)"
| "mcpRedact (Obj kvs) = Obj (map (\<lambda>kv. (fst kv, if mcpSensitive (fst kv) then Str ''<redacted>'' else mcpRedact (snd kv))) kvs)"
| "mcpRedact v = v"

record api_error =
  aeStatus :: int
  aeResponse :: jsval
  aePath :: string
  aeMessage :: string

text \<open>What a call throws: an error of the runtime or a \<open>MqttctlApiError\<close>.\<close>

datatype call_error = Thrown exn | ApiFailed api_error

fun callErrorName :: "call_error \<Rightarrow> string" where
  "callErrorName (ApiFailed a) = ''MqttctlApiError''"
| "callErrorName (Thrown (PlainErr n m c)) = n"
| "callErrorName (Thrown e) = ''Error''"

fun callErrorMessage :: "call_error \<Rightarrow> jsval" where
  "callErrorMessage (ApiFailed a) = Str (aeMessage a)"
| "callErrorMessage (Thrown (ThrownVal v)) = (if nullish v then Undef else getProp ''message'' v)"
| "callErrorMessage (Thrown (PlainErr n m c)) = Str m"
| "callErrorMessage (Thrown e) = Str (errorMessage e)"

fun callErrorStatus :: "call_error \<Rightarrow> jsval" where
  "callErrorStatus (ApiFailed a) = num_int (aeStatus a)"
| "callErrorStatus (Thrown (ThrownVal v)) = getProp ''status'' v"
| "callErrorStatus (Thrown e) = Undef"

fun callErrorResponse :: "call_error \<Rightarrow> jsval" where
  "callErrorResponse (ApiFailed a) = aeResponse a"
| "callErrorResponse (Thrown (ThrownVal v)) = getProp ''response'' v"
| "callErrorResponse (Thrown e) = Undef"

fun redactedError :: "call_error \<Rightarrow> jsval" where
  "redactedError (Thrown (ThrownVal v)) = mcpRedact v"
| "redactedError e = Obj [(''name'', Str (callErrorName e)), (''message'', callErrorMessage e)]"

definition mcpErrorCodes :: "(string \<times> string) list" where
  "mcpErrorCodes =
   [(''ERR_UNKNOWN'', ''A5BDEABD97D51576''), (''HTTP_REQUEST_FAILED'', ''BFD8234C66E95174''),
    (''MCP_CONFIG_INVALID'', ''5E1A4E766F5CD79D''), (''MCP_MQTT_CLEANUP_FAILED'', ''75932382812F352B''),
    (''MCP_MQTT_DISCONNECT_FAILED'', ''7B873F11F7E00643''), (''MCP_MQTT_SSE_FAILED'', ''0EA3AA9413EDEE3A''),
    (''MCP_SESSION_CLEANUP_FAILED'', ''0E70567716F6775D''), (''MCP_SIGNING_KEY_LOAD_FAILED'', ''E26E2829B486251E''),
    (''MCP_TOOL_FAILED'', ''F587E2F69305EA67'')]"

definition mcpErrorCode :: "string \<Rightarrow> string" where
  "mcpErrorCode key = (case map_of mcpErrorCodes key of Some c \<Rightarrow> c | None \<Rightarrow> ''A5BDEABD97D51576'')"

definition mcpLog ::
  "('k, 'n) mcp_platform \<Rightarrow> string \<Rightarrow> string \<Rightarrow> jsval \<Rightarrow> string \<Rightarrow> string option \<Rightarrow> jsval \<Rightarrow> jsval \<Rightarrow> ('n, unit) mcp_io" where
  "mcpLog E level caller loggerKey message errKey context error =
    andThen (gets prTime) (\<lambda>t.
    modify (\<lambda>w. w\<lparr>prLog := prLog w @ [Obj
      [(''timestamp'', Str (mpIso E t)), (''level'', Str level), (''caller'', Str caller), (''loggerKey'', loggerKey),
       (''message'', Str message), (''correlationId'', Null), (''errorKey'', opt_str errKey),
       (''errorCode'', (case errKey of None \<Rightarrow> Null | Some k \<Rightarrow> Str (mcpErrorCode k))),
       (''context'', mcpRedact context), (''error'', error)]]\<rparr>))"

definition mcpGenerateLog ::
  "('k, 'n) mcp_platform \<Rightarrow> string \<Rightarrow> string \<Rightarrow> string \<Rightarrow> string \<Rightarrow> jsval \<Rightarrow> ('n, unit) mcp_io" where
  "mcpGenerateLog E level caller loggerKey message context =
    mcpLog E level caller (Str loggerKey) message None context Undef"

definition mcpGenerateError ::
  "('k, 'n) mcp_platform \<Rightarrow> string \<Rightarrow> string \<Rightarrow> string \<Rightarrow> call_error \<Rightarrow> jsval \<Rightarrow> ('n, unit) mcp_io" where
  "mcpGenerateError E caller reason key err context =
    mcpLog E ''error'' caller Null reason (Some key) context (redactedError err)"

section \<open>The proof of a request\<close>

definition loadSigningKey :: "('k, 'n) mcp_platform \<Rightarrow> string \<Rightarrow> exn + 'k" where
  "loadSigningKey E path =
    thenR (mpReadFile E path) (\<lambda>pem. thenR (mpPrivateKey E pem) (\<lambda>(kind, key).
      if kind \<noteq> Some ''ed25519'' then
        Inl (plainError (''MCP signing private key at '' @ path @ '' is '' @ (case kind of None \<Rightarrow> ''unknown'' | Some k \<Rightarrow> k)
          @ ''; expected Ed25519 PKCS8 PEM.''))
      else Inr key))"

definition encodePart :: "('k, 'n) mcp_platform \<Rightarrow> jsval \<Rightarrow> string" where
  "encodePart E v = mpEncode E (json_text v)"

definition proofHeader :: "mcp_host_config \<Rightarrow> jsval" where
  "proofHeader C = Obj [(''alg'', Str ''EdDSA''), (''typ'', Str ''mqttctl-mcp+jwt''), (''kid'', Str (mhKeyId C))]"

definition proofClaims ::
  "('k, 'n) mcp_platform \<Rightarrow> mcp_host_config \<Rightarrow> mcp_identity \<Rightarrow> string \<Rightarrow> string \<Rightarrow> string \<Rightarrow> int \<Rightarrow> string \<Rightarrow> jsval" where
  "proofClaims E C i method requestTarget bodyBytes nowSeconds jti =
    Obj [(''iss'', Str ''mqttctl-mcp''), (''aud'', Str (mhAudience C)), (''sub'', Str (idName i)),
      (''access'', Str (mcp_access_str (idAccess i))), (''iat'', num_int nowSeconds), (''exp'', num_int (nowSeconds + 20)),
      (''jti'', Str jti), (''htm'', Str (toUpperCase method)), (''htu'', Str requestTarget),
      (''body_sha256'', Str (mpSha256 E bodyBytes))]"

definition createRequestProof ::
  "('k, 'n) mcp_platform \<Rightarrow> mcp_host_config \<Rightarrow> 'k \<Rightarrow> mcp_identity \<Rightarrow> string \<Rightarrow> string \<Rightarrow> string \<Rightarrow> int \<Rightarrow> string \<Rightarrow> string" where
  "createRequestProof E C key i method requestTarget bodyBytes nowSeconds jti =
    (let protectedPart = encodePart E (proofHeader C);
         payloadPart = encodePart E (proofClaims E C i method requestTarget bodyBytes nowSeconds jti);
         signingInput = protectedPart @ ''.'' @ payloadPart in
     signingInput @ ''.'' @ mpEncode E (mpSign E key signingInput))"

section \<open>The client\<close>

record mcp_call =
  caMethod :: string
  caPath :: string
  caBody :: "jsval option"

record mcp_reply =
  mrStatus :: int
  mrContentType :: "string option"
  mrFileName :: "string option"
  mrBody :: jsval

text \<open>The cookies of a client, in the order of the map.\<close>

type_synonym cookies = "(string \<times> string) list"

definition updateCookie :: "string \<Rightarrow> cookies \<Rightarrow> cookies" where
  "updateCookie v cs =
    (let pair = hd (splitOn (CHR '';'') v); name = takeWhile (\<lambda>c. c \<noteq> CHR ''='') pair in
     if CHR ''='' \<notin> set pair \<or> name = [] then cs
     else AList.update (trim name) (trim (drop (Suc (length name)) pair)) cs)"

definition updateCookies :: "host_response \<Rightarrow> cookies \<Rightarrow> cookies" where
  "updateCookies r cs = fold updateCookie (hrSetCookie r) cs"

definition cookieHeader :: "cookies \<Rightarrow> string" where
  "cookieHeader cs = join ''; '' (map (\<lambda>(name, v). name @ ''='' @ v) cs)"

fun attachmentName :: "string \<Rightarrow> string option" where
  "attachmentName [] = None"
| "attachmentName (c # cs) =
    (let rest = drop 8 cs; r = (case rest of d # ds \<Rightarrow> if d = CHR 0x22 then ds else rest | [] \<Rightarrow> []);
         name = takeWhile (\<lambda>d. d \<noteq> CHR 0x22 \<and> d \<noteq> CHR '';'') r in
     if toLowerCase (c # take 8 cs) = ''filename='' \<and> name \<noteq> [] then Some name else attachmentName cs)"

definition parseResponseBody :: "host_response \<Rightarrow> jsval" where
  "parseResponseBody r =
    (if containsStr (case hrHeader r ''content-type'' of None \<Rightarrow> [] | Some s \<Rightarrow> s) ''application/json''
     then (case jsonParse (hrBody r) of Inr v \<Rightarrow> v | Inl _ \<Rightarrow> Null) else Str (hrBody r))"

definition apiError :: "int \<Rightarrow> jsval \<Rightarrow> string \<Rightarrow> api_error" where
  "apiError status response path =
    \<lparr>aeStatus = status, aeResponse = response, aePath = path,
     aeMessage = to_string (coalesce (getProp ''reason'' response) (coalesce (getProp ''message'' response)
       (Str (''mqttctl request failed with HTTP '' @ int_str status @ ''.''))))\<rparr>"

definition callBytes :: "mcp_call \<Rightarrow> string" where
  "callBytes call = (case caBody call of None \<Rightarrow> [] | Some v \<Rightarrow> json_text v)"

definition signedRequest ::
  "('k, 'n) mcp_platform \<Rightarrow> mcp_host_config \<Rightarrow> 'k \<Rightarrow> mcp_identity \<Rightarrow> cookies \<Rightarrow> bool \<Rightarrow> mcp_call \<Rightarrow> url \<Rightarrow> int \<Rightarrow> string \<Rightarrow> host_request" where
  "signedRequest E C key i cs streaming call u nowSeconds jti =
    (let proof = createRequestProof E C key i (caMethod call) (urlPathname u @ urlSearch u) (callBytes call) nowSeconds jti in
     \<lparr>hqUrl = u, hqMethod = caMethod call,
      hqHeaders = [(''accept'', if streaming then ''text/event-stream'' else ''application/json''),
          (''authorization'', ''MQTTCTL-MCP '' @ proof)]
        @ (if caBody call \<noteq> None then [(''content-type'', ''application/json'')] else [])
        @ (if cookieHeader cs \<noteq> [] then [(''cookie'', cookieHeader cs)] else []),
      hqBody = map_option (\<lambda>_. callBytes call) (caBody call),
      hqTimeoutMs = (if streaming then None else Some (mhTimeoutMs C)), hqVerifyTls = mhVerifyTls C\<rparr>)"

definition fetchSigned ::
  "('k, 'n) mcp_platform \<Rightarrow> mcp_host_config \<Rightarrow> 'k \<Rightarrow> mcp_identity \<Rightarrow> bool \<Rightarrow> mcp_call \<Rightarrow> cookies
    \<Rightarrow> ('n, host_response \<times> cookies) mcp_io" where
  "fetchSigned E C key i streaming call cs w =
    (case mpUrl E (caPath call) (Some (mhBaseUrl C @ ''/'')) of
       None \<Rightarrow> (Inl (typeError ''Invalid URL''), w)
     | Some u \<Rightarrow>
        (let q = signedRequest E C key i cs streaming call u (prTime w div 1000) (mpUuid E (prUuids w));
             w' = w\<lparr>prUuids := Suc (prUuids w), prSent := prSent w @ [q], prNet := snd (mpFetch E q (prNet w))\<rparr> in
         case fst (mpFetch E q (prNet w)) of
           Inl e \<Rightarrow> (Inl e, w')
         | Inr r \<Rightarrow> (Inr (r, updateCookies r cs), w')))"

definition responseOk :: "host_response \<Rightarrow> bool" where
  "responseOk r \<longleftrightarrow> 200 \<le> hrStatus r \<and> hrStatus r \<le> 299"

text \<open>The outcome of \<open>request\<close>, and the cookies after it.\<close>

definition requestOutcome :: "string \<Rightarrow> host_response \<Rightarrow> call_error + mcp_reply" where
  "requestOutcome path r =
    (if \<not> responseOk r then Inl (ApiFailed (apiError (hrStatus r) (parseResponseBody r) path))
     else Inr \<lparr>mrStatus = hrStatus r, mrContentType = hrHeader r ''content-type'',
       mrFileName = attachmentName (case hrHeader r ''content-disposition'' of None \<Rightarrow> [] | Some s \<Rightarrow> s),
       mrBody = parseResponseBody r\<rparr>)"

definition apiRequest ::
  "('k, 'n) mcp_platform \<Rightarrow> mcp_host_config \<Rightarrow> 'k \<Rightarrow> mcp_identity \<Rightarrow> mcp_call \<Rightarrow> cookies
    \<Rightarrow> 'n mcp_process \<Rightarrow> (call_error + mcp_reply) \<times> cookies \<times> 'n mcp_process" where
  "apiRequest E C key i call cs w =
    (case fetchSigned E C key i False call cs w of
       (Inl e, w') \<Rightarrow> (Inl (Thrown e), cs, w')
     | (Inr (r, cs'), w') \<Rightarrow> (requestOutcome (caPath call) r, cs', w'))"

definition openEventStream ::
  "('k, 'n) mcp_platform \<Rightarrow> mcp_host_config \<Rightarrow> 'k \<Rightarrow> mcp_identity \<Rightarrow> cookies
    \<Rightarrow> 'n mcp_process \<Rightarrow> (call_error + host_response) \<times> cookies \<times> 'n mcp_process" where
  "openEventStream E C key i cs w =
    (case fetchSigned E C key i True \<lparr>caMethod = ''GET'', caPath = ''/api/mqtt/events'', caBody = None\<rparr> cs w of
       (Inl e, w') \<Rightarrow> (Inl (Thrown e), cs, w')
     | (Inr (r, cs'), w') \<Rightarrow>
        (if \<not> responseOk r then Inl (ApiFailed (apiError (hrStatus r) (parseResponseBody r) ''/api/mqtt/events'')) else Inr r,
         cs', w'))"

section \<open>The heartbeat\<close>

record mcp_beat =
  mbInstance :: string
  mbStartedAt :: string
  mbCookies :: cookies
  mbStopped :: bool
  mbTimer :: bool
  mbLastSuccess :: "string option"
  mbLastError :: "call_error option"

definition serviceIdentity :: mcp_identity where
  "serviceIdentity = \<lparr>idName = ''_service'', idAccess = McpRead\<rparr>"

definition createHeartbeat :: "('k, 'n) mcp_platform \<Rightarrow> ('n, mcp_beat) mcp_io" where
  "createHeartbeat E w =
    (Inr \<lparr>mbInstance = mpUuid E (prUuids w), mbStartedAt = mpIso E (prTime w), mbCookies = [], mbStopped = False,
       mbTimer = False, mbLastSuccess = None, mbLastError = None\<rparr>, w\<lparr>prUuids := Suc (prUuids w)\<rparr>)"

definition beatCall :: "('k, 'n) mcp_platform \<Rightarrow> string \<times> string \<Rightarrow> mcp_beat \<Rightarrow> int \<Rightarrow> mcp_call" where
  "beatCall E build b t =
    \<lparr>caMethod = ''POST'', caPath = ''/api/mcp/heartbeat'',
     caBody = Some (Obj [(''version'', Str (fst build)), (''buildHash'', Str (snd build)), (''instanceId'', Str (mbInstance b)),
       (''startedAt'', Str (mbStartedAt b)), (''heartbeatAt'', Str (mpIso E t))])\<rparr>"

text \<open>A throw of the heartbeat is logged with these fields.\<close>

definition beatContext :: "call_error \<Rightarrow> jsval" where
  "beatContext e = Obj [(''status'', coalesce (callErrorStatus e) Null),
    (''errorKey'', coalesce (getProp ''errorKey'' (callErrorResponse e)) Null),
    (''reason'', coalesce (callErrorMessage e) (Str ''Unknown heartbeat error''))]"

definition beatSend ::
  "('k, 'n) mcp_platform \<Rightarrow> mcp_host_config \<Rightarrow> 'k \<Rightarrow> string \<times> string \<Rightarrow> mcp_beat \<Rightarrow> 'n mcp_process \<Rightarrow> mcp_beat \<times> 'n mcp_process" where
  "beatSend E C key build b w =
    (case apiRequest E C key serviceIdentity (beatCall E build b (prTime w)) (mbCookies b) w of
       (Inr r, cs, w') \<Rightarrow> (b\<lparr>mbCookies := cs, mbLastSuccess := Some (mpIso E (prTime w')), mbLastError := None\<rparr>, w')
     | (Inl e, cs, w') \<Rightarrow>
        (b\<lparr>mbCookies := cs, mbLastError := Some e\<rparr>,
         after (mcpGenerateLog E ''warn'' ''heartbeat::send'' ''MCP_HEARTBEAT_FAILED''
           ''mqttctl rejected or did not receive the MCP heartbeat.'' (beatContext e)) w'))"

text \<open>The timer is set when a send has settled; a timer that fires after \<open>stop\<close> does nothing.\<close>

definition beatSchedule :: "mcp_beat \<Rightarrow> mcp_beat" where
  "beatSchedule b = b\<lparr>mbTimer := True\<rparr>"

definition beatFire ::
  "('k, 'n) mcp_platform \<Rightarrow> mcp_host_config \<Rightarrow> 'k \<Rightarrow> string \<times> string \<Rightarrow> mcp_beat \<Rightarrow> 'n mcp_process \<Rightarrow> mcp_beat \<times> 'n mcp_process" where
  "beatFire E C key build b w =
    (if mbStopped b then (b\<lparr>mbTimer := False\<rparr>, w)
     else case beatSend E C key build (b\<lparr>mbTimer := False\<rparr>) w of (b', w') \<Rightarrow> (beatSchedule b', w'))"

definition beatStop :: "mcp_beat \<Rightarrow> mcp_beat" where
  "beatStop b = b\<lparr>mbStopped := True, mbTimer := False\<rparr>"

definition beatStatus :: "mcp_beat \<Rightarrow> jsval" where
  "beatStatus b = Obj [(''lastSuccessAt'', opt_str (mbLastSuccess b)),
    (''lastError'', (case mbLastError b of None \<Rightarrow> Null
       | Some e \<Rightarrow> Obj [(''status'', coalesce (callErrorStatus e) Null), (''reason'', callErrorMessage e)]))]"

end
