(* ===== verification/McpStream.thy ===== *)
theory McpStream
  imports McpClient
begin

text \<open>
  The event stream between the API and the MCP server: what the API writes for one event
  (\<open>api/mqtt/events/+server.ts\<close>), the parser of the MCP server (\<open>SseParser\<close> of \<open>mqttBuffer.js\<close>), and
  the proof that the second reads back what the first wrote, however the network cuts it.
\<close>

section \<open>The parser\<close>

definition cr :: char where "cr = CHR 0x0D"
definition lf :: char where "lf = CHR 0x0A"

lemma crlf_neq [simp]: "cr \<noteq> lf" "lf \<noteq> cr"
  by (simp_all add: cr_def lf_def)

text \<open>The length of a match of \<open>/\r?\n\r?\n/\<close> at the head of the text.\<close>

definition sepLength :: "string \<Rightarrow> nat option" where
  "sepLength s =
    (if startsWith s [cr, lf, cr, lf] then Some 4
     else if startsWith s [cr, lf, lf] \<or> startsWith s [lf, cr, lf] then Some 3
     else if startsWith s [lf, lf] then Some 2 else None)"

lemma sepLength_cases:
  assumes "sepLength s = Some n"
  obtains r where "s = [cr, lf, cr, lf] @ r" "n = 4" | r where "s = [cr, lf, lf] @ r" "n = 3"
    | r where "s = [lf, cr, lf] @ r" "n = 3" | r where "s = [lf, lf] @ r" "n = 2"
  using assms by (auto simp: sepLength_def startsWith_append split: if_splits)

fun nextFrame :: "string \<Rightarrow> (string \<times> string) option" where
  "nextFrame [] = None"
| "nextFrame (c # cs) =
    (case sepLength (c # cs) of
       Some n \<Rightarrow> Some ([], drop n (c # cs))
     | None \<Rightarrow> map_option (\<lambda>(f, r). (c # f, r)) (nextFrame cs))"

lemma sepLength_pos: "sepLength s = Some n \<Longrightarrow> 0 < n \<and> n \<le> length s"
  by (erule sepLength_cases) simp_all

lemma nextFrame_shorter: "nextFrame s = Some (f, r) \<Longrightarrow> length r < length s"
proof (induction s arbitrary: f r)
  case (Cons c cs)
  show ?case
  proof (cases "sepLength (c # cs)")
    case None
    then obtain g where "nextFrame cs = Some (g, r)" using Cons.prems by (auto split: prod.splits)
    from Cons.IH [OF this] show ?thesis by simp
  next
    case (Some n)
    then have "r = drop n (c # cs)" using Cons.prems by simp
    then show ?thesis using sepLength_pos [OF Some] by simp
  qed
qed simp

function sseFrames :: "string \<Rightarrow> string list \<times> string" where
  "sseFrames s =
    (case nextFrame s of
       None \<Rightarrow> ([], s)
     | Some (f, r) \<Rightarrow> (case sseFrames r of (fs, rest) \<Rightarrow> (f # fs, rest)))"
  by pat_completeness auto
termination by (relation "measure length") (auto dest: nextFrame_shorter)

declare sseFrames.simps [simp del]

text \<open>\<open>\r\n\<close> and then \<open>\r\<close> alone become \<open>\n\<close>.\<close>

fun plainNewlines :: "string \<Rightarrow> string" where
  "plainNewlines [] = []"
| "plainNewlines (c # cs) =
    (if c \<noteq> cr then c # plainNewlines cs
     else case cs of
       [] \<Rightarrow> [lf]
     | d # ds \<Rightarrow> if d = lf then lf # plainNewlines ds else lf # plainNewlines (d # ds))"

definition sseField :: "string \<Rightarrow> string \<times> string" where
  "sseField line =
    (if CHR '':'' \<notin> set line then (line, [])
     else let v = drop 1 (dropWhile (\<lambda>c. c \<noteq> CHR '':'') line) in
       (takeWhile (\<lambda>c. c \<noteq> CHR '':'') line, if v \<noteq> [] \<and> hd v = CHR '' '' then tl v else v))"

record sse_event =
  seEvent :: string
  seData :: string

definition parseFrame :: "string \<Rightarrow> sse_event option" where
  "parseFrame frame =
    (let fields = map sseField (filter (\<lambda>l. l \<noteq> [] \<and> hd l \<noteq> CHR '':'') (splitOn lf (plainNewlines frame)));
         names = map snd (filter (\<lambda>(f, v). f = ''event'') fields);
         datas = map snd (filter (\<lambda>(f, v). f = ''data'') fields) in
     if datas = [] then None else Some \<lparr>seEvent = last (''message'' # names), seData = join [lf] datas\<rparr>)"

text \<open>One \<open>push\<close>: the events it reports and the text that stays pending.\<close>

definition ssePush :: "string \<Rightarrow> string \<Rightarrow> sse_event list \<times> string" where
  "ssePush pending chunk = (case sseFrames (pending @ chunk) of (fs, rest) \<Rightarrow> (List.map_filter parseFrame fs, rest))"

fun ssePushAll :: "string \<Rightarrow> string list \<Rightarrow> sse_event list \<times> string" where
  "ssePushAll pending [] = ([], pending)"
| "ssePushAll pending (c # cs) =
    (case ssePush pending c of (es, rest) \<Rightarrow> case ssePushAll rest cs of (fs, final) \<Rightarrow> (es @ fs, final))"

section \<open>Chunks do not matter\<close>

lemma sepLength_append: "sepLength s = Some n \<Longrightarrow> sepLength (s @ t) = Some n"
  by (erule sepLength_cases) (simp_all add: sepLength_def)

text \<open>A separator that the end of a chunk cuts is not one that an earlier position hides.\<close>

lemma sepLength_cut:
  assumes "sepLength s = None" and "sepLength (s @ t) \<noteq> None"
  shows "s \<in> {[], [cr], [cr, lf], [cr, lf, cr], [lf], [lf, cr]}"
proof -
  obtain n where n: "sepLength (s @ t) = Some n" using assms(2) by blast
  have "\<not> (\<exists>r. s = p @ r)" if "p \<in> {[cr, lf, cr, lf], [cr, lf, lf], [lf, cr, lf], [lf, lf]}" for p
    using assms(1) that by (auto simp: sepLength_def startsWith_append split: if_splits)
  moreover have "\<exists>p r. p \<in> {[cr, lf, cr, lf], [cr, lf, lf], [lf, cr, lf], [lf, lf]} \<and> s @ t = p @ r"
    using n by (rule sepLength_cases) (metis insertI1 insertI2)+
  then obtain p r where p: "p \<in> {[cr, lf, cr, lf], [cr, lf, lf], [lf, cr, lf], [lf, lf]}" "s @ t = p @ r"
    by blast
  ultimately have no: "s \<noteq> p @ r" for r by blast
  from p(2) obtain u where u: "s = p @ u \<or> p = s @ u" by (auto simp: append_eq_append_conv2)
  then have "p = s @ u" "u \<noteq> []" using no [of u] no [of "[]"] by auto
  then show ?thesis using p(1) by (auto simp: append_eq_Cons_conv)
qed

lemma nextFrame_append: "nextFrame s = Some (f, r) \<Longrightarrow> nextFrame (s @ t) = Some (f, r @ t)"
proof (induction s arbitrary: f r)
  case (Cons c cs)
  show ?case
  proof (cases "sepLength (c # cs)")
    case (Some n)
    then show ?thesis using Cons.prems sepLength_append [OF Some, of t] sepLength_pos [OF Some]
      by (cases n) auto
  next
    case None
    then obtain g where g: "nextFrame cs = Some (g, r)" "f = c # g" using Cons.prems by (auto split: prod.splits)
    have "sepLength ((c # cs) @ t) = None"
    proof (rule ccontr)
      assume "sepLength ((c # cs) @ t) \<noteq> None"
      from sepLength_cut [OF None this] have "cs \<in> {[], [lf], [lf, cr], [cr]}" by auto
      then have "nextFrame cs = None" by (auto simp: sepLength_def)
      then show False using g by simp
    qed
    then show ?thesis using Cons.IH [OF g(1)] g(2) by simp
  qed
qed simp

lemma sseFrames_append:
  "sseFrames (s @ t) = (case sseFrames s of (fs, rest) \<Rightarrow> case sseFrames (rest @ t) of (gs, final) \<Rightarrow> (fs @ gs, final))"
proof (induction s rule: sseFrames.induct)
  case (1 s)
  show ?case
  proof (cases "nextFrame s")
    case None
    then show ?thesis by (subst (2) sseFrames.simps) (simp split: prod.split)
  next
    case (Some fr)
    then obtain f r where fr: "nextFrame s = Some (f, r)" by (cases fr) simp
    have ih: "sseFrames (r @ t) = (case sseFrames r of (fs, rest) \<Rightarrow> case sseFrames (rest @ t) of (gs, final) \<Rightarrow> (fs @ gs, final))"
      using 1 [OF fr] by simp
    have "sseFrames s = (case sseFrames r of (fs, rest) \<Rightarrow> (f # fs, rest))"
      by (subst sseFrames.simps) (simp add: fr)
    moreover have "sseFrames (s @ t) = (case sseFrames (r @ t) of (fs, rest) \<Rightarrow> (f # fs, rest))"
      by (subst sseFrames.simps) (simp add: nextFrame_append [OF fr])
    ultimately show ?thesis by (simp add: ih split: prod.split)
  qed
qed

lemma map_filter_append: "List.map_filter f (xs @ ys) = List.map_filter f xs @ List.map_filter f ys"
  by (simp add: List.map_filter_def)

lemma ssePushAll_concat:
  "sseFrames pending = ([], pending) \<Longrightarrow> ssePushAll pending cs = ssePush pending (concat cs)"
proof (induction cs arbitrary: pending)
  case Nil
  then show ?case by (simp add: ssePush_def map_filter_simps)
next
  case (Cons c cs)
  obtain fs rest where a: "sseFrames (pending @ c) = (fs, rest)" by fastforce
  have "sseFrames rest = ([], rest)"
    using sseFrames_append [of "pending @ c" "[]"] a by (cases "sseFrames rest") simp
  note ih = Cons.IH [OF this]
  obtain gs final where b: "sseFrames (rest @ concat cs) = (gs, final)" by fastforce
  have "sseFrames (pending @ c @ concat cs) = (fs @ gs, final)"
    using sseFrames_append [of "pending @ c" "concat cs"] a b by simp
  then show ?case using a b by (simp add: ssePush_def ih map_filter_append)
qed

section \<open>What the API writes\<close>

text \<open>The state of a session, one publication, or the comment that keeps the connection open.\<close>

datatype stream_frame = ExplorerFrame jsval | MessageFrame jsval | PingFrame

fun frameLines :: "stream_frame \<Rightarrow> string list" where
  "frameLines (ExplorerFrame x) = [''data: '' @ json_text (Obj [(''explorer'', x)])]"
| "frameLines (MessageFrame m) = [''event: mqtt-message'', ''data: '' @ json_text (Obj [(''message'', m)])]"
| "frameLines PingFrame = ['': ping'']"

definition frameText :: "stream_frame \<Rightarrow> string" where
  "frameText f = join [lf] (frameLines f) @ [lf, lf]"

text \<open>The event that a frame is for a reader.\<close>

fun frameEvent :: "stream_frame \<Rightarrow> sse_event option" where
  "frameEvent (ExplorerFrame x) = Some \<lparr>seEvent = ''message'', seData = json_text (Obj [(''explorer'', x)])\<rparr>"
| "frameEvent (MessageFrame m) = Some \<lparr>seEvent = ''mqtt-message'', seData = json_text (Obj [(''message'', m)])\<rparr>"
| "frameEvent PingFrame = None"

fun frame_ok :: "stream_frame \<Rightarrow> bool" where
  "frame_ok (ExplorerFrame x) = json_ok x"
| "frame_ok (MessageFrame m) = json_ok m"
| "frame_ok PingFrame = True"

section \<open>JSON has no line breaks\<close>

definition printable :: "string \<Rightarrow> bool" where
  "printable s \<longleftrightarrow> list_all (\<lambda>c. 32 \<le> (of_char c :: nat)) s"

lemma printable_simps [simp]:
  "printable []" "printable (c # s) \<longleftrightarrow> 32 \<le> (of_char c :: nat) \<and> printable s"
  "printable (s @ t) \<longleftrightarrow> printable s \<and> printable t"
  by (simp_all add: printable_def)

lemma printable_concat: "printable (concat ss) \<longleftrightarrow> (\<forall>s \<in> set ss. printable s)"
  by (induction ss) simp_all

lemma printable_join: "printable sep \<Longrightarrow> (\<And>s. s \<in> set ss \<Longrightarrow> printable s) \<Longrightarrow> printable (join sep ss)"
  by (induction sep ss rule: join.induct) simp_all

lemma printable_hex: "d < 16 \<Longrightarrow> 32 \<le> (of_char (hex_digit d) :: nat)"
  by (simp add: hex_digit_def of_char_of)

lemma printable_escape: "printable (escape_char c)"
  by (auto simp: escape_char_def backslash_def Let_def printable_hex)

lemma printable_quote: "printable (json_quote s)"
  using printable_escape by (auto simp: json_quote_def quote_char_def printable_concat)

lemma printable_digits: "list_all is_digit s \<Longrightarrow> printable s"
  by (auto simp: printable_def list_all_iff is_digit_def Let_def)

lemma printable_int: "printable (int_str i)"
  using printable_digits nat_str_digits by (simp add: int_str_def)

lemma printable_json: "json_ok v \<Longrightarrow> printable (json_text v)"
proof (induction v rule: json_text.induct)
  case (4 n)
  then obtain i where "n = Fin (of_int i)" by (auto split: jsnum.splits elim: is_integerE)
  then show ?case by (simp add: num_str_int printable_int)
next
  case (6 vs)
  have "printable (join '','' (map json_text vs))"
    using 6 by (intro printable_join) (auto simp: list_all_iff)
  then show ?case by simp
next
  case (7 kvs)
  have "printable (join '','' (filter (\<lambda>m. m \<noteq> [])
      (map (\<lambda>kv. if snd kv = Undef then [] else json_quote (fst kv) @ '':'' @ json_text (snd kv)) kvs)))"
    using 7 by (intro printable_join) (auto simp: list_all_iff printable_quote)
  then show ?case by simp
qed (simp_all add: printable_quote)

section \<open>The round trip\<close>

text \<open>A text in which the parser finds no separator, whatever follows one.\<close>

fun frame_body :: "string \<Rightarrow> bool" where
  "frame_body [] = True"
| "frame_body (c # cs) = (c \<noteq> cr \<and> (c = lf \<longrightarrow> (case cs of [] \<Rightarrow> False | d # ds \<Rightarrow> d \<noteq> lf \<and> d \<noteq> cr)) \<and> frame_body cs)"

lemma nextFrame_body: "frame_body b \<Longrightarrow> nextFrame (b @ [lf, lf] @ rest) = Some (b, rest)"
proof (induction b)
  case Nil
  then show ?case by (simp add: sepLength_def numeral_eq_Suc)
next
  case (Cons c cs)
  have "sepLength ((c # cs) @ [lf, lf] @ rest) = None"
    using Cons.prems by (cases cs) (auto simp: sepLength_def)
  then show ?case using Cons by simp
qed

lemma printable_body: "printable s \<Longrightarrow> frame_body s \<and> cr \<notin> set s \<and> lf \<notin> set s"
  by (induction s) (auto simp: cr_def lf_def split: list.splits)

lemma frame_body_append: "frame_body s \<Longrightarrow> frame_body t \<Longrightarrow> s \<noteq> [] \<longrightarrow> last s \<noteq> lf \<Longrightarrow> frame_body (s @ t)"
proof (induction s)
  case (Cons c s)
  then show ?case by (cases s) auto
qed simp

lemma plainNewlines_id: "cr \<notin> set s \<Longrightarrow> plainNewlines s = s"
  by (induction s) auto

lemma data_line:
  assumes "printable s"
  shows "frame_body (''data: '' @ s)" "frame_body (''event: mqtt-message'' @ lf # ''data: '' @ s)"
proof -
  have "printable (''data: '' @ s)" "printable ''event: mqtt-message''" using assms by simp_all
  then show one: "frame_body (''data: '' @ s)" using printable_body by blast
  have "frame_body (lf # ''data: '' @ s)" using one by (simp add: lf_def cr_def)
  then show "frame_body (''event: mqtt-message'' @ lf # ''data: '' @ s)"
    using printable_body [OF \<open>printable ''event: mqtt-message''\<close>] by (intro frame_body_append) (simp_all add: lf_def)
qed

definition frameBody :: "stream_frame \<Rightarrow> string" where
  "frameBody f = join [lf] (frameLines f)"

lemma frame_printable:
  "json_ok v \<Longrightarrow> printable (json_text (Obj [(k, v)]))"
  by (rule printable_json) simp

lemma frameBody_ok:
  assumes "frame_ok f"
  shows "frame_body (frameBody f)"
proof (cases f)
  case (ExplorerFrame x)
  then show ?thesis
    using assms data_line(1) [OF frame_printable [of x "''explorer''"]] by (simp add: frameBody_def del: json_text.simps)
next
  case (MessageFrame m)
  then show ?thesis
    using assms data_line(2) [OF frame_printable [of m "''message''"]] by (simp add: frameBody_def del: json_text.simps)
next
  case PingFrame
  then show ?thesis by (simp add: frameBody_def cr_def lf_def)
qed

lemma sseField_data: "sseField (''data: '' @ s) = (''data'', s)"
  by (simp add: sseField_def)

lemma sseField_event: "sseField ''event: mqtt-message'' = (''event'', ''mqtt-message'')"
  by (simp add: sseField_def)

lemma parseFrame_lines:
  assumes "ls \<noteq> []" and "\<And>l. l \<in> set ls \<Longrightarrow> printable l"
  shows "splitOn lf (plainNewlines (join [lf] ls)) = ls"
proof -
  have "cr \<notin> set (join [lf] ls)"
    using assms(2) by (induction "[lf]" ls rule: join.induct) (auto dest!: printable_body)
  moreover have "splitOn lf (join [lf] ls) = ls"
    using assms
  proof (induction "[lf]" ls rule: join.induct)
    case (2 w)
    then show ?case using printable_body [of w] by (simp add: splitOn_no_sep)
  next
    case (3 w v ws)
    then show ?case using printable_body [of w] by (simp add: splitOn_append_sep)
  qed simp
  ultimately show ?thesis by (simp add: plainNewlines_id)
qed

lemma parseFrame_frame: "frame_ok f \<Longrightarrow> parseFrame (frameBody f) = frameEvent f"
proof -
  assume ok: "frame_ok f"
  have "printable l" if "l \<in> set (frameLines f)" for l
    using ok that frame_printable by (cases f) (auto simp del: json_text.simps)
  moreover have "frameLines f \<noteq> []" by (cases f) simp_all
  ultimately have "splitOn lf (plainNewlines (frameBody f)) = frameLines f"
    unfolding frameBody_def by (intro parseFrame_lines)
  then show ?thesis
    by (cases f) (simp_all add: parseFrame_def sseField_data [simplified] sseField_event del: json_text.simps)
qed

lemma sseFrames_written:
  "list_all frame_ok fs \<Longrightarrow> sseFrames (concat (map frameText fs)) = (map frameBody fs, [])"
proof (induction fs)
  case Nil
  then show ?case by (subst sseFrames.simps) simp
next
  case (Cons f fs)
  have "nextFrame (frameBody f @ [lf, lf] @ concat (map frameText fs)) = Some (frameBody f, concat (map frameText fs))"
    using Cons.prems by (intro nextFrame_body frameBody_ok) simp
  moreover have "frameText f = frameBody f @ [lf, lf]" by (simp add: frameText_def frameBody_def)
  ultimately show ?case using Cons by (subst sseFrames.simps) simp
qed

lemma events_read_back:
  assumes "list_all frame_ok fs" and "concat chunks = concat (map frameText fs)"
  shows "ssePushAll [] chunks = (List.map_filter frameEvent fs, [])"
proof -
  have "sseFrames [] = ([], [])" by (subst sseFrames.simps) simp
  then have "ssePushAll [] chunks = ssePush [] (concat (map frameText fs))"
    using ssePushAll_concat assms(2) by metis
  also have "\<dots> = (List.map_filter parseFrame (map frameBody fs), [])"
    by (simp add: ssePush_def sseFrames_written [OF assms(1)])
  also have "List.map_filter parseFrame (map frameBody fs) = List.map_filter frameEvent fs"
    using assms(1) by (induction fs) (simp_all add: map_filter_simps parseFrame_frame split: option.split)
  finally show ?thesis .
qed



end
