(* ===== verification/McpBuffer.thy ===== *)
theory McpBuffer
  imports McpStream
begin

text \<open>
  The message buffer of a session of the MCP server (\<open>MqttMessageBuffer\<close> of \<open>mqttBuffer.js\<close>): the queue
  with its bounds, the deadline of the polls, and the tasks that read the event stream and open it again
  when it breaks. A definition is what happens between two awaits, so that every interleaving is a list
  of \<open>buffer_event\<close>s. Sizes are exact numbers: the API counts bytes in integers.
\<close>

section \<open>State\<close>

record buffered =
  bfEntry :: jsval
  bfBytes :: rat

text \<open>A task of \<open>consumeSse\<close> with its \<open>attempt\<close>, where it waits.\<close>

datatype consumer_phase = Opening | Reading string | Waiting int

record consumer =
  cnAttempt :: nat
  cnPhase :: consumer_phase

record mqtt_buffer =
  qQueue :: "buffered list"
  qBytes :: rat
  qDropped :: nat
  qDroppedBytes :: rat
  qLastPolled :: "int option"
  qExpires :: "int option"
  qLastEvent :: "int option"
  qConnected :: bool
  qAbort :: bool
  qDesired :: bool
  qClosed :: bool
  qCleaning :: bool
  qUpstream :: jsval
  qTerminal :: "jsval option"
  qTimer :: bool
  qConsumers :: "consumer option list"

definition newBuffer :: mqtt_buffer where
  "newBuffer = \<lparr>qQueue = [], qBytes = 0, qDropped = 0, qDroppedBytes = 0, qLastPolled = None, qExpires = None,
    qLastEvent = None, qConnected = False, qAbort = False, qDesired = False, qClosed = False, qCleaning = False,
    qUpstream = Null, qTerminal = None, qTimer = True, qConsumers = []\<rparr>"

section \<open>The queue\<close>

text \<open>\<open>{ ...v }\<close>.\<close>

definition spread :: "jsval \<Rightarrow> (string \<times> jsval) list" where
  "spread v = (case v of Obj kvs \<Rightarrow> kvs
     | Arr vs \<Rightarrow> zip (map nat_str [0..<length vs]) vs
     | Str s \<Rightarrow> zip (map nat_str [0..<length s]) (map (\<lambda>c. Str [c]) s)
     | _ \<Rightarrow> [])"

definition entryOf :: "('k, 'n) mcp_platform \<Rightarrow> int \<Rightarrow> jsval \<Rightarrow> jsval" where
  "entryOf E t message = Obj (AList.update ''bufferedAt'' (Str (mpIso E t)) (spread message))"

definition byteLengthOf :: "jsval \<Rightarrow> rat" where
  "byteLengthOf message =
    (case getProp ''byteLength'' message of
       Num (Fin r) \<Rightarrow> max 0 r
     | _ \<Rightarrow> of_nat (utf8_length (to_string (coalesce (getProp ''payload'' message) (Str [])))))"

text \<open>The loop that drops the oldest entries while a bound is exceeded.\<close>

fun dropOldest :: "int \<Rightarrow> int \<Rightarrow> buffered list \<Rightarrow> rat \<Rightarrow> nat \<Rightarrow> rat \<Rightarrow> buffered list \<times> rat \<times> nat \<times> rat" where
  "dropOldest maxMessages maxBytes [] bytes dropped droppedBytes = ([], bytes, dropped, droppedBytes)"
| "dropOldest maxMessages maxBytes (x # xs) bytes dropped droppedBytes =
    (if maxMessages < int (length (x # xs)) \<or> of_int maxBytes < bytes
     then dropOldest maxMessages maxBytes xs (bytes - bfBytes x) (Suc dropped) (droppedBytes + bfBytes x)
     else (x # xs, bytes, dropped, droppedBytes))"

definition bufferAppend ::
  "('k, 'n) mcp_platform \<Rightarrow> mcp_host_config \<Rightarrow> string \<Rightarrow> jsval \<Rightarrow> mqtt_buffer \<Rightarrow> 'n mcp_process \<Rightarrow> mqtt_buffer \<times> 'n mcp_process" where
  "bufferAppend E C name message b w =
    (if qClosed b then (b, w)
     else let x = \<lparr>bfEntry = entryOf E (prTime w) message, bfBytes = byteLengthOf message\<rparr> in
       case dropOldest (mhMaxMessages C) (mhMaxBytes C) (qQueue b @ [x]) (qBytes b + bfBytes x) (qDropped b) (qDroppedBytes b) of
         (queue, bytes, dropped, droppedBytes) \<Rightarrow>
           (b\<lparr>qQueue := queue, qBytes := bytes, qDropped := dropped, qDroppedBytes := droppedBytes,
              qLastEvent := Some (prTime w)\<rparr>,
            if 0 < dropped then
              after (mcpGenerateLog E ''warn'' ''mqttBuffer::append'' ''MCP_MQTT_BUFFER_OVERFLOW''
                ''MCP MQTT buffer dropped oldest messages at its configured bound.''
                (Obj [(''identityName'', Str name), (''queuedMessages'', num_int (int (length queue))),
                  (''queuedBytes'', num_rat bytes), (''droppedMessages'', num_int (int dropped)),
                  (''droppedBytes'', num_rat droppedBytes)])) w
            else w))"

definition handleSseEvent ::
  "('k, 'n) mcp_platform \<Rightarrow> mcp_host_config \<Rightarrow> string \<Rightarrow> sse_event \<Rightarrow> mqtt_buffer \<times> 'n mcp_process \<Rightarrow> mqtt_buffer \<times> 'n mcp_process" where
  "handleSseEvent E C name ev = (\<lambda>(b, w).
    case jsonParse (seData ev) of
      Inl _ \<Rightarrow> (b, w)
    | Inr parsed \<Rightarrow>
       (case (if seEvent ev = ''mqtt-message'' \<and> truthy (getProp ''message'' parsed)
              then bufferAppend E C name (getProp ''message'' parsed) (b\<lparr>qLastEvent := Some (prTime w)\<rparr>) w
              else (b\<lparr>qLastEvent := Some (prTime w)\<rparr>, w)) of
          (b', w') \<Rightarrow>
            (if seEvent ev = ''message'' \<and> truthy (getProp ''explorer'' parsed)
             then b'\<lparr>qUpstream := getProp ''explorer'' parsed\<rparr> else b', w')))"

section \<open>Deadlines\<close>

definition refreshPollDeadline :: "mcp_host_config \<Rightarrow> int \<Rightarrow> mqtt_buffer \<Rightarrow> mqtt_buffer" where
  "refreshPollDeadline C t b = b\<lparr>qLastPolled := Some t, qExpires := Some (t + mhInactivityMs C)\<rparr>"

definition startActivityDeadline :: "mcp_host_config \<Rightarrow> int \<Rightarrow> mqtt_buffer \<Rightarrow> mqtt_buffer" where
  "startActivityDeadline C t b = (if qLastPolled b \<noteq> None then b else refreshPollDeadline C t b)"

definition isIdle :: "int \<Rightarrow> mqtt_buffer \<Rightarrow> bool" where
  "isIdle t b = (case qExpires b of None \<Rightarrow> False | Some e \<Rightarrow> e < t)"

section \<open>The tasks that read the stream\<close>

text \<open>
  Each task looks only at the shared flags, not at whether it is the task those flags were set for. A
  task that starts an attempt makes an abort controller; \<open>stopSse\<close> aborts the latest and forgets it.
\<close>

definition setConsumer :: "nat \<Rightarrow> consumer option \<Rightarrow> mqtt_buffer \<Rightarrow> mqtt_buffer" where
  "setConsumer k c b = b\<lparr>qConsumers := (qConsumers b)[k := c]\<rparr>"

definition ensureSse :: "mqtt_buffer \<Rightarrow> mqtt_buffer" where
  "ensureSse b =
    (if qClosed b \<or> qDesired b then b
     else b\<lparr>qDesired := True, qAbort := True, qConsumers := qConsumers b @ [Some \<lparr>cnAttempt = 0, cnPhase = Opening\<rparr>]\<rparr>)"

definition stopSse :: "mqtt_buffer \<Rightarrow> mqtt_buffer" where
  "stopSse b = b\<lparr>qDesired := False, qAbort := False, qConnected := False\<rparr>"

text \<open>The \<open>finally\<close> of an attempt, and the wait before the next one, with \<open>Math.random() * 250\<close>.\<close>

definition streamOver :: "mqtt_buffer \<Rightarrow> mqtt_buffer" where
  "streamOver b = b\<lparr>qConnected := False, qAbort := False\<rparr>"

definition retryDelay :: "nat \<Rightarrow> int \<Rightarrow> int" where
  "retryDelay attempt jitter = min 30000 (500 * 2 ^ min attempt 6) + jitter"

definition attemptOver :: "nat \<Rightarrow> consumer \<Rightarrow> int \<Rightarrow> mqtt_buffer \<Rightarrow> mqtt_buffer" where
  "attemptOver k c jitter b =
    setConsumer k
      (if \<not> qDesired b \<or> qClosed b then None
       else Some \<lparr>cnAttempt = Suc (cnAttempt c), cnPhase = Waiting (retryDelay (Suc (cnAttempt c)) jitter)\<rparr>)
      (streamOver b)"

definition streamOpened :: "nat \<Rightarrow> mqtt_buffer \<Rightarrow> mqtt_buffer" where
  "streamOpened k b = setConsumer k (Some \<lparr>cnAttempt = 0, cnPhase = Reading []\<rparr>) (b\<lparr>qConnected := True, qTerminal := None\<rparr>)"

definition streamChunk ::
  "('k, 'n) mcp_platform \<Rightarrow> mcp_host_config \<Rightarrow> string \<Rightarrow> nat \<Rightarrow> consumer \<Rightarrow> string \<Rightarrow> string
    \<Rightarrow> mqtt_buffer \<Rightarrow> 'n mcp_process \<Rightarrow> mqtt_buffer \<times> 'n mcp_process" where
  "streamChunk E C name k c pending chunk b w =
    (if \<not> qDesired b \<or> qClosed b then (setConsumer k None (streamOver b), w)
     else case ssePush pending chunk of (events, rest) \<Rightarrow>
       case fold (handleSseEvent E C name) events (b, w) of
         (b', w') \<Rightarrow> (setConsumer k (Some (c\<lparr>cnPhase := Reading rest\<rparr>)) b', w'))"

definition waitOver :: "nat \<Rightarrow> consumer \<Rightarrow> mqtt_buffer \<Rightarrow> mqtt_buffer" where
  "waitOver k c b =
    (if qDesired b \<and> \<not> qClosed b then setConsumer k (Some (c\<lparr>cnPhase := Opening\<rparr>)) (b\<lparr>qAbort := True\<rparr>)
     else setConsumer k None b)"

section \<open>Cleanup\<close>

text \<open>A cleanup that another one is in flight for waits for that one and does nothing of its own.\<close>

definition cleanupStart :: "mqtt_buffer \<Rightarrow> mqtt_buffer" where
  "cleanupStart b = (stopSse b)\<lparr>qCleaning := True\<rparr>"

definition cleanupFinish :: "bool \<Rightarrow> mqtt_buffer \<Rightarrow> mqtt_buffer" where
  "cleanupFinish closeBuffer b =
    b\<lparr>qQueue := [], qBytes := 0, qDropped := 0, qDroppedBytes := 0, qUpstream := Null, qLastPolled := None,
      qExpires := None, qClosed := qClosed b \<or> closeBuffer, qTimer := qTimer b \<and> \<not> closeBuffer, qCleaning := False\<rparr>"

text \<open>\<open>cleanup({ callUpstream: false, closeBuffer: false })\<close> has no await before it is done.\<close>

definition cleanupNow :: "mqtt_buffer \<Rightarrow> mqtt_buffer" where
  "cleanupNow b = (if qCleaning b then b else cleanupFinish False (cleanupStart b))"

definition terminalError :: "call_error \<Rightarrow> jsval" where
  "terminalError e = Obj [(''status'', callErrorStatus e),
    (''errorKey'', coalesce (getProp ''errorKey'' (callErrorResponse e)) Null), (''reason'', callErrorMessage e)]"

definition streamFailed :: "nat \<Rightarrow> consumer \<Rightarrow> call_error \<Rightarrow> int \<Rightarrow> mqtt_buffer \<Rightarrow> mqtt_buffer" where
  "streamFailed k c e jitter b =
    (if \<not> qDesired b \<or> qClosed b then setConsumer k None (streamOver b)
     else if callErrorStatus e \<in> {num_int 401, num_int 403} then
       setConsumer k None (streamOver (cleanupNow (b\<lparr>qTerminal := Some (terminalError e)\<rparr>)))
     else attemptOver k c jitter b)"

section \<open>What follows the answer of the API\<close>

definition explorerOf :: "jsval \<Rightarrow> jsval" where
  "explorerOf body = coalesce (getProp ''explorer'' (getProp ''data'' body)) Null"

definition hasElements :: "jsval \<Rightarrow> bool" where
  "hasElements v = (case v of Arr vs \<Rightarrow> vs \<noteq> [] | Str s \<Rightarrow> s \<noteq> []
     | Obj kvs \<Rightarrow> (case to_number (getProp ''length'' v) of Fin r \<Rightarrow> 0 < r | PosInf \<Rightarrow> True | _ \<Rightarrow> False) | _ \<Rightarrow> False)"

definition connectDone :: "mcp_host_config \<Rightarrow> int \<Rightarrow> jsval \<Rightarrow> mqtt_buffer \<Rightarrow> mqtt_buffer" where
  "connectDone C t body b = startActivityDeadline C t (b\<lparr>qUpstream := explorerOf body\<rparr>)"

definition subscribeDone :: "mcp_host_config \<Rightarrow> int \<Rightarrow> jsval \<Rightarrow> mqtt_buffer \<Rightarrow> mqtt_buffer" where
  "subscribeDone C t body b = ensureSse (startActivityDeadline C t (b\<lparr>qUpstream := explorerOf body\<rparr>))"

definition unsubscribeDone :: "jsval \<Rightarrow> mqtt_buffer \<Rightarrow> mqtt_buffer" where
  "unsubscribeDone body b =
    (let b' = b\<lparr>qUpstream := explorerOf body\<rparr> in
     if hasElements (getProp ''subscriptions'' (qUpstream b')) then b' else stopSse b')"

definition stateDone :: "jsval \<Rightarrow> mqtt_buffer \<Rightarrow> mqtt_buffer" where
  "stateDone body b = b\<lparr>qUpstream := explorerOf body\<rparr>"

definition clearDone :: "mqtt_buffer \<Rightarrow> mqtt_buffer" where
  "clearDone b = b\<lparr>qQueue := [], qBytes := 0, qDropped := 0, qDroppedBytes := 0\<rparr>"

definition pollCount :: "mcp_host_config \<Rightarrow> int option \<Rightarrow> nat" where
  "pollCount C maxMessages =
    nat (min (mhMaxPoll C) (max 1 (case maxMessages of None \<Rightarrow> mhDefaultPoll C | Some n \<Rightarrow> n)))"

definition isoOrNull :: "('k, 'n) mcp_platform \<Rightarrow> int option \<Rightarrow> jsval" where
  "isoOrNull E t = (case t of None \<Rightarrow> Null | Some t \<Rightarrow> Str (mpIso E t))"

definition orNull :: "jsval option \<Rightarrow> jsval" where
  "orNull v = (case v of None \<Rightarrow> Null | Some v \<Rightarrow> v)"

definition pollDone ::
  "('k, 'n) mcp_platform \<Rightarrow> mcp_host_config \<Rightarrow> int \<Rightarrow> int option \<Rightarrow> mqtt_buffer \<Rightarrow> jsval list \<times> jsval \<times> mqtt_buffer" where
  "pollDone E C t maxMessages b =
    (let n = pollCount C maxMessages; selected = take n (qQueue b);
         b' = refreshPollDeadline C t (b\<lparr>qQueue := drop n (qQueue b),
           qBytes := qBytes b - sum_list (map bfBytes selected)\<rparr>) in
     (map bfEntry selected,
      Obj [(''ok'', Bool True), (''messages'', Arr (map bfEntry selected)), (''returned'', num_int (int (length selected))),
        (''remaining'', num_int (int (length (qQueue b')))), (''queuedBytes'', num_rat (qBytes b')),
        (''droppedMessages'', num_int (int (qDropped b'))), (''droppedBytes'', num_rat (qDroppedBytes b')),
        (''overflowed'', Bool (0 < qDropped b')), (''lastPolledAt'', isoOrNull E (qLastPolled b')),
        (''expiresAt'', isoOrNull E (qExpires b')),
        (''upstream'', Obj [(''sseConnected'', Bool (qConnected b')), (''lastEventAt'', isoOrNull E (qLastEvent b')),
          (''terminalError'', orNull (qTerminal b'))])],
      b'))"

definition bufferStatus :: "('k, 'n) mcp_platform \<Rightarrow> bool \<Rightarrow> mqtt_buffer \<Rightarrow> jsval" where
  "bufferStatus E includeUpstream b =
    Obj [(''ok'', Bool True), (''queuedMessages'', num_int (int (length (qQueue b)))), (''queuedBytes'', num_rat (qBytes b)),
      (''droppedMessages'', num_int (int (qDropped b))), (''droppedBytes'', num_rat (qDroppedBytes b)),
      (''overflowed'', Bool (0 < qDropped b)), (''lastPolledAt'', isoOrNull E (qLastPolled b)),
      (''expiresAt'', isoOrNull E (qExpires b)), (''sseConnected'', Bool (qConnected b)),
      (''lastEventAt'', isoOrNull E (qLastEvent b)), (''terminalError'', orNull (qTerminal b)),
      (''upstreamState'', if includeUpstream then qUpstream b else Undef)]"

section \<open>Every interleaving\<close>

datatype buffer_event =
    OpenedEvent nat
  | ChunkEvent nat string
  | EndedEvent nat int
  | FailedEvent nat call_error int
  | WaitEvent nat
  | ConnectEvent jsval
  | SubscribeEvent jsval
  | UnsubscribeEvent jsval
  | StateEvent jsval
  | PollEvent "int option"
  | ClearEvent
  | CleanupEvent
  | CleanedEvent bool

definition consumerAt :: "nat \<Rightarrow> mqtt_buffer \<Rightarrow> consumer option" where
  "consumerAt k b = (if k < length (qConsumers b) then qConsumers b ! k else None)"

text \<open>One event that the state allows, with what it delivers to a poll; an event that cannot happen changes nothing.\<close>

definition bufferStep ::
  "('k, 'n) mcp_platform \<Rightarrow> mcp_host_config \<Rightarrow> string \<Rightarrow> buffer_event \<Rightarrow> mqtt_buffer \<Rightarrow> 'n mcp_process
    \<Rightarrow> jsval list \<times> mqtt_buffer \<times> 'n mcp_process" where
  "bufferStep E C name ev b w =
    (let t = prTime w; stay = ([], b, w) in
     case ev of
       OpenedEvent k \<Rightarrow>
        (case consumerAt k b of Some c \<Rightarrow> if cnPhase c = Opening then ([], streamOpened k b, w) else stay | None \<Rightarrow> stay)
     | ChunkEvent k chunk \<Rightarrow>
        (case consumerAt k b of
           Some c \<Rightarrow> (case cnPhase c of Reading pending \<Rightarrow> ([], streamChunk E C name k c pending chunk b w) | _ \<Rightarrow> stay)
         | None \<Rightarrow> stay)
     | EndedEvent k jitter \<Rightarrow>
        (case consumerAt k b of
           Some c \<Rightarrow> (case cnPhase c of Reading _ \<Rightarrow> ([], attemptOver k c jitter b, w) | _ \<Rightarrow> stay)
         | None \<Rightarrow> stay)
     | FailedEvent k e jitter \<Rightarrow>
        (case consumerAt k b of
           Some c \<Rightarrow> (case cnPhase c of Waiting _ \<Rightarrow> stay | _ \<Rightarrow> ([], streamFailed k c e jitter b, w))
         | None \<Rightarrow> stay)
     | WaitEvent k \<Rightarrow>
        (case consumerAt k b of
           Some c \<Rightarrow> (case cnPhase c of Waiting _ \<Rightarrow> ([], waitOver k c b, w) | _ \<Rightarrow> stay)
         | None \<Rightarrow> stay)
     | ConnectEvent body \<Rightarrow> ([], connectDone C t body b, w)
     | SubscribeEvent body \<Rightarrow> ([], subscribeDone C t body b, w)
     | UnsubscribeEvent body \<Rightarrow> ([], unsubscribeDone body b, w)
     | StateEvent body \<Rightarrow> ([], stateDone body b, w)
     | PollEvent n \<Rightarrow> (case pollDone E C t n b of (out, _, b') \<Rightarrow> (out, b', w))
     | ClearEvent \<Rightarrow> ([], clearDone b, w)
     | CleanupEvent \<Rightarrow> if qCleaning b then stay else ([], cleanupStart b, w)
     | CleanedEvent closeBuffer \<Rightarrow> if qCleaning b then ([], cleanupFinish closeBuffer b, w) else stay)"

fun bufferRun ::
  "('k, 'n) mcp_platform \<Rightarrow> mcp_host_config \<Rightarrow> string \<Rightarrow> (int \<times> buffer_event) list \<Rightarrow> mqtt_buffer \<Rightarrow> 'n mcp_process
    \<Rightarrow> jsval list \<times> mqtt_buffer \<times> 'n mcp_process" where
  "bufferRun E C name [] b w = ([], b, w)"
| "bufferRun E C name ((t, ev) # evs) b w =
    (case bufferStep E C name ev b (w\<lparr>prTime := t\<rparr>) of (out, b', w') \<Rightarrow>
       case bufferRun E C name evs b' w' of (rest, b'', w'') \<Rightarrow> (out @ rest, b'', w''))"

end
