(* ===== verification/McpBufferSafety.thy ===== *)
theory McpBufferSafety
  imports McpBuffer "HOL-Library.Sublist"
begin

text \<open>
  What \<open>McpBuffer\<close> guarantees in every interleaving: the bounds of the queue, and that each message the
  stream delivered was handed to a poll, is still queued or is counted as dropped, oldest first.
\<close>

section \<open>The bounds\<close>

definition queued_bytes :: "buffered list \<Rightarrow> rat" where
  "queued_bytes q = sum_list (map bfBytes q)"

lemma queued_bytes_simps [simp]:
  "queued_bytes [] = 0" "queued_bytes (x # q) = bfBytes x + queued_bytes q" "queued_bytes (p @ q) = queued_bytes p + queued_bytes q"
  by (simp_all add: queued_bytes_def)

definition buffer_ok :: "mcp_host_config \<Rightarrow> mqtt_buffer \<Rightarrow> bool" where
  "buffer_ok C b \<longleftrightarrow> qBytes b = queued_bytes (qQueue b) \<and> (\<forall>x \<in> set (qQueue b). 0 \<le> bfBytes x) \<and>
    int (length (qQueue b)) \<le> mhMaxMessages C \<and> qBytes b \<le> of_int (mhMaxBytes C)"

text \<open>
  The messages \<open>received\<close> so far, against those delivered: what is no longer queued is the oldest part,
  of which the delivered ones are a part in the same order, and the rest is counted.
\<close>

definition accounted :: "jsval list \<Rightarrow> jsval list \<Rightarrow> mqtt_buffer \<Rightarrow> bool" where
  "accounted received delivered b \<longleftrightarrow> (\<exists>gone. received = gone @ map bfEntry (qQueue b) \<and> subseq delivered gone \<and>
    length gone = qDropped b + length delivered)"

definition sane :: "mcp_host_config \<Rightarrow> bool" where
  "sane C \<longleftrightarrow> 0 \<le> mhMaxMessages C \<and> 0 \<le> mhMaxBytes C"

definition queue_part :: "mqtt_buffer \<Rightarrow> buffered list \<times> rat \<times> nat" where
  "queue_part b = (qQueue b, qBytes b, qDropped b)"

lemma queue_part_ok: "queue_part b = queue_part b' \<Longrightarrow> buffer_ok C b = buffer_ok C b' \<and> accounted r d b = accounted r d b'"
  by (simp add: queue_part_def buffer_ok_def accounted_def)

lemma dropOldest_result:
  "dropOldest M B q bytes n e = (q', bytes', n', e') \<Longrightarrow> \<exists>k \<le> length q. q' = drop k q \<and> n' = n + k \<and>
    bytes' = bytes - queued_bytes (take k q) \<and> (q' \<noteq> [] \<longrightarrow> int (length q') \<le> M \<and> bytes' \<le> of_int B)"
proof (induction M B q bytes n e rule: dropOldest.induct)
  case (2 M B x xs bytes n e)
  show ?case
  proof (cases "M < int (length (x # xs)) \<or> of_int B < bytes")
    case True
    then obtain k where "k \<le> length xs" "q' = drop k xs" "n' = Suc n + k"
      "bytes' = bytes - bfBytes x - queued_bytes (take k xs)" "q' \<noteq> [] \<longrightarrow> int (length q') \<le> M \<and> bytes' \<le> of_int B"
      using 2 by auto
    then show ?thesis by (intro exI [of _ "Suc k"]) simp
  next
    case False
    then show ?thesis using "2.prems" by (intro exI [of _ 0]) (auto simp: not_less)
  qed
qed simp

lemma queued_take_drop: "queued_bytes (take k q) + queued_bytes (drop k q) = queued_bytes q"
  using queued_bytes_simps(3) [of "take k q" "drop k q"] by simp

text \<open>Taking the oldest \<open>k\<close> entries out keeps the sizes right.\<close>

lemma buffer_ok_drop:
  assumes "buffer_ok C b" and "qQueue b' = drop k (qQueue b)" and "qBytes b' = qBytes b - queued_bytes (take k (qQueue b))"
  shows "buffer_ok C b'"
proof -
  have "0 \<le> queued_bytes (take k (qQueue b))"
    using assms(1) unfolding queued_bytes_def buffer_ok_def by (intro sum_list_nonneg) (auto dest: in_set_takeD)
  then show ?thesis
    using assms queued_take_drop [of k "qQueue b"] by (auto simp: buffer_ok_def dest: in_set_dropD)
qed

lemma log_time [simp]: "prTime (after (mcpGenerateLog E level caller key message context) w) = prTime w"
  by (simp add: after_def mcpGenerateLog_def mcpLog_def andThen_def gets_def modify_def)

lemma append_run:
  assumes "bufferAppend E C name m b w = (b', w')" and "\<not> qClosed b" and "sane C" and "buffer_ok C b"
  shows "buffer_ok C b' \<and> prTime w' = prTime w \<and> qClosed b' = qClosed b \<and> qDesired b' = qDesired b \<and> qConsumers b' = qConsumers b \<and>
    (accounted r d b \<longrightarrow> accounted (r @ [entryOf E (prTime w) m]) d b')"
proof -
  define x where "x = \<lparr>bfEntry = entryOf E (prTime w) m, bfBytes = byteLengthOf m\<rparr>"
  have x: "0 \<le> bfBytes x" by (simp add: x_def byteLengthOf_def split: jsval.splits jsnum.splits)
  obtain q bytes n e where drop: "dropOldest (mhMaxMessages C) (mhMaxBytes C) (qQueue b @ [x]) (qBytes b + bfBytes x)
      (qDropped b) (qDroppedBytes b) = (q, bytes, n, e)" by (metis prod_cases4)
  obtain k where k: "k \<le> length (qQueue b @ [x])" "q = drop k (qQueue b @ [x])" "n = qDropped b + k"
    "bytes = qBytes b + bfBytes x - queued_bytes (take k (qQueue b @ [x]))"
    "q \<noteq> [] \<longrightarrow> int (length q) \<le> mhMaxMessages C \<and> bytes \<le> of_int (mhMaxBytes C)"
    using dropOldest_result [OF drop] by blast
  have b': "qQueue b' = q" "qBytes b' = bytes" "qDropped b' = n" "qClosed b' = qClosed b" "qDesired b' = qDesired b"
    "qConsumers b' = qConsumers b" "prTime w' = prTime w"
    using assms(1,2) drop unfolding bufferAppend_def x_def [symmetric] Let_def by auto
  have sum: "bytes = queued_bytes q"
    using k(4) assms(4) queued_take_drop [of k "qQueue b @ [x]"] by (simp add: k(2) buffer_ok_def)
  have "\<forall>y \<in> set q. 0 \<le> bfBytes y"
    using assms(4) x k(2) by (auto simp: buffer_ok_def dest!: in_set_dropD)
  moreover have "int (length q) \<le> mhMaxMessages C \<and> bytes \<le> of_int (mhMaxBytes C)"
    using k(5) assms(3) sum by (cases "q = []") (simp_all add: sane_def)
  ultimately have "buffer_ok C b'" using sum b' by (simp add: buffer_ok_def)
  moreover have "accounted (r @ [entryOf E (prTime w) m]) d b'" if "accounted r d b"
  proof -
    obtain gone where g: "r = gone @ map bfEntry (qQueue b)" "subseq d gone" "length gone = qDropped b + length d"
      using \<open>accounted r d b\<close> by (auto simp: accounted_def)
    let ?more = "map bfEntry (take k (qQueue b @ [x]))"
    have "r @ [entryOf E (prTime w) m] = (gone @ ?more) @ map bfEntry (qQueue b')"
      unfolding b'(1) k(2) append_assoc map_append [symmetric] append_take_drop_id by (simp add: g(1) x_def)
    moreover have "subseq d (gone @ ?more)" using g(2) by (simp add: subseq_rev_drop_many list_emb_append2)
    moreover have "length (gone @ ?more) = qDropped b' + length d" using g(3) k b'(3) by simp
    ultimately show ?thesis unfolding accounted_def by blast
  qed
  ultimately show ?thesis using b' by blast
qed

section \<open>The events\<close>

text \<open>The messages an event of the stream brings, as they are queued.\<close>

definition messagesOf :: "('k, 'n) mcp_platform \<Rightarrow> int \<Rightarrow> sse_event \<Rightarrow> jsval list" where
  "messagesOf E t ev = (case jsonParse (seData ev) of
     Inl _ \<Rightarrow> []
   | Inr v \<Rightarrow> if seEvent ev = ''mqtt-message'' \<and> truthy (getProp ''message'' v) then [entryOf E t (getProp ''message'' v)] else [])"

lemma event_run:
  assumes "handleSseEvent E C name ev (b, w) = (b', w')" and "\<not> qClosed b" and "sane C" and "buffer_ok C b"
  shows "buffer_ok C b' \<and> prTime w' = prTime w \<and> qClosed b' = qClosed b \<and> qConsumers b' = qConsumers b \<and>
    (accounted r d b \<longrightarrow> accounted (r @ messagesOf E (prTime w) ev) d b')"
proof -
  let ?b = "b\<lparr>qLastEvent := Some (prTime w)\<rparr>"
  have same: "buffer_ok C ?b = buffer_ok C b" "accounted r d ?b = accounted r d b"
    "buffer_ok C (x\<lparr>qUpstream := u\<rparr>) = buffer_ok C x" "accounted r' d (x\<lparr>qUpstream := u\<rparr>) = accounted r' d x" for x u r'
    by (simp_all add: buffer_ok_def accounted_def)
  show ?thesis
  proof (cases "jsonParse (seData ev)")
    case (Inl e)
    then show ?thesis using assms by (auto simp: handleSseEvent_def messagesOf_def)
  next
    case (Inr v)
    show ?thesis
    proof (cases "seEvent ev = ''mqtt-message'' \<and> truthy (getProp ''message'' v)")
      case True
      then have "bufferAppend E C name (getProp ''message'' v) ?b w = (b', w')"
        using assms(1) Inr by (auto simp: handleSseEvent_def split: prod.splits)
      from append_run [OF this, of r d] show ?thesis
        using assms(2-4) same True Inr by (auto simp: messagesOf_def)
    next
      case False
      then show ?thesis using assms Inr same by (auto simp: handleSseEvent_def messagesOf_def split: if_splits)
    qed
  qed
qed

lemma events_run:
  assumes "fold (handleSseEvent E C name) evs (b, w) = (b', w')" and "\<not> qClosed b" and "sane C" and "buffer_ok C b"
  shows "buffer_ok C b' \<and> (accounted r d b \<longrightarrow> accounted (r @ concat (map (messagesOf E (prTime w)) evs)) d b')"
  using assms
proof (induction evs arbitrary: b w r)
  case (Cons ev evs)
  obtain b1 w1 where one: "handleSseEvent E C name ev (b, w) = (b1, w1)" by fastforce
  note step = event_run [OF one Cons.prems(2-4), of r d]
  have rest: "fold (handleSseEvent E C name) evs (b1, w1) = (b', w')" using Cons.prems(1) one by simp
  show ?case
    using Cons.IH [OF rest, of "r @ messagesOf E (prTime w) ev"] step Cons.prems(2,3) by auto
qed simp

section \<open>Runs\<close>

definition stepMessages :: "('k, 'n) mcp_platform \<Rightarrow> int \<Rightarrow> buffer_event \<Rightarrow> mqtt_buffer \<Rightarrow> jsval list" where
  "stepMessages E t ev b =
    (case ev of
       ChunkEvent k chunk \<Rightarrow>
        (case consumerAt k b of
           Some c \<Rightarrow> (case cnPhase c of
               Reading pending \<Rightarrow>
                if qDesired b \<and> \<not> qClosed b then concat (map (messagesOf E t) (fst (ssePush pending chunk))) else []
             | _ \<Rightarrow> [])
         | None \<Rightarrow> [])
     | _ \<Rightarrow> [])"

fun runMessages ::
  "('k, 'n) mcp_platform \<Rightarrow> mcp_host_config \<Rightarrow> string \<Rightarrow> (int \<times> buffer_event) list \<Rightarrow> mqtt_buffer \<Rightarrow> 'n mcp_process \<Rightarrow> jsval list" where
  "runMessages E C name [] b w = []"
| "runMessages E C name ((t, ev) # evs) b w =
    (case bufferStep E C name ev b (w\<lparr>prTime := t\<rparr>) of (out, b', w') \<Rightarrow>
       stepMessages E t ev b @ runMessages E C name evs b' w')"

text \<open>The events that empty the queue: a clear, the end of a cleanup, a stream that is refused.\<close>

fun empties :: "buffer_event \<Rightarrow> bool" where
  "empties ClearEvent = True"
| "empties (CleanedEvent x) = True"
| "empties (FailedEvent k e j) = (callErrorStatus e \<in> {num_int 401, num_int 403})"
| "empties ev = False"

lemma queue_parts [simp]:
  "queue_part (setConsumer k c b) = queue_part b" "queue_part (ensureSse b) = queue_part b"
  "queue_part (stopSse b) = queue_part b" "queue_part (streamOver b) = queue_part b"
  "queue_part (attemptOver k x j b) = queue_part b" "queue_part (streamOpened k b) = queue_part b"
  "queue_part (waitOver k x b) = queue_part b" "queue_part (cleanupStart b) = queue_part b"
  "queue_part (refreshPollDeadline C t b) = queue_part b" "queue_part (startActivityDeadline C t b) = queue_part b"
  "queue_part (connectDone C t body b) = queue_part b" "queue_part (subscribeDone C t body b) = queue_part b"
  "queue_part (unsubscribeDone body b) = queue_part b" "queue_part (stateDone body b) = queue_part b"
  by (simp_all add: queue_part_def setConsumer_def ensureSse_def stopSse_def streamOver_def attemptOver_def streamOpened_def
      waitOver_def cleanupStart_def refreshPollDeadline_def startActivityDeadline_def connectDone_def subscribeDone_def
      unsubscribeDone_def stateDone_def Let_def)

lemma empty_ok: "sane C \<Longrightarrow> qQueue b = [] \<Longrightarrow> qBytes b = 0 \<Longrightarrow> buffer_ok C b"
  by (simp add: buffer_ok_def sane_def)

lemma failed_ok:
  assumes "sane C" and "buffer_ok C b"
  shows "buffer_ok C (streamFailed k c e j b) \<and>
    (callErrorStatus e \<notin> {num_int 401, num_int 403} \<longrightarrow> queue_part (streamFailed k c e j b) = queue_part b)"
proof -
  have "buffer_ok C (cleanupNow x)" if "queue_part x = queue_part b" for x
    using assms that queue_part_ok [OF that] by (auto simp: cleanupNow_def cleanupFinish_def intro: empty_ok)
  moreover have "buffer_ok C (setConsumer k None (streamOver x)) = buffer_ok C x" for x
    by (simp add: buffer_ok_def setConsumer_def streamOver_def)
  ultimately have "buffer_ok C (setConsumer k None (streamOver (cleanupNow (b\<lparr>qTerminal := u\<rparr>))))" for u
    by (simp add: queue_part_def)
  moreover have "queue_part x = queue_part b \<Longrightarrow> buffer_ok C x" for x
    using queue_part_ok assms(2) by blast
  ultimately show ?thesis by (auto simp: streamFailed_def)
qed

lemma chunk_ok:
  assumes "streamChunk E C name k c pending chunk b w = (b', w')" and "sane C" and "buffer_ok C b"
  shows "buffer_ok C b' \<and> (accounted r d b \<longrightarrow>
    accounted (r @ (if qDesired b \<and> \<not> qClosed b then concat (map (messagesOf E (prTime w)) (fst (ssePush pending chunk))) else [])) d b')"
proof (cases "qDesired b \<and> \<not> qClosed b")
  case False
  then have "queue_part b' = queue_part b" using assms(1) by (auto simp: streamChunk_def)
  from queue_part_ok [OF this] show ?thesis using False assms(3) by auto
next
  case True
  then obtain b1 w1 where f: "fold (handleSseEvent E C name) (fst (ssePush pending chunk)) (b, w) = (b1, w1)"
    and "queue_part b' = queue_part b1"
    using assms(1) by (auto simp: streamChunk_def split: prod.splits)
  then show ?thesis using events_run [OF f _ assms(2,3), of r d] queue_part_ok [of b' b1] True by simp
qed

lemma poll_ok:
  assumes "pollDone E C t n b = (out, v, b')" and "buffer_ok C b"
  shows "buffer_ok C b' \<and> (accounted r d b \<longrightarrow> accounted r (d @ out) b')"
proof -
  let ?k = "pollCount C n"
  have b': "qQueue b' = drop ?k (qQueue b)" "qBytes b' = qBytes b - queued_bytes (take ?k (qQueue b))" "qDropped b' = qDropped b"
    and out: "out = map bfEntry (take ?k (qQueue b))"
    using assms(1) by (auto simp: pollDone_def Let_def refreshPollDeadline_def queued_bytes_def)
  have "accounted r (d @ out) b'" if "accounted r d b"
  proof -
    obtain gone where g: "r = gone @ map bfEntry (qQueue b)" "subseq d gone" "length gone = qDropped b + length d"
      using \<open>accounted r d b\<close> by (auto simp: accounted_def)
    have "r = (gone @ out) @ map bfEntry (qQueue b')"
      unfolding b'(1) out append_assoc map_append [symmetric] append_take_drop_id by (simp add: g(1))
    moreover have "subseq (d @ out) (gone @ out)" using g(2) by simp
    ultimately show ?thesis unfolding accounted_def using g(3) b'(3) by (intro exI [of _ "gone @ out"]) simp
  qed
  then show ?thesis using buffer_ok_drop [OF assms(2) b'(1,2)] by blast
qed

lemma plain_step:
  assumes "bufferStep E C name ev b w = (out, b', w')"
    and "case ev of ChunkEvent k c \<Rightarrow> False | PollEvent n \<Rightarrow> False | FailedEvent k e j \<Rightarrow> False | ClearEvent \<Rightarrow> False
      | CleanedEvent x \<Rightarrow> False | _ \<Rightarrow> True"
  shows "out = [] \<and> queue_part b' = queue_part b \<and> stepMessages E t ev b = []"
  using assms
  by (cases ev) (auto simp: bufferStep_def stepMessages_def Let_def split: option.splits consumer_phase.splits if_splits)

lemma step_ok:
  assumes "bufferStep E C name ev b w = (out, b', w')" and "sane C" and "buffer_ok C b"
  shows "buffer_ok C b' \<and>
    (\<not> empties ev \<longrightarrow> accounted r d b \<longrightarrow> accounted (r @ stepMessages E (prTime w) ev b) (d @ out) b')"
proof -
  have frame: "buffer_ok C x \<and> (accounted r d b \<longrightarrow> accounted r d x)" if "queue_part x = queue_part b" for x
    using queue_part_ok [OF that] assms(3) by blast
  consider (plain) "out = [] \<and> queue_part b' = queue_part b \<and> stepMessages E (prTime w) ev b = []"
    | (chunk) k chunk where "ev = ChunkEvent k chunk" | (poll) n where "ev = PollEvent n"
    | (failed) k e j where "ev = FailedEvent k e j" | (clear) "ev = ClearEvent" | (cleaned) x where "ev = CleanedEvent x"
    using plain_step [OF assms(1), of "prTime w"] by (cases ev) auto
  then show ?thesis
  proof cases
    case plain
    then show ?thesis using frame [of b'] by simp
  next
    case (chunk k chunk)
    note ChunkEvent = chunk(1)
    show ?thesis
    proof (cases "\<exists>c pending. consumerAt k b = Some c \<and> cnPhase c = Reading pending")
      case True
      then obtain c pending where c: "consumerAt k b = Some c" "cnPhase c = Reading pending" by blast
      then have "streamChunk E C name k c pending chunk b w = (b', w')" and "out = []"
        using assms(1) ChunkEvent by (auto simp: bufferStep_def Let_def)
      then show ?thesis using chunk_ok [OF _ assms(2,3), of E name k c pending chunk w b' w' r d] c ChunkEvent
        by (auto simp: stepMessages_def)
    next
      case False
      then have "out = []" "b' = b" "stepMessages E (prTime w) ev b = []"
        using assms(1) ChunkEvent
        by (auto simp: bufferStep_def stepMessages_def Let_def split: option.splits consumer_phase.splits)
      then show ?thesis using assms(3) by simp
    qed
  next
    case (poll n)
    note PollEvent = poll
    then obtain v where "pollDone E C (prTime w) n b = (out, v, b')"
      using assms(1) by (auto simp: bufferStep_def Let_def split: prod.splits)
    from poll_ok [OF this assms(3), of r d] show ?thesis using PollEvent by (simp add: stepMessages_def)
  next
    case (failed k e j)
    note FailedEvent = failed
    then have out: "out = []" "b' = b \<or> (\<exists>c. b' = streamFailed k c e j b)"
      using assms(1) by (auto simp: bufferStep_def Let_def split: option.splits consumer_phase.splits)
    then have "buffer_ok C b'" "\<not> empties ev \<Longrightarrow> queue_part b' = queue_part b"
      using failed_ok [OF assms(2,3)] assms(3) FailedEvent by auto
    moreover have "stepMessages E (prTime w) ev b = []" using FailedEvent by (simp add: stepMessages_def)
    ultimately show ?thesis using frame [of b'] out(1) by simp
  next
    case clear
    then show ?thesis using assms by (auto simp: bufferStep_def clearDone_def Let_def intro!: empty_ok)
  next
    case (cleaned x)
    then show ?thesis
      using assms by (auto simp: bufferStep_def cleanupFinish_def Let_def split: if_splits intro!: empty_ok)
  qed
qed

lemma run_ok:
  assumes "bufferRun E C name evs b w = (out, b', w')" and "sane C" and "buffer_ok C b"
  shows "buffer_ok C b' \<and> (list_all (\<lambda>(t, ev). \<not> empties ev) evs \<longrightarrow> accounted r d b \<longrightarrow>
    accounted (r @ runMessages E C name evs b w) (d @ out) b')"
  using assms
proof (induction evs arbitrary: b w r d out)
  case (Cons e evs)
  obtain t ev where e: "e = (t, ev)" by (cases e)
  obtain o1 b1 w1 where one: "bufferStep E C name ev b (w\<lparr>prTime := t\<rparr>) = (o1, b1, w1)" by (metis prod_cases3)
  obtain o2 where two: "bufferRun E C name evs b1 w1 = (o2, b', w')" "out = o1 @ o2"
    using Cons.prems(1) one e by (auto split: prod.splits)
  note step = step_ok [OF one Cons.prems(2,3), of r d]
  then show ?case
    using Cons.IH [OF two(1) Cons.prems(2), of "r @ stepMessages E t ev b" "d @ o1"] e one two(2) by auto
qed simp


definition sample_code :: "string \<Rightarrow> string" where
  "sample_code s = concat (map (\<lambda>c. let n = (of_char c :: nat) in [char_of (97 + n div 16), char_of (97 + n mod 16)]) s)"

definition sample_host :: "(string, unit) mcp_platform" where
  "sample_host = \<lparr>mpReadFile = Inr, mpPrivateKey = (\<lambda>s. Inr (Some ''ed25519'', s)), mpSign = (\<lambda>k s. s), mpEncode = sample_code,
    mpSha256 = (\<lambda>s. ''sha('' @ s @ '')''), mpUrl = (\<lambda>u b. None), mpUuid = nat_str, mpIso = int_str,
    mpFetch = (\<lambda>q n. (Inl (plainError ''offline''), n))\<rparr>"

definition sample_process :: "unit mcp_process" where
  "sample_process = \<lparr>prTime = 0, prUuids = 0, prLog = [], prSent = [], prNet = ()\<rparr>"

text \<open>One publication of the stream, and what a poll gets of it.\<close>

definition published :: "jsval \<Rightarrow> string" where
  "published m = frameText (MessageFrame m)"

lemma published_push: "json_ok m \<Longrightarrow> ssePush [] (published m) = ([\<lparr>seEvent = ''mqtt-message'', seData = json_text (Obj [(''message'', m)])\<rparr>], [])"
  using events_read_back [of "[MessageFrame m]" "[published m]"]
  by (simp add: published_def map_filter_simps split: prod.splits)

lemma published_event:
  assumes "json_ok m" and "truthy m"
  shows "handleSseEvent E C name \<lparr>seEvent = ''mqtt-message'', seData = json_text (Obj [(''message'', m)])\<rparr> (b, w) =
    bufferAppend E C name m (b\<lparr>qLastEvent := Some (prTime w)\<rparr>) w"
proof -
  have "jsonParse (json_text (Obj [(''message'', m)])) = Inr (Obj [(''message'', m)])"
    using assms(1) by (intro jsonParse_json_text) simp
  then show ?thesis using assms(2) by (simp add: handleSseEvent_def getProp_def split: prod.split del: json_text.simps)
qed

lemma append_room:
  assumes "\<not> qClosed b" and "qDropped b = 0" and "int (Suc (length (qQueue b))) \<le> mhMaxMessages C"
    and "qBytes b + byteLengthOf m \<le> of_int (mhMaxBytes C)"
  shows "bufferAppend E C name m b w =
    (b\<lparr>qQueue := qQueue b @ [\<lparr>bfEntry = entryOf E (prTime w) m, bfBytes = byteLengthOf m\<rparr>], qBytes := qBytes b + byteLengthOf m,
       qLastEvent := Some (prTime w)\<rparr>, w)"
proof -
  let ?q = "qQueue b @ [\<lparr>bfEntry = entryOf E (prTime w) m, bfBytes = byteLengthOf m\<rparr>]"
  have "dropOldest (mhMaxMessages C) (mhMaxBytes C) ?q (qBytes b + byteLengthOf m) 0 (qDroppedBytes b) =
      (?q, qBytes b + byteLengthOf m, 0, qDroppedBytes b)"
    using assms(3,4) by (cases "qQueue b") auto
  then show ?thesis using assms(1,2) by (simp add: bufferAppend_def Let_def)
qed

lemma byteLength_nonneg: "0 \<le> byteLengthOf m"
  by (simp add: byteLengthOf_def split: jsval.splits jsnum.splits)

text \<open>A session that is subscribed, loses its stream, unsubscribes and subscribes again within the delay of the retry.\<close>

definition resubscribed :: "jsval \<Rightarrow> (int \<times> buffer_event) list" where
  "resubscribed m =
    [(0, SubscribeEvent Null), (1, OpenedEvent 0), (2, EndedEvent 0 0), (3, UnsubscribeEvent Null), (4, SubscribeEvent Null),
     (5, OpenedEvent 1), (1002, WaitEvent 0), (1003, OpenedEvent 0), (2000, ChunkEvent 0 (published m)),
     (2000, ChunkEvent 1 (published m)), (3000, PollEvent None)]"

text \<open>
  C40: the task that waits to open the stream again is not stopped by an unsubscription: when the
  session subscribes again before the wait is over, two tasks read the stream, and a poll gets a message
  that was published once twice.
\<close>

theorem resubscribing_duplicates_messages:
  assumes "json_ok m" and "truthy m" and "2 \<le> mhMaxMessages C" and "2 * byteLengthOf m \<le> of_int (mhMaxBytes C)"
    and "2 \<le> pollCount C None"
  shows "fst (bufferRun E C name (resubscribed m) newBuffer w) = [entryOf E 2000 m, entryOf E 2000 m]"
proof -
  have room: "byteLengthOf m \<le> of_int (mhMaxBytes C)" using assms(4) byteLength_nonneg [of m] by linarith
  note defs = bufferStep_def Let_def consumerAt_def setConsumer_def newBuffer_def
  show ?thesis
    using assms(3-5) room
    by (simp add: resubscribed_def defs subscribeDone_def startActivityDeadline_def refreshPollDeadline_def ensureSse_def
        streamOpened_def attemptOver_def streamOver_def unsubscribeDone_def stopSse_def waitOver_def explorerOf_def
        coalesce_def nullish_def getProp_def hasElements_def streamChunk_def published_push [OF assms(1)]
        published_event [OF assms(1,2)] append_room pollDone_def del: json_text.simps)
qed

theorem resubscribing_duplicates_messages_witness:
  "fst (bufferRun sample_host
      (example_config\<lparr>mhMaxMessages := 10, mhMaxBytes := 2000, mhDefaultPoll := 5, mhMaxPoll := 5\<rparr>) ''bot''
      (resubscribed (Obj [(''topic'', Str ''a'')])) newBuffer sample_process) =
    [entryOf sample_host 2000 (Obj [(''topic'', Str ''a'')]), entryOf sample_host 2000 (Obj [(''topic'', Str ''a'')])]"
  by (rule resubscribing_duplicates_messages)
    (simp_all add: byteLengthOf_def getProp_def coalesce_def nullish_def utf8_length_def pollCount_def)


end
