(* ===== verification/McpTools.thy ===== *)
theory McpTools
  imports McpBuffer Pages
begin

text \<open>
  The tools of the MCP server (\<open>mcp/src/tools.js\<close>): the handler around each of them, with its rate
  limit, its access check and its confirmation, the table of the tools, and what each sends to the API.
  The operations of the message buffer that call the API are here too, as calls without an interruption.
  The library of the protocol checks the arguments with a tool's schema before it calls the handler.
\<close>

section \<open>A session and its calls\<close>

record mcp_session =
  ssIdentity :: mcp_identity
  ssCookies :: cookies
  ssBuffer :: mqtt_buffer

type_synonym ('n, 'a) session_io = "mcp_session \<Rightarrow> 'n mcp_process \<Rightarrow> (call_error + 'a) \<times> mcp_session \<times> 'n mcp_process"

definition sessionRequest ::
  "('k, 'n) mcp_platform \<Rightarrow> mcp_host_config \<Rightarrow> 'k \<Rightarrow> mcp_call \<Rightarrow> ('n, mcp_reply) session_io" where
  "sessionRequest E C key call s w =
    (case apiRequest E C key (ssIdentity s) call (ssCookies s) w of (r, cs, w') \<Rightarrow> (r, s\<lparr>ssCookies := cs\<rparr>, w'))"

text \<open>A call, and what is made of the session and of its reply when it succeeds.\<close>

definition calling ::
  "('k, 'n) mcp_platform \<Rightarrow> mcp_host_config \<Rightarrow> 'k \<Rightarrow> mcp_call \<Rightarrow> (mcp_reply \<Rightarrow> int \<Rightarrow> mqtt_buffer \<Rightarrow> 'a \<times> mqtt_buffer)
    \<Rightarrow> ('n, 'a) session_io" where
  "calling E C key call f s w =
    (case sessionRequest E C key call s w of
       (Inl e, s', w') \<Rightarrow> (Inl e, s', w')
     | (Inr r, s', w') \<Rightarrow> (case f r (prTime w') (ssBuffer s') of (x, b) \<Rightarrow> (Inr x, s'\<lparr>ssBuffer := b\<rparr>, w')))"

definition getCall :: "string \<Rightarrow> mcp_call" where
  "getCall path = \<lparr>caMethod = ''GET'', caPath = path, caBody = None\<rparr>"

definition sendCall :: "string \<Rightarrow> string \<Rightarrow> jsval \<Rightarrow> mcp_call" where
  "sendCall method path body = \<lparr>caMethod = method, caPath = path, caBody = Some body\<rparr>"

section \<open>The operations of the buffer\<close>

definition bufferConnect :: "('k, 'n) mcp_platform \<Rightarrow> mcp_host_config \<Rightarrow> 'k \<Rightarrow> jsval \<Rightarrow> ('n, jsval) session_io" where
  "bufferConnect E C key input = calling E C key (sendCall ''POST'' ''/api/mqtt/connect'' input)
    (\<lambda>r t b. (mrBody r, connectDone C t (mrBody r) b))"

definition bufferSubscribe :: "('k, 'n) mcp_platform \<Rightarrow> mcp_host_config \<Rightarrow> 'k \<Rightarrow> jsval \<Rightarrow> jsval \<Rightarrow> ('n, jsval) session_io" where
  "bufferSubscribe E C key topicFilter qos =
    calling E C key (sendCall ''POST'' ''/api/mqtt/subscribe'' (Obj [(''filter'', topicFilter), (''qos'', qos)]))
    (\<lambda>r t b. (mrBody r, subscribeDone C t (mrBody r) b))"

definition bufferUnsubscribe :: "('k, 'n) mcp_platform \<Rightarrow> mcp_host_config \<Rightarrow> 'k \<Rightarrow> jsval \<Rightarrow> ('n, jsval) session_io" where
  "bufferUnsubscribe E C key topicFilter =
    calling E C key (sendCall ''POST'' ''/api/mqtt/unsubscribe'' (Obj [(''filter'', topicFilter)]))
    (\<lambda>r t b. (mrBody r, unsubscribeDone (mrBody r) b))"

definition bufferGetState :: "('k, 'n) mcp_platform \<Rightarrow> mcp_host_config \<Rightarrow> 'k \<Rightarrow> ('n, jsval) session_io" where
  "bufferGetState E C key = calling E C key (getCall ''/api/mqtt/state'') (\<lambda>r t b. (mrBody r, stateDone (mrBody r) b))"

definition bufferPoll :: "('k, 'n) mcp_platform \<Rightarrow> mcp_host_config \<Rightarrow> 'k \<Rightarrow> int option \<Rightarrow> ('n, jsval) session_io" where
  "bufferPoll E C key maxMessages = calling E C key (getCall ''/api/me'')
    (\<lambda>r t b. case pollDone E C t maxMessages b of (out, answer, b') \<Rightarrow> (answer, b'))"

definition bufferStatusCall :: "('k, 'n) mcp_platform \<Rightarrow> mcp_host_config \<Rightarrow> 'k \<Rightarrow> bool \<Rightarrow> ('n, jsval) session_io" where
  "bufferStatusCall E C key includeUpstream s w =
    (case sessionRequest E C key (getCall ''/api/me'') s w of
       (Inl e, s', w') \<Rightarrow> (Inl e, s', w')
     | (Inr r, s', w') \<Rightarrow>
        (if includeUpstream then
           (case bufferGetState E C key s' w' of
              (Inl e, s'', w'') \<Rightarrow> (Inl e, s'', w'')
            | (Inr x, s'', w'') \<Rightarrow> (Inr (bufferStatus E True (ssBuffer s'')), s'', w''))
         else (Inr (bufferStatus E False (ssBuffer s')), s', w')))"

definition bufferClear :: "('k, 'n) mcp_platform \<Rightarrow> mcp_host_config \<Rightarrow> 'k \<Rightarrow> ('n, jsval) session_io" where
  "bufferClear E C key = calling E C key (sendCall ''POST'' ''/api/mqtt/messages'' (Obj [(''action'', Str ''clear'')]))
    (\<lambda>r t b. (mrBody r, clearDone b))"

definition bufferSetLimit :: "('k, 'n) mcp_platform \<Rightarrow> mcp_host_config \<Rightarrow> 'k \<Rightarrow> jsval \<Rightarrow> ('n, jsval) session_io" where
  "bufferSetLimit E C key limit =
    calling E C key (sendCall ''POST'' ''/api/mqtt/messages'' (Obj [(''action'', Str ''set_limit''), (''limit'', limit)]))
    (\<lambda>r t b. (mrBody r, b))"

definition bufferPublish :: "('k, 'n) mcp_platform \<Rightarrow> mcp_host_config \<Rightarrow> 'k \<Rightarrow> jsval \<Rightarrow> ('n, jsval) session_io" where
  "bufferPublish E C key input = calling E C key (sendCall ''POST'' ''/api/mqtt/publish'' input) (\<lambda>r t b. (mrBody r, b))"

text \<open>A disconnect cleans up whether or not the API could be reached.\<close>

definition disconnectCall :: mcp_call where
  "disconnectCall = sendCall ''POST'' ''/api/mqtt/disconnect'' (Obj [])"

definition bufferDisconnect :: "('k, 'n) mcp_platform \<Rightarrow> mcp_host_config \<Rightarrow> 'k \<Rightarrow> ('n, jsval) session_io" where
  "bufferDisconnect E C key s w =
    (case sessionRequest E C key disconnectCall s w of
       (Inl e, s', w') \<Rightarrow> (Inl e, s'\<lparr>ssBuffer := cleanupNow (ssBuffer s')\<rparr>, w')
     | (Inr r, s', w') \<Rightarrow>
        (Inr (Obj [(''ok'', Bool True), (''upstream'', mrBody r), (''cleanedUp'', Bool True)]),
         s'\<lparr>ssBuffer := cleanupNow (ssBuffer s')\<rparr>, w'))"

text \<open>\<open>cleanup({ callUpstream: true, .. })\<close>: an error of the API is logged and the cleanup goes on.\<close>

definition bufferCleanup ::
  "('k, 'n) mcp_platform \<Rightarrow> mcp_host_config \<Rightarrow> 'k \<Rightarrow> bool \<Rightarrow> mcp_session \<Rightarrow> 'n mcp_process \<Rightarrow> mcp_session \<times> 'n mcp_process" where
  "bufferCleanup E C key closeBuffer s w =
    (if qCleaning (ssBuffer s) then (s, w)
     else case sessionRequest E C key disconnectCall (s\<lparr>ssBuffer := cleanupStart (ssBuffer s)\<rparr>) w of
       (r, s', w') \<Rightarrow>
         (s'\<lparr>ssBuffer := cleanupFinish closeBuffer (ssBuffer s')\<rparr>,
          case r of Inr _ \<Rightarrow> w'
          | Inl e \<Rightarrow> after (mcpGenerateError E ''mqttBuffer::cleanup'' ''Best-effort mqttctl MQTT disconnect failed.''
              ''MCP_MQTT_DISCONNECT_FAILED'' e (Obj [(''identityName'', Str (idName (ssIdentity s)))])) w'))"

definition expireIfIdle ::
  "('k, 'n) mcp_platform \<Rightarrow> mcp_host_config \<Rightarrow> 'k \<Rightarrow> mcp_session \<Rightarrow> 'n mcp_process \<Rightarrow> bool \<times> mcp_session \<times> 'n mcp_process" where
  "expireIfIdle E C key s w =
    (if \<not> isIdle (prTime w) (ssBuffer s) then (False, s, w)
     else case bufferCleanup E C key False s w of
       (s', w') \<Rightarrow> (True, s', after (mcpGenerateLog E ''info'' ''mqttBuffer::expireIfIdle'' ''MCP_MQTT_SESSION_EXPIRED''
         ''Expired MCP MQTT session after no message-buffer poll.''
         (Obj [(''identityName'', Str (idName (ssIdentity s))), (''inactivityMs'', num_int (mhInactivityMs C))])) w'))"

section \<open>Arguments\<close>

datatype arg_type =
    TextArg | NonEmptyArg | EmailArg | BoolArg | IntArg | RangeArg int int | OneOf "string list" | OneOfInt "int list"
  | TrueArg | AclTypesArg | AnyArg
  | NullableArg arg_type | OptionalArg arg_type | DefaultArg jsval arg_type

definition aclTypeNames :: "string list" where
  "aclTypeNames = [''publishClientSend'', ''publishClientReceive'', ''subscribeLiteral'', ''subscribePattern'',
    ''unsubscribeLiteral'', ''unsubscribePattern'']"

definition ordinaryRoles :: "string list" where
  "ordinaryRoles = [''broker_admin'', ''security_admin'', ''operator'', ''viewer'']"

definition guarded :: "bool \<Rightarrow> jsval \<Rightarrow> jsval option" where
  "guarded ok v = (if ok then Some v else None)"

text \<open>The value that zod makes of an argument, if it accepts it.\<close>

fun parseArg :: "zod \<Rightarrow> arg_type \<Rightarrow> jsval \<Rightarrow> jsval option" where
  "parseArg Z TextArg v = guarded (\<exists>s. zString v = Some s) v"
| "parseArg Z NonEmptyArg v = guarded (\<exists>s. zText v = Some s) v"
| "parseArg Z EmailArg v = guarded (case v of Str s \<Rightarrow> zodEmail Z s | _ \<Rightarrow> False) v"
| "parseArg Z BoolArg v = guarded (case v of Bool b \<Rightarrow> True | _ \<Rightarrow> False) v"
| "parseArg Z IntArg v = guarded (zInt v \<noteq> None) v"
| "parseArg Z (RangeArg lo hi) v = guarded (case zInt v of Some i \<Rightarrow> lo \<le> i \<and> i \<le> hi | None \<Rightarrow> False) v"
| "parseArg Z (OneOf names) v = guarded (case v of Str s \<Rightarrow> s \<in> set names | _ \<Rightarrow> False) v"
| "parseArg Z (OneOfInt is) v = guarded (v \<in> set (map num_int is)) v"
| "parseArg Z TrueArg v = guarded (v = Bool True) v"
| "parseArg Z AclTypesArg v =
    guarded (case v of Arr vs \<Rightarrow> vs \<noteq> [] \<and> list_all (\<lambda>x. x \<in> set (map Str aclTypeNames)) vs | _ \<Rightarrow> False) v"
| "parseArg Z AnyArg v = Some v"
| "parseArg Z (NullableArg a) v = (if v = Null then Some v else parseArg Z a v)"
| "parseArg Z (OptionalArg a) v = (if v = Undef then Some v else parseArg Z a v)"
| "parseArg Z (DefaultArg d a) v = (if v = Undef then Some d else parseArg Z a v)"

type_synonym schema = "(string \<times> arg_type) list"

fun parseFields :: "zod \<Rightarrow> schema \<Rightarrow> jsval \<Rightarrow> (string \<times> jsval) list option" where
  "parseFields Z [] v = Some []"
| "parseFields Z ((k, a) # shape) v =
    (case parseArg Z a (getProp k v) of
       None \<Rightarrow> None
     | Some x \<Rightarrow> map_option (\<lambda>kvs. (k, x) # kvs) (parseFields Z shape v))"

definition parseArgs :: "zod \<Rightarrow> schema \<Rightarrow> jsval \<Rightarrow> jsval option" where
  "parseArgs Z shape v =
    (if zStrict (map fst shape) v then map_option zFields (parseFields Z shape v) else None)"

text \<open>An object without some of its keys, and one with a key put first or last.\<close>

definition omitting :: "string list \<Rightarrow> jsval \<Rightarrow> (string \<times> jsval) list" where
  "omitting ks v = (case v of Obj kvs \<Rightarrow> filter (\<lambda>kv. fst kv \<notin> set ks) kvs | _ \<Rightarrow> [])"

section \<open>Tools\<close>

text \<open>
  What a tool does: it calls the API and returns the body, or the file of the reply with the body under
  the given key, or it is an operation of the buffer.
\<close>

datatype tool_run =
    BodyOf "jsval \<Rightarrow> mcp_call"
  | FileOf string "jsval \<Rightarrow> mcp_call"
  | MqttConnect | MqttState | MqttSubscribe | MqttUnsubscribe | MqttPoll | MqttStatus | MqttClear | MqttSetLimit
  | MqttPublish | MqttDisconnect

record mcp_tool =
  tlName :: string
  tlMutating :: bool
  tlDestructive :: bool
  tlSchema :: schema
  tlRun :: tool_run

definition readTool :: "string \<Rightarrow> schema \<Rightarrow> tool_run \<Rightarrow> mcp_tool" where
  "readTool name shape run = \<lparr>tlName = name, tlMutating = False, tlDestructive = False, tlSchema = shape, tlRun = run\<rparr>"

definition writeTool :: "string \<Rightarrow> schema \<Rightarrow> tool_run \<Rightarrow> mcp_tool" where
  "writeTool name shape run = \<lparr>tlName = name, tlMutating = True, tlDestructive = False, tlSchema = shape, tlRun = run\<rparr>"

definition destructiveTool :: "string \<Rightarrow> schema \<Rightarrow> tool_run \<Rightarrow> mcp_tool" where
  "destructiveTool name shape run =
    \<lparr>tlName = name, tlMutating = True, tlDestructive = True, tlSchema = shape @ [(''confirm'', TrueArg)], tlRun = run\<rparr>"

definition pathOf :: "string \<Rightarrow> string \<Rightarrow> jsval \<Rightarrow> string" where
  "pathOf prefix k args = prefix @ encodeURIComponent (to_string (getProp k args))"

definition argText :: "string \<Rightarrow> jsval \<Rightarrow> string" where
  "argText k args = to_string (getProp k args)"

definition coreTools :: "mcp_tool list" where
  "coreTools =
    map (\<lambda>(name, path). readTool name [] (BodyOf (\<lambda>_. getCall path)))
      [(''mqttctl_whoami'', ''/api/me''), (''mqttctl_get_dashboard'', ''/api/dashboard''),
       (''mqttctl_get_diagnostics'', ''/api/diagnostics''), (''mqttctl_get_mcp_access'', ''/api/mcp/access''),
       (''mqttctl_list_users'', ''/api/users''), (''mqttctl_list_broker_key_files'', ''/api/config/key-files''),
       (''mqttctl_pull_broker_config'', ''/api/config/pull''), (''mqttctl_list_dynsec_clients'', ''/api/dynsec/clients''),
       (''mqttctl_list_dynsec_groups'', ''/api/dynsec/groups''), (''mqttctl_list_dynsec_roles'', ''/api/dynsec/roles''),
       (''mqttctl_get_dynsec_client_defaults'', ''/api/dynsec/settings/client-defaults'')] @
    (let auditSchema = [(''limit'', DefaultArg (Str ''20'') (OneOf [''10'', ''20'', ''50'', ''100'', ''all'']))] in
     [readTool ''mqttctl_list_audit'' auditSchema (BodyOf (\<lambda>a. getCall (''/api/audit?limit='' @ argText ''limit'' a))),
      readTool ''mqttctl_export_audit'' auditSchema
        (FileOf ''auditLog'' (\<lambda>a. getCall (''/api/audit?limit='' @ argText ''limit'' a @ ''&download=1''))),
      readTool ''mqttctl_read_broker_key_file'' [(''file_id'', OneOf [''caFile'', ''mosquittoPublicKey'', ''brokerPublicKey''])]
        (FileOf ''content'' (\<lambda>a. getCall (''/api/config/key-files/'' @ argText ''file_id'' a)))]) @
    [writeTool ''mqttctl_create_user'' [(''username'', NonEmptyArg), (''email'', OptionalArg (NullableArg EmailArg)),
        (''password'', NonEmptyArg), (''role'', OneOf ordinaryRoles)]
      (BodyOf (sendCall ''POST'' ''/api/users'')),
     writeTool ''mqttctl_update_user'' [(''id'', NonEmptyArg), (''email'', NullableArg EmailArg), (''role'', OneOf ordinaryRoles),
        (''disabled'', BoolArg), (''password'', DefaultArg Null (NullableArg NonEmptyArg))]
      (BodyOf (\<lambda>a. sendCall ''PATCH'' (pathOf ''/api/users/'' ''id'' a) (Obj (omitting [''id''] a)))),
     destructiveTool ''mqttctl_delete_user'' [(''id'', NonEmptyArg)]
      (BodyOf (\<lambda>a. (getCall (pathOf ''/api/users/'' ''id'' a))\<lparr>caMethod := ''DELETE''\<rparr>)),
     destructiveTool ''mqttctl_push_broker_config'' [(''rendered'', TextArg), (''expected_current'', TextArg)]
      (BodyOf (\<lambda>a. sendCall ''POST'' ''/api/config/push''
        (Obj [(''rendered'', getProp ''rendered'' a), (''expectedCurrent'', getProp ''expected_current'' a)]))),
     destructiveTool ''mqttctl_reload_broker'' [] (BodyOf (\<lambda>_. sendCall ''POST'' ''/api/config/reload'' (Obj []))),
     destructiveTool ''mqttctl_restart_broker'' [] (BodyOf (\<lambda>_. sendCall ''POST'' ''/api/config/restart'' (Obj [])))]"

text \<open>A \<open>PATCH\<close> of one object, with an action.\<close>

definition patchTool :: "string \<Rightarrow> schema \<Rightarrow> string \<Rightarrow> string \<Rightarrow> string \<Rightarrow> string list \<Rightarrow> mcp_tool" where
  "patchTool name shape prefix k action ks = writeTool name shape
    (BodyOf (\<lambda>a. sendCall ''PATCH'' (pathOf prefix k a)
      (Obj ((''action'', Str action) # map (\<lambda>f. (f, getProp f a)) ks))))"

definition clientTools :: "mcp_tool list" where
  "clientTools =
    [writeTool ''mqttctl_create_dynsec_client'' [(''username'', NonEmptyArg), (''password'', OptionalArg (NullableArg NonEmptyArg)),
        (''client_id'', OptionalArg (NullableArg NonEmptyArg)), (''disabled'', DefaultArg (Bool False) BoolArg)]
      (BodyOf (\<lambda>a. sendCall ''POST'' ''/api/dynsec/clients''
        (Obj (omitting [''client_id''] a @ [(''clientId'', getProp ''client_id'' a)])))),
     readTool ''mqttctl_get_dynsec_client_permissions'' [(''username'', NonEmptyArg)]
      (BodyOf (\<lambda>a. getCall (pathOf ''/api/dynsec/clients/'' ''username'' a)))] @
    (let p = (\<lambda>name shape action ks. patchTool name ((''username'', NonEmptyArg) # shape) ''/api/dynsec/clients/'' ''username'' action ks) in
     [p ''mqttctl_set_dynsec_client_enabled'' [(''enabled'', BoolArg)] ''setEnabled'' [''enabled''],
      p ''mqttctl_set_dynsec_client_password'' [(''password'', NonEmptyArg)] ''setPassword'' [''password''],
      p ''mqttctl_assign_dynsec_client_role'' [(''rolename'', NonEmptyArg), (''priority'', IntArg)] ''assignRole'' [''rolename'', ''priority''],
      p ''mqttctl_remove_dynsec_client_role'' [(''rolename'', NonEmptyArg)] ''removeRole'' [''rolename''],
      p ''mqttctl_add_dynsec_client_group'' [(''groupname'', NonEmptyArg), (''priority'', IntArg)] ''addGroup'' [''groupname'', ''priority''],
      p ''mqttctl_remove_dynsec_client_group'' [(''groupname'', NonEmptyArg)] ''removeGroup'' [''groupname'']]) @
    [destructiveTool ''mqttctl_delete_dynsec_client'' [(''username'', NonEmptyArg)]
      (BodyOf (\<lambda>a. (getCall (pathOf ''/api/dynsec/clients/'' ''username'' a))\<lparr>caMethod := ''DELETE''\<rparr>))]"

definition groupTools :: "mcp_tool list" where
  "groupTools =
    [writeTool ''mqttctl_create_dynsec_group'' [(''groupname'', NonEmptyArg)] (BodyOf (sendCall ''POST'' ''/api/dynsec/groups''))] @
    (let p = (\<lambda>name shape action ks. patchTool name ((''groupname'', NonEmptyArg) # shape) ''/api/dynsec/groups/'' ''groupname'' action ks) in
     [p ''mqttctl_add_dynsec_group_client'' [(''username'', NonEmptyArg), (''priority'', IntArg)] ''addClient'' [''username'', ''priority''],
      p ''mqttctl_remove_dynsec_group_client'' [(''username'', NonEmptyArg)] ''removeClient'' [''username''],
      p ''mqttctl_add_dynsec_group_role'' [(''rolename'', NonEmptyArg), (''priority'', IntArg)] ''addRole'' [''rolename'', ''priority''],
      p ''mqttctl_remove_dynsec_group_role'' [(''rolename'', NonEmptyArg)] ''removeRole'' [''rolename'']]) @
    [destructiveTool ''mqttctl_delete_dynsec_group'' [(''groupname'', NonEmptyArg)]
      (BodyOf (\<lambda>a. (getCall (pathOf ''/api/dynsec/groups/'' ''groupname'' a))\<lparr>caMethod := ''DELETE''\<rparr>))]"

definition roleTools :: "mcp_tool list" where
  "roleTools =
    [writeTool ''mqttctl_create_dynsec_role'' [(''rolename'', NonEmptyArg)] (BodyOf (sendCall ''POST'' ''/api/dynsec/roles'')),
     writeTool ''mqttctl_add_dynsec_role_acls'' [(''rolename'', NonEmptyArg), (''acltypes'', AclTypesArg), (''topic'', NonEmptyArg),
        (''allow'', BoolArg), (''priority'', IntArg)]
      (BodyOf (\<lambda>a. sendCall ''PATCH'' (pathOf ''/api/dynsec/roles/'' ''rolename'' a)
        (Obj ((''action'', Str ''addAcl'') # omitting [''rolename''] a)))),
     writeTool ''mqttctl_remove_dynsec_role_acl'' [(''rolename'', NonEmptyArg), (''acltype'', OneOf aclTypeNames), (''topic'', NonEmptyArg)]
      (BodyOf (\<lambda>a. sendCall ''PATCH'' (pathOf ''/api/dynsec/roles/'' ''rolename'' a)
        (Obj ((''action'', Str ''removeAcl'') # omitting [''rolename''] a)))),
     destructiveTool ''mqttctl_delete_dynsec_role'' [(''rolename'', NonEmptyArg)]
      (BodyOf (\<lambda>a. (getCall (pathOf ''/api/dynsec/roles/'' ''rolename'' a))\<lparr>caMethod := ''DELETE''\<rparr>)),
     writeTool ''mqttctl_set_dynsec_client_defaults'' [(''default_role_name'', NullableArg NonEmptyArg),
        (''default_role_priority'', DefaultArg (num_int 0) IntArg)]
      (BodyOf (\<lambda>a. sendCall ''PATCH'' ''/api/dynsec/settings/client-defaults''
        (Obj [(''defaultRoleName'', getProp ''default_role_name'' a), (''defaultRolePriority'', getProp ''default_role_priority'' a)])))]"

definition snapshotTools :: "mcp_tool list" where
  "snapshotTools =
    [writeTool ''mqttctl_export_snapshot'' [(''kind'', OneOf [''dynsec'', ''broker-config'', ''combined'']),
        (''note'', OptionalArg (NullableArg TextArg))]
      (BodyOf (sendCall ''POST'' ''/api/snapshots/export'')),
     writeTool ''mqttctl_preview_snapshot_import'' [(''payload'', AnyArg)]
      (BodyOf (\<lambda>a. sendCall ''POST'' ''/api/snapshots/import'' (Obj [(''payload'', getProp ''payload'' a), (''apply'', Bool False)]))),
     destructiveTool ''mqttctl_apply_snapshot_import'' [(''payload'', AnyArg)]
      (BodyOf (\<lambda>a. sendCall ''POST'' ''/api/snapshots/import'' (Obj [(''payload'', getProp ''payload'' a), (''apply'', Bool True)])))]"

definition mqttTools :: "mcp_host_config \<Rightarrow> mcp_tool list" where
  "mqttTools C =
    [readTool ''mqttctl_mqtt_connect'' [(''host'', NonEmptyArg), (''port'', RangeArg 1 65535), (''tls'', DefaultArg (Bool False) BoolArg),
        (''auth_mode'', OneOf [''dynsec_client'', ''custom'']), (''username'', NonEmptyArg), (''password'', OptionalArg NonEmptyArg),
        (''client_id'', NonEmptyArg)] MqttConnect,
     readTool ''mqttctl_mqtt_get_state'' [] MqttState,
     readTool ''mqttctl_mqtt_subscribe'' [(''filter'', NonEmptyArg), (''qos'', OneOfInt [0, 1, 2])] MqttSubscribe,
     readTool ''mqttctl_mqtt_unsubscribe'' [(''filter'', NonEmptyArg)] MqttUnsubscribe,
     readTool ''mqttctl_mqtt_poll_messages'' [(''max_messages'', OptionalArg (RangeArg 1 (mhMaxPoll C)))] MqttPoll,
     readTool ''mqttctl_mqtt_buffer_status'' [(''include_upstream'', DefaultArg (Bool False) BoolArg)] MqttStatus,
     readTool ''mqttctl_mqtt_clear_messages'' [] MqttClear,
     readTool ''mqttctl_mqtt_set_tracked_topics_limit'' [(''limit'', NullableArg (OneOfInt [5, 10, 20, 25, 100]))] MqttSetLimit,
     writeTool ''mqttctl_mqtt_publish'' [(''topic'', NonEmptyArg), (''payload'', TextArg), (''qos'', OneOfInt [0, 1, 2]),
        (''retain'', DefaultArg (Bool False) BoolArg)] MqttPublish,
     readTool ''mqttctl_mqtt_disconnect'' [] MqttDisconnect]"

definition allTools :: "mcp_host_config \<Rightarrow> mcp_tool list" where
  "allTools C = coreTools @ clientTools @ groupTools @ roleTools @ snapshotTools @ mqttTools C"

text \<open>\<open>register\<close>: a server in read-only mode has no mutating tool.\<close>

definition registeredTools :: "mcp_host_config \<Rightarrow> mcp_tool list" where
  "registeredTools C = filter (\<lambda>t. \<not> (tlMutating t \<and> mhReadOnly C)) (allTools C)"

section \<open>The handler\<close>

definition runTool ::
  "('k, 'n) mcp_platform \<Rightarrow> mcp_host_config \<Rightarrow> 'k \<Rightarrow> tool_run \<Rightarrow> jsval \<Rightarrow> ('n, jsval) session_io" where
  "runTool E C key run args =
    (case run of
       BodyOf call \<Rightarrow> calling E C key (call args) (\<lambda>r t b. (mrBody r, b))
     | FileOf k call \<Rightarrow> calling E C key (call args)
         (\<lambda>r t b. (Obj [(''fileName'', opt_str (mrFileName r)), (''contentType'', opt_str (mrContentType r)), (k, mrBody r)], b))
     | MqttConnect \<Rightarrow> bufferConnect E C key (Obj (omitting [''auth_mode'', ''client_id''] args @
         [(''authMode'', getProp ''auth_mode'' args), (''clientId'', getProp ''client_id'' args)]))
     | MqttState \<Rightarrow> bufferGetState E C key
     | MqttSubscribe \<Rightarrow> bufferSubscribe E C key (getProp ''filter'' args) (getProp ''qos'' args)
     | MqttUnsubscribe \<Rightarrow> bufferUnsubscribe E C key (getProp ''filter'' args)
     | MqttPoll \<Rightarrow> bufferPoll E C key (zInt (getProp ''max_messages'' args))
     | MqttStatus \<Rightarrow> bufferStatusCall E C key (truthy (getProp ''include_upstream'' args))
     | MqttClear \<Rightarrow> bufferClear E C key
     | MqttSetLimit \<Rightarrow> bufferSetLimit E C key (getProp ''limit'' args)
     | MqttPublish \<Rightarrow> bufferPublish E C key args
     | MqttDisconnect \<Rightarrow> bufferDisconnect E C key)"

text \<open>\<open>JSON.stringify(v, null, 2)\<close> at an indentation.\<close>

fun json_pretty :: "nat \<Rightarrow> jsval \<Rightarrow> string" where
  "json_pretty i (Arr vs) =
    (if vs = [] then ''[]''
     else ''['' @ [lf] @ join ('','' @ [lf]) (map (\<lambda>v. replicate (i + 2) (CHR '' '') @ json_pretty (i + 2) v) vs) @ [lf]
       @ replicate i (CHR '' '') @ '']'')"
| "json_pretty i (Obj kvs) =
    (if list_all (\<lambda>kv. snd kv = Undef) kvs then ''{}''
     else ''{'' @ [lf] @ join ('','' @ [lf]) (filter (\<lambda>m. m \<noteq> [])
         (map (\<lambda>kv. if snd kv = Undef then []
           else replicate (i + 2) (CHR '' '') @ json_quote (fst kv) @ '': '' @ json_pretty (i + 2) (snd kv)) kvs)) @ [lf]
       @ replicate i (CHR '' '') @ ''}'')"
| "json_pretty i v = json_text v"

record tool_result =
  trText :: string
  trStructured :: jsval
  trIsError :: bool

definition toMcpResult :: "jsval \<Rightarrow> tool_result" where
  "toMcpResult payload = \<lparr>trText = json_pretty 0 payload, trStructured = payload,
    trIsError = (getProp ''ok'' payload = Bool False)\<rparr>"

definition failure :: "(string \<times> jsval) list \<Rightarrow> jsval" where
  "failure details = Obj [(''ok'', Bool False), (''error'', Obj details)]"

fun errorPayload :: "call_error \<Rightarrow> string \<Rightarrow> jsval" where
  "errorPayload (ApiFailed a) toolName =
    (let get = (\<lambda>k d. coalesce (getProp k (aeResponse a)) d) in
     failure [(''code'', Str ''mqttctl_api_error''), (''status'', num_int (aeStatus a)), (''errorKey'', get ''errorKey'' Null),
       (''errorCode'', get ''errorCode'' Null), (''reason'', get ''reason'' (Str (aeMessage a))),
       (''correlationId'', get ''correlationId'' Null), (''details'', get ''details'' Null)])"
| "errorPayload (Thrown e) toolName =
    failure [(''code'', Str ''tool_failed''), (''reason'', Str ''MCP tool execution failed.''), (''toolName'', Str toolName)]"

definition rateCategory :: "mcp_tool \<Rightarrow> rate_category" where
  "rateCategory t = (if tlDestructive t then DestructiveRate else if tlMutating t then WriteRate else ReadRate)"

definition logCall :: "('k, 'n) mcp_platform \<Rightarrow> mcp_tool \<Rightarrow> mcp_identity \<Rightarrow> ('n, unit) mcp_io" where
  "logCall E t i = mcpGenerateLog E ''info'' (''tools::'' @ tlName t) ''MCP_TOOL_CALL'' ''MCP tool called.''
    (Obj [(''toolName'', Str (tlName t)), (''identityName'', Str (idName i)), (''access'', Str (mcp_access_str (idAccess i))),
      (''mutating'', Bool (tlMutating t)), (''destructive'', Bool (tlDestructive t))])"

definition logBlocked :: "('k, 'n) mcp_platform \<Rightarrow> mcp_tool \<Rightarrow> mcp_identity \<Rightarrow> rate_result \<Rightarrow> ('n, unit) mcp_io" where
  "logBlocked E t i r = mcpGenerateLog E ''warn'' (''tools::'' @ tlName t) ''MCP_RATE_LIMIT_BLOCKED''
    ''MCP tool call exceeded its named-token rate limit.''
    (Obj [(''toolName'', Str (tlName t)), (''identityName'', Str (idName i)), (''rateCategory'', Str (rate_category_str (rateCategory t))),
      (''limit'', num_int (rrLimit r)), (''retryAfterSeconds'', num_int (rrRetryAfterSeconds r))])"

text \<open>The reason to refuse a call before it is run.\<close>

definition refusedCall :: "mcp_host_config \<Rightarrow> mcp_tool \<Rightarrow> mcp_identity \<Rightarrow> jsval \<Rightarrow> jsval option" where
  "refusedCall C t i args =
    (if tlMutating t \<and> (mhReadOnly C \<or> idAccess i \<noteq> McpReadWrite) then
       Some (failure [(''code'', Str (if mhReadOnly C then ''read_only'' else ''auth_error'')),
         (''reason'', Str (if mhReadOnly C then ''The MCP server is running in read-only mode.''
            else ''This tool requires a read/write MCP bearer token.''))])
     else if tlDestructive t \<and> getProp ''confirm'' args \<noteq> Bool True then
       Some (failure [(''code'', Str ''confirmation_required''), (''reason'', Str (tlName t @ '' requires confirm: true.''))])
     else None)"

definition handleTool ::
  "('k, 'n) mcp_platform \<Rightarrow> mcp_host_config \<Rightarrow> 'k \<Rightarrow> mcp_tool \<Rightarrow> jsval \<Rightarrow> rate_windows \<Rightarrow> mcp_session \<Rightarrow> 'n mcp_process
    \<Rightarrow> tool_result \<times> rate_windows \<times> mcp_session \<times> 'n mcp_process" where
  "handleTool E C key t args ws s w =
    (let i = ssIdentity s; w1 = after (logCall E t i) w in
     case checkRate C (idName i) (rateCategory t) (prTime w1) ws of
       (rate, ws') \<Rightarrow>
        if \<not> rrAllowed rate then
          (toMcpResult (failure [(''code'', Str ''rate_limited''), (''reason'', Str ''MCP tool rate limit exceeded.''),
             (''retryAfterSeconds'', num_int (rrRetryAfterSeconds rate)), (''limit'', num_int (rrLimit rate))]),
           ws', s, after (logBlocked E t i rate) w1)
        else case refusedCall C t i args of
          Some payload \<Rightarrow> (toMcpResult payload, ws', s, w1)
        | None \<Rightarrow>
           (case runTool E C key (tlRun t) args s w1 of
              (Inr response, s', w2) \<Rightarrow>
                (toMcpResult (if getProp ''ok'' response = Bool False then response
                   else Obj [(''ok'', Bool True), (''response'', response)]), ws', s', w2)
            | (Inl e, s', w2) \<Rightarrow>
                (toMcpResult (errorPayload e (tlName t)), ws', s',
                 after (mcpGenerateError E (''tools::'' @ tlName t) ''MCP tool execution failed.'' ''MCP_TOOL_FAILED'' e
                   (Obj [(''toolName'', Str (tlName t)), (''identityName'', Str (idName i))])) w2)))"

text \<open>A call as it reaches the server: by name, with arguments that the library checks first.\<close>

definition callTool ::
  "('k, 'n) mcp_platform \<Rightarrow> zod \<Rightarrow> mcp_host_config \<Rightarrow> 'k \<Rightarrow> string \<Rightarrow> jsval \<Rightarrow> rate_windows \<Rightarrow> mcp_session \<Rightarrow> 'n mcp_process
    \<Rightarrow> tool_result option \<times> rate_windows \<times> mcp_session \<times> 'n mcp_process" where
  "callTool E Z C key name v ws s w =
    (case List.find (\<lambda>t. tlName t = name) (registeredTools C) of
       None \<Rightarrow> (None, ws, s, w)
     | Some t \<Rightarrow>
        (case parseArgs Z (tlSchema t) v of
           None \<Rightarrow> (None, ws, s, w)
         | Some args \<Rightarrow> (case handleTool E C key t args ws s w of (r, rest) \<Rightarrow> (Some r, rest))))"

end
