(* ===== verification/McpHost.thy ===== *)
theory McpHost
  imports McpTools
begin

text \<open>
  The program of the MCP server (\<open>mcp/src/index.js\<close>): its sessions, the requests it answers, the closing
  of abandoned sessions and the shutdown. The library of the protocol is a parameter: what it recognises
  as an initialisation, what it does with a message, and what it answers. A request is handled here
  without an interruption, but for the creation of a session, which is a step of its own.
\<close>

section \<open>State\<close>

record session_state =
  snSession :: mcp_session
  snId :: "string option"
  snClosing :: bool
  snLastActivity :: int

text \<open>
  The states that were created, in order, and the map of the sessions, which names them by their
  position. \<open>hsListening\<close>: the listeners that still take connections.
\<close>

record 'n host_state =
  hsStates :: "session_state list"
  hsSessions :: "(string \<times> nat) list"
  hsWindows :: rate_windows
  hsReadyCookies :: cookies
  hsBeat :: mcp_beat
  hsShuttingDown :: bool
  hsListening :: nat
  hsProcess :: "'n mcp_process"

text \<open>A request: \<open>hnUrl\<close> is its URL as it was sent, with \<open>hnBody\<close> the chunks of its body.\<close>

record http_in =
  hnMethod :: string
  hnUrl :: string
  hnAuthorization :: "string option"
  hnSession :: "string option"
  hnBody :: "string list"

datatype http_answer = JsonAnswer int jsval | LibraryAnswer jsval

text \<open>What the library does with a message: it starts the session, calls a tool, or neither.\<close>

datatype library_act = StartsSession | CallsTool string jsval | ActsAlone

record mcp_library =
  lbIsInitialize :: "jsval \<Rightarrow> bool"
  lbAct :: "http_in \<Rightarrow> jsval \<Rightarrow> library_act"
  lbAnswer :: "http_in \<Rightarrow> jsval \<Rightarrow> tool_result option \<Rightarrow> jsval"

section \<open>Answers\<close>

definition mcpErrorAnswer :: "int \<Rightarrow> string \<Rightarrow> http_answer" where
  "mcpErrorAnswer status message = JsonAnswer status
    (Obj [(''jsonrpc'', Str ''2.0''), (''error'', Obj [(''code'', num_int (-32000)), (''message'', Str message)]), (''id'', Null)])"

definition mcpBodyLimit :: nat where "mcpBodyLimit = 16 * 1024 * 1024"

text \<open>The bytes are counted chunk by chunk; an empty stream has no body.\<close>

fun readBodyChunks :: "nat \<Rightarrow> string list \<Rightarrow> exn + string" where
  "readBodyChunks n [] = Inr []"
| "readBodyChunks n (c # cs) =
    (if mcpBodyLimit < n + length c then Inl (plainError ''MCP request body exceeds the 16 MiB limit.'')
     else thenR (readBodyChunks (n + length c) cs) (\<lambda>rest. Inr (c @ rest)))"

definition mcpReadBody :: "string list \<Rightarrow> exn + jsval" where
  "mcpReadBody chunks = thenR (readBodyChunks 0 chunks) (\<lambda>text. if chunks = [] then Inr Undef else jsonParse text)"

section \<open>Sessions\<close>

definition perToken :: "mcp_identity \<Rightarrow> 'n host_state \<Rightarrow> nat" where
  "perToken i h = length (filter (\<lambda>(k, n). idName (ssIdentity (snSession (hsStates h ! n))) = idName i) (hsSessions h))"

definition sessionLimit :: "mcp_host_config \<Rightarrow> mcp_identity \<Rightarrow> 'n host_state \<Rightarrow> bool" where
  "sessionLimit C i h \<longleftrightarrow> mhMaxSessions C \<le> int (length (hsSessions h)) \<or> mhMaxPerToken C \<le> int (perToken i h)"

text \<open>The position of the new state, unless a limit is reached; it is in the map only once the library has started it.\<close>

definition createSession :: "mcp_host_config \<Rightarrow> mcp_identity \<Rightarrow> 'n host_state \<Rightarrow> (nat \<times> 'n host_state) option" where
  "createSession C i h =
    (if sessionLimit C i h then None
     else Some (length (hsStates h), h\<lparr>hsStates := hsStates h @
       [\<lparr>snSession = \<lparr>ssIdentity = i, ssCookies = [], ssBuffer = newBuffer\<rparr>, snId = None, snClosing = False,
         snLastActivity = prTime (hsProcess h)\<rparr>]\<rparr>))"

definition sessionInitialized :: "('k, 'n) mcp_platform \<Rightarrow> nat \<Rightarrow> 'n host_state \<Rightarrow> 'n host_state" where
  "sessionInitialized E n h =
    (let w = hsProcess h; sid = mpUuid E (prUuids w); st = hsStates h ! n; i = ssIdentity (snSession st) in
     h\<lparr>hsStates := (hsStates h)[n := st\<lparr>snId := Some sid\<rparr>], hsSessions := AList.update sid n (hsSessions h),
       hsProcess := after (mcpGenerateLog E ''info'' ''index::createSession'' ''MCP_SESSION_INITIALIZED'' ''MCP session initialized.''
         (Obj [(''sessionId'', Str sid), (''identityName'', Str (idName i)), (''access'', Str (mcp_access_str (idAccess i)))]))
         (w\<lparr>prUuids := Suc (prUuids w)\<rparr>)\<rparr>)"

definition closeSession :: "('k, 'n) mcp_platform \<Rightarrow> mcp_host_config \<Rightarrow> 'k \<Rightarrow> nat \<Rightarrow> 'n host_state \<Rightarrow> 'n host_state" where
  "closeSession E C key n h =
    (let st = hsStates h ! n in
     if snClosing st then h
     else case bufferCleanup E C key True (snSession st) (hsProcess h) of
       (s', w') \<Rightarrow> h\<lparr>hsStates := (hsStates h)[n := st\<lparr>snSession := s', snClosing := True\<rparr>],
         hsSessions := (case snId st of None \<Rightarrow> hsSessions h | Some sid \<Rightarrow> AList.delete sid (hsSessions h)), hsProcess := w'\<rparr>)"

text \<open>\<open>transport.handleRequest\<close>, in the state at position \<open>n\<close>.\<close>

definition libraryRequest ::
  "('k, 'n) mcp_platform \<Rightarrow> zod \<Rightarrow> mcp_library \<Rightarrow> mcp_host_config \<Rightarrow> 'k \<Rightarrow> http_in \<Rightarrow> jsval \<Rightarrow> nat \<Rightarrow> 'n host_state
    \<Rightarrow> http_answer \<times> 'n host_state" where
  "libraryRequest E Z B C key q body n h =
    (case lbAct B q body of
       StartsSession \<Rightarrow> (LibraryAnswer (lbAnswer B q body None), if snId (hsStates h ! n) = None then sessionInitialized E n h else h)
     | ActsAlone \<Rightarrow> (LibraryAnswer (lbAnswer B q body None), h)
     | CallsTool name args \<Rightarrow>
        (case callTool E Z C key name args (hsWindows h) (snSession (hsStates h ! n)) (hsProcess h) of
           (r, ws, s, w) \<Rightarrow> (LibraryAnswer (lbAnswer B q body r),
             h\<lparr>hsWindows := ws, hsProcess := w, hsStates := (hsStates h)[n := (hsStates h ! n)\<lparr>snSession := s\<rparr>]\<rparr>)))"

section \<open>Requests\<close>

text \<open>A failure of a handler: an error with a status, which only the session limit has.\<close>

datatype host_error = LimitReached | OtherError call_error

definition handleMcp ::
  "('k, 'n) mcp_platform \<Rightarrow> zod \<Rightarrow> mcp_library \<Rightarrow> mcp_host_config \<Rightarrow> 'k \<Rightarrow> http_in \<Rightarrow> mcp_identity \<Rightarrow> 'n host_state
    \<Rightarrow> (host_error + http_answer) \<times> 'n host_state" where
  "handleMcp E Z B C key q i h =
    (case (if hnMethod q = ''POST'' then mcpReadBody (hnBody q) else Inr Undef) of
       Inl e \<Rightarrow> (Inl (OtherError (Thrown e)), h)
     | Inr body \<Rightarrow>
        (let given = (case hnSession q of Some sid \<Rightarrow> if sid = [] then None else Some sid | None \<Rightarrow> None);
             run = (\<lambda>n h. let h = h\<lparr>hsStates := (hsStates h)[n := (hsStates h ! n)\<lparr>snLastActivity := prTime (hsProcess h)\<rparr>]\<rparr> in
               case libraryRequest E Z B C key q body n h of
                 (a, h') \<Rightarrow> (Inr a, if hnMethod q = ''DELETE'' then closeSession E C key n h' else h')) in
         case Option.bind given (map_of (hsSessions h)) of
           Some n \<Rightarrow>
            (if ssIdentity (snSession (hsStates h ! n)) \<noteq> i then
               (Inr (mcpErrorAnswer 403 ''MCP session belongs to a different bearer identity.''), h)
             else run n h)
         | None \<Rightarrow>
            (if given = None \<and> hnMethod q = ''POST'' \<and> lbIsInitialize B body then
               (case createSession C i h of None \<Rightarrow> (Inl LimitReached, h) | Some (n, h') \<Rightarrow> run n h')
             else (Inr (mcpErrorAnswer (if given \<noteq> None then 404 else 400) ''No valid MCP session was provided.''), h))))"

definition buildFields :: "string \<times> string \<Rightarrow> (string \<times> jsval) list" where
  "buildFields build = [(''version'', Str (fst build)), (''buildHash'', Str (snd build))]"

definition healthAnswer :: "mcp_host_config \<Rightarrow> string \<times> string \<Rightarrow> http_in \<Rightarrow> 'n host_state \<Rightarrow> http_answer" where
  "healthAnswer C build q h =
    (if hnMethod q \<noteq> ''GET'' then JsonAnswer 405 (Obj [(''ok'', Bool False)])
     else JsonAnswer 200 (Obj ([(''ok'', Bool True)] @ buildFields build @
       [(''sessions'', num_int (int (length (hsSessions h)))), (''readOnly'', Bool (mhReadOnly C))])))"

text \<open>The readiness check calls the API as the first token; a configuration without tokens has none.\<close>

definition readyAnswer ::
  "('k, 'n) mcp_platform \<Rightarrow> mcp_host_config \<Rightarrow> 'k \<Rightarrow> string \<times> string \<Rightarrow> http_in \<Rightarrow> 'n host_state \<Rightarrow> http_answer \<times> 'n host_state" where
  "readyAnswer E C key build q h =
    (let ready = JsonAnswer 200 (Obj ([(''ok'', Bool True)] @ buildFields build @ [(''heartbeat'', beatStatus (hsBeat h))]));
         unready = JsonAnswer 503 (Obj ([(''ok'', Bool False)] @ buildFields build @
           [(''reason'', Str ''mqttctl authentication is unavailable'')])) in
     if hnMethod q \<noteq> ''GET'' then (JsonAnswer 405 (Obj [(''ok'', Bool False)]), h)
     else if \<not> mhReadyCheck C then (ready, h)
     else case mhTokens C of
       [] \<Rightarrow> (unready, h)
     | t # ts \<Rightarrow>
        (case apiRequest E C key \<lparr>idName = tkName t, idAccess = tkAccess t\<rparr> (getCall ''/api/me'') (hsReadyCookies h) (hsProcess h) of
           (r, cs, w) \<Rightarrow> (case r of Inr _ \<Rightarrow> ready | Inl _ \<Rightarrow> unready, h\<lparr>hsReadyCookies := cs, hsProcess := w\<rparr>)))"

text \<open>
  The URL is parsed before the \<open>try\<close>: where that throws nothing answers, and the rejected promise,
  which nothing handles, ends the process.
\<close>

datatype host_outcome = Answered http_answer | ProcessEnds exn

definition failedAnswer :: "host_error \<Rightarrow> http_answer" where
  "failedAnswer e = (case e of LimitReached \<Rightarrow> mcpErrorAnswer 429 ''MCP session limit reached.''
     | OtherError _ \<Rightarrow> mcpErrorAnswer 500 ''Internal server error.'')"

definition host_call_error :: "host_error \<Rightarrow> call_error" where
  "host_call_error e = (case e of LimitReached \<Rightarrow> Thrown (plainError ''MCP session limit reached.'') | OtherError x \<Rightarrow> x)"

definition requestHandler ::
  "('k, 'n) mcp_platform \<Rightarrow> 'b platform \<Rightarrow> zod \<Rightarrow> mcp_library \<Rightarrow> mcp_host_config \<Rightarrow> 'k \<Rightarrow> string \<times> string \<Rightarrow> http_in
    \<Rightarrow> 'n host_state \<Rightarrow> host_outcome \<times> 'n host_state" where
  "requestHandler E P Z B C key build q h =
    (case mpUrl E (hnUrl q) (Some ''http://localhost'') of
       None \<Rightarrow> (ProcessEnds (typeError ''Invalid URL''), h)
     | Some u \<Rightarrow>
        if urlPathname u = ''/healthz'' then (Answered (healthAnswer C build q h), h)
        else if urlPathname u = ''/readyz'' then (case readyAnswer E C key build q h of (a, h') \<Rightarrow> (Answered a, h'))
        else if urlPathname u \<noteq> ''/mcp'' then
          (Answered (JsonAnswer 404 (Obj [(''ok'', Bool False),
             (''error'', Obj [(''code'', Str ''not_found''), (''message'', Str ''Not found.'')])])), h)
        else if hnMethod q \<notin> {''GET'', ''POST'', ''DELETE''} then (Answered (mcpErrorAnswer 405 ''Method not allowed.''), h)
        else case authenticateBearer P C (hnAuthorization q) of
          None \<Rightarrow> (Answered (mcpErrorAnswer 401 ''Missing or invalid MCP bearer token.''), h)
        | Some i \<Rightarrow>
           (case handleMcp E Z B C key q i h of
              (Inr a, h') \<Rightarrow> (Answered a, h')
            | (Inl e, h') \<Rightarrow>
                (Answered (failedAnswer e),
                 h'\<lparr>hsProcess := after (mcpGenerateError E ''index::request'' ''MCP HTTP request handling failed.'' ''HTTP_REQUEST_FAILED''
                   (host_call_error e) (Obj [(''method'', Str (hnMethod q)), (''path'', Str (urlPathname u))])) (hsProcess h')\<rparr>)))"

section \<open>Maintenance and shutdown\<close>

definition abandoned :: "mcp_host_config \<Rightarrow> 'n host_state \<Rightarrow> nat \<Rightarrow> bool" where
  "abandoned C h n \<longleftrightarrow> snLastActivity (hsStates h ! n) < prTime (hsProcess h) - mhInactivityMs C"

definition sessionMaintenance :: "('k, 'n) mcp_platform \<Rightarrow> mcp_host_config \<Rightarrow> 'k \<Rightarrow> 'n host_state \<Rightarrow> 'n host_state" where
  "sessionMaintenance E C key h = fold (closeSession E C key) (filter (abandoned C h) (map snd (hsSessions h))) h"

definition hostShutdown :: "('k, 'n) mcp_platform \<Rightarrow> mcp_host_config \<Rightarrow> 'k \<Rightarrow> string \<Rightarrow> 'n host_state \<Rightarrow> 'n host_state" where
  "hostShutdown E C key signal h =
    (if hsShuttingDown h then h
     else let h1 = fold (closeSession E C key) (map snd (hsSessions h))
            (h\<lparr>hsShuttingDown := True, hsBeat := beatStop (hsBeat h)\<rparr>) in
       h1\<lparr>hsListening := 0, hsProcess := after (mcpGenerateLog E ''info'' ''index::shutdown'' ''SERVICE_SHUTDOWN''
         ''mqttctl MCP server stopped.'' (Obj [(''signal'', Str signal)])) (hsProcess h1)\<rparr>)"

section \<open>The start\<close>

text \<open>
  The configuration and the key, whose failures are logged; then the listeners, whose certificates and
  sockets (\<open>listen\<close>) are outside, and the first heartbeat.
\<close>

definition loadFailure :: "('k, 'n) mcp_platform \<Rightarrow> string \<Rightarrow> string \<Rightarrow> string \<Rightarrow> exn \<Rightarrow> jsval \<Rightarrow> 'n mcp_process \<Rightarrow> 'n mcp_process" where
  "loadFailure E caller reason k e context = after (mcpGenerateError E caller reason k (Thrown e) context)"

definition configContext :: jsval where
  "configContext = Obj [(''requiredTokenConfiguration'', Str ''MCP_READ_BEARER_TOKENS or MCP_READWRITE_BEARER_TOKENS''),
    (''failureRestartDelayEnvironment'', Str ''MCP_FAILURE_RESTART_DELAY_SECONDS'')]"

definition bootContext :: "mcp_host_config \<Rightarrow> string \<times> string \<Rightarrow> jsval" where
  "bootContext C build = Obj (buildFields build @ [(''httpEnabled'', Bool (mhHttpEnabled C)), (''httpsEnabled'', Bool (mhHttpsEnabled C)),
    (''mqttctlBaseUrl'', Str (mhBaseUrl C)), (''signingPrivateKeyFile'', Str (mhPrivateKeyFile C)),
    (''tokenNames'', Arr (map (\<lambda>t. Obj [(''name'', Str (tkName t)), (''access'', Str (mcp_access_str (tkAccess t)))]) (mhTokens C)))])"

definition hostMain ::
  "('k, 'n) mcp_platform \<Rightarrow> mcp_inputs \<Rightarrow> (mcp_host_config \<Rightarrow> exn + nat) \<Rightarrow> string \<times> string \<Rightarrow> 'n mcp_process
    \<Rightarrow> (string + mcp_host_config \<times> 'k \<times> 'n host_state) \<times> 'n mcp_process" where
  "hostMain E M listen build w =
    (case mcpLoadConfig M True of
       Inl e \<Rightarrow> (Inl ''MCP_CONFIG_INVALID'',
         loadFailure E ''index::configuration'' (case e of PlainErr n m c \<Rightarrow> m | _ \<Rightarrow> ''MCP configuration is invalid.'')
           ''MCP_CONFIG_INVALID'' e configContext w)
     | Inr C \<Rightarrow>
       (case loadSigningKey E (mhPrivateKeyFile C) of
          Inl e \<Rightarrow> (Inl ''MCP_SIGNING_KEY_LOAD_FAILED'',
            loadFailure E ''index::main'' (''The mqttctl MCP signing private key could not be loaded from '' @ mhPrivateKeyFile C @
                ''. Run the mqttctl-mcp-keygen service and mount its private-key volume read-only at this path.'')
              ''MCP_SIGNING_KEY_LOAD_FAILED'' e
              (Obj [(''privateKeyFile'', Str (mhPrivateKeyFile C)), (''requiredFormat'', Str ''PKCS8 PEM Ed25519 private key''),
                (''keyGeneratorService'', Str ''mqttctl-mcp-keygen'')]) w)
        | Inr key \<Rightarrow>
          (case createHeartbeat E w of
             (Inl e, w1) \<Rightarrow> (Inl ''ERR_UNKNOWN'', w1)
           | (Inr b, w1) \<Rightarrow>
             (case listen C of
                Inl e \<Rightarrow> (Inl ''ERR_UNKNOWN'', w1)
              | Inr n \<Rightarrow>
                (let w2 = after (mcpGenerateLog E ''info'' ''index::main'' ''SERVICE_BOOT_DIAGNOSTICS'' ''mqttctl MCP server started.''
                       (bootContext C build)) w1 in
                 case beatSend E C key build b w2 of
                   (b', w3) \<Rightarrow> (Inr (C, key, \<lparr>hsStates = [], hsSessions = [], hsWindows = [], hsReadyCookies = [],
                     hsBeat = beatSchedule b', hsShuttingDown = False, hsListening = n, hsProcess = w3\<rparr>), w3))))))"

end
