(* ===== verification/McpHostSafety.thy ===== *)
theory McpHostSafety
  imports McpBufferSafety McpHost McpSafety
begin

text \<open>
  The MCP server against the API it calls: which of its requests the API accepts.
\<close>

section \<open>The proof of the client is the one the API checks\<close>

text \<open>
  What both programs rely on: base64url is decoded to what was encoded, its text has no dot and no white
  space, a signature verifies under the public key of the private one, and both compute the same digest
  and read a URL in the same way.
\<close>

definition same_runtime :: "('k, 'n) mcp_platform \<Rightarrow> 'b platform \<Rightarrow> 'k \<Rightarrow> string \<Rightarrow> bool" where
  "same_runtime E P key public \<longleftrightarrow>
    (\<forall>s. b64url_decode P (mpEncode E s) = s \<and> b64url_bytes P (mpEncode E s) = s \<and>
      list_all (\<lambda>c. c \<noteq> CHR ''.'' \<and> \<not> js_space c) (mpEncode E s) \<and>
      ed25519_verify P public s (mpSign E key s)) \<and>
    mpSha256 E = sha256_b64url P \<and> mpUrl E = parse_url P"

lemma json_ok_int: "\<bar>i\<bar> < 10 ^ 21 \<Longrightarrow> json_ok (num_int i)"
proof -
  assume "\<bar>i\<bar> < 10 ^ 21"
  then have "rat_of_int \<bar>i\<bar> < rat_of_int (10 ^ 21)" unfolding of_int_less_iff .
  then show ?thesis by (simp add: num_int_def is_integer_def)
qed

lemma header_json: "json_ok (proofHeader C)"
  by (simp add: proofHeader_def)

lemma claims_json: "0 \<le> n \<Longrightarrow> n < 10 ^ 20 \<Longrightarrow> json_ok (proofClaims E C i m target body n jti)"
  by (simp add: proofClaims_def json_ok_int)

definition proofRecord ::
  "('k, 'n) mcp_platform \<Rightarrow> mcp_host_config \<Rightarrow> mcp_identity \<Rightarrow> string \<Rightarrow> string \<Rightarrow> string \<Rightarrow> int \<Rightarrow> string \<Rightarrow> mcp_claims" where
  "proofRecord E C i m target body n jti = \<lparr>mcIss = ''mqttctl-mcp'', mcAud = mhAudience C, mcSub = idName i,
    mcAccess = mcp_access_str (idAccess i), mcIat = n, mcExp = n + 20, mcJti = jti, mcHtm = toUpperCase m,
    mcHtu = target, mcBody = mpSha256 E body\<rparr>"

lemma int_of_num [simp]: "int_of_value (num_int i) = Some i"
  by (simp add: int_of_value_def num_int_def is_integer_def)

lemma proof_claims: "requiredClaims (proofClaims E C i m target body n jti) = Some (proofRecord E C i m target body n jti)"
  by (simp add: requiredClaims_def proofClaims_def proofRecord_def getProp_def str_of_def Let_def)

definition proofParts ::
  "('k, 'n) mcp_platform \<Rightarrow> mcp_host_config \<Rightarrow> 'k \<Rightarrow> mcp_identity \<Rightarrow> string \<Rightarrow> string \<Rightarrow> string \<Rightarrow> int \<Rightarrow> string \<Rightarrow> string list" where
  "proofParts E C key i m target body n jti =
    (let h = encodePart E (proofHeader C); p = encodePart E (proofClaims E C i m target body n jti) in
     [h, p, mpEncode E (mpSign E key (h @ ''.'' @ p))])"

lemma no_sep: "same_runtime E P key public \<Longrightarrow> CHR ''.'' \<notin> set (mpEncode E s)"
  by (auto simp: same_runtime_def list_all_iff)

lemma proof_parts:
  assumes "same_runtime E P key public"
  shows "splitOn (CHR ''.'') (createRequestProof E C key i m target body n jti) = proofParts E C key i m target body n jti"
  using no_sep [OF assms]
  by (simp add: createRequestProof_def proofParts_def encodePart_def Let_def splitOn_append_sep splitOn_no_sep)

lemma proof_signed:
  assumes run: "same_runtime E P key public" and id: "mhKeyId C = mcKeyId (mcpConfig L)" and n: "0 \<le> n" "n < 10 ^ 20"
  shows "signed_token P L public (proofParts E C key i m target body n jti) (proofClaims E C i m target body n jti)"
proof -
  have decode: "b64url_decode P (mpEncode E s) = s" "b64url_bytes P (mpEncode E s) = s"
    "ed25519_verify P public s (mpSign E key s)" for s
    using run by (simp_all add: same_runtime_def)
  have "parseJsonPart P (encodePart E (proofHeader C)) = proofHeader C"
    "parseJsonPart P (encodePart E (proofClaims E C i m target body n jti)) = proofClaims E C i m target body n jti"
    using jsonParse_json_text [OF header_json] jsonParse_json_text [OF claims_json [OF n, where E = E]]
    by (simp_all add: parseJsonPart_def encodePart_def decode)
  moreover have "headerValid L (proofHeader C)"
    by (simp add: headerValid_def proofHeader_def getProp_def id)
  ultimately show ?thesis by (simp add: signed_token_def proofParts_def decode Let_def)
qed

lemma proof_token:
  assumes "same_runtime E P key public"
  shows "mcpToken (''MQTTCTL-MCP '' @ createRequestProof E C key i m target body n jti) =
    Some (createRequestProof E C key i m target body n jti)"
proof -
  let ?t = "createRequestProof E C key i m target body n jti"
  have "\<not> js_space (CHR ''.'')" by code_simp
  then have t: "list_all (\<lambda>c. \<not> js_space c) ?t" "?t \<noteq> []"
    using assms by (auto simp: createRequestProof_def encodePart_def same_runtime_def Let_def list_all_iff)
  then have "trimStart (CHR '' '' # ?t) = ?t"
    by (cases ?t) (auto simp: trimStart_def js_space_def)
  moreover have "toLowerCase ''MQTTCTL-MCP'' = ''mqttctl-mcp''" by code_simp
  ultimately show ?thesis using t by (simp add: mcpToken_def Let_def)
qed

text \<open>What an identity may ask of the API.\<close>

definition mayCall :: "mcp_identity \<Rightarrow> string \<Rightarrow> string \<Rightarrow> bool" where
  "mayCall i method path \<longleftrightarrow>
    (idAccess i = McpRead \<longrightarrow> method \<in> set safeReadMethods \<or> method @ '' '' @ path \<in> set transientReadPaths) \<and>
    (if idName i = mcpServiceSubject then method @ '' '' @ path = ''POST /api/mcp/heartbeat'' else clientNamePattern (idName i))"

definition proof_in_time :: "mcp_config \<Rightarrow> int \<Rightarrow> int \<Rightarrow> bool" where
  "proof_in_time c made checked \<longleftrightarrow> 20 \<le> mcMaxProofAgeSeconds c \<and>
    made \<le> checked + mcClockSkewSeconds c \<and> checked \<le> made + 20 + mcClockSkewSeconds c"

lemma proof_not_refused:
  assumes "mhAudience C = mcAudience c" and "mayCall i (toUpperCase m) (urlPathname u)" and "proof_in_time c made t"
  shows "claimsRefusal c t m u (mpSha256 E body) (proofRecord E C i m (urlPathname u @ urlSearch u) body made jti) = None"
  using assms
  by (cases "idAccess i")
    (auto simp: claimsRefusal_def proofRecord_def Let_def mayCall_def proof_in_time_def split: if_splits)

definition room_for :: "loaded_config \<Rightarrow> string \<Rightarrow> ('b, 'z) mcp_world_scheme \<Rightarrow> bool" where
  "room_for L jti w \<longleftrightarrow> (let live = filter (\<lambda>(j, x). \<not> x < nowSec w) (mcpReplay w) in
    jti \<notin> fst ` set live \<and> int (length live) < mcReplayCacheMaxEntries (mcpConfig L))"

definition system_account :: "('b, 'z) mcp_world_scheme \<Rightarrow> user_row \<Rightarrow> bool" where
  "system_account w u \<longleftrightarrow> List.find (\<lambda>u. uId u = mcpSystemUserId) (users w) = Some u \<and>
    uAuthSource u = McpAuth \<and> uRole u = McpRole \<and> \<not> uDisabled u"

lemma principal_healthy:
  assumes "dbFaults w = []" and "system_account w u"
  shows "\<exists>a. mcpPrincipal v corr w = (Inr (Some a), w) \<and>
    auDelegated a = Some \<lparr>delegateName = mcSub v, delegateAccess = mcp_access_of (mcAccess v)\<rparr>"
  using assms
  by (simp add: mcpPrincipal_def getSystemUser_def getUserById_def getAllowedCapabilities_def getSetting_def
      system_account_def toAuthenticatedUser_def)


text \<open>
  A server whose maximal age of a proof is below the twenty seconds this client's proofs live refuses
  all of them; the schema of the configuration allows five to nineteen.
\<close>

lemma short_proof_age_refuses:
  "mcMaxProofAgeSeconds c < 20 \<Longrightarrow>
    claimsRefusal c t m u digest (proofRecord E C i m' target body made jti) \<noteq> None"
  by (auto simp: claimsRefusal_def proofRecord_def Let_def)

fun sample_decode :: "string \<Rightarrow> string" where
  "sample_decode (c # d # s) = char_of (16 * ((of_char c :: nat) - 97) + ((of_char d :: nat) - 97)) # sample_decode s"
| "sample_decode s = []"

lemma nibble: "k < 16 \<Longrightarrow> (of_char (char_of (97 + k :: nat)) :: nat) = 97 + k"
  by (simp add: of_char_of)

lemma sample_code_Cons:
  "sample_code (c # s) = char_of (97 + (of_char c :: nat) div 16) # char_of (97 + (of_char c :: nat) mod 16) # sample_code s"
  by (simp add: sample_code_def Let_def)

lemma char_div: "(of_char c :: nat) div 16 < 16"
  using nat_of_char_less_256 [of c] by (simp add: div_less_iff_less_mult)

lemma sample_decode_code: "sample_decode (sample_code s) = s"
proof (induction s)
  case (Cons c s)
  have "16 * ((of_char c :: nat) div 16) + of_char c mod 16 = of_char c" by simp
  moreover have "(97 + (of_char c :: nat) div 16) mod 256 = 97 + of_char c div 16" using char_div [of c] by (intro mod_less) simp
  moreover have "(97 + (of_char c :: nat) mod 16) mod 256 = 97 + of_char c mod 16"
    using pos_mod_bound [of "16::nat" "of_char c"] by (intro mod_less) simp
  ultimately show ?case using Cons by (simp add: sample_code_Cons)
qed (simp add: sample_code_def)

lemma sample_code_letters: "list_all (\<lambda>c. c \<noteq> CHR ''.'' \<and> \<not> js_space c) (sample_code s)"
proof (induction s)
  case (Cons c s)
  have "char_of (97 + k :: nat) \<noteq> CHR ''.'' \<and> \<not> js_space (char_of (97 + k :: nat))" if "k < 16" for k
    using nibble [OF that] that by (auto simp: js_space_def dest: arg_cong [where f = "of_char :: char \<Rightarrow> nat"])
  then show ?case using Cons by (simp add: sample_code_Cons char_div)
qed (simp add: sample_code_def)

definition proof_platform :: "sample_outside platform" where
  "proof_platform = sample_platform\<lparr>b64url_decode := sample_decode, b64url_bytes := sample_decode,
    ed25519_verify := (\<lambda>public s signature. signature = s), parse_url := (\<lambda>u b. Some sample_url)\<rparr>"

definition proof_host :: "(string, unit) mcp_platform" where
  "proof_host = sample_host\<lparr>mpSha256 := sha256_b64url proof_platform, mpUrl := parse_url proof_platform\<rparr>"

definition proof_config :: mcp_host_config where
  "proof_config = example_config\<lparr>mhKeyId := mcKeyId (mcpConfig sample_mcp_loaded), mhAudience := mcAudience (mcpConfig sample_mcp_loaded)\<rparr>"

definition proof_request :: incoming_request where
  "proof_request = \<lparr>irMethod = ''GET'', irUrl = ''https://example.org/'',
    irHeader = (\<lambda>h. if h = ''authorization'' then Some (''MQTTCTL-MCP '' @ createRequestProof proof_host proof_config ''key''
      \<lparr>idName = ''bot'', idAccess = McpRead\<rparr> ''GET'' (urlPathname sample_url @ urlSearch sample_url) [] 9 ''j7'') else None),
    irBody = Inr []\<rparr>"

lemma proof_same_runtime: "same_runtime proof_host proof_platform ''key'' ''key''"
  using sample_code_letters by (simp add: same_runtime_def proof_host_def proof_platform_def sample_host_def sample_decode_code)


section \<open>What the tools ask of the API\<close>

text \<open>A computation that sends only requests whose method and path \<open>Q\<close> allows.\<close>

definition sends_only :: "(string \<Rightarrow> string \<Rightarrow> bool) \<Rightarrow> 'n mcp_process \<Rightarrow> 'n mcp_process \<Rightarrow> bool" where
  "sends_only Q w w' \<longleftrightarrow> (\<exists>sent. prSent w' = prSent w @ sent \<and> (\<forall>q \<in> set sent. Q (hqMethod q) (urlPathname (hqUrl q))))"

lemma sends_refl: "prSent w' = prSent w \<Longrightarrow> sends_only Q w w'"
  by (simp add: sends_only_def)

lemma sends_trans: "sends_only Q u v \<Longrightarrow> sends_only Q v w \<Longrightarrow> sends_only Q u w"
  unfolding sends_only_def by (metis Un_iff append_assoc set_append)

definition allowed_call :: "('k, 'n) mcp_platform \<Rightarrow> mcp_host_config \<Rightarrow> (string \<Rightarrow> string \<Rightarrow> bool) \<Rightarrow> mcp_call \<Rightarrow> bool" where
  "allowed_call E C Q call \<longleftrightarrow> (\<forall>u. mpUrl E (caPath call) (Some (mhBaseUrl C @ ''/'')) = Some u \<longrightarrow> Q (caMethod call) (urlPathname u))"

lemma sends_log [simp]:
  "prSent (after (mcpGenerateLog E level caller k message context) w) = prSent w"
  "prSent (after (mcpGenerateError E caller reason k err context) w) = prSent w"
  by (simp_all add: after_def mcpGenerateLog_def mcpGenerateError_def mcpLog_def andThen_def gets_def modify_def)

lemma sends_fetch:
  assumes "fetchSigned E C key i streaming call cs w = (r, w')" and "allowed_call E C Q call"
  shows "sends_only Q w w'"
proof (cases "mpUrl E (caPath call) (Some (mhBaseUrl C @ ''/''))")
  case None
  then show ?thesis using assms(1) by (auto simp: fetchSigned_def intro: sends_refl)
next
  case (Some u)
  let ?q = "signedRequest E C key i cs streaming call u (prTime w div 1000) (mpUuid E (prUuids w))"
  have "prSent w' = prSent w @ [?q]" using assms(1) Some by (auto simp: fetchSigned_def Let_def split: sum.splits)
  moreover have "hqMethod ?q = caMethod call" "hqUrl ?q = u" by (simp_all add: signedRequest_def Let_def)
  ultimately show ?thesis using assms(2) Some by (auto simp: sends_only_def allowed_call_def)
qed

lemma sends_request:
  assumes "sessionRequest E C key call s w = (r, s', w')" and "allowed_call E C Q call"
  shows "sends_only Q w w' \<and> ssIdentity s' = ssIdentity s"
  using assms(1) sends_fetch [OF _ assms(2)]
  by (auto simp: sessionRequest_def apiRequest_def split: prod.splits sum.splits)

lemma sends_calling:
  assumes "calling E C key call f s w = (r, s', w')" and "allowed_call E C Q call"
  shows "sends_only Q w w'"
  using assms(1) sends_request [OF _ assms(2)] by (auto simp: calling_def split: prod.splits sum.splits)

lemma sends_status:
  assumes "bufferStatusCall E C key up s w = (r, s', w')"
    and "allowed_call E C Q (getCall ''/api/me'')" "allowed_call E C Q (getCall ''/api/mqtt/state'')"
  shows "sends_only Q w w'"
proof -
  obtain r1 s1 w1 where one: "sessionRequest E C key (getCall ''/api/me'') s w = (r1, s1, w1)" by (metis prod_cases3)
  obtain r2 s2 w2 where two: "bufferGetState E C key s1 w1 = (r2, s2, w2)" by (metis prod_cases3)
  have "sends_only Q w w1" using sends_request [OF one assms(2)] by simp
  moreover have "sends_only Q w1 w2" using two sends_calling [OF _ assms(3)] by (auto simp: bufferGetState_def)
  moreover have "w' = w1 \<or> w' = w2" using assms(1) one two by (auto simp: bufferStatusCall_def split: sum.splits if_splits)
  ultimately show ?thesis using sends_trans by blast
qed

lemma sends_disconnect:
  assumes "bufferDisconnect E C key s w = (r, s', w')" and "allowed_call E C Q disconnectCall"
  shows "sends_only Q w w'"
  using assms(1) sends_request [OF _ assms(2)] by (auto simp: bufferDisconnect_def split: prod.splits sum.splits)

text \<open>What a tool that changes nothing may run, and that the table keeps to it.\<close>

fun reading_run :: "tool_run \<Rightarrow> bool" where
  "reading_run (BodyOf f) = (\<forall>a. caMethod (f a) = ''GET'')"
| "reading_run (FileOf k f) = (\<forall>a. caMethod (f a) = ''GET'')"
| "reading_run MqttPublish = False"
| "reading_run run = True"

lemma tools_reading: "t \<in> set (allTools C) \<Longrightarrow> \<not> tlMutating t \<Longrightarrow> reading_run (tlRun t)"
  by (auto simp: allTools_def coreTools_def clientTools_def groupTools_def roleTools_def snapshotTools_def mqttTools_def
      readTool_def writeTool_def destructiveTool_def patchTool_def getCall_def Let_def)

definition transientPaths :: "string list" where
  "transientPaths = [''/api/mqtt/connect'', ''/api/mqtt/disconnect'', ''/api/mqtt/messages'', ''/api/mqtt/subscribe'',
    ''/api/mqtt/unsubscribe'']"

definition reading_call :: "mcp_call \<Rightarrow> bool" where
  "reading_call call \<longleftrightarrow> caMethod call = ''GET'' \<or> caMethod call = ''POST'' \<and> caPath call \<in> set transientPaths"

lemma run_calls:
  assumes "run \<noteq> MqttStatus" and "run \<noteq> MqttDisconnect"
  obtains call f where "runTool E C key run args = calling E C key call f" "reading_run run \<Longrightarrow> reading_call call"
proof (cases run)
  case (BodyOf f)
  show ?thesis by (rule that [of "f args"]) (auto simp: runTool_def BodyOf reading_call_def)
next
  case (FileOf k f)
  show ?thesis by (rule that [of "f args"]) (auto simp: runTool_def FileOf reading_call_def)
next
  case MqttConnect
  show ?thesis by (rule that, simp only: runTool_def MqttConnect tool_run.case bufferConnect_def)
      (simp add: reading_call_def sendCall_def transientPaths_def)
next
  case MqttState
  show ?thesis by (rule that, simp only: runTool_def MqttState tool_run.case bufferGetState_def)
      (simp add: reading_call_def getCall_def)
next
  case MqttSubscribe
  show ?thesis by (rule that, simp only: runTool_def MqttSubscribe tool_run.case bufferSubscribe_def)
      (simp add: reading_call_def sendCall_def transientPaths_def)
next
  case MqttUnsubscribe
  show ?thesis by (rule that, simp only: runTool_def MqttUnsubscribe tool_run.case bufferUnsubscribe_def)
      (simp add: reading_call_def sendCall_def transientPaths_def)
next
  case MqttPoll
  show ?thesis by (rule that, simp only: runTool_def MqttPoll tool_run.case bufferPoll_def)
      (simp add: reading_call_def getCall_def)
next
  case MqttClear
  show ?thesis by (rule that, simp only: runTool_def MqttClear tool_run.case bufferClear_def)
      (simp add: reading_call_def sendCall_def transientPaths_def)
next
  case MqttSetLimit
  show ?thesis by (rule that, simp only: runTool_def MqttSetLimit tool_run.case bufferSetLimit_def)
      (simp add: reading_call_def sendCall_def transientPaths_def)
next
  case MqttPublish
  show ?thesis by (rule that, simp only: runTool_def MqttPublish tool_run.case bufferPublish_def) (simp add: MqttPublish)
qed (use assms in simp_all)

lemma sends_run:
  assumes run: "runTool E C key run args s w = (r, s', w')"
    and all: "\<And>call. \<not> reading_run run \<Longrightarrow> allowed_call E C Q call"
    and reading: "\<And>call. reading_call call \<Longrightarrow> allowed_call E C Q call"
  shows "sends_only Q w w'"
proof -
  have get: "allowed_call E C Q (getCall path)" for path by (rule reading) (simp add: reading_call_def getCall_def)
  have "allowed_call E C Q disconnectCall"
    by (rule reading) (simp add: reading_call_def disconnectCall_def sendCall_def transientPaths_def)
  note disconnect = sends_disconnect [OF _ this]
  consider "run = MqttStatus" | "run = MqttDisconnect" | "run \<noteq> MqttStatus" "run \<noteq> MqttDisconnect" by blast
  then show ?thesis
  proof cases
    case 1
    then show ?thesis using run sends_status [OF _ get get] by (simp add: runTool_def)
  next
    case 2
    then show ?thesis using run disconnect by (simp add: runTool_def)
  next
    case 3
    then obtain call f where "runTool E C key run args = calling E C key call f" "reading_run run \<Longrightarrow> reading_call call"
      using run_calls [of run E C key args] by blast
    then show ?thesis using run sends_calling [of E C key call f s w r s' w' Q] all reading by metis
  qed
qed

text \<open>The paths of the transient operations are not rewritten when a URL is made of them.\<close>

definition plain_paths :: "('k, 'n) mcp_platform \<Rightarrow> mcp_host_config \<Rightarrow> bool" where
  "plain_paths E C \<longleftrightarrow> (\<forall>p \<in> set transientPaths. \<forall>u. mpUrl E p (Some (mhBaseUrl C @ ''/'')) = Some u \<longrightarrow> urlPathname u = p)"

text \<open>A server in read-only mode treats every identity as one that may only read.\<close>

definition effectiveIdentity :: "mcp_host_config \<Rightarrow> mcp_identity \<Rightarrow> mcp_identity" where
  "effectiveIdentity C i = (if mhReadOnly C then i\<lparr>idAccess := McpRead\<rparr> else i)"

lemma reading_may_call:
  assumes "plain_paths E C" and "clientNamePattern (idName i)" and "idName i \<noteq> mcpServiceSubject" and "reading_call call"
  shows "allowed_call E C (\<lambda>m p. mayCall i m p) call"
  using assms by (auto simp: allowed_call_def mayCall_def reading_call_def plain_paths_def transientPaths_def transientReadPaths_def
      safeReadMethods_def)

lemma handle_sends:
  assumes "handleTool E C key t args ws s w = (r, ws', s', w')" and "t \<in> set (allTools C)" and "plain_paths E C"
    and "clientNamePattern (idName (ssIdentity s))" and "idName (ssIdentity s) \<noteq> mcpServiceSubject"
  shows "sends_only (mayCall (effectiveIdentity C (ssIdentity s))) w w' \<and>
    (tlDestructive t \<and> getProp ''confirm'' args \<noteq> Bool True \<longrightarrow> prSent w' = prSent w)"
proof -
  let ?i = "effectiveIdentity C (ssIdentity s)"
  let ?w = "after (logCall E t (ssIdentity s)) w"
  have i: "idName ?i = idName (ssIdentity s)" by (simp add: effectiveIdentity_def)
  have log: "prSent ?w = prSent w" "prSent (after (logBlocked E t j x) v) = prSent v" for j x v
    by (simp_all add: logCall_def logBlocked_def)
  consider (quiet) "prSent w' = prSent w"
    | (ran) "refusedCall C t (ssIdentity s) args = None" "\<exists>x s2 w2. runTool E C key (tlRun t) args s ?w = (x, s2, w2) \<and> prSent w' = prSent w2"
    using assms(1) log
    by (auto simp: handleTool_def Let_def split: prod.splits if_splits option.splits sum.splits)
  then show ?thesis
  proof cases
    case quiet
    then show ?thesis by (simp add: sends_refl)
  next
    case ran
    then obtain x s2 w2 where run: "runTool E C key (tlRun t) args s ?w = (x, s2, w2)" "prSent w' = prSent w2" by blast
    have "sends_only (mayCall ?i) ?w w2"
    proof (rule sends_run [OF run(1)])
      fix call
      assume "\<not> reading_run (tlRun t)"
      then have "tlMutating t" using tools_reading assms(2) by blast
      then have "\<not> mhReadOnly C" "idAccess (ssIdentity s) = McpReadWrite"
        using ran(1) by (auto simp: refusedCall_def split: if_splits)
      then show "allowed_call E C (mayCall ?i) call"
        using assms(4,5) by (simp add: allowed_call_def mayCall_def effectiveIdentity_def)
    qed (use reading_may_call [OF assms(3), of ?i] assms(4,5) i in simp)
    then have "sends_only (mayCall ?i) w w'" using log run(2) by (simp add: sends_only_def)
    moreover have "\<not> (tlDestructive t \<and> getProp ''confirm'' args \<noteq> Bool True)"
      using ran(1) by (auto simp: refusedCall_def split: if_splits)
    ultimately show ?thesis by blast
  qed
qed

text \<open>
  C25: whatever tool is called with whatever arguments, each request that is sent to the API is one that
  the API lets the token's identity make, and in read-only mode one that a reading identity may make;
  a tool that is not registered sends nothing, and a destructive one sends nothing unless the arguments
  confirm it.
\<close>

theorem tools_keep_access:
  assumes call: "callTool E Z C key name v ws s w = (r, ws', s', w')" and "plain_paths E C"
    and "clientNamePattern (idName (ssIdentity s))" and "idName (ssIdentity s) \<noteq> mcpServiceSubject"
  shows "\<exists>sent. prSent w' = prSent w @ sent \<and>
    (\<forall>q \<in> set sent. mayCall (effectiveIdentity C (ssIdentity s)) (hqMethod q) (urlPathname (hqUrl q))) \<and>
    (sent \<noteq> [] \<longrightarrow> (\<exists>t \<in> set (registeredTools C). tlName t = name \<and> (mhReadOnly C \<longrightarrow> \<not> tlMutating t) \<and>
      (tlDestructive t \<longrightarrow> (\<exists>args. parseArgs Z (tlSchema t) v = Some args \<and> getProp ''confirm'' args = Bool True))))"
proof (cases "prSent w' = prSent w")
  case True
  then show ?thesis by simp
next
  case False
  then obtain t args where t: "List.find (\<lambda>t. tlName t = name) (registeredTools C) = Some t"
    "parseArgs Z (tlSchema t) v = Some args" and h: "\<exists>r2. handleTool E C key t args ws s w = (r2, ws', s', w')"
    using call by (auto simp: callTool_def split: option.splits prod.splits)
  have reg: "t \<in> set (registeredTools C)" "tlName t = name" using find_Some_set [OF t(1)] by simp_all
  then have "t \<in> set (allTools C)" "mhReadOnly C \<longrightarrow> \<not> tlMutating t" by (auto simp: registeredTools_def)
  moreover obtain r2 where "handleTool E C key t args ws s w = (r2, ws', s', w')" using h by blast
  ultimately show ?thesis
    using handle_sends [of E C key t args ws s w r2 ws' s' w'] assms(2-4) t(2) reg False unfolding sends_only_def by blast
qed

section \<open>What a request to the server can do\<close>

lemma request_identity: "sessionRequest E C key call s w = (r, s', w') \<Longrightarrow> ssIdentity s' = ssIdentity s"
  by (auto simp: sessionRequest_def split: prod.splits)

lemma calling_identity: "calling E C key call f s w = (r, s', w') \<Longrightarrow> ssIdentity s' = ssIdentity s"
  by (auto simp: calling_def dest!: request_identity split: prod.splits sum.splits)

lemma run_identity:
  assumes run: "runTool E C key run args s w = (r, s', w')"
  shows "ssIdentity s' = ssIdentity s"
proof -
  consider "run = MqttStatus" | "run = MqttDisconnect" | "run \<noteq> MqttStatus" "run \<noteq> MqttDisconnect" by blast
  then show ?thesis
  proof cases
    case 1
    obtain r1 s1 w1 where one: "sessionRequest E C key (getCall ''/api/me'') s w = (r1, s1, w1)" by (metis prod_cases3)
    obtain r2 s2 w2 where two: "bufferGetState E C key s1 w1 = (r2, s2, w2)" by (metis prod_cases3)
    have "s' = s1 \<or> s' = s2"
      using run 1 one two by (auto simp: runTool_def bufferStatusCall_def split: sum.splits if_splits)
    then show ?thesis
      using request_identity [OF one] calling_identity [OF two [unfolded bufferGetState_def]] by auto
  next
    case 2
    then show ?thesis using run
      by (auto simp: runTool_def bufferDisconnect_def dest!: request_identity split: prod.splits sum.splits)
  next
    case 3
    then obtain call f where "runTool E C key run args = calling E C key call f" using run_calls [of run E C key args] by blast
    then show ?thesis using run calling_identity by metis
  qed
qed

lemma tool_identity:
  assumes "callTool E Z C key name v ws s w = (r, ws', s', w')"
  shows "ssIdentity s' = ssIdentity s"
proof -
  have "ssIdentity s2 = ssIdentity s" if "handleTool E C key t args ws s w = (r2, ws2, s2, w2)" for t args r2 ws2 s2 w2
    using that by (auto simp: handleTool_def Let_def dest!: run_identity split: prod.splits if_splits option.splits sum.splits)
  then show ?thesis using assms by (auto simp: callTool_def split: option.splits prod.splits)
qed

lemma tool_sends:
  assumes "callTool E Z C key name v ws s w = (r, ws', s', w')" and "plain_paths E C"
    and "clientNamePattern (idName (ssIdentity s))" and "idName (ssIdentity s) \<noteq> mcpServiceSubject"
  shows "sends_only (mayCall (effectiveIdentity C (ssIdentity s))) w w'"
proof (cases "prSent w' = prSent w")
  case True
  then show ?thesis by (rule sends_refl)
next
  case False
  then obtain t args r2 where "List.find (\<lambda>t. tlName t = name) (registeredTools C) = Some t"
    "handleTool E C key t args ws s w = (r2, ws', s', w')"
    using assms(1) by (auto simp: callTool_def split: option.splits prod.splits)
  then show ?thesis
    using handle_sends [of E C key t args ws s w r2 ws' s' w'] assms(2-4) find_Some_set [of _ "registeredTools C" t]
    by (auto simp: registeredTools_def)
qed

text \<open>The states at other positions stay, and the one at \<open>n\<close> stays with its identity.\<close>

definition only_state :: "nat \<Rightarrow> 'n host_state \<Rightarrow> 'n host_state \<Rightarrow> bool" where
  "only_state n h h' \<longleftrightarrow> length (hsStates h') = length (hsStates h) \<and> (\<forall>m. m \<noteq> n \<longrightarrow> hsStates h' ! m = hsStates h ! m) \<and>
    ssIdentity (snSession (hsStates h' ! n)) = ssIdentity (snSession (hsStates h ! n))"

lemma only_update:
  assumes "hsStates h' = (hsStates h)[n := x]" and "ssIdentity (snSession x) = ssIdentity (snSession (hsStates h ! n))"
  shows "only_state n h h'"
  using assms by (cases "n < length (hsStates h)") (auto simp: only_state_def list_update_beyond not_less)

lemma only_refl: "hsStates h' = hsStates h \<Longrightarrow> only_state n h h'"
  by (simp add: only_state_def)

lemma only_trans: "only_state n u v \<Longrightarrow> only_state n v w \<Longrightarrow> only_state n u w"
  by (simp add: only_state_def)

definition may_sign :: "mcp_identity \<Rightarrow> bool" where
  "may_sign i \<longleftrightarrow> clientNamePattern (idName i) \<and> idName i \<noteq> mcpServiceSubject"

definition host_sends :: "mcp_host_config \<Rightarrow> mcp_identity \<Rightarrow> 'n host_state \<Rightarrow> 'n host_state \<Rightarrow> bool" where
  "host_sends C i h h' \<longleftrightarrow> sends_only (mayCall (effectiveIdentity C i)) (hsProcess h) (hsProcess h')"

lemma host_sends_trans: "host_sends C i u v \<Longrightarrow> host_sends C i v w \<Longrightarrow> host_sends C i u w"
  unfolding host_sends_def by (rule sends_trans)

lemma close_run:
  assumes "plain_paths E C" and "ssIdentity (snSession (hsStates h ! n)) = i" and "may_sign i"
  shows "host_sends C i h (closeSession E C key n h) \<and> only_state n h (closeSession E C key n h)"
proof (cases "snClosing (hsStates h ! n)")
  case True
  then show ?thesis by (simp add: closeSession_def host_sends_def sends_refl only_refl)
next
  case False
  let ?s = "snSession (hsStates h ! n)"
  obtain s' w' where c: "bufferCleanup E C key True ?s (hsProcess h) = (s', w')" by fastforce
  have "allowed_call E C (mayCall (effectiveIdentity C i)) disconnectCall"
    using assms(3) by (intro reading_may_call [OF assms(1)])
      (simp_all add: may_sign_def effectiveIdentity_def reading_call_def disconnectCall_def sendCall_def transientPaths_def)
  note request = sends_request [OF _ this]
  have "sends_only (mayCall (effectiveIdentity C i)) (hsProcess h) w' \<and> ssIdentity s' = ssIdentity ?s"
  proof (cases "qCleaning (ssBuffer ?s)")
    case True
    then show ?thesis using c by (simp add: bufferCleanup_def sends_refl)
  next
    case False
    obtain r s1 w1 where one: "sessionRequest E C key disconnectCall (?s\<lparr>ssBuffer := cleanupStart (ssBuffer ?s)\<rparr>) (hsProcess h) = (r, s1, w1)"
      by (metis prod_cases3)
    then have "prSent w' = prSent w1" "ssIdentity s' = ssIdentity s1"
      using c False by (auto simp: bufferCleanup_def split: sum.splits)
    then show ?thesis using request [OF one] by (simp add: sends_only_def)
  qed
  then show ?thesis using False c by (auto simp: closeSession_def Let_def host_sends_def intro: only_update)
qed

lemma library_run:
  assumes "libraryRequest E Z B C key q body n h = (a, h')" and "plain_paths E C"
    and "ssIdentity (snSession (hsStates h ! n)) = i" and "may_sign i"
  shows "host_sends C i h h' \<and> only_state n h h'"
proof (cases "lbAct B q body")
  case StartsSession
  then show ?thesis using assms(1)
    by (auto simp: libraryRequest_def sessionInitialized_def Let_def host_sends_def intro!: sends_refl intro: only_refl only_update
        split: if_splits)
next
  case (CallsTool name args)
  obtain r ws s w where t: "callTool E Z C key name args (hsWindows h) (snSession (hsStates h ! n)) (hsProcess h) = (r, ws, s, w)"
    by (metis prod_cases4)
  then have "h' = h\<lparr>hsWindows := ws, hsProcess := w, hsStates := (hsStates h)[n := (hsStates h ! n)\<lparr>snSession := s\<rparr>]\<rparr>"
    using assms(1) CallsTool by (simp add: libraryRequest_def)
  then show ?thesis
    using tool_sends [OF t assms(2)] tool_identity [OF t] assms(3,4)
    by (auto simp: host_sends_def may_sign_def intro!: only_update [of _ h n])
next
  case ActsAlone
  then show ?thesis using assms(1) by (auto simp: libraryRequest_def host_sends_def intro: sends_refl only_refl)
qed

definition touching :: "nat \<Rightarrow> int \<Rightarrow> 'n host_state \<Rightarrow> 'n host_state" where
  "touching n t h = h\<lparr>hsStates := (hsStates h)[n := (hsStates h ! n)\<lparr>snLastActivity := t\<rparr>]\<rparr>"

lemma touching_only: "only_state n h (touching n t h)" "hsProcess (touching n t h) = hsProcess h"
  by (auto simp: touching_def intro: only_update)

text \<open>A request in the state at position \<open>n\<close>.\<close>

lemma session_run:
  assumes "libraryRequest E Z B C key q body n (touching n t h) = (a, h1)" and "plain_paths E C"
    and i: "ssIdentity (snSession (hsStates h ! n)) = i" and "may_sign i"
    and "h' = (if hnMethod q = ''DELETE'' then closeSession E C key n h1 else h1)"
  shows "host_sends C i h h' \<and> only_state n h h'"
proof -
  have "ssIdentity (snSession (hsStates (touching n t h) ! n)) = i" using touching_only(1) [where n = n and h = h and t = t] i by (simp add: only_state_def)
  from library_run [OF assms(1,2) this assms(4)]
  have one: "host_sends C i h h1" "only_state n h h1"
    using touching_only [where n = n and h = h and t = t] only_trans by (auto simp: host_sends_def)
  then have "ssIdentity (snSession (hsStates h1 ! n)) = i" using i by (simp add: only_state_def)
  from close_run [OF assms(2) this assms(4)] show ?thesis
    using one assms(5) host_sends_trans only_trans by (cases "hnMethod q = ''DELETE''") (simp, blast, simp)
qed

definition others_kept :: "mcp_identity \<Rightarrow> 'n host_state \<Rightarrow> 'n host_state \<Rightarrow> bool" where
  "others_kept i h h' \<longleftrightarrow> (\<forall>n < length (hsStates h). ssIdentity (snSession (hsStates h ! n)) \<noteq> i \<longrightarrow> hsStates h' ! n = hsStates h ! n)"

lemma handle_run:
  assumes "handleMcp E Z B C key q i h = (r, h')" and "plain_paths E C" and "may_sign i"
  shows "host_sends C i h h' \<and> others_kept i h h'"
proof -
  consider (same) "h' = h"
    | (old) n body a h1 where "ssIdentity (snSession (hsStates h ! n)) = i"
        "libraryRequest E Z B C key q body n (touching n (prTime (hsProcess h)) h) = (a, h1)"
        "h' = (if hnMethod q = ''DELETE'' then closeSession E C key n h1 else h1)"
    | (new) n body a h0 h1 where "createSession C i h = Some (n, h0)"
        "libraryRequest E Z B C key q body n (touching n (prTime (hsProcess h0)) h0) = (a, h1)"
        "h' = (if hnMethod q = ''DELETE'' then closeSession E C key n h1 else h1)"
    using assms(1)
    by (auto simp: handleMcp_def touching_def Let_def split: sum.splits option.splits if_splits prod.splits)
  then show ?thesis
  proof cases
    case same
    then show ?thesis by (simp add: host_sends_def sends_refl others_kept_def)
  next
    case old
    from session_run [OF old(2) assms(2) old(1) assms(3) old(3)] old(1) show ?thesis
      by (auto simp: only_state_def others_kept_def)
  next
    case new
    from new(1) have n: "n = length (hsStates h)" "ssIdentity (snSession (hsStates h0 ! n)) = i" "hsProcess h0 = hsProcess h"
      "\<And>m. m < length (hsStates h) \<Longrightarrow> hsStates h0 ! m = hsStates h ! m"
      by (auto simp: createSession_def nth_append split: if_splits)
    from session_run [OF new(2) assms(2) n(2) assms(3) new(3)] n show ?thesis
      by (auto simp: only_state_def others_kept_def host_sends_def)
  qed
qed


section \<open>Examples\<close>

lemma example_tokens: "mhTokens example_config = [\<lparr>tkName = ''bot'', tkToken = ''secret'', tkAccess = McpRead\<rparr>]"
proof -
  have "clientNamePattern ''bot''" "trim ''bot'' = ''bot''" "mcpParseBoolean (Bool True) True" "\<not> mcpParseBoolean (Bool False) False"
    by code_simp+
  then show ?thesis
    by (simp add: example_config_def mcpLoadConfig_def example_inputs_def mcpReadJson5_def readProp_def mcpEnvOr_def getProp_def
        coalesce_def nullish_def parseTokenEntries_def tokenEntry_def readTokenValue_def tokenNameOk_def duplicateNames_def
        Let_def fileValue_def hostConfig_def)
qed

definition open_host :: "(string, unit) mcp_platform" where
  "open_host = sample_host\<lparr>mpUrl := (\<lambda>p b. Some (sample_url\<lparr>urlPathname := p\<rparr>))\<rparr>"

lemma open_host_plain: "plain_paths open_host C"
  by (simp add: plain_paths_def open_host_def)

definition bot_session :: mcp_session where
  "bot_session = \<lparr>ssIdentity = \<lparr>idName = ''bot'', idAccess = McpRead\<rparr>, ssCookies = [], ssBuffer = newBuffer\<rparr>"

definition no_zod :: zod where
  "no_zod = \<lparr>zodEmail = (\<lambda>s. True), zodDatetime = (\<lambda>s. True), zodIssues = (\<lambda>n v. Null)\<rparr>"

theorem tools_keep_access_witness:
  "\<exists>r ws s w sent. callTool open_host no_zod example_config ''key'' ''mqttctl_whoami'' (Obj []) [] bot_session sample_process = (r, ws, s, w) \<and>
    prSent w = sent \<and> (\<forall>q \<in> set sent. mayCall \<lparr>idName = ''bot'', idAccess = McpRead\<rparr> (hqMethod q) (urlPathname (hqUrl q)))"
proof -
  obtain r ws s w where run: "callTool open_host no_zod example_config ''key'' ''mqttctl_whoami'' (Obj []) [] bot_session sample_process = (r, ws, s, w)"
    by (metis prod_cases4)
  have name: "clientNamePattern (idName (ssIdentity bot_session))" "idName (ssIdentity bot_session) \<noteq> mcpServiceSubject"
    by code_simp+
  have "effectiveIdentity example_config (ssIdentity bot_session) = \<lparr>idName = ''bot'', idAccess = McpRead\<rparr>"
    by (simp add: effectiveIdentity_def bot_session_def)
  then show ?thesis using tools_keep_access [OF run open_host_plain name] run by (auto simp: sample_process_def)
qed

definition quiet_library :: mcp_library where
  "quiet_library = \<lparr>lbIsInitialize = (\<lambda>v. False), lbAct = (\<lambda>q v. ActsAlone), lbAnswer = (\<lambda>q v r. Null)\<rparr>"

definition quiet_host :: "unit host_state" where
  "quiet_host = \<lparr>hsStates = [\<lparr>snSession = bot_session\<lparr>ssIdentity := \<lparr>idName = ''other'', idAccess = McpRead\<rparr>\<rparr>, snId = Some ''s1'',
      snClosing = False, snLastActivity = 0\<rparr>], hsSessions = [(''s1'', 0)], hsWindows = [], hsReadyCookies = [],
    hsBeat = \<lparr>mbInstance = [], mbStartedAt = [], mbCookies = [], mbStopped = False, mbTimer = False, mbLastSuccess = None, mbLastError = None\<rparr>,
    hsShuttingDown = False, hsListening = 1, hsProcess = sample_process\<rparr>"

definition delete_request :: http_in where
  "delete_request = \<lparr>hnMethod = ''DELETE'', hnUrl = ''/mcp'', hnAuthorization = Some ''Bearer secret'', hnSession = Some ''s1'', hnBody = []\<rparr>"


end
