(* ===== verification/Spec2Isabelle.thy ===== *)
theory Spec2Isabelle
  imports AuditQueue DynsecSafety McpSafety MqttSafety ConfigSafety ApiSafety JobQueue Hooks SocketSafety StartupSafety McpHostSafety
begin

text \<open>
  A verification development of mqttctl, a web console for the Mosquitto broker. The console is a
  SvelteKit application (\<open>mqttctl-fe\<close>) over a server library (\<open>mqttctl-api/src/lib/server\<close>); it keeps
  users, sessions, settings, snapshots and an audit log in a database, and administers the broker's
  dynamic security plugin through a child process or through the broker agent, an HTTP service. The
  MCP server (\<open>mcp/src\<close>) is a second program in front of it, which offers the API to agents as tools.

  \<^bold>\<open>How the code is read.\<close> A method that reads or writes state is an action: a function from the world
  to an outcome (the thrown error or the result) and the next world. The world is a record that each
  component extends (\<open>base_world\<close>, \<open>db_world\<close>, \<open>dynsec_world\<close>, \<open>auth_world\<close>,
  \<open>mcp_world\<close>, \<open>mqtt_world\<close>, \<open>app_world\<close>, \<open>socket_world\<close>, \<open>startup_world\<close>). What is not in the repository (Node's
  cryptography, \<open>URL\<close>, processes, HTTP, files, zod and JSON5) is an argument: the record \<open>platform\<close> or a
  parameter of the definition. Errors are values of \<open>exn\<close>, with the chain and the catalogue of
  \<open>logging/errors.ts\<close>; data that the source does not validate stays a \<open>jsval\<close>.

  \<^bold>\<open>Theories.\<close>
  \<^item> \<open>Prelude\<close>: actions, framing (\<open>keeps\<close>, \<open>preserves\<close>, \<open>throws\<close>), the stable sort, keyed stores.
  \<^item> \<open>Js\<close>, \<open>Json\<close>: JavaScript strings, numbers and values; \<open>JSON.parse\<close> and \<open>JSON.stringify\<close>, which
    undo each other.
  \<^item> \<open>Errors\<close>, \<open>World\<close>, \<open>Dates\<close>: \<open>logging/errors.ts\<close>, the platform and the log events, ISO dates.
  \<^item> \<open>Types\<close>: roles, capabilities and the guards of the API and of the front end.
  \<^item> \<open>Config\<close>: the schema, its defaults and refinements, and \<open>config/load.ts\<close>.
  \<^item> \<open>Db\<close>: every query method of \<open>db/index.ts\<close>, with constraints and failures.
  \<^item> \<open>Redact\<close>, \<open>AuditLog\<close>, \<open>AuditQueue\<close>: the redaction of secrets; the hash chain, its backfill and
    verification, the write queue and its progress, and \<open>audit/service.ts\<close>.
  \<^item> \<open>Agent\<close>: \<open>broker/command-runner.ts\<close> and \<open>broker-agent/client.ts\<close>.
  \<^item> \<open>DynsecState\<close>, \<open>DynsecPerm\<close>, \<open>DynsecService\<close>, \<open>DynsecSafety\<close>: \<open>dynsec/service.ts\<close>: parsing the
    broker's state, effective permissions, the commands, the creation of a client with its rollback, the
    bootstrap of the built-in roles.
  \<^item> \<open>Net\<close>, \<open>Oidc\<close>, \<open>AuthService\<close>: IPv4 addresses and the trusted proxies, \<open>auth/oidc.ts\<close>,
    \<open>auth/service.ts\<close>; \<open>AuthInvariant\<close> and \<open>AuthSafety\<close> hold the invariant of accounts and sessions under
    every operation and what logins, cookies and changes of accounts guarantee.
  \<^item> \<open>McpAuth\<close>, \<open>McpSafety\<close>: \<open>auth/mcp.ts\<close>, the signed proofs of the MCP server's requests.
  \<^item> \<open>MqttService\<close>, \<open>MqttSafety\<close>: \<open>mqtt/service.ts\<close>, the browsers' MQTT sessions, with the events of
    their clients and their timers as steps of a state machine.
  \<^item> \<open>BrokerConfig\<close>, \<open>Snapshots\<close>, \<open>ConfigSafety\<close>: \<open>config/service.ts\<close> and \<open>snapshots/service.ts\<close>, the broker's
    configuration file, its key files, reload and restart; exports and imports.
  \<^item> \<open>Http\<close>, \<open>Dashboard\<close>: \<open>http.ts\<close>, \<open>config/http-api.ts\<close>, \<open>fe/lib/server/mqtt/access.ts\<close>; the diagnostics
    and the dashboard's snapshot with its listeners. \<open>JobQueue\<close>: \<open>jobs/queue.ts\<close> as a step relation.
  \<^item> \<open>ApiSecurity\<close>, \<open>ApiAdmin\<close>, \<open>ApiMqtt\<close>, \<open>Api\<close>, \<open>ApiSafety\<close>: every handler under \<open>fe/routes/api\<close>, one
    dispatch over them (\<open>handleRoute\<close>), and what holds of every route.
  \<^item> \<open>Pages\<close>, \<open>Hooks\<close>: the load functions and actions of the pages, \<open>hooks.server.ts\<close> and the proxy of the API.
  \<^item> \<open>DashboardSocket\<close>, \<open>SocketSafety\<close>: the web socket of the dashboard, its authorization and its server.
  \<^item> \<open>Logger\<close>: the sinks of \<open>logging/logger.ts\<close>. \<open>Startup\<close>, \<open>StartupSafety\<close>: \<open>context.ts\<close>.

  \<^item> \<open>McpHostConfig\<close>, \<open>McpClient\<close>, \<open>McpStream\<close>, \<open>McpBuffer\<close>, \<open>McpTools\<close>, \<open>McpHost\<close>: the MCP server: \<open>config.js\<close>
    with \<open>auth.js\<close> and \<open>rateLimit.js\<close>; \<open>mqttctlClient.js\<close> with \<open>heartbeat.js\<close> and \<open>logger.js\<close>; the event stream from the
    API's handler to \<open>SseParser\<close>; \<open>mqttBuffer.js\<close>, whose segments between two awaits are the events of a run;
    \<open>tools.js\<close>; \<open>index.js\<close>. The state of the process is \<open>mcp_process\<close>, that of the server \<open>host_state\<close>.
    \<open>McpBufferSafety\<close> and \<open>McpHostSafety\<close> hold their properties, the second against \<open>McpAuth\<close>.

  \<^bold>\<open>What the lemmas show.\<close> The audit log is a hash chain under every interleaving of concurrent
  records, which settles every entry, and two logs that verify alike have the same entries. The effective permissions refine a
  specification by highest priority, with denial at a tie. Creating a client is all or nothing. The
  bootstrap records itself, never replaces an operator's default role and is quiet when it has nothing
  to do. A cookie authenticates only the account of a live, signed session of the same version, and a
  change of password or a disabling ends them all; the MCP account is out of reach of every operation on
  accounts; no proof of an MCP request is accepted twice. Filters match topics as the MQTT standard says, a session
  tracks a bounded number of topics, and the loop that trims them ends. A push of the configuration installs exactly its text, also where the
  file can only be written in place, and a snapshot puts back the configuration it was taken of. Passwords never reach the log, and nothing under a sensitive key
  of a context reaches its sinks. Every route of the API asks for its capability first, changes only what that capability
  is for, and audits what it has changed. The jobs of a queue run one at a time and in order. Every open socket of the
  dashboard gets each snapshot. A request that the MCP server signs is accepted by the API for exactly the
  identity of its token, and it sends only what that identity may ask; its events reach the buffer as they
  were written, and the buffer keeps its bounds and counts what it drops. The start ends, with an administrator and a status for the operators. Settings and JSON round-trip; what the loader returns satisfies
  the schema and the conditions across fields.

  \<^bold>\<open>Concurrency.\<close> An operation runs to its end before the next one starts, except where the source
  orders concurrent calls itself or their order matters: the audit log's write queue, the job queue, the events of
  MQTT clients, the buffer of the MCP server and the connections of the dashboard's sockets are step relations or runs of events. A failure of the
  database can come at any statement.

  \<^bold>\<open>Bounds.\<close> No definition uses fuel: recursions are structural or have a measure,
  but for the loop that trims messages, a partial function whose result is proved to exist. The
  loops of the start count their attempts down from the thirty of the source. Numbers are exact
  rationals with \<open>NaN\<close> and the infinities; rounding to doubles is written out where text becomes a number.

  \<^bold>\<open>Not modelled.\<close> The database drivers and the schema migrations (SQL), the Svelte pages and what only they use in
  the browser, the Rust agent, the listeners and certificates of the MCP server and the library of its protocol, and the
  scripts around them. The manifest lists every part with its reason.
\<close>

end
